(* ===== verification/Prelude.thy ===== *)
theory Prelude
  imports Complex_Main "HOL-Library.Sublist"
begin

text \<open>
  Shared vocabulary of the development.  A database table of the program is a list of rows;
  a Prisma \<open>findFirst\<close> is \<open>find_row\<close>, an \<open>update\<close>/\<open>updateMany\<close> is \<open>update_where\<close>, a
  \<open>deleteMany\<close> is \<open>delete_where\<close>, and a \<open>count\<close> is \<open>count_where\<close>.  Errors are values of the
  datatype \<open>error\<close>, one constructor per exception class of the program.  The two locales at the
  end are the interfaces the components share: a table with point updates, and a table whose
  rows are claimed by a conditional update.
\<close>

named_theorems table_simps

type_synonym ident = string
type_synonym time = int

text \<open>The exception classes the services throw, with their messages.\<close>

datatype error =
    NotFound string
  | Conflict string
  | BadRequest string
  | Forbidden string
  | Unauthorized string
  | InvalidGrant string
  | InvalidScope string
  | InvalidTarget string
  | InvalidToken string
  | InvalidClientMetadata string
  | RateLimited string
  | Internal string

section \<open>Tables as lists of rows\<close>

definition find_row :: "('r \<Rightarrow> bool) \<Rightarrow> 'r list \<Rightarrow> 'r option" where
  "find_row P rows = List.find P rows"

definition update_where :: "('r \<Rightarrow> bool) \<Rightarrow> ('r \<Rightarrow> 'r) \<Rightarrow> 'r list \<Rightarrow> 'r list" where
  "update_where P f rows = map (\<lambda>r. if P r then f r else r) rows"

definition delete_where :: "('r \<Rightarrow> bool) \<Rightarrow> 'r list \<Rightarrow> 'r list" where
  "delete_where P rows = filter (\<lambda>r. \<not> P r) rows"

definition count_where :: "('r \<Rightarrow> bool) \<Rightarrow> 'r list \<Rightarrow> nat" where
  "count_where P rows = length (filter P rows)"

lemma find_row_Nil [simp]: "find_row P [] = None"
  by (simp add: find_row_def)

lemma find_row_Cons [simp]: "find_row P (r # rows) = (if P r then Some r else find_row P rows)"
  by (simp add: find_row_def)

lemma find_row_SomeD: "find_row P rows = Some r \<Longrightarrow> r \<in> set rows \<and> P r"
  by (induction rows) (auto split: if_splits)

lemma find_row_NoneD: "find_row P rows = None \<Longrightarrow> r \<in> set rows \<Longrightarrow> \<not> P r"
  by (induction rows) (auto split: if_splits)

lemma find_row_None_iff: "find_row P rows = None \<longleftrightarrow> (\<forall>r\<in>set rows. \<not> P r)"
  by (induction rows) auto

lemma find_row_append:
  "find_row P (xs @ ys) = (case find_row P xs of None \<Rightarrow> find_row P ys | Some r \<Rightarrow> Some r)"
  by (induction xs) auto

lemma find_row_cong:
  "(\<And>r. r \<in> set rows \<Longrightarrow> P r = Q r) \<Longrightarrow> find_row P rows = find_row Q rows"
  by (induction rows) auto

lemma update_where_Nil [simp]: "update_where P f [] = []"
  by (simp add: update_where_def)

lemma update_where_Cons [simp]:
  "update_where P f (r # rows) = (if P r then f r else r) # update_where P f rows"
  by (simp add: update_where_def)

lemma update_where_False [simp]: "update_where (\<lambda>_. False) f rows = rows"
  by (induction rows) simp_all

lemma length_update_where [simp]: "length (update_where P f rows) = length rows"
  by (simp add: update_where_def)

lemma set_update_where: "set (update_where P f rows) = (\<lambda>r. if P r then f r else r) ` set rows"
  by (simp add: update_where_def)

lemma map_update_where:
  "(\<And>r. key (f r) = key r) \<Longrightarrow> map key (update_where P f rows) = map key rows"
  by (induction rows) auto

text \<open>An update that keeps the searched predicate commutes with the search.\<close>

lemma find_row_update_where [table_simps]:
  assumes "\<And>r. Q (f r) = Q r"
  shows "find_row Q (update_where P f rows)
       = map_option (\<lambda>r. if P r then f r else r) (find_row Q rows)"
  using assms by (induction rows) auto

lemma find_row_delete_where:
  "(\<And>r. Q r \<Longrightarrow> \<not> P r) \<Longrightarrow> find_row Q (delete_where P rows) = find_row Q rows"
  by (induction rows) (auto simp: delete_where_def)

lemma set_delete_where [simp]: "set (delete_where P rows) = {r \<in> set rows. \<not> P r}"
  by (simp add: delete_where_def)

lemma find_row_unique:
  "distinct (map key rows) \<Longrightarrow> r \<in> set rows \<Longrightarrow> find_row (\<lambda>x. key x = key r) rows = Some r"
  by (induction rows) force+

lemma count_where_Nil [simp]: "count_where P [] = 0"
  by (simp add: count_where_def)

lemma count_where_Cons [simp]:
  "count_where P (r # rows) = (if P r then Suc (count_where P rows) else count_where P rows)"
  by (simp add: count_where_def)

lemma count_where_append [simp]: "count_where P (xs @ ys) = count_where P xs + count_where P ys"
  by (simp add: count_where_def)

lemma count_where_eq_0: "count_where P rows = 0 \<longleftrightarrow> (\<forall>r\<in>set rows. \<not> P r)"
  by (simp add: count_where_def filter_empty_conv)

text \<open>Rows by key: a point update changes the row of its key and no other.\<close>

lemma find_key_update_same:
  assumes "\<And>r. key (f r) = key r"
  shows "find_row (\<lambda>r. key r = k) (update_where (\<lambda>r. key r = k) f rows)
       = map_option f (find_row (\<lambda>r. key r = k) rows)"
  using assms by (induction rows) auto

lemma find_key_update_other:
  assumes "\<And>r. key (f r) = key r" "k' \<noteq> k"
  shows "find_row (\<lambda>r. key r = k') (update_where (\<lambda>r. key r = k) f rows)
       = find_row (\<lambda>r. key r = k') rows"
  using assms by (induction rows) auto

text \<open>The conditional update of a keyed row: with distinct keys it is a point update or nothing.\<close>

lemma conditional_update_won:
  assumes "distinct (map key rows)" "find_row (\<lambda>r. key r = k) rows = Some r" "P r"
  shows "list_ex (\<lambda>r. key r = k \<and> P r) rows"
    and "update_where (\<lambda>r. key r = k \<and> P r) f rows = update_where (\<lambda>r. key r = k) f rows"
proof -
  from find_row_SomeD[OF assms(2)] have r: "r \<in> set rows" "key r = k" by auto
  then show "list_ex (\<lambda>r. key r = k \<and> P r) rows" using assms(3) by (auto simp: list_ex_iff)
  have "x \<in> set rows \<Longrightarrow> key x = k \<Longrightarrow> x = r" for x
    using assms(1) r by (auto simp: distinct_map dest: inj_onD)
  then show "update_where (\<lambda>r. key r = k \<and> P r) f rows = update_where (\<lambda>r. key r = k) f rows"
    using assms(3) by (auto simp: update_where_def)
qed

lemma conditional_update_lost:
  assumes "distinct (map key rows)" "\<And>r. find_row (\<lambda>r. key r = k) rows = Some r \<Longrightarrow> \<not> P r"
  shows "\<not> list_ex (\<lambda>r. key r = k \<and> P r) rows"
    and "update_where (\<lambda>r. key r = k \<and> P r) f rows = rows"
proof -
  have "x \<in> set rows \<Longrightarrow> key x = k \<Longrightarrow> \<not> P x" for x
    using find_row_unique[OF assms(1), of x] assms(2) by blast
  then show "\<not> list_ex (\<lambda>r. key r = k \<and> P r) rows"
    and "update_where (\<lambda>r. key r = k \<and> P r) f rows = rows"
    by (auto simp: list_ex_iff update_where_def intro!: map_idI)
qed

lemmas find_key_update = find_key_update_same find_key_update_other

section \<open>Lists in first-seen order\<close>

text \<open>\<open>[...new Set(xs)]\<close>: the distinct elements in the order of their first occurrence.\<close>

definition js_unique :: "'a list \<Rightarrow> 'a list" where
  "js_unique xs = rev (remdups (rev xs))"

lemma set_js_unique [simp]: "set (js_unique xs) = set xs"
  by (simp add: js_unique_def)

lemma distinct_js_unique [simp]: "distinct (js_unique xs)"
  by (simp add: js_unique_def)

lemma js_unique_idem [simp]: "distinct xs \<Longrightarrow> js_unique xs = xs"
  by (simp add: js_unique_def distinct_remdups_id)

lemma length_js_unique_le: "length (js_unique xs) \<le> length xs"
  by (metis js_unique_def length_rev length_remdups_leq)

lemma js_unique_snoc: "js_unique (xs @ [x]) = (if x \<in> set xs then js_unique xs else js_unique xs @ [x])"
  by (simp add: js_unique_def)

lemma js_unique_Nil [simp]: "js_unique [] = []"
  by (simp add: js_unique_def)

text \<open>\<open>flatMap\<close> over an optional result keeps the elements that have one.\<close>

lemma mem_map_filter: "y \<in> set (List.map_filter f xs) \<longleftrightarrow> (\<exists>x\<in>set xs. f x = Some y)"
  by (induction xs) (auto simp: List.map_filter_def)

lemma map_filter_Cons [simp]:
  "List.map_filter f (x # xs) = (case f x of None \<Rightarrow> List.map_filter f xs | Some y \<Rightarrow> y # List.map_filter f xs)"
  by (auto simp: List.map_filter_def split: option.splits)

lemma map_filter_Nil [simp]: "List.map_filter f [] = []"
  by (simp add: List.map_filter_def)

text \<open>A handler's outcome that is a result.\<close>

lemma outcome_ok: "\<not> isl (fst x) \<Longrightarrow> \<exists>r. x = (Inr r, snd x)"
  by (cases x; cases "fst x") simp_all

lemma outcome_okE:
  assumes "case fst x of Inr a \<Rightarrow> P a | Inl e \<Rightarrow> False"
  obtains a where "x = (Inr a, snd x)" "P a"
  using assms by (cases x; cases "fst x") auto

section \<open>Interfaces\<close>

text \<open>
  A table is read by key and changed by a point update.  \<open>change k f\<close> is an \<open>update\<close> whose
  \<open>where\<close> selects the row of key \<open>k\<close>.
\<close>

locale row_table =
  fixes look :: "'k \<Rightarrow> 't \<Rightarrow> 'r option"
    and change :: "'k \<Rightarrow> ('r \<Rightarrow> 'r) \<Rightarrow> 't \<Rightarrow> 't"
    and keeps_key :: "('r \<Rightarrow> 'r) \<Rightarrow> bool"
  assumes look_change_same: "keeps_key f \<Longrightarrow> look k (change k f t) = map_option f (look k t)"
    and look_change_other: "keeps_key f \<Longrightarrow> k' \<noteq> k \<Longrightarrow> look k' (change k f t) = look k' t"
begin

lemma look_change:
  "keeps_key f \<Longrightarrow> look k' (change k f t) = (if k' = k then map_option f (look k t) else look k' t)"
  by (simp add: look_change_same look_change_other)

lemma look_change_dom: "keeps_key f \<Longrightarrow> (look k' (change k f t) = None) = (look k' t = None)"
  by (simp add: look_change)

end

text \<open>
  A claimable table: a row is won by \<open>updateMany where {id, pending}\<close>, which reports whether it
  changed a row, and the change leaves the row not pending.  \<open>tidy\<close> is the table's key constraint.
\<close>

locale claim_table = row_table look change keeps_key
  for look :: "'k \<Rightarrow> 't \<Rightarrow> 'r option"
    and change :: "'k \<Rightarrow> ('r \<Rightarrow> 'r) \<Rightarrow> 't \<Rightarrow> 't"
    and keeps_key :: "('r \<Rightarrow> 'r) \<Rightarrow> bool" +
  fixes tidy :: "'t \<Rightarrow> bool"
    and pending :: "'r \<Rightarrow> bool"
    and mark :: "'x \<Rightarrow> 'r \<Rightarrow> 'r"
    and claim :: "'x \<Rightarrow> 'k \<Rightarrow> 't \<Rightarrow> bool \<times> 't"
  assumes mark_keeps: "keeps_key (mark x)"
    and mark_done: "\<not> pending (mark x r)"
    and change_tidy: "tidy t \<Longrightarrow> keeps_key f \<Longrightarrow> tidy (change k f t)"
    and claim_won: "tidy t \<Longrightarrow> look k t = Some r \<Longrightarrow> pending r \<Longrightarrow>
      claim x k t = (True, change k (mark x) t)"
    and claim_lost: "tidy t \<Longrightarrow> (\<And>r. look k t = Some r \<Longrightarrow> \<not> pending r) \<Longrightarrow> claim x k t = (False, t)"
begin

text \<open>Every claim is one or the other.\<close>

lemma claim_cases:
  assumes "tidy t"
  obtains (won) r where "look k t = Some r" "pending r" "claim x k t = (True, change k (mark x) t)"
    | (lost) "\<And>r. look k t = Some r \<Longrightarrow> \<not> pending r" "claim x k t = (False, t)"
  using assms claim_won claim_lost by blast

lemma claim_success_iff: "tidy t \<Longrightarrow> fst (claim x k t) \<longleftrightarrow> (\<exists>r. look k t = Some r \<and> pending r)"
  by (rule claim_cases[of t k x]) auto

lemma claim_tidy: "tidy t \<Longrightarrow> tidy (snd (claim x k t))"
  by (rule claim_cases[of t k x]) (auto simp: change_tidy mark_keeps)

lemma claim_spent: "tidy t \<Longrightarrow> look k (snd (claim x k t)) = Some r \<Longrightarrow> \<not> pending r"
  by (rule claim_cases[of t k x]) (auto simp: look_change_same mark_keeps mark_done)

lemma claim_other: "tidy t \<Longrightarrow> k' \<noteq> k \<Longrightarrow> look k' (snd (claim x k t)) = look k' t"
  by (rule claim_cases[of t k x]) (auto simp: look_change_other mark_keeps)

text \<open>A second claim of the same row fails, whoever makes it.\<close>

lemma claim_once: "tidy t \<Longrightarrow> fst (claim x k t) \<Longrightarrow> \<not> fst (claim y k (snd (claim x k t)))"
  using claim_spent claim_success_iff claim_tidy by blast

text \<open>A spent row stays spent under the claims of others.\<close>

lemma claim_keeps_spent:
  assumes "tidy t" "\<And>r. look k t = Some r \<Longrightarrow> \<not> pending r"
  shows "look k (snd (claim x k' t)) = Some r \<Longrightarrow> \<not> pending r"
  using assms claim_spent[of t k' x] claim_other[of t k k' x] by (cases "k' = k") auto

end

end
