(* ===== verification/Domain.thy ===== *)
theory Domain
  imports Prelude "HOL-Library.Char_ord"
begin

text \<open>
  The shared contract of the program (\<open>packages/shared/src\<close>): the enumerations of \<open>enums.ts\<close>
  with the constructors the source gives them (a constructor is written with its type's name, as
  the source writes \<open>MemoryStatus.ACTIVE\<close>), the sensitivity order of \<open>domain.ts\<close>, the policy risk
  factors of \<open>policies.ts\<close>, the first-party test of \<open>app-permissions.ts\<close> and the query
  normalisers of \<open>common.ts\<close>.
\<close>

section \<open>Enumerations\<close>

datatype memory_kind =
    FACT | PREFERENCE | INSTRUCTION | GOAL | PROJECT_CONTEXT | RELATIONSHIP | CONSTRAINT |
    EVENT | SUMMARY

datatype memory_sensitivity =
    PUBLIC | LOW | INTERNAL | SENSITIVE | RESTRICTED | SECRET

datatype memory_status =
    SUGGESTED | ACTIVE | ARCHIVED | EXPIRED | DELETED

datatype review_state =
    PENDING | APPROVED | REJECTED

datatype source_type =
    MANUAL | IMPORT | CHAT | CLIENT_SUGGESTION | CONSOLIDATION | API | DERIVED

datatype client_type =
    LOCAL_AGENT | MCP_CLIENT | CLI | WEB_APP | BROWSER_EXTENSION | HOSTED_APP | OTHER

datatype client_trust_level =
    UNKNOWN | APPROVED | BLOCKED

datatype client_retention =
    NO_STORAGE | SESSION | PERSISTENT | UNKNOWN

datatype policy_operation =
    READ | SUGGEST | WRITE | SUMMARIZE | EXPORT

datatype memory_request_reason =
    unknown_or_blocked_client | no_client_policy | policy_expired | operation_not_allowed |
    no_matching_memories | no_allowed_memories | confirmation_required | policy_changed |
    inactive_memory | unapproved_memory | expired_memory | above_sensitivity_ceiling |
    denied_category | category_not_allowed

datatype memory_request_status =
    PENDING | APPROVED | NEEDS_USER_APPROVAL | DENIED | FULFILLED | FAILED

datatype memory_suggestion_status =
    QUEUED_FOR_REVIEW | APPROVED | REJECTED | APPLIED | DISMISSED

datatype audit_event_type =
    MEMORY_PROCESSING_COMPLETED | PROCESSING_CONSENT_UPDATED | PROCESSING_PROVIDER_SELECTED |
    MEMORY_CREATED | MEMORY_UPDATED | MEMORY_ARCHIVED | MEMORY_DELETED | MEMORY_DISCLOSURE |
    MEMORY_REQUEST_APPROVED | MEMORY_REQUEST_DENIED | MEMORY_SUGGESTION_CREATED |
    MEMORY_SUGGESTION_DENIED | MEMORY_SUGGESTION_APPROVED | MEMORY_SUGGESTION_REJECTED |
    CLIENT_CREATED | CLIENT_UPDATED | CLIENT_TOKEN_ROTATED | POLICY_CREATED | POLICY_UPDATED |
    POLICY_DELETED | OAUTH_GRANT_APPROVED | OAUTH_GRANT_DENIED | OAUTH_TOKEN_ISSUED |
    OAUTH_TOKEN_REVOKED | JOB_CREATED | JOB_COMPLETED | JOB_FAILED

datatype audit_actor_type =
    USER | CLIENT | SYSTEM | JOB

datatype memory_provenance_entry_type =
    CREATED | IMPORTED | SUGGESTED | SOURCE_UPDATED | CONTENT_UPDATED | STATUS_CHANGED |
    ARCHIVED | RESTORED | DELETED | CONSOLIDATION_INSPECTED | CONSOLIDATION_SUGGESTED |
    CONSOLIDATION_APPLIED | DERIVED

datatype provenance_subject_type =
    MEMORY | MEMORY_SUGGESTION | JOB_RUN | AUDIT_EVENT | MEMORY_REQUEST | CLIENT | POLICY |
    IMPORT | PROVIDER

datatype provenance_subject_role =
    TARGET | SOURCE | CANONICAL | SUPERSEDED_BY | DUPLICATE_OF | CONFLICTS_WITH | DERIVED_FROM
    | DERIVED_OUTPUT | SUGGESTION | JOB | AUDIT_EVENT | REQUEST | CLIENT | POLICY |
    IMPORT_SOURCE | MODEL_PROVIDER

datatype audit_subject_type =
    MEMORY | MEMORY_SUGGESTION | JOB_RUN | MEMORY_REQUEST | CLIENT | POLICY | IMPORT | EXPORT

datatype audit_subject_role =
    TARGET | SOURCE | CANONICAL | DISCLOSED | DENIED | CREATED | UPDATED | ARCHIVED | DELETED
    | SUGGESTION | JOB | REQUEST | CLIENT | POLICY | IMPORTED | EXPORTED

datatype job_type =
    GENERATE_EMBEDDING | PROCESS_IMPORT | CONSOLIDATE_MEMORIES | DETECT_CONFLICTS |
    SEND_REVIEW_REMINDER

datatype job_status =
    QUEUED | RUNNING | SUCCEEDED | FAILED | CANCELLED

datatype consolidation_mode =
    REVIEW_ONLY | AUTO_APPLY

text \<open>The text of an enumeration value, as it is stored in JSON.\<close>

primrec trust_name :: "client_trust_level \<Rightarrow> string" where
  "trust_name client_trust_level.UNKNOWN = ''UNKNOWN''"
| "trust_name client_trust_level.APPROVED = ''APPROVED''"
| "trust_name client_trust_level.BLOCKED = ''BLOCKED''"

primrec sensitivity_name :: "memory_sensitivity \<Rightarrow> string" where
  "sensitivity_name memory_sensitivity.PUBLIC = ''PUBLIC''"
| "sensitivity_name memory_sensitivity.LOW = ''LOW''"
| "sensitivity_name memory_sensitivity.INTERNAL = ''INTERNAL''"
| "sensitivity_name memory_sensitivity.SENSITIVE = ''SENSITIVE''"
| "sensitivity_name memory_sensitivity.RESTRICTED = ''RESTRICTED''"
| "sensitivity_name memory_sensitivity.SECRET = ''SECRET''"

primrec operation_name :: "policy_operation \<Rightarrow> string" where
  "operation_name policy_operation.READ = ''READ''"
| "operation_name policy_operation.SUGGEST = ''SUGGEST''"
| "operation_name policy_operation.WRITE = ''WRITE''"
| "operation_name policy_operation.SUMMARIZE = ''SUMMARIZE''"
| "operation_name policy_operation.EXPORT = ''EXPORT''"

section \<open>The sensitivity order\<close>

primrec sensitivity_rank :: "memory_sensitivity \<Rightarrow> nat" where
  "sensitivity_rank memory_sensitivity.PUBLIC = 0"
| "sensitivity_rank memory_sensitivity.LOW = 1"
| "sensitivity_rank memory_sensitivity.INTERNAL = 2"
| "sensitivity_rank memory_sensitivity.SENSITIVE = 3"
| "sensitivity_rank memory_sensitivity.RESTRICTED = 4"
| "sensitivity_rank memory_sensitivity.SECRET = 5"

lemma sensitivity_rank_inj: "sensitivity_rank a = sensitivity_rank b \<Longrightarrow> a = b"
  by (cases a; cases b) simp_all

text \<open>The rank makes the sensitivities a linear order, so the library's order automation applies.\<close>

instantiation memory_sensitivity :: linorder
begin

definition less_eq_memory_sensitivity :: "memory_sensitivity \<Rightarrow> memory_sensitivity \<Rightarrow> bool" where
  "less_eq_memory_sensitivity a b = (sensitivity_rank a \<le> sensitivity_rank b)"

definition less_memory_sensitivity :: "memory_sensitivity \<Rightarrow> memory_sensitivity \<Rightarrow> bool" where
  "less_memory_sensitivity a b = (sensitivity_rank a < sensitivity_rank b)"

instance
  by standard
    (auto simp: less_eq_memory_sensitivity_def less_memory_sensitivity_def
      intro: sensitivity_rank_inj)

end

lemmas sensitivity_order = less_eq_memory_sensitivity_def less_memory_sensitivity_def

definition isAtMostSensitivity :: "memory_sensitivity \<Rightarrow> memory_sensitivity \<Rightarrow> bool" where
  "isAtMostSensitivity v maximum = (sensitivity_rank v \<le> sensitivity_rank maximum)"

lemma isAtMostSensitivity_le: "isAtMostSensitivity v m = (v \<le> m)"
  by (simp add: isAtMostSensitivity_def less_eq_memory_sensitivity_def)

section \<open>Names and labels\<close>

definition webChatClientName :: string where "webChatClientName = ''Funes Vault Web Chat''"
definition voiceClientName :: string where "voiceClientName = ''Funes Vault Voice''"

definition isFirstPartyClient :: "string \<Rightarrow> client_type \<Rightarrow> bool" where
  "isFirstPartyClient name type =
     (type = client_type.WEB_APP \<and> name \<in> set [webChatClientName, voiceClientName])"

text \<open>\<open>name ? `${name} permissions` : "App permissions"\<close>: a missing and an empty name are both falsy.\<close>

definition appPermissionsLabel :: "string option \<Rightarrow> string" where
  "appPermissionsLabel name =
     (case name of
        Some n \<Rightarrow> if n \<noteq> [] then n @ '' permissions'' else ''App permissions''
      | None \<Rightarrow> ''App permissions'')"

definition oauthScopeRead :: string where "oauthScopeRead = ''memory.read''"
definition oauthScopeSuggest :: string where "oauthScopeSuggest = ''memory.suggest''"
definition oauthSupportedScopes :: "string list" where
  "oauthSupportedScopes = [oauthScopeRead, oauthScopeSuggest]"

text \<open>\<open>memoryInputLimits\<close>, the bounds the transport schemas check.\<close>

record input_limits =
  il_purpose :: nat
  il_task :: nat
  il_tokenBudgetMin :: nat
  il_tokenBudgetMax :: nat
  il_tokenBudgetDefault :: nat
  il_requestedCategories :: nat
  il_processors :: nat
  il_processorName :: nat
  il_title :: nat
  il_body :: nat
  il_categoryKeys :: nat
  il_evidence :: nat

definition memoryInputLimits :: input_limits where
  "memoryInputLimits =
     \<lparr> il_purpose = 160, il_task = 1000, il_tokenBudgetMin = 100, il_tokenBudgetMax = 8000,
       il_tokenBudgetDefault = 1200, il_requestedCategories = 24, il_processors = 12,
       il_processorName = 120, il_title = 180, il_body = 10000, il_categoryKeys = 12,
       il_evidence = 2000 \<rparr>"

section \<open>Policy risk factors\<close>

datatype policy_risk_code =
    SENSITIVE_ALLOWED | RESTRICTED_ALLOWED | SECRET_ALLOWED | ALL_CATEGORIES | MANY_CATEGORIES
  | NO_CONFIRMATION | NO_EXPIRATION | WRITE_ALLOWED | EXPORT_ALLOWED

record policy_risk_input =
  ri_allowedCategoryCount :: nat
  ri_maxSensitivity :: memory_sensitivity
  ri_operations :: "policy_operation list"
  ri_requiresConfirmation :: bool
  ri_expiresAt :: "time option"

definition policyRiskFactors :: "policy_risk_input \<Rightarrow> nat \<Rightarrow> policy_risk_code list" where
  "policyRiskFactors policy categoryTotal =
     (let allowsAll = ri_allowedCategoryCount policy = 0;
          allowsMany = categoryTotal > 0
            \<and> ri_allowedCategoryCount policy \<ge> max 3 ((categoryTotal + 1) div 2)
      in (case ri_maxSensitivity policy of
            memory_sensitivity.SENSITIVE \<Rightarrow> [SENSITIVE_ALLOWED]
          | memory_sensitivity.RESTRICTED \<Rightarrow> [RESTRICTED_ALLOWED]
          | memory_sensitivity.SECRET \<Rightarrow> [SECRET_ALLOWED]
          | _ \<Rightarrow> [])
       @ (if allowsAll \<or> allowsMany
          then [if allowsAll then ALL_CATEGORIES else MANY_CATEGORIES] else [])
       @ (if \<not> ri_requiresConfirmation policy then [NO_CONFIRMATION] else [])
       @ (if ri_expiresAt policy = None then [NO_EXPIRATION] else [])
       @ (if policy_operation.WRITE \<in> set (ri_operations policy) then [WRITE_ALLOWED] else [])
       @ (if policy_operation.EXPORT \<in> set (ri_operations policy) then [EXPORT_ALLOWED] else []))"

lemma policyRiskFactors_distinct: "distinct (policyRiskFactors policy n)"
  by (auto simp: policyRiskFactors_def Let_def split: memory_sensitivity.splits)

end
