(* ===== verification/Common.thy ===== *)
theory Common
  imports Prelude
begin

text \<open>
  The shared helpers of \<open>apps/api/src/common\<close> and \<open>packages/shared/src/common.ts\<close>: the string
  trimming the code takes from the language, page arithmetic, and the query normalisers.  A
  \<open>string\<close> is a list of code units; nothing here looks at a unit beyond equality and white space.
\<close>

section \<open>Trimming\<close>

text \<open>White space of \<open>String.prototype.trim\<close> among the code units of the model: tab, line feed,
  vertical tab, form feed, carriage return, space and no-break space.\<close>

definition js_space :: "char \<Rightarrow> bool" where
  "js_space c = (c \<in> {CHR 0x09, CHR 0x0A, CHR 0x0B, CHR 0x0C, CHR 0x0D, CHR 0x20, CHR 0xA0})"

definition js_trimStart :: "string \<Rightarrow> string" where
  "js_trimStart s = dropWhile js_space s"

definition js_trimEnd :: "string \<Rightarrow> string" where
  "js_trimEnd s = rev (dropWhile js_space (rev s))"

definition js_trim :: "string \<Rightarrow> string" where
  "js_trim s = js_trimEnd (js_trimStart s)"

lemma js_trimEnd_prefix: "prefix (js_trimEnd s) s"
  unfolding js_trimEnd_def
  by (metis suffix_dropWhile suffix_to_prefix rev_rev_ident)

lemma length_js_trimEnd: "length (js_trimEnd s) \<le> length s"
  using js_trimEnd_prefix prefix_length_le by blast

lemma length_js_trim: "length (js_trim s) \<le> length s"
  unfolding js_trim_def js_trimStart_def
  by (meson length_dropWhile_le length_js_trimEnd order_trans)

lemma js_trimEnd_empty: "js_trimEnd s = [] \<longleftrightarrow> (\<forall>c\<in>set s. js_space c)"
  by (auto simp: js_trimEnd_def dropWhile_eq_Nil_conv)

lemma js_trim_empty: "js_trim s = [] \<longleftrightarrow> (\<forall>c\<in>set s. js_space c)"
proof -
  have "(\<forall>c\<in>set (dropWhile js_space s). js_space c) \<longleftrightarrow> (\<forall>c\<in>set s. js_space c)"
    by (metis dropWhile_eq_Nil_conv hd_dropWhile list.set_sel(1) set_dropWhileD)
  then show ?thesis by (simp add: js_trim_def js_trimStart_def js_trimEnd_empty)
qed

lemma js_trimEnd_keeps_hd: "s \<noteq> [] \<Longrightarrow> \<not> js_space (hd s) \<Longrightarrow> js_trimEnd s \<noteq> [] \<and> hd (js_trimEnd s) = hd s"
  by (metis js_trimEnd_empty js_trimEnd_prefix list.set_sel(1) prefix_def hd_append2)

lemma js_trimEnd_idem [simp]: "js_trimEnd (js_trimEnd s) = js_trimEnd s"
  by (simp add: js_trimEnd_def)

lemma js_trim_idem [simp]: "js_trim (js_trim s) = js_trim s"
proof (cases "js_trim s = []")
  case True
  then show ?thesis by (simp only: True) (simp add: js_trim_def js_trimStart_def js_trimEnd_def)
next
  case False
  let ?t = "js_trimStart s"
  have ne: "?t \<noteq> []" using False by (auto simp: js_trim_def js_trimEnd_def)
  then have "\<not> js_space (hd ?t)" by (simp add: js_trimStart_def hd_dropWhile)
  with ne have "hd (js_trimEnd ?t) = hd ?t" "js_trimEnd ?t \<noteq> []"
    using js_trimEnd_keeps_hd by auto
  then have "js_trimStart (js_trimEnd ?t) = js_trimEnd ?t"
    using \<open>\<not> js_space (hd ?t)\<close> by (cases "js_trimEnd ?t") (auto simp: js_trimStart_def)
  then show ?thesis by (simp add: js_trim_def)
qed

text \<open>\<open>statedPurposeSchema\<close>: the trimmed purpose, refused above 160 units, empty and absent read as null.\<close>

definition statedPurpose :: "string option \<Rightarrow> (string option) option" where
  "statedPurpose v =
     (case v of
        None \<Rightarrow> Some None
      | Some s \<Rightarrow>
          (let t = js_trim s in
           if length t > 160 then None
           else if t = [] then Some None else Some (Some t)))"

lemma statedPurpose_stable:
  "statedPurpose v = Some r \<Longrightarrow> statedPurpose r = Some r"
  by (auto simp: statedPurpose_def Let_def split: option.splits if_splits)

section \<open>Pages\<close>

record pagination_query =
  pq_page :: nat
  pq_limit :: nat

text \<open>\<open>paginationQuerySchema\<close>: \<open>page >= 1\<close> and \<open>1 <= limit <= 100\<close>.\<close>

definition pagination_query_ok :: "pagination_query \<Rightarrow> bool" where
  "pagination_query_ok q = (pq_page q \<ge> 1 \<and> pq_limit q \<ge> 1 \<and> pq_limit q \<le> 100)"

record pagination =
  pg_page :: nat
  pg_limit :: nat
  pg_total :: nat
  pg_totalPages :: nat

text \<open>\<open>Math.ceil (a / b)\<close> on naturals.\<close>

definition ceil_div :: "nat \<Rightarrow> nat \<Rightarrow> nat" where
  "ceil_div a b = (a + b - 1) div b"

definition buildPagination :: "pagination_query \<Rightarrow> nat \<Rightarrow> pagination" where
  "buildPagination query cnt =
     (let pages = (if cnt = 0 then 0 else ceil_div cnt (pq_limit query));
          page = (if pages = 0 then 1 else min (pq_page query) pages)
      in \<lparr> pg_page = page, pg_limit = pq_limit query, pg_total = cnt,
           pg_totalPages = pages \<rparr>)"

definition paginationSkip :: "pagination \<Rightarrow> nat" where
  "paginationSkip p = (if pg_total p = 0 then 0 else (pg_page p - 1) * pg_limit p)"

text \<open>The rows a \<open>findMany\<close> with \<open>skip\<close> and \<open>take\<close> returns.\<close>

definition page_rows :: "pagination \<Rightarrow> 'r list \<Rightarrow> 'r list" where
  "page_rows p rows = take (pg_limit p) (drop (paginationSkip p) rows)"

lemma ceil_div_bounds:
  assumes "0 < b"
  shows "a \<le> ceil_div a b * b" "0 < a \<Longrightarrow> (ceil_div a b - 1) * b < a"
proof -
  have eq: "ceil_div a b * b + (a + b - 1) mod b = a + b - 1"
    by (simp add: ceil_div_def)
  have lt: "(a + b - 1) mod b < b" using assms by simp
  show "a \<le> ceil_div a b * b" using eq lt assms by linarith
  assume "0 < a"
  have "ceil_div a b * b \<le> a + b - 1" using eq by linarith
  then show "(ceil_div a b - 1) * b < a"
    using \<open>0 < a\<close> assms by (cases "ceil_div a b") auto
qed

lemma ceil_div_pos: "0 < a \<Longrightarrow> 0 < b \<Longrightarrow> 0 < ceil_div a b"
  by (simp add: ceil_div_def div_greater_zero_iff)

lemma pages_prefix:
  "concat (map (\<lambda>p. take l (drop ((p - 1) * l) rows)) [1..<Suc k]) = take (k * l) rows"
proof (induction k)
  case (Suc k)
  have "take (Suc k * l) rows = take (k * l + l) rows" by (simp add: add.commute)
  then show ?case using Suc by (simp add: take_add)
qed simp

lemma buildPagination_page:
  assumes "1 \<le> p" "p \<le> pg_totalPages (buildPagination \<lparr>pq_page = p, pq_limit = l\<rparr> n)"
  shows "pg_page (buildPagination \<lparr>pq_page = p, pq_limit = l\<rparr> n) = p"
  using assms by (auto simp: buildPagination_def Let_def split: if_splits)

text \<open>Paging a list of rows with a fixed limit loses and repeats nothing: the pages 1 to
  totalPages, in order, concatenate to the list.\<close>

theorem pages_cover_rows:
  assumes "1 \<le> l"
  shows "concat (map (\<lambda>p. page_rows (buildPagination \<lparr>pq_page = p, pq_limit = l\<rparr> (length rows)) rows)
           [1..<Suc (pg_totalPages (buildPagination \<lparr>pq_page = 1, pq_limit = l\<rparr> (length rows)))]) = rows"
proof (cases "rows = []")
  case True
  then show ?thesis by (simp add: buildPagination_def Let_def)
next
  case False
  let ?n = "length rows" and ?k = "ceil_div (length rows) l"
  have k: "pg_totalPages (buildPagination \<lparr>pq_page = p, pq_limit = l\<rparr> ?n) = ?k" for p
    using False by (simp add: buildPagination_def Let_def)
  have "page_rows (buildPagination \<lparr>pq_page = p, pq_limit = l\<rparr> ?n) rows
      = take l (drop ((p - 1) * l) rows)" if "p \<in> set [1..<Suc ?k]" for p
    using that False
    by (auto simp: page_rows_def paginationSkip_def buildPagination_def Let_def)
  then have "concat (map (\<lambda>p. page_rows (buildPagination \<lparr>pq_page = p, pq_limit = l\<rparr> ?n) rows) [1..<Suc ?k])
      = concat (map (\<lambda>p. take l (drop ((p - 1) * l) rows)) [1..<Suc ?k])"
    by (intro arg_cong[where f = concat] map_cong) auto
  also have "\<dots> = take (?k * l) rows" by (rule pages_prefix)
  also have "\<dots> = rows" using ceil_div_bounds(1)[of l ?n] assms by simp
  finally show ?thesis by (simp only: k)
qed

lemma pages_cover_rows_witness:
  "concat (map (\<lambda>p. page_rows (buildPagination \<lparr>pq_page = p, pq_limit = 2\<rparr> (length [10::int,20,30,40,50])) [10::int,20,30,40,50])
     [1..<Suc (pg_totalPages (buildPagination \<lparr>pq_page = 1, pq_limit = 2\<rparr> (length [10::int,20,30,40,50])))]) = [10::int,20,30,40,50]"
  by (rule pages_cover_rows) simp

text \<open>A page request past the end is clamped: with at least one row the page returned is
  never empty, never longer than the limit, and starts inside the list.\<close>

theorem page_in_range:
  assumes "pagination_query_ok q" "rows \<noteq> []"
  shows "page_rows (buildPagination q (length rows)) rows \<noteq> []
       \<and> length (page_rows (buildPagination q (length rows)) rows) \<le> pq_limit q
       \<and> paginationSkip (buildPagination q (length rows)) < length rows"
proof -
  let ?n = "length rows" and ?l = "pq_limit q"
  let ?k = "ceil_div ?n ?l"
  have l: "0 < ?l" and p: "1 \<le> pq_page q" using assms by (auto simp: pagination_query_ok_def)
  have n: "0 < ?n" using assms by simp
  have k: "0 < ?k" using ceil_div_pos[OF n l] .
  have "(min (pq_page q) ?k - 1) * ?l \<le> (?k - 1) * ?l" by (intro mult_le_mono1) simp
  also have "\<dots> < ?n" using ceil_div_bounds(2)[OF l n] .
  finally have "paginationSkip (buildPagination q ?n) < ?n"
    using n k by (simp add: paginationSkip_def buildPagination_def Let_def)
  moreover have "pg_limit (buildPagination q ?n) = ?l"
    by (simp add: buildPagination_def Let_def)
  ultimately show ?thesis using l by (simp add: page_rows_def)
qed

lemma page_in_range_witness:
  "page_rows (buildPagination \<lparr>pq_page = 9, pq_limit = 2\<rparr> (length [10::int,20,30])) [10::int,20,30] \<noteq> []
   \<and> length (page_rows (buildPagination \<lparr>pq_page = 9, pq_limit = 2\<rparr> (length [10::int,20,30])) [10::int,20,30])
        \<le> pq_limit \<lparr>pq_page = 9, pq_limit = 2\<rparr>
   \<and> paginationSkip (buildPagination \<lparr>pq_page = 9, pq_limit = 2\<rparr> (length [10::int,20,30])) < length [10::int,20,30]"
  by (rule page_in_range) (simp_all add: pagination_query_ok_def)

end
