(* ===== verification/AuditTrail.thy ===== *)
theory AuditTrail
  imports Domain Common
begin

text \<open>
  \<open>apps/api/src/audit-trail\<close>: the recorder every mutation writes through.  An event is created
  with the subjects inferred from its metadata and the ones the caller names, deduplicated by
  (type, id, role).  The recorder's tables and the supply of row ids are the base record
  \<open>audit_db\<close>; the database of the program extends it.
\<close>

section \<open>JSON\<close>

text \<open>\<open>JTime\<close> is the string an instant has as \<open>toISOString\<close>; the model keeps the instant.\<close>

datatype json =
    JNull
  | JBool bool
  | JNum rat
  | JStr string
  | JTime int
  | JArr "json list"
  | JObj "(string \<times> json) list"

text \<open>Setting a key of an insertion-ordered map: an existing key keeps its position.\<close>

fun upsert :: "'k \<Rightarrow> 'v \<Rightarrow> ('k \<times> 'v) list \<Rightarrow> ('k \<times> 'v) list" where
  "upsert k v [] = [(k, v)]"
| "upsert k v ((k', v') # kvs) = (if k' = k then (k, v) # kvs else (k', v') # upsert k v kvs)"

lemma map_of_upsert [simp]: "map_of (upsert k v kvs) = (map_of kvs)(k \<mapsto> v)"
  by (induction kvs) (auto simp: fun_eq_iff)

lemma keys_upsert:
  "map fst (upsert k v kvs) = (if k \<in> set (map fst kvs) then map fst kvs else map fst kvs @ [k])"
  by (induction kvs) force+

lemma distinct_keys_upsert [simp]: "distinct (map fst kvs) \<Longrightarrow> distinct (map fst (upsert k v kvs))"
  by (simp add: keys_upsert)

text \<open>\<open>{ ...a, ...b }\<close>\<close>

definition spread :: "('k \<times> 'v) list \<Rightarrow> ('k \<times> 'v) list \<Rightarrow> ('k \<times> 'v) list" where
  "spread a b = fold (\<lambda>(k, v) acc. upsert k v acc) b a"

text \<open>\<open>a ?? b\<close>\<close>

definition coalesce :: "'a option \<Rightarrow> 'a option \<Rightarrow> 'a option" where
  "coalesce a b = (case a of Some x \<Rightarrow> Some x | None \<Rightarrow> b)"

lemma coalesce_simps [simp]: "coalesce (Some x) b = Some x" "coalesce None b = b"
  by (simp_all add: coalesce_def)

text \<open>Truthiness of a nullable string: null, undefined and the empty string are false.\<close>

fun truthy :: "string option \<Rightarrow> bool" where
  "truthy None = False"
| "truthy (Some s) = (s \<noteq> [])"

lemma truthyE: "truthy v \<Longrightarrow> (\<And>s. v = Some s \<Longrightarrow> s \<noteq> [] \<Longrightarrow> R) \<Longrightarrow> R"
  by (cases v) auto

section \<open>Subjects\<close>

text \<open>\<open>AuditSubjectInput\<close> and \<open>ProvenanceSubjectInput\<close>: the same shape at two pairs of enumerations.\<close>

record ('t, 'r) subject_input =
  sj_type :: 't
  sj_id :: "ident option"
  sj_role :: 'r
  sj_label :: "string option"
  sj_metadata :: "(string \<times> json) list"

type_synonym audit_subject = "(audit_subject_type, audit_subject_role) subject_input"
type_synonym provenance_subject = "(provenance_subject_type, provenance_subject_role) subject_input"

definition subject :: "'t \<Rightarrow> ident option \<Rightarrow> 'r \<Rightarrow> ('t, 'r) subject_input" where
  "subject ty i ro = \<lparr> sj_type = ty, sj_id = i, sj_role = ro, sj_label = None, sj_metadata = [] \<rparr>"

text \<open>The key \<open>`${type}:${id}:${role}`\<close>; no enumeration value contains a colon, so it is the triple.\<close>

definition subject_key :: "('t, 'r) subject_input \<Rightarrow> 't \<times> ident \<times> 'r" where
  "subject_key s = (sj_type s, the (sj_id s), sj_role s)"

definition dedupe_step ::
  "('t, 'r) subject_input \<Rightarrow> (('t \<times> ident \<times> 'r) \<times> ('t, 'r) subject_input) list
     \<Rightarrow> (('t \<times> ident \<times> 'r) \<times> ('t, 'r) subject_input) list" where
  "dedupe_step s byKey =
     (if \<not> truthy (sj_id s) then byKey
      else
        let key = subject_key s;
            existing = map_of byKey key
        in upsert key
             (s \<lparr> sj_label := coalesce (sj_label s) (Option.bind existing sj_label),
                  sj_metadata :=
                    spread (case existing of Some e \<Rightarrow> sj_metadata e | None \<Rightarrow> []) (sj_metadata s) \<rparr>)
             byKey)"

definition dedupeSubjects :: "('t, 'r) subject_input list \<Rightarrow> ('t, 'r) subject_input list" where
  "dedupeSubjects subjects = map snd (fold dedupe_step subjects [])"

text \<open>What the map of the loop keeps: its keys are distinct, each entry sits under its own key, and
  the keys are those of the subjects seen that have an id.\<close>

definition dedupe_inv :: "(('t \<times> ident \<times> 'r) \<times> ('t, 'r) subject_input) list \<Rightarrow> bool" where
  "dedupe_inv byKey = (distinct (map fst byKey)
     \<and> (\<forall>(k, s)\<in>set byKey. subject_key s = k \<and> truthy (sj_id s)))"

lemma dedupe_step_inv: "dedupe_inv byKey \<Longrightarrow> dedupe_inv (dedupe_step s byKey)"
proof (cases "truthy (sj_id s)")
  case True
  assume inv: "dedupe_inv byKey"
  have up: "kv \<in> set (upsert k v kvs) \<Longrightarrow> kv = (k, v) \<or> kv \<in> set kvs" for k v kv and kvs :: "('x \<times> 'y) list"
    by (induction kvs) (auto split: if_splits)
  show ?thesis
    using inv True
    by (auto simp: dedupe_inv_def dedupe_step_def Let_def subject_key_def dest!: up)
qed (simp add: dedupe_step_def)

lemma dedupe_fold_inv: "dedupe_inv byKey \<Longrightarrow> dedupe_inv (fold dedupe_step ss byKey)"
  by (induction ss arbitrary: byKey) (auto intro: dedupe_step_inv)

lemma dedupe_step_keys:
  "set (map fst (dedupe_step s byKey))
     = set (map fst byKey) \<union> (if truthy (sj_id s) then {subject_key s} else {})"
  by (auto simp: dedupe_step_def Let_def keys_upsert simp del: set_map)

lemma dedupe_fold_keys:
  "set (map fst (fold dedupe_step ss byKey))
     = set (map fst byKey) \<union> subject_key ` {s \<in> set ss. truthy (sj_id s)}"
proof (induction ss arbitrary: byKey)
  case (Cons s ss)
  show ?case
    by (simp only: fold_Cons o_apply Cons.IH dedupe_step_keys) auto
qed simp

lemma map_subject_key_dedupe:
  "map subject_key (dedupeSubjects ss) = map fst (fold dedupe_step ss [])"
proof -
  have "dedupe_inv (fold dedupe_step ss [])"
    by (rule dedupe_fold_inv) (simp add: dedupe_inv_def)
  then show ?thesis
    by (auto simp: dedupeSubjects_def dedupe_inv_def)
qed

lemma dedupeSubjects_ids: "s \<in> set (dedupeSubjects ss) \<Longrightarrow> truthy (sj_id s)"
proof -
  have "dedupe_inv (fold dedupe_step ss [])"
    by (rule dedupe_fold_inv) (simp add: dedupe_inv_def)
  then show "s \<in> set (dedupeSubjects ss) \<Longrightarrow> truthy (sj_id s)"
    by (auto simp: dedupeSubjects_def dedupe_inv_def)
qed

section \<open>Event metadata and inferred subjects\<close>

text \<open>\<open>AuditMetadata\<close>: the keys the recorder understands, and the other details as JSON.  Null and
  undefined are both \<open>None\<close>; an absent array is empty.\<close>

record audit_metadata =
  am_memoryId :: "ident option"
  am_targetMemoryId :: "ident option"
  am_targetTitle :: "string option"
  am_canonicalMemoryId :: "ident option"
  am_canonicalTitle :: "string option"
  am_memoryIds :: "ident list"
  am_denied :: "(ident \<times> string option) list"
  am_suggestionId :: "ident option"
  am_jobRunId :: "ident option"
  am_requestId :: "ident option"
  am_clientId :: "ident option"
  am_clientName :: "string option"
  am_policyId :: "ident option"
  am_policyLabel :: "string option"
  am_importedMemoryId :: "ident option"
  am_sourceExportedAt :: "string option"
  am_type :: "string option"
  am_details :: "(string \<times> json) list"

definition no_metadata :: audit_metadata where
  "no_metadata =
     \<lparr> am_memoryId = None, am_targetMemoryId = None, am_targetTitle = None,
       am_canonicalMemoryId = None, am_canonicalTitle = None, am_memoryIds = [], am_denied = [],
       am_suggestionId = None, am_jobRunId = None, am_requestId = None, am_clientId = None,
       am_clientName = None, am_policyId = None, am_policyLabel = None,
       am_importedMemoryId = None, am_sourceExportedAt = None, am_type = None,
       am_details = [] \<rparr>"

text \<open>\<open>CreateAuditEventInput\<close>\<close>

record audit_event_input =
  ai_userId :: ident
  ai_clientId :: "ident option"
  ai_memoryRequestId :: "ident option"
  ai_type :: audit_event_type
  ai_actorType :: audit_actor_type
  ai_actorId :: "ident option"
  ai_metadata :: audit_metadata
  ai_subjects :: "audit_subject list"
  ai_inferSubjects :: bool

definition stringValue :: "string option \<Rightarrow> string option" where
  "stringValue v = (case v of Some s \<Rightarrow> if length (js_trim s) > 0 then Some s else None | None \<Rightarrow> None)"

definition shortId :: "string \<Rightarrow> string" where
  "shortId v = (if length v > 10 then take 8 v @ ''...'' else v)"

definition auditMemoryRole :: "audit_event_type \<Rightarrow> audit_subject_role" where
  "auditMemoryRole ty =
     (case ty of
        audit_event_type.MEMORY_CREATED \<Rightarrow> audit_subject_role.CREATED
      | audit_event_type.MEMORY_UPDATED \<Rightarrow> audit_subject_role.UPDATED
      | audit_event_type.MEMORY_ARCHIVED \<Rightarrow> audit_subject_role.ARCHIVED
      | audit_event_type.MEMORY_DELETED \<Rightarrow> audit_subject_role.DELETED
      | _ \<Rightarrow> audit_subject_role.TARGET)"

definition json_strings :: "string list \<Rightarrow> json" where
  "json_strings vs = JArr (map JStr vs)"

definition json_opt :: "string option \<Rightarrow> json" where
  "json_opt v = (case v of None \<Rightarrow> JNull | Some s \<Rightarrow> JStr s)"

definition inferAuditSubjects :: "audit_event_input \<Rightarrow> audit_metadata \<Rightarrow> audit_subject list" where
  "inferAuditSubjects inp md =
     (let requestId = coalesce (am_requestId md) (stringValue (ai_memoryRequestId inp));
          clientId = coalesce (am_clientId md) (stringValue (ai_clientId inp))
      in (if truthy (am_memoryId md)
          then [subject audit_subject_type.MEMORY (am_memoryId md) (auditMemoryRole (ai_type inp))]
          else [])
       @ (if truthy (am_targetMemoryId md)
          then [subject audit_subject_type.MEMORY (am_targetMemoryId md) audit_subject_role.TARGET
                  \<lparr>sj_label := am_targetTitle md\<rparr>]
          else [])
       @ (if truthy (am_canonicalMemoryId md)
          then [subject audit_subject_type.MEMORY (am_canonicalMemoryId md) audit_subject_role.CANONICAL
                  \<lparr>sj_label := am_canonicalTitle md\<rparr>]
          else [])
       @ map (\<lambda>i. subject audit_subject_type.MEMORY (Some i)
                (if ai_type inp = audit_event_type.MEMORY_DISCLOSURE
                 then audit_subject_role.DISCLOSED else audit_subject_role.TARGET))
             (filter (\<lambda>i. i \<noteq> []) (am_memoryIds md))
       @ map (\<lambda>(i, reason). subject audit_subject_type.MEMORY (Some i) audit_subject_role.DENIED
                \<lparr>sj_metadata := [(''reason'', json_opt reason)]\<rparr>)
             (filter (\<lambda>d. fst d \<noteq> []) (am_denied md))
       @ (if truthy (am_suggestionId md)
          then [subject audit_subject_type.MEMORY_SUGGESTION (am_suggestionId md)
                  audit_subject_role.SUGGESTION]
          else [])
       @ (if truthy (am_jobRunId md)
          then [subject audit_subject_type.JOB_RUN (am_jobRunId md) audit_subject_role.JOB
                  \<lparr>sj_label := coalesce (am_type md) (Some (''Job '' @ shortId (the (am_jobRunId md))))\<rparr>]
          else [])
       @ (if truthy requestId
          then [subject audit_subject_type.MEMORY_REQUEST requestId audit_subject_role.REQUEST]
          else [])
       @ (if truthy clientId
          then [subject audit_subject_type.CLIENT clientId audit_subject_role.CLIENT
                  \<lparr>sj_label := am_clientName md\<rparr>]
          else [])
       @ (if truthy (am_policyId md)
          then [subject audit_subject_type.POLICY (am_policyId md) audit_subject_role.POLICY
                  \<lparr>sj_label := coalesce (am_policyLabel md) (Some (appPermissionsLabel (am_clientName md)))\<rparr>]
          else [])
       @ (if truthy (am_importedMemoryId md)
          then [subject audit_subject_type.IMPORT (am_importedMemoryId md) audit_subject_role.IMPORTED
                  \<lparr>sj_metadata := (case am_sourceExportedAt md of
                      None \<Rightarrow> [] | Some t \<Rightarrow> [(''sourceExportedAt'', JStr t)])\<rparr>]
          else []))"

section \<open>The recorder's tables\<close>

record audit_event =
  ae_id :: ident
  ae_userId :: ident
  ae_clientId :: "ident option"
  ae_memoryRequestId :: "ident option"
  ae_type :: audit_event_type
  ae_actorType :: audit_actor_type
  ae_actorId :: "ident option"
  ae_metadata :: audit_metadata
  ae_createdAt :: time

text \<open>A row of \<open>AuditEventSubject\<close> or \<open>MemoryProvenanceSubject\<close>; the parent is the event or entry.\<close>

record ('t, 'r) subject_row =
  sr_userId :: ident
  sr_parentId :: ident
  sr_subjectType :: 't
  sr_subjectId :: ident
  sr_role :: 'r
  sr_labelSnapshot :: "string option"
  sr_metadata :: "(string \<times> json) list"

definition subject_row_of :: "ident \<Rightarrow> ident \<Rightarrow> ('t, 'r) subject_input \<Rightarrow> ('t, 'r) subject_row" where
  "subject_row_of userId parentId s =
     \<lparr> sr_userId = userId, sr_parentId = parentId, sr_subjectType = sj_type s,
       sr_subjectId = the (sj_id s), sr_role = sj_role s, sr_labelSnapshot = sj_label s,
       sr_metadata = sj_metadata s \<rparr>"

text \<open>\<open>CreateMemoryProvenanceInput\<close>; the stored entry has the same fields, an id and a creation time.\<close>

record provenance_input =
  pi_userId :: ident
  pi_memoryId :: ident
  pi_type :: memory_provenance_entry_type
  pi_actorType :: audit_actor_type
  pi_actorId :: "ident option"
  pi_sourceType :: "source_type option"
  pi_sourceClientId :: "ident option"
  pi_sourceUri :: "string option"
  pi_suggestionId :: "ident option"
  pi_jobRunId :: "ident option"
  pi_auditEventId :: "ident option"
  pi_memoryRequestId :: "ident option"
  pi_reason :: "string option"
  pi_evidence :: "string option"
  pi_confidence :: "rat option"
  pi_metadata :: "(string \<times> json) list"
  pi_subjects :: "provenance_subject list"

record provenance_entry =
  pe_id :: ident
  pe_input :: provenance_input
  pe_createdAt :: time

record audit_db =
  id_supply :: "nat \<Rightarrow> ident"
  id_next :: nat
  auditEvents :: "audit_event list"
  auditEventSubjects :: "(audit_subject_type, audit_subject_role) subject_row list"
  provenanceEntries :: "provenance_entry list"
  provenanceSubjects :: "(provenance_subject_type, provenance_subject_role) subject_row list"

text \<open>\<open>@default(cuid())\<close>: the database draws the next id of its supply.\<close>

definition next_id :: "'a audit_db_scheme \<Rightarrow> ident" where
  "next_id db = id_supply db (id_next db)"

definition draw_id :: "'a audit_db_scheme \<Rightarrow> 'a audit_db_scheme" where
  "draw_id db = db \<lparr> id_next := Suc (id_next db) \<rparr>"

section \<open>AuditTrailService\<close>

definition event_subjects :: "audit_event_input \<Rightarrow> audit_subject list" where
  "event_subjects inp =
     dedupeSubjects
       ((if ai_inferSubjects inp then inferAuditSubjects inp (ai_metadata inp) else [])
        @ ai_subjects inp)"

definition event_row :: "time \<Rightarrow> ident \<Rightarrow> audit_event_input \<Rightarrow> audit_event" where
  "event_row now i inp =
     \<lparr> ae_id = i, ae_userId = ai_userId inp, ae_clientId = ai_clientId inp,
       ae_memoryRequestId = ai_memoryRequestId inp, ae_type = ai_type inp,
       ae_actorType = ai_actorType inp, ae_actorId = ai_actorId inp,
       ae_metadata = ai_metadata inp, ae_createdAt = now \<rparr>"

definition createAuditEvent ::
  "time \<Rightarrow> audit_event_input \<Rightarrow> 'a audit_db_scheme \<Rightarrow> ident \<times> 'a audit_db_scheme" where
  "createAuditEvent now inp db =
     (let i = next_id db
      in (i, draw_id db
            \<lparr> auditEvents := auditEvents db @ [event_row now i inp],
              auditEventSubjects := auditEventSubjects db
                @ map (subject_row_of (ai_userId inp) i) (event_subjects inp) \<rparr>))"

definition createMemoryProvenanceEntry ::
  "time \<Rightarrow> provenance_input \<Rightarrow> 'a audit_db_scheme \<Rightarrow> ident \<times> 'a audit_db_scheme" where
  "createMemoryProvenanceEntry now inp db =
     (let i = next_id db;
          entry = \<lparr> pe_id = i, pe_input = inp, pe_createdAt = now \<rparr>
      in (i, draw_id db
            \<lparr> provenanceEntries := provenanceEntries db @ [entry],
              provenanceSubjects := provenanceSubjects db
                @ map (subject_row_of (pi_userId inp) i) (dedupeSubjects (pi_subjects inp)) \<rparr>))"

definition memorySubject :: "ident \<Rightarrow> string option \<Rightarrow> provenance_subject_role \<Rightarrow> provenance_subject" where
  "memorySubject i title ro =
     \<lparr> sj_type = provenance_subject_type.MEMORY, sj_id = Some i, sj_role = ro, sj_label = title,
       sj_metadata = [] \<rparr>"

definition auditMemorySubject :: "ident \<Rightarrow> string option \<Rightarrow> audit_subject_role \<Rightarrow> audit_subject" where
  "auditMemorySubject i title ro =
     \<lparr> sj_type = audit_subject_type.MEMORY, sj_id = Some i, sj_role = ro, sj_label = title,
       sj_metadata = [] \<rparr>"

section \<open>What the recorder guarantees\<close>

named_theorems audit_simps

lemma fst_createAuditEvent [audit_simps]: "fst (createAuditEvent now inp db) = next_id db"
  by (simp add: createAuditEvent_def Let_def)

lemma auditEvents_createAuditEvent [audit_simps]:
  "auditEvents (snd (createAuditEvent now inp db)) = auditEvents db @ [event_row now (next_id db) inp]"
  by (simp add: createAuditEvent_def Let_def)

lemma auditEventSubjects_createAuditEvent [audit_simps]:
  "auditEventSubjects (snd (createAuditEvent now inp db))
     = auditEventSubjects db @ map (subject_row_of (ai_userId inp) (next_id db)) (event_subjects inp)"
  by (simp add: createAuditEvent_def Let_def)

lemma provenanceEntries_createAuditEvent [audit_simps]:
  "provenanceEntries (snd (createAuditEvent now inp db)) = provenanceEntries db"
  "provenanceSubjects (snd (createAuditEvent now inp db)) = provenanceSubjects db"
  by (simp_all add: createAuditEvent_def Let_def draw_id_def)

lemma more_createAuditEvent [audit_simps]:
  "audit_db.more (snd (createAuditEvent now inp db)) = audit_db.more db"
  by (simp add: createAuditEvent_def Let_def draw_id_def)

lemma ids_createAuditEvent [audit_simps]:
  "id_supply (snd (createAuditEvent now inp db)) = id_supply db"
  "id_next (snd (createAuditEvent now inp db)) = Suc (id_next db)"
  by (simp_all add: createAuditEvent_def Let_def draw_id_def)

lemma auditEvents_createMemoryProvenanceEntry [audit_simps]:
  "auditEvents (snd (createMemoryProvenanceEntry now inp db)) = auditEvents db"
  "auditEventSubjects (snd (createMemoryProvenanceEntry now inp db)) = auditEventSubjects db"
  "audit_db.more (snd (createMemoryProvenanceEntry now inp db)) = audit_db.more db"
  "fst (createMemoryProvenanceEntry now inp db) = next_id db"
  by (simp_all add: createMemoryProvenanceEntry_def Let_def draw_id_def)

lemma event_row_simps [simp]:
  "ae_id (event_row now i inp) = i" "ae_userId (event_row now i inp) = ai_userId inp"
  "ae_type (event_row now i inp) = ai_type inp" "ae_clientId (event_row now i inp) = ai_clientId inp"
  "ae_memoryRequestId (event_row now i inp) = ai_memoryRequestId inp"
  "ae_actorType (event_row now i inp) = ai_actorType inp"
  "ae_actorId (event_row now i inp) = ai_actorId inp"
  "ae_metadata (event_row now i inp) = ai_metadata inp"
  "ae_createdAt (event_row now i inp) = now"
  by (simp_all add: event_row_def)

text \<open>The key of a stored subject row, the columns of the table's unique constraint.\<close>

definition subject_row_key :: "('t, 'r) subject_row \<Rightarrow> 't \<times> ident \<times> 'r" where
  "subject_row_key r = (sr_subjectType r, sr_subjectId r, sr_role r)"

lemma subject_row_key_of [simp]: "subject_row_key (subject_row_of u p s) = subject_key s"
  by (simp add: subject_row_key_def subject_row_of_def subject_key_def)

lemma recorded_subjects_exact_aux:
  "subject_key ` set (event_subjects inp)
     = subject_key ` {s \<in> set ((if ai_inferSubjects inp then inferAuditSubjects inp (ai_metadata inp)
                                else []) @ ai_subjects inp). truthy (sj_id s)}"
proof -
  let ?all = "(if ai_inferSubjects inp then inferAuditSubjects inp (ai_metadata inp) else [])
                @ ai_subjects inp"
  have "subject_key ` set (event_subjects inp) = set (map fst (fold dedupe_step ?all []))"
    unfolding event_subjects_def by (simp only: map_subject_key_dedupe[symmetric] set_map)
  also have "\<dots> = subject_key ` {s \<in> set ?all. truthy (sj_id s)}"
    using dedupe_fold_keys[of ?all "[]"] by simp
  finally show ?thesis .
qed

lemma event_subjects_distinct: "distinct (map subject_key (event_subjects inp))"
proof -
  have "dedupe_inv (fold dedupe_step xs [])" for xs :: "('t, 'r) subject_input list"
    by (rule dedupe_fold_inv) (simp add: dedupe_inv_def)
  then show ?thesis
    unfolding event_subjects_def map_subject_key_dedupe dedupe_inv_def by blast
qed

text \<open>The subject rows recorded with an audit event satisfy the table's unique constraint on
  (event, type, id, role), so skipping duplicates drops nothing, and they are exactly the inferred
  and the named subjects that have an id.\<close>

theorem recorded_subjects_exact:
  "distinct (map subject_key (event_subjects inp))
   \<and> subject_row_key ` set (map (subject_row_of u i) (event_subjects inp))
       = subject_key ` {s \<in> set ((if ai_inferSubjects inp then inferAuditSubjects inp (ai_metadata inp)
                                  else []) @ ai_subjects inp). truthy (sj_id s)}"
  using event_subjects_distinct recorded_subjects_exact_aux[of inp] by (simp add: image_image)

lemma event_subjects_memory:
  assumes "ai_inferSubjects inp" "i \<in> set (am_memoryIds (ai_metadata inp))" "i \<noteq> []"
    and "ai_type inp = audit_event_type.MEMORY_DISCLOSURE"
  shows "(audit_subject_type.MEMORY, i, audit_subject_role.DISCLOSED) \<in> subject_key ` set (event_subjects inp)"
proof -
  let ?s = "subject audit_subject_type.MEMORY (Some i) audit_subject_role.DISCLOSED"
  have "?s \<in> set (inferAuditSubjects inp (ai_metadata inp))"
    using assms by (simp add: inferAuditSubjects_def Let_def)
  moreover have "truthy (sj_id ?s)" using assms by (simp add: subject_def)
  ultimately have "subject_key ?s \<in> subject_key ` set (event_subjects inp)"
    unfolding recorded_subjects_exact_aux using assms(1) by (intro imageI) simp
  then show ?thesis by (simp add: subject_key_def subject_def)
qed

end
