(* ===== verification/Vault.thy ===== *)
theory Vault
  imports AuditTrail
begin

text \<open>
  The database of the program as one record of tables (\<open>packages/db\<close>, the rows as the services
  read them).  Instants are integers, in milliseconds; an ISO string of an instant is the instant.
  A relation a query includes (a memory's or a policy's categories) is a list in the row, in the
  order the query asks for.  \<open>candidate_memory\<close> and \<open>evaluation_policy\<close> are the structural types
  of the policy evaluator, which the full rows extend.
\<close>

section \<open>Rows\<close>

record category =
  cat_key :: ident
  cat_name :: string

record candidate_memory =
  m_id :: ident
  m_sensitivity :: memory_sensitivity
  m_status :: memory_status
  m_reviewState :: review_state
  m_expiresAt :: "time option"
  m_categories :: "category list"

record memory = candidate_memory +
  m_userId :: ident
  m_kind :: memory_kind
  m_title :: string
  m_body :: string
  m_confidence :: rat
  m_sourceType :: source_type
  m_sourceClientId :: "ident option"
  m_sourceUri :: "string option"
  m_sourceMetadata :: "(string \<times> json) list"
  m_lastConfirmedAt :: "time option"
  m_consolidationRelevantAt :: time
  m_lastConsolidatedAt :: "time option"
  m_semanticInspectedAt :: "time option"
  m_createdAt :: time
  m_updatedAt :: time

text \<open>\<open>RetrievedMemory\<close>\<close>

record retrieved_memory = memory +
  relevanceScore :: rat

record client =
  c_id :: ident
  c_userId :: ident
  c_name :: string
  c_type :: client_type
  c_trustLevel :: client_trust_level
  c_declaredRetention :: client_retention
  c_tokenHash :: "string option"
  c_oauthRegistrationId :: "ident option"
  c_lastUsedAt :: "time option"
  c_createdAt :: time
  c_updatedAt :: time

text \<open>\<open>EvaluationPolicy\<close>, and the row that extends it.\<close>

record evaluation_policy =
  p_id :: ident
  p_maxSensitivity :: memory_sensitivity
  p_operations :: "policy_operation list"
  p_requiresConfirmation :: bool
  p_expiresAt :: "time option"
  p_allowedCategories :: "category list"
  p_deniedCategories :: "category list"

record policy = evaluation_policy +
  p_userId :: ident
  p_clientId :: ident
  p_createdAt :: time
  p_updatedAt :: time

text \<open>\<open>CompiledBundleItem\<close> and \<open>memoryBundleItemSchema\<close>; the score is optional in stored snapshots.\<close>

record bundle_item =
  bi_memoryId :: ident
  bi_text :: string
  bi_category :: "ident option"
  bi_sensitivity :: memory_sensitivity
  bi_relevanceScore :: "rat option"
  bi_estimatedTokens :: nat

text \<open>The review snapshot.  A null policy version is stored as the empty string: \<open>None\<close> here.\<close>

record review_snapshot =
  sn_items :: "bundle_item list"
  sn_versions :: "(ident \<times> time) list"
  sn_policyId :: ident
  sn_policyVersion :: "time option"
  sn_clientVersion :: string
  sn_instructions :: "string list"

record memory_request =
  r_id :: ident
  r_userId :: ident
  r_clientId :: ident
  r_statedPurpose :: "string option"
  r_policyId :: "ident option"
  r_policyVersion :: "time option"
  r_decisionReason :: "memory_request_reason option"
  r_task :: string
  r_status :: memory_request_status
  r_tokenBudget :: nat
  r_requestedCategories :: "ident list"
  r_retention :: client_retention
  r_thirdPartyProcessors :: "string list"
  r_reviewSnapshot :: "review_snapshot option"
  r_approvalExpiresAt :: "time option"
  r_approvedAt :: "time option"
  r_deniedAt :: "time option"
  r_fulfilledAt :: "time option"
  r_createdAt :: time
  r_updatedAt :: time

record memory_request_item =
  ri_memoryRequestId :: ident
  ri_memoryId :: ident
  ri_text :: string
  ri_categoryKey :: "ident option"
  ri_sensitivity :: memory_sensitivity
  ri_relevanceScore :: "rat option"

record suggestion =
  s_id :: ident
  s_userId :: ident
  s_sourceType :: source_type
  s_sourceClientId :: "ident option"
  s_statedPurpose :: "string option"
  s_policyId :: "ident option"
  s_title :: string
  s_body :: string
  s_suggestedKind :: memory_kind
  s_suggestedSensitivity :: memory_sensitivity
  s_suggestedCategories :: "ident list"
  s_evidence :: "string option"
  s_sourceMetadata :: "(string \<times> json) list"
  s_confidence :: rat
  s_status :: memory_suggestion_status
  s_expiresAt :: "time option"
  s_createdAt :: time
  s_updatedAt :: time

record job_run =
  j_id :: ident
  j_userId :: ident
  j_type :: job_type
  j_status :: job_status
  j_attempts :: nat
  j_maxAttempts :: nat
  j_error :: "string option"
  j_metadata :: "(string \<times> json) list"
  j_startedAt :: "time option"
  j_finishedAt :: "time option"
  j_createdAt :: time
  j_updatedAt :: time

text \<open>The settings of an owner, and the owner's choice of a provider for a processing scope.\<close>

record vault_user =
  u_id :: ident
  u_email :: string
  u_consolidationEnabled :: bool
  u_consolidationMode :: consolidation_mode

record provider_preference =
  pp_userId :: ident
  pp_scope :: string
  pp_system :: string

section \<open>OAuth rows\<close>

datatype oauth_registration_status = PENDING | APPROVED | BLOCKED

datatype oauth_token_type = ACCESS | REFRESH

record oauth_registration =
  g_id :: ident
  g_clientId :: ident
  g_name :: string
  g_redirectUris :: "string list"
  g_tokenEndpointAuthMethod :: string
  g_grantTypes :: "string list"
  g_scope :: "string option"
  g_clientUri :: "string option"
  g_logoUri :: "string option"
  g_contacts :: "string list"
  g_status :: oauth_registration_status
  g_metadata :: "(string \<times> json) list"
  g_createdAt :: time

record oauth_request =
  q_id :: ident
  q_registrationId :: ident
  q_redirectUri :: string
  q_codeChallenge :: string
  q_scopes :: "string list"
  q_state :: "string option"
  q_resource :: "string option"
  q_csrfTokenHash :: string
  q_expiresAt :: time
  q_decidedAt :: "time option"
  q_createdAt :: time

record oauth_code =
  k_id :: ident
  k_registrationId :: ident
  k_userId :: ident
  k_clientId :: ident
  k_codeHash :: string
  k_redirectUri :: string
  k_codeChallenge :: string
  k_scopes :: "string list"
  k_resource :: "string option"
  k_expiresAt :: time
  k_consumedAt :: "time option"

record oauth_token =
  t_id :: ident
  t_registrationId :: ident
  t_userId :: ident
  t_clientId :: ident
  t_type :: oauth_token_type
  t_tokenHash :: string
  t_scopes :: "string list"
  t_resource :: "string option"
  t_sourceCodeId :: "ident option"
  t_expiresAt :: time
  t_revokedAt :: "time option"

section \<open>The database\<close>

record vault = audit_db +
  v_users :: "vault_user list"
  v_preferences :: "provider_preference list"
  v_categories :: "category list"
  v_memories :: "memory list"
  v_clients :: "client list"
  v_policies :: "policy list"
  v_requests :: "memory_request list"
  v_requestItems :: "memory_request_item list"
  v_suggestions :: "suggestion list"
  v_jobRuns :: "job_run list"
  v_registrations :: "oauth_registration list"
  v_oauthRequests :: "oauth_request list"
  v_codes :: "oauth_code list"
  v_tokens :: "oauth_token list"

definition empty_vault :: "(nat \<Rightarrow> ident) \<Rightarrow> vault" where
  "empty_vault supply =
     \<lparr> id_supply = supply, id_next = 0, auditEvents = [], auditEventSubjects = [],
       provenanceEntries = [], provenanceSubjects = [], v_users = [], v_preferences = [], v_categories = [], v_memories = [],
       v_clients = [], v_policies = [], v_requests = [], v_requestItems = [],
       v_suggestions = [], v_jobRuns = [],
       v_registrations = [], v_oauthRequests = [], v_codes = [], v_tokens = [] \<rparr>"

text \<open>What a handler returns: its result or exception, and the database it leaves.  A handler whose
  transaction throws leaves the database it found.\<close>

type_synonym 'a outcome = "(error + 'a) \<times> vault"

section \<open>Rows by id\<close>

definition request_row :: "ident \<Rightarrow> memory_request list \<Rightarrow> memory_request option" where
  "request_row i = find_row (\<lambda>r. r_id r = i)"

definition update_request ::
  "ident \<Rightarrow> (memory_request \<Rightarrow> memory_request) \<Rightarrow> memory_request list \<Rightarrow> memory_request list" where
  "update_request i f = update_where (\<lambda>r. r_id r = i) f"

definition code_row :: "ident \<Rightarrow> oauth_code list \<Rightarrow> oauth_code option" where
  "code_row i = find_row (\<lambda>k. k_id k = i)"

definition update_code :: "ident \<Rightarrow> (oauth_code \<Rightarrow> oauth_code) \<Rightarrow> oauth_code list \<Rightarrow> oauth_code list" where
  "update_code i f = update_where (\<lambda>k. k_id k = i) f"

definition token_row :: "ident \<Rightarrow> oauth_token list \<Rightarrow> oauth_token option" where
  "token_row i = find_row (\<lambda>t. t_id t = i)"

definition update_token :: "ident \<Rightarrow> (oauth_token \<Rightarrow> oauth_token) \<Rightarrow> oauth_token list \<Rightarrow> oauth_token list" where
  "update_token i f = update_where (\<lambda>t. t_id t = i) f"

text \<open>Each of these tables meets the point-update interface, for updates that keep the id.\<close>

interpretation requests: row_table request_row update_request "\<lambda>f. \<forall>r. r_id (f r) = r_id r"
  by unfold_locales (simp_all add: request_row_def update_request_def find_key_update)

interpretation codes: row_table code_row update_code "\<lambda>f. \<forall>k. k_id (f k) = k_id k"
  by unfold_locales (simp_all add: code_row_def update_code_def find_key_update)

interpretation tokens: row_table token_row update_token "\<lambda>f. \<forall>t. t_id (f t) = t_id t"
  by unfold_locales (simp_all add: token_row_def update_token_def find_key_update)

text \<open>The recorder changes its own tables only.\<close>

lemma vault_createAuditEvent [audit_simps]:
  fixes db :: vault
  shows
  "v_users (snd (createAuditEvent now inp db)) = v_users db"
  "v_preferences (snd (createAuditEvent now inp db)) = v_preferences db"
  "v_categories (snd (createAuditEvent now inp db)) = v_categories db"
  "v_memories (snd (createAuditEvent now inp db)) = v_memories db"
  "v_clients (snd (createAuditEvent now inp db)) = v_clients db"
  "v_policies (snd (createAuditEvent now inp db)) = v_policies db"
  "v_requests (snd (createAuditEvent now inp db)) = v_requests db"
  "v_requestItems (snd (createAuditEvent now inp db)) = v_requestItems db"
  "v_suggestions (snd (createAuditEvent now inp db)) = v_suggestions db"
  "v_jobRuns (snd (createAuditEvent now inp db)) = v_jobRuns db"
  "v_registrations (snd (createAuditEvent now inp db)) = v_registrations db"
  "v_oauthRequests (snd (createAuditEvent now inp db)) = v_oauthRequests db"
  "v_codes (snd (createAuditEvent now inp db)) = v_codes db"
  "v_tokens (snd (createAuditEvent now inp db)) = v_tokens db"
  by (simp_all add: createAuditEvent_def Let_def draw_id_def)

lemma vault_createMemoryProvenanceEntry [audit_simps]:
  fixes db :: vault
  shows
  "v_users (snd (createMemoryProvenanceEntry now inp db)) = v_users db"
  "v_preferences (snd (createMemoryProvenanceEntry now inp db)) = v_preferences db"
  "v_categories (snd (createMemoryProvenanceEntry now inp db)) = v_categories db"
  "v_memories (snd (createMemoryProvenanceEntry now inp db)) = v_memories db"
  "v_clients (snd (createMemoryProvenanceEntry now inp db)) = v_clients db"
  "v_policies (snd (createMemoryProvenanceEntry now inp db)) = v_policies db"
  "v_requests (snd (createMemoryProvenanceEntry now inp db)) = v_requests db"
  "v_requestItems (snd (createMemoryProvenanceEntry now inp db)) = v_requestItems db"
  "v_suggestions (snd (createMemoryProvenanceEntry now inp db)) = v_suggestions db"
  "v_jobRuns (snd (createMemoryProvenanceEntry now inp db)) = v_jobRuns db"
  "v_registrations (snd (createMemoryProvenanceEntry now inp db)) = v_registrations db"
  "v_oauthRequests (snd (createMemoryProvenanceEntry now inp db)) = v_oauthRequests db"
  "v_codes (snd (createMemoryProvenanceEntry now inp db)) = v_codes db"
  "v_tokens (snd (createMemoryProvenanceEntry now inp db)) = v_tokens db"
  by (simp_all add: createMemoryProvenanceEntry_def Let_def draw_id_def)

end
