(* ===== verification/Samples.thy ===== *)
theory Samples
  imports Vault
begin

text \<open>
  Concrete rows and a small database the witnesses of the properties evaluate on: one owner, a
  client with a policy, and two memories.
\<close>

definition sample_ids :: "nat \<Rightarrow> ident" where
  "sample_ids n = CHR ''#'' # replicate n (CHR ''x'')"

lemma sample_ids_inj: "inj sample_ids"
  by (rule injI) (metis length_replicate list.inject sample_ids_def)

definition work_category :: category where
  "work_category = \<lparr> cat_key = ''work'', cat_name = ''Work'' \<rparr>"

definition health_category :: category where
  "health_category = \<lparr> cat_key = ''health'', cat_name = ''Health'' \<rparr>"

definition sample_memory :: memory where
  "sample_memory =
     \<lparr> m_id = ''m1'', m_sensitivity = memory_sensitivity.LOW, m_status = memory_status.ACTIVE,
       m_reviewState = review_state.APPROVED, m_expiresAt = None, m_categories = [work_category],
       m_userId = ''u1'', m_kind = memory_kind.FACT, m_title = ''Editor'', m_body = ''Uses vim'',
       m_confidence = 1, m_sourceType = source_type.MANUAL, m_sourceClientId = None,
       m_sourceUri = None, m_sourceMetadata = [], m_lastConfirmedAt = None,
       m_consolidationRelevantAt = 1, m_lastConsolidatedAt = None, m_semanticInspectedAt = None,
       m_createdAt = 1, m_updatedAt = 1 \<rparr>"

definition sample_health :: memory where
  "sample_health =
     sample_memory \<lparr> m_id := ''m2'', m_categories := [health_category],
       m_sensitivity := memory_sensitivity.SENSITIVE \<rparr>"

definition sample_policy :: policy where
  "sample_policy =
     \<lparr> p_id = ''p1'', p_maxSensitivity = memory_sensitivity.INTERNAL,
       p_operations = [policy_operation.READ], p_requiresConfirmation = False, p_expiresAt = None,
       p_allowedCategories = [], p_deniedCategories = [health_category],
       p_userId = ''u1'', p_clientId = ''c1'', p_createdAt = 1, p_updatedAt = 1 \<rparr>"

definition sample_client :: client where
  "sample_client =
     \<lparr> c_id = ''c1'', c_userId = ''u1'', c_name = ''App'', c_type = client_type.CLI,
       c_trustLevel = client_trust_level.APPROVED, c_declaredRetention = client_retention.UNKNOWN,
       c_tokenHash = None, c_oauthRegistrationId = None, c_lastUsedAt = None, c_createdAt = 1,
       c_updatedAt = 1 \<rparr>"

definition sample_vault :: vault where
  "sample_vault =
     (empty_vault sample_ids)
       \<lparr> v_categories := [work_category, health_category],
         v_memories := [sample_memory, sample_health],
         v_clients := [sample_client], v_policies := [sample_policy] \<rparr>"

lemmas sample_defs = sample_vault_def sample_client_def sample_policy_def sample_health_def
  sample_memory_def work_category_def health_category_def empty_vault_def

end
