(* ===== verification/PolicyEval.thy ===== *)
theory PolicyEval
  imports Samples "HOL-Library.Multiset"
begin

text \<open>
  \<open>apps/api/src/policies/policy-evaluation.service.ts\<close>: the owner-scoped authority gate
  (\<open>evaluateForClient\<close>), the candidate filter (\<open>evaluateCandidateMemories\<close>) and the reason a memory
  is withheld (\<open>denialReason\<close>).  The gate's facts are the interface \<open>authority_gate\<close> that the
  disclosure and suggestion services rely on.
\<close>

section \<open>Results\<close>

datatype decision = ALLOW | NEEDS_CONFIRMATION | DENY

record policy_evaluation_result =
  pr_decision :: decision
  pr_policyId :: "ident option"
  pr_allowedMemoryIds :: "ident list"
  pr_denied :: "(ident \<times> memory_request_reason) list"
  pr_requiresConfirmation :: bool
  pr_reason :: "memory_request_reason option"

text \<open>\<open>{ ...authority, ...result }\<close>: the result with the client, the policy and its version.\<close>

record authority = policy_evaluation_result +
  au_client :: "client option"
  au_policy :: "policy option"
  au_policyVersion :: "time option"

section \<open>Candidates\<close>

definition denialReason ::
  "'a candidate_memory_scheme \<Rightarrow> ident list \<Rightarrow> ident set \<Rightarrow> ident set \<Rightarrow> memory_sensitivity \<Rightarrow> time
     \<Rightarrow> memory_request_reason option" where
  "denialReason memory categoryKeys allowedCategories deniedCategories maxSensitivity now =
     (if m_status memory \<noteq> memory_status.ACTIVE then Some inactive_memory
      else if m_reviewState memory \<noteq> review_state.APPROVED then Some unapproved_memory
      else if (case m_expiresAt memory of Some e \<Rightarrow> e \<le> now | None \<Rightarrow> False) then Some expired_memory
      else if sensitivity_rank (m_sensitivity memory) > sensitivity_rank maxSensitivity
        then Some above_sensitivity_ceiling
      else if list_ex (\<lambda>key. key \<in> deniedCategories) categoryKeys then Some denied_category
      else if allowedCategories \<noteq> {} \<and> \<not> list_ex (\<lambda>key. key \<in> allowedCategories) categoryKeys
        then Some category_not_allowed
      else None)"

definition candidate_denial ::
  "'p evaluation_policy_scheme \<Rightarrow> time \<Rightarrow> 'a candidate_memory_scheme \<Rightarrow> memory_request_reason option" where
  "candidate_denial policy now memory =
     denialReason memory (map cat_key (m_categories memory))
       (set (map cat_key (p_allowedCategories policy)))
       (set (map cat_key (p_deniedCategories policy)))
       (p_maxSensitivity policy) now"

text \<open>The loop over the candidates: allowed ids and denials are pushed in candidate order.\<close>

fun split_candidates ::
  "'p evaluation_policy_scheme \<Rightarrow> time \<Rightarrow> 'a candidate_memory_scheme list
     \<Rightarrow> ident list \<times> (ident \<times> memory_request_reason) list" where
  "split_candidates policy now [] = ([], [])"
| "split_candidates policy now (memory # rest) =
     (let (allowed, denied) = split_candidates policy now rest
      in case candidate_denial policy now memory of
           Some reason \<Rightarrow> (allowed, (m_id memory, reason) # denied)
         | None \<Rightarrow> (m_id memory # allowed, denied))"

definition evaluateCandidateMemories ::
  "'p evaluation_policy_scheme \<Rightarrow> 'a candidate_memory_scheme list \<Rightarrow> time \<Rightarrow> policy_evaluation_result" where
  "evaluateCandidateMemories policy candidateMemories now =
     (let (allowedMemoryIds, denied) = split_candidates policy now candidateMemories;
          reason =
            (if candidateMemories = [] then Some no_matching_memories
             else if allowedMemoryIds = [] then Some no_allowed_memories
             else if p_requiresConfirmation policy then Some confirmation_required
             else None)
      in \<lparr> pr_decision =
             (if allowedMemoryIds = [] then DENY
              else if p_requiresConfirmation policy then NEEDS_CONFIRMATION
              else ALLOW),
           pr_policyId = Some (p_id policy),
           pr_allowedMemoryIds = allowedMemoryIds,
           pr_denied = denied,
           pr_requiresConfirmation = p_requiresConfirmation policy,
           pr_reason = reason \<rparr>)"

section \<open>The authority gate\<close>

text \<open>\<open>client.policies[0]\<close>: the client column of a policy is unique, and a policy belongs to the
  owner of its client.\<close>

definition client_policy :: "vault \<Rightarrow> client \<Rightarrow> policy option" where
  "client_policy db client =
     find_row (\<lambda>p. p_clientId p = c_id client \<and> p_userId p = c_userId client) (v_policies db)"

definition owned_client :: "vault \<Rightarrow> ident \<Rightarrow> ident \<Rightarrow> client option" where
  "owned_client db userId clientId =
     find_row (\<lambda>c. c_id c = clientId \<and> c_userId c = userId) (v_clients db)"

definition gate_reason ::
  "client option \<Rightarrow> policy option \<Rightarrow> policy_operation \<Rightarrow> time \<Rightarrow> memory_request_reason option" where
  "gate_reason client policy operation now =
     (if (case client of None \<Rightarrow> True | Some c \<Rightarrow> c_trustLevel c = client_trust_level.BLOCKED)
      then Some unknown_or_blocked_client
      else case policy of
             None \<Rightarrow> Some no_client_policy
           | Some p \<Rightarrow>
               if (case p_expiresAt p of Some e \<Rightarrow> e \<le> now | None \<Rightarrow> False) then Some policy_expired
               else if operation \<notin> set (p_operations p) then Some operation_not_allowed
               else None)"

definition with_authority ::
  "client option \<Rightarrow> policy option \<Rightarrow> policy_evaluation_result \<Rightarrow> authority" where
  "with_authority client policy result =
     policy_evaluation_result.extend result
       \<lparr> au_client = client, au_policy = policy, au_policyVersion = map_option p_updatedAt policy \<rparr>"

definition evaluateForClient ::
  "time \<Rightarrow> vault \<Rightarrow> ident \<Rightarrow> ident \<Rightarrow> policy_operation \<Rightarrow> 'a candidate_memory_scheme list option
     \<Rightarrow> authority" where
  "evaluateForClient now db userId clientId operation candidateMemories =
     (let client = owned_client db userId clientId;
          policy = Option.bind client (client_policy db);
          reason = gate_reason client policy operation now
      in with_authority client policy
           (case (reason, policy) of
              (None, Some p) \<Rightarrow>
                (case candidateMemories of
                   None \<Rightarrow>
                     \<lparr> pr_decision = ALLOW, pr_policyId = Some (p_id p), pr_allowedMemoryIds = [],
                       pr_denied = [], pr_requiresConfirmation = p_requiresConfirmation p,
                       pr_reason = None \<rparr>
                 | Some candidates \<Rightarrow> evaluateCandidateMemories p candidates now)
            | _ \<Rightarrow>
                \<lparr> pr_decision = DENY, pr_policyId = map_option p_id policy,
                  pr_allowedMemoryIds = [], pr_denied = [],
                  pr_requiresConfirmation =
                    (case policy of Some p \<Rightarrow> p_requiresConfirmation p | None \<Rightarrow> False),
                  pr_reason = reason \<rparr>))"

section \<open>What a policy promises\<close>

text \<open>The abstract contract: which memories a policy lets out at an instant.\<close>

definition category_keys :: "'a candidate_memory_scheme \<Rightarrow> ident set" where
  "category_keys m = set (map cat_key (m_categories m))"

definition allowed_keys :: "'p evaluation_policy_scheme \<Rightarrow> ident set" where
  "allowed_keys p = set (map cat_key (p_allowedCategories p))"

definition denied_keys :: "'p evaluation_policy_scheme \<Rightarrow> ident set" where
  "denied_keys p = set (map cat_key (p_deniedCategories p))"

definition disclosable :: "'p evaluation_policy_scheme \<Rightarrow> time \<Rightarrow> 'a candidate_memory_scheme \<Rightarrow> bool" where
  "disclosable p now m =
     (m_status m = memory_status.ACTIVE \<and> m_reviewState m = review_state.APPROVED
      \<and> (\<forall>e\<in>set_option (m_expiresAt m). now < e)
      \<and> m_sensitivity m \<le> p_maxSensitivity p
      \<and> category_keys m \<inter> denied_keys p = {}
      \<and> (allowed_keys p = {} \<or> category_keys m \<inter> allowed_keys p \<noteq> {}))"

lemma candidate_denial_None: "candidate_denial p now m = None \<longleftrightarrow> disclosable p now m"
  by (cases "m_expiresAt m")
    (auto simp: candidate_denial_def denialReason_def disclosable_def category_keys_def
      allowed_keys_def denied_keys_def list_ex_iff sensitivity_order)

lemma candidate_denial_Some: "candidate_denial p now m = Some r \<Longrightarrow> \<not> disclosable p now m"
  by (metis candidate_denial_None option.distinct(1))

lemma split_candidates_allowed:
  "fst (split_candidates p now ms) = map m_id (filter (disclosable p now) ms)"
  by (induction ms)
    (auto simp: candidate_denial_None[symmetric] dest: candidate_denial_Some
      split: prod.splits option.splits)

lemma split_candidates_denied:
  "snd (split_candidates p now ms)
     = List.map_filter (\<lambda>m. map_option (\<lambda>r. (m_id m, r)) (candidate_denial p now m)) ms"
  by (induction ms) (auto split: prod.splits option.splits)

lemma evaluate_allowed:
  "pr_allowedMemoryIds (evaluateCandidateMemories p ms now) = map m_id (filter (disclosable p now) ms)"
  by (simp add: evaluateCandidateMemories_def split_candidates_allowed split_beta Let_def)

lemma evaluate_denied:
  "pr_denied (evaluateCandidateMemories p ms now)
     = List.map_filter (\<lambda>m. map_option (\<lambda>r. (m_id m, r)) (candidate_denial p now m)) ms"
  by (simp add: evaluateCandidateMemories_def split_candidates_denied split_beta Let_def)

lemma evaluate_policyId: "pr_policyId (evaluateCandidateMemories p ms now) = Some (p_id p)"
  by (simp add: evaluateCandidateMemories_def split_beta Let_def)

lemmas evaluate_simps = evaluate_allowed evaluate_denied evaluate_policyId

text \<open>C19. The candidate filter implements the policy contract: the ids it allows are, in candidate
  order, exactly those of the active, approved, unexpired memories at or below the ceiling, in no
  denied category and (unless the allow-list is empty) in some allowed one.\<close>

theorem evaluation_allows_disclosable:
  "pr_allowedMemoryIds (evaluateCandidateMemories policy memories now)
     = map m_id (filter (disclosable policy now) memories)"
  by (rule evaluate_allowed)

text \<open>Every candidate is either allowed or denied with a reason, once: the allowed ids and the
  denied ids together are the candidates' ids as multisets.\<close>

theorem evaluation_partitions_candidates:
  "mset (pr_allowedMemoryIds (evaluateCandidateMemories policy memories now))
   + mset (map fst (pr_denied (evaluateCandidateMemories policy memories now)))
   = mset (map m_id memories)"
proof (induction memories)
  case Nil
  then show ?case unfolding evaluate_simps by simp
next
  case (Cons m ms)
  then show ?case
    by (cases "candidate_denial policy now m")
      (auto simp: evaluate_simps candidate_denial_None[symmetric])
qed

text \<open>The decision and the reason agree with the ids: DENY exactly when nothing is allowed,
  otherwise confirmation exactly when the policy asks for it; the reason is absent exactly for ALLOW.\<close>

theorem evaluation_decision:
  "(pr_decision (evaluateCandidateMemories policy memories now) = DENY
      \<longleftrightarrow> pr_allowedMemoryIds (evaluateCandidateMemories policy memories now) = [])
   \<and> (pr_decision (evaluateCandidateMemories policy memories now) = NEEDS_CONFIRMATION
      \<longleftrightarrow> (pr_allowedMemoryIds (evaluateCandidateMemories policy memories now) \<noteq> []
          \<and> p_requiresConfirmation policy))
   \<and> (pr_reason (evaluateCandidateMemories policy memories now) = None
      \<longleftrightarrow> pr_decision (evaluateCandidateMemories policy memories now) = ALLOW)"
  by (cases memories) (auto simp: evaluateCandidateMemories_def Let_def split_beta)

text \<open>A policy that is at most as permissive as another.\<close>

definition narrower :: "'p evaluation_policy_scheme \<Rightarrow> 'q evaluation_policy_scheme \<Rightarrow> bool" where
  "narrower p q = (p_maxSensitivity p \<le> p_maxSensitivity q
     \<and> denied_keys q \<subseteq> denied_keys p
     \<and> (allowed_keys q = {} \<or> (allowed_keys p \<noteq> {} \<and> allowed_keys p \<subseteq> allowed_keys q)))"

lemma narrower_disclosable: "narrower p q \<Longrightarrow> disclosable p now m \<Longrightarrow> disclosable q now m"
  unfolding narrower_def disclosable_def by fastforce

text \<open>Tightening a policy (a lower ceiling, more denied categories, a smaller allow-list) and
  letting time pass never lets another memory out.\<close>

theorem narrower_policy_allows_less:
  assumes "narrower p q" "t \<le> now"
  shows "set (pr_allowedMemoryIds (evaluateCandidateMemories p memories now))
       \<subseteq> set (pr_allowedMemoryIds (evaluateCandidateMemories q memories t))"
proof -
  have "disclosable p now m \<Longrightarrow> disclosable q t m" for m :: "'c candidate_memory_scheme"
    using narrower_disclosable[OF assms(1), of t m] assms(2)
    by (fastforce simp: disclosable_def)
  then show ?thesis by (auto simp: evaluate_allowed)
qed

lemma narrower_policy_allows_less_witness:
  "set (pr_allowedMemoryIds (evaluateCandidateMemories sample_policy [sample_memory, sample_health] 5))
   \<subseteq> set (pr_allowedMemoryIds
       (evaluateCandidateMemories (sample_policy\<lparr>p_deniedCategories := []\<rparr>) [sample_memory, sample_health] 3))"
  by (rule narrower_policy_allows_less)
    (simp_all add: narrower_def sample_defs denied_keys_def allowed_keys_def)

section \<open>The authority gate as an interface\<close>

text \<open>The facts a service relies on when it asks the gate: what a decision other than DENY grants,
  and that nothing is granted without authority or beyond the policy.\<close>

definition authorized :: "vault \<Rightarrow> time \<Rightarrow> ident \<Rightarrow> ident \<Rightarrow> policy_operation \<Rightarrow> client \<Rightarrow> policy \<Rightarrow> bool" where
  "authorized db now userId clientId operation c p =
     (owned_client db userId clientId = Some c \<and> c_trustLevel c \<noteq> client_trust_level.BLOCKED
      \<and> client_policy db c = Some p \<and> (\<forall>e\<in>set_option (p_expiresAt p). now < e)
      \<and> operation \<in> set (p_operations p))"

locale authority_gate =
  fixes gate :: "time \<Rightarrow> vault \<Rightarrow> ident \<Rightarrow> ident \<Rightarrow> policy_operation
      \<Rightarrow> 'm candidate_memory_scheme list option \<Rightarrow> authority"
  assumes gate_granted:
      "pr_decision (gate now db u c op ms) \<noteq> DENY \<Longrightarrow>
        \<exists>cl p. authorized db now u c op cl p \<and> au_client (gate now db u c op ms) = Some cl
          \<and> au_policy (gate now db u c op ms) = Some p
          \<and> pr_policyId (gate now db u c op ms) = Some (p_id p)
          \<and> au_policyVersion (gate now db u c op ms) = Some (p_updatedAt p)"
    and gate_allowed:
      "i \<in> set (pr_allowedMemoryIds (gate now db u c op (Some xs))) \<Longrightarrow>
        \<exists>cl p m. authorized db now u c op cl p \<and> m \<in> set xs \<and> m_id m = i \<and> disclosable p now m"
begin

text \<open>A blocked or foreign client gets nothing, whatever its policy says.\<close>

lemma no_client_denied:
  assumes "\<And>cl. owned_client db u c = Some cl \<Longrightarrow> c_trustLevel cl = client_trust_level.BLOCKED"
  shows "pr_decision (gate now db u c op ms) = DENY"
    and "set (pr_allowedMemoryIds (gate now db u c op (Some ms'))) = {}"
proof -
  have none: "\<not> authorized db now u c op cl p" for cl p
    using assms by (auto simp: authorized_def)
  show "pr_decision (gate now db u c op ms) = DENY"
    using gate_granted[of now db u c op ms] none by blast
  show "set (pr_allowedMemoryIds (gate now db u c op (Some ms'))) = {}"
    using gate_allowed[of _ now db u c op ms'] none by (metis equals0I)
qed

lemma expired_policy_denied:
  assumes "\<And>cl p. owned_client db u c = Some cl \<Longrightarrow> client_policy db cl = Some p \<Longrightarrow> p_expiresAt p = Some e"
    and "e \<le> now"
  shows "pr_decision (gate now db u c op ms) = DENY"
proof (rule ccontr)
  assume "pr_decision (gate now db u c op ms) \<noteq> DENY"
  from gate_granted[OF this] obtain cl p where "authorized db now u c op cl p" by blast
  then show False using assms by (fastforce simp: authorized_def)
qed

end

lemma gate_reason_None:
  "gate_reason (owned_client db u c) (Option.bind (owned_client db u c) (client_policy db)) op now = None
     \<longleftrightarrow> (\<exists>cl p. authorized db now u c op cl p)"
  by (auto simp: gate_reason_def authorized_def split: option.splits if_splits)

lemma evaluateForClient_au [simp]:
  "au_client (evaluateForClient now db u c op ms) = owned_client db u c"
  "au_policy (evaluateForClient now db u c op ms) = Option.bind (owned_client db u c) (client_policy db)"
  "au_policyVersion (evaluateForClient now db u c op ms)
     = map_option p_updatedAt (Option.bind (owned_client db u c) (client_policy db))"
  by (simp_all add: evaluateForClient_def with_authority_def policy_evaluation_result.defs Let_def)

lemma evaluateForClient_authorized:
  assumes "authorized db now u c op cl p"
  shows "evaluateForClient now db u c op ms = with_authority (Some cl) (Some p)
     (case ms of None \<Rightarrow> \<lparr> pr_decision = ALLOW, pr_policyId = Some (p_id p), pr_allowedMemoryIds = [],
         pr_denied = [], pr_requiresConfirmation = p_requiresConfirmation p, pr_reason = None \<rparr>
      | Some xs \<Rightarrow> evaluateCandidateMemories p xs now)"
proof -
  have "gate_reason (Some cl) (Some p) op now = None"
    using assms gate_reason_None[of db u c op now] by (auto simp: authorized_def)
  then show ?thesis using assms
    by (simp add: evaluateForClient_def authorized_def Let_def)
qed

lemma evaluateForClient_unauthorized:
  assumes "\<And>cl p. \<not> authorized db now u c op cl p"
  shows "pr_decision (evaluateForClient now db u c op ms) = DENY"
    and "pr_allowedMemoryIds (evaluateForClient now db u c op ms) = []"
    and "pr_denied (evaluateForClient now db u c op ms) = []"
proof -
  obtain r where "gate_reason (owned_client db u c)
      (Option.bind (owned_client db u c) (client_policy db)) op now = Some r"
    using assms gate_reason_None[of db u c op now] by fastforce
  then show "pr_decision (evaluateForClient now db u c op ms) = DENY"
    and "pr_allowedMemoryIds (evaluateForClient now db u c op ms) = []"
    and "pr_denied (evaluateForClient now db u c op ms) = []"
    by (simp_all add: evaluateForClient_def with_authority_def policy_evaluation_result.defs Let_def)
qed

lemma with_authority_simps [simp]:
  "pr_decision (with_authority c p r) = pr_decision r"
  "pr_policyId (with_authority c p r) = pr_policyId r"
  "pr_allowedMemoryIds (with_authority c p r) = pr_allowedMemoryIds r"
  "pr_denied (with_authority c p r) = pr_denied r"
  "pr_reason (with_authority c p r) = pr_reason r"
  "pr_requiresConfirmation (with_authority c p r) = pr_requiresConfirmation r"
  by (simp_all add: with_authority_def policy_evaluation_result.defs)

interpretation policy_gate: authority_gate evaluateForClient
proof unfold_locales
  fix now db u c op and ms :: "'m candidate_memory_scheme list option"
  assume ne: "pr_decision (evaluateForClient now db u c op ms) \<noteq> DENY"
  then obtain cl p where a: "authorized db now u c op cl p"
    using evaluateForClient_unauthorized(1) by blast
  have "pr_policyId (evaluateForClient now db u c op ms) = Some (p_id p)"
    by (simp add: evaluateForClient_authorized[OF a] evaluate_policyId split: option.split)
  then show "\<exists>cl p. authorized db now u c op cl p
      \<and> au_client (evaluateForClient now db u c op ms) = Some cl
      \<and> au_policy (evaluateForClient now db u c op ms) = Some p
      \<and> pr_policyId (evaluateForClient now db u c op ms) = Some (p_id p)
      \<and> au_policyVersion (evaluateForClient now db u c op ms) = Some (p_updatedAt p)"
    using a by (intro exI[of _ cl] exI[of _ p]) (simp add: authorized_def)
next
  fix i now db u c op and ms :: "'m candidate_memory_scheme list"
  assume i: "i \<in> set (pr_allowedMemoryIds (evaluateForClient now db u c op (Some ms)))"
  then obtain cl p where a: "authorized db now u c op cl p"
    using evaluateForClient_unauthorized(2)[of db now u c op "Some ms"] by (metis empty_iff empty_set)
  with i show "\<exists>cl p m. authorized db now u c op cl p \<and> m \<in> set ms \<and> m_id m = i \<and> disclosable p now m"
    by (auto simp: evaluateForClient_authorized[OF a] evaluate_allowed)
qed

text \<open>C20. The authority gate denies exactly when the client is not the owner's, is blocked, has no
  policy, the policy has expired, or the policy lacks the operation.\<close>

theorem gate_decides_authority:
  "pr_decision (evaluateForClient now db userId clientId operation
     (None :: 'm candidate_memory_scheme list option)) = DENY
   \<longleftrightarrow> (\<nexists>c p. authorized db now userId clientId operation c p)"
proof
  assume "pr_decision (evaluateForClient now db userId clientId operation
     (None :: 'm candidate_memory_scheme list option)) = DENY"
  then show "\<nexists>c p. authorized db now userId clientId operation c p"
    using evaluateForClient_authorized[of db now userId clientId operation _ _
        "None :: 'm candidate_memory_scheme list option"] by fastforce
next
  assume "\<nexists>c p. authorized db now userId clientId operation c p"
  then show "pr_decision (evaluateForClient now db userId clientId operation
     (None :: 'm candidate_memory_scheme list option)) = DENY"
    by (intro evaluateForClient_unauthorized(1)) blast
qed

end
