(* ===== verification/Retrieval.thy ===== *)
theory Retrieval
  imports PolicyEval
begin

text \<open>
  Candidate retrieval: the search terms of a task (\<open>common/text.ts\<close>), the keyword and the vector
  query and their merge (\<open>memory-requests/retrieval.service.ts\<close>), and the embedding rows they read
  (\<open>embeddings/embeddings.service.ts\<close>).  The embedding model, the vector distance and the
  database's case-insensitive match are not code of the program: they are the fields of
  \<open>retrieval_env\<close>.  Scores are exact rationals.
\<close>

section \<open>Search terms\<close>

text \<open>Case folding and the classes of letters and numbers, on the code units of the model.\<close>

definition js_lower_char :: "char \<Rightarrow> char" where
  "js_lower_char c =
     (let n = of_char c :: nat
      in if (65 \<le> n \<and> n \<le> 90) \<or> (192 \<le> n \<and> n \<le> 222 \<and> n \<noteq> 215) then char_of (n + 32) else c)"

definition js_lower :: "string \<Rightarrow> string" where
  "js_lower s = map js_lower_char s"

definition word_char :: "char \<Rightarrow> bool" where
  "word_char c =
     (let n = of_char c :: nat
      in (48 \<le> n \<and> n \<le> 57) \<or> (65 \<le> n \<and> n \<le> 90) \<or> (97 \<le> n \<and> n \<le> 122)
         \<or> n \<in> {45, 95, 170, 178, 179, 181, 185, 186, 188, 189, 190}
         \<or> (192 \<le> n \<and> n \<noteq> 215 \<and> n \<noteq> 247))"

text \<open>The maximal runs of word characters; a greedy match of three or more takes a run whole.\<close>

function word_runs :: "string \<Rightarrow> string list" where
  "word_runs [] = []"
| "word_runs (c # cs) =
     (if word_char c then (c # takeWhile word_char cs) # word_runs (dropWhile word_char cs)
      else word_runs cs)"
  by pat_completeness auto
termination
  by (relation "measure length") (auto simp: le_imp_less_Suc length_dropWhile_le)

definition stopWords :: "string list" where
  "stopWords =
     [''about'', ''already'', ''and'', ''any'', ''asked'', ''asks'', ''correction'', ''could'',
      ''existing'', ''find'', ''for'', ''from'', ''has'', ''have'', ''help'', ''identify'',
      ''instead'', ''into'', ''locate'', ''means'', ''memories'', ''memory'', ''mention'',
      ''needed'', ''needs'', ''now'', ''please'', ''prefer'', ''preference'', ''prefers'',
      ''related'', ''remember'', ''specific'', ''specifically'', ''that'', ''the'', ''their'',
      ''there'', ''thing'', ''things'', ''this'', ''those'', ''update'', ''use'', ''used'',
      ''user'', ''users'', ''uses'', ''was'', ''what'', ''when'', ''where'', ''with'', ''would'']"

definition extractTerms :: "string \<Rightarrow> nat option \<Rightarrow> string list" where
  "extractTerms str limit =
     (let terms = filter (\<lambda>term. term \<notin> set stopWords)
            (js_unique (filter (\<lambda>w. length w \<ge> 3) (word_runs (js_lower str))))
      in case limit of None \<Rightarrow> terms | Some n \<Rightarrow> take n terms)"

lemma extractTerms_bounded:
  "distinct (extractTerms str limit) \<and> (\<forall>n. limit = Some n \<longrightarrow> length (extractTerms str limit) \<le> n)
   \<and> (\<forall>term\<in>set (extractTerms str limit). length term \<ge> 3 \<and> term \<notin> set stopWords)"
  by (auto simp: extractTerms_def Let_def split: option.split dest!: in_set_takeD)

section \<open>Embeddings\<close>

primrec kind_name :: "memory_kind \<Rightarrow> string" where
  "kind_name memory_kind.FACT = ''FACT''"
| "kind_name memory_kind.PREFERENCE = ''PREFERENCE''"
| "kind_name memory_kind.INSTRUCTION = ''INSTRUCTION''"
| "kind_name memory_kind.GOAL = ''GOAL''"
| "kind_name memory_kind.PROJECT_CONTEXT = ''PROJECT_CONTEXT''"
| "kind_name memory_kind.RELATIONSHIP = ''RELATIONSHIP''"
| "kind_name memory_kind.CONSTRAINT = ''CONSTRAINT''"
| "kind_name memory_kind.EVENT = ''EVENT''"
| "kind_name memory_kind.SUMMARY = ''SUMMARY''"

fun js_join :: "string \<Rightarrow> string list \<Rightarrow> string" where
  "js_join sep [] = []"
| "js_join sep [x] = x"
| "js_join sep (x # y # ys) = x @ sep @ js_join sep (y # ys)"

definition buildMemoryEmbeddingText :: "'a memory_scheme \<Rightarrow> string" where
  "buildMemoryEmbeddingText memory =
     (let categories = js_join '', ''
            (map (\<lambda>c. if cat_name c \<noteq> [] then cat_name c else cat_key c) (m_categories memory))
      in js_join [CHR 0x0A]
           ([''Title: '' @ m_title memory, ''Kind: '' @ kind_name (m_kind memory)]
            @ (if categories \<noteq> [] then [''Categories: '' @ categories] else [])
            @ [''Sensitivity: '' @ sensitivity_name (m_sensitivity memory),
               ''Body: '' @ m_body memory]))"

record 'v embedding =
  e_id :: ident
  e_userId :: ident
  e_memoryId :: ident
  e_provider :: string
  e_model :: string
  e_contentHash :: string
  e_vector :: 'v

record 'v generated =
  gv_provider :: string
  gv_model :: string
  gv_vector :: 'v

text \<open>What the program takes from outside: the provider's names and model, its vector for a text
  (\<open>None\<close> when the call fails), the dimension of a vector, the score
  \<open>GREATEST(0, 1 - distance)\<close>, the content hash, and \<open>contains\<close> with mode insensitive.\<close>

record 'v retrieval_env =
  re_provider :: string
  re_model :: string
  re_generate :: "string \<Rightarrow> 'v generated option"
  re_dimensions :: "'v \<Rightarrow> nat"
  re_similarity :: "'v \<Rightarrow> 'v \<Rightarrow> rat"
  re_contentHash :: "string \<Rightarrow> string"
  re_contains :: "string \<Rightarrow> string \<Rightarrow> bool"
  re_maxSensitivity :: memory_sensitivity

definition EMBEDDING_DIMENSIONS :: nat where "EMBEDDING_DIMENSIONS = 1536"

definition shouldEmbedSensitivity :: "'v retrieval_env \<Rightarrow> memory_sensitivity \<Rightarrow> bool" where
  "shouldEmbedSensitivity env s = (sensitivity_rank s \<le> sensitivity_rank (re_maxSensitivity env))"

definition isEmbeddable :: "'v retrieval_env \<Rightarrow> 'a memory_scheme \<Rightarrow> bool" where
  "isEmbeddable env memory =
     (m_status memory = memory_status.ACTIVE \<and> m_reviewState memory = review_state.APPROVED
      \<and> shouldEmbedSensitivity env (m_sensitivity memory))"

text \<open>\<open>ON CONFLICT (memoryId, provider, model, contentHash) DO UPDATE\<close>\<close>

definition upsertEmbedding :: "'v embedding \<Rightarrow> 'v embedding list \<Rightarrow> 'v embedding list" where
  "upsertEmbedding row rows =
     (let same = (\<lambda>e. e_memoryId e = e_memoryId row \<and> e_provider e = e_provider row
            \<and> e_model e = e_model row \<and> e_contentHash e = e_contentHash row)
      in if list_ex same rows
         then update_where same (\<lambda>e. e\<lparr>e_vector := e_vector row\<rparr>) rows
         else rows @ [row])"

datatype embedding_result =
    SkippedNotEmbeddable
  | SkippedCurrent
  | Generated string string string

definition generateForMemory ::
  "'v retrieval_env \<Rightarrow> ident \<Rightarrow> ident \<Rightarrow> ident \<Rightarrow> memory list \<Rightarrow> 'v embedding list
     \<Rightarrow> (error + embedding_result) \<times> 'v embedding list" where
  "generateForMemory env freshId userId memoryId memories rows =
     (case find_row (\<lambda>m. m_id m = memoryId \<and> m_userId m = userId) memories of
        None \<Rightarrow> (Inl (Internal ''Memory not found for embedding generation''), rows)
      | Some memory \<Rightarrow>
          if \<not> isEmbeddable env memory
          then (Inr SkippedNotEmbeddable,
                delete_where (\<lambda>e. e_memoryId e = m_id memory \<and> e_provider e = re_provider env
                                \<and> e_model e = re_model env) rows)
          else
            let str = buildMemoryEmbeddingText memory;
                contentHash = re_contentHash env str
            in if list_ex (\<lambda>e. e_memoryId e = m_id memory \<and> e_provider e = re_provider env
                     \<and> e_model e = re_model env \<and> e_contentHash e = contentHash) rows
               then (Inr SkippedCurrent, rows)
               else case re_generate env str of
                      None \<Rightarrow> (Inl (Internal ''embedding provider failed''), rows)
                    | Some g \<Rightarrow>
                        if re_dimensions env (gv_vector g) \<noteq> EMBEDDING_DIMENSIONS
                        then (Inl (Internal ''unexpected embedding dimensions''), rows)
                        else (Inr (Generated (gv_provider g) (gv_model g) contentHash),
                              upsertEmbedding
                                \<lparr> e_id = freshId, e_userId = m_userId memory,
                                  e_memoryId = m_id memory, e_provider = gv_provider g,
                                  e_model = gv_model g, e_contentHash = contentHash,
                                  e_vector = gv_vector g \<rparr> rows))"

section \<open>The queries\<close>

definition keywordWeight :: rat where "keywordWeight = 45 / 100"
definition semanticWeight :: rat where "semanticWeight = 55 / 100"
definition exactKeywordBoost :: rat where "exactKeywordBoost = 45 / 100"

record retrieve_input =
  in_userId :: ident
  in_task :: string
  in_requestedCategories :: "ident list"
  in_limit :: nat

record keyword_result =
  kr_id :: ident
  kr_score :: rat
  kr_exactMatch :: bool

text \<open>The filter both queries share: active, approved, not expired, in a requested category if any
  is requested.\<close>

definition retrievable :: "time \<Rightarrow> ident list \<Rightarrow> memory \<Rightarrow> bool" where
  "retrievable now requested m =
     (m_status m = memory_status.ACTIVE \<and> m_reviewState m = review_state.APPROVED
      \<and> (case m_expiresAt m of None \<Rightarrow> True | Some e \<Rightarrow> now < e)
      \<and> (requested = [] \<or> list_ex (\<lambda>c. cat_key c \<in> set requested) (m_categories m)))"

definition scoreKeywordMemory :: "memory \<Rightarrow> string list \<Rightarrow> rat" where
  "scoreKeywordMemory memory terms =
     (if terms = [] then 1 / 10
      else
        let str = js_lower (buildMemoryEmbeddingText memory);
            matches = length (filter (\<lambda>term. sublist term str) terms)
        in of_nat matches / of_nat (length terms))"

definition keywordRetrieve ::
  "'v retrieval_env \<Rightarrow> time \<Rightarrow> vault \<Rightarrow> retrieve_input \<Rightarrow> keyword_result list" where
  "keywordRetrieve env now db inp =
     (let terms = extractTerms (in_task inp) (Some 12);
          rows = filter (\<lambda>m. m_userId m = in_userId inp
                    \<and> retrievable now (in_requestedCategories inp) m
                    \<and> (terms = [] \<or> list_ex (\<lambda>term. re_contains env (m_title m) term
                                              \<or> re_contains env (m_body m) term) terms))
                   (v_memories db);
          newest = take (max (in_limit inp) 50) (sort_key (\<lambda>m. - m_updatedAt m) rows);
          scored = map (\<lambda>m. \<lparr> kr_id = m_id m, kr_score = scoreKeywordMemory m terms,
                              kr_exactMatch = (terms \<noteq> []) \<rparr>) newest
      in take (in_limit inp)
           (sort_key (\<lambda>r. - kr_score r) (filter (\<lambda>r. kr_score r > 0) scored)))"

definition semantic_row ::
  "'v retrieval_env \<Rightarrow> time \<Rightarrow> vault \<Rightarrow> retrieve_input \<Rightarrow> 'v generated \<Rightarrow> 'v embedding
     \<Rightarrow> (ident \<times> rat) option" where
  "semantic_row env now db inp g e =
     (if e_userId e = in_userId inp \<and> e_provider e = gv_provider g \<and> e_model e = gv_model g
      then case find_row (\<lambda>m. m_id m = e_memoryId e) (v_memories db) of
             Some m \<Rightarrow>
               if retrievable now (in_requestedCategories inp) m
               then Some (m_id m, re_similarity env (e_vector e) (gv_vector g))
               else None
           | None \<Rightarrow> None
      else None)"

text \<open>The vector query joins every embedding row of the owner, provider and model with its memory;
  a failing provider call is caught and yields no rows.\<close>

definition semanticRetrieve ::
  "'v retrieval_env \<Rightarrow> time \<Rightarrow> vault \<Rightarrow> 'v embedding list \<Rightarrow> retrieve_input \<Rightarrow> (ident \<times> rat) list" where
  "semanticRetrieve env now db embeddings inp =
     (case re_generate env (in_task inp) of
        None \<Rightarrow> []
      | Some g \<Rightarrow>
          take (in_limit inp)
            (sort_key (\<lambda>r. - snd r) (List.map_filter (semantic_row env now db inp g) embeddings)))"

definition add_score :: "ident \<Rightarrow> rat \<Rightarrow> (ident \<times> rat) list \<Rightarrow> (ident \<times> rat) list" where
  "add_score i x scores =
     upsert i ((case map_of scores i of Some y \<Rightarrow> y | None \<Rightarrow> 0) + x) scores"

definition merge_scores :: "keyword_result list \<Rightarrow> (ident \<times> rat) list \<Rightarrow> (ident \<times> rat) list" where
  "merge_scores keywordResults semanticResults =
     fold (\<lambda>(i, score). add_score i (score * semanticWeight)) semanticResults
       (fold (\<lambda>r. add_score (kr_id r)
                (kr_score r * keywordWeight + (if kr_exactMatch r then exactKeywordBoost else 0)))
          keywordResults [])"

definition with_score :: "memory \<Rightarrow> rat \<Rightarrow> retrieved_memory" where
  "with_score m score = memory.extend m \<lparr> relevanceScore = score \<rparr>"

definition retrieve ::
  "'v retrieval_env \<Rightarrow> time \<Rightarrow> vault \<Rightarrow> 'v embedding list \<Rightarrow> retrieve_input \<Rightarrow> retrieved_memory list" where
  "retrieve env now db embeddings inp =
     (let scores = merge_scores (keywordRetrieve env now db inp)
                     (semanticRetrieve env now db embeddings inp);
          ids = map fst (take (in_limit inp) (sort_key (\<lambda>e. - snd e) scores))
      in List.map_filter
           (\<lambda>i. map_option (\<lambda>m. with_score m (case map_of scores i of Some x \<Rightarrow> x | None \<Rightarrow> 0))
                  (find_row (\<lambda>m. m_id m = i \<and> m_userId m = in_userId inp) (v_memories db)))
           ids)"

section \<open>What retrieval returns\<close>

lemma with_score_simps [simp]:
  "m_id (with_score m x) = m_id m" "m_userId (with_score m x) = m_userId m"
  "relevanceScore (with_score m x) = x" "m_status (with_score m x) = m_status m"
  "m_reviewState (with_score m x) = m_reviewState m" "m_expiresAt (with_score m x) = m_expiresAt m"
  "m_categories (with_score m x) = m_categories m" "m_sensitivity (with_score m x) = m_sensitivity m"
  "m_title (with_score m x) = m_title m" "m_body (with_score m x) = m_body m"
  "memory.truncate (with_score m x) = m"
  by (simp_all add: with_score_def memory.defs)

lemma keys_add_score: "fst ` set (add_score i x scores) = insert i (fst ` set scores)"
proof -
  have "set (map fst (add_score i x scores)) = insert i (set (map fst scores))"
    by (auto simp: add_score_def keys_upsert simp del: set_map)
  then show ?thesis by simp
qed

lemma keys_fold_add:
  "fst ` set (fold (\<lambda>r. add_score (f r) (g r)) rs scores) = f ` set rs \<union> fst ` set scores"
  by (induction rs arbitrary: scores) (auto simp: keys_add_score)

lemma distinct_fold_add:
  "distinct (map fst scores) \<Longrightarrow> distinct (map fst (fold (\<lambda>r. add_score (f r) (g r)) rs scores))"
  by (induction rs arbitrary: scores) (auto simp: add_score_def)

lemma merge_scores_keys:
  "fst ` set (merge_scores ks ss) = kr_id ` set ks \<union> fst ` set ss"
  unfolding merge_scores_def case_prod_beta by (simp add: keys_fold_add Un_commute)

lemma merge_scores_distinct: "distinct (map fst (merge_scores ks ss))"
  unfolding merge_scores_def case_prod_beta by (intro distinct_fold_add) simp

lemma keywordRetrieve_sound:
  "r \<in> set (keywordRetrieve env now db inp) \<Longrightarrow>
    \<exists>m\<in>set (v_memories db). m_id m = kr_id r \<and> m_userId m = in_userId inp
      \<and> retrievable now (in_requestedCategories inp) m"
  by (auto simp: keywordRetrieve_def Let_def dest!: in_set_takeD) blast+

lemma semantic_row_sound:
  "semantic_row env now db inp g e = Some r \<Longrightarrow>
    \<exists>m\<in>set (v_memories db). m_id m = fst r \<and> retrievable now (in_requestedCategories inp) m"
  by (fastforce simp: semantic_row_def dest: find_row_SomeD split: option.splits if_splits)

lemma semanticRetrieve_sound:
  "r \<in> set (semanticRetrieve env now db embs inp) \<Longrightarrow>
    \<exists>m\<in>set (v_memories db). m_id m = fst r \<and> retrievable now (in_requestedCategories inp) m"
  by (auto simp: semanticRetrieve_def mem_map_filter dest!: in_set_takeD semantic_row_sound
      split: option.splits)

lemma retrieve_elem:
  assumes "m \<in> set (retrieve env now db embs inp)"
  shows "\<exists>row\<in>set (v_memories db). memory.truncate m = row \<and> m_id m = m_id row
    \<and> m_userId row = in_userId inp
    \<and> m_id row \<in> kr_id ` set (keywordRetrieve env now db inp)
                    \<union> fst ` set (semanticRetrieve env now db embs inp)"
proof -
  let ?ks = "keywordRetrieve env now db inp" and ?ss = "semanticRetrieve env now db embs inp"
  from assms obtain e where e: "e \<in> set (take (in_limit inp) (sort_key (\<lambda>e. - snd e) (merge_scores ?ks ?ss)))"
    and m: "map_option (\<lambda>m. with_score m (case map_of (merge_scores ?ks ?ss) (fst e) of Some x \<Rightarrow> x | None \<Rightarrow> 0))
        (find_row (\<lambda>m. m_id m = fst e \<and> m_userId m = in_userId inp) (v_memories db)) = Some m"
    unfolding retrieve_def Let_def mem_map_filter by auto
  then obtain row where row: "find_row (\<lambda>m. m_id m = fst e \<and> m_userId m = in_userId inp) (v_memories db) = Some row"
    and m: "memory.truncate m = row" "m_id m = m_id row" by auto
  have "e \<in> set (merge_scores ?ks ?ss)" using in_set_takeD[OF e] by simp
  then have "fst e \<in> kr_id ` set ?ks \<union> fst ` set ?ss"
    using merge_scores_keys[of ?ks ?ss] by blast
  with find_row_SomeD[OF row] m show ?thesis by auto
qed

text \<open>Retrieval stays with the owner and inside the request: every candidate it returns is a
  memory of the owner that is active, approved, unexpired and in a requested category.\<close>

theorem retrieve_within_request:
  assumes "distinct (map m_id (v_memories db))" "m \<in> set (retrieve env now db embeddings inp)"
  shows "memory.truncate m \<in> set (v_memories db) \<and> m_userId m = in_userId inp
    \<and> retrievable now (in_requestedCategories inp) (memory.truncate m)"
proof -
  from retrieve_elem[OF assms(2)] obtain row where row: "row \<in> set (v_memories db)"
    "memory.truncate m = row" "m_userId row = in_userId inp"
    and ids: "m_id row \<in> kr_id ` set (keywordRetrieve env now db inp)
                    \<union> fst ` set (semanticRetrieve env now db embeddings inp)" by auto
  from ids obtain x where "x \<in> set (v_memories db)" "m_id x = m_id row"
    "retrievable now (in_requestedCategories inp) x"
    by (fastforce dest: keywordRetrieve_sound semanticRetrieve_sound)
  moreover from this row assms(1) have "x = row" by (metis distinct_map inj_onD)
  moreover have "m_userId m = m_userId (memory.truncate m)" by (simp add: memory.defs)
  ultimately show ?thesis using row by simp
qed

lemma map_map_filter_key:
  "(\<And>e m. f e = Some m \<Longrightarrow> k m = g e) \<Longrightarrow>
    map k (List.map_filter f es) = map g (filter (\<lambda>e. f e \<noteq> None) es)"
  by (induction es) (auto split: option.split)

lemma map_filter_cong:
  "(\<And>e. e \<in> set es \<Longrightarrow> f e = g e) \<Longrightarrow> List.map_filter f es = List.map_filter g es"
  by (induction es) (auto split: option.split)

lemma map_filter_map: "List.map_filter f (map h es) = List.map_filter (\<lambda>e. f (h e)) es"
  by (induction es) (auto split: option.split)

lemma retrieve_ids:
  "retrieve env now db embs inp = List.map_filter
     (\<lambda>e. map_option (\<lambda>m. with_score m (snd e))
        (find_row (\<lambda>m. m_id m = fst e \<and> m_userId m = in_userId inp) (v_memories db)))
     (take (in_limit inp) (sort_key (\<lambda>e. - snd e)
        (merge_scores (keywordRetrieve env now db inp) (semanticRetrieve env now db embs inp))))"
proof -
  let ?sc = "merge_scores (keywordRetrieve env now db inp) (semanticRetrieve env now db embs inp)"
  have "(case map_of ?sc (fst e) of Some x \<Rightarrow> x | None \<Rightarrow> 0) = snd e"
    if "e \<in> set (take (in_limit inp) (sort_key (\<lambda>e. - snd e) ?sc))" for e
  proof -
    have "e \<in> set ?sc" using in_set_takeD[OF that] by simp
    then have "map_of ?sc (fst e) = Some (snd e)"
      using merge_scores_distinct by (simp add: map_of_eq_Some_iff)
    then show ?thesis by simp
  qed
  then show ?thesis
    unfolding retrieve_def Let_def map_filter_map by (intro map_filter_cong) simp
qed

text \<open>Retrieval ranks: it returns at most the requested number of candidates, each memory once, in
  the order of falling relevance.\<close>

theorem retrieve_ranked:
  "length (retrieve env now db embeddings inp) \<le> in_limit inp
   \<and> distinct (map m_id (retrieve env now db embeddings inp))
   \<and> sorted (map (\<lambda>m. - relevanceScore m) (retrieve env now db embeddings inp))"
proof -
  let ?sc = "merge_scores (keywordRetrieve env now db inp) (semanticRetrieve env now db embeddings inp)"
  let ?top = "take (in_limit inp) (sort_key (\<lambda>e. - snd e) ?sc)"
  let ?f = "\<lambda>e. map_option (\<lambda>m. with_score m (snd e))
        (find_row (\<lambda>m. m_id m = fst e \<and> m_userId m = in_userId inp) (v_memories db))"
  have f: "?f e = Some m \<Longrightarrow> m_id m = fst e \<and> relevanceScore m = snd e" for e m
    by (auto dest: find_row_SomeD)
  have ids: "map m_id (List.map_filter ?f ?top) = map fst (filter (\<lambda>e. ?f e \<noteq> None) ?top)"
    by (rule map_map_filter_key) (use f in blast)
  have rel: "map (\<lambda>m. - relevanceScore m) (List.map_filter ?f ?top)
      = map (\<lambda>e. - snd e) (filter (\<lambda>e. ?f e \<noteq> None) ?top)"
    by (rule map_map_filter_key) (use f in auto)
  have "length (List.map_filter ?f ?top) = length (filter (\<lambda>e. ?f e \<noteq> None) ?top)"
    using arg_cong[OF ids, of length] by simp
  then have len: "length (List.map_filter ?f ?top) \<le> in_limit inp"
    using length_filter_le[of "\<lambda>e. ?f e \<noteq> None" ?top] by simp
  have "distinct (map fst (sort_key (\<lambda>e. - snd e) ?sc))"
    using merge_scores_distinct[of "keywordRetrieve env now db inp"
        "semanticRetrieve env now db embeddings inp"] by (simp add: distinct_map)
  then have "distinct (map fst ?top)" by (metis take_map distinct_take)
  moreover have "sorted (map (\<lambda>e. - snd e) ?top)"
    by (metis take_map sorted_wrt_take sorted_sort_key)
  ultimately show ?thesis
    unfolding retrieve_ids ids rel using len by (simp add: distinct_map_filter sorted_filter)
qed

text \<open>A provider whose vectors all coincide, for the witnesses.\<close>

definition sample_env :: "nat retrieval_env" where
  "sample_env =
     \<lparr> re_provider = ''p'', re_model = ''m'',
       re_generate = (\<lambda>_. Some \<lparr> gv_provider = ''p'', gv_model = ''m'', gv_vector = 0 \<rparr>),
       re_dimensions = (\<lambda>_. EMBEDDING_DIMENSIONS), re_similarity = (\<lambda>_ _. 1),
       re_contentHash = (\<lambda>s. s), re_contains = (\<lambda>s t. sublist t s),
       re_maxSensitivity = memory_sensitivity.SECRET \<rparr>"

definition sample_retrieve_input :: retrieve_input where
  "sample_retrieve_input =
     \<lparr> in_userId = ''u1'', in_task = ''zebra'', in_requestedCategories = [], in_limit = 30 \<rparr>"

definition sample_embeddings :: "nat embedding list" where
  "sample_embeddings =
     snd (generateForMemory sample_env ''e1'' ''u1'' ''m1'' (v_memories sample_vault) [])"

lemma retrieve_within_request_witness:
  "distinct (map m_id (v_memories sample_vault))
   \<and> (\<exists>m. m \<in> set (retrieve sample_env 5 sample_vault sample_embeddings sample_retrieve_input)
        \<and> memory.truncate m \<in> set (v_memories sample_vault)
        \<and> m_userId m = in_userId sample_retrieve_input
        \<and> retrievable 5 (in_requestedCategories sample_retrieve_input) (memory.truncate m))"
proof -
  have d: "distinct (map m_id (v_memories sample_vault))" by (simp add: sample_defs)
  have "retrieve sample_env 5 sample_vault sample_embeddings sample_retrieve_input \<noteq> []"
    by code_simp
  then obtain m where "m \<in> set (retrieve sample_env 5 sample_vault sample_embeddings sample_retrieve_input)"
    by (meson last_in_set)
  with d retrieve_within_request[OF d this] show ?thesis by blast
qed

text \<open>The text of a memory is edited: its title changes, so its content hash does.\<close>

definition edited_vault :: vault where
  "edited_vault = sample_vault \<lparr> v_memories := [sample_memory \<lparr> m_title := ''Pager'' \<rparr>] \<rparr>"

text \<open>Finding: an edit leaves the embedding of the old text beside the new one, both rows join in
  the vector query, and the merge adds their scores: with a similarity of 1 everywhere a memory no
  keyword matches is ranked 11/10, twice the semantic weight of a memory that was never edited.\<close>

theorem edited_memory_counts_stale_embedding:
  "map relevanceScore (retrieve sample_env 5 sample_vault sample_embeddings sample_retrieve_input)
     = [semanticWeight]
   \<and> map relevanceScore
       (retrieve sample_env 5 edited_vault
         (snd (generateForMemory sample_env ''e2'' ''u1'' ''m1'' (v_memories edited_vault) sample_embeddings))
         sample_retrieve_input) = [2 * semanticWeight]"
  by (intro conjI; code_simp)

end
