(* ===== verification/Bundle.thy ===== *)
theory Bundle
  imports Vault
begin

text \<open>
  \<open>memory-requests/bundle-compiler.service.ts\<close>: the token-budgeted bundle.  Scores are exact
  rationals here (doubles in the source); nothing but the rounding to three digits uses them.
\<close>

record bundle_candidate =
  bc_id :: ident
  bc_title :: string
  bc_body :: string
  bc_sensitivity :: memory_sensitivity
  bc_categories :: "ident list"
  bc_relevanceScore :: rat

record compiled_bundle =
  cb_items :: "bundle_item list"
  cb_estimatedTokens :: nat
  cb_instructions :: "string list"

definition formatMemory :: "bundle_candidate \<Rightarrow> string" where
  "formatMemory candidate = bc_title candidate @ '': '' @ bc_body candidate"

definition estimateTokens :: "string \<Rightarrow> nat" where
  "estimateTokens str = max 1 (ceil_div (length str) 4)"

definition clipToEstimatedTokens :: "string \<Rightarrow> nat \<Rightarrow> string" where
  "clipToEstimatedTokens str tokenBudget =
     (let maxCharacters = max 1 (tokenBudget * 4)
      in if length str \<le> maxCharacters then str
         else js_trimEnd (take (max 1 (maxCharacters - 1)) str))"

text \<open>\<open>Math.round(score * 1000) / 1000\<close>; \<open>Math.round\<close> rounds half up.\<close>

definition roundScore :: "rat \<Rightarrow> rat" where
  "roundScore score = of_int \<lfloor>score * 1000 + 1 / 2\<rfloor> / 1000"

definition bundle_item_of :: "bundle_candidate \<Rightarrow> string \<Rightarrow> nat \<Rightarrow> bundle_item" where
  "bundle_item_of candidate str tokens =
     \<lparr> bi_memoryId = bc_id candidate, bi_text = str,
       bi_category = (case bc_categories candidate of [] \<Rightarrow> None | key # _ \<Rightarrow> Some key),
       bi_sensitivity = bc_sensitivity candidate,
       bi_relevanceScore = Some (roundScore (bc_relevanceScore candidate)),
       bi_estimatedTokens = tokens \<rparr>"

text \<open>The loop of \<open>compile\<close>, with its accumulators \<open>items\<close> and \<open>estimatedTokens\<close>.\<close>

fun compile_loop :: "nat \<Rightarrow> bundle_candidate list \<Rightarrow> bundle_item list \<Rightarrow> nat \<Rightarrow> bundle_item list \<times> nat" where
  "compile_loop tokenBudget [] items estimatedTokens = (items, estimatedTokens)"
| "compile_loop tokenBudget (candidate # rest) items estimatedTokens =
     (let str = formatMemory candidate;
          itemTokens = estimateTokens str
      in if items \<noteq> [] \<and> estimatedTokens + itemTokens > tokenBudget
         then compile_loop tokenBudget rest items estimatedTokens
         else if itemTokens > tokenBudget
         then
           let clipped = clipToEstimatedTokens str tokenBudget;
               clippedTokens = estimateTokens clipped
           in compile_loop tokenBudget rest
                (items @ [bundle_item_of candidate clipped clippedTokens])
                (estimatedTokens + clippedTokens)
         else compile_loop tokenBudget rest
                (items @ [bundle_item_of candidate str itemTokens])
                (estimatedTokens + itemTokens))"

definition compile :: "bundle_candidate list \<Rightarrow> nat \<Rightarrow> compiled_bundle" where
  "compile candidates tokenBudget =
     (let (items, estimatedTokens) = compile_loop tokenBudget candidates [] 0
      in \<lparr> cb_items = items, cb_estimatedTokens = estimatedTokens,
           cb_instructions =
             [''Use this context only for the declared task.'',
              ''Do not retain or disclose this context beyond the declared retention.''] \<rparr>)"

section \<open>Token estimates\<close>

lemma estimateTokens_pos [simp]: "Suc 0 \<le> estimateTokens str" "0 < estimateTokens str"
  by (simp_all add: estimateTokens_def)

lemma estimateTokens_le: "length str \<le> 4 * b \<Longrightarrow> 1 \<le> b \<Longrightarrow> estimateTokens str \<le> b"
  by (simp add: estimateTokens_def ceil_div_def)

lemma length_clip: "1 \<le> b \<Longrightarrow> length (clipToEstimatedTokens str b) \<le> 4 * b"
proof -
  assume "1 \<le> b"
  have "length (js_trimEnd (take k str)) \<le> k" for k
    using length_js_trimEnd[of "take k str"] by simp
  from this[of "max 1 (b * 4 - 1)"] \<open>1 \<le> b\<close> show ?thesis
    by (auto simp: clipToEstimatedTokens_def Let_def)
qed

lemma estimateTokens_clip: "1 \<le> b \<Longrightarrow> estimateTokens (clipToEstimatedTokens str b) \<le> b"
  by (simp add: estimateTokens_le length_clip)

lemma clip_prefix: "prefix (clipToEstimatedTokens str b) str"
  by (auto simp: clipToEstimatedTokens_def Let_def intro: prefix_order.trans[OF js_trimEnd_prefix take_is_prefix])

lemma clip_nonempty:
  assumes "str \<noteq> []" "\<not> js_space (hd str)"
  shows "clipToEstimatedTokens str b \<noteq> []"
proof -
  have "js_trimEnd (take (max 1 k) str) \<noteq> []" for k
    using assms js_trimEnd_keeps_hd[of "take (max 1 k) str"] by (cases str) (auto simp: max_def)
  then show ?thesis using assms by (auto simp: clipToEstimatedTokens_def Let_def)
qed

section \<open>Loop invariants\<close>

definition item_sum :: "bundle_item list \<Rightarrow> nat" where
  "item_sum items = sum_list (map bi_estimatedTokens items)"

lemma item_sum_simps [simp]:
  "item_sum [] = 0" "item_sum (items @ [bundle_item_of c str n]) = item_sum items + n"
  by (simp_all add: item_sum_def bundle_item_of_def)

text \<open>One turn of the loop either skips the candidate, because it does not fit beside the items
  taken so far, or takes it, whole or clipped.\<close>

lemma compile_loop_ConsE:
  assumes "compile_loop b (c # cs) items est = r"
  obtains (skip) "items \<noteq> []" "b < est + estimateTokens (formatMemory c)"
      "compile_loop b cs items est = r"
    | (pick) str n where "str \<in> {formatMemory c, clipToEstimatedTokens (formatMemory c) b}"
      "n = estimateTokens str" "items = [] \<or> est + n \<le> b" "1 \<le> b \<Longrightarrow> n \<le> b"
      "compile_loop b cs (items @ [bundle_item_of c str n]) (est + n) = r"
proof (cases "items \<noteq> [] \<and> b < est + estimateTokens (formatMemory c)")
  case True
  then show thesis using assms skip by simp
next
  case fits: False
  show thesis
  proof (cases "b < estimateTokens (formatMemory c)")
    case True
    then have "items = []" using fits by auto
    with True fits assms show thesis
      by (intro pick[of "clipToEstimatedTokens (formatMemory c) b"
            "estimateTokens (clipToEstimatedTokens (formatMemory c) b)"])
        (auto simp: Let_def estimateTokens_clip)
  next
    case False
    with fits assms show thesis
      by (intro pick[of "formatMemory c" "estimateTokens (formatMemory c)"]) (auto simp: Let_def)
  qed
qed

lemma compile_loop_sum:
  "compile_loop b cs items est = (items', est') \<Longrightarrow> est = item_sum items \<Longrightarrow> est' = item_sum items'"
proof (induction cs arbitrary: items est)
  case (Cons c cs)
  from Cons.prems(1) show ?case
  proof (cases rule: compile_loop_ConsE)
    case skip
    then show ?thesis using Cons.IH Cons.prems(2) by blast
  next
    case (pick str n)
    then show ?thesis using Cons.IH[OF pick(5)] Cons.prems(2) by simp
  qed
qed simp

lemma compile_loop_budget:
  "compile_loop b cs items est = (items', est') \<Longrightarrow> 1 \<le> b \<Longrightarrow> est \<le> b \<Longrightarrow> (items = [] \<Longrightarrow> est = 0)
    \<Longrightarrow> est' \<le> b"
proof (induction cs arbitrary: items est)
  case (Cons c cs)
  from Cons.prems(1) show ?case
  proof (cases rule: compile_loop_ConsE)
    case skip
    then show ?thesis using Cons by blast
  next
    case (pick str n)
    then have "est + n \<le> b" using Cons.prems by auto
    then show ?thesis using Cons.IH[OF pick(5)] Cons.prems by simp
  qed
qed simp

lemma compile_loop_prefix:
  "compile_loop b cs items est = (items', est') \<Longrightarrow> prefix items items'"
proof (induction cs arbitrary: items est)
  case (Cons c cs)
  from Cons.prems(1) show ?case
    by (cases rule: compile_loop_ConsE) (auto dest: Cons.IH append_prefixD)
qed simp

lemma compile_loop_ids:
  "compile_loop b cs items est = (items', est') \<Longrightarrow>
    \<exists>ids. map bi_memoryId items' = map bi_memoryId items @ ids \<and> subseq ids (map bc_id cs)"
proof (induction cs arbitrary: items est)
  case (Cons c cs)
  from Cons.prems(1) show ?case
  proof (cases rule: compile_loop_ConsE)
    case skip
    then show ?thesis using Cons.IH by fastforce
  next
    case (pick str n)
    from Cons.IH[OF pick(5)] obtain ids where
      "map bi_memoryId items' = map bi_memoryId items @ bc_id c # ids" "subseq ids (map bc_id cs)"
      by (auto simp: bundle_item_of_def)
    then show ?thesis by (intro exI[of _ "bc_id c # ids"]) simp
  qed
qed simp

text \<open>Where an item comes from: a candidate, whole or clipped, with its own token count.\<close>

definition item_from :: "nat \<Rightarrow> bundle_candidate list \<Rightarrow> bundle_item \<Rightarrow> bool" where
  "item_from b cs it = (\<exists>c\<in>set cs. \<exists>str\<in>{formatMemory c, clipToEstimatedTokens (formatMemory c) b}.
     it = bundle_item_of c str (estimateTokens str))"

lemma compile_loop_item:
  "compile_loop b cs items est = (items', est') \<Longrightarrow> it \<in> set items' \<Longrightarrow> it \<in> set items \<or> item_from b cs it"
proof (induction cs arbitrary: items est)
  case (Cons c cs)
  have mono: "item_from b cs it \<Longrightarrow> item_from b (c # cs) it" by (auto simp: item_from_def)
  from Cons.prems(1) show ?case
  proof (cases rule: compile_loop_ConsE)
    case skip
    then show ?thesis using Cons.IH Cons.prems(2) mono by blast
  next
    case (pick str n)
    from Cons.IH[OF pick(5) Cons.prems(2)] mono pick(1,2) show ?thesis
      by (auto simp: item_from_def)
  qed
qed simp

text \<open>A candidate the loop leaves out does not fit: not when it is seen, hence not at the end.\<close>

lemma compile_loop_mono: "compile_loop b cs items est = (items', est') \<Longrightarrow> est \<le> est'"
proof (induction cs arbitrary: items est)
  case (Cons c cs)
  from Cons.prems(1) show ?case
    by (cases rule: compile_loop_ConsE) (auto dest: Cons.IH)
qed simp

lemma compile_loop_maximal:
  "compile_loop b cs items est = (items', est') \<Longrightarrow> c \<in> set cs \<Longrightarrow>
    bc_id c \<notin> bi_memoryId ` set items' \<Longrightarrow> b < est' + estimateTokens (formatMemory c)"
proof (induction cs arbitrary: items est)
  case (Cons d cs)
  from Cons.prems(1) show ?case
  proof (cases rule: compile_loop_ConsE)
    case skip
    then have "est \<le> est'" using compile_loop_mono by blast
    then show ?thesis using Cons skip by auto
  next
    case (pick str n)
    from compile_loop_prefix[OF pick(5)] have "bundle_item_of d str n \<in> set items'"
      by (auto simp: prefix_def)
    then have "bc_id d \<in> bi_memoryId ` set items'" by (force simp: bundle_item_of_def)
    then show ?thesis using Cons.IH[OF pick(5)] Cons.prems by auto
  qed
qed simp

section \<open>What a compiled bundle guarantees\<close>

lemma compile_loop_eq:
  "compile_loop b cs [] 0 = (cb_items (compile cs b), cb_estimatedTokens (compile cs b))"
  by (simp add: compile_def split_beta Let_def)

lemma compile_item_from: "it \<in> set (cb_items (compile cs b)) \<Longrightarrow> item_from b cs it"
  using compile_loop_item[OF compile_loop_eq] by fastforce

lemma compile_ids: "subseq (map bi_memoryId (cb_items (compile cs b))) (map bc_id cs)"
  using compile_loop_ids[OF compile_loop_eq[of b cs]] by simp

lemma compile_item_origin:
  "it \<in> set (cb_items (compile cs b)) \<Longrightarrow>
    \<exists>c\<in>set cs. bc_id c = bi_memoryId it \<and> prefix (bi_text it) (formatMemory c)"
  using compile_item_from[of it] by (fastforce simp: item_from_def bundle_item_of_def clip_prefix)

text \<open>C37. A bundle respects its token budget: the estimates of its items are those of their texts,
  they add up to the reported total, and the total is at most the budget.\<close>

theorem bundle_within_budget:
  assumes "1 \<le> tokenBudget"
  shows "cb_estimatedTokens (compile candidates tokenBudget) \<le> tokenBudget
    \<and> cb_estimatedTokens (compile candidates tokenBudget)
        = item_sum (cb_items (compile candidates tokenBudget))
    \<and> (\<forall>it\<in>set (cb_items (compile candidates tokenBudget)).
          bi_estimatedTokens it = estimateTokens (bi_text it))"
  using compile_loop_budget[OF compile_loop_eq assms] compile_loop_sum[OF compile_loop_eq]
    compile_item_from
  by (fastforce simp: item_from_def bundle_item_of_def)

definition sample_candidates :: "bundle_candidate list" where
  "sample_candidates =
     [\<lparr> bc_id = ''a'', bc_title = ''Editor'', bc_body = ''Uses vim for everything'',
        bc_sensitivity = memory_sensitivity.LOW, bc_categories = [''work''],
        bc_relevanceScore = 1 / 3 \<rparr>,
      \<lparr> bc_id = ''b'', bc_title = ''Tea'', bc_body = ''Green'',
        bc_sensitivity = memory_sensitivity.LOW, bc_categories = [], bc_relevanceScore = 1 / 5 \<rparr>]"

lemma bundle_within_budget_witness:
  "cb_estimatedTokens (compile sample_candidates 4) \<le> 4
    \<and> cb_estimatedTokens (compile sample_candidates 4) = item_sum (cb_items (compile sample_candidates 4))"
  using bundle_within_budget[of 4 sample_candidates] by simp

text \<open>The bundle is maximal and keeps the ranking: its items are candidates in candidate order,
  each with a prefix of its candidate's text, and a candidate that is left out does not fit into
  what the budget leaves.\<close>

theorem bundle_maximal:
  "subseq (map bi_memoryId (cb_items (compile candidates tokenBudget))) (map bc_id candidates)
   \<and> (\<forall>it\<in>set (cb_items (compile candidates tokenBudget)).
        \<exists>c\<in>set candidates. bc_id c = bi_memoryId it \<and> prefix (bi_text it) (formatMemory c))
   \<and> (\<forall>c\<in>set candidates. bc_id c \<notin> bi_memoryId ` set (cb_items (compile candidates tokenBudget))
        \<longrightarrow> tokenBudget < cb_estimatedTokens (compile candidates tokenBudget)
                          + estimateTokens (formatMemory c))"
proof (intro conjI ballI impI)
  show "subseq (map bi_memoryId (cb_items (compile candidates tokenBudget))) (map bc_id candidates)"
    by (rule compile_ids)
  fix it assume "it \<in> set (cb_items (compile candidates tokenBudget))"
  then show "\<exists>c\<in>set candidates. bc_id c = bi_memoryId it \<and> prefix (bi_text it) (formatMemory c)"
    by (rule compile_item_origin)
next
  fix c assume "c \<in> set candidates"
    "bc_id c \<notin> bi_memoryId ` set (cb_items (compile candidates tokenBudget))"
  then show "tokenBudget < cb_estimatedTokens (compile candidates tokenBudget)
                          + estimateTokens (formatMemory c)"
    by (rule compile_loop_maximal[OF compile_loop_eq])
qed

lemma bundle_maximal_witness:
  "subseq (map bi_memoryId (cb_items (compile sample_candidates 7))) (map bc_id sample_candidates)
   \<and> 7 < cb_estimatedTokens (compile sample_candidates 7) + estimateTokens (formatMemory (sample_candidates ! 1))"
proof -
  have "sample_candidates ! 1 \<in> set sample_candidates"
    "bc_id (sample_candidates ! 1) \<notin> bi_memoryId ` set (cb_items (compile sample_candidates 7))"
    by (simp_all add: sample_candidates_def compile_def bundle_item_of_def estimateTokens_def
        formatMemory_def ceil_div_def clipToEstimatedTokens_def js_trimEnd_def js_space_def Let_def)
  then show ?thesis using bundle_maximal[of sample_candidates 7] by blast
qed

text \<open>\<open>memoryBundleItemSchema\<close>: what a stored snapshot's item must satisfy to be read back.\<close>

definition bundle_item_ok :: "bundle_item \<Rightarrow> bool" where
  "bundle_item_ok it =
     (bi_memoryId it \<noteq> [] \<and> bi_text it \<noteq> []
      \<and> (case bi_relevanceScore it of None \<Rightarrow> True | Some s \<Rightarrow> s \<ge> 0)
      \<and> bi_estimatedTokens it \<ge> 1)"

lemma roundScore_nonneg: "0 \<le> s \<Longrightarrow> 0 \<le> roundScore s"
  by (simp add: roundScore_def)

lemma bundle_items_ok:
  assumes "\<And>c. c \<in> set candidates \<Longrightarrow>
      bc_id c \<noteq> [] \<and> bc_title c \<noteq> [] \<and> \<not> js_space (hd (bc_title c)) \<and> 0 \<le> bc_relevanceScore c"
    and "it \<in> set (cb_items (compile candidates tokenBudget))"
  shows "bundle_item_ok it"
proof -
  from compile_item_from[OF assms(2)] obtain c str where c: "c \<in> set candidates"
    and str: "str \<in> {formatMemory c, clipToEstimatedTokens (formatMemory c) tokenBudget}"
    and it: "it = bundle_item_of c str (estimateTokens str)"
    by (auto simp: item_from_def)
  have "formatMemory c \<noteq> []" "\<not> js_space (hd (formatMemory c))"
    using assms(1)[OF c] by (auto simp: formatMemory_def)
  then have "str \<noteq> []" using str clip_nonempty[of "formatMemory c" tokenBudget] by fastforce
  then show ?thesis
    using assms(1)[OF c] by (simp add: it bundle_item_ok_def bundle_item_of_def roundScore_nonneg)
qed

end
