(* ===== verification/Requests.thy ===== *)
theory Requests
  imports Retrieval Bundle
begin

text \<open>
  \<open>memory-requests/memory-requests.service.ts\<close> and \<open>disclosure-metadata.ts\<close>: a client asks for a
  memory bundle.  The service first asks the gate and retrieves candidates (\<open>plan_bundle\<close>, on the
  database it sees then), and later commits in one transaction (\<open>commit_bundle\<close>) on the database
  it finds then: live rows, live permissions, the request row, its items and its audit event.
\<close>

section \<open>Names in metadata\<close>

primrec reason_name :: "memory_request_reason \<Rightarrow> string" where
  "reason_name unknown_or_blocked_client = ''unknown_or_blocked_client''"
| "reason_name no_client_policy = ''no_client_policy''"
| "reason_name policy_expired = ''policy_expired''"
| "reason_name operation_not_allowed = ''operation_not_allowed''"
| "reason_name no_matching_memories = ''no_matching_memories''"
| "reason_name no_allowed_memories = ''no_allowed_memories''"
| "reason_name confirmation_required = ''confirmation_required''"
| "reason_name policy_changed = ''policy_changed''"
| "reason_name inactive_memory = ''inactive_memory''"
| "reason_name unapproved_memory = ''unapproved_memory''"
| "reason_name expired_memory = ''expired_memory''"
| "reason_name above_sensitivity_ceiling = ''above_sensitivity_ceiling''"
| "reason_name denied_category = ''denied_category''"
| "reason_name category_not_allowed = ''category_not_allowed''"

primrec retention_name :: "client_retention \<Rightarrow> string" where
  "retention_name client_retention.NO_STORAGE = ''NO_STORAGE''"
| "retention_name client_retention.SESSION = ''SESSION''"
| "retention_name client_retention.PERSISTENT = ''PERSISTENT''"
| "retention_name client_retention.UNKNOWN = ''UNKNOWN''"

primrec decision_name :: "decision \<Rightarrow> string" where
  "decision_name ALLOW = ''ALLOW''"
| "decision_name NEEDS_CONFIRMATION = ''NEEDS_CONFIRMATION''"
| "decision_name DENY = ''DENY''"

definition json_version :: "time option \<Rightarrow> json" where
  "json_version v = (case v of None \<Rightarrow> JNull | Some t \<Rightarrow> JTime t)"

text \<open>\<open>disclosureMetadata\<close>: one shape for immediate and for one-time deliveries.\<close>

definition disclosureMetadata ::
  "memory_request \<Rightarrow> string \<Rightarrow> ident list \<Rightarrow> nat \<Rightarrow> (ident \<times> memory_request_reason) list \<Rightarrow> bool
     \<Rightarrow> audit_metadata" where
  "disclosureMetadata request transport memoryIds estimatedTokens denied oneTimeApproval =
     no_metadata
       \<lparr> am_requestId := Some (r_id request),
         am_clientId := Some (r_clientId request),
         am_policyId := r_policyId request,
         am_memoryIds := memoryIds,
         am_denied := map (\<lambda>(i, reason). (i, Some (reason_name reason))) denied,
         am_details :=
           [(''operation'', JStr ''READ''),
            (''task'', JStr (r_task request)),
            (''statedPurpose'', json_opt (r_statedPurpose request)),
            (''policyVersion'', json_version (r_policyVersion request)),
            (''decision'', JStr ''ALLOW''),
            (''reason'', JNull),
            (''requiresConfirmation'', JBool oneTimeApproval),
            (''transport'', JStr transport),
            (''requestedCategories'', json_strings (r_requestedCategories request)),
            (''retention'', JStr (retention_name (r_retention request))),
            (''thirdPartyProcessors'', json_strings (r_thirdPartyProcessors request)),
            (''tokenBudget'', JNum (of_nat (r_tokenBudget request))),
            (''estimatedTokens'', JNum (of_nat estimatedTokens)),
            (''oneTimeApproval'', JBool oneTimeApproval)] \<rparr>"

section \<open>Requests and responses\<close>

text \<open>\<open>CreateMemoryBundleRequest\<close>\<close>

record bundle_body =
  bq_purpose :: "string option"
  bq_task :: string
  bq_requestedCategories :: "ident list"
  bq_retention :: client_retention
  bq_thirdPartyProcessors :: "string list"
  bq_tokenBudget :: nat

text \<open>\<open>createMemoryBundleRequestSchema\<close>, on already trimmed strings.\<close>

definition bundle_body_ok :: "bundle_body \<Rightarrow> bool" where
  "bundle_body_ok b =
     (bq_task b \<noteq> [] \<and> length (bq_task b) \<le> il_task memoryInputLimits
      \<and> length (bq_requestedCategories b) \<le> il_requestedCategories memoryInputLimits
      \<and> (\<forall>c\<in>set (bq_requestedCategories b). c \<noteq> [])
      \<and> length (bq_thirdPartyProcessors b) \<le> il_processors memoryInputLimits
      \<and> (\<forall>p\<in>set (bq_thirdPartyProcessors b). p \<noteq> [] \<and> length p \<le> il_processorName memoryInputLimits)
      \<and> il_tokenBudgetMin memoryInputLimits \<le> bq_tokenBudget b
      \<and> bq_tokenBudget b \<le> il_tokenBudgetMax memoryInputLimits)"

text \<open>\<open>MemoryRequestBundleResponse\<close>\<close>

record bundle_response =
  br_requestId :: ident
  br_status :: memory_request_status
  br_policyId :: "ident option"
  br_reason :: "memory_request_reason option"
  br_tokenBudget :: nat
  br_estimatedTokens :: nat
  br_items :: "bundle_item list"
  br_instructions :: "string list"
  br_denied :: "(ident \<times> memory_request_reason) list"
  br_auditEventId :: "ident option"

definition request_item_of :: "ident \<Rightarrow> bundle_item \<Rightarrow> memory_request_item" where
  "request_item_of requestId it =
     \<lparr> ri_memoryRequestId = requestId, ri_memoryId = bi_memoryId it, ri_text = bi_text it,
       ri_categoryKey = bi_category it, ri_sensitivity = bi_sensitivity it,
       ri_relevanceScore = bi_relevanceScore it \<rparr>"

definition as_bundle_candidate :: "retrieved_memory \<Rightarrow> bundle_candidate" where
  "as_bundle_candidate m =
     \<lparr> bc_id = m_id m, bc_title = m_title m, bc_body = m_body m, bc_sensitivity = m_sensitivity m,
       bc_categories = map cat_key (m_categories m), bc_relevanceScore = relevanceScore m \<rparr>"

section \<open>The two phases\<close>

definition plan_bundle ::
  "'v retrieval_env \<Rightarrow> time \<Rightarrow> vault \<Rightarrow> 'v embedding list \<Rightarrow> ident \<Rightarrow> ident \<Rightarrow> bundle_body
     \<Rightarrow> authority \<times> retrieved_memory list" where
  "plan_bundle env now db embeddings userId clientId request =
     (let gate = evaluateForClient now db userId clientId policy_operation.READ
                   (None :: memory list option)
      in (gate,
          if pr_decision gate = DENY then []
          else retrieve env now db embeddings
                 \<lparr> in_userId = userId, in_task = bq_task request,
                   in_requestedCategories = bq_requestedCategories request, in_limit = 30 \<rparr>))"

text \<open>The candidates with their live rows, in candidate order.\<close>

definition current_candidates :: "vault \<Rightarrow> ident \<Rightarrow> retrieved_memory list \<Rightarrow> retrieved_memory list" where
  "current_candidates db userId candidates =
     List.map_filter
       (\<lambda>c. map_option (\<lambda>m. with_score m (relevanceScore c))
          (find_row (\<lambda>m. m_id m = m_id c \<and> m_userId m = userId) (v_memories db)))
       candidates"

definition bundle_policy ::
  "time \<Rightarrow> vault \<Rightarrow> ident \<Rightarrow> ident \<Rightarrow> authority \<Rightarrow> retrieved_memory list \<Rightarrow> authority" where
  "bundle_policy now db userId clientId gate current =
     (if pr_decision gate = DENY then gate
      else evaluateForClient now db userId clientId policy_operation.READ (Some current))"

definition bundle_status :: "decision \<Rightarrow> memory_request_status" where
  "bundle_status d =
     (case d of
        ALLOW \<Rightarrow> memory_request_status.FULFILLED
      | NEEDS_CONFIRMATION \<Rightarrow> memory_request_status.NEEDS_USER_APPROVAL
      | DENY \<Rightarrow> memory_request_status.DENIED)"

definition new_request ::
  "time \<Rightarrow> ident \<Rightarrow> ident \<Rightarrow> ident \<Rightarrow> bundle_body \<Rightarrow> authority \<Rightarrow> memory_request" where
  "new_request now i userId clientId request policy =
     (let status = bundle_status (pr_decision policy)
      in \<lparr> r_id = i, r_userId = userId, r_clientId = clientId,
           r_statedPurpose = bq_purpose request, r_policyId = pr_policyId policy,
           r_policyVersion = au_policyVersion policy, r_decisionReason = pr_reason policy,
           r_task = bq_task request, r_status = status, r_tokenBudget = bq_tokenBudget request,
           r_requestedCategories = bq_requestedCategories request,
           r_retention = bq_retention request,
           r_thirdPartyProcessors = bq_thirdPartyProcessors request,
           r_reviewSnapshot = None, r_approvalExpiresAt = None,
           r_approvedAt = (if status = memory_request_status.FULFILLED then Some now else None),
           r_deniedAt = (if status = memory_request_status.DENIED then Some now else None),
           r_fulfilledAt = (if status = memory_request_status.FULFILLED then Some now else None),
           r_createdAt = now, r_updatedAt = now \<rparr>)"

definition request_subjects :: "ident \<Rightarrow> ident \<Rightarrow> authority \<Rightarrow> audit_subject list" where
  "request_subjects requestId clientId policy =
     [subject audit_subject_type.MEMORY_REQUEST (Some requestId) audit_subject_role.REQUEST,
      subject audit_subject_type.CLIENT (Some clientId) audit_subject_role.CLIENT,
      subject audit_subject_type.POLICY (pr_policyId policy) audit_subject_role.POLICY
        \<lparr>sj_label := Some (appPermissionsLabel (map_option c_name (au_client policy)))\<rparr>]"

definition denied_event :: "ident \<Rightarrow> ident \<Rightarrow> ident \<Rightarrow> bundle_body \<Rightarrow> authority \<Rightarrow> audit_event_input" where
  "denied_event userId clientId requestId request policy =
     \<lparr> ai_userId = userId, ai_clientId = Some clientId, ai_memoryRequestId = Some requestId,
       ai_type = audit_event_type.MEMORY_REQUEST_DENIED, ai_actorType = audit_actor_type.CLIENT,
       ai_actorId = Some clientId,
       ai_metadata = no_metadata
         \<lparr> am_policyId := pr_policyId policy,
           am_details :=
             [(''statedPurpose'', json_opt (bq_purpose request)),
              (''task'', JStr (bq_task request)),
              (''operation'', JStr ''READ''),
              (''policyVersion'', json_version (au_policyVersion policy)),
              (''decision'', JStr (decision_name (pr_decision policy))),
              (''reason'', json_opt (map_option reason_name (pr_reason policy))),
              (''requiresConfirmation'', JBool (pr_requiresConfirmation policy))] \<rparr>,
       ai_subjects = request_subjects requestId clientId policy,
       ai_inferSubjects = True \<rparr>"

definition disclosure_event ::
  "ident \<Rightarrow> ident \<Rightarrow> string \<Rightarrow> memory_request \<Rightarrow> authority \<Rightarrow> compiled_bundle \<Rightarrow> audit_event_input" where
  "disclosure_event userId clientId transport row policy bundle =
     \<lparr> ai_userId = userId, ai_clientId = Some clientId, ai_memoryRequestId = Some (r_id row),
       ai_type = audit_event_type.MEMORY_DISCLOSURE, ai_actorType = audit_actor_type.CLIENT,
       ai_actorId = Some clientId,
       ai_metadata = disclosureMetadata row transport (map bi_memoryId (cb_items bundle))
         (cb_estimatedTokens bundle) (pr_denied policy) False,
       ai_subjects =
         request_subjects (r_id row) clientId policy
         @ map (\<lambda>it. subject audit_subject_type.MEMORY (Some (bi_memoryId it)) audit_subject_role.DISCLOSED)
             (cb_items bundle)
         @ map (\<lambda>(i, reason). subject audit_subject_type.MEMORY (Some i) audit_subject_role.DENIED
                  \<lparr>sj_metadata := [(''reason'', JStr (reason_name reason))]\<rparr>)
             (pr_denied policy),
       ai_inferSubjects = True \<rparr>"

definition allowed_bundle :: "retrieved_memory list \<Rightarrow> authority \<Rightarrow> nat \<Rightarrow> compiled_bundle" where
  "allowed_bundle current policy tokenBudget =
     compile (map as_bundle_candidate
                (filter (\<lambda>c. m_id c \<in> set (pr_allowedMemoryIds policy)) current)) tokenBudget"

text \<open>The transaction.  Its id draws are, in order, the request and the audit event.\<close>

definition commit_bundle ::
  "time \<Rightarrow> ident \<Rightarrow> ident \<Rightarrow> string \<Rightarrow> bundle_body \<Rightarrow> authority \<times> retrieved_memory list \<Rightarrow> vault
     \<Rightarrow> bundle_response \<times> vault" where
  "commit_bundle now userId clientId transport request plan db =
     (let gate = fst plan;
          current = (if pr_decision gate = DENY then [] else current_candidates db userId (snd plan));
          policy = bundle_policy now db userId clientId gate current;
          status = bundle_status (pr_decision policy);
          requestId = next_id db;
          row = new_request now requestId userId clientId request policy;
          db1 = draw_id db \<lparr> v_requests := v_requests db @ [row] \<rparr>;
          empty = \<lparr> br_requestId = requestId, br_status = status, br_policyId = pr_policyId policy,
                    br_reason = pr_reason policy, br_tokenBudget = bq_tokenBudget request,
                    br_estimatedTokens = 0, br_items = [], br_instructions = [],
                    br_denied = pr_denied policy, br_auditEventId = None \<rparr>
      in if status \<noteq> memory_request_status.FULFILLED
         then
           (if status = memory_request_status.DENIED
            then let (eventId, db2) = createAuditEvent now
                        (denied_event userId clientId requestId request policy) db1
                 in (empty \<lparr> br_auditEventId := Some eventId \<rparr>, db2)
            else (empty, db1))
         else
           let bundle = allowed_bundle current policy (bq_tokenBudget request);
               db2 = db1 \<lparr> v_requestItems := v_requestItems db1
                              @ map (request_item_of requestId) (cb_items bundle) \<rparr>;
               (eventId, db3) = createAuditEvent now
                  (disclosure_event userId clientId transport row policy bundle) db2
           in (empty \<lparr> br_items := cb_items bundle,
                       br_estimatedTokens := cb_estimatedTokens bundle,
                       br_instructions := cb_instructions bundle,
                       br_auditEventId := Some eventId \<rparr>, db3))"

text \<open>\<open>createBundleRequest\<close>: planned on one database, committed on the one found at commit.\<close>

definition createBundleRequest ::
  "'v retrieval_env \<Rightarrow> time \<Rightarrow> vault \<Rightarrow> 'v embedding list \<Rightarrow> time \<Rightarrow> vault
     \<Rightarrow> ident \<Rightarrow> ident \<Rightarrow> string \<Rightarrow> bundle_body \<Rightarrow> bundle_response \<times> vault" where
  "createBundleRequest env t1 db1 embeddings t2 db2 userId clientId transport request =
     commit_bundle t2 userId clientId transport request
       (plan_bundle env t1 db1 embeddings userId clientId request) db2"

section \<open>What a bundle request discloses\<close>

lemma current_candidates_elem:
  "m \<in> set (current_candidates db userId cs) \<Longrightarrow>
    memory.truncate m \<in> set (v_memories db) \<and> m_userId (memory.truncate m) = userId
    \<and> m_id (memory.truncate m) = m_id m"
  by (auto simp: current_candidates_def mem_map_filter dest!: find_row_SomeD)

lemma current_candidates_row:
  "m \<in> set (current_candidates db userId cs) \<Longrightarrow>
    find_row (\<lambda>r. m_id r = m_id m \<and> m_userId r = userId) (v_memories db) = Some (memory.truncate m)"
  by (auto simp: current_candidates_def mem_map_filter) (frule find_row_SomeD, simp)

lemma current_candidates_ids:
  "subseq (map m_id (current_candidates db userId cs)) (map m_id cs)"
  unfolding current_candidates_def
  by (induction cs) (auto split: option.split dest: find_row_SomeD)

lemma bundle_status_simps [simp]:
  "bundle_status d = memory_request_status.FULFILLED \<longleftrightarrow> d = ALLOW"
  "bundle_status d = memory_request_status.DENIED \<longleftrightarrow> d = DENY"
  by (cases d; simp add: bundle_status_def)+

lemma disclosable_truncate: "disclosable p now (memory.truncate m) = disclosable p now m"
  by (simp add: disclosable_def category_keys_def memory.defs)

text \<open>An allowing decision of the live gate on the current candidates.\<close>

lemma live_allow:
  assumes "pr_decision (evaluateForClient now db u c op (Some current)) = ALLOW"
    and "i \<in> set (pr_allowedMemoryIds (evaluateForClient now db u c op (Some current)))"
  obtains cl p m where "authorized db now u c op cl p" "\<not> p_requiresConfirmation p"
    "m \<in> set current" "m_id m = i" "disclosable p now m"
proof -
  from assms(2) policy_gate.gate_allowed obtain cl p m where m: "authorized db now u c op cl p"
    "m \<in> set current" "m_id m = i" "disclosable p now m" by blast
  have "\<not> p_requiresConfirmation p"
    using assms(1) unfolding evaluateForClient_authorized[OF m(1)]
    by (auto simp: evaluateCandidateMemories_def Let_def split_beta split: if_splits)
  with m that show thesis by blast
qed

lemma commit_items:
  assumes "fst (commit_bundle now u c tr request plan db) = res" "br_items res \<noteq> []"
  defines "policy \<equiv> bundle_policy now db u c (fst plan) (current_candidates db u (snd plan))"
  shows "pr_decision (fst plan) \<noteq> DENY" "pr_decision policy = ALLOW"
    "br_items res = cb_items (allowed_bundle (current_candidates db u (snd plan)) policy (bq_tokenBudget request))"
    "br_status res = memory_request_status.FULFILLED"
proof -
  show nd: "pr_decision (fst plan) \<noteq> DENY"
    using assms by (auto simp: commit_bundle_def bundle_policy_def Let_def split_beta)
  show al: "pr_decision policy = ALLOW"
    using assms nd by (auto simp: commit_bundle_def policy_def Let_def split_beta split: if_splits)
  show "br_items res = cb_items (allowed_bundle (current_candidates db u (snd plan)) policy (bq_tokenBudget request))"
    "br_status res = memory_request_status.FULFILLED"
    using assms(1) nd al[unfolded policy_def]
    by (auto simp: commit_bundle_def policy_def Let_def split_beta)
qed

text \<open>C1. No disclosure beyond the live policy: every item a bundle request returns is a memory of the
  owner as it stands at commit, which the policy in force at commit lets out without confirmation
  to an unblocked client of the owner, and the item's text is a prefix of that memory's text.\<close>

theorem bundle_discloses_only_allowed:
  assumes "it \<in> set (br_items (fst (createBundleRequest env t1 db1 embeddings t2 db2 userId clientId transport request)))"
  shows "\<exists>cl p. \<exists>m\<in>set (v_memories db2).
      authorized db2 t2 userId clientId policy_operation.READ cl p
      \<and> \<not> p_requiresConfirmation p
      \<and> m_id m = bi_memoryId it \<and> m_userId m = userId \<and> disclosable p t2 m
      \<and> prefix (bi_text it) (m_title m @ '': '' @ m_body m)"
proof -
  let ?plan = "plan_bundle env t1 db1 embeddings userId clientId request"
  let ?cur = "current_candidates db2 userId (snd ?plan)"
  let ?pol = "bundle_policy t2 db2 userId clientId (fst ?plan) ?cur"
  let ?res = "fst (commit_bundle t2 userId clientId transport request ?plan db2)"
  have it: "it \<in> set (br_items ?res)" using assms by (simp add: createBundleRequest_def)
  then have ne: "br_items ?res \<noteq> []" by auto
  note items = commit_items[OF refl ne]
  from it items(3) have "it \<in> set (cb_items (allowed_bundle ?cur ?pol (bq_tokenBudget request)))" by simp
  then obtain k where k: "k \<in> set ?cur" "m_id k \<in> set (pr_allowedMemoryIds ?pol)"
    and body: "m_id k = bi_memoryId it" "prefix (bi_text it) (m_title k @ '': '' @ m_body k)"
    unfolding allowed_bundle_def
    by (fastforce simp: as_bundle_candidate_def formatMemory_def dest: compile_item_origin)
  have pol: "?pol = evaluateForClient t2 db2 userId clientId policy_operation.READ (Some ?cur)"
    using items(1) by (simp add: bundle_policy_def)
  obtain cl p m where m: "authorized db2 t2 userId clientId policy_operation.READ cl p"
    "\<not> p_requiresConfirmation p" "m \<in> set ?cur" "m_id m = m_id k" "disclosable p t2 m"
    using live_allow[OF items(2)[unfolded pol] k(2)[unfolded pol]] by blast
  have same: "memory.truncate m = memory.truncate k"
    using current_candidates_row[OF m(3)] current_candidates_row[OF k(1)] m(4) by simp
  have "m_title k = m_title (memory.truncate m)" "m_body k = m_body (memory.truncate m)"
    unfolding same by (simp_all add: memory.defs)
  moreover have "disclosable p t2 (memory.truncate m)" using m(5) by (simp add: disclosable_truncate)
  ultimately show ?thesis
    using m(1,2) current_candidates_elem[OF m(3)] m(4) body by auto
qed

definition sample_body :: bundle_body where
  "sample_body =
     \<lparr> bq_purpose = None, bq_task = ''zebra'', bq_requestedCategories = [],
       bq_retention = client_retention.SESSION, bq_thirdPartyProcessors = [],
       bq_tokenBudget = 1200 \<rparr>"

abbreviation sample_request where
  "sample_request \<equiv> createBundleRequest sample_env 5 sample_vault sample_embeddings 6 sample_vault
     ''u1'' ''c1'' ''http_api'' sample_body"

lemma sample_request_items: "map bi_memoryId (br_items (fst sample_request)) = [''m1'']"
  by code_simp

lemma bundle_discloses_only_allowed_witness:
  "\<exists>it\<in>set (br_items (fst sample_request)). \<exists>cl p. \<exists>m\<in>set (v_memories sample_vault).
      authorized sample_vault 6 ''u1'' ''c1'' policy_operation.READ cl p
      \<and> \<not> p_requiresConfirmation p
      \<and> m_id m = bi_memoryId it \<and> m_userId m = ''u1'' \<and> disclosable p 6 m
      \<and> prefix (bi_text it) (m_title m @ '': '' @ m_body m)"
proof -
  obtain it where it: "it \<in> set (br_items (fst sample_request))"
    using sample_request_items by (cases "br_items (fst sample_request)") auto
  from bundle_discloses_only_allowed[OF it] it show ?thesis by blast
qed

section \<open>What a bundle request records\<close>

lemma commit_denied:
  assumes "pr_decision (bundle_policy now db u c (fst plan)
      (if pr_decision (fst plan) = DENY then [] else current_candidates db u (snd plan))) = DENY"
  obtains res db' ev where "commit_bundle now u c tr request plan db = (res, db')"
    "br_status res = memory_request_status.DENIED" "br_items res = []"
    "v_requestItems db' = v_requestItems db" "auditEvents db' = auditEvents db @ [ev]"
    "br_auditEventId res = Some (ae_id ev)" "ae_memoryRequestId ev = Some (br_requestId res)"
    "ae_type ev = audit_event_type.MEMORY_REQUEST_DENIED"
proof -
  let ?r = "commit_bundle now u c tr request plan db"
  let ?ev = "event_row now (next_id (draw_id db))
        (denied_event u c (next_id db) request (bundle_policy now db u c (fst plan)
      (if pr_decision (fst plan) = DENY then [] else current_candidates db u (snd plan))))"
  have "br_status (fst ?r) = memory_request_status.DENIED" "br_items (fst ?r) = []"
    "v_requestItems (snd ?r) = v_requestItems db" "auditEvents (snd ?r) = auditEvents db @ [?ev]"
    "br_auditEventId (fst ?r) = Some (ae_id ?ev)" "br_requestId (fst ?r) = next_id db"
    using assms
    by (simp_all add: commit_bundle_def Let_def split_beta audit_simps draw_id_def next_id_def)
  moreover have "ae_memoryRequestId ?ev = Some (next_id db)"
    "ae_type ?ev = audit_event_type.MEMORY_REQUEST_DENIED"
    by (simp_all add: denied_event_def)
  ultimately show thesis using that[of "fst ?r" "snd ?r" ?ev] by simp
qed

lemma commit_row:
  "\<exists>row. v_requests (snd (commit_bundle now u c tr request plan db)) = v_requests db @ [row]
     \<and> r_id row = br_requestId (fst (commit_bundle now u c tr request plan db))
     \<and> r_status row = br_status (fst (commit_bundle now u c tr request plan db))
     \<and> r_policyId row = br_policyId (fst (commit_bundle now u c tr request plan db))
     \<and> r_userId row = u \<and> r_clientId row = c"
  by (simp add: commit_bundle_def Let_def split_beta audit_simps draw_id_def new_request_def)

lemma commit_confirm:
  assumes "pr_decision (bundle_policy now db u c (fst plan)
      (if pr_decision (fst plan) = DENY then [] else current_candidates db u (snd plan))) = NEEDS_CONFIRMATION"
  shows "br_status (fst (commit_bundle now u c tr request plan db)) = memory_request_status.NEEDS_USER_APPROVAL"
    "br_items (fst (commit_bundle now u c tr request plan db)) = []"
    "v_requestItems (snd (commit_bundle now u c tr request plan db)) = v_requestItems db"
    "auditEvents (snd (commit_bundle now u c tr request plan db)) = auditEvents db"
    "br_auditEventId (fst (commit_bundle now u c tr request plan db)) = None"
  using assms by (simp_all add: commit_bundle_def Let_def split_beta draw_id_def bundle_status_def)

lemma commit_allowed:
  assumes "pr_decision (bundle_policy now db u c (fst plan)
      (if pr_decision (fst plan) = DENY then [] else current_candidates db u (snd plan))) = ALLOW"
  obtains res db' inp where "commit_bundle now u c tr request plan db = (res, db')"
    "br_status res = memory_request_status.FULFILLED"
    "v_requestItems db' = v_requestItems db @ map (request_item_of (br_requestId res)) (br_items res)"
    "br_auditEventId res = Some (next_id (draw_id db))"
    "auditEvents db' = auditEvents db @ [event_row now (next_id (draw_id db)) inp]"
    "auditEventSubjects db' = auditEventSubjects db
       @ map (subject_row_of u (next_id (draw_id db))) (event_subjects inp)"
    "ai_memoryRequestId inp = Some (br_requestId res)"
    "ai_type inp = audit_event_type.MEMORY_DISCLOSURE" "ai_inferSubjects inp"
    "am_memoryIds (ai_metadata inp) = map bi_memoryId (br_items res)"
proof -
  let ?cur = "if pr_decision (fst plan) = DENY then [] else current_candidates db u (snd plan)"
  let ?pol = "bundle_policy now db u c (fst plan) ?cur"
  let ?inp = "disclosure_event u c tr (new_request now (next_id db) u c request ?pol) ?pol
      (allowed_bundle ?cur ?pol (bq_tokenBudget request))"
  let ?r = "commit_bundle now u c tr request plan db"
  have "br_status (fst ?r) = memory_request_status.FULFILLED" "br_requestId (fst ?r) = next_id db"
    "br_items (fst ?r) = cb_items (allowed_bundle ?cur ?pol (bq_tokenBudget request))"
    "v_requestItems (snd ?r) = v_requestItems db @ map (request_item_of (next_id db)) (br_items (fst ?r))"
    "br_auditEventId (fst ?r) = Some (next_id (draw_id db))"
    "auditEvents (snd ?r) = auditEvents db @ [event_row now (next_id (draw_id db)) ?inp]"
    "auditEventSubjects (snd ?r) = auditEventSubjects db
       @ map (subject_row_of u (next_id (draw_id db))) (event_subjects ?inp)"
    using assms
    by (simp_all add: commit_bundle_def Let_def split_beta audit_simps draw_id_def next_id_def disclosure_event_def)
  then show thesis
    using that[of "fst ?r" "snd ?r" ?inp]
    by (simp add: disclosure_event_def disclosureMetadata_def new_request_def)
qed

lemma subject_rows_disclosed:
  assumes "ai_inferSubjects inp" "ai_type inp = audit_event_type.MEMORY_DISCLOSURE"
    and "i \<in> set (am_memoryIds (ai_metadata inp))" "i \<noteq> []"
  shows "\<exists>s\<in>set (map (subject_row_of u e) (event_subjects inp)). sr_parentId s = e
    \<and> subject_row_key s = (audit_subject_type.MEMORY, i, audit_subject_role.DISCLOSED)"
proof -
  from event_subjects_memory[OF assms(1,3,4,2)] obtain s where
    "s \<in> set (event_subjects inp)"
    "subject_key s = (audit_subject_type.MEMORY, i, audit_subject_role.DISCLOSED)" by fastforce
  then show ?thesis
    by (intro bexI[of _ "subject_row_of u e s"])
      (simp_all only: subject_row_key_of, simp_all add: subject_row_of_def)
qed

text \<open>The audit a bundle request leaves: no event while it waits for the owner, otherwise exactly one
  event of the request, of the type its outcome calls for.\<close>

definition audited_outcome :: "bundle_response \<Rightarrow> audit_event list \<Rightarrow> audit_event list \<Rightarrow> bool" where
  "audited_outcome res events events' =
     (if br_status res = memory_request_status.NEEDS_USER_APPROVAL
      then br_auditEventId res = None \<and> events' = events \<and> br_items res = []
      else (\<exists>ev. events' = events @ [ev] \<and> br_auditEventId res = Some (ae_id ev)
              \<and> ae_memoryRequestId ev = Some (br_requestId res)
              \<and> ae_type ev = (if br_status res = memory_request_status.FULFILLED
                              then audit_event_type.MEMORY_DISCLOSURE
                              else audit_event_type.MEMORY_REQUEST_DENIED)))"

text \<open>A bundle request is recorded in the transaction that answers it: one request row with the
  response's id and status, one item row per item returned, and the audit event of its outcome,
  with a DISCLOSED subject for every memory that was returned.\<close>

theorem bundle_recorded:
  "case createBundleRequest env t1 db1 embeddings t2 db2 userId clientId transport request of
     (res, db') \<Rightarrow>
       (\<exists>row. v_requests db' = v_requests db2 @ [row] \<and> r_id row = br_requestId res
          \<and> r_status row = br_status res)
       \<and> v_requestItems db' = v_requestItems db2 @ map (request_item_of (br_requestId res)) (br_items res)
       \<and> audited_outcome res (auditEvents db2) (auditEvents db')
       \<and> (\<forall>it\<in>set (br_items res). bi_memoryId it \<noteq> [] \<longrightarrow>
            (\<exists>s\<in>set (auditEventSubjects db'). Some (sr_parentId s) = br_auditEventId res
               \<and> subject_row_key s = (audit_subject_type.MEMORY, bi_memoryId it, audit_subject_role.DISCLOSED)))"
proof -
  let ?plan = "plan_bundle env t1 db1 embeddings userId clientId request"
  let ?cur = "if pr_decision (fst ?plan) = DENY then [] else current_candidates db2 userId (snd ?plan)"
  let ?pol = "bundle_policy t2 db2 userId clientId (fst ?plan) ?cur"
  let ?r = "commit_bundle t2 userId clientId transport request ?plan db2"
  have row: "\<exists>row. v_requests (snd ?r) = v_requests db2 @ [row] \<and> r_id row = br_requestId (fst ?r)
          \<and> r_status row = br_status (fst ?r)"
    using commit_row[of t2 userId clientId transport request ?plan db2] by blast
  show ?thesis
  proof (cases "pr_decision ?pol")
    case ALLOW
    then show ?thesis
    proof (rule commit_allowed[where tr = transport and request = request])
      fix res db' inp
      assume eq: "?r = (res, db')" and st: "br_status res = memory_request_status.FULFILLED"
        and its: "v_requestItems db' = v_requestItems db2 @ map (request_item_of (br_requestId res)) (br_items res)"
        and ev: "br_auditEventId res = Some (next_id (draw_id db2))"
          "auditEvents db' = auditEvents db2 @ [event_row t2 (next_id (draw_id db2)) inp]"
        and sub: "auditEventSubjects db' = auditEventSubjects db2
          @ map (subject_row_of userId (next_id (draw_id db2))) (event_subjects inp)"
        and inp: "ai_memoryRequestId inp = Some (br_requestId res)"
          "ai_type inp = audit_event_type.MEMORY_DISCLOSURE" "ai_inferSubjects inp"
          "am_memoryIds (ai_metadata inp) = map bi_memoryId (br_items res)"
      have "\<exists>s\<in>set (auditEventSubjects db'). Some (sr_parentId s) = br_auditEventId res
               \<and> subject_row_key s = (audit_subject_type.MEMORY, bi_memoryId it, audit_subject_role.DISCLOSED)"
        if "it \<in> set (br_items res)" "bi_memoryId it \<noteq> []" for it
        using subject_rows_disclosed[OF inp(3,2), of "bi_memoryId it" userId "next_id (draw_id db2)"] that
        by (auto simp: inp(4) sub ev(1))
      with row st its ev inp show ?thesis
        by (auto simp: createBundleRequest_def eq audited_outcome_def)
    qed
  next
    case NEEDS_CONFIRMATION
    from commit_confirm[OF this, where tr = transport and request = request] row show ?thesis
      by (simp add: createBundleRequest_def split_beta audited_outcome_def)
  next
    case DENY
    then show ?thesis
    proof (rule commit_denied[where tr = transport and request = request])
      fix res db' ev
      assume "?r = (res, db')" "br_status res = memory_request_status.DENIED" "br_items res = []"
        "v_requestItems db' = v_requestItems db2" "auditEvents db' = auditEvents db2 @ [ev]"
        "br_auditEventId res = Some (ae_id ev)" "ae_memoryRequestId ev = Some (br_requestId res)"
        "ae_type ev = audit_event_type.MEMORY_REQUEST_DENIED"
      with row show ?thesis by (simp add: createBundleRequest_def audited_outcome_def)
    qed
  qed
qed

lemma bundle_recorded_witness:
  "\<exists>it\<in>set (br_items (fst sample_request)). bi_memoryId it \<noteq> []
     \<and> (\<exists>s\<in>set (auditEventSubjects (snd sample_request)).
          Some (sr_parentId s) = br_auditEventId (fst sample_request)
          \<and> subject_row_key s = (audit_subject_type.MEMORY, bi_memoryId it, audit_subject_role.DISCLOSED))"
proof -
  obtain it where it: "it \<in> set (br_items (fst sample_request))" "bi_memoryId it \<noteq> []"
    using sample_request_items by (cases "br_items (fst sample_request)") auto
  with bundle_recorded[where env = sample_env and ?t1.0 = 5 and ?db1.0 = sample_vault
      and embeddings = sample_embeddings and ?t2.0 = 6 and ?db2.0 = sample_vault
      and userId = "''u1''" and clientId = "''c1''" and transport = "''http_api''"
      and request = sample_body]
  show ?thesis unfolding split_beta by blast
qed

text \<open>What a bundle request returns fits the budget the caller asked for.\<close>

theorem bundle_request_within_budget:
  assumes "bundle_body_ok request"
  shows "br_estimatedTokens (fst (createBundleRequest env t1 db1 embeddings t2 db2 userId clientId transport request))
       \<le> bq_tokenBudget request
    \<and> item_sum (br_items (fst (createBundleRequest env t1 db1 embeddings t2 db2 userId clientId transport request)))
       = br_estimatedTokens (fst (createBundleRequest env t1 db1 embeddings t2 db2 userId clientId transport request))"
proof -
  have b: "1 \<le> bq_tokenBudget request"
    using assms by (simp add: bundle_body_ok_def memoryInputLimits_def)
  let ?cs = "\<lambda>current policy. map as_bundle_candidate
                (filter (\<lambda>c. m_id c \<in> set (pr_allowedMemoryIds policy)) current)"
  have "cb_estimatedTokens (compile cs (bq_tokenBudget request)) \<le> bq_tokenBudget request"
    "item_sum (cb_items (compile cs (bq_tokenBudget request))) = cb_estimatedTokens (compile cs (bq_tokenBudget request))"
    for cs
    using compile_loop_budget[OF compile_loop_eq b, of cs]
      compile_loop_sum[OF compile_loop_eq[of "bq_tokenBudget request" cs]] by auto
  then show ?thesis
    by (simp add: createBundleRequest_def commit_bundle_def Let_def split_beta allowed_bundle_def)
qed

lemma bundle_request_within_budget_witness:
  "br_estimatedTokens (fst sample_request) \<le> bq_tokenBudget sample_body
    \<and> item_sum (br_items (fst sample_request)) = br_estimatedTokens (fst sample_request)"
  by (rule bundle_request_within_budget)
    (simp add: bundle_body_ok_def sample_body_def memoryInputLimits_def)

end
