(* ===== verification/Disclosure.thy ===== *)
theory Disclosure
  imports Requests
begin

text \<open>
  The review of sharing requests: \<open>disclosure-context.ts\<close>, \<open>disclosure-snapshot.ts\<close>,
  \<open>disclosure-state.ts\<close>, \<open>disclosure-audit.ts\<close>, \<open>disclosure-preview.ts\<close> and
  \<open>disclosure-review.service.ts\<close> of \<open>memory-requests\<close>.  The owner previews a waiting request,
  approves some of the previewed items or denies it; the client retrieves an approved snapshot
  once, after it has been validated against the live permissions, client and memories.
  \<open>digest\<close> stands for the hex SHA-256 of \<open>JSON.stringify\<close>.
\<close>

section \<open>Live context\<close>

record disclosure_context =
  dc_client :: "client option"
  dc_policy :: "policy option"
  dc_memories :: "memory list"
  dc_allowed :: "ident set"
  dc_bound :: bool
  dc_policyVersion :: "time option"

definition disclosureContext :: "time \<Rightarrow> vault \<Rightarrow> memory_request \<Rightarrow> ident list \<Rightarrow> disclosure_context" where
  "disclosureContext now db request ids =
     (let gate = evaluateForClient now db (r_userId request) (r_clientId request)
                   policy_operation.READ (None :: memory list option);
          memories =
            (if pr_decision gate = DENY \<or> \<not> truthy (r_policyId request) then []
             else filter (\<lambda>m. m_id m \<in> set ids \<and> m_userId m = r_userId request) (v_memories db));
          (policyId, allowedIds) =
            (case au_policy gate of
               Some p \<Rightarrow>
                 if pr_decision gate = DENY then (pr_policyId gate, pr_allowedMemoryIds gate)
                 else (let ev = evaluateCandidateMemories p memories now
                       in (pr_policyId ev, pr_allowedMemoryIds ev))
             | None \<Rightarrow> (pr_policyId gate, pr_allowedMemoryIds gate));
          bound = (r_policyId request \<noteq> None \<and> r_policyId request = policyId)
      in \<lparr> dc_client = au_client gate, dc_policy = au_policy gate, dc_memories = memories,
           dc_allowed = set (if bound then allowedIds else []), dc_bound = bound,
           dc_policyVersion = au_policyVersion gate \<rparr>)"

definition lockDisclosureRequest ::
  "vault \<Rightarrow> ident \<Rightarrow> ident \<Rightarrow> ident option \<Rightarrow> error + memory_request" where
  "lockDisclosureRequest db userId i clientId =
     (case find_row (\<lambda>r. r_id r = i \<and> r_userId r = userId
              \<and> (truthy clientId \<longrightarrow> Some (r_clientId r) = clientId)) (v_requests db) of
        None \<Rightarrow> Inl (NotFound ''Memory request not found.'')
      | Some r \<Rightarrow> Inr r)"

section \<open>Snapshots\<close>

text \<open>\<open>snapshotSchema.safeParse\<close>; an empty object is no snapshot.\<close>

definition parse_snapshot :: "review_snapshot option \<Rightarrow> review_snapshot option" where
  "parse_snapshot stored =
     (case stored of
        Some sn \<Rightarrow> if list_all bundle_item_ok (sn_items sn) then Some sn else None
      | None \<Rightarrow> None)"

record request_summary =
  rs_id :: ident
  rs_clientName :: string
  rs_statedPurpose :: "string option"
  rs_policyId :: "ident option"
  rs_policyVersion :: "time option"
  rs_reason :: "memory_request_reason option"
  rs_task :: string
  rs_status :: memory_request_status
  rs_retention :: client_retention
  rs_thirdPartyProcessors :: "string list"
  rs_createdAt :: time

definition summary :: "memory_request \<Rightarrow> string \<Rightarrow> request_summary" where
  "summary request clientName =
     \<lparr> rs_id = r_id request, rs_clientName = clientName,
       rs_statedPurpose = r_statedPurpose request, rs_policyId = r_policyId request,
       rs_policyVersion = r_policyVersion request, rs_reason = r_decisionReason request,
       rs_task = r_task request, rs_status = r_status request, rs_retention = r_retention request,
       rs_thirdPartyProcessors = r_thirdPartyProcessors request,
       rs_createdAt = r_createdAt request \<rparr>"

definition clientRevision :: "(json \<Rightarrow> string) \<Rightarrow> client \<Rightarrow> string" where
  "clientRevision digest client =
     digest (JArr
       [JStr (c_id client), JStr (c_name client), JStr (trust_name (c_trustLevel client)),
        JStr (retention_name (c_declaredRetention client)), json_opt (c_tokenHash client),
        json_opt (c_oauthRegistrationId client)])"

definition disclosureApprovalTtlMs :: time where "disclosureApprovalTtlMs = 15 * 60000"

text \<open>A nullable version of the row against a stored string: null equals no string.\<close>

definition version_matches :: "time option \<Rightarrow> time option \<Rightarrow> bool" where
  "version_matches live stored = (live \<noteq> None \<and> live = stored)"

definition snapshotIsCurrent ::
  "(json \<Rightarrow> string) \<Rightarrow> time \<Rightarrow> memory_request \<Rightarrow> review_snapshot \<Rightarrow> disclosure_context \<Rightarrow> bool" where
  "snapshotIsCurrent digest now request snapshot context =
     (let versions = map_of (map (\<lambda>m. (m_id m, m_updatedAt m)) (dc_memories context))
      in (case r_approvalExpiresAt request of Some e \<Rightarrow> e > now | None \<Rightarrow> False)
         \<and> dc_bound context
         \<and> r_policyId request = Some (sn_policyId snapshot)
         \<and> version_matches (r_policyVersion request) (sn_policyVersion snapshot)
         \<and> map_option p_id (dc_policy context) = Some (sn_policyId snapshot)
         \<and> version_matches (dc_policyVersion context) (sn_policyVersion snapshot)
         \<and> map_option (clientRevision digest) (dc_client context) = Some (sn_clientVersion snapshot)
         \<and> list_all (\<lambda>item. bi_memoryId item \<in> dc_allowed context
              \<and> versions (bi_memoryId item) = map_of (sn_versions snapshot) (bi_memoryId item))
             (sn_items snapshot))"

section \<open>State changes\<close>

definition set_request :: "ident \<Rightarrow> (memory_request \<Rightarrow> memory_request) \<Rightarrow> vault \<Rightarrow> vault" where
  "set_request i f db = db \<lparr> v_requests := update_request i f (v_requests db) \<rparr>"

text \<open>\<open>requireFreshReview\<close>: the policy version changes only when one is given.\<close>

definition fresh_review ::
  "time \<Rightarrow> memory_request_reason option \<Rightarrow> time option option \<Rightarrow> memory_request \<Rightarrow> memory_request" where
  "fresh_review now reason policyVersion r =
     r \<lparr> r_status := memory_request_status.NEEDS_USER_APPROVAL, r_decisionReason := reason,
         r_policyVersion := (case policyVersion of Some v \<Rightarrow> v | None \<Rightarrow> r_policyVersion r),
         r_approvedAt := None, r_approvalExpiresAt := None, r_reviewSnapshot := None,
         r_updatedAt := now \<rparr>"

definition requireFreshReview ::
  "time \<Rightarrow> ident \<Rightarrow> memory_request_reason option \<Rightarrow> time option option \<Rightarrow> vault \<Rightarrow> vault" where
  "requireFreshReview now i reason policyVersion db =
     set_request i (fresh_review now reason policyVersion) db"

record decision_details =
  dd_actorType :: audit_actor_type
  dd_reason :: "memory_request_reason option"
  dd_clientName :: "string option"
  dd_requiresConfirmation :: bool
  dd_previousPolicyVersion :: "time option option"

definition owner_decision :: decision_details where
  "owner_decision =
     \<lparr> dd_actorType = audit_actor_type.USER, dd_reason = None, dd_clientName = None,
       dd_requiresConfirmation = True, dd_previousPolicyVersion = None \<rparr>"

definition decision_event ::
  "vault \<Rightarrow> memory_request \<Rightarrow> audit_event_type \<Rightarrow> ident list \<Rightarrow> decision_details \<Rightarrow> audit_event_input" where
  "decision_event db request type memoryIds details =
     (let clientName = coalesce (dd_clientName details)
            (map_option c_name (owned_client db (r_userId request) (r_clientId request)))
      in \<lparr> ai_userId = r_userId request, ai_clientId = Some (r_clientId request),
           ai_memoryRequestId = Some (r_id request), ai_type = type,
           ai_actorType = dd_actorType details,
           ai_actorId = (if dd_actorType details = audit_actor_type.SYSTEM then None
                         else Some (r_userId request)),
           ai_metadata = no_metadata
             \<lparr> am_memoryIds := memoryIds, am_policyId := r_policyId request,
               am_details :=
                 [(''decision'', JStr (if type = audit_event_type.MEMORY_REQUEST_APPROVED
                                       then ''ALLOW'' else ''DENY'')),
                  (''requiresConfirmation'', JBool (dd_requiresConfirmation details))]
                 @ (case dd_previousPolicyVersion details of
                      Some v \<Rightarrow> [(''previousPolicyVersion'', json_version v)] | None \<Rightarrow> [])
                 @ [(''statedPurpose'', json_opt (r_statedPurpose request)),
                    (''policyVersion'', json_version (r_policyVersion request)),
                    (''reason'', json_opt (map_option reason_name (dd_reason details))),
                    (''task'', JStr (r_task request)), (''operation'', JStr ''READ'')] \<rparr>,
           ai_subjects =
             (if truthy (r_policyId request)
              then [subject audit_subject_type.POLICY (r_policyId request) audit_subject_role.POLICY
                      \<lparr>sj_label := Some (appPermissionsLabel clientName)\<rparr>]
              else [])
             @ [subject audit_subject_type.MEMORY_REQUEST (Some (r_id request)) audit_subject_role.REQUEST,
                subject audit_subject_type.CLIENT (Some (r_clientId request)) audit_subject_role.CLIENT],
           ai_inferSubjects = True \<rparr>)"

definition recordDisclosureDecision ::
  "time \<Rightarrow> memory_request \<Rightarrow> audit_event_type \<Rightarrow> ident list \<Rightarrow> decision_details \<Rightarrow> vault \<Rightarrow> vault" where
  "recordDisclosureDecision now request type memoryIds details db =
     snd (createAuditEvent now (decision_event db request type memoryIds details) db)"

text \<open>\<open>invalidate\<close>: back to review, recorded as the system's denial of the previous version.\<close>

definition invalidate ::
  "time \<Rightarrow> memory_request \<Rightarrow> disclosure_context \<Rightarrow> vault \<Rightarrow> memory_request \<times> vault" where
  "invalidate now request context db =
     (let version = (if dc_bound context then Some (dc_policyVersion context) else None);
          updated = fresh_review now (Some policy_changed) version request;
          db1 = requireFreshReview now (r_id request) (Some policy_changed) version db
      in (updated,
          recordDisclosureDecision now updated audit_event_type.MEMORY_REQUEST_DENIED []
            \<lparr> dd_actorType = audit_actor_type.SYSTEM, dd_reason = Some policy_changed,
              dd_clientName = map_option c_name (dc_client context),
              dd_requiresConfirmation =
                (case dc_policy context of Some p \<Rightarrow> p_requiresConfirmation p | None \<Rightarrow> False),
              dd_previousPolicyVersion = Some (r_policyVersion request) \<rparr> db1))"

section \<open>Preview\<close>

record disclosure_preview =
  pv_request :: request_summary
  pv_approvalExpired :: bool
  pv_revision :: string
  pv_items :: "bundle_item list"
  pv_canApprove :: bool

definition json_item :: "bundle_item \<Rightarrow> json" where
  "json_item it =
     JObj ([(''memoryId'', JStr (bi_memoryId it)), (''text'', JStr (bi_text it)),
            (''category'', json_opt (bi_category it)),
            (''sensitivity'', JStr (sensitivity_name (bi_sensitivity it)))]
           @ (case bi_relevanceScore it of Some s \<Rightarrow> [(''relevanceScore'', JNum s)] | None \<Rightarrow> [])
           @ [(''estimatedTokens'', JNum (of_nat (bi_estimatedTokens it)))])"

definition snapshot_json :: "ident \<Rightarrow> review_snapshot \<Rightarrow> json" where
  "snapshot_json requestId sn =
     JObj [(''requestId'', JStr requestId),
           (''items'', JArr (map json_item (sn_items sn))),
           (''versions'', JObj (map (\<lambda>(i, v). (i, JTime v)) (sn_versions sn))),
           (''instructions'', json_strings (sn_instructions sn)),
           (''policyId'', JStr (sn_policyId sn)),
           (''policyVersion'', case sn_policyVersion sn of None \<Rightarrow> JStr [] | Some v \<Rightarrow> JTime v),
           (''clientVersion'', JStr (sn_clientVersion sn))]"

text \<open>\<open>Object.fromEntries\<close>\<close>

definition from_entries :: "('k \<times> 'v) list \<Rightarrow> ('k \<times> 'v) list" where
  "from_entries kvs = spread [] kvs"

text \<open>The candidates with their live row, if the live policy still allows them.\<close>

definition eligible_candidates ::
  "disclosure_context \<Rightarrow> (ident \<times> rat) list \<Rightarrow> retrieved_memory list" where
  "eligible_candidates context candidates =
     List.map_filter
       (\<lambda>(i, score).
          case find_row (\<lambda>m. m_id m = i) (dc_memories context) of
            Some m \<Rightarrow> if i \<in> dc_allowed context then Some (with_score m score) else None
          | None \<Rightarrow> None)
       candidates"

definition previewDisclosure ::
  "(json \<Rightarrow> string) \<Rightarrow> time \<Rightarrow> memory_request \<Rightarrow> (ident \<times> rat) list \<Rightarrow> vault
     \<Rightarrow> (review_snapshot \<times> disclosure_preview) outcome" where
  "previewDisclosure digest now request0 candidates db =
     (let previous = parse_snapshot (r_reviewSnapshot request0);
          isApproved = (r_status request0 = memory_request_status.APPROVED);
          ids = (if isApproved
                 then (case previous of Some sn \<Rightarrow> map bi_memoryId (sn_items sn) | None \<Rightarrow> [])
                 else map fst candidates);
          context = disclosureContext now db request0 ids;
          (request, db1) =
            (if r_status request0 = memory_request_status.NEEDS_USER_APPROVAL
                \<and> truthy (r_policyId request0)
                \<and> (\<not> dc_bound context \<or> r_policyVersion request0 \<noteq> dc_policyVersion context)
             then invalidate now request0 context db
             else (request0, db));
          eligible = eligible_candidates context candidates;
          bundle = compile (map as_bundle_candidate eligible) (r_tokenBudget request)
      in case dc_client context of
           None \<Rightarrow> (Inl (Internal ''client is missing''), db)
         | Some client \<Rightarrow>
             let fresh =
                   \<lparr> sn_items = cb_items bundle,
                     sn_versions = from_entries (map (\<lambda>m. (m_id m, m_updatedAt m)) eligible),
                     sn_policyId = (case dc_policy context of Some p \<Rightarrow> p_id p | None \<Rightarrow> []),
                     sn_policyVersion = dc_policyVersion context,
                     sn_clientVersion = clientRevision digest client,
                     sn_instructions = cb_instructions bundle \<rparr>;
                 snapshot =
                   (case previous of
                      Some sn \<Rightarrow>
                        if isApproved then
                          fresh \<lparr>
                            sn_items :=
                              (if snapshotIsCurrent digest now request sn context
                               then map (\<lambda>it. it \<lparr> bi_relevanceScore :=
                                      Some (case bi_relevanceScore it of Some x \<Rightarrow> x | None \<Rightarrow> 0) \<rparr>)
                                      (sn_items sn)
                               else []),
                            sn_versions := sn_versions sn,
                            sn_instructions := sn_instructions sn \<rparr>
                        else fresh
                    | None \<Rightarrow> fresh)
             in (Inr (snapshot,
                   \<lparr> pv_request = summary request (c_name client),
                     pv_approvalExpired =
                       (isApproved \<and> (case r_approvalExpiresAt request of
                                        None \<Rightarrow> True | Some e \<Rightarrow> e \<le> now)),
                     pv_revision = digest (snapshot_json (r_id request) snapshot),
                     pv_items = sn_items snapshot,
                     pv_canApprove =
                       (r_status request = memory_request_status.NEEDS_USER_APPROVAL
                        \<and> dc_bound context \<and> sn_items snapshot \<noteq> []) \<rparr>),
                 db1))"

text \<open>\<open>DisclosureReviewService.candidates\<close>: what retrieval offers for a waiting request.\<close>

definition review_candidates ::
  "'v retrieval_env \<Rightarrow> time \<Rightarrow> vault \<Rightarrow> 'v embedding list \<Rightarrow> ident \<Rightarrow> ident \<Rightarrow> error + (ident \<times> rat) list" where
  "review_candidates env now db embeddings userId i =
     (case find_row (\<lambda>r. r_id r = i \<and> r_userId r = userId) (v_requests db) of
        None \<Rightarrow> Inl (NotFound ''Memory request not found.'')
      | Some request \<Rightarrow>
          let gate = evaluateForClient now db userId (r_clientId request) policy_operation.READ
                       (None :: memory list option)
          in if r_status request \<noteq> memory_request_status.NEEDS_USER_APPROVAL
                \<or> \<not> truthy (r_policyId request) \<or> pr_decision gate = DENY
             then Inr []
             else Inr (map (\<lambda>m. (m_id m, relevanceScore m))
                    (retrieve env now db embeddings
                       \<lparr> in_userId = userId, in_task = r_task request,
                         in_requestedCategories = r_requestedCategories request, in_limit = 30 \<rparr>)))"

text \<open>\<open>preview\<close>, in its transaction.\<close>

definition preview_request ::
  "(json \<Rightarrow> string) \<Rightarrow> time \<Rightarrow> ident \<Rightarrow> ident \<Rightarrow> (ident \<times> rat) list \<Rightarrow> vault \<Rightarrow> disclosure_preview outcome" where
  "preview_request digest now userId i candidates db =
     (case lockDisclosureRequest db userId i None of
        Inl e \<Rightarrow> (Inl e, db)
      | Inr request \<Rightarrow>
          (case previewDisclosure digest now request candidates db of
             (Inl e, _) \<Rightarrow> (Inl e, db)
           | (Inr (_, preview), db') \<Rightarrow> (Inr preview, db')))"

section \<open>Decision\<close>

text \<open>\<open>ReviewDisclosureRequest\<close>\<close>

datatype review_decision =
    DenyRequest
  | ApproveRequest string "ident list"

definition approved_snapshot :: "review_snapshot \<Rightarrow> ident list \<Rightarrow> review_snapshot" where
  "approved_snapshot snapshot ids =
     (let items = filter (\<lambda>it. bi_memoryId it \<in> set ids) (sn_items snapshot)
      in snapshot
           \<lparr> sn_items := items,
             sn_versions := from_entries
               (List.map_filter
                  (\<lambda>it. map_option (\<lambda>v. (bi_memoryId it, v)) (map_of (sn_versions snapshot) (bi_memoryId it)))
                  items) \<rparr>)"

definition decide ::
  "(json \<Rightarrow> string) \<Rightarrow> time \<Rightarrow> ident \<Rightarrow> ident \<Rightarrow> review_decision \<Rightarrow> (ident \<times> rat) list \<Rightarrow> vault
     \<Rightarrow> unit outcome" where
  "decide digest now userId i decision candidates db =
     (case lockDisclosureRequest db userId i None of
        Inl e \<Rightarrow> (Inl e, db)
      | Inr request \<Rightarrow>
          if r_status request \<noteq> memory_request_status.NEEDS_USER_APPROVAL
          then (Inl (Conflict ''This request has already been reviewed.''), db)
          else case decision of
            DenyRequest \<Rightarrow>
              (Inr (), recordDisclosureDecision now request audit_event_type.MEMORY_REQUEST_DENIED []
                 owner_decision
                 (set_request i (\<lambda>r. r \<lparr> r_status := memory_request_status.DENIED,
                    r_deniedAt := Some now, r_reviewSnapshot := None, r_updatedAt := now \<rparr>) db))
          | ApproveRequest revision memoryIds \<Rightarrow>
              (case previewDisclosure digest now request candidates db of
                 (Inl e, _) \<Rightarrow> (Inl e, db)
               | (Inr (snapshot, preview), db1) \<Rightarrow>
                   if \<not> pv_canApprove preview \<or> pv_revision preview \<noteq> revision
                   then (Inl (Conflict ''The preview changed. Refresh it before approving.''), db)
                   else
                     let ids = js_unique memoryIds;
                         granted = approved_snapshot snapshot ids
                     in if length (sn_items granted) \<noteq> length ids
                        then (Inl (Conflict ''Only memories in this preview can be approved.''), db)
                        else
                          (Inr (), recordDisclosureDecision now request
                             audit_event_type.MEMORY_REQUEST_APPROVED ids owner_decision
                             (set_request i (\<lambda>r. r \<lparr> r_status := memory_request_status.APPROVED,
                                r_approvedAt := Some now,
                                r_approvalExpiresAt := Some (now + disclosureApprovalTtlMs),
                                r_reviewSnapshot := Some granted, r_updatedAt := now \<rparr>) db1))))"

text \<open>The two phases of the owner's routes: candidates on the database seen first, the transaction on
  the one found later.\<close>

definition review_preview ::
  "(json \<Rightarrow> string) \<Rightarrow> 'v retrieval_env \<Rightarrow> time \<Rightarrow> vault \<Rightarrow> 'v embedding list \<Rightarrow> time \<Rightarrow> vault
     \<Rightarrow> ident \<Rightarrow> ident \<Rightarrow> disclosure_preview outcome" where
  "review_preview digest env t1 db1 embeddings t2 db2 userId i =
     (case review_candidates env t1 db1 embeddings userId i of
        Inl e \<Rightarrow> (Inl e, db2)
      | Inr candidates \<Rightarrow> preview_request digest t2 userId i candidates db2)"

definition review_decide ::
  "(json \<Rightarrow> string) \<Rightarrow> 'v retrieval_env \<Rightarrow> time \<Rightarrow> vault \<Rightarrow> 'v embedding list \<Rightarrow> time \<Rightarrow> vault
     \<Rightarrow> ident \<Rightarrow> ident \<Rightarrow> review_decision \<Rightarrow> unit outcome" where
  "review_decide digest env t1 db1 embeddings t2 db2 userId i decision =
     (case decision of
        DenyRequest \<Rightarrow> decide digest t2 userId i decision [] db2
      | ApproveRequest _ _ \<Rightarrow>
          (case review_candidates env t1 db1 embeddings userId i of
             Inl e \<Rightarrow> (Inl e, db2)
           | Inr candidates \<Rightarrow> decide digest t2 userId i decision candidates db2))"

text \<open>\<open>list\<close>: the owner's waiting requests, newest first, with their client's name.\<close>

definition list_reviews :: "vault \<Rightarrow> ident \<Rightarrow> pagination_query \<Rightarrow> request_summary list \<times> pagination" where
  "list_reviews db userId query =
     (let rows = filter (\<lambda>r. r_userId r = userId \<and> r_status r = memory_request_status.NEEDS_USER_APPROVAL)
                   (v_requests db);
          pagination = buildPagination query (length rows);
          shown = page_rows pagination (sort_key (\<lambda>r. - r_createdAt r) rows)
      in (List.map_filter
            (\<lambda>r. map_option (\<lambda>c. summary r (c_name c))
                   (find_row (\<lambda>c. c_id c = r_clientId r) (v_clients db))) shown,
          pagination))"

section \<open>Retrieval of an approved snapshot\<close>

definition empty_response :: "memory_request \<Rightarrow> bundle_response" where
  "empty_response request =
     \<lparr> br_requestId = r_id request, br_status = r_status request, br_policyId = r_policyId request,
       br_reason = r_decisionReason request, br_tokenBudget = r_tokenBudget request,
       br_estimatedTokens = 0, br_items = [], br_instructions = [], br_denied = [],
       br_auditEventId = None \<rparr>"

definition delivery_event ::
  "ident \<Rightarrow> ident \<Rightarrow> string \<Rightarrow> memory_request \<Rightarrow> review_snapshot \<Rightarrow> string \<Rightarrow> audit_event_input" where
  "delivery_event userId clientId transport request snapshot clientName =
     \<lparr> ai_userId = userId, ai_clientId = Some clientId, ai_memoryRequestId = Some (r_id request),
       ai_type = audit_event_type.MEMORY_DISCLOSURE, ai_actorType = audit_actor_type.CLIENT,
       ai_actorId = Some clientId,
       ai_metadata = disclosureMetadata request transport (map bi_memoryId (sn_items snapshot))
         (item_sum (sn_items snapshot)) [] True,
       ai_subjects =
         [subject audit_subject_type.POLICY (r_policyId request) audit_subject_role.POLICY
            \<lparr>sj_label := Some (appPermissionsLabel (Some clientName))\<rparr>]
         @ map (\<lambda>it. subject audit_subject_type.MEMORY (Some (bi_memoryId it)) audit_subject_role.DISCLOSED)
             (sn_items snapshot)
         @ [subject audit_subject_type.MEMORY_REQUEST (Some (r_id request)) audit_subject_role.REQUEST,
            subject audit_subject_type.CLIENT (Some clientId) audit_subject_role.CLIENT],
       ai_inferSubjects = True \<rparr>"

definition result ::
  "(json \<Rightarrow> string) \<Rightarrow> time \<Rightarrow> ident \<Rightarrow> ident \<Rightarrow> ident \<Rightarrow> string \<Rightarrow> vault \<Rightarrow> bundle_response outcome" where
  "result digest now userId clientId i transport db =
     (case lockDisclosureRequest db userId i (Some clientId) of
        Inl e \<Rightarrow> (Inl e, db)
      | Inr request \<Rightarrow>
          if r_status request \<noteq> memory_request_status.APPROVED
          then (Inr (empty_response request), db)
          else
            case (parse_snapshot (r_reviewSnapshot request),
                  (case r_approvalExpiresAt request of None \<Rightarrow> True | Some e \<Rightarrow> e \<le> now)) of
              (Some snapshot, False) \<Rightarrow>
                (let context = disclosureContext now db request (map bi_memoryId (sn_items snapshot))
                 in if \<not> snapshotIsCurrent digest now request snapshot context
                    then
                      (case dc_client context of
                         None \<Rightarrow> (Inl (Internal ''client is missing''), db)
                       | Some _ \<Rightarrow>
                           (Inr (empty_response request
                              \<lparr> br_status := memory_request_status.NEEDS_USER_APPROVAL,
                                br_reason := Some policy_changed \<rparr>),
                            snd (invalidate now request context db)))
                    else
                      (let db1 = db \<lparr> v_requestItems := v_requestItems db
                                   @ map (request_item_of i) (sn_items snapshot) \<rparr>;
                           (eventId, db2) = createAuditEvent now
                             (delivery_event userId clientId transport request snapshot
                                (case dc_client context of Some c \<Rightarrow> c_name c | None \<Rightarrow> [])) db1;
                           db3 = set_request i (\<lambda>r. r \<lparr> r_status := memory_request_status.FULFILLED,
                             r_fulfilledAt := Some now, r_decisionReason := None,
                             r_reviewSnapshot := None, r_updatedAt := now \<rparr>) db2
                       in (Inr (empty_response request
                             \<lparr> br_status := memory_request_status.FULFILLED,
                               br_policyId := Some (sn_policyId snapshot), br_reason := None,
                               br_items := sn_items snapshot,
                               br_instructions := sn_instructions snapshot,
                               br_estimatedTokens := item_sum (sn_items snapshot),
                               br_auditEventId := Some eventId \<rparr>), db3)))
            | _ \<Rightarrow>
                (Inr (empty_response request
                   \<lparr> br_status := memory_request_status.NEEDS_USER_APPROVAL,
                     br_reason := Some confirmation_required \<rparr>),
                 requireFreshReview now (r_id request) (Some confirmation_required) None db))"

end
