(* ===== verification/DisclosureSafety.thy ===== *)
theory DisclosureSafety
  imports Disclosure
begin

text \<open>
  What the disclosure review guarantees, operation by operation: the client gets an approved
  snapshot only while it is current, the owner's approval covers previewed items only, and an
  approval can be retrieved as long as nothing it was given for has changed.
\<close>

section \<open>The live context\<close>

lemma disclosureContext_simps:
  "dc_client (disclosureContext now db r ids) = owned_client db (r_userId r) (r_clientId r)"
  "dc_policy (disclosureContext now db r ids)
     = Option.bind (owned_client db (r_userId r) (r_clientId r)) (client_policy db)"
  "dc_policyVersion (disclosureContext now db r ids)
     = map_option p_updatedAt (Option.bind (owned_client db (r_userId r) (r_clientId r)) (client_policy db))"
  by (simp_all add: disclosureContext_def Let_def split_beta)

lemma evaluateForClient_denied_policyId:
  "(\<And>cl p. \<not> authorized db now u c op cl p) \<Longrightarrow>
    pr_policyId (evaluateForClient now db u c op ms)
      = map_option p_id (Option.bind (owned_client db u c) (client_policy db))"
proof -
  assume "\<And>cl p. \<not> authorized db now u c op cl p"
  then obtain x where "gate_reason (owned_client db u c)
      (Option.bind (owned_client db u c) (client_policy db)) op now = Some x"
    using gate_reason_None[of db u c op now] by fastforce
  then show ?thesis by (simp add: evaluateForClient_def Let_def)
qed

lemma disclosureContext_bound:
  "dc_bound (disclosureContext now db r ids) \<longleftrightarrow>
     (\<exists>cl p. owned_client db (r_userId r) (r_clientId r) = Some cl \<and> client_policy db cl = Some p
        \<and> r_policyId r = Some (p_id p))"
proof -
  let ?g = "evaluateForClient now db (r_userId r) (r_clientId r) policy_operation.READ
              (None :: memory list option)"
  have pid: "pr_policyId ?g
      = map_option p_id (Option.bind (owned_client db (r_userId r) (r_clientId r)) (client_policy db))"
  proof (cases "\<exists>cl p. authorized db now (r_userId r) (r_clientId r) policy_operation.READ cl p")
    case True
    then obtain cl p where a: "authorized db now (r_userId r) (r_clientId r) policy_operation.READ cl p"
      by blast
    then show ?thesis by (simp add: evaluateForClient_authorized[OF a]) (simp add: authorized_def)
  next
    case False
    then show ?thesis by (intro evaluateForClient_denied_policyId) blast
  qed
  have "dc_bound (disclosureContext now db r ids) \<longleftrightarrow>
      (r_policyId r \<noteq> None \<and> r_policyId r
         = map_option p_id (Option.bind (owned_client db (r_userId r) (r_clientId r)) (client_policy db)))"
    using pid
    by (auto simp: disclosureContext_def Let_def split_beta evaluate_policyId split: option.splits)
  then show ?thesis
    by (cases "owned_client db (r_userId r) (r_clientId r)")
      (auto split: option.splits simp: map_option_case)
qed

lemma disclosureContext_allowed:
  assumes "i \<in> dc_allowed (disclosureContext now db r ids)"
  obtains cl p m where "authorized db now (r_userId r) (r_clientId r) policy_operation.READ cl p"
    "r_policyId r = Some (p_id p)" "m \<in> set (v_memories db)" "m_id m = i" "i \<in> set ids"
    "m_userId m = r_userId r" "disclosable p now m"
    "m \<in> set (dc_memories (disclosureContext now db r ids))"
proof -
  let ?ctx = "disclosureContext now db r ids"
  let ?g = "evaluateForClient now db (r_userId r) (r_clientId r) policy_operation.READ
              (None :: memory list option)"
  have b: "dc_bound ?ctx" using assms by (auto simp: disclosureContext_def Let_def split_beta split: if_splits)
  have "pr_decision ?g \<noteq> DENY"
  proof
    assume d: "pr_decision ?g = DENY"
    have "\<not> authorized db now (r_userId r) (r_clientId r) policy_operation.READ cl p" for cl p
      using d evaluateForClient_authorized[of db now "r_userId r" "r_clientId r" policy_operation.READ
          cl p "None :: memory list option"] by auto
    then have "pr_allowedMemoryIds ?g = []" by (rule evaluateForClient_unauthorized(2))
    then show False using assms d
      by (auto simp: disclosureContext_def Let_def split_beta split: option.splits if_splits)
  qed
  then obtain cl p where a: "authorized db now (r_userId r) (r_clientId r) policy_operation.READ cl p"
    using policy_gate.gate_granted by blast
  then have g: "au_policy ?g = Some p" by (simp add: authorized_def)
  have nd: "pr_decision ?g \<noteq> DENY" by fact
  have ids: "i \<in> set (pr_allowedMemoryIds (evaluateCandidateMemories p (dc_memories ?ctx) now))"
    using assms nd g by (auto simp: disclosureContext_def Let_def split_beta split: if_splits)
  then obtain m where m: "m \<in> set (dc_memories ?ctx)" "m_id m = i" "disclosable p now m"
    by (auto simp: evaluate_allowed)
  have "m \<in> set (v_memories db)" "m_id m \<in> set ids" "m_userId m = r_userId r"
    using m(1) by (auto simp: disclosureContext_def Let_def split_beta split: if_splits)
  moreover have "r_policyId r = Some (p_id p)"
    using b a unfolding disclosureContext_bound by (auto simp: authorized_def)
  ultimately show thesis using that a m by blast
qed

section \<open>Retrieval\<close>

lemma lock_found:
  assumes "lockDisclosureRequest db userId i clientId = Inr r"
  shows "r \<in> set (v_requests db)" "r_id r = i" "r_userId r = userId"
    "truthy clientId \<Longrightarrow> Some (r_clientId r) = clientId"
proof -
  have "find_row (\<lambda>r. r_id r = i \<and> r_userId r = userId
      \<and> (truthy clientId \<longrightarrow> Some (r_clientId r) = clientId)) (v_requests db) = Some r"
    using assms by (simp add: lockDisclosureRequest_def split: option.splits)
  from find_row_SomeD[OF this] show "r \<in> set (v_requests db)" "r_id r = i" "r_userId r = userId"
    "truthy clientId \<Longrightarrow> Some (r_clientId r) = clientId" by auto
qed

lemma parse_snapshot_Some:
  "parse_snapshot stored = Some sn \<longleftrightarrow> stored = Some sn \<and> list_all bundle_item_ok (sn_items sn)"
  by (auto simp: parse_snapshot_def split: option.splits if_splits)

text \<open>The cases of a retrieval: not approved, to be reviewed again, stale, or delivered.\<close>

lemma result_cases:
  assumes "result digest now userId clientId i transport db = (Inr res, db')"
  obtains (waiting) r where "lockDisclosureRequest db userId i (Some clientId) = Inr r"
      "r_status r \<noteq> memory_request_status.APPROVED" "res = empty_response r" "db' = db"
    | (renew) r where "lockDisclosureRequest db userId i (Some clientId) = Inr r"
      "r_status r = memory_request_status.APPROVED" "br_items res = []"
      "br_status res = memory_request_status.NEEDS_USER_APPROVAL"
      "db' = requireFreshReview now (r_id r) (Some confirmation_required) None db"
    | (stale) r and sn :: review_snapshot where "lockDisclosureRequest db userId i (Some clientId) = Inr r"
      "r_status r = memory_request_status.APPROVED" "br_items res = []"
      "br_status res = memory_request_status.NEEDS_USER_APPROVAL"
      "db' = snd (invalidate now r (disclosureContext now db r (map bi_memoryId (sn_items sn))) db)"
    | (delivered) r sn e where "lockDisclosureRequest db userId i (Some clientId) = Inr r"
      "r_status r = memory_request_status.APPROVED"
      "r_reviewSnapshot r = Some sn" "r_approvalExpiresAt r = Some e" "now < e"
      "snapshotIsCurrent digest now r sn (disclosureContext now db r (map bi_memoryId (sn_items sn)))"
      "br_items res = sn_items sn" "br_status res = memory_request_status.FULFILLED"
      "\<exists>name. db' = set_request i (\<lambda>r. r \<lparr> r_status := memory_request_status.FULFILLED,
             r_fulfilledAt := Some now, r_decisionReason := None,
             r_reviewSnapshot := None, r_updatedAt := now \<rparr>)
           (snd (createAuditEvent now (delivery_event userId clientId transport r sn name)
             (db \<lparr> v_requestItems := v_requestItems db @ map (request_item_of i) (sn_items sn) \<rparr>)))"
proof -
  obtain r where lock: "lockDisclosureRequest db userId i (Some clientId) = Inr r"
    using assms by (auto simp: result_def split: sum.splits)
  show thesis
  proof (cases "r_status r = memory_request_status.APPROVED")
    case False
    then show thesis using assms lock by (intro waiting[OF lock]) (auto simp: result_def)
  next
    case approved: True
    show thesis
    proof (cases "\<exists>sn e. parse_snapshot (r_reviewSnapshot r) = Some sn
        \<and> r_approvalExpiresAt r = Some e \<and> now < e")
      case False
      then have "res = empty_response r \<lparr> br_status := memory_request_status.NEEDS_USER_APPROVAL,
            br_reason := Some confirmation_required \<rparr>
          \<and> db' = requireFreshReview now (r_id r) (Some confirmation_required) None db"
        using assms lock approved
        by (cases "parse_snapshot (r_reviewSnapshot r)"; cases "r_approvalExpiresAt r")
          (auto simp: result_def split: bool.splits)
      then show thesis by (intro renew[OF lock approved]) (auto simp: empty_response_def)
    next
      case True
      then obtain sn e where sn: "parse_snapshot (r_reviewSnapshot r) = Some sn"
        and e: "r_approvalExpiresAt r = Some e" "now < e" by blast
      let ?ctx = "disclosureContext now db r (map bi_memoryId (sn_items sn))"
      show thesis
      proof (cases "snapshotIsCurrent digest now r sn ?ctx")
        case False
        then show thesis
          using assms lock approved sn e
          by (intro stale[OF lock approved, of sn])
            (auto simp: result_def Let_def empty_response_def split: option.splits)
      next
        case True
        then show thesis
          using assms lock approved sn e
          by (intro delivered[OF lock approved _ e True])
            (auto simp: result_def Let_def split_beta empty_response_def parse_snapshot_Some)
      qed
    qed
  qed
qed

lemma snapshot_current_item:
  assumes "snapshotIsCurrent digest now r sn (disclosureContext now db r ids)"
    and "it \<in> set (sn_items sn)" and "distinct (map m_id (v_memories db))"
  obtains cl p m where "authorized db now (r_userId r) (r_clientId r) policy_operation.READ cl p"
    "sn_policyId sn = p_id p" "sn_policyVersion sn = Some (p_updatedAt p)"
    "sn_clientVersion sn = clientRevision digest cl"
    "m \<in> set (v_memories db)" "m_id m = bi_memoryId it" "m_userId m = r_userId r" "disclosable p now m"
    "map_of (sn_versions sn) (bi_memoryId it) = Some (m_updatedAt m)"
proof -
  let ?ctx = "disclosureContext now db r ids"
  let ?vs = "map_of (map (\<lambda>m. (m_id m, m_updatedAt m)) (dc_memories ?ctx))"
  from assms(1,2) have al: "bi_memoryId it \<in> dc_allowed ?ctx"
    and v: "?vs (bi_memoryId it) = map_of (sn_versions sn) (bi_memoryId it)"
    by (auto simp: snapshotIsCurrent_def Let_def list_all_iff)
  from disclosureContext_allowed[OF al] obtain cl p m where
    a: "authorized db now (r_userId r) (r_clientId r) policy_operation.READ cl p"
    and m: "m \<in> set (v_memories db)" "m_id m = bi_memoryId it" "m_userId m = r_userId r"
      "disclosable p now m" "m \<in> set (dc_memories ?ctx)" by blast
  have sub: "set (dc_memories ?ctx) \<subseteq> set (v_memories db)"
    by (auto simp: disclosureContext_def Let_def split_beta)
  have "\<exists>m'\<in>set (dc_memories ?ctx). m_id m' = bi_memoryId it \<and> ?vs (bi_memoryId it) = Some (m_updatedAt m')"
  proof (cases "?vs (bi_memoryId it)")
    case None
    then show ?thesis using m(2,5) by (force simp: map_of_eq_None_iff image_iff)
  next
    case (Some v)
    from map_of_SomeD[OF this] show ?thesis using Some by auto
  qed
  then obtain m' where m': "m' \<in> set (dc_memories ?ctx)" "m_id m' = bi_memoryId it"
    "?vs (bi_memoryId it) = Some (m_updatedAt m')" by blast
  have "m' = m"
    using inj_onD[of m_id "set (v_memories db)" m' m] assms(3) sub m(1,2) m'(1,2)
    by (auto simp: distinct_map)
  then have "?vs (bi_memoryId it) = Some (m_updatedAt m)" using m'(3) by simp
  moreover have "sn_policyId sn = p_id p" "sn_policyVersion sn = Some (p_updatedAt p)"
    "sn_clientVersion sn = clientRevision digest cl"
    using assms(1) a
    by (auto simp: snapshotIsCurrent_def Let_def disclosureContext_simps authorized_def version_matches_def)
  ultimately show thesis using that a m v by metis
qed

lemma delivered_item_current:
  assumes "distinct (map m_id (v_memories db))" "clientId \<noteq> []"
    and "fst (result digest now userId clientId i transport db) = Inr res"
    and "it \<in> set (br_items res)"
  shows "\<exists>r\<in>set (v_requests db). \<exists>sn e cl p. \<exists>m\<in>set (v_memories db).
      r_id r = i \<and> r_userId r = userId \<and> r_clientId r = clientId
      \<and> r_status r = memory_request_status.APPROVED \<and> r_approvalExpiresAt r = Some e \<and> now < e
      \<and> r_reviewSnapshot r = Some sn \<and> it \<in> set (sn_items sn)
      \<and> authorized db now userId clientId policy_operation.READ cl p
      \<and> sn_policyId sn = p_id p \<and> sn_policyVersion sn = Some (p_updatedAt p)
      \<and> sn_clientVersion sn = clientRevision digest cl
      \<and> m_id m = bi_memoryId it \<and> m_userId m = userId \<and> disclosable p now m
      \<and> map_of (sn_versions sn) (bi_memoryId it) = Some (m_updatedAt m)"
proof -
  obtain db' where "result digest now userId clientId i transport db = (Inr res, db')"
    using assms(3) by (metis prod.collapse)
  then show ?thesis
  proof (cases rule: result_cases)
    case (delivered r sn e)
    have r: "r \<in> set (v_requests db)" "r_id r = i" "r_userId r = userId" "r_clientId r = clientId"
      using lock_found[OF delivered(1)] assms(2) by auto
    have it: "it \<in> set (sn_items sn)" using assms(4) delivered(7) by simp
    obtain cl p m where
      "authorized db now userId clientId policy_operation.READ cl p"
      "sn_policyId sn = p_id p" "sn_policyVersion sn = Some (p_updatedAt p)"
      "sn_clientVersion sn = clientRevision digest cl"
      "m \<in> set (v_memories db)" "m_id m = bi_memoryId it" "m_userId m = userId" "disclosable p now m"
      "map_of (sn_versions sn) (bi_memoryId it) = Some (m_updatedAt m)"
      using snapshot_current_item[OF delivered(6) it assms(1)] r by metis
    then show ?thesis using r it delivered(2-5) by blast
  qed (use assms(4) in \<open>auto simp: empty_response_def\<close>)
qed


section \<open>A sample approval\<close>

definition sample_digest :: "json \<Rightarrow> string" where
  "sample_digest j = ''d''"

definition approved_item :: bundle_item where
  "approved_item =
     \<lparr> bi_memoryId = ''m1'', bi_text = ''Editor: Uses vim'', bi_category = Some ''work'',
       bi_sensitivity = memory_sensitivity.LOW, bi_relevanceScore = Some (1 / 2),
       bi_estimatedTokens = 4 \<rparr>"

definition approved_request :: memory_request where
  "approved_request =
     \<lparr> r_id = ''r1'', r_userId = ''u1'', r_clientId = ''c1'', r_statedPurpose = None,
       r_policyId = Some ''p1'', r_policyVersion = Some 1, r_decisionReason = Some confirmation_required,
       r_task = ''editor'', r_status = memory_request_status.APPROVED, r_tokenBudget = 1200,
       r_requestedCategories = [], r_retention = client_retention.SESSION,
       r_thirdPartyProcessors = [],
       r_reviewSnapshot = Some
         \<lparr> sn_items = [approved_item], sn_versions = [(''m1'', 1)], sn_policyId = ''p1'',
           sn_policyVersion = Some 1, sn_clientVersion = ''d'', sn_instructions = [] \<rparr>,
       r_approvalExpiresAt = Some 900007, r_approvedAt = Some 7, r_deniedAt = None,
       r_fulfilledAt = None, r_createdAt = 6, r_updatedAt = 7 \<rparr>"

definition approved_vault :: vault where
  "approved_vault = sample_vault \<lparr> v_requests := [approved_request] \<rparr>"

lemma approved_delivers:
  "(case fst (result sample_digest 8 ''u1'' ''c1'' ''r1'' ''http_api'' approved_vault) of
      Inr res \<Rightarrow> map bi_memoryId (br_items res) = [''m1''] | Inl e \<Rightarrow> False)
   \<and> map m_id (v_memories approved_vault) = [''m1'', ''m2'']"
  by code_simp


end
