(* ===== verification/DisclosureLife.thy ===== *)
theory DisclosureLife
  imports DisclosureSafety
begin

text \<open>
  The life of a sharing request.  The abstract machine \<open>life_step\<close> says what may happen to a
  request: it is created waiting, denied or fulfilled; a waiting request may be approved, denied or
  sent back to review; an approved one may be sent back or delivered once.  The concrete handlers,
  in any interleaving with the rest of the program, refine it.
\<close>

section \<open>The abstract machine\<close>

type_synonym lifecycle = "ident \<Rightarrow> (memory_request_status \<times> nat) option"

inductive life_step :: "lifecycle \<Rightarrow> lifecycle \<Rightarrow> bool" where
  Stay: "life_step m m"
| Create: "m i = None \<Longrightarrow> st \<in> {memory_request_status.NEEDS_USER_APPROVAL, memory_request_status.DENIED} \<Longrightarrow>
    life_step m (m(i \<mapsto> (st, 0)))"
| CreateDelivered: "m i = None \<Longrightarrow> life_step m (m(i \<mapsto> (memory_request_status.FULFILLED, 1)))"
| Review: "m i = Some (st, 0) \<Longrightarrow>
    st \<in> {memory_request_status.NEEDS_USER_APPROVAL, memory_request_status.APPROVED} \<Longrightarrow>
    life_step m (m(i \<mapsto> (memory_request_status.NEEDS_USER_APPROVAL, 0)))"
| Decide: "m i = Some (memory_request_status.NEEDS_USER_APPROVAL, 0) \<Longrightarrow>
    st \<in> {memory_request_status.APPROVED, memory_request_status.DENIED} \<Longrightarrow>
    life_step m (m(i \<mapsto> (st, 0)))"
| Deliver: "m i = Some (memory_request_status.APPROVED, 0) \<Longrightarrow>
    life_step m (m(i \<mapsto> (memory_request_status.FULFILLED, 1)))"

inductive_cases life_stepE: "life_step m m'"

inductive life_reach :: "lifecycle \<Rightarrow> bool" where
  Init: "life_reach (\<lambda>_. None)"
| Step: "life_reach m \<Longrightarrow> life_step m m' \<Longrightarrow> life_reach m'"

text \<open>A delivered request is a fulfilled one, and it was delivered once.\<close>

definition delivered_once :: "lifecycle \<Rightarrow> bool" where
  "delivered_once m = (\<forall>i st n. m i = Some (st, n) \<longrightarrow>
     n = (if st = memory_request_status.FULFILLED then 1 else 0)
     \<and> st \<in> {memory_request_status.NEEDS_USER_APPROVAL, memory_request_status.APPROVED,
             memory_request_status.DENIED, memory_request_status.FULFILLED})"

lemma delivered_once_step: "delivered_once m \<Longrightarrow> life_step m m' \<Longrightarrow> delivered_once m'"
  by (erule life_stepE) (auto simp: delivered_once_def)

lemma life_reach_delivered_once: "life_reach m \<Longrightarrow> delivered_once m"
  by (induction rule: life_reach.induct) (simp add: delivered_once_def, erule delivered_once_step)

text \<open>Denied and fulfilled requests never change again.\<close>

lemma life_step_final:
  "life_step m m' \<Longrightarrow> m i = Some (st, n) \<Longrightarrow>
    st \<in> {memory_request_status.DENIED, memory_request_status.FULFILLED} \<Longrightarrow> m' i = Some (st, n)"
  by (erule life_stepE) (auto split: if_splits)

section \<open>The concrete system\<close>

text \<open>How often a request has been delivered: the disclosure events of the audit log that name it.\<close>

definition deliveries :: "vault \<Rightarrow> ident \<Rightarrow> nat" where
  "deliveries db i =
     count_where (\<lambda>e. ae_type e = audit_event_type.MEMORY_DISCLOSURE \<and> ae_memoryRequestId e = Some i)
       (auditEvents db)"

definition life_of :: "vault \<Rightarrow> lifecycle" where
  "life_of db = (\<lambda>i. map_option (\<lambda>r. (r_status r, deliveries db i)) (request_row i (v_requests db)))"

text \<open>What the rest of the program does between two disclosure operations: anything that leaves the
  request table alone, only appends to the audit log, discloses no request, and draws fresh ids.\<close>

definition elsewhere :: "vault \<Rightarrow> vault \<Rightarrow> bool" where
  "elsewhere db db' =
     (v_requests db' = v_requests db \<and> id_supply db' = id_supply db \<and> id_next db \<le> id_next db'
      \<and> (\<exists>evs. auditEvents db' = auditEvents db @ evs
           \<and> (\<forall>e\<in>set evs. \<not> (ae_type e = audit_event_type.MEMORY_DISCLOSURE \<and> ae_memoryRequestId e \<noteq> None))))"

inductive disclosure_step :: "(json \<Rightarrow> string) \<Rightarrow> vault \<Rightarrow> vault \<Rightarrow> bool"
  for digest :: "json \<Rightarrow> string" where
  Bundle: "disclosure_step digest db (snd (commit_bundle now userId clientId transport request plan db))"
| Preview: "disclosure_step digest db (snd (preview_request digest now userId i candidates db))"
| Decision: "disclosure_step digest db (snd (decide digest now userId i decision candidates db))"
| Result: "disclosure_step digest db (snd (result digest now userId clientId i transport db))"
| Elsewhere: "elsewhere db db' \<Longrightarrow> disclosure_step digest db db'"

inductive disclosure_reach :: "(json \<Rightarrow> string) \<Rightarrow> (nat \<Rightarrow> ident) \<Rightarrow> vault \<Rightarrow> bool"
  for digest :: "json \<Rightarrow> string" and pool :: "nat \<Rightarrow> ident" where
  Start: "disclosure_reach digest pool (empty_vault pool)"
| Next: "disclosure_reach digest pool db \<Longrightarrow> disclosure_step digest db db' \<Longrightarrow>
    disclosure_reach digest pool db'"

text \<open>The bookkeeping the simulation needs: request ids are distinct and drawn from the supply, and
  no disclosure event names a request that does not exist.\<close>

definition life_inv :: "(nat \<Rightarrow> ident) \<Rightarrow> vault \<Rightarrow> bool" where
  "life_inv pool db =
     (id_supply db = pool \<and> distinct (map r_id (v_requests db))
      \<and> r_id ` set (v_requests db) \<subseteq> pool ` {..<id_next db}
      \<and> (\<forall>e\<in>set (auditEvents db). ae_type e = audit_event_type.MEMORY_DISCLOSURE \<longrightarrow>
            set_option (ae_memoryRequestId e) \<subseteq> r_id ` set (v_requests db)))"

text \<open>The two shapes of a handler's effect: a request row changes and non-disclosing events are
  appended, or an approved row is fulfilled and one disclosure event of it is appended.\<close>

definition row_effect :: "vault \<Rightarrow> vault \<Rightarrow> ident \<Rightarrow> (memory_request \<Rightarrow> memory_request) \<Rightarrow> audit_event list \<Rightarrow> bool" where
  "row_effect db db' i f evs =
     ((\<forall>r. r_id (f r) = r_id r) \<and> v_requests db' = update_request i f (v_requests db)
      \<and> auditEvents db' = auditEvents db @ evs \<and> id_supply db' = id_supply db
      \<and> id_next db \<le> id_next db')"

lemma deliveries_append:
  "auditEvents db' = auditEvents db @ evs \<Longrightarrow>
    deliveries db' i = deliveries db i
      + count_where (\<lambda>e. ae_type e = audit_event_type.MEMORY_DISCLOSURE \<and> ae_memoryRequestId e = Some i) evs"
  by (simp add: deliveries_def)

lemma row_effect_life:
  assumes "row_effect db db' i f evs" "request_row i (v_requests db) = Some r"
    and "\<And>e j. e \<in> set evs \<Longrightarrow> ae_type e = audit_event_type.MEMORY_DISCLOSURE \<Longrightarrow>
            ae_memoryRequestId e = Some j \<Longrightarrow> j = i"
  shows "life_of db' = (life_of db)(i \<mapsto> (r_status (f r), deliveries db' i))"
proof (rule ext)
  fix j
  have keep: "\<forall>r. r_id (f r) = r_id r" and rows: "v_requests db' = update_request i f (v_requests db)"
    and ev: "auditEvents db' = auditEvents db @ evs"
    using assms(1) by (auto simp: row_effect_def)
  have "j \<noteq> i \<Longrightarrow> deliveries db' j = deliveries db j"
    using assms(3) by (auto simp: deliveries_append[OF ev] count_where_eq_0)
  then show "life_of db' j = ((life_of db)(i \<mapsto> (r_status (f r), deliveries db' i))) j"
    using requests.look_change[OF keep, of j i "v_requests db"] assms(2)
    by (auto simp: life_of_def rows)
qed

lemma row_effect_inv:
  assumes "row_effect db db' i f evs" "life_inv pool db" "request_row i (v_requests db) = Some r"
    and "\<And>e j. e \<in> set evs \<Longrightarrow> ae_type e = audit_event_type.MEMORY_DISCLOSURE \<Longrightarrow>
            ae_memoryRequestId e = Some j \<Longrightarrow> j = i"
  shows "life_inv pool db'"
proof -
  have ids: "map r_id (v_requests db') = map r_id (v_requests db)"
    using assms(1) by (simp add: row_effect_def update_request_def map_update_where)
  then have idset: "r_id ` set (v_requests db') = r_id ` set (v_requests db)"
    by (metis set_map)
  have "r_id r = i" "r \<in> set (v_requests db)"
    using assms(3) by (auto simp: request_row_def dest: find_row_SomeD)
  then have "i \<in> r_id ` set (v_requests db)" by blast
  moreover have "pool ` {..<id_next db} \<subseteq> pool ` {..<id_next db'}"
    using assms(1) by (auto simp: row_effect_def)
  ultimately show ?thesis
    using assms(1,2,4) unfolding life_inv_def idset ids row_effect_def by fastforce
qed

section \<open>The handlers refine the machine\<close>

definition good :: "(nat \<Rightarrow> ident) \<Rightarrow> vault \<Rightarrow> bool" where
  "good pool db = (life_inv pool db \<and> life_reach (life_of db))"

text \<open>What an operation owes: the bookkeeping, and a path of the machine from state to state.\<close>

definition evolves :: "(nat \<Rightarrow> ident) \<Rightarrow> vault \<Rightarrow> vault \<Rightarrow> bool" where
  "evolves pool db db' = (life_inv pool db' \<and> rtranclp life_step (life_of db) (life_of db'))"

lemma evolves_refl: "good pool db \<Longrightarrow> evolves pool db db"
  by (simp add: evolves_def good_def)

lemma evolves_trans: "evolves pool db db1 \<Longrightarrow> evolves pool db1 db2 \<Longrightarrow> evolves pool db db2"
  by (auto simp: evolves_def)

lemma evolves_good: "good pool db \<Longrightarrow> evolves pool db db' \<Longrightarrow> good pool db'"
proof -
  have "rtranclp life_step m m' \<Longrightarrow> life_reach m \<Longrightarrow> life_reach m'" for m m'
    by (induction rule: rtranclp_induct) (auto intro: life_reach.Step)
  then show "good pool db \<Longrightarrow> evolves pool db db' \<Longrightarrow> good pool db'"
    by (auto simp: good_def evolves_def)
qed

lemma good_once: "good pool db \<Longrightarrow> request_row i (v_requests db) = Some r \<Longrightarrow>
    deliveries db i = (if r_status r = memory_request_status.FULFILLED then 1 else 0)
    \<and> r_status r \<in> {memory_request_status.NEEDS_USER_APPROVAL, memory_request_status.APPROVED,
             memory_request_status.DENIED, memory_request_status.FULFILLED}"
proof -
  assume g: "good pool db" and r: "request_row i (v_requests db) = Some r"
  have "delivered_once (life_of db)" using g by (simp add: good_def life_reach_delivered_once)
  moreover have "life_of db i = Some (r_status r, deliveries db i)" by (simp add: life_of_def r)
  ultimately show ?thesis unfolding delivered_once_def by blast
qed

lemma good_row:
  assumes "good pool db" "r \<in> set (v_requests db)"
  shows "request_row (r_id r) (v_requests db) = Some r"
  using assms find_row_unique[of r_id "v_requests db" r]
  by (simp add: good_def life_inv_def request_row_def)

definition quiet :: "audit_event list \<Rightarrow> bool" where
  "quiet evs = (\<forall>e\<in>set evs. ae_type e \<noteq> audit_event_type.MEMORY_DISCLOSURE)"

lemma quiet_deliveries: "row_effect db db' i f evs \<Longrightarrow> quiet evs \<Longrightarrow> deliveries db' j = deliveries db j"
  by (auto simp: row_effect_def quiet_def deliveries_append count_where_eq_0)

lemma good_move:
  assumes "good pool db" "row_effect db db' i f evs" "quiet evs"
    and "request_row i (v_requests db) = Some r"
    and "(r_status r, r_status (f r)) \<in>
      {(memory_request_status.NEEDS_USER_APPROVAL, memory_request_status.NEEDS_USER_APPROVAL),
       (memory_request_status.APPROVED, memory_request_status.NEEDS_USER_APPROVAL),
       (memory_request_status.NEEDS_USER_APPROVAL, memory_request_status.APPROVED),
       (memory_request_status.NEEDS_USER_APPROVAL, memory_request_status.DENIED)}"
  shows "evolves pool db db'"
proof -
  have d: "deliveries db' i = 0" "deliveries db i = 0"
    using good_once[OF assms(1,4)] assms(5) quiet_deliveries[OF assms(2,3), of i] by auto
  have at: "life_of db i = Some (r_status r, 0)" by (simp add: life_of_def assms(4) d)
  have q: "\<And>e j. e \<in> set evs \<Longrightarrow> ae_type e = audit_event_type.MEMORY_DISCLOSURE \<Longrightarrow>
            ae_memoryRequestId e = Some j \<Longrightarrow> j = i"
    using assms(3) by (auto simp: quiet_def)
  have "life_step (life_of db) ((life_of db)(i \<mapsto> (r_status (f r), 0)))"
    using at assms(5) by (auto intro: life_step.intros)
  moreover have "life_of db' = (life_of db)(i \<mapsto> (r_status (f r), 0))"
    using row_effect_life[OF assms(2,4) q] by (simp add: d)
  moreover have "life_inv pool db'"
    using row_effect_inv[OF assms(2) _ assms(4) q] assms(1) by (simp add: good_def)
  ultimately show ?thesis by (simp add: evolves_def)
qed

lemma recorded_effect:
  assumes "\<And>r. r_id (f r) = r_id r"
  shows "row_effect db (recordDisclosureDecision now req ty ids dd (set_request i f db)) i f
     [event_row now (next_id db) (decision_event (set_request i f db) req ty ids dd)]"
  using assms
  by (simp add: row_effect_def recordDisclosureDecision_def set_request_def audit_simps next_id_def)

lemma quiet_decision: "ty \<noteq> audit_event_type.MEMORY_DISCLOSURE \<Longrightarrow>
    quiet [event_row now k (decision_event db req ty ids dd)]"
  by (simp add: quiet_def decision_event_def Let_def)

lemma fresh_review_simps [simp]:
  "r_id (fresh_review now why ver r) = r_id r"
  "r_status (fresh_review now why ver r) = memory_request_status.NEEDS_USER_APPROVAL"
  "r_userId (fresh_review now why ver r) = r_userId r"
  "r_clientId (fresh_review now why ver r) = r_clientId r"
  by (simp_all add: fresh_review_def)

lemma good_invalidate:
  assumes "good pool db" "request_row (r_id r) (v_requests db) = Some r"
    and "r_status r \<in> {memory_request_status.NEEDS_USER_APPROVAL, memory_request_status.APPROVED}"
  shows "evolves pool db (snd (invalidate now r ctx db))"
    and "request_row (r_id r) (v_requests (snd (invalidate now r ctx db))) = Some (fst (invalidate now r ctx db))"
    and "r_status (fst (invalidate now r ctx db)) = memory_request_status.NEEDS_USER_APPROVAL"
proof -
  let ?ver = "if dc_bound ctx then Some (dc_policyVersion ctx) else None"
  let ?f = "fresh_review now (Some policy_changed) ?ver"
  obtain dd where eq: "snd (invalidate now r ctx db)
      = recordDisclosureDecision now (?f r) audit_event_type.MEMORY_REQUEST_DENIED [] dd
          (set_request (r_id r) ?f db)"
    by (simp add: invalidate_def Let_def requireFreshReview_def)
  have eff: "row_effect db (snd (invalidate now r ctx db)) (r_id r) ?f
      [event_row now (next_id db) (decision_event (set_request (r_id r) ?f db) (?f r)
         audit_event_type.MEMORY_REQUEST_DENIED [] dd)]"
    unfolding eq by (rule recorded_effect) simp
  show "evolves pool db (snd (invalidate now r ctx db))"
    by (rule good_move[OF assms(1) eff quiet_decision assms(2)]) (use assms(3) in auto)
  have fst: "fst (invalidate now r ctx db) = ?f r" by (simp add: invalidate_def Let_def)
  have "\<forall>r. r_id (?f r) = r_id r" by simp
  from requests.look_change_same[OF this, of "r_id r" "v_requests db"] eff assms(2)
  show "request_row (r_id r) (v_requests (snd (invalidate now r ctx db))) = Some (fst (invalidate now r ctx db))"
    by (simp add: row_effect_def fst)
  show "r_status (fst (invalidate now r ctx db)) = memory_request_status.NEEDS_USER_APPROVAL"
    by (simp add: fst)
qed

text \<open>A preview leaves the database alone or sends a waiting request back to review.\<close>

lemma preview_effect:
  assumes "previewDisclosure digest now r cands db = (x, db')"
  obtains (same) "db' = db"
    | (renewed) ctx where "r_status r = memory_request_status.NEEDS_USER_APPROVAL"
      "db' = snd (invalidate now r ctx db)"
  using assms
  by (auto simp: previewDisclosure_def Let_def split_beta split: option.splits if_splits)

lemma good_preview:
  assumes "good pool db" "r \<in> set (v_requests db)"
    and "previewDisclosure digest now r cands db = (x, db')"
  shows "evolves pool db db'"
    and "r_status r = memory_request_status.NEEDS_USER_APPROVAL \<Longrightarrow>
      \<exists>r'. request_row (r_id r) (v_requests db') = Some r'
        \<and> r_status r' = memory_request_status.NEEDS_USER_APPROVAL"
  using assms(3) good_row[OF assms(1,2)] evolves_refl[OF assms(1)] good_invalidate[OF assms(1) good_row[OF assms(1,2)]]
  by (cases rule: preview_effect; blast)+

lemma good_preview_request: "good pool db \<Longrightarrow> evolves pool db (snd (preview_request digest now u i cands db))"
proof (cases "lockDisclosureRequest db u i None")
  case (Inr r)
  assume "good pool db"
  then show ?thesis
    using good_preview(1)[of pool db r digest now cands] lock_found(1)[OF Inr] evolves_refl
    by (auto simp: preview_request_def Inr split: prod.splits sum.splits)
qed (simp add: preview_request_def evolves_refl)

lemma good_decide:
  assumes g: "good pool db"
  shows "evolves pool db (snd (decide digest now u i decision cands db))"
proof (cases "\<exists>r. lockDisclosureRequest db u i None = Inr r
    \<and> r_status r = memory_request_status.NEEDS_USER_APPROVAL
    \<and> fst (decide digest now u i decision cands db) = Inr ()")
  case False
  then have "snd (decide digest now u i decision cands db) = db"
    by (auto simp: decide_def Let_def split: sum.splits review_decision.splits prod.splits)
  then show ?thesis using evolves_refl[OF g] by simp
next
  case True
  then obtain r where lock: "lockDisclosureRequest db u i None = Inr r"
    and st: "r_status r = memory_request_status.NEEDS_USER_APPROVAL"
    and ok: "fst (decide digest now u i decision cands db) = Inr ()" by blast
  have r: "r \<in> set (v_requests db)" "r_id r = i" using lock_found[OF lock] by auto
  show ?thesis
  proof (cases decision)
    case DenyRequest
    have "request_row i (v_requests db) = Some r" using good_row[OF g r(1)] r(2) by simp
    from good_move[OF g recorded_effect quiet_decision this] show ?thesis
      using st by (simp add: decide_def lock DenyRequest)
  next
    case (ApproveRequest rev ids)
    obtain x db1 where prev: "previewDisclosure digest now r cands db = (x, db1)" by fastforce
    obtain r' where r': "request_row i (v_requests db1) = Some r'"
      "r_status r' = memory_request_status.NEEDS_USER_APPROVAL"
      using good_preview(2)[OF g r(1) prev st] r(2) by blast
    have e1: "evolves pool db db1" by (rule good_preview(1)[OF g r(1) prev])
    note g1 = evolves_good[OF g e1]
    from evolves_trans[OF e1 good_move[OF g1 recorded_effect quiet_decision r'(1)]] show ?thesis
      using st ok r'(2)
      by (auto simp: decide_def lock ApproveRequest prev Let_def split: sum.splits prod.splits if_splits)
  qed
qed

lemma good_result:
  assumes g: "good pool db"
  shows "evolves pool db (snd (result digest now userId clientId i transport db))"
proof (cases "\<exists>res. fst (result digest now userId clientId i transport db) = Inr res")
  case False
  then have "snd (result digest now userId clientId i transport db) = db"
    by (auto simp: result_def Let_def split: sum.splits option.splits prod.splits bool.splits)
  then show ?thesis using evolves_refl[OF g] by simp
next
  case True
  then obtain res db' where "result digest now userId clientId i transport db = (Inr res, db')"
    by (metis prod.collapse)
  then have res: "result digest now userId clientId i transport db = (Inr res, db')"
    "snd (result digest now userId clientId i transport db) = db'" by simp_all
  from res(1) have "evolves pool db db'"
  proof (cases rule: result_cases)
    case (waiting r)
    then show ?thesis using evolves_refl[OF g] by simp
  next
    case (renew r)
    have row: "request_row (r_id r) (v_requests db) = Some r"
      using good_row[OF g] lock_found(1)[OF renew(1)] by simp
    have "row_effect db db' (r_id r) (fresh_review now (Some confirmation_required) None) []"
      by (simp add: renew(5) row_effect_def requireFreshReview_def set_request_def)
    from good_move[OF g this _ row] renew(2) show ?thesis by (simp add: quiet_def)
  next
    case (stale r sn)
    have row: "request_row (r_id r) (v_requests db) = Some r"
      using good_row[OF g] lock_found(1)[OF stale(1)] by simp
    from good_invalidate(1)[OF g row] stale(2,5) show ?thesis by simp
  next
    case (delivered r sn e)
    let ?f = "\<lambda>r. r \<lparr> r_status := memory_request_status.FULFILLED,
             r_fulfilledAt := Some now, r_decisionReason := None,
             r_reviewSnapshot := None, r_updatedAt := now \<rparr>"
    from delivered(9) obtain name where db': "db' = set_request i ?f
           (snd (createAuditEvent now (delivery_event userId clientId transport r sn name)
             (db \<lparr> v_requestItems := v_requestItems db @ map (request_item_of i) (sn_items sn) \<rparr>)))" by blast
    let ?ev = "event_row now (next_id db) (delivery_event userId clientId transport r sn name)"
    have rid: "r_id r = i" using lock_found[OF delivered(1)] by simp
    have row: "request_row i (v_requests db) = Some r"
      using good_row[OF g] lock_found(1)[OF delivered(1)] rid by blast
    have eff: "row_effect db db' i ?f [?ev]"
      by (simp add: db' row_effect_def set_request_def audit_simps next_id_def)
    have one: "\<And>e j. e \<in> set [?ev] \<Longrightarrow> ae_type e = audit_event_type.MEMORY_DISCLOSURE \<Longrightarrow>
            ae_memoryRequestId e = Some j \<Longrightarrow> j = i" by (simp add: delivery_event_def rid)
    have d0: "deliveries db i = 0" using good_once[OF g row] delivered(2) by simp
    have "auditEvents db' = auditEvents db @ [?ev]" using eff by (simp add: row_effect_def)
    then have d1: "deliveries db' i = 1"
      by (simp add: deliveries_append d0 delivery_event_def rid)
    have "life_of db i = Some (memory_request_status.APPROVED, 0)"
      by (simp add: life_of_def row d0 delivered(2))
    then have "life_step (life_of db) ((life_of db)(i \<mapsto> (memory_request_status.FULFILLED, 1)))"
      by (rule life_step.Deliver)
    moreover have "life_of db' = (life_of db)(i \<mapsto> (memory_request_status.FULFILLED, 1))"
      using row_effect_life[OF eff row one] by (simp add: d1)
    moreover have "life_inv pool db'"
      using row_effect_inv[OF eff _ row one] g by (simp add: good_def)
    ultimately show ?thesis by (simp add: evolves_def)
  qed
  then show ?thesis by (simp add: res(2))
qed

lemma good_elsewhere:
  assumes "good pool db" "elsewhere db db'"
  shows "evolves pool db db'"
proof -
  from assms(2) obtain evs where ev: "auditEvents db' = auditEvents db @ evs"
    and quiet: "\<forall>e\<in>set evs. \<not> (ae_type e = audit_event_type.MEMORY_DISCLOSURE \<and> ae_memoryRequestId e \<noteq> None)"
    and same: "v_requests db' = v_requests db" "id_supply db' = id_supply db" "id_next db \<le> id_next db'"
    by (auto simp: elsewhere_def)
  have "deliveries db' j = deliveries db j" for j
    using quiet by (auto simp: deliveries_append[OF ev] count_where_eq_0)
  then have "life_of db' = life_of db" by (simp add: life_of_def same fun_eq_iff)
  moreover have "pool ` {..<id_next db} \<subseteq> pool ` {..<id_next db'}" using same(3) by auto
  then have "life_inv pool db'"
    using assms(1) quiet unfolding good_def life_inv_def same ev by fastforce
  ultimately show ?thesis by (simp add: evolves_def)
qed

lemma good_bundle:
  assumes g: "good pool db" and pool: "inj pool"
  shows "evolves pool db (snd (commit_bundle now u c tr request plan db))"
proof -
  let ?r = "commit_bundle now u c tr request plan db"
  let ?pol = "bundle_policy now db u c (fst plan)
      (if pr_decision (fst plan) = DENY then [] else current_candidates db u (snd plan))"
  let ?i = "next_id db"
  obtain row where row: "v_requests (snd ?r) = v_requests db @ [row]"
    and st: "r_status row = bundle_status (pr_decision ?pol)" "r_id row = ?i"
    by (rule that[of "new_request now ?i u c request ?pol"])
      (simp_all add: commit_bundle_def Let_def split_beta audit_simps draw_id_def next_id_def new_request_def)
  have "id_supply (snd ?r) = id_supply db" "id_next (snd ?r) \<ge> Suc (id_next db)"
    by (simp_all add: commit_bundle_def Let_def split_beta audit_simps draw_id_def next_id_def)
  note rows = row this
  have i: "?i = pool (id_next db)" using g by (simp add: good_def life_inv_def next_id_def)
  then have fresh: "?i \<notin> r_id ` set (v_requests db)"
    using g pool by (auto simp: good_def life_inv_def dest: injD)
  obtain evs where ev: "auditEvents (snd ?r) = auditEvents db @ evs"
    and evs: "\<forall>e\<in>set evs. ae_memoryRequestId e = Some ?i"
    and cnt: "count_where (\<lambda>e. ae_type e = audit_event_type.MEMORY_DISCLOSURE \<and> ae_memoryRequestId e = Some ?i) evs
        = (if pr_decision ?pol = ALLOW then 1 else 0)"
    by (cases "pr_decision ?pol")
      (auto simp: commit_bundle_def Let_def split_beta audit_simps draw_id_def next_id_def
        bundle_status_def disclosure_event_def denied_event_def new_request_def)
  have d0: "deliveries db ?i = 0"
    using g fresh by (auto simp: deliveries_def count_where_eq_0 good_def life_inv_def)
  then have d1: "deliveries (snd ?r) ?i = (if pr_decision ?pol = ALLOW then 1 else 0)"
    by (simp add: deliveries_append[OF ev] cnt)
  have d2: "j \<noteq> ?i \<Longrightarrow> deliveries (snd ?r) j = deliveries db j" for j
    using evs by (auto simp: deliveries_append[OF ev] count_where_eq_0)
  have none: "request_row ?i (v_requests db) = None"
    using fresh by (force simp: request_row_def find_row_None_iff)
  have "request_row j (v_requests (snd ?r))
      = (if j = ?i then Some row else request_row j (v_requests db))" for j
    using none st(2) by (auto simp: rows request_row_def find_row_append split: option.split)
  then have life: "life_of (snd ?r) = (life_of db)(?i \<mapsto> (r_status row, if pr_decision ?pol = ALLOW then 1 else 0))"
    using d1 d2 by (auto simp: life_of_def fun_eq_iff)
  have "life_of db ?i = None" by (simp add: life_of_def none)
  then have "life_step (life_of db) (life_of (snd ?r))"
    unfolding life st(1)
    by (cases "pr_decision ?pol") (auto simp: bundle_status_def simp del: One_nat_def intro: life_step.intros)
  moreover have "life_inv pool (snd ?r)"
  proof -
    have "pool ` {..<id_next db} \<subseteq> pool ` {..<id_next (snd ?r)}"
      "pool (id_next db) \<in> pool ` {..<id_next (snd ?r)}" using rows(3) by auto
    then show ?thesis
      using g fresh evs i st(2) unfolding good_def life_inv_def rows ev by fastforce
  qed
  ultimately show ?thesis by (simp add: evolves_def)
qed

lemma disclosure_step_evolves:
  assumes g: "good pool db" and "inj pool" "disclosure_step digest db db'"
  shows "evolves pool db db'"
  using assms(3)
  by cases (auto intro: good_bundle[OF g assms(2)] good_preview_request[OF g]
        good_decide[OF g] good_result[OF g] good_elsewhere[OF g])

lemma disclosure_reach_good:
  assumes "inj pool"
  shows "disclosure_reach digest pool db \<Longrightarrow> good pool db"
proof (induction rule: disclosure_reach.induct)
  case Start
  have "life_of (empty_vault pool) = (\<lambda>_. None)"
    by (simp add: life_of_def empty_vault_def request_row_def)
  then show ?case by (simp add: good_def life_inv_def empty_vault_def life_reach.Init)
next
  case (Next db db')
  show ?case
    by (rule evolves_good[OF Next.IH disclosure_step_evolves[OF Next.IH assms Next.hyps(2)]])
qed




section \<open>A sample run\<close>

text \<open>A bundle request answered at once under a policy that asks for no confirmation.\<close>

abbreviation sample_plan where
  "sample_plan \<equiv> plan_bundle sample_env 5 sample_vault sample_embeddings ''u1'' ''c1'' sample_body"

definition run_fulfilled :: vault where
  "run_fulfilled = snd (commit_bundle 6 ''u1'' ''c1'' ''http_api'' sample_body sample_plan sample_vault)"

lemma run_fulfilled_reach: "disclosure_reach sample_digest sample_ids run_fulfilled"
proof -
  have "elsewhere (empty_vault sample_ids) sample_vault"
    by (simp add: elsewhere_def sample_defs)
  then have "disclosure_reach sample_digest sample_ids sample_vault"
    using disclosure_reach.Next[OF disclosure_reach.Start disclosure_step.Elsewhere] by blast
  then show ?thesis unfolding run_fulfilled_def
    by (rule disclosure_reach.Next[OF _ disclosure_step.Bundle])
qed

lemma run_fulfilled_row:
  obtains r where "v_requests run_fulfilled = [r]" "r_status r = memory_request_status.FULFILLED"
proof -
  have "br_status (fst sample_request) = memory_request_status.FULFILLED"
    using sample_request_items unfolding createBundleRequest_def
    by (intro commit_items(4)[OF refl]) auto
  with commit_row[of 6 "''u1''" "''c1''" "''http_api''" sample_body sample_plan sample_vault] that
  show thesis by (auto simp: run_fulfilled_def createBundleRequest_def sample_defs)
qed




end
