(* ===== verification/OAuthTokens.thy ===== *)
theory OAuthTokens
  imports Samples
begin

text \<open>
  \<open>oauth/oauth.config.ts\<close>, \<open>oauth-credentials.ts\<close> and \<open>oauth-tokens.service.ts\<close>: token pairs are
  stored by the hash of their opaque value, verified against their own state and the state of the
  registration and the client they were issued for, and revoked by id, by source code or by client.
  The configuration and the hash are the fields of \<open>oauth_env\<close>; random values are arguments.
\<close>

section \<open>Configuration\<close>

record oauth_env =
  oe_hash :: "string \<Rightarrow> string"
  oe_accessTtlSeconds :: "nat option"
  oe_refreshTtlSeconds :: "nat option"
  oe_maxPendingRegistrations :: "nat option"
  oe_connectorMaxSensitivity :: "string option"
  oe_resourceHref :: string

definition oauthAccessTokenTtlSeconds :: "oauth_env \<Rightarrow> nat" where
  "oauthAccessTokenTtlSeconds env = (case oe_accessTtlSeconds env of Some n \<Rightarrow> n | None \<Rightarrow> 60 * 60)"

definition oauthRefreshTokenTtlSeconds :: "oauth_env \<Rightarrow> nat" where
  "oauthRefreshTokenTtlSeconds env =
     (case oe_refreshTtlSeconds env of Some n \<Rightarrow> n | None \<Rightarrow> 30 * 24 * 60 * 60)"

definition oauthAuthorizationRequestTtlMs :: time where
  "oauthAuthorizationRequestTtlMs = 10 * 60 * 1000"

definition oauthAuthorizationCodeTtlMs :: time where
  "oauthAuthorizationCodeTtlMs = 5 * 60 * 1000"

definition oauthMaxPendingRegistrations :: "oauth_env \<Rightarrow> nat" where
  "oauthMaxPendingRegistrations env =
     (case oe_maxPendingRegistrations env of Some n \<Rightarrow> n | None \<Rightarrow> 50)"

text \<open>\<open>credentialMatchesHash\<close>: equal lengths and equal bytes.\<close>

definition credentialMatchesHash :: "oauth_env \<Rightarrow> string \<Rightarrow> string \<Rightarrow> bool" where
  "credentialMatchesHash env value hash =
     (let candidate = oe_hash env value
      in length candidate = length hash \<and> candidate = hash)"

section \<open>Rows and their grant\<close>

definition registration_by_id :: "vault \<Rightarrow> ident \<Rightarrow> oauth_registration option" where
  "registration_by_id db i = find_row (\<lambda>g. g_id g = i) (v_registrations db)"

definition client_by_id :: "vault \<Rightarrow> ident \<Rightarrow> client option" where
  "client_by_id db i = find_row (\<lambda>c. c_id c = i) (v_clients db)"

text \<open>\<open>registration.status === APPROVED && client.trustLevel === APPROVED\<close> of the joined rows.\<close>

definition grant_approved :: "vault \<Rightarrow> ident \<Rightarrow> ident \<Rightarrow> bool" where
  "grant_approved db registrationId clientId =
     ((case registration_by_id db registrationId of
         Some g \<Rightarrow> g_status g = oauth_registration_status.APPROVED | None \<Rightarrow> False)
      \<and> (case client_by_id db clientId of
         Some c \<Rightarrow> c_trustLevel c = client_trust_level.APPROVED | None \<Rightarrow> False))"

section \<open>Issuance\<close>

record issued_token_pair =
  ip_accessToken :: string
  ip_refreshToken :: string
  ip_expiresInSeconds :: nat
  ip_scopes :: "string list"

record issue_input =
  ii_registrationId :: ident
  ii_userId :: ident
  ii_clientId :: ident
  ii_scopes :: "string list"
  ii_resource :: "string option"
  ii_sourceCodeId :: "ident option"
  ii_grantType :: string

definition issued_row ::
  "issue_input \<Rightarrow> ident \<Rightarrow> oauth_token_type \<Rightarrow> string \<Rightarrow> time \<Rightarrow> oauth_token" where
  "issued_row inp i type hash expiresAt =
     \<lparr> t_id = i, t_registrationId = ii_registrationId inp, t_userId = ii_userId inp,
       t_clientId = ii_clientId inp, t_type = type, t_tokenHash = hash, t_scopes = ii_scopes inp,
       t_resource = ii_resource inp, t_sourceCodeId = ii_sourceCodeId inp,
       t_expiresAt = expiresAt, t_revokedAt = None \<rparr>"

definition token_event ::
  "ident \<Rightarrow> ident \<Rightarrow> audit_event_type \<Rightarrow> audit_actor_type \<Rightarrow> ident option \<Rightarrow> (string \<times> json) list
     \<Rightarrow> audit_event_input" where
  "token_event userId clientId type actorType actorId details =
     \<lparr> ai_userId = userId, ai_clientId = Some clientId, ai_memoryRequestId = None, ai_type = type,
       ai_actorType = actorType, ai_actorId = actorId,
       ai_metadata = no_metadata \<lparr> am_details := details \<rparr>, ai_subjects = [],
       ai_inferSubjects = True \<rparr>"

definition issueTokenPair ::
  "oauth_env \<Rightarrow> time \<Rightarrow> string \<Rightarrow> string \<Rightarrow> issue_input \<Rightarrow> vault \<Rightarrow> issued_token_pair \<times> vault" where
  "issueTokenPair env now accessToken refreshToken inp db =
     (let expiresInSeconds = oauthAccessTokenTtlSeconds env;
          access = issued_row inp (next_id db) oauth_token_type.ACCESS (oe_hash env accessToken)
            (now + int expiresInSeconds * 1000);
          refresh = issued_row inp (next_id (draw_id db)) oauth_token_type.REFRESH
            (oe_hash env refreshToken) (now + int (oauthRefreshTokenTtlSeconds env) * 1000);
          db1 = (draw_id (draw_id db)) \<lparr> v_tokens := v_tokens db @ [access, refresh] \<rparr>;
          (_, db2) = createAuditEvent now
            (token_event (ii_userId inp) (ii_clientId inp) audit_event_type.OAUTH_TOKEN_ISSUED
               audit_actor_type.CLIENT (Some (ii_clientId inp))
               [(''grantType'', JStr (ii_grantType inp)),
                (''scopes'', JArr (map JStr (ii_scopes inp))),
                (''expiresInSeconds'', JNum (of_nat expiresInSeconds))]) db1
      in (\<lparr> ip_accessToken = accessToken, ip_refreshToken = refreshToken,
            ip_expiresInSeconds = expiresInSeconds, ip_scopes = ii_scopes inp \<rparr>, db2))"

section \<open>Verification\<close>

text \<open>\<open>findToken\<close>; the joined registration and client exist by the foreign keys.\<close>

definition findToken :: "oauth_env \<Rightarrow> vault \<Rightarrow> string \<Rightarrow> oauth_token_type \<Rightarrow> oauth_token option" where
  "findToken env db token type =
     find_row (\<lambda>t. t_tokenHash t = oe_hash env token \<and> t_type t = type) (v_tokens db)"

definition isUsableGrant :: "time \<Rightarrow> vault \<Rightarrow> oauth_token \<Rightarrow> bool" where
  "isUsableGrant now db row =
     (t_revokedAt row = None \<and> t_expiresAt row > now
      \<and> grant_approved db (t_registrationId row) (t_clientId row))"

definition verifyAccessToken :: "oauth_env \<Rightarrow> time \<Rightarrow> vault \<Rightarrow> string \<Rightarrow> oauth_token option" where
  "verifyAccessToken env now db token =
     (if take 5 token \<noteq> ''fvoa_'' then None
      else case findToken env db token oauth_token_type.ACCESS of
             None \<Rightarrow> None
           | Some row \<Rightarrow> if isUsableGrant now db row then Some row else None)"

datatype refresh_status =
    RefreshValid oauth_token
  | RefreshReused oauth_token
  | RefreshInvalid

definition verifyRefreshToken :: "oauth_env \<Rightarrow> time \<Rightarrow> vault \<Rightarrow> string \<Rightarrow> refresh_status" where
  "verifyRefreshToken env now db token =
     (case findToken env db token oauth_token_type.REFRESH of
        None \<Rightarrow> RefreshInvalid
      | Some row \<Rightarrow>
          if t_revokedAt row \<noteq> None then RefreshReused row
          else if t_expiresAt row \<le> now \<or> \<not> isUsableGrant now db row then RefreshInvalid
          else RefreshValid row)"

section \<open>Revocation\<close>

definition revoked :: "time \<Rightarrow> oauth_token \<Rightarrow> oauth_token" where
  "revoked now t = t \<lparr> t_revokedAt := Some now \<rparr>"

definition revoke_event ::
  "ident \<Rightarrow> ident \<Rightarrow> audit_actor_type \<Rightarrow> ident option \<Rightarrow> string \<Rightarrow> nat \<Rightarrow> audit_event_input" where
  "revoke_event userId clientId actorType actorId reason n =
     token_event userId clientId audit_event_type.OAUTH_TOKEN_REVOKED actorType actorId
       [(''reason'', JStr reason), (''revokedTokens'', JNum (of_nat n))]"

definition revokeTokens ::
  "time \<Rightarrow> ident list \<Rightarrow> ident \<Rightarrow> ident \<Rightarrow> string \<Rightarrow> audit_actor_type \<Rightarrow> ident option \<Rightarrow> vault
     \<Rightarrow> nat \<times> vault" where
  "revokeTokens now ids userId clientId reason actorType actorId db =
     (length ids,
      snd (createAuditEvent now (revoke_event userId clientId actorType actorId reason (length ids))
        (db \<lparr> v_tokens := update_where (\<lambda>t. t_id t \<in> set ids) (revoked now) (v_tokens db) \<rparr>)))"

definition revokeAccessToken :: "time \<Rightarrow> oauth_token \<Rightarrow> string \<Rightarrow> vault \<Rightarrow> vault" where
  "revokeAccessToken now token reason db =
     snd (revokeTokens now [t_id token] (t_userId token) (t_clientId token) reason
            audit_actor_type.CLIENT (Some (t_clientId token)) db)"

text \<open>\<open>revokeTokenById\<close>: an \<open>updateMany\<close> whose count is not looked at.\<close>

definition revokeTokenById :: "time \<Rightarrow> ident \<Rightarrow> vault \<Rightarrow> vault" where
  "revokeTokenById now i db =
     db \<lparr> v_tokens := update_where (\<lambda>t. t_id t = i \<and> t_revokedAt t = None) (revoked now) (v_tokens db) \<rparr>"

definition revokeTokensForSourceCode :: "time \<Rightarrow> ident \<Rightarrow> string \<Rightarrow> vault \<Rightarrow> nat \<times> vault" where
  "revokeTokensForSourceCode now sourceCodeId reason db =
     (case filter (\<lambda>t. t_sourceCodeId t = Some sourceCodeId \<and> t_revokedAt t = None) (v_tokens db) of
        [] \<Rightarrow> (0, db)
      | tokens \<Rightarrow>
          revokeTokens now (map t_id tokens) (t_userId (hd tokens)) (t_clientId (hd tokens)) reason
            audit_actor_type.SYSTEM None db)"

definition revokeTokensForClient ::
  "time \<Rightarrow> ident \<Rightarrow> string \<Rightarrow> audit_actor_type \<Rightarrow> ident option \<Rightarrow> vault \<Rightarrow> nat \<times> vault" where
  "revokeTokensForClient now clientId reason actorType actorId db =
     (case filter (\<lambda>t. t_clientId t = clientId \<and> t_revokedAt t = None) (v_tokens db) of
        [] \<Rightarrow> (0, db)
      | tokens \<Rightarrow>
          (length tokens,
           snd (createAuditEvent now
             (revoke_event (t_userId (hd tokens)) clientId actorType actorId reason (length tokens))
             (db \<lparr> v_tokens := update_where (\<lambda>t. t_id t \<in> set (map t_id tokens)) (revoked now)
                     (v_tokens db) \<rparr>))))"

section \<open>What the token store guarantees\<close>

named_theorems token_simps

lemma issueTokenPair_tokens [token_simps]:
  "v_tokens (snd (issueTokenPair env now a r inp db)) =
     v_tokens db @
       [issued_row inp (next_id db) oauth_token_type.ACCESS (oe_hash env a)
          (now + int (oauthAccessTokenTtlSeconds env) * 1000),
        issued_row inp (next_id (draw_id db)) oauth_token_type.REFRESH (oe_hash env r)
          (now + int (oauthRefreshTokenTtlSeconds env) * 1000)]"
  by (simp add: issueTokenPair_def Let_def split_beta audit_simps)

lemma issueTokenPair_other [token_simps]:
  "v_registrations (snd (issueTokenPair env now a r inp db)) = v_registrations db"
  "v_clients (snd (issueTokenPair env now a r inp db)) = v_clients db"
  "v_codes (snd (issueTokenPair env now a r inp db)) = v_codes db"
  by (simp_all add: issueTokenPair_def Let_def split_beta audit_simps draw_id_def)

lemma fst_issueTokenPair [token_simps]:
  "ip_accessToken (fst (issueTokenPair env now a r inp db)) = a"
  "ip_refreshToken (fst (issueTokenPair env now a r inp db)) = r"
  "ip_scopes (fst (issueTokenPair env now a r inp db)) = ii_scopes inp"
  by (simp_all add: issueTokenPair_def Let_def split_beta)

lemma revokeTokens_tokens [token_simps]:
  "v_tokens (snd (revokeTokens now ids u c why ty act db))
     = update_where (\<lambda>t. t_id t \<in> set ids) (revoked now) (v_tokens db)"
  by (simp add: revokeTokens_def audit_simps)

lemma revoke_other [token_simps]:
  "v_codes (snd (revokeTokens now ids u c why ty act db)) = v_codes db"
  "v_codes (snd (revokeTokensForSourceCode now sc why db)) = v_codes db"
  "v_codes (snd (revokeTokensForClient now c why ty act db)) = v_codes db"
  "v_codes (revokeTokenById now i db) = v_codes db"
  by (simp_all add: revokeTokens_def revokeTokensForSourceCode_def revokeTokensForClient_def
      revokeTokenById_def audit_simps split: list.split)

lemma revoked_simps [simp]:
  "t_id (revoked now t) = t_id t" "t_tokenHash (revoked now t) = t_tokenHash t"
  "t_type (revoked now t) = t_type t" "t_clientId (revoked now t) = t_clientId t"
  "t_sourceCodeId (revoked now t) = t_sourceCodeId t" "t_revokedAt (revoked now t) = Some now"
  by (simp_all add: revoked_def)

lemma revokeTokensForClient_tokens:
  "v_tokens (snd (revokeTokensForClient now c why ty act db))
     = update_where (\<lambda>t. t_id t \<in> set (map t_id (filter (\<lambda>t. t_clientId t = c \<and> t_revokedAt t = None) (v_tokens db))))
         (revoked now) (v_tokens db)"
proof (cases "filter (\<lambda>t. t_clientId t = c \<and> t_revokedAt t = None) (v_tokens db)")
  case Nil
  then show ?thesis by (simp add: revokeTokensForClient_def update_where_def)
qed (simp add: revokeTokensForClient_def audit_simps)

lemma revokeTokensForSourceCode_tokens:
  "v_tokens (snd (revokeTokensForSourceCode now sc why db))
     = update_where (\<lambda>t. t_id t \<in> set (map t_id (filter (\<lambda>t. t_sourceCodeId t = Some sc \<and> t_revokedAt t = None) (v_tokens db))))
         (revoked now) (v_tokens db)"
proof (cases "filter (\<lambda>t. t_sourceCodeId t = Some sc \<and> t_revokedAt t = None) (v_tokens db)")
  case Nil
  then show ?thesis by (simp add: revokeTokensForSourceCode_def update_where_def)
qed (simp add: revokeTokensForSourceCode_def audit_simps token_simps)

lemma update_where_revoked:
  "t \<in> set (update_where (\<lambda>t. t_id t \<in> set (map t_id (filter (\<lambda>t. Q t \<and> t_revokedAt t = None) ts))) (revoked now) ts)
    \<Longrightarrow> (\<And>t. Q (revoked now t) = Q t) \<Longrightarrow> Q t \<Longrightarrow> t_revokedAt t \<noteq> None"
  by (auto simp: set_update_where split: if_splits)

text \<open>Verification accepts only a live token: an access token verifies to a stored, unrevoked,
  unexpired access row of its hash whose registration and client are both approved.\<close>

theorem verified_access_token_is_live:
  assumes "verifyAccessToken env now db token = Some row"
  shows "row \<in> set (v_tokens db) \<and> t_tokenHash row = oe_hash env token
    \<and> t_type row = oauth_token_type.ACCESS \<and> t_revokedAt row = None \<and> now < t_expiresAt row
    \<and> (\<exists>g c. registration_by_id db (t_registrationId row) = Some g
         \<and> g_status g = oauth_registration_status.APPROVED
         \<and> client_by_id db (t_clientId row) = Some c \<and> c_trustLevel c = client_trust_level.APPROVED)"
  using assms
  by (auto simp: verifyAccessToken_def findToken_def isUsableGrant_def grant_approved_def
      dest!: find_row_SomeD split: if_splits option.splits)

text \<open>Cutting off a client is complete: once its tokens are revoked, no access token of the client
  verifies and no refresh token of the client is valid, until a new pair is issued.\<close>

theorem client_cutoff_is_complete:
  assumes "db' = snd (revokeTokensForClient now clientId reason actorType actorId db)"
  shows "(\<forall>row. verifyAccessToken env t db' token = Some row \<longrightarrow> t_clientId row \<noteq> clientId)
    \<and> (\<forall>row. verifyRefreshToken env t db' token = RefreshValid row \<longrightarrow> t_clientId row \<noteq> clientId)"
proof -
  have dead: "t_revokedAt row \<noteq> None" if "row \<in> set (v_tokens db')" "t_clientId row = clientId" for row
    using update_where_revoked[of row "\<lambda>t. t_clientId t = clientId"] that
    unfolding assms revokeTokensForClient_tokens by simp
  then show ?thesis
    by (fastforce simp: verifyAccessToken_def verifyRefreshToken_def findToken_def isUsableGrant_def
        dest: find_row_SomeD split: if_splits option.splits)
qed

definition sample_oauth_env :: oauth_env where
  "sample_oauth_env =
     \<lparr> oe_hash = (\<lambda>s. ''h'' @ s), oe_accessTtlSeconds = Some 10, oe_refreshTtlSeconds = Some 20,
       oe_maxPendingRegistrations = None, oe_connectorMaxSensitivity = None,
       oe_resourceHref = ''https://x/mcp'' \<rparr>"

definition sample_registration :: oauth_registration where
  "sample_registration =
     \<lparr> g_id = ''g1'', g_clientId = ''oc1'', g_name = ''Connector'', g_redirectUris = [''https://app/cb''],
       g_tokenEndpointAuthMethod = ''none'', g_grantTypes = [''authorization_code'', ''refresh_token''],
       g_scope = None, g_clientUri = None, g_logoUri = None, g_contacts = [],
       g_status = oauth_registration_status.APPROVED, g_metadata = [], g_createdAt = 1 \<rparr>"

definition sample_code :: oauth_code where
  "sample_code =
     \<lparr> k_id = ''k1'', k_registrationId = ''g1'', k_userId = ''u1'', k_clientId = ''c1'',
       k_codeHash = ''hfvac_x'', k_redirectUri = ''https://app/cb'', k_codeChallenge = ''ch'',
       k_scopes = [''memory.read''], k_resource = None, k_expiresAt = 1000, k_consumedAt = None \<rparr>"

definition oauth_vault :: vault where
  "oauth_vault = sample_vault \<lparr> v_registrations := [sample_registration], v_codes := [sample_code] \<rparr>"

definition sample_issue :: issue_input where
  "sample_issue =
     \<lparr> ii_registrationId = ''g1'', ii_userId = ''u1'', ii_clientId = ''c1'',
       ii_scopes = [''memory.read''], ii_resource = None, ii_sourceCodeId = Some ''k1'',
       ii_grantType = ''authorization_code'' \<rparr>"

lemmas oauth_sample_defs = oauth_vault_def sample_code_def sample_registration_def
  sample_oauth_env_def sample_issue_def

text \<open>Issue and verify round trip: a pair just issued verifies, with the scopes, owner and client
  it was issued for, as long as the grant stays approved and until its own expiry.\<close>

theorem issued_pair_verifies:
  assumes "\<forall>t\<in>set (v_tokens db). t_tokenHash t \<noteq> oe_hash env a \<and> t_tokenHash t \<noteq> oe_hash env r"
    and "take 5 a = ''fvoa_''" "grant_approved db (ii_registrationId inp) (ii_clientId inp)"
    and "later < now + int (oauthAccessTokenTtlSeconds env) * 1000"
    and "later < now + int (oauthRefreshTokenTtlSeconds env) * 1000"
  shows "\<exists>access refresh.
      verifyAccessToken env later (snd (issueTokenPair env now a r inp db)) a = Some access
      \<and> t_scopes access = ii_scopes inp \<and> t_userId access = ii_userId inp
      \<and> t_clientId access = ii_clientId inp
      \<and> verifyRefreshToken env later (snd (issueTokenPair env now a r inp db)) r = RefreshValid refresh
      \<and> t_scopes refresh = ii_scopes inp \<and> t_clientId refresh = ii_clientId inp"
proof -
  let ?db = "snd (issueTokenPair env now a r inp db)"
  let ?ra = "issued_row inp (next_id db) oauth_token_type.ACCESS (oe_hash env a)
          (now + int (oauthAccessTokenTtlSeconds env) * 1000)"
  let ?rr = "issued_row inp (next_id (draw_id db)) oauth_token_type.REFRESH (oe_hash env r)
          (now + int (oauthRefreshTokenTtlSeconds env) * 1000)"
  have "find_row (\<lambda>t. t_tokenHash t = oe_hash env a \<and> t_type t = ty) (v_tokens db) = None"
    "find_row (\<lambda>t. t_tokenHash t = oe_hash env r \<and> t_type t = ty) (v_tokens db) = None" for ty
    using assms(1) by (auto simp: find_row_None_iff)
  then have "findToken env ?db a oauth_token_type.ACCESS = Some ?ra"
    "findToken env ?db r oauth_token_type.REFRESH = Some ?rr"
    by (simp_all add: findToken_def token_simps find_row_append issued_row_def)
  moreover have "grant_approved ?db (ii_registrationId inp) (ii_clientId inp)"
    using assms(3) by (simp add: grant_approved_def registration_by_id_def client_by_id_def token_simps)
  ultimately show ?thesis
    using assms(2,4,5)
    by (simp add: verifyAccessToken_def verifyRefreshToken_def isUsableGrant_def issued_row_def)
qed

lemma issued_pair_verifies_witness:
  "\<exists>access refresh.
      verifyAccessToken sample_oauth_env 9 (snd (issueTokenPair sample_oauth_env 5 ''fvoa_a'' ''fvor_r'' sample_issue oauth_vault)) ''fvoa_a'' = Some access
      \<and> t_scopes access = [''memory.read''] \<and> t_userId access = ''u1''
      \<and> t_clientId access = ''c1''
      \<and> verifyRefreshToken sample_oauth_env 9 (snd (issueTokenPair sample_oauth_env 5 ''fvoa_a'' ''fvor_r'' sample_issue oauth_vault)) ''fvor_r'' = RefreshValid refresh
      \<and> t_scopes refresh = [''memory.read''] \<and> t_clientId refresh = ''c1''"
  using issued_pair_verifies[of oauth_vault sample_oauth_env "''fvoa_a''" "''fvor_r''" sample_issue 9 5]
  by (simp add: oauth_sample_defs sample_defs grant_approved_def registration_by_id_def client_by_id_def
      oauthAccessTokenTtlSeconds_def oauthRefreshTokenTtlSeconds_def)

lemma verified_access_token_is_live_witness:
  "\<exists>row. row \<in> set (v_tokens (snd (issueTokenPair sample_oauth_env 5 ''fvoa_a'' ''fvor_r'' sample_issue oauth_vault)))
     \<and> t_tokenHash row = ''hfvoa_a'' \<and> t_revokedAt row = None"
proof -
  let ?db = "snd (issueTokenPair sample_oauth_env 5 ''fvoa_a'' ''fvor_r'' sample_issue oauth_vault)"
  have "verifyAccessToken sample_oauth_env 9 ?db ''fvoa_a'' \<noteq> None" by code_simp
  then obtain row where "verifyAccessToken sample_oauth_env 9 ?db ''fvoa_a'' = Some row" by blast
  from verified_access_token_is_live[OF this] show ?thesis by (auto simp: sample_oauth_env_def)
qed

lemma client_cutoff_is_complete_witness:
  "\<exists>db'. db' = snd (revokeTokensForClient 7 ''c1'' ''grant_blocked'' audit_actor_type.USER (Some ''u1'')
            (snd (issueTokenPair sample_oauth_env 5 ''fvoa_a'' ''fvor_r'' sample_issue oauth_vault)))
     \<and> verifyAccessToken sample_oauth_env 9 db' ''fvoa_a'' = None"
proof -
  let ?db = "snd (revokeTokensForClient 7 ''c1'' ''grant_blocked'' audit_actor_type.USER (Some ''u1'')
            (snd (issueTokenPair sample_oauth_env 5 ''fvoa_a'' ''fvor_r'' sample_issue oauth_vault)))"
  have other: "map t_clientId (v_tokens ?db) = [''c1'', ''c1'']" by code_simp
  have "verifyAccessToken sample_oauth_env 9 ?db ''fvoa_a'' = None"
  proof (rule ccontr)
    assume "verifyAccessToken sample_oauth_env 9 ?db ''fvoa_a'' \<noteq> None"
    then obtain row where row: "verifyAccessToken sample_oauth_env 9 ?db ''fvoa_a'' = Some row" by blast
    then have "row \<in> set (v_tokens ?db)"
      by (auto simp: verifyAccessToken_def findToken_def dest!: find_row_SomeD split: if_splits option.splits)
    then have "t_clientId row \<in> set (map t_clientId (v_tokens ?db))" by simp
    then have "t_clientId row = ''c1''" unfolding other by simp
    then show False using client_cutoff_is_complete[OF refl] row by blast
  qed
  then show ?thesis by blast
qed

end
