(* ===== verification/OAuthProvider.thy ===== *)
theory OAuthProvider
  imports OAuthTokens
begin

text \<open>
  \<open>oauth/oauth-provider.service.ts\<close>: scopes and resources of a request, the consent request it
  leaves, the exchange of an authorization code and of a refresh token, verification and
  revocation.  An exchange is not one transaction: it reads and checks, then changes the
  credential's row, then issues a pair in a transaction of its own.  The three parts are separate
  definitions (\<open>check_code\<close>, \<open>consume_code\<close>, \<open>issueTokenPair\<close>), composed by the exchange and taken
  as separate steps where concurrent exchanges interleave.
\<close>

section \<open>Scopes and resources\<close>

definition resolveRequestedScopes :: "string list option \<Rightarrow> error + string list" where
  "resolveRequestedScopes scopes =
     (case scopes of
        None \<Rightarrow> Inr oauthSupportedScopes
      | Some ss \<Rightarrow>
          if ss = [] then Inr oauthSupportedScopes
          else
            let unknown = filter (\<lambda>scope. scope \<notin> set oauthSupportedScopes) ss
            in if unknown \<noteq> [] then Inl (InvalidScope ''Unsupported scopes'')
               else Inr (js_unique ss))"

text \<open>\<open>href.replace(/#.*$/, "").replace(/\/+$/, "")\<close>\<close>

definition strip_fragment :: "string \<Rightarrow> string" where
  "strip_fragment href = takeWhile (\<lambda>c. c \<noteq> CHR ''#'') href"

definition strip_slashes :: "string \<Rightarrow> string" where
  "strip_slashes href = rev (dropWhile (\<lambda>c. c = CHR ''/'') (rev href))"

definition assertResourceAllowed :: "oauth_env \<Rightarrow> string option \<Rightarrow> error + string option" where
  "assertResourceAllowed env resource =
     (case resource of
        None \<Rightarrow> Inr None
      | Some href \<Rightarrow>
          let normalized = strip_slashes (strip_fragment href);
              allowed = strip_slashes (oe_resourceHref env)
          in if normalized \<noteq> allowed
             then Inl (InvalidTarget ''This authorization server only serves another resource'')
             else Inr (Some normalized))"

section \<open>Authorization requests\<close>

record authorize_params =
  ap_redirectUri :: string
  ap_codeChallenge :: string
  ap_scopes :: "string list option"
  ap_state :: "string option"
  ap_resource :: "string option"

text \<open>\<open>authorize\<close>: returns the id of the stored request and the nonce, which the redirect carries.\<close>

definition authorize ::
  "oauth_env \<Rightarrow> time \<Rightarrow> string \<Rightarrow> ident \<Rightarrow> authorize_params \<Rightarrow> vault \<Rightarrow> (ident \<times> string) outcome" where
  "authorize env now nonce oauthClientId params db =
     (case resolveRequestedScopes (ap_scopes params) of
        Inl e \<Rightarrow> (Inl e, db)
      | Inr scopes \<Rightarrow>
          (case assertResourceAllowed env (ap_resource params) of
             Inl e \<Rightarrow> (Inl e, db)
           | Inr resource \<Rightarrow>
               (case find_row (\<lambda>g. g_clientId g = oauthClientId) (v_registrations db) of
                  None \<Rightarrow> (Inl (InvalidGrant ''Unknown client''), db)
                | Some g \<Rightarrow>
                    let i = next_id db;
                        row = \<lparr> q_id = i, q_registrationId = g_id g,
                                q_redirectUri = ap_redirectUri params,
                                q_codeChallenge = ap_codeChallenge params, q_scopes = scopes,
                                q_state = ap_state params, q_resource = resource,
                                q_csrfTokenHash = oe_hash env nonce,
                                q_expiresAt = now + oauthAuthorizationRequestTtlMs,
                                q_decidedAt = None, q_createdAt = now \<rparr>
                    in (Inr (i, nonce), draw_id db \<lparr> v_oauthRequests := v_oauthRequests db @ [row] \<rparr>))))"

section \<open>Authorization codes\<close>

definition find_code :: "oauth_env \<Rightarrow> vault \<Rightarrow> string \<Rightarrow> oauth_code option" where
  "find_code env db authorizationCode =
     find_row (\<lambda>k. k_codeHash k = oe_hash env authorizationCode) (v_codes db)"

definition code_of_client :: "vault \<Rightarrow> oauth_code \<Rightarrow> ident \<Rightarrow> bool" where
  "code_of_client db code oauthClientId =
     (case registration_by_id db (k_registrationId code) of
        Some g \<Rightarrow> g_clientId g = oauthClientId | None \<Rightarrow> False)"

definition challengeForAuthorizationCode ::
  "oauth_env \<Rightarrow> vault \<Rightarrow> ident \<Rightarrow> string \<Rightarrow> error + string" where
  "challengeForAuthorizationCode env db oauthClientId authorizationCode =
     (case find_code env db authorizationCode of
        None \<Rightarrow> Inl (InvalidGrant ''Invalid authorization code'')
      | Some code \<Rightarrow>
          if \<not> code_of_client db code oauthClientId
          then Inl (InvalidGrant ''Invalid authorization code'')
          else Inr (k_codeChallenge code))"

datatype code_check =
    CodeOk oauth_code
  | CodeReused oauth_code
  | CodeRefused error

text \<open>The reads and checks of an exchange, in the order of the source.\<close>

definition check_code ::
  "oauth_env \<Rightarrow> time \<Rightarrow> vault \<Rightarrow> ident \<Rightarrow> string \<Rightarrow> string option \<Rightarrow> string option \<Rightarrow> code_check" where
  "check_code env now db oauthClientId authorizationCode redirectUri resource =
     (case find_code env db authorizationCode of
        None \<Rightarrow> CodeRefused (InvalidGrant ''Invalid authorization code'')
      | Some code \<Rightarrow>
          if \<not> code_of_client db code oauthClientId
          then CodeRefused (InvalidGrant ''Invalid authorization code'')
          else if k_consumedAt code \<noteq> None then CodeReused code
          else if k_expiresAt code \<le> now
          then CodeRefused (InvalidGrant ''Authorization code expired'')
          else if truthy redirectUri \<and> redirectUri \<noteq> Some (k_redirectUri code)
          then CodeRefused (InvalidGrant ''redirect_uri does not match'')
          else case assertResourceAllowed env resource of
                 Inl e \<Rightarrow> CodeRefused e
               | Inr requestedResource \<Rightarrow>
                   if truthy (k_resource code) \<and> truthy requestedResource
                      \<and> k_resource code \<noteq> requestedResource
                   then CodeRefused (InvalidTarget ''resource does not match'')
                   else if \<not> grant_approved db (k_registrationId code) (k_clientId code)
                   then CodeRefused (InvalidGrant ''Client grant is not approved'')
                   else CodeOk code)"

definition consumed_at :: "time \<Rightarrow> oauth_code \<Rightarrow> oauth_code" where
  "consumed_at now k = k \<lparr> k_consumedAt := Some now \<rparr>"

text \<open>\<open>updateMany({ where: { id, consumedAt: null } })\<close>: whether it changed a row, and the rows.\<close>

definition consume_rows :: "time \<Rightarrow> ident \<Rightarrow> oauth_code list \<Rightarrow> bool \<times> oauth_code list" where
  "consume_rows now i rows =
     (list_ex (\<lambda>k. k_id k = i \<and> k_consumedAt k = None) rows,
      update_where (\<lambda>k. k_id k = i \<and> k_consumedAt k = None) (consumed_at now) rows)"

definition consume_code :: "time \<Rightarrow> ident \<Rightarrow> vault \<Rightarrow> bool \<times> vault" where
  "consume_code now i db =
     (let (won, rows) = consume_rows now i (v_codes db) in (won, db \<lparr> v_codes := rows \<rparr>))"

definition code_grant :: "oauth_code \<Rightarrow> issue_input" where
  "code_grant code =
     \<lparr> ii_registrationId = k_registrationId code, ii_userId = k_userId code,
       ii_clientId = k_clientId code, ii_scopes = k_scopes code, ii_resource = k_resource code,
       ii_sourceCodeId = Some (k_id code), ii_grantType = ''authorization_code'' \<rparr>"

definition exchangeAuthorizationCode ::
  "oauth_env \<Rightarrow> time \<Rightarrow> string \<Rightarrow> string \<Rightarrow> ident \<Rightarrow> string \<Rightarrow> string option \<Rightarrow> string option \<Rightarrow> vault
     \<Rightarrow> issued_token_pair outcome" where
  "exchangeAuthorizationCode env now accessToken refreshToken oauthClientId authorizationCode
     redirectUri resource db =
     (case check_code env now db oauthClientId authorizationCode redirectUri resource of
        CodeRefused e \<Rightarrow> (Inl e, db)
      | CodeReused code \<Rightarrow>
          (Inl (InvalidGrant ''Authorization code already used''),
           snd (revokeTokensForSourceCode now (k_id code) ''authorization_code_reuse'' db))
      | CodeOk code \<Rightarrow>
          (case consume_code now (k_id code) db of
             (False, db1) \<Rightarrow> (Inl (InvalidGrant ''Authorization code already used''), db1)
           | (True, db1) \<Rightarrow>
               (let (pair, db2) = issueTokenPair env now accessToken refreshToken (code_grant code) db1
                in (Inr pair, db2))))"

section \<open>Refresh tokens\<close>

datatype refresh_check =
    RefreshOk oauth_token "string list"
  | RefreshReuse oauth_token
  | RefreshRefused error

definition check_refresh ::
  "oauth_env \<Rightarrow> time \<Rightarrow> vault \<Rightarrow> ident \<Rightarrow> string \<Rightarrow> string list option \<Rightarrow> string option \<Rightarrow> refresh_check" where
  "check_refresh env now db oauthClientId refreshToken scopes resource =
     (case verifyRefreshToken env now db refreshToken of
        RefreshReused row \<Rightarrow> RefreshReuse row
      | RefreshInvalid \<Rightarrow> RefreshRefused (InvalidGrant ''Invalid refresh token'')
      | RefreshValid row \<Rightarrow>
          if (case registration_by_id db (t_registrationId row) of
                Some g \<Rightarrow> g_clientId g \<noteq> oauthClientId | None \<Rightarrow> True)
          then RefreshRefused (InvalidGrant ''Invalid refresh token'')
          else
            let requested = (case scopes of Some ss \<Rightarrow> if ss \<noteq> [] then ss else t_scopes row
                             | None \<Rightarrow> t_scopes row);
                narrowed = filter (\<lambda>scope. scope \<in> set (t_scopes row)) requested
            in if length narrowed \<noteq> length requested
               then RefreshRefused (InvalidScope ''Requested scopes exceed the original grant'')
               else case assertResourceAllowed env resource of
                      Inl e \<Rightarrow> RefreshRefused e
                    | Inr requestedResource \<Rightarrow>
                        if truthy (t_resource row) \<and> truthy requestedResource
                           \<and> t_resource row \<noteq> requestedResource
                        then RefreshRefused (InvalidTarget ''resource does not match'')
                        else RefreshOk row narrowed)"

definition refresh_grant :: "oauth_token \<Rightarrow> string list \<Rightarrow> issue_input" where
  "refresh_grant row scopes =
     \<lparr> ii_registrationId = t_registrationId row, ii_userId = t_userId row,
       ii_clientId = t_clientId row, ii_scopes = scopes, ii_resource = t_resource row,
       ii_sourceCodeId = t_sourceCodeId row, ii_grantType = ''refresh_token'' \<rparr>"

definition exchangeRefreshToken ::
  "oauth_env \<Rightarrow> time \<Rightarrow> string \<Rightarrow> string \<Rightarrow> ident \<Rightarrow> string \<Rightarrow> string list option \<Rightarrow> string option \<Rightarrow> vault
     \<Rightarrow> issued_token_pair outcome" where
  "exchangeRefreshToken env now accessToken newRefreshToken oauthClientId refreshToken scopes resource db =
     (case check_refresh env now db oauthClientId refreshToken scopes resource of
        RefreshRefused e \<Rightarrow> (Inl e, db)
      | RefreshReuse row \<Rightarrow>
          (Inl (InvalidGrant ''Refresh token is no longer valid''),
           snd (revokeTokensForClient now (t_clientId row) ''refresh_token_reuse''
                  audit_actor_type.SYSTEM None db))
      | RefreshOk row narrowed \<Rightarrow>
          (let db1 = revokeTokenById now (t_id row) db;
               (pair, db2) = issueTokenPair env now accessToken newRefreshToken
                               (refresh_grant row narrowed) db1
           in (Inr pair, db2)))"

section \<open>Verification and revocation\<close>

record auth_info =
  af_token :: string
  af_clientId :: ident
  af_scopes :: "string list"
  af_expiresAt :: int
  af_resource :: "string option"
  af_userId :: ident
  af_grantClientId :: ident

definition provider_verifyAccessToken :: "oauth_env \<Rightarrow> time \<Rightarrow> vault \<Rightarrow> string \<Rightarrow> error + auth_info" where
  "provider_verifyAccessToken env now db token =
     (case verifyAccessToken env now db token of
        None \<Rightarrow> Inl (InvalidToken ''Invalid access token'')
      | Some row \<Rightarrow>
          Inr \<lparr> af_token = token,
                af_clientId = (case registration_by_id db (t_registrationId row) of
                                 Some g \<Rightarrow> g_clientId g | None \<Rightarrow> []),
                af_scopes = t_scopes row, af_expiresAt = t_expiresAt row div 1000,
                af_resource = (if truthy (t_resource row) then t_resource row else None),
                af_userId = t_userId row, af_grantClientId = t_clientId row \<rparr>)"

definition revokeToken :: "oauth_env \<Rightarrow> time \<Rightarrow> ident \<Rightarrow> string \<Rightarrow> vault \<Rightarrow> vault" where
  "revokeToken env now oauthClientId token db =
     (case find_row (\<lambda>t. t_tokenHash t = oe_hash env token
              \<and> (case registration_by_id db (t_registrationId t) of
                   Some g \<Rightarrow> g_clientId g = oauthClientId | None \<Rightarrow> False)) (v_tokens db) of
        None \<Rightarrow> db
      | Some row \<Rightarrow>
          if t_revokedAt row \<noteq> None then db
          else if t_type row = oauth_token_type.REFRESH
          then snd (revokeTokensForClient now (t_clientId row) ''connector_revocation''
                      audit_actor_type.CLIENT (Some (t_clientId row)) db)
          else revokeAccessToken now row ''connector_revocation'' db)"

end
