(* ===== verification/OAuthRace.thy ===== *)
theory OAuthRace
  imports OAuthExchange
begin

text \<open>
  Concurrent exchanges.  An exchange of \<open>oauth-provider.service.ts\<close> is three database calls: it
  reads and checks the credential, it changes the credential's row (\<open>updateMany\<close>), it issues a pair
  in a transaction.  Between them other requests run.  A thread is the phase its exchange is in;
  \<open>race_step\<close> runs one call of one thread, so a run is any interleaving of any exchanges.  Run alone
  a thread does what the exchange does.  A code is claimed with \<open>consumedAt: null\<close> in the condition
  and a checked count, so it mints at most one pair in any interleaving; \<open>revokeTokenById\<close> has the
  condition but its count is not looked at, so a refresh token can mint two.
\<close>

section \<open>The calls of an exchange\<close>

record code_request =
  cr_oauthClientId :: ident
  cr_code :: string
  cr_redirectUri :: "string option"
  cr_resource :: "string option"

record refresh_request =
  rr_oauthClientId :: ident
  rr_refreshToken :: string
  rr_scopes :: "string list option"
  rr_resource :: "string option"

text \<open>The access and refresh token each thread draws come with its request.\<close>

datatype exchange_request =
    CodeRequest code_request string string
  | RefreshRequest refresh_request string string

datatype exchange_phase =
    Start
  | CodeChecked oauth_code
  | CodeWon oauth_code
  | CodeReplay oauth_code
  | CodeDone oauth_code issued_token_pair
  | RefreshChecked oauth_token "string list"
  | RefreshSpent oauth_token "string list"
  | RefreshReplay oauth_token
  | RefreshDone oauth_token issued_token_pair
  | Failed error

definition read_code ::
  "oauth_env \<Rightarrow> time \<Rightarrow> code_request \<Rightarrow> vault \<Rightarrow> exchange_phase" where
  "read_code env now q db =
     (case check_code env now db (cr_oauthClientId q) (cr_code q) (cr_redirectUri q) (cr_resource q) of
        CodeRefused e \<Rightarrow> Failed e
      | CodeReused code \<Rightarrow> CodeReplay code
      | CodeOk code \<Rightarrow> CodeChecked code)"

definition claim_code :: "time \<Rightarrow> oauth_code \<Rightarrow> vault \<Rightarrow> exchange_phase \<times> vault" where
  "claim_code now code db =
     (case consume_code now (k_id code) db of
        (True, db1) \<Rightarrow> (CodeWon code, db1)
      | (False, db1) \<Rightarrow> (Failed (InvalidGrant ''Authorization code already used''), db1))"

definition read_refresh ::
  "oauth_env \<Rightarrow> time \<Rightarrow> refresh_request \<Rightarrow> vault \<Rightarrow> exchange_phase" where
  "read_refresh env now q db =
     (case check_refresh env now db (rr_oauthClientId q) (rr_refreshToken q) (rr_scopes q) (rr_resource q) of
        RefreshRefused e \<Rightarrow> Failed e
      | RefreshReuse row \<Rightarrow> RefreshReplay row
      | RefreshOk row narrowed \<Rightarrow> RefreshChecked row narrowed)"

text \<open>The next database call of a thread.\<close>

fun exchange_call ::
  "oauth_env \<Rightarrow> time \<Rightarrow> exchange_request \<Rightarrow> exchange_phase \<Rightarrow> vault \<Rightarrow> exchange_phase \<times> vault" where
  "exchange_call env now (CodeRequest q a r) Start db = (read_code env now q db, db)"
| "exchange_call env now (RefreshRequest q a r) Start db = (read_refresh env now q db, db)"
| "exchange_call env now (CodeRequest q a r) (CodeChecked code) db = claim_code now code db"
| "exchange_call env now (CodeRequest q a r) (CodeWon code) db =
     (let (pair, db1) = issueTokenPair env now a r (code_grant code) db in (CodeDone code pair, db1))"
| "exchange_call env now (CodeRequest q a r) (CodeReplay code) db =
     (Failed (InvalidGrant ''Authorization code already used''),
      snd (revokeTokensForSourceCode now (k_id code) ''authorization_code_reuse'' db))"
| "exchange_call env now (RefreshRequest q a r) (RefreshChecked row narrowed) db =
     (RefreshSpent row narrowed, revokeTokenById now (t_id row) db)"
| "exchange_call env now (RefreshRequest q a r) (RefreshSpent row narrowed) db =
     (let (pair, db1) = issueTokenPair env now a r (refresh_grant row narrowed) db
      in (RefreshDone row pair, db1))"
| "exchange_call env now (RefreshRequest q a r) (RefreshReplay row) db =
     (Failed (InvalidGrant ''Refresh token is no longer valid''),
      snd (revokeTokensForClient now (t_clientId row) ''refresh_token_reuse'' audit_actor_type.SYSTEM None db))"
| "exchange_call env now q phase db = (phase, db)"

section \<open>Interleaving\<close>

record race =
  race_db :: vault
  race_threads :: "exchange_phase list"

definition run_call :: "oauth_env \<Rightarrow> exchange_request list \<Rightarrow> time \<Rightarrow> nat \<Rightarrow> race \<Rightarrow> race" where
  "run_call env reqs now i s =
     (let (phase, db) = exchange_call env now (reqs ! i) (race_threads s ! i) (race_db s)
      in s \<lparr> race_db := db, race_threads := (race_threads s)[i := phase] \<rparr>)"

inductive race_step :: "oauth_env \<Rightarrow> exchange_request list \<Rightarrow> race \<Rightarrow> race \<Rightarrow> bool"
  for env :: oauth_env and reqs :: "exchange_request list" where
  run: "i < length (race_threads s) \<Longrightarrow> i < length reqs \<Longrightarrow> race_step env reqs s (run_call env reqs now i s)"

inductive_cases race_stepE: "race_step env reqs s s'"

definition race_start :: "exchange_request list \<Rightarrow> vault \<Rightarrow> race" where
  "race_start reqs db = \<lparr> race_db = db, race_threads = replicate (length reqs) Start \<rparr>"

section \<open>A thread on its own is the exchange\<close>

definition alone :: "oauth_env \<Rightarrow> time \<Rightarrow> exchange_request \<Rightarrow> vault \<Rightarrow> exchange_phase \<times> vault" where
  "alone env now q db =
     (let (p1, db1) = exchange_call env now q Start db;
          (p2, db2) = exchange_call env now q p1 db1
      in exchange_call env now q p2 db2)"

fun phase_result :: "exchange_phase \<Rightarrow> (error + issued_token_pair) option" where
  "phase_result (CodeDone _ pair) = Some (Inr pair)"
| "phase_result (RefreshDone _ pair) = Some (Inr pair)"
| "phase_result (Failed e) = Some (Inl e)"
| "phase_result _ = None"

definition exchange_now :: "oauth_env \<Rightarrow> time \<Rightarrow> exchange_request \<Rightarrow> vault \<Rightarrow> issued_token_pair outcome" where
  "exchange_now env now q db =
     (case q of
        CodeRequest c a r \<Rightarrow>
          exchangeAuthorizationCode env now a r (cr_oauthClientId c) (cr_code c) (cr_redirectUri c) (cr_resource c) db
      | RefreshRequest c a r \<Rightarrow>
          exchangeRefreshToken env now a r (rr_oauthClientId c) (rr_refreshToken c) (rr_scopes c) (rr_resource c) db)"


section \<open>At most one winner per code\<close>

fun holder :: "exchange_phase \<Rightarrow> ident option" where
  "holder (CodeWon code) = Some (k_id code)"
| "holder (CodeDone code _) = Some (k_id code)"
| "holder _ = None"

definition holders :: "ident \<Rightarrow> race \<Rightarrow> nat" where
  "holders i s = count_where (\<lambda>p. holder p = Some i) (race_threads s)"

definition spent_code :: "ident \<Rightarrow> vault \<Rightarrow> bool" where
  "spent_code i db = (case code_row i (v_codes db) of Some k \<Rightarrow> k_consumedAt k \<noteq> None | None \<Rightarrow> True)"

definition race_inv :: "race \<Rightarrow> bool" where
  "race_inv s = (distinct (map k_id (v_codes (race_db s)))
     \<and> (\<forall>i. holders i s \<le> 1 \<and> (holders i s = 1 \<longrightarrow> spent_code i (race_db s))))"

lemma spent_code_iff: "spent_code i db \<longleftrightarrow> (\<forall>k. code_row i (v_codes db) = Some k \<longrightarrow> k_consumedAt k \<noteq> None)"
  by (simp add: spent_code_def split: option.split)

lemma count_where_list_update:
  "i < length xs \<Longrightarrow> count_where P (xs[i := y]) + (if P (xs ! i) then 1 else 0)
     = count_where P xs + (if P y then 1 else 0)"
proof (induction xs arbitrary: i)
  case (Cons x xs)
  show ?case
  proof (cases i)
    case (Suc j)
    then show ?thesis using Cons.IH[of j] Cons.prems by auto
  qed simp
qed simp

text \<open>A call either leaves the codes and the holder as they were, or wins the code it had checked.\<close>

lemma claim_code_cases:
  assumes "distinct (map k_id (v_codes db))" "claim_code now code db = (p', db')"
  shows "v_codes db' = v_codes db \<and> holder p' = None
    \<or> p' = CodeWon code \<and> fst (consume_rows now (k_id code) (v_codes db))
      \<and> v_codes db' = snd (consume_rows now (k_id code) (v_codes db))"
proof -
  have lost: "snd (consume_rows now (k_id code) (v_codes db)) = v_codes db"
    if "\<not> fst (consume_rows now (k_id code) (v_codes db))"
    using that assms(1) by (rule_tac code_claims.claim_cases[of "v_codes db" "k_id code" now]) auto
  show ?thesis
    using assms(2) lost by (cases "consume_rows now (k_id code) (v_codes db)")
      (auto simp: claim_code_def consume_code_def split: bool.splits)
qed

lemma exchange_call_codes:
  assumes "distinct (map k_id (v_codes db))" "exchange_call env now q p db = (p', db')"
  shows "v_codes db' = v_codes db \<and> holder p' = holder p
    \<or> (\<exists>code :: oauth_code. holder p = None \<and> holder p' = Some (k_id code) \<and> fst (consume_rows now (k_id code) (v_codes db))
      \<and> v_codes db' = snd (consume_rows now (k_id code) (v_codes db)))"
  using assms(2)
proof (cases rule: exchange_call.cases[of "(env, now, q, p, db)"])
  case (3 _ _ q a r code)
  then have "claim_code now code db = (p', db')" using assms(2) by simp
  then have "v_codes db' = v_codes db \<and> holder p' = holder p
    \<or> holder p = None \<and> holder p' = Some (k_id code) \<and> fst (consume_rows now (k_id code) (v_codes db))
      \<and> v_codes db' = snd (consume_rows now (k_id code) (v_codes db))"
    using claim_code_cases[OF assms(1), of now code p' db'] 3 by auto
  then show ?thesis by blast
qed (auto simp: read_code_def read_refresh_def Let_def split_beta token_simps
    split: code_check.splits refresh_check.splits)

lemma race_inv_step:
  assumes "race_inv s" "race_step env reqs s s'"
  shows "race_inv s'"
  using assms(2)
proof cases
  case (run i now)
  obtain p' db' where call: "exchange_call env now (reqs ! i) (race_threads s ! i) (race_db s) = (p', db')"
    by fastforce
  have s': "race_db s' = db'" "race_threads s' = (race_threads s)[i := p']"
    by (simp_all add: run run_call_def call)
  let ?rows = "v_codes (race_db s)"
  have tidy: "distinct (map k_id ?rows)" using assms(1) by (simp add: race_inv_def)
  have count: "holders j s' + (if holder (race_threads s ! i) = Some j then 1 else 0)
      = holders j s + (if holder p' = Some j then 1 else 0)" for j
    using count_where_list_update[OF run(2), of "\<lambda>p. holder p = Some j" p'] by (simp only: holders_def s')
  from exchange_call_codes[OF tidy call] show ?thesis
  proof
    assume same: "v_codes db' = ?rows \<and> holder p' = holder (race_threads s ! i)"
    then have "holders j s' = holders j s" for j using count[of j] by simp
    then show ?thesis using assms(1) same by (simp add: race_inv_def spent_code_def s')
  next
    assume "\<exists>code :: oauth_code. holder (race_threads s ! i) = None \<and> holder p' = Some (k_id code)
      \<and> fst (consume_rows now (k_id code) ?rows) \<and> v_codes db' = snd (consume_rows now (k_id code) ?rows)"
    then obtain code :: oauth_code where won: "holder (race_threads s ! i) = None" "holder p' = Some (k_id code)"
      "fst (consume_rows now (k_id code) ?rows)" "v_codes db' = snd (consume_rows now (k_id code) ?rows)"
      by blast
    have fresh: "holders (k_id code) s = 0"
    proof (rule ccontr)
      assume "holders (k_id code) s \<noteq> 0"
      moreover have "holders (k_id code) s \<le> 1"
        "holders (k_id code) s = 1 \<Longrightarrow> spent_code (k_id code) (race_db s)"
        using assms(1) by (auto simp: race_inv_def)
      ultimately have "spent_code (k_id code) (race_db s)" by linarith
      then show False using won(3) code_claims.claim_success_iff[OF tidy] by (auto simp: spent_code_iff)
    qed
    have "holders j s' \<le> 1 \<and> (holders j s' = 1 \<longrightarrow> spent_code j db')" for j
    proof (cases "j = k_id code")
      case True
      then show ?thesis
        using count[of j] won(1,2) fresh code_claims.claim_spent[OF tidy] won(4)
        by (auto simp: spent_code_iff)
    next
      case False
      then show ?thesis
        using count[of j] won assms(1) code_claims.claim_other[OF tidy, of j "k_id code" now]
        by (auto simp: race_inv_def spent_code_iff)
    qed
    then show ?thesis using code_claims.claim_tidy[OF tidy] by (simp add: race_inv_def s' won(4))
  qed
qed

lemma race_inv_reachable:
  "(race_step env reqs)\<^sup>*\<^sup>* s s' \<Longrightarrow> race_inv s \<Longrightarrow> race_inv s'"
  by (induction rule: rtranclp_induct) (auto intro: race_inv_step)

lemma race_inv_start: "distinct (map k_id (v_codes db)) \<Longrightarrow> race_inv (race_start reqs db)"
  by (simp add: race_inv_def race_start_def holders_def count_where_def)




section \<open>Two interleavings the checks let through\<close>

lemma run_calls:
  assumes "list_all (\<lambda>(now, i). i < length (race_threads s) \<and> i < length reqs) sched"
  shows "(race_step env reqs)\<^sup>*\<^sup>* s (fold (\<lambda>(now, i). run_call env reqs now i) sched s)"
  using assms
proof (induction sched arbitrary: s)
  case (Cons c sched)
  obtain now i where c: "c = (now, i)" by fastforce
  have "race_step env reqs s (run_call env reqs now i s)"
    using Cons.prems c by (simp add: race_step.run)
  moreover have "(race_step env reqs)\<^sup>*\<^sup>* (run_call env reqs now i s)
      (fold (\<lambda>(now, i). run_call env reqs now i) sched (run_call env reqs now i s))"
    using Cons.prems c by (intro Cons.IH) (simp add: run_call_def split_beta)
  ultimately show ?case by (simp add: c converse_rtranclp_into_rtranclp)
qed simp

definition sample_refresh :: refresh_request where
  "sample_refresh = \<lparr> rr_oauthClientId = ''oc1'', rr_refreshToken = ''fvor_r'', rr_scopes = None,
     rr_resource = None \<rparr>"

definition sample_exchange :: code_request where
  "sample_exchange = \<lparr> cr_oauthClientId = ''oc1'', cr_code = ''fvac_x'', cr_redirectUri = None,
     cr_resource = None \<rparr>"

definition two_refreshes :: "exchange_request list" where
  "two_refreshes = [RefreshRequest sample_refresh ''fvoa_a'' ''fvor_a'',
     RefreshRequest sample_refresh ''fvoa_b'' ''fvor_b'']"

definition code_and_replay :: "exchange_request list" where
  "code_and_replay = [CodeRequest sample_exchange ''fvoa_a'' ''fvor_a'',
     CodeRequest sample_exchange ''fvoa_b'' ''fvor_b'']"

text \<open>Rotation is not exclusive: two exchanges of one refresh token that both read it before either
  revokes it both finish with a pair, and both access tokens then verify.\<close>

theorem refresh_token_can_mint_twice:
  "\<exists>s. (race_step sample_oauth_env two_refreshes)\<^sup>*\<^sup>* (race_start two_refreshes refresh_vault) s
     \<and> list_all (\<lambda>p. case p of RefreshDone row _ \<Rightarrow> t_id row = ''t1'' | _ \<Rightarrow> False) (race_threads s)
     \<and> verifyAccessToken sample_oauth_env 12 (race_db s) ''fvoa_a'' \<noteq> None
     \<and> verifyAccessToken sample_oauth_env 12 (race_db s) ''fvoa_b'' \<noteq> None"
proof -
  let ?sched = "[(9, 0), (9, 1), (9, 0), (9, 0), (9, 1), (9, 1)] :: (time \<times> nat) list"
  let ?s = "fold (\<lambda>(now, i). run_call sample_oauth_env two_refreshes now i) ?sched
     (race_start two_refreshes refresh_vault)"
  have "(race_step sample_oauth_env two_refreshes)\<^sup>*\<^sup>* (race_start two_refreshes refresh_vault) ?s"
    by (rule run_calls) (simp add: race_start_def two_refreshes_def)
  moreover have "list_all (\<lambda>p. case p of RefreshDone row _ \<Rightarrow> t_id row = ''t1'' | _ \<Rightarrow> False) (race_threads ?s)"
    by code_simp
  moreover have "verifyAccessToken sample_oauth_env 12 (race_db ?s) ''fvoa_a'' \<noteq> None" by code_simp
  moreover have "verifyAccessToken sample_oauth_env 12 (race_db ?s) ''fvoa_b'' \<noteq> None" by code_simp
  ultimately show ?thesis by blast
qed

text \<open>A replay can come too early: a replayed code that is presented after the first exchange claimed
  the code and before it issued its pair revokes nothing, and the pair is live after the replay was
  refused.\<close>

theorem early_replay_leaves_tokens_live:
  "\<exists>s. (race_step sample_oauth_env code_and_replay)\<^sup>*\<^sup>* (race_start code_and_replay oauth_vault) s
     \<and> race_threads s ! 1 = Failed (InvalidGrant ''Authorization code already used'')
     \<and> verifyAccessToken sample_oauth_env 12 (race_db s) ''fvoa_a'' \<noteq> None"
proof -
  let ?sched = "[(9, 0), (9, 0), (9, 1), (9, 1), (9, 0)] :: (time \<times> nat) list"
  let ?s = "fold (\<lambda>(now, i). run_call sample_oauth_env code_and_replay now i) ?sched
     (race_start code_and_replay oauth_vault)"
  have "(race_step sample_oauth_env code_and_replay)\<^sup>*\<^sup>* (race_start code_and_replay oauth_vault) ?s"
    by (rule run_calls) (simp add: race_start_def code_and_replay_def)
  moreover have "(case race_threads ?s ! 1 of Failed e \<Rightarrow> e | _ \<Rightarrow> Internal [])
      = InvalidGrant ''Authorization code already used''" by code_simp
  moreover have "verifyAccessToken sample_oauth_env 12 (race_db ?s) ''fvoa_a'' \<noteq> None" by code_simp
  ultimately show ?thesis by (auto split: exchange_phase.splits)
qed

end
