(* ===== verification/Clients.thy ===== *)
theory Clients
  imports OAuthTokens PolicyEval
begin

text \<open>
  \<open>apps/api/src/clients\<close>: the connected apps of an owner.  \<open>createClient\<close>, \<open>updateClient\<close> and
  \<open>deleteClient\<close> of \<open>clients.service.ts\<close>, with the unique constraints of the client table, the
  revocation that goes with blocking or deleting a connector and the cascade of a deletion, and the
  bearer-token guard of \<open>client-auth.guard.ts\<close>.
\<close>

section \<open>The client table\<close>

text \<open>Two rows that one of the unique constraints forbids: the names and the connectors of an owner,
  and the token hashes.\<close>

definition clients_clash :: "client \<Rightarrow> client \<Rightarrow> bool" where
  "clients_clash a b =
     (c_userId a = c_userId b
        \<and> (c_name a = c_name b
           \<or> (c_oauthRegistrationId a \<noteq> None \<and> c_oauthRegistrationId a = c_oauthRegistrationId b))
      \<or> (c_tokenHash a \<noteq> None \<and> c_tokenHash a = c_tokenHash b))"

text \<open>\<open>client.create\<close> and \<open>client.update\<close>; \<open>None\<close> is the error P2002.  An update sets \<open>updatedAt\<close>.\<close>

definition insert_client :: "client \<Rightarrow> vault \<Rightarrow> vault option" where
  "insert_client c db =
     (if list_ex (clients_clash c) (v_clients db) then None
      else Some (draw_id db \<lparr> v_clients := v_clients db @ [c] \<rparr>))"

definition touch_client :: "time \<Rightarrow> client \<Rightarrow> client" where
  "touch_client now c = c \<lparr> c_updatedAt := now \<rparr>"

definition write_client :: "time \<Rightarrow> ident \<Rightarrow> (client \<Rightarrow> client) \<Rightarrow> vault \<Rightarrow> vault option" where
  "write_client now i f db =
     (if list_ex (\<lambda>c. c_id c = i \<and> list_ex (\<lambda>o'. c_id o' \<noteq> i \<and> clients_clash (f c) o') (v_clients db))
           (v_clients db)
      then None
      else Some (db \<lparr> v_clients := update_where (\<lambda>c. c_id c = i) (\<lambda>c. touch_client now (f c)) (v_clients db) \<rparr>))"

section \<open>Responses\<close>

record client_response =
  cl_id :: ident
  cl_name :: string
  cl_type :: client_type
  cl_trustLevel :: client_trust_level
  cl_declaredRetention :: client_retention
  cl_hasToken :: bool
  cl_hasPolicy :: bool
  cl_oauthConnector :: bool
  cl_lastUsedAt :: "time option"
  cl_createdAt :: time
  cl_updatedAt :: time

definition toClientResponse :: "client \<Rightarrow> nat \<Rightarrow> client_response" where
  "toClientResponse c policies =
     \<lparr> cl_id = c_id c, cl_name = c_name c, cl_type = c_type c, cl_trustLevel = c_trustLevel c,
       cl_declaredRetention = c_declaredRetention c, cl_hasToken = truthy (c_tokenHash c),
       cl_hasPolicy = (policies > 0), cl_oauthConnector = truthy (c_oauthRegistrationId c),
       cl_lastUsedAt = c_lastUsedAt c, cl_createdAt = c_createdAt c, cl_updatedAt = c_updatedAt c \<rparr>"

definition policy_count :: "vault \<Rightarrow> client \<Rightarrow> nat" where
  "policy_count db c = count_where (\<lambda>p. p_clientId p = c_id c \<and> p_userId p = c_userId c) (v_policies db)"

text \<open>\<open>listClients\<close>: each client with the summary of its sole policy.\<close>

record policy_summary =
  ps_maxSensitivity :: memory_sensitivity
  ps_expiresAt :: "time option"
  ps_requiresConfirmation :: bool
  ps_allowedCategoryKeys :: "ident list"

definition policy_summary_of :: "policy \<Rightarrow> policy_summary" where
  "policy_summary_of p =
     \<lparr> ps_maxSensitivity = p_maxSensitivity p, ps_expiresAt = p_expiresAt p,
       ps_requiresConfirmation = p_requiresConfirmation p,
       ps_allowedCategoryKeys = map cat_key (p_allowedCategories p) \<rparr>"

definition listClients ::
  "vault \<Rightarrow> ident \<Rightarrow> pagination_query \<Rightarrow> (client_response \<times> policy_summary option) list \<times> pagination" where
  "listClients db userId query =
     (let rows = filter (\<lambda>c. c_userId c = userId) (v_clients db);
          pagination = buildPagination query (length rows)
      in (map (\<lambda>c. (toClientResponse c (policy_count db c), map_option policy_summary_of (client_policy db c)))
            (page_rows pagination (sort_key (\<lambda>c. - c_updatedAt c) rows)),
          pagination))"

section \<open>ClientsService\<close>

definition client_event ::
  "ident \<Rightarrow> ident option \<Rightarrow> audit_event_type \<Rightarrow> audit_metadata \<Rightarrow> audit_event_input" where
  "client_event userId clientId type md =
     \<lparr> ai_userId = userId, ai_clientId = clientId, ai_memoryRequestId = None, ai_type = type,
       ai_actorType = audit_actor_type.USER, ai_actorId = Some userId, ai_metadata = md,
       ai_subjects = [], ai_inferSubjects = True \<rparr>"

record client_input =
  ci_name :: string
  ci_type :: client_type
  ci_trustLevel :: client_trust_level
  ci_declaredRetention :: client_retention

definition new_client :: "oauth_env \<Rightarrow> time \<Rightarrow> string \<Rightarrow> ident \<Rightarrow> client_input \<Rightarrow> ident \<Rightarrow> client" where
  "new_client env now token userId inp i =
     \<lparr> c_id = i, c_userId = userId, c_name = ci_name inp, c_type = ci_type inp,
       c_trustLevel = ci_trustLevel inp, c_declaredRetention = ci_declaredRetention inp,
       c_tokenHash = Some (oe_hash env token), c_oauthRegistrationId = None, c_lastUsedAt = None,
       c_createdAt = now, c_updatedAt = now \<rparr>"

definition createClient ::
  "oauth_env \<Rightarrow> time \<Rightarrow> string \<Rightarrow> ident \<Rightarrow> client_input \<Rightarrow> vault \<Rightarrow> (client_response \<times> string) outcome" where
  "createClient env now token userId inp db =
     (let c = new_client env now token userId inp (next_id db)
      in case insert_client c db of
           None \<Rightarrow> (Inl (Conflict ''A client with this name already exists''), db)
         | Some db1 \<Rightarrow>
             (Inr (toClientResponse c 0, token),
              snd (createAuditEvent now
                (client_event userId (Some (c_id c)) audit_event_type.CLIENT_CREATED
                   (no_metadata \<lparr> am_clientId := Some (c_id c), am_clientName := Some (c_name c),
                      am_details := [(''trustLevel'', JStr (trust_name (c_trustLevel c)))] \<rparr>)) db1)))"

text \<open>\<open>UpdateClientRequest\<close>: an absent field is \<open>None\<close>.\<close>

record client_update =
  cu_name :: "string option"
  cu_type :: "client_type option"
  cu_trustLevel :: "client_trust_level option"
  cu_declaredRetention :: "client_retention option"
  cu_rotateToken :: "bool option"

definition rotates :: "client_update \<Rightarrow> bool" where
  "rotates u = (cu_rotateToken u = Some True)"

definition or_keep :: "'a option \<Rightarrow> 'a \<Rightarrow> 'a" where
  "or_keep v old = (case v of Some x \<Rightarrow> x | None \<Rightarrow> old)"

definition client_toUpdateData :: "oauth_env \<Rightarrow> string option \<Rightarrow> client_update \<Rightarrow> client \<Rightarrow> client" where
  "client_toUpdateData env token u c =
     c \<lparr> c_name := or_keep (cu_name u) (c_name c), c_type := or_keep (cu_type u) (c_type c),
         c_trustLevel := or_keep (cu_trustLevel u) (c_trustLevel c),
         c_declaredRetention := or_keep (cu_declaredRetention u) (c_declaredRetention c),
         c_tokenHash := (case token of Some tk \<Rightarrow> Some (oe_hash env tk) | None \<Rightarrow> c_tokenHash c) \<rparr>"

definition client_changedFields :: "client_update \<Rightarrow> string list" where
  "client_changedFields u =
     (if cu_name u = None then [] else [''name'']) @ (if cu_type u = None then [] else [''type''])
     @ (if cu_trustLevel u = None then [] else [''trustLevel''])
     @ (if cu_declaredRetention u = None then [] else [''declaredRetention''])"

text \<open>Blocking a connector that was not blocked revokes what was issued to it.\<close>

definition blocks_connector :: "client \<Rightarrow> client_update \<Rightarrow> bool" where
  "blocks_connector existing u =
     (truthy (c_oauthRegistrationId existing)
      \<and> cu_trustLevel u = Some client_trust_level.BLOCKED
      \<and> c_trustLevel existing \<noteq> client_trust_level.BLOCKED)"

definition updateClient ::
  "oauth_env \<Rightarrow> time \<Rightarrow> string \<Rightarrow> ident \<Rightarrow> ident \<Rightarrow> client_update \<Rightarrow> vault
     \<Rightarrow> (client_response \<times> string option) outcome" where
  "updateClient env now freshToken userId i u db =
     (case owned_client db userId i of
        None \<Rightarrow> (Inl (NotFound ''Client not found''), db)
      | Some existing \<Rightarrow>
          let token = (if rotates u then Some freshToken else None);
              f = client_toUpdateData env token u
          in case write_client now (c_id existing) f db of
               None \<Rightarrow> (Inl (Conflict ''A client with this name already exists''), db)
             | Some db1 \<Rightarrow>
                 let updated = touch_client now (f existing);
                     db2 = (if blocks_connector existing u
                            then snd (revokeTokensForClient now (c_id existing) ''grant_blocked''
                                        audit_actor_type.USER (Some userId) db1)
                            else db1);
                     db3 = snd (createAuditEvent now
                       (client_event userId (Some (c_id updated))
                          (if rotates u then audit_event_type.CLIENT_TOKEN_ROTATED
                           else audit_event_type.CLIENT_UPDATED)
                          (no_metadata \<lparr> am_clientId := Some (c_id updated),
                             am_details :=
                               [(''changedFields'', JArr (map JStr (client_changedFields u))),
                                (''rotatedToken'', JBool (rotates u))] \<rparr>)) db2)
                 in (Inr (toClientResponse updated (policy_count db1 updated), token), db3))"

text \<open>The referential actions of deleting a client: its policies, codes, tokens and requests (with
  their items) go, a request, memory, suggestion or event that pointed to what is gone keeps a null.\<close>

definition forget :: "('k \<Rightarrow> bool) \<Rightarrow> 'k option \<Rightarrow> 'k option" where
  "forget gone v = (case v of Some k \<Rightarrow> if gone k then None else Some k | None \<Rightarrow> None)"

definition drop_client :: "ident \<Rightarrow> vault \<Rightarrow> vault" where
  "drop_client i db =
     (let gonePolicy = (\<lambda>p. list_ex (\<lambda>r. p_id r = p \<and> p_clientId r = i) (v_policies db));
          goneRequest = (\<lambda>q. list_ex (\<lambda>r. r_id r = q \<and> r_clientId r = i) (v_requests db))
      in db \<lparr> v_clients := delete_where (\<lambda>c. c_id c = i) (v_clients db),
              v_policies := delete_where (\<lambda>p. p_clientId p = i) (v_policies db),
              v_codes := delete_where (\<lambda>k. k_clientId k = i) (v_codes db),
              v_tokens := delete_where (\<lambda>t. t_clientId t = i) (v_tokens db),
              v_requests := map (\<lambda>r. r \<lparr> r_policyId := forget gonePolicy (r_policyId r) \<rparr>)
                (delete_where (\<lambda>r. r_clientId r = i) (v_requests db)),
              v_requestItems := delete_where (\<lambda>it. goneRequest (ri_memoryRequestId it)) (v_requestItems db),
              v_memories := map (\<lambda>m. m \<lparr> m_sourceClientId := forget (\<lambda>c. c = i) (m_sourceClientId m) \<rparr>)
                (v_memories db),
              v_suggestions := map (\<lambda>s. s \<lparr> s_sourceClientId := forget (\<lambda>c. c = i) (s_sourceClientId s),
                  s_policyId := forget gonePolicy (s_policyId s) \<rparr>) (v_suggestions db),
              auditEvents := map (\<lambda>e. e \<lparr> ae_clientId := forget (\<lambda>c. c = i) (ae_clientId e),
                  ae_memoryRequestId := forget goneRequest (ae_memoryRequestId e) \<rparr>) (auditEvents db) \<rparr>)"

definition deleteClient ::
  "time \<Rightarrow> ident \<Rightarrow> ident \<Rightarrow> vault \<Rightarrow> client_response outcome" where
  "deleteClient now userId i db =
     (case owned_client db userId i of
        None \<Rightarrow> (Inl (NotFound ''Client not found''), db)
      | Some existing \<Rightarrow>
          let db1 = (if truthy (c_oauthRegistrationId existing)
                     then snd (revokeTokensForClient now (c_id existing) ''grant_revoked''
                                 audit_actor_type.USER (Some userId) db)
                     else db);
              db2 = drop_client (c_id existing) db1;
              db3 = snd (createAuditEvent now
                (client_event userId None audit_event_type.CLIENT_UPDATED
                   (no_metadata \<lparr> am_clientId := Some (c_id existing),
                      am_clientName := Some (c_name existing),
                      am_details := [(''deleted'', JBool True)] \<rparr>)) db2)
          in (Inr (toClientResponse (existing \<lparr> c_tokenHash := None \<rparr>) 0), db3))"

section \<open>ClientAuthGuard\<close>

definition readBearerToken :: "string option \<Rightarrow> string option" where
  "readBearerToken header =
     (case header of
        None \<Rightarrow> None
      | Some h \<Rightarrow>
          if take 7 h \<noteq> ''Bearer '' then None
          else (let token = js_trim (drop 7 h) in if token = [] then None else Some token))"

datatype client_token_type = static | oauth

record attached_client =
  at_tokenType :: client_token_type
  at_oauthScopes :: "string list option"
  at_client :: client_response
  at_userId :: ident

definition assertScopeAllowed :: "string option \<Rightarrow> string list \<Rightarrow> bool" where
  "assertScopeAllowed required scopes =
     (case required of Some s \<Rightarrow> s = [] \<or> s \<in> set scopes | None \<Rightarrow> True)"

definition used_now :: "time \<Rightarrow> client \<Rightarrow> client" where
  "used_now now c = c \<lparr> c_lastUsedAt := Some now, c_updatedAt := now \<rparr>"

definition attachClient ::
  "time \<Rightarrow> client_token_type \<Rightarrow> string list option \<Rightarrow> ident \<Rightarrow> vault \<Rightarrow> attached_client outcome" where
  "attachClient now tokenType scopes clientId db =
     (case client_by_id db clientId of
        None \<Rightarrow> (Inl (Internal ''P2025''), db)
      | Some c \<Rightarrow>
          (Inr \<lparr> at_tokenType = tokenType, at_oauthScopes = scopes,
                 at_client = toClientResponse (used_now now c) (policy_count db c),
                 at_userId = c_userId c \<rparr>,
           db \<lparr> v_clients := update_where (\<lambda>c. c_id c = clientId) (used_now now) (v_clients db) \<rparr>))"

definition canActivate ::
  "oauth_env \<Rightarrow> time \<Rightarrow> string option \<Rightarrow> string option \<Rightarrow> vault \<Rightarrow> attached_client outcome" where
  "canActivate env now required header db =
     (case readBearerToken header of
        None \<Rightarrow> (Inl (Unauthorized ''Missing client token''), db)
      | Some token \<Rightarrow>
          (case find_row (\<lambda>c. c_tokenHash c = Some (oe_hash env token)) (v_clients db) of
             Some client \<Rightarrow> attachClient now static None (c_id client) db
           | None \<Rightarrow>
               (case verifyAccessToken env now db token of
                  None \<Rightarrow> (Inl (Unauthorized ''Invalid client token''), db)
                | Some row \<Rightarrow>
                    if \<not> assertScopeAllowed required (t_scopes row)
                    then (Inl (Forbidden ''Token is missing the required scope''), db)
                    else attachClient now oauth (Some (t_scopes row)) (t_clientId row) db)))"


section \<open>The table stays well formed\<close>

definition clients_wf :: "client list \<Rightarrow> bool" where
  "clients_wf cs = (distinct (map c_id cs)
     \<and> (\<forall>a\<in>set cs. \<forall>b\<in>set cs. c_id a \<noteq> c_id b \<longrightarrow> \<not> clients_clash a b))"

lemma clients_clash_sym: "clients_clash a b = clients_clash b a"
  unfolding clients_clash_def by metis

lemma clients_wf_insert:
  "clients_wf cs \<Longrightarrow> c_id c \<notin> c_id ` set cs \<Longrightarrow> \<not> list_ex (clients_clash c) cs \<Longrightarrow> clients_wf (cs @ [c])"
  using clients_clash_sym by (auto simp: clients_wf_def list_ex_iff)

text \<open>Rewriting the row of one id: fine when the new row clashes with no other.\<close>

lemma clients_wf_update:
  assumes "clients_wf cs" "\<And>c. c_id (f c) = c_id c"
    and "\<And>c o'. c \<in> set cs \<Longrightarrow> c_id c = i \<Longrightarrow> o' \<in> set cs \<Longrightarrow> c_id o' \<noteq> i \<Longrightarrow> \<not> clients_clash (f c) o'"
  shows "clients_wf (update_where (\<lambda>c. c_id c = i) f cs)"
  unfolding clients_wf_def
proof (intro conjI ballI impI)
  show "distinct (map c_id (update_where (\<lambda>c. c_id c = i) f cs))"
    using assms(1,2) by (simp add: clients_wf_def map_update_where)
  fix a b
  assume "a \<in> set (update_where (\<lambda>c. c_id c = i) f cs)" "b \<in> set (update_where (\<lambda>c. c_id c = i) f cs)"
    and ne: "c_id a \<noteq> c_id b"
  then obtain x y where x: "x \<in> set cs" "a = (if c_id x = i then f x else x)"
    and y: "y \<in> set cs" "b = (if c_id y = i then f y else y)"
    by (auto simp: set_update_where)
  have ids: "c_id a = c_id x" "c_id b = c_id y" using x y assms(2) by auto
  show "\<not> clients_clash a b"
  proof (cases "c_id x = i \<or> c_id y = i")
    case True
    then show ?thesis using assms(3)[of x y] assms(3)[of y x] x y ids ne clients_clash_sym by metis
  next
    case False
    then show ?thesis using assms(1) x y ids ne by (auto simp: clients_wf_def)
  qed
qed

lemma client_marks_id [simp]: "c_id (touch_client now c) = c_id c" "c_id (used_now now c) = c_id c"
  "c_userId (touch_client now c) = c_userId c" "c_userId (used_now now c) = c_userId c"
  by (simp_all add: touch_client_def used_now_def)

lemma clients_clash_touch [simp]: "clients_clash (touch_client now a) b = clients_clash a b"
  by (simp add: clients_clash_def touch_client_def)

lemma clients_clash_used [simp]: "clients_clash (used_now now a) b = clients_clash a b"
  by (simp add: clients_clash_def used_now_def)

lemma clients_wf_write:
  assumes "clients_wf (v_clients db)" "write_client now i f db = Some db'" "\<And>c. c_id (f c) = c_id c"
  shows "clients_wf (v_clients db')"
proof -
  have "\<not> list_ex (\<lambda>c. c_id c = i \<and> list_ex (\<lambda>o'. c_id o' \<noteq> i \<and> clients_clash (f c) o') (v_clients db)) (v_clients db)"
    and db': "v_clients db' = update_where (\<lambda>c. c_id c = i) (\<lambda>c. touch_client now (f c)) (v_clients db)"
    using assms(2) by (auto simp: write_client_def split: if_splits)
  then show ?thesis
    unfolding db'
    by (intro clients_wf_update[OF assms(1)]) (auto simp: assms(3) list_ex_iff)
qed

lemma client_toUpdateData_id [simp]: "c_id (client_toUpdateData env tk u c) = c_id c"
  "c_userId (client_toUpdateData env tk u c) = c_userId c"
  by (simp_all add: client_toUpdateData_def)

lemma revokeTokensForClient_clients [token_simps]:
  "v_clients (snd (revokeTokensForClient now c why ty act db)) = v_clients db"
  "v_policies (snd (revokeTokensForClient now c why ty act db)) = v_policies db"
  "v_requests (snd (revokeTokensForClient now c why ty act db)) = v_requests db"
  by (simp_all add: revokeTokensForClient_def audit_simps split: list.split)

lemma insert_client_Some:
  "insert_client c db = Some db' \<Longrightarrow>
     v_clients db' = v_clients db @ [c] \<and> \<not> list_ex (clients_clash c) (v_clients db)"
  by (auto simp: insert_client_def draw_id_def split: if_splits)

lemma clients_createClient:
  "v_clients (snd (createClient env now token userId inp db)) =
     (case insert_client (new_client env now token userId inp (next_id db)) db of
        None \<Rightarrow> v_clients db | Some db1 \<Rightarrow> v_clients db1)"
  by (simp add: createClient_def Let_def audit_simps split: option.split)

lemma clients_updateClient:
  "v_clients (snd (updateClient env now tk userId i u db)) =
     (case owned_client db userId i of None \<Rightarrow> v_clients db
      | Some c \<Rightarrow> (case write_client now (c_id c)
            (client_toUpdateData env (if rotates u then Some tk else None) u) db of
          None \<Rightarrow> v_clients db | Some db1 \<Rightarrow> v_clients db1))"
  by (simp add: updateClient_def Let_def audit_simps token_simps split: option.split)

lemma clients_deleteClient:
  "v_clients (snd (deleteClient now userId i db)) =
     (case owned_client db userId i of None \<Rightarrow> v_clients db
      | Some c \<Rightarrow> delete_where (\<lambda>x. c_id x = c_id c) (v_clients db))"
  by (simp add: deleteClient_def Let_def audit_simps token_simps drop_client_def split: option.split)

lemma clients_canActivate:
  "v_clients (snd (canActivate env now required header db)) = v_clients db
   \<or> (\<exists>i. v_clients (snd (canActivate env now required header db))
          = update_where (\<lambda>c. c_id c = i) (used_now now) (v_clients db))"
  by (auto simp: canActivate_def attachClient_def split: option.splits if_splits)

text \<open>The client table keeps its constraints: names and connectors unique per owner, token hashes
  and ids unique, under creation, edits with and without token rotation, deletion and use.\<close>

theorem client_table_stays_unique:
  assumes "clients_wf (v_clients db)" "next_id db \<notin> c_id ` set (v_clients db)"
  shows "clients_wf (v_clients (snd (createClient env now token userId inp db)))
    \<and> clients_wf (v_clients (snd (updateClient env now token userId i u db)))
    \<and> clients_wf (v_clients (snd (deleteClient now userId i db)))
    \<and> clients_wf (v_clients (snd (canActivate env now required header db)))"
proof (intro conjI)
  show "clients_wf (v_clients (snd (createClient env now token userId inp db)))"
    using assms clients_wf_insert[OF assms(1), of "new_client env now token userId inp (next_id db)"]
    by (auto simp: clients_createClient new_client_def dest!: insert_client_Some split: option.split)
  show "clients_wf (v_clients (snd (updateClient env now token userId i u db)))"
    using assms(1) clients_wf_write[OF assms(1)]
    by (auto simp: clients_updateClient split: option.split)
  show "clients_wf (v_clients (snd (deleteClient now userId i db)))"
    using assms(1)
    by (auto simp: clients_deleteClient clients_wf_def delete_where_def distinct_map inj_on_def split: option.split)
  have "clients_wf (update_where (\<lambda>c. c_id c = k) (used_now now) (v_clients db))" for k
    using assms(1) by (intro clients_wf_update[OF assms(1)]) (auto simp: clients_wf_def)
  then show "clients_wf (v_clients (snd (canActivate env now required header db)))"
    using clients_canActivate[of env now required header db] assms(1) by auto
qed

section \<open>Who the guard lets in\<close>

text \<open>C24. The guard attaches a client only to the bearer of one of its tokens: a static token whose
  hash the client row holds, or a live OAuth access token of an approved client that carries the
  scope the route asks for.  It changes nothing but the time the client was last used.\<close>

theorem guard_admits_bearers_only:
  assumes "canActivate env now required header db = (Inr ac, db')"
  shows "\<exists>token c. readBearerToken header = Some token \<and> c \<in> set (v_clients db)
    \<and> at_userId ac = c_userId c \<and> cl_id (at_client ac) = c_id c
    \<and> db' = db \<lparr> v_clients := update_where (\<lambda>x. c_id x = c_id c) (used_now now) (v_clients db) \<rparr>
    \<and> (at_tokenType ac = static
         \<and> (\<exists>c'\<in>set (v_clients db). c_id c' = c_id c \<and> c_tokenHash c' = Some (oe_hash env token))
       \<or> at_tokenType ac = oauth \<and> c_trustLevel c = client_trust_level.APPROVED
         \<and> (\<exists>row\<in>set (v_tokens db). t_tokenHash row = oe_hash env token
              \<and> t_type row = oauth_token_type.ACCESS \<and> t_clientId row = c_id c
              \<and> t_revokedAt row = None \<and> now < t_expiresAt row
              \<and> at_oauthScopes ac = Some (t_scopes row) \<and> assertScopeAllowed required (t_scopes row)))"
proof -
  obtain token where token: "readBearerToken header = Some token"
    using assms by (auto simp: canActivate_def split: option.splits)
  have attach: "\<exists>c. client_by_id db k = Some c \<and> c \<in> set (v_clients db) \<and> c_id (c :: client) = k
      \<and> at_userId ac = c_userId c \<and> cl_id (at_client ac) = c_id c \<and> at_tokenType ac = ty
      \<and> at_oauthScopes ac = sc
      \<and> db' = db \<lparr> v_clients := update_where (\<lambda>x. c_id x = k) (used_now now) (v_clients db) \<rparr>"
    if a: "attachClient now ty sc k db = (Inr ac, db')" for ty sc k
  proof -
    obtain c :: client where c: "client_by_id db k = Some c"
      using a by (auto simp: attachClient_def split: option.splits)
    then have "c \<in> set (v_clients db)" "c_id c = k"
      by (auto simp: client_by_id_def dest: find_row_SomeD)
    moreover have "ac = \<lparr> at_tokenType = ty, at_oauthScopes = sc,
          at_client = toClientResponse (used_now now c) (policy_count db c), at_userId = c_userId c \<rparr>"
      "db' = db \<lparr> v_clients := update_where (\<lambda>x. c_id x = k) (used_now now) (v_clients db) \<rparr>"
      using a c by (simp_all add: attachClient_def)
    ultimately show ?thesis using c by (intro exI[of _ c]) (simp add: toClientResponse_def)
  qed
  show ?thesis
  proof (cases "find_row (\<lambda>c. c_tokenHash c = Some (oe_hash env token)) (v_clients db)")
    case (Some s)
    then have "attachClient now static None (c_id s) db = (Inr ac, db')"
      using assms token by (simp add: canActivate_def)
    from attach[OF this] obtain c :: client where c: "c \<in> set (v_clients db)" "c_id c = c_id s"
      "at_userId ac = c_userId c" "cl_id (at_client ac) = c_id c" "at_tokenType ac = static"
      "db' = db \<lparr> v_clients := update_where (\<lambda>x. c_id x = c_id s) (used_now now) (v_clients db) \<rparr>"
      by blast
    have "\<exists>c'\<in>set (v_clients db). c_id c' = c_id c \<and> c_tokenHash c' = Some (oe_hash env token)"
      using find_row_SomeD[OF Some] c(2) by (intro bexI[of _ s]) simp_all
    with c token show ?thesis by (intro exI[of _ token] exI[of _ c]) simp
  next
    case None
    then obtain row where row: "verifyAccessToken env now db token = Some row"
      "assertScopeAllowed required (t_scopes row)"
      "attachClient now oauth (Some (t_scopes row)) (t_clientId row) db = (Inr ac, db')"
      using assms token by (auto simp: canActivate_def split: option.splits if_splits)
    from row(1) have f: "findToken env db token oauth_token_type.ACCESS = Some row" and
      u: "isUsableGrant now db row" by (auto simp: verifyAccessToken_def split: if_splits option.splits)
    have t: "row \<in> set (v_tokens db)" "t_tokenHash row = oe_hash env token" "t_type row = oauth_token_type.ACCESS"
      using f by (auto simp: findToken_def dest: find_row_SomeD)
    from attach[OF row(3)] obtain c where c: "client_by_id db (t_clientId row) = Some c"
      "c \<in> set (v_clients db)" "c_id c = t_clientId row" "at_userId ac = c_userId c"
      "cl_id (at_client ac) = c_id c" "at_tokenType ac = oauth" "at_oauthScopes ac = Some (t_scopes row)"
      "db' = db \<lparr> v_clients := update_where (\<lambda>x. c_id x = t_clientId row) (used_now now) (v_clients db) \<rparr>"
      by blast
    have "c_trustLevel c = client_trust_level.APPROVED" "t_revokedAt row = None" "now < t_expiresAt row"
      using u c(1) by (auto simp: isUsableGrant_def grant_approved_def)
    moreover from this t row(2) c have "\<exists>x\<in>set (v_tokens db). t_tokenHash x = oe_hash env token
        \<and> t_type x = oauth_token_type.ACCESS \<and> t_clientId x = c_id c \<and> t_revokedAt x = None
        \<and> now < t_expiresAt x \<and> at_oauthScopes ac = Some (t_scopes x)
        \<and> assertScopeAllowed required (t_scopes x)"
      by (intro bexI[of _ row]) simp_all
    ultimately show ?thesis using c token by (intro exI[of _ token] exI[of _ c]) simp
  qed
qed


section \<open>Cutting an app off\<close>

definition tokens_dead :: "ident \<Rightarrow> vault \<Rightarrow> bool" where
  "tokens_dead i db = list_all (\<lambda>t. t_clientId t = i \<longrightarrow> t_revokedAt t \<noteq> None) (v_tokens db)"

lemma revokeTokensForClient_dead: "tokens_dead i (snd (revokeTokensForClient now i why ty act db))"
  unfolding tokens_dead_def list_all_iff revokeTokensForClient_tokens
  by (intro ballI impI) (rule update_where_revoked[of _ "\<lambda>t. t_clientId t = i"], simp_all)

lemma tokens_dead_revoke:
  assumes "tokens_dead i db"
  shows "tokens_dead i (snd (revokeTokensForClient now c why ty act db))"
  using assms unfolding tokens_dead_def list_all_iff revokeTokensForClient_tokens
  by (auto simp: set_update_where)

lemma write_client_tokens: "write_client now i f db = Some db' \<Longrightarrow> v_tokens db' = v_tokens db"
  by (auto simp: write_client_def split: if_splits)

lemma updateClient_tokens:
  "v_tokens (snd (updateClient env now tk userId i u db)) = v_tokens db
   \<or> (\<exists>db1 c. v_tokens db1 = v_tokens db \<and> v_tokens (snd (updateClient env now tk userId i u db))
        = v_tokens (snd (revokeTokensForClient now c ''grant_blocked'' audit_actor_type.USER (Some userId) db1)))"
  using write_client_tokens
  by (fastforce simp: updateClient_def Let_def audit_simps split: option.split)

lemma tokens_dead_updateClient:
  assumes "tokens_dead i db"
  shows "tokens_dead i (snd (updateClient env now tk userId j u db))"
  using updateClient_tokens[of env now tk userId j u db]
proof (elim disjE exE conjE)
  fix db1 c
  assume "v_tokens db1 = v_tokens db" and eq: "v_tokens (snd (updateClient env now tk userId j u db))
        = v_tokens (snd (revokeTokensForClient now c ''grant_blocked'' audit_actor_type.USER (Some userId) db1))"
  then have "tokens_dead i db1" using assms by (simp add: tokens_dead_def)
  from tokens_dead_revoke[OF this] show ?thesis using eq by (simp add: tokens_dead_def)
qed (use assms in \<open>simp add: tokens_dead_def\<close>)

lemma tokens_dead_verify:
  assumes "tokens_dead i db" "verifyAccessToken env now db token = Some row"
  shows "t_clientId row \<noteq> i"
  using assms
  by (auto simp: verifyAccessToken_def findToken_def isUsableGrant_def tokens_dead_def list_all_iff
      split: if_splits option.splits dest!: find_row_SomeD)

text \<open>C25. Blocking a connector is a lasting cutoff: once the owner has blocked it, no access token it
  held verifies any more, whatever edits follow, unblocking included.\<close>

theorem blocked_connector_stays_cut_off:
  assumes "owned_client db userId i = Some existing" "blocks_connector existing u"
    and "updateClient env now tk userId i u db = (Inr r, db1)"
    and "verifyAccessToken env later
           (fold (\<lambda>(at', tk', u') d. snd (updateClient env at' tk' userId i u' d)) edits db1) token = Some row"
  shows "t_clientId row \<noteq> i"
proof -
  have i: "c_id existing = i" using assms(1) by (auto simp: owned_client_def dest: find_row_SomeD)
  obtain d where "v_tokens db1 = v_tokens (snd (revokeTokensForClient now i ''grant_blocked''
      audit_actor_type.USER (Some userId) d))"
    using assms(1-3) i by (auto simp: updateClient_def Let_def audit_simps split: option.splits)
  then have "tokens_dead i db1" using revokeTokensForClient_dead[of i] by (simp add: tokens_dead_def)
  then have "tokens_dead i (fold (\<lambda>(at', tk', u') d. snd (updateClient env at' tk' userId i u' d)) edits db1)"
  proof (induction edits arbitrary: db1)
    case (Cons e edits)
    then show ?case using tokens_dead_updateClient by (cases e) simp
  qed simp
  from tokens_dead_verify[OF this assms(4)] show ?thesis .
qed

text \<open>A deleted app is gone: nothing of it is left in the tables it owned, the log keeps its events
  without the reference, and it is refused at the gate and by the guard.\<close>

theorem deleted_client_is_gone:
  assumes "deleteClient now userId i db = (Inr r, db')"
  shows "list_all (\<lambda>c. c_id c \<noteq> i) (v_clients db') \<and> list_all (\<lambda>p. p_clientId p \<noteq> i) (v_policies db')
    \<and> list_all (\<lambda>t. t_clientId t \<noteq> i) (v_tokens db') \<and> list_all (\<lambda>k. k_clientId k \<noteq> i) (v_codes db')
    \<and> list_all (\<lambda>q. r_clientId q \<noteq> i) (v_requests db')
    \<and> list_all (\<lambda>e. ae_clientId e \<noteq> Some i) (auditEvents db')
    \<and> length (auditEvents db') > length (auditEvents db)
    \<and> pr_reason (evaluateForClient now db' userId i op (None :: memory list option)) = Some unknown_or_blocked_client"
proof -
  obtain existing where e: "owned_client db userId i = Some existing"
    using assms by (auto simp: deleteClient_def split: option.splits)
  then have i: "c_id existing = i" by (auto simp: owned_client_def dest: find_row_SomeD)
  define db1 where "db1 = (if truthy (c_oauthRegistrationId existing)
      then snd (revokeTokensForClient now i ''grant_revoked'' audit_actor_type.USER (Some userId) db) else db)"
  have db': "db' = snd (createAuditEvent now (client_event userId None audit_event_type.CLIENT_UPDATED
      (no_metadata \<lparr> am_clientId := Some i, am_clientName := Some (c_name existing),
         am_details := [(''deleted'', JBool True)] \<rparr>)) (drop_client i db1))"
    using assms e i by (auto simp: deleteClient_def Let_def db1_def)
  have len: "length (auditEvents db1) \<ge> length (auditEvents db)"
    by (simp add: db1_def revokeTokensForClient_def audit_simps split: list.split)
  have gone: "owned_client db' userId i = None"
    by (auto simp: owned_client_def find_row_None_iff db' audit_simps drop_client_def Let_def)
  have ev: "auditEvents db' = auditEvents (drop_client i db1) @ [event_row now (next_id (drop_client i db1))
      (client_event userId None audit_event_type.CLIENT_UPDATED
      (no_metadata \<lparr> am_clientId := Some i, am_clientName := Some (c_name existing),
         am_details := [(''deleted'', JBool True)] \<rparr>))]"
    by (simp add: db' audit_simps)
  have "list_all (\<lambda>e. ae_clientId e \<noteq> Some i) (auditEvents db')"
    by (auto simp: ev list_all_iff drop_client_def Let_def forget_def event_row_def client_event_def
        split: option.splits if_splits)
  moreover have "length (auditEvents db') > length (auditEvents db)"
    using len by (simp add: ev drop_client_def Let_def)
  moreover have "pr_reason (evaluateForClient now db' userId i op (None :: memory list option)) = Some unknown_or_blocked_client"
    by (simp add: evaluateForClient_def gone gate_reason_def Let_def)
  ultimately show ?thesis
    by (auto simp: db' audit_simps drop_client_def Let_def list_all_iff)
qed


section \<open>Witnesses\<close>

text \<open>The sample client as a connector that holds an access token.\<close>

definition connector :: client where
  "connector = sample_client \<lparr> c_oauthRegistrationId := Some ''g1'' \<rparr>"

definition connector_vault :: vault where
  "connector_vault = oauth_vault \<lparr> v_clients := [connector],
     v_tokens := [issued_row sample_issue ''t1'' oauth_token_type.ACCESS ''hfvoa_a'' 50] \<rparr>"

definition no_client_update :: client_update where
  "no_client_update = \<lparr> cu_name = None, cu_type = None, cu_trustLevel = None,
     cu_declaredRetention = None, cu_rotateToken = None \<rparr>"

definition block_update :: client_update where
  "block_update = no_client_update \<lparr> cu_trustLevel := Some client_trust_level.BLOCKED \<rparr>"

definition approve_update :: client_update where
  "approve_update = no_client_update \<lparr> cu_trustLevel := Some client_trust_level.APPROVED \<rparr>"

lemma client_table_stays_unique_witness:
  "clients_wf (v_clients (snd (createClient sample_oauth_env 5 ''fvlt_x'' ''u1''
      \<lparr> ci_name = ''Other'', ci_type = client_type.CLI, ci_trustLevel = client_trust_level.APPROVED,
        ci_declaredRetention = client_retention.UNKNOWN \<rparr> sample_vault)))
   \<and> clients_wf (v_clients (snd (updateClient sample_oauth_env 5 ''fvlt_x'' ''u1'' ''c1'' block_update sample_vault)))"
proof -
  have "clients_wf (v_clients sample_vault)" by (simp add: clients_wf_def sample_vault_def)
  moreover have "next_id sample_vault \<notin> c_id ` set (v_clients sample_vault)" by code_simp
  ultimately show ?thesis using client_table_stays_unique by blast
qed

lemma guard_admits_bearers_only_witness:
  "\<exists>ac db'. \<exists>c :: client. canActivate sample_oauth_env 9 (Some ''memory.read'') (Some ''Bearer fvoa_a'') connector_vault
      = (Inr ac, db') \<and> at_userId ac = c_userId c \<and> c_id c = ''c1'' \<and> c_trustLevel c = client_trust_level.APPROVED"
proof -
  let ?x = "canActivate sample_oauth_env 9 (Some ''memory.read'') (Some ''Bearer fvoa_a'') connector_vault"
  have "case fst ?x of Inr ac \<Rightarrow> cl_id (at_client ac) = ''c1'' | Inl e \<Rightarrow> False" by code_simp
  then obtain ac where ac: "?x = (Inr ac, snd ?x)" "cl_id (at_client ac) = ''c1''"
    by (rule outcome_okE)
  from guard_admits_bearers_only[OF ac(1)] obtain c where c: "c \<in> set (v_clients connector_vault)"
    "at_userId ac = c_userId c" "cl_id (at_client ac) = c_id c" by blast
  then have "c_trustLevel c = client_trust_level.APPROVED"
    and "c_id c = ''c1''"
    using ac(2) by (simp_all add: connector_vault_def connector_def sample_client_def)
  then show ?thesis using ac(1) c(2) by blast
qed

lemma blocked_connector_stays_cut_off_witness:
  "verifyAccessToken sample_oauth_env 9 connector_vault ''fvoa_a'' \<noteq> None
   \<and> verifyAccessToken sample_oauth_env 9
      (snd (updateClient sample_oauth_env 8 [] ''u1'' ''c1'' approve_update
        (snd (updateClient sample_oauth_env 7 [] ''u1'' ''c1'' block_update connector_vault)))) ''fvoa_a'' = None"
proof
  show "verifyAccessToken sample_oauth_env 9 connector_vault ''fvoa_a'' \<noteq> None" by code_simp
  let ?u = "updateClient sample_oauth_env 7 [] ''u1'' ''c1'' block_update connector_vault"
  let ?db = "snd (updateClient sample_oauth_env 8 [] ''u1'' ''c1'' approve_update (snd ?u))"
  have own: "owned_client connector_vault ''u1'' ''c1'' = Some connector" by code_simp
  have blk: "blocks_connector connector block_update" by code_simp
  have "\<not> isl (fst ?u)" by code_simp
  then obtain r where r: "?u = (Inr r, snd ?u)" using outcome_ok by blast
  have other: "map t_clientId (v_tokens ?db) = [''c1'']" by code_simp
  show "verifyAccessToken sample_oauth_env 9 ?db ''fvoa_a'' = None"
  proof (rule ccontr)
    assume "verifyAccessToken sample_oauth_env 9 ?db ''fvoa_a'' \<noteq> None"
    then obtain row where row: "verifyAccessToken sample_oauth_env 9 ?db ''fvoa_a'' = Some row" by blast
    have "t_clientId row \<noteq> ''c1''"
      using blocked_connector_stays_cut_off[OF own blk r, of 9 "[(8, [], approve_update)]" "''fvoa_a''" row] row
      by simp
    moreover have "row \<in> set (v_tokens ?db)"
      using row by (auto simp: verifyAccessToken_def findToken_def dest!: find_row_SomeD split: if_splits option.splits)
    then have "t_clientId row \<in> set (map t_clientId (v_tokens ?db))" by simp
    then have "t_clientId row = ''c1''" unfolding other by simp
    ultimately show False by simp
  qed
qed

lemma deleted_client_is_gone_witness:
  "\<exists>r db'. deleteClient 7 ''u1'' ''c1'' connector_vault = (Inr r, db')
     \<and> list_all (\<lambda>t. t_clientId t \<noteq> ''c1'') (v_tokens db') \<and> length (auditEvents db') > 0"
proof -
  let ?x = "deleteClient 7 ''u1'' ''c1'' connector_vault"
  have "\<not> isl (fst ?x)" by code_simp
  then obtain r where r: "?x = (Inr r, snd ?x)" using outcome_ok by blast
  from deleted_client_is_gone[OF r] show ?thesis using r by (metis gr_implies_not0 neq0_conv)
qed

end
