(* ===== verification/Policies.thy ===== *)
theory Policies
  imports Clients "HOL-Library.List_Lexorder"
begin

text \<open>
  \<open>policies/policies.service.ts\<close>, \<open>memories/categories.service.ts\<close> and
  \<open>first-party-access/first-party-access.service.ts\<close>: the permissions of an app.  A client has at
  most one policy (the column is unique), every policy belongs to the owner of its client, and the
  two first-party apps get theirs when they are first used.
\<close>

section \<open>Categories\<close>

definition assertExist :: "vault \<Rightarrow> ident list \<Rightarrow> error + unit" where
  "assertExist db categoryKeys =
     (let uniqueCategoryKeys = js_unique categoryKeys;
          foundKeys = map cat_key (filter (\<lambda>c. cat_key c \<in> set uniqueCategoryKeys) (v_categories db));
          missingKeys = filter (\<lambda>key. key \<notin> set foundKeys) uniqueCategoryKeys
      in if uniqueCategoryKeys = [] then Inr ()
         else if missingKeys \<noteq> [] then Inl (BadRequest ''Unknown memory categories'')
         else Inr ())"

text \<open>A \<open>connect\<close> or \<open>set\<close> by keys, read back by \<open>policyInclude\<close>: the rows by name.\<close>

definition by_name :: "category list \<Rightarrow> category list" where
  "by_name cs = sort_key cat_name cs"

definition toCategoryConnect :: "vault \<Rightarrow> ident list \<Rightarrow> category list" where
  "toCategoryConnect db keys =
     by_name (List.map_filter (\<lambda>key. find_row (\<lambda>c. cat_key c = key) (v_categories db)) (js_unique keys))"

section \<open>The policy table\<close>

text \<open>\<open>policy.create\<close>; \<open>None\<close> is the error P2002 of the unique client column.\<close>

definition insert_policy :: "policy \<Rightarrow> vault \<Rightarrow> vault option" where
  "insert_policy p db =
     (if list_ex (\<lambda>q. p_clientId q = p_clientId p) (v_policies db) then None
      else Some (draw_id db \<lparr> v_policies := v_policies db @ [p] \<rparr>))"

definition write_policy :: "time \<Rightarrow> ident \<Rightarrow> (policy \<Rightarrow> policy) \<Rightarrow> vault \<Rightarrow> vault" where
  "write_policy now i f db =
     db \<lparr> v_policies := update_where (\<lambda>p. p_id p = i) (\<lambda>p. (f p) \<lparr> p_updatedAt := now \<rparr>) (v_policies db) \<rparr>"

definition owned_policy :: "vault \<Rightarrow> ident \<Rightarrow> ident \<Rightarrow> policy option" where
  "owned_policy db userId i = find_row (\<lambda>p. p_id p = i \<and> p_userId p = userId) (v_policies db)"

section \<open>Responses\<close>

record policy_response =
  po_id :: ident
  po_clientId :: ident
  po_clientName :: "string option"
  po_allowedCategoryKeys :: "ident list"
  po_deniedCategoryKeys :: "ident list"
  po_maxSensitivity :: memory_sensitivity
  po_operations :: "policy_operation list"
  po_requiresConfirmation :: bool
  po_expiresAt :: "time option"
  po_createdAt :: time
  po_updatedAt :: time

definition policy_clientName :: "vault \<Rightarrow> policy \<Rightarrow> string option" where
  "policy_clientName db p = map_option c_name (client_by_id db (p_clientId p))"

definition toPolicyResponse :: "policy \<Rightarrow> string option \<Rightarrow> policy_response" where
  "toPolicyResponse p name =
     \<lparr> po_id = p_id p, po_clientId = p_clientId p, po_clientName = name,
       po_allowedCategoryKeys = map cat_key (p_allowedCategories p),
       po_deniedCategoryKeys = map cat_key (p_deniedCategories p),
       po_maxSensitivity = p_maxSensitivity p, po_operations = p_operations p,
       po_requiresConfirmation = p_requiresConfirmation p, po_expiresAt = p_expiresAt p,
       po_createdAt = p_createdAt p, po_updatedAt = p_updatedAt p \<rparr>"

definition listPolicies ::
  "vault \<Rightarrow> ident \<Rightarrow> ident option \<Rightarrow> pagination_query \<Rightarrow> policy_response list \<times> pagination" where
  "listPolicies db userId clientId query =
     (let rows = filter (\<lambda>p. p_userId p = userId
            \<and> (case clientId of Some c \<Rightarrow> p_clientId p = c | None \<Rightarrow> True)) (v_policies db);
          pagination = buildPagination query (length rows)
      in (map (\<lambda>p. toPolicyResponse p (policy_clientName db p))
            (page_rows pagination (sort_key (\<lambda>p. - p_updatedAt p) rows)),
          pagination))"

section \<open>First-party definitions\<close>

record first_party =
  fp_clientName :: string
  fp_default :: string
  fp_maxSensitivity :: memory_sensitivity
  fp_operations :: "policy_operation list"
  fp_requiresConfirmation :: bool

text \<open>A configured sensitivity counts when it is the text of one.\<close>

definition all_sensitivities :: "memory_sensitivity list" where
  "all_sensitivities = [memory_sensitivity.PUBLIC, memory_sensitivity.LOW, memory_sensitivity.INTERNAL,
     memory_sensitivity.SENSITIVE, memory_sensitivity.RESTRICTED, memory_sensitivity.SECRET]"

definition configured_sensitivity :: "string option \<Rightarrow> memory_sensitivity \<Rightarrow> memory_sensitivity" where
  "configured_sensitivity configured fallback =
     (case configured of
        None \<Rightarrow> fallback
      | Some s \<Rightarrow>
          (case find_row (\<lambda>v. sensitivity_name v = s) all_sensitivities of
             Some v \<Rightarrow> v | None \<Rightarrow> fallback))"

definition defaultVoiceMaxSensitivity :: "string option \<Rightarrow> memory_sensitivity" where
  "defaultVoiceMaxSensitivity configured = configured_sensitivity configured memory_sensitivity.SENSITIVE"

definition webChatDefinition :: first_party where
  "webChatDefinition =
     \<lparr> fp_clientName = webChatClientName, fp_default = ''web_chat'',
       fp_maxSensitivity = memory_sensitivity.SECRET,
       fp_operations = [policy_operation.READ, policy_operation.SUGGEST, policy_operation.WRITE],
       fp_requiresConfirmation = False \<rparr>"

definition voiceDefinition :: "string option \<Rightarrow> first_party" where
  "voiceDefinition configured =
     \<lparr> fp_clientName = voiceClientName, fp_default = ''voice'',
       fp_maxSensitivity = defaultVoiceMaxSensitivity configured,
       fp_operations = [policy_operation.READ, policy_operation.SUGGEST],
       fp_requiresConfirmation = False \<rparr>"

definition firstPartyCategories :: "vault \<Rightarrow> category list" where
  "firstPartyCategories db = by_name (v_categories db)"

definition firstPartyPolicyFacts :: "first_party \<Rightarrow> nat \<Rightarrow> (string \<times> json) list" where
  "firstPartyPolicyFacts d categoryCount =
     [(''firstPartyDefault'', JStr (fp_default d)),
      (''operations'', JArr (map (\<lambda>o'. JStr (operation_name o')) (fp_operations d))),
      (''maxSensitivity'', JStr (sensitivity_name (fp_maxSensitivity d))),
      (''requiresConfirmation'', JBool (fp_requiresConfirmation d)),
      (''allowedCategoryCount'', JNum (of_nat categoryCount))]"

section \<open>PoliciesService\<close>

record policy_input =
  pl_clientId :: ident
  pl_allowedCategoryKeys :: "ident list"
  pl_deniedCategoryKeys :: "ident list"
  pl_maxSensitivity :: memory_sensitivity
  pl_operations :: "policy_operation list"
  pl_requiresConfirmation :: bool
  pl_expiresAt :: "time option"

definition new_policy :: "time \<Rightarrow> ident \<Rightarrow> policy_input \<Rightarrow> vault \<Rightarrow> policy" where
  "new_policy now userId inp db =
     \<lparr> p_id = next_id db, p_maxSensitivity = pl_maxSensitivity inp, p_operations = pl_operations inp,
       p_requiresConfirmation = pl_requiresConfirmation inp, p_expiresAt = pl_expiresAt inp,
       p_allowedCategories = toCategoryConnect db (pl_allowedCategoryKeys inp),
       p_deniedCategories = toCategoryConnect db (pl_deniedCategoryKeys inp),
       p_userId = userId, p_clientId = pl_clientId inp, p_createdAt = now, p_updatedAt = now \<rparr>"

definition policy_created_metadata :: "policy \<Rightarrow> string option \<Rightarrow> first_party option \<Rightarrow> nat \<Rightarrow> audit_metadata" where
  "policy_created_metadata p name firstPartyDefault keyCount =
     (case firstPartyDefault of
        Some d \<Rightarrow> no_metadata \<lparr> am_policyId := Some (p_id p), am_clientId := Some (p_clientId p),
          am_policyLabel := Some (appPermissionsLabel name),
          am_details := firstPartyPolicyFacts d keyCount \<rparr>
      | None \<Rightarrow> no_metadata \<lparr> am_policyId := Some (p_id p),
          am_policyLabel := Some (appPermissionsLabel name) \<rparr>)"

definition createPolicy ::
  "time \<Rightarrow> ident \<Rightarrow> policy_input \<Rightarrow> first_party option \<Rightarrow> vault \<Rightarrow> policy_response outcome" where
  "createPolicy now userId inp firstPartyDefault db =
     (case owned_client db userId (pl_clientId inp) of
        None \<Rightarrow> (Inl (BadRequest ''Unknown client''), db)
      | Some client \<Rightarrow>
          (case assertExist db (pl_allowedCategoryKeys inp @ pl_deniedCategoryKeys inp) of
             Inl e \<Rightarrow> (Inl e, db)
           | Inr _ \<Rightarrow>
               let created = new_policy now userId inp db; name = Some (c_name client)
               in case insert_policy created db of
                    None \<Rightarrow> (Inl (Conflict ''This app already has permissions''), db)
                  | Some db1 \<Rightarrow>
                      (Inr (toPolicyResponse created name),
                       snd (createAuditEvent now
                         (client_event userId (Some (p_clientId created)) audit_event_type.POLICY_CREATED
                            (policy_created_metadata created name firstPartyDefault
                               (length (pl_allowedCategoryKeys inp)))) db1))))"

text \<open>\<open>UpdatePolicyRequest\<close>: an absent field is \<open>None\<close>; a null expiry is \<open>Some None\<close>.\<close>

record policy_update =
  pu_allowedCategoryKeys :: "ident list option"
  pu_deniedCategoryKeys :: "ident list option"
  pu_maxSensitivity :: "memory_sensitivity option"
  pu_operations :: "policy_operation list option"
  pu_requiresConfirmation :: "bool option"
  pu_expiresAt :: "time option option"

definition policy_toUpdateData :: "vault \<Rightarrow> policy_update \<Rightarrow> policy \<Rightarrow> policy" where
  "policy_toUpdateData db u p =
     p \<lparr> p_maxSensitivity := or_keep (pu_maxSensitivity u) (p_maxSensitivity p),
         p_operations := or_keep (pu_operations u) (p_operations p),
         p_requiresConfirmation := or_keep (pu_requiresConfirmation u) (p_requiresConfirmation p),
         p_expiresAt := or_keep (pu_expiresAt u) (p_expiresAt p),
         p_allowedCategories :=
           or_keep (map_option (toCategoryConnect db) (pu_allowedCategoryKeys u)) (p_allowedCategories p),
         p_deniedCategories :=
           or_keep (map_option (toCategoryConnect db) (pu_deniedCategoryKeys u)) (p_deniedCategories p) \<rparr>"

definition policy_changedFields :: "policy_update \<Rightarrow> string list" where
  "policy_changedFields u =
     (if pu_allowedCategoryKeys u = None then [] else [''allowedCategoryKeys''])
     @ (if pu_deniedCategoryKeys u = None then [] else [''deniedCategoryKeys''])
     @ (if pu_maxSensitivity u = None then [] else [''maxSensitivity''])
     @ (if pu_operations u = None then [] else [''operations''])
     @ (if pu_requiresConfirmation u = None then [] else [''requiresConfirmation''])
     @ (if pu_expiresAt u = None then [] else [''expiresAt''])"

definition updatePolicy ::
  "time \<Rightarrow> ident \<Rightarrow> ident \<Rightarrow> policy_update \<Rightarrow> vault \<Rightarrow> policy_response outcome" where
  "updatePolicy now userId i u db =
     (case owned_policy db userId i of
        None \<Rightarrow> (Inl (NotFound ''Policy not found''), db)
      | Some existing \<Rightarrow>
          (case assertExist db (or_keep (pu_allowedCategoryKeys u) [] @ or_keep (pu_deniedCategoryKeys u) []) of
             Inl e \<Rightarrow> (Inl e, db)
           | Inr _ \<Rightarrow>
               let db1 = write_policy now (p_id existing) (policy_toUpdateData db u) db;
                   updated = (policy_toUpdateData db u existing) \<lparr> p_updatedAt := now \<rparr>;
                   name = policy_clientName db updated
               in (Inr (toPolicyResponse updated name),
                   snd (createAuditEvent now
                     (client_event userId (Some (p_clientId updated)) audit_event_type.POLICY_UPDATED
                        (no_metadata \<lparr> am_policyId := Some (p_id updated),
                           am_policyLabel := Some (appPermissionsLabel name),
                           am_details := [(''changedFields'', JArr (map JStr (policy_changedFields u)))] \<rparr>))
                     db1))))"

text \<open>Deleting a policy nulls the reference of the requests and suggestions made under it.\<close>

definition drop_policy :: "ident \<Rightarrow> vault \<Rightarrow> vault" where
  "drop_policy i db =
     db \<lparr> v_policies := delete_where (\<lambda>p. p_id p = i) (v_policies db),
          v_requests := map (\<lambda>r. r \<lparr> r_policyId := forget (\<lambda>p. p = i) (r_policyId r) \<rparr>) (v_requests db),
          v_suggestions := map (\<lambda>s. s \<lparr> s_policyId := forget (\<lambda>p. p = i) (s_policyId s) \<rparr>) (v_suggestions db) \<rparr>"

definition deletePolicy :: "time \<Rightarrow> ident \<Rightarrow> ident \<Rightarrow> vault \<Rightarrow> policy_response outcome" where
  "deletePolicy now userId i db =
     (case owned_policy db userId i of
        None \<Rightarrow> (Inl (NotFound ''Policy not found''), db)
      | Some existing \<Rightarrow>
          let name = policy_clientName db existing
          in (Inr (toPolicyResponse existing name),
              snd (createAuditEvent now
                (client_event userId (Some (p_clientId existing)) audit_event_type.POLICY_DELETED
                   (no_metadata \<lparr> am_policyId := Some (p_id existing),
                      am_policyLabel := Some (appPermissionsLabel name) \<rparr>))
                (drop_policy (p_id existing) db))))"

definition restoreDefaults ::
  "string option \<Rightarrow> time \<Rightarrow> ident \<Rightarrow> ident \<Rightarrow> vault \<Rightarrow> policy_response outcome" where
  "restoreDefaults configured now userId clientId db =
     (case owned_client db userId clientId of
        None \<Rightarrow> (Inl (NotFound ''App not found''), db)
      | Some client \<Rightarrow>
          if \<not> isFirstPartyClient (c_name client) (c_type client)
          then (Inl (BadRequest ''This app has no first-party defaults''), db)
          else
            let d = (if c_name client = voiceClientName then voiceDefinition configured else webChatDefinition)
            in createPolicy now userId
                 \<lparr> pl_clientId = clientId, pl_allowedCategoryKeys = map cat_key (firstPartyCategories db),
                   pl_deniedCategoryKeys = [], pl_maxSensitivity = fp_maxSensitivity d,
                   pl_operations = fp_operations d, pl_requiresConfirmation = fp_requiresConfirmation d,
                   pl_expiresAt = None \<rparr> (Some d) db)"

section \<open>FirstPartyAccessService\<close>

definition access_event ::
  "ident \<Rightarrow> ident \<Rightarrow> audit_event_type \<Rightarrow> audit_actor_type \<Rightarrow> ident option \<Rightarrow> audit_metadata
     \<Rightarrow> audit_event_input" where
  "access_event userId clientId type actorType actorId md =
     \<lparr> ai_userId = userId, ai_clientId = Some clientId, ai_memoryRequestId = None, ai_type = type,
       ai_actorType = actorType, ai_actorId = actorId, ai_metadata = md, ai_subjects = [],
       ai_inferSubjects = True \<rparr>"

definition first_party_client :: "time \<Rightarrow> ident \<Rightarrow> first_party \<Rightarrow> ident \<Rightarrow> client" where
  "first_party_client now userId d i =
     \<lparr> c_id = i, c_userId = userId, c_name = fp_clientName d, c_type = client_type.WEB_APP,
       c_trustLevel = client_trust_level.APPROVED, c_declaredRetention = client_retention.NO_STORAGE,
       c_tokenHash = None, c_oauthRegistrationId = None, c_lastUsedAt = None, c_createdAt = now,
       c_updatedAt = now \<rparr>"

text \<open>The client's id, and whether it was created now.\<close>

definition ensureClient ::
  "time \<Rightarrow> ident \<Rightarrow> first_party \<Rightarrow> audit_actor_type \<Rightarrow> ident option \<Rightarrow> vault \<Rightarrow> (ident \<times> bool) outcome" where
  "ensureClient now userId d actorType actorId db =
     (case find_row (\<lambda>c. c_userId c = userId \<and> c_name c = fp_clientName d \<and> c_type c = client_type.WEB_APP)
             (v_clients db) of
        Some existing \<Rightarrow> (Inr (c_id existing, False), db)
      | None \<Rightarrow>
          let created = first_party_client now userId d (next_id db)
          in case insert_client created db of
               None \<Rightarrow> (Inl (Conflict ''A connected app uses this first-party name. Rename it in Apps & access before continuing.''), db)
             | Some db1 \<Rightarrow>
                 (Inr (c_id created, True),
                  snd (createAuditEvent now
                    (access_event userId (c_id created) audit_event_type.CLIENT_CREATED actorType actorId
                       (no_metadata \<lparr> am_clientId := Some (c_id created), am_clientName := Some (c_name created),
                          am_details := [(''trustLevel'', JStr (trust_name (c_trustLevel created))),
                            (''firstPartyDefault'', JStr (fp_default d))] \<rparr>)) db1)))"

definition first_party_policy :: "time \<Rightarrow> ident \<Rightarrow> ident \<Rightarrow> first_party \<Rightarrow> vault \<Rightarrow> policy" where
  "first_party_policy now userId clientId d db =
     \<lparr> p_id = next_id db, p_maxSensitivity = fp_maxSensitivity d, p_operations = fp_operations d,
       p_requiresConfirmation = fp_requiresConfirmation d, p_expiresAt = None,
       p_allowedCategories = firstPartyCategories db, p_deniedCategories = [],
       p_userId = userId, p_clientId = clientId, p_createdAt = now, p_updatedAt = now \<rparr>"

definition ensurePolicy ::
  "time \<Rightarrow> ident \<Rightarrow> ident \<Rightarrow> bool \<Rightarrow> first_party \<Rightarrow> audit_actor_type \<Rightarrow> ident option \<Rightarrow> vault
     \<Rightarrow> ident option outcome" where
  "ensurePolicy now userId clientId createDefault d actorType actorId db =
     (case find_row (\<lambda>p. p_userId p = userId \<and> p_clientId p = clientId) (v_policies db) of
        Some existing \<Rightarrow> (Inr (Some (p_id existing)), db)
      | None \<Rightarrow>
          if \<not> createDefault then (Inr None, db)
          else
            let created = first_party_policy now userId clientId d db
            in case insert_policy created db of
                 None \<Rightarrow> (Inl (Internal ''P2002''), db)
               | Some db1 \<Rightarrow>
                   (Inr (Some (p_id created)),
                    snd (createAuditEvent now
                      (access_event userId clientId audit_event_type.POLICY_CREATED actorType actorId
                         (no_metadata \<lparr> am_policyId := Some (p_id created), am_clientId := Some clientId,
                            am_details := firstPartyPolicyFacts d (length (firstPartyCategories db)) \<rparr>)) db1)))"

definition ensureAccess ::
  "time \<Rightarrow> ident \<Rightarrow> first_party \<Rightarrow> audit_actor_type \<Rightarrow> ident option \<Rightarrow> vault
     \<Rightarrow> (ident \<times> ident option) outcome" where
  "ensureAccess now userId d actorType actorId db =
     (case ensureClient now userId d actorType actorId db of
        (Inl e, _) \<Rightarrow> (Inl e, db)
      | (Inr (clientId, created), db1) \<Rightarrow>
          (case ensurePolicy now userId clientId created d actorType actorId db1 of
             (Inl e, _) \<Rightarrow> (Inl e, db)
           | (Inr policyId, db2) \<Rightarrow> (Inr (clientId, policyId), db2)))"

definition ensureWebChatAccess ::
  "time \<Rightarrow> ident \<Rightarrow> audit_actor_type \<Rightarrow> ident option \<Rightarrow> vault \<Rightarrow> (ident \<times> ident option) outcome" where
  "ensureWebChatAccess now userId actorType actorId db = ensureAccess now userId webChatDefinition actorType actorId db"

definition ensureVoiceAccess ::
  "string option \<Rightarrow> time \<Rightarrow> ident \<Rightarrow> audit_actor_type \<Rightarrow> ident option \<Rightarrow> vault
     \<Rightarrow> (ident \<times> ident option) outcome" where
  "ensureVoiceAccess configured now userId actorType actorId db =
     ensureAccess now userId (voiceDefinition configured) actorType actorId db"


section \<open>Every app has at most one policy, of its owner\<close>

definition policies_wf :: "vault \<Rightarrow> bool" where
  "policies_wf db = (distinct (map p_clientId (v_policies db))
     \<and> (\<forall>p\<in>set (v_policies db). \<exists>c\<in>set (v_clients db). c_id c = p_clientId p \<and> c_userId c = p_userId p))"

text \<open>The constraint reads the owner columns of the two tables only.\<close>

lemma policies_wf_cong:
  assumes "map (\<lambda>p. (p_clientId p, p_userId p)) (v_policies db') = map (\<lambda>p. (p_clientId p, p_userId p)) (v_policies db)"
    and "\<And>i u. (\<exists>c\<in>set (v_clients db). c_id c = i \<and> c_userId c = u) \<Longrightarrow> \<exists>c\<in>set (v_clients db'). c_id c = i \<and> c_userId c = u"
    and "policies_wf db"
  shows "policies_wf db'"
proof -
  have "map p_clientId (v_policies db') = map p_clientId (v_policies db)"
    using arg_cong[OF assms(1), of "map fst"] by (simp add: comp_def)
  moreover have "\<exists>q\<in>set (v_policies db). p_clientId q = p_clientId p \<and> p_userId q = p_userId p"
    if "p \<in> set (v_policies db')" for p
  proof -
    have "(p_clientId p, p_userId p) \<in> set (map (\<lambda>p. (p_clientId p, p_userId p)) (v_policies db'))" using that by force
    then show ?thesis unfolding assms(1) by auto
  qed
  ultimately show ?thesis using assms(2,3) unfolding policies_wf_def by metis
qed

lemma policies_wf_insert:
  assumes "policies_wf db" "insert_policy p db = Some db'"
    and "\<exists>c\<in>set (v_clients db). c_id c = p_clientId p \<and> c_userId c = p_userId p"
  shows "policies_wf db'"
proof -
  have "v_policies db' = v_policies db @ [p]" "v_clients db' = v_clients db"
    "p_clientId p \<notin> p_clientId ` set (v_policies db)"
    using assms(2) by (auto simp: insert_policy_def draw_id_def list_ex_iff split: if_splits)
  then show ?thesis using assms(1,3) by (auto simp: policies_wf_def)
qed

lemma policies_wf_delete:
  "policies_wf db \<Longrightarrow> v_policies db' = delete_where P (v_policies db) \<Longrightarrow> v_clients db' = v_clients db \<Longrightarrow> policies_wf db'"
  by (auto simp: policies_wf_def delete_where_def distinct_map inj_on_def)

lemma policies_wf_event [simp]: "policies_wf (snd (createAuditEvent now inp db)) = policies_wf db"
  by (simp add: policies_wf_def audit_simps)

lemma owned_client_row:
  "owned_client db u i = Some c \<Longrightarrow> c \<in> set (v_clients db) \<and> c_id c = i \<and> c_userId c = u"
  by (auto simp: owned_client_def dest: find_row_SomeD)

lemma owned_policy_row:
  "owned_policy db u i = Some p \<Longrightarrow> p \<in> set (v_policies db) \<and> p_id p = i \<and> p_userId p = u"
  by (auto simp: owned_policy_def dest: find_row_SomeD)

lemma policies_wf_createPolicy:
  assumes "policies_wf db"
  shows "policies_wf (snd (createPolicy now u inp d db))"
proof -
  have "policies_wf db'" if "owned_client db u (pl_clientId inp) = Some c"
    "insert_policy (new_policy now u inp db) db = Some db'" for c db'
    using policies_wf_insert[OF assms that(2)] owned_client_row[OF that(1)]
    by (auto simp: new_policy_def)
  then show ?thesis
    using assms by (auto simp: createPolicy_def Let_def split: option.split sum.split)
qed

lemma policy_toUpdateData_keys [simp]:
  "p_id (policy_toUpdateData db u p) = p_id p" "p_clientId (policy_toUpdateData db u p) = p_clientId p"
  "p_userId (policy_toUpdateData db u p) = p_userId p"
  by (simp_all add: policy_toUpdateData_def)

lemma policies_wf_write:
  assumes "policies_wf db" "\<And>p. p_clientId (f p) = p_clientId p" "\<And>p. p_userId (f p) = p_userId p"
  shows "policies_wf (write_policy now i f db)"
  by (rule policies_wf_cong[OF _ _ assms(1)]) (auto simp: write_policy_def assms(2,3) map_update_where)

lemma policies_wf_updatePolicy: "policies_wf db \<Longrightarrow> policies_wf (snd (updatePolicy now u i up db))"
  by (auto simp: updatePolicy_def Let_def policies_wf_write split: option.split sum.split)

lemma policies_wf_deletePolicy: "policies_wf db \<Longrightarrow> policies_wf (snd (deletePolicy now u i db))"
  by (auto simp: deletePolicy_def Let_def drop_policy_def intro: policies_wf_delete split: option.split)

lemma policies_wf_ensureClient:
  assumes "policies_wf db" "ensureClient now u d ty act db = (Inr (i, b), db1)"
  shows "policies_wf db1 \<and> (\<exists>c\<in>set (v_clients db1). c_id c = i \<and> c_userId c = u)"
proof (cases "find_row (\<lambda>c. c_userId c = u \<and> c_name c = fp_clientName d \<and> c_type c = client_type.WEB_APP)
    (v_clients db)")
  case (Some c)
  then show ?thesis using assms find_row_SomeD[OF Some] by (auto simp: ensureClient_def)
next
  case None
  then obtain db2 where db2: "insert_client (first_party_client now u d (next_id db)) db = Some db2"
    "i = next_id db" "db1 = snd (createAuditEvent now
        (access_event u i audit_event_type.CLIENT_CREATED ty act
           (no_metadata \<lparr> am_clientId := Some i, am_clientName := Some (fp_clientName d),
              am_details := [(''trustLevel'', JStr (trust_name client_trust_level.APPROVED)),
                (''firstPartyDefault'', JStr (fp_default d))] \<rparr>)) db2)"
    using assms(2) by (auto simp: ensureClient_def Let_def first_party_client_def split: option.splits)
  have "v_policies db2 = v_policies db" using db2(1) by (auto simp: insert_client_def draw_id_def split: if_splits)
  then show ?thesis
    using assms(1) insert_client_Some[OF db2(1)]
    by (auto simp: db2(2,3) policies_wf_def audit_simps first_party_client_def)
qed

lemma policies_wf_ensureAccess:
  assumes "policies_wf db"
  shows "policies_wf (snd (ensureAccess now u d ty act db))"
proof (cases "ensureClient now u d ty act db")
  case (Pair r db1)
  show ?thesis
  proof (cases r)
    case (Inr x)
    obtain i b where x: "x = (i, b)" by fastforce
    have ok: "policies_wf db1" "\<exists>c\<in>set (v_clients db1). c_id c = i \<and> c_userId c = u"
      using policies_wf_ensureClient[OF assms, of now u d ty act i b db1] Pair Inr x by auto
    have "policies_wf (snd (ensurePolicy now u i b d ty act db1))"
      using ok policies_wf_insert[OF ok(1), of "first_party_policy now u i d db1"]
      by (auto simp: ensurePolicy_def Let_def first_party_policy_def split: option.split)
    then show ?thesis using assms Pair Inr x
      by (auto simp: ensureAccess_def split: prod.split sum.split)
  qed (use assms Pair in \<open>simp add: ensureAccess_def\<close>)
qed

lemma policies_wf_deleteClient:
  assumes "policies_wf db" "distinct (map c_id (v_clients db))"
  shows "policies_wf (snd (deleteClient now u i db))"
proof -
  have drop: "policies_wf (drop_client k d)" if "v_policies d = v_policies db" "v_clients d = v_clients db" for k d
    using assms(1) that unfolding policies_wf_def
    by (auto simp: drop_client_def Let_def delete_where_def distinct_map inj_on_def) metis
  show ?thesis
    using assms(1) by (auto simp: deleteClient_def Let_def token_simps intro!: drop split: option.split)
qed

lemma policies_wf_updateClient:
  assumes "policies_wf db"
  shows "policies_wf (snd (updateClient env now tk u i up db))"
proof (rule policies_wf_cong[OF _ _ assms])
  have pol: "v_policies d = v_policies db" if "write_client now k f db = Some d" for k f d
    using that by (auto simp: write_client_def split: if_splits)
  show "map (\<lambda>p. (p_clientId p, p_userId p)) (v_policies (snd (updateClient env now tk u i up db)))
      = map (\<lambda>p. (p_clientId p, p_userId p)) (v_policies db)"
    by (auto simp: updateClient_def Let_def audit_simps token_simps dest!: pol split: option.split)
  have "map (\<lambda>c. (c_id c, c_userId c)) (v_clients (snd (updateClient env now tk u i up db)))
      = map (\<lambda>c. (c_id c, c_userId c)) (v_clients db)"
    by (auto simp: clients_updateClient write_client_def map_update_where split: option.split)
  from arg_cong[OF this, of set]
  show "\<exists>c\<in>set (v_clients (snd (updateClient env now tk u i up db))). c_id c = k \<and> c_userId c = w"
    if "\<exists>c\<in>set (v_clients db). c_id c = k \<and> c_userId c = w" for k w
    using that by (auto simp: set_eq_iff image_iff) metis
qed



section \<open>What is granted governs\<close>

lemma set_by_name [simp]: "set (by_name cs) = set cs"
  by (simp add: by_name_def)

lemma assertExist_Inr: "assertExist db keys = Inr x \<Longrightarrow> set keys \<subseteq> cat_key ` set (v_categories db)"
  using set_js_unique[of keys]
  by (auto simp: assertExist_def Let_def filter_empty_conv simp del: set_js_unique split: if_splits)

lemma keys_toCategoryConnect:
  assumes "set keys \<subseteq> cat_key ` set (v_categories db)"
  shows "cat_key ` set (toCategoryConnect db keys) = set keys"
proof
  show "cat_key ` set (toCategoryConnect db keys) \<subseteq> set keys"
    by (auto simp: toCategoryConnect_def mem_map_filter dest!: find_row_SomeD)
  show "set keys \<subseteq> cat_key ` set (toCategoryConnect db keys)"
  proof
    fix k assume k: "k \<in> set keys"
    then obtain c where "find_row (\<lambda>c. cat_key c = k) (v_categories db) = Some c"
      using assms find_row_None_iff[of "\<lambda>c. cat_key c = k" "v_categories db"] by fastforce
    with k show "k \<in> cat_key ` set (toCategoryConnect db keys)"
      by (force simp: toCategoryConnect_def mem_map_filter image_iff dest: find_row_SomeD)
  qed
qed

text \<open>A created policy is the one that governs: read back through its client it has the requested
  ceiling, operations, confirmation and expiry, and exactly the requested categories.\<close>

theorem created_policy_governs:
  assumes "createPolicy now u inp d db = (Inr r, db')"
  shows "\<exists>c p. owned_client db' u (pl_clientId inp) = Some c \<and> client_policy db' c = Some p
    \<and> po_id r = p_id p \<and> p_maxSensitivity p = pl_maxSensitivity inp
    \<and> p_operations p = pl_operations inp \<and> p_requiresConfirmation p = pl_requiresConfirmation inp
    \<and> p_expiresAt p = pl_expiresAt inp \<and> p_updatedAt p = now
    \<and> cat_key ` set (p_allowedCategories p) = set (pl_allowedCategoryKeys inp)
    \<and> cat_key ` set (p_deniedCategories p) = set (pl_deniedCategoryKeys inp)"
proof -
  let ?p = "new_policy now u inp db"
  obtain c where c: "owned_client db u (pl_clientId inp) = Some c"
    using assms by (auto simp: createPolicy_def split: option.splits)
  obtain x where x: "assertExist db (pl_allowedCategoryKeys inp @ pl_deniedCategoryKeys inp) = Inr x"
    using assms c by (auto simp: createPolicy_def split: sum.splits)
  obtain db1 where db1: "insert_policy ?p db = Some db1"
    using assms c x by (auto simp: createPolicy_def Let_def split: option.splits)
  then have rows: "v_policies db1 = v_policies db @ [?p]" "v_clients db1 = v_clients db"
    and fresh: "\<not> list_ex (\<lambda>q. p_clientId q = p_clientId ?p) (v_policies db)"
    by (auto simp: insert_policy_def draw_id_def split: if_splits)
  have db': "v_policies db' = v_policies db @ [?p]" "v_clients db' = v_clients db"
    and r: "po_id r = p_id ?p"
    using assms c x db1 rows by (auto simp: createPolicy_def Let_def audit_simps toPolicyResponse_def)
  have own: "owned_client db' u (pl_clientId inp) = Some c" using c db' by (simp add: owned_client_def)
  have "find_row (\<lambda>q. p_clientId q = c_id c \<and> p_userId q = c_userId c) (v_policies db) = None"
    using fresh owned_client_row[OF c] by (auto simp: find_row_None_iff list_ex_iff new_policy_def)
  then have "client_policy db' c = Some ?p"
    using owned_client_row[OF c] by (simp add: client_policy_def db' find_row_append new_policy_def)
  moreover have "set (pl_allowedCategoryKeys inp) \<subseteq> cat_key ` set (v_categories db)"
    "set (pl_deniedCategoryKeys inp) \<subseteq> cat_key ` set (v_categories db)"
    using assertExist_Inr[OF x] by auto
  ultimately show ?thesis
    using own r by (intro exI[of _ c] exI[of _ ?p]) (simp add: new_policy_def keys_toCategoryConnect)
qed

lemma created_policy_governs_witness:
  "\<exists>r db' c p. createPolicy 5 ''u1''
      \<lparr> pl_clientId = ''c1'', pl_allowedCategoryKeys = [''work''], pl_deniedCategoryKeys = [],
        pl_maxSensitivity = memory_sensitivity.LOW, pl_operations = [policy_operation.READ],
        pl_requiresConfirmation = True, pl_expiresAt = None \<rparr> None (sample_vault \<lparr> v_policies := [] \<rparr>) = (Inr r, db')
    \<and> owned_client db' ''u1'' ''c1'' = Some c \<and> client_policy db' c = Some p
    \<and> p_maxSensitivity p = memory_sensitivity.LOW \<and> cat_key ` set (p_allowedCategories p) = {''work''}"
proof -
  let ?inp = "\<lparr> pl_clientId = ''c1'', pl_allowedCategoryKeys = [''work''], pl_deniedCategoryKeys = [],
        pl_maxSensitivity = memory_sensitivity.LOW, pl_operations = [policy_operation.READ],
        pl_requiresConfirmation = True, pl_expiresAt = None \<rparr>"
  let ?x = "createPolicy 5 ''u1'' ?inp None (sample_vault \<lparr> v_policies := [] \<rparr>)"
  have "\<not> isl (fst ?x)" by code_simp
  then obtain r where r: "?x = (Inr r, snd ?x)" using outcome_ok by blast
  from created_policy_governs[OF r] obtain c p where
    "owned_client (snd ?x) ''u1'' ''c1'' = Some c" "client_policy (snd ?x) c = Some p"
    "p_maxSensitivity p = memory_sensitivity.LOW" "cat_key ` set (p_allowedCategories p) = {''work''}" by auto
  with r show ?thesis by blast
qed


section \<open>First-party access is idempotent\<close>

lemma ensureClient_again:
  assumes "ensureClient now u d ty act db = (Inr (i, b), db1)"
  shows "ensureClient later u d ty' act' db1 = (Inr (i, False), db1)
    \<and> v_policies db1 = v_policies db"
proof (cases "find_row (\<lambda>c. c_userId c = u \<and> c_name c = fp_clientName d \<and> c_type c = client_type.WEB_APP)
    (v_clients db)")
  case (Some c)
  then show ?thesis using assms by (auto simp: ensureClient_def)
next
  case None
  then obtain db2 where db2: "insert_client (first_party_client now u d (next_id db)) db = Some db2"
    "i = next_id db" and db1: "v_clients db1 = v_clients db2" "v_policies db1 = v_policies db2"
    using assms by (auto simp: ensureClient_def Let_def first_party_client_def audit_simps split: option.splits)
  have "v_clients db2 = v_clients db @ [first_party_client now u d i]" "v_policies db2 = v_policies db"
    using db2 by (auto simp: insert_client_def draw_id_def split: if_splits)
  with None show ?thesis
    by (simp add: ensureClient_def db1 find_row_append first_party_client_def)
qed

lemma ensurePolicy_again:
  assumes "ensurePolicy now u i b d ty act db = (Inr r, db1)"
  shows "ensurePolicy later u i False d ty' act' db1 = (Inr r, db1) \<and> v_clients db1 = v_clients db"
proof (cases "find_row (\<lambda>p. p_userId p = u \<and> p_clientId p = i) (v_policies db)")
  case (Some p)
  then show ?thesis using assms by (auto simp: ensurePolicy_def)
next
  case None
  show ?thesis
  proof (cases b)
    case False
    then show ?thesis using assms None by (auto simp: ensurePolicy_def)
  next
    case True
    let ?p = "first_party_policy now u i d db"
    obtain db2 where db2: "insert_policy ?p db = Some db2" "r = Some (p_id ?p)"
      and db1: "v_policies db1 = v_policies db2" "v_clients db1 = v_clients db2"
      using assms None True by (auto simp: ensurePolicy_def Let_def audit_simps split: option.splits)
    have "v_policies db2 = v_policies db @ [?p]" "v_clients db2 = v_clients db"
      using db2(1) by (auto simp: insert_policy_def draw_id_def split: if_splits)
    with None show ?thesis
      by (simp add: ensurePolicy_def db1 find_row_append) (simp add: first_party_policy_def db2(2))
  qed
qed

text \<open>Ensuring a first-party app is idempotent: asked again it returns the same client and policy
  and writes nothing, whoever asks and whenever.\<close>

theorem first_party_access_idempotent:
  assumes "ensureAccess now u d ty act db = (Inr x, db')"
  shows "ensureAccess later u d ty' act' db' = (Inr x, db')"
proof -
  obtain i b db1 where c: "ensureClient now u d ty act db = (Inr (i, b), db1)"
    using assms by (auto simp: ensureAccess_def split: prod.splits sum.splits)
  obtain r where p: "ensurePolicy now u i b d ty act db1 = (Inr r, db')" "x = (i, r)"
    using assms c by (auto simp: ensureAccess_def split: prod.splits sum.splits)
  have "ensureClient later u d ty' act' db' = (Inr (i, False), db')"
    using ensureClient_again[OF c, of later ty' act'] ensurePolicy_again[OF p(1)]
    by (auto simp: ensureClient_def Let_def split: option.splits)
  then show ?thesis
    using ensurePolicy_again[OF p(1), of later ty' act'] p(2) by (simp add: ensureAccess_def)
qed

lemma first_party_access_idempotent_witness:
  "\<exists>x db'. ensureAccess 5 ''u1'' webChatDefinition audit_actor_type.SYSTEM None sample_vault = (Inr x, db')
     \<and> ensureAccess 9 ''u1'' webChatDefinition audit_actor_type.USER (Some ''u1'') db' = (Inr x, db')"
proof -
  let ?x = "ensureAccess 5 ''u1'' webChatDefinition audit_actor_type.SYSTEM None sample_vault"
  have "\<not> isl (fst ?x)" by code_simp
  then obtain r where "?x = (Inr r, snd ?x)" using outcome_ok by blast
  from this first_party_access_idempotent[OF this] show ?thesis by blast
qed

end
