(* ===== verification/OAuthGrants.thy ===== *)
theory OAuthGrants
  imports OAuthExchange Policies
begin

text \<open>
  How a connector comes to hold a grant: dynamic registration (\<open>oauth-clients-store.service.ts\<close>),
  the permissions a consent gives (\<open>oauth-permissions.ts\<close>), and the owner's decision on an
  authorization request (\<open>oauth-grants.service.ts\<close>).  A decision reads and checks the request, then
  commits in a transaction that does not read it again; the two parts are \<open>loadPendingRequest\<close> and
  \<open>commit_approval\<close>.  The URL parser is a parameter: \<open>host\<close> and \<open>origin\<close> of a redirect URI.
\<close>

section \<open>Registration\<close>

text \<open>The parts of a parsed URL that are looked at.\<close>

record url_parts =
  up_protocol :: string
  up_hostname :: string
  up_host :: string
  up_origin :: string

definition isAllowedRedirectUri :: "(string \<Rightarrow> url_parts option) \<Rightarrow> string \<Rightarrow> bool" where
  "isAllowedRedirectUri parse value =
     (case parse value of
        None \<Rightarrow> False
      | Some url \<Rightarrow>
          up_protocol url = ''https:''
          \<or> (up_protocol url = ''http:''
              \<and> up_hostname url \<in> {''localhost'', ''127.0.0.1'', ''[::1]''}))"

text \<open>\<open>OAuthClientInformationFull\<close>, the fields the store reads.\<close>

record client_information =
  oi_client_id :: ident
  oi_client_name :: "string option"
  oi_redirect_uris :: "string list"
  oi_scope :: "string option"
  oi_client_uri :: "string option"
  oi_logo_uri :: "string option"
  oi_contacts :: "string list option"
  oi_software_id :: "string option"
  oi_software_version :: "string option"
  oi_client_id_issued_at :: "int option"
  oi_token_endpoint_auth_method :: "string option"
  oi_grant_types :: "string list"
  oi_response_types :: "string list"

definition toClientInformation :: "oauth_registration \<Rightarrow> client_information" where
  "toClientInformation g =
     \<lparr> oi_client_id = g_clientId g, oi_client_name = Some (g_name g),
       oi_redirect_uris = g_redirectUris g, oi_scope = g_scope g, oi_client_uri = g_clientUri g,
       oi_logo_uri = g_logoUri g,
       oi_contacts = (if g_contacts g \<noteq> [] then Some (g_contacts g) else None),
       oi_software_id = None, oi_software_version = None,
       oi_client_id_issued_at = Some (g_createdAt g div 1000),
       oi_token_endpoint_auth_method = Some (g_tokenEndpointAuthMethod g),
       oi_grant_types = g_grantTypes g, oi_response_types = [''code''] \<rparr>"

definition getClient :: "vault \<Rightarrow> ident \<Rightarrow> client_information option" where
  "getClient db clientId =
     (case find_row (\<lambda>g. g_clientId g = clientId) (v_registrations db) of
        None \<Rightarrow> None
      | Some g \<Rightarrow>
          if g_status g = oauth_registration_status.BLOCKED then None else Some (toClientInformation g))"

definition registration_name :: "client_information \<Rightarrow> string" where
  "registration_name c =
     (let trimmed = (case oi_client_name c of Some n \<Rightarrow> js_trim n | None \<Rightarrow> [])
      in if trimmed \<noteq> [] then trimmed else ''MCP connector '' @ take 8 (oi_client_id c))"

definition new_registration :: "time \<Rightarrow> client_information \<Rightarrow> ident \<Rightarrow> oauth_registration" where
  "new_registration now c i =
     \<lparr> g_id = i, g_clientId = oi_client_id c, g_name = registration_name c,
       g_redirectUris = oi_redirect_uris c, g_tokenEndpointAuthMethod = ''none'',
       g_grantTypes = [''authorization_code'', ''refresh_token''], g_scope = oi_scope c,
       g_clientUri = oi_client_uri c, g_logoUri = oi_logo_uri c,
       g_contacts = (case oi_contacts c of Some cs \<Rightarrow> cs | None \<Rightarrow> []),
       g_status = oauth_registration_status.PENDING,
       g_metadata = [(''softwareId'', json_opt (oi_software_id c)),
         (''softwareVersion'', json_opt (oi_software_version c))],
       g_createdAt = now \<rparr>"

definition registerClient ::
  "oauth_env \<Rightarrow> (string \<Rightarrow> url_parts option) \<Rightarrow> time \<Rightarrow> client_information \<Rightarrow> vault
     \<Rightarrow> client_information outcome" where
  "registerClient env parse now c db =
     (if \<not> list_all (isAllowedRedirectUri parse) (oi_redirect_uris c)
      then (Inl (InvalidClientMetadata ''redirect_uris must use https or a loopback http address''), db)
      else
        let pending = count_where (\<lambda>g. g_status g = oauth_registration_status.PENDING) (v_registrations db)
        in if pending \<ge> oauthMaxPendingRegistrations env
           then (Inl (InvalidClientMetadata ''Registration is temporarily unavailable''), db)
           else if list_ex (\<lambda>g. g_clientId g = oi_client_id c) (v_registrations db)
           then (Inl (Internal ''P2002''), db)
           else
             let g = new_registration now c (next_id db)
             in (Inr (toClientInformation g), draw_id db \<lparr> v_registrations := v_registrations db @ [g] \<rparr>))"

section \<open>The permissions of a consent\<close>

definition defaultConnectorMaxSensitivity :: "oauth_env \<Rightarrow> memory_sensitivity" where
  "defaultConnectorMaxSensitivity env =
     configured_sensitivity (oe_connectorMaxSensitivity env) memory_sensitivity.INTERNAL"

definition scopesToOperations :: "string list \<Rightarrow> policy_operation list" where
  "scopesToOperations scopes =
     (if oauthScopeRead \<in> set scopes then [policy_operation.READ] else [])
     @ (if oauthScopeSuggest \<in> set scopes then [policy_operation.SUGGEST] else [])"

definition resultingOperations :: "policy_operation list \<Rightarrow> string list \<Rightarrow> policy_operation list" where
  "resultingOperations existing scopes = js_unique (existing @ scopesToOperations scopes)"

text \<open>\<open>consentClient\<close>: the client the owner already has for the connector; a blocked one is refused.\<close>

definition consentClient :: "vault \<Rightarrow> ident \<Rightarrow> ident \<Rightarrow> error + client option" where
  "consentClient db userId registrationId =
     (case find_row (\<lambda>c. c_userId c = userId \<and> c_oauthRegistrationId c = Some registrationId) (v_clients db) of
        None \<Rightarrow> Inr None
      | Some c \<Rightarrow>
          if c_trustLevel c = client_trust_level.BLOCKED
          then Inl (Forbidden ''This app is blocked. Unblock it in Apps & access before reconnecting.'')
          else Inr (Some c))"

section \<open>The consent screen\<close>

definition loadPendingRequest ::
  "oauth_env \<Rightarrow> time \<Rightarrow> vault \<Rightarrow> ident \<Rightarrow> string option \<Rightarrow> error + (oauth_request \<times> oauth_registration)" where
  "loadPendingRequest env now db requestId nonce =
     (case find_row (\<lambda>q. q_id q = requestId) (v_oauthRequests db) of
        None \<Rightarrow> Inl (NotFound ''Authorization request not found'')
      | Some request \<Rightarrow>
          (case registration_by_id db (q_registrationId request) of
             None \<Rightarrow> Inl (NotFound ''Authorization request not found'')
           | Some registration \<Rightarrow>
               if g_status registration = oauth_registration_status.BLOCKED
               then Inl (NotFound ''Authorization request not found'')
               else if q_decidedAt request \<noteq> None
               then Inl (Conflict ''This authorization request was already decided'')
               else if q_expiresAt request \<le> now
               then Inl (BadRequest ''This authorization request has expired'')
               else if (case nonce of Some n \<Rightarrow> \<not> credentialMatchesHash env n (q_csrfTokenHash request) | None \<Rightarrow> False)
               then Inl (BadRequest ''Invalid consent nonce'')
               else Inr (request, registration)))"

record consent_context =
  cx_requestId :: ident
  cx_clientName :: string
  cx_clientUri :: "string option"
  cx_logoUri :: "string option"
  cx_redirectHost :: string
  cx_redirectOrigin :: string
  cx_scopes :: "string list"
  cx_registrationStatus :: oauth_registration_status
  cx_maxSensitivity :: memory_sensitivity
  cx_operations :: "policy_operation list"
  cx_createsPermissions :: bool
  cx_recreating :: bool
  cx_addedOperations :: "policy_operation list"
  cx_allowedCategories :: "ident list"
  cx_deniedCategories :: "ident list"
  cx_requiresConfirmation :: bool
  cx_expiresAt :: "time option"

text \<open>\<open>new URL(redirectUri)\<close> throws on a text that is not a URL.\<close>

definition getConsentContext ::
  "oauth_env \<Rightarrow> (string \<Rightarrow> url_parts option) \<Rightarrow> time \<Rightarrow> vault \<Rightarrow> ident \<Rightarrow> ident option
     \<Rightarrow> error + consent_context" where
  "getConsentContext env parse now db requestId userId =
     (case loadPendingRequest env now db requestId None of
        Inl e \<Rightarrow> Inl e
      | Inr (request, registration) \<Rightarrow>
          (case (if truthy userId then consentClient db (the userId) (q_registrationId request) else Inr None) of
             Inl e \<Rightarrow> Inl e
           | Inr client \<Rightarrow>
               (case parse (q_redirectUri request) of
                  None \<Rightarrow> Inl (Internal ''Invalid URL'')
                | Some url \<Rightarrow>
                    let policy = Option.bind client (client_policy db)
                    in Inr
                      \<lparr> cx_requestId = q_id request, cx_clientName = g_name registration,
                        cx_clientUri = g_clientUri registration, cx_logoUri = g_logoUri registration,
                        cx_redirectHost = up_host url, cx_redirectOrigin = up_origin url,
                        cx_scopes = q_scopes request, cx_registrationStatus = g_status registration,
                        cx_maxSensitivity = (case policy of Some p \<Rightarrow> p_maxSensitivity p
                          | None \<Rightarrow> defaultConnectorMaxSensitivity env),
                        cx_operations = resultingOperations
                          (case policy of Some p \<Rightarrow> p_operations p | None \<Rightarrow> []) (q_scopes request),
                        cx_createsPermissions = (policy = None),
                        cx_recreating = (client \<noteq> None \<and> policy = None),
                        cx_addedOperations = filter
                          (\<lambda>o'. case policy of Some p \<Rightarrow> o' \<notin> set (p_operations p) | None \<Rightarrow> True)
                          (scopesToOperations (q_scopes request)),
                        cx_allowedCategories = (case policy of Some p \<Rightarrow> map cat_key (p_allowedCategories p)
                          | None \<Rightarrow> if truthy userId then map cat_key (v_categories db) else []),
                        cx_deniedCategories = (case policy of Some p \<Rightarrow> map cat_key (p_deniedCategories p)
                          | None \<Rightarrow> []),
                        cx_requiresConfirmation = (case policy of Some p \<Rightarrow> p_requiresConfirmation p
                          | None \<Rightarrow> False),
                        cx_expiresAt = Option.bind policy p_expiresAt \<rparr>)))"

section \<open>Approval\<close>

definition grant_client ::
  "time \<Rightarrow> ident \<Rightarrow> string \<Rightarrow> ident \<Rightarrow> ident \<Rightarrow> client" where
  "grant_client now userId name registrationId i =
     \<lparr> c_id = i, c_userId = userId, c_name = name, c_type = client_type.MCP_CLIENT,
       c_trustLevel = client_trust_level.APPROVED, c_declaredRetention = client_retention.UNKNOWN,
       c_tokenHash = None, c_oauthRegistrationId = Some registrationId, c_lastUsedAt = None,
       c_createdAt = now, c_updatedAt = now \<rparr>"

definition approve_trust :: "client \<Rightarrow> client" where
  "approve_trust c = c \<lparr> c_trustLevel := client_trust_level.APPROVED \<rparr>"

text \<open>The error P2002 of any write in the transaction.\<close>

definition changed_during_approval :: error where
  "changed_during_approval =
     Conflict ''This app's permissions changed during approval. Start the connection again.''"

definition ensureGrantClient ::
  "time \<Rightarrow> ident \<Rightarrow> oauth_registration \<Rightarrow> vault \<Rightarrow> client outcome" where
  "ensureGrantClient now userId registration db =
     (case consentClient db userId (g_id registration) of
        Inl e \<Rightarrow> (Inl e, db)
      | Inr (Some existing) \<Rightarrow>
          if c_trustLevel existing \<noteq> client_trust_level.APPROVED
          then (case write_client now (c_id existing) approve_trust db of
                  None \<Rightarrow> (Inl changed_during_approval, db)
                | Some db1 \<Rightarrow> (Inr (touch_client now (approve_trust existing)), db1))
          else (Inr existing, db)
      | Inr None \<Rightarrow>
          let baseName = g_name registration;
              taken = list_ex (\<lambda>c. c_userId c = userId \<and> c_name c = baseName) (v_clients db);
              name = (if taken then baseName @ '' ('' @ take 8 (g_clientId registration) @ '')'' else baseName);
              created = grant_client now userId name (g_id registration) (next_id db)
          in case insert_client created db of
               None \<Rightarrow> (Inl changed_during_approval, db)
             | Some db1 \<Rightarrow>
                 (Inr created,
                  snd (createAuditEvent now
                    (client_event userId (Some (c_id created)) audit_event_type.CLIENT_CREATED
                       (no_metadata \<lparr> am_clientId := Some (c_id created), am_clientName := Some name,
                          am_details := [(''trustLevel'', JStr (trust_name (c_trustLevel created))),
                            (''oauthClientId'', JStr (g_clientId registration))] \<rparr>)) db1)))"

definition ops_json :: "policy_operation list \<Rightarrow> json" where
  "ops_json ops = JArr (map (\<lambda>o'. JStr (operation_name o')) ops)"

definition grant_policy :: "oauth_env \<Rightarrow> time \<Rightarrow> ident \<Rightarrow> ident \<Rightarrow> string list \<Rightarrow> vault \<Rightarrow> policy" where
  "grant_policy env now userId clientId scopes db =
     \<lparr> p_id = next_id db, p_maxSensitivity = defaultConnectorMaxSensitivity env,
       p_operations = scopesToOperations scopes, p_requiresConfirmation = False, p_expiresAt = None,
       p_allowedCategories = by_name (v_categories db), p_deniedCategories = [],
       p_userId = userId, p_clientId = clientId, p_createdAt = now, p_updatedAt = now \<rparr>"

definition ensureGrantPolicy ::
  "oauth_env \<Rightarrow> time \<Rightarrow> ident \<Rightarrow> client \<Rightarrow> string list \<Rightarrow> vault \<Rightarrow> ident outcome" where
  "ensureGrantPolicy env now userId client scopes db =
     (case find_row (\<lambda>p. p_userId p = userId \<and> p_clientId p = c_id client) (v_policies db) of
        Some existing \<Rightarrow>
          let merged = resultingOperations (p_operations existing) scopes
          in if length merged \<noteq> length (p_operations existing)
             then (Inr (p_id existing),
                   snd (createAuditEvent now
                     (client_event userId (Some (c_id client)) audit_event_type.POLICY_UPDATED
                        (no_metadata \<lparr> am_policyId := Some (p_id existing),
                           am_policyLabel := Some (appPermissionsLabel (Some (c_name client))),
                           am_details := [(''changedFields'', JArr [JStr ''operations'']),
                             (''previousOperations'', ops_json (p_operations existing)),
                             (''operations'', ops_json merged), (''oauthConsent'', JBool True)] \<rparr>))
                     (write_policy now (p_id existing) (\<lambda>p. p \<lparr> p_operations := merged \<rparr>) db)))
             else (Inr (p_id existing), db)
      | None \<Rightarrow>
          let created = grant_policy env now userId (c_id client) scopes db
          in case insert_policy created db of
               None \<Rightarrow> (Inl changed_during_approval, db)
             | Some db1 \<Rightarrow>
                 (Inr (p_id created),
                  snd (createAuditEvent now
                    (client_event userId (Some (c_id client)) audit_event_type.POLICY_CREATED
                       (no_metadata \<lparr> am_policyId := Some (p_id created), am_clientId := Some (c_id client),
                          am_policyLabel := Some (appPermissionsLabel (Some (c_name client))),
                          am_details :=
                            [(''maxSensitivity'', JStr (sensitivity_name (defaultConnectorMaxSensitivity env))),
                             (''operations'', ops_json (scopesToOperations scopes)),
                             (''requiresConfirmation'', JBool False),
                             (''allowedCategoryCount'', JNum (of_nat (length (v_categories db)))),
                             (''oauthGrant'', JBool True)] \<rparr>)) db1)))"

definition grant_code :: "oauth_env \<Rightarrow> time \<Rightarrow> string \<Rightarrow> ident \<Rightarrow> ident \<Rightarrow> oauth_request \<Rightarrow> ident \<Rightarrow> oauth_code" where
  "grant_code env now code userId clientId request i =
     \<lparr> k_id = i, k_registrationId = q_registrationId request, k_userId = userId, k_clientId = clientId,
       k_codeHash = oe_hash env code, k_redirectUri = q_redirectUri request,
       k_codeChallenge = q_codeChallenge request, k_scopes = q_scopes request,
       k_resource = q_resource request, k_expiresAt = now + oauthAuthorizationCodeTtlMs,
       k_consumedAt = None \<rparr>"

definition decide_request :: "time \<Rightarrow> ident \<Rightarrow> vault \<Rightarrow> vault" where
  "decide_request now i db =
     db \<lparr> v_oauthRequests := update_where (\<lambda>q. q_id q = i) (\<lambda>q. q \<lparr> q_decidedAt := Some now \<rparr>) (v_oauthRequests db) \<rparr>"

definition approve_registration :: "oauth_registration \<Rightarrow> vault \<Rightarrow> vault" where
  "approve_registration registration db =
     (if g_status registration = oauth_registration_status.PENDING
      then db \<lparr> v_registrations := update_where (\<lambda>g. g_id g = g_id registration)
             (\<lambda>g. g \<lparr> g_status := oauth_registration_status.APPROVED \<rparr>) (v_registrations db) \<rparr>
      else db)"

text \<open>The transaction of \<open>approve\<close>, on the request that was loaded before it.\<close>

definition commit_approval ::
  "oauth_env \<Rightarrow> (string \<Rightarrow> url_parts option) \<Rightarrow> time \<Rightarrow> string \<Rightarrow> ident \<Rightarrow> oauth_request \<Rightarrow> oauth_registration
     \<Rightarrow> vault \<Rightarrow> string outcome" where
  "commit_approval env parse now code userId request registration db =
     (case ensureGrantClient now userId registration db of
        (Inl e, _) \<Rightarrow> (Inl e, db)
      | (Inr client, db1) \<Rightarrow>
          (case ensureGrantPolicy env now userId client (q_scopes request) db1 of
             (Inl e, _) \<Rightarrow> (Inl e, db)
           | (Inr _, db2) \<Rightarrow>
               let db3 = approve_registration registration db2;
                   row = grant_code env now code userId (c_id client) request (next_id db3)
               in if list_ex (\<lambda>k. k_codeHash k = k_codeHash row) (v_codes db3)
                  then (Inl changed_during_approval, db)
                  else case parse (q_redirectUri request) of
                    None \<Rightarrow> (Inl (Internal ''Invalid URL''), db)
                  | Some url \<Rightarrow>
                      let db4 = decide_request now (q_id request) (draw_id db3 \<lparr> v_codes := v_codes db3 @ [row] \<rparr>);
                          db5 = snd (createAuditEvent now
                            (client_event userId (Some (c_id client)) audit_event_type.OAUTH_GRANT_APPROVED
                               (no_metadata \<lparr> am_clientName := Some (g_name registration),
                                  am_details := [(''oauthClientId'', JStr (g_clientId registration)),
                                    (''scopes'', JArr (map JStr (q_scopes request))),
                                    (''redirectHost'', JStr (up_host url))] \<rparr>)) db4)
                      in (Inr code, db5)))"

text \<open>What the redirect carries.\<close>

record consent_redirect =
  rd_redirectUri :: string
  rd_params :: "(string \<times> string) list"

definition state_param :: "oauth_request \<Rightarrow> (string \<times> string) list" where
  "state_param request = (if truthy (q_state request) then [(''state'', the (q_state request))] else [])"

definition approve ::
  "oauth_env \<Rightarrow> (string \<Rightarrow> url_parts option) \<Rightarrow> time \<Rightarrow> string \<Rightarrow> ident \<Rightarrow> ident \<Rightarrow> string \<Rightarrow> vault
     \<Rightarrow> consent_redirect outcome" where
  "approve env parse now code userId requestId nonce db =
     (case loadPendingRequest env now db requestId (Some nonce) of
        Inl e \<Rightarrow> (Inl e, db)
      | Inr (request, registration) \<Rightarrow>
          (case commit_approval env parse now code userId request registration db of
             (Inl e, db1) \<Rightarrow> (Inl e, db1)
           | (Inr code, db1) \<Rightarrow>
               (Inr \<lparr> rd_redirectUri = q_redirectUri request,
                      rd_params = (''code'', code) # state_param request \<rparr>, db1)))"

text \<open>\<open>deny\<close>\<close>

definition commit_denial ::
  "time \<Rightarrow> ident \<Rightarrow> oauth_request \<Rightarrow> oauth_registration \<Rightarrow> vault \<Rightarrow> vault" where
  "commit_denial now userId request registration db =
     snd (createAuditEvent now
       (client_event userId None audit_event_type.OAUTH_GRANT_DENIED
          (no_metadata \<lparr> am_clientName := Some (g_name registration),
             am_details := [(''oauthClientId'', JStr (g_clientId registration)),
               (''scopes'', JArr (map JStr (q_scopes request)))] \<rparr>))
       (decide_request now (q_id request) db))"

definition deny ::
  "oauth_env \<Rightarrow> (string \<Rightarrow> url_parts option) \<Rightarrow> time \<Rightarrow> ident \<Rightarrow> ident \<Rightarrow> string \<Rightarrow> vault
     \<Rightarrow> consent_redirect outcome" where
  "deny env parse now userId requestId nonce db =
     (case loadPendingRequest env now db requestId (Some nonce) of
        Inl e \<Rightarrow> (Inl e, db)
      | Inr (request, registration) \<Rightarrow>
          (let db1 = commit_denial now userId request registration db
           in case parse (q_redirectUri request) of
                None \<Rightarrow> (Inl (Internal ''Invalid URL''), db1)
              | Some _ \<Rightarrow>
                  (Inr \<lparr> rd_redirectUri = q_redirectUri request,
                         rd_params = [(''error'', ''access_denied''),
                           (''error_description'', ''The user denied access'')] @ state_param request \<rparr>, db1)))"


section \<open>The parts of an approval\<close>

lemma loadPendingRequest_Inr:
  assumes "loadPendingRequest env now db i nonce = Inr (request, registration)"
  shows "find_row (\<lambda>q. q_id q = i) (v_oauthRequests db) = Some request" "q_id request = i"
    "registration_by_id db (q_registrationId request) = Some registration"
    "g_id registration = q_registrationId request"
    "g_status registration \<noteq> oauth_registration_status.BLOCKED" "q_decidedAt request = None"
    "now < q_expiresAt request"
    "nonce = Some n \<Longrightarrow> oe_hash env n = q_csrfTokenHash request"
proof -
  show f: "find_row (\<lambda>q. q_id q = i) (v_oauthRequests db) = Some request"
    and g: "registration_by_id db (q_registrationId request) = Some registration"
    and "g_status registration \<noteq> oauth_registration_status.BLOCKED" "q_decidedAt request = None"
    "now < q_expiresAt request"
    using assms by (auto simp: loadPendingRequest_def split: option.splits if_splits)
  show "q_id request = i" using find_row_SomeD[OF f] by simp
  show "g_id registration = q_registrationId request"
    using g by (auto simp: registration_by_id_def dest: find_row_SomeD)
  show "nonce = Some n \<Longrightarrow> oe_hash env n = q_csrfTokenHash request"
    using assms by (auto simp: loadPendingRequest_def credentialMatchesHash_def Let_def split: option.splits if_splits)
qed

text \<open>The client of a grant: the one found or a new one, approved, and nothing else of the grant's
  tables changed.\<close>

lemma insert_client_frame:
  assumes "insert_client c db = Some db1"
  shows "v_policies db1 = v_policies db" "v_codes db1 = v_codes db" "v_registrations db1 = v_registrations db"
    "v_oauthRequests db1 = v_oauthRequests db" "v_tokens db1 = v_tokens db" "v_categories db1 = v_categories db"
  using assms by (auto simp: insert_client_def draw_id_def split: if_splits)

lemma write_client_frame:
  assumes "write_client now i f db = Some db1"
  shows "v_policies db1 = v_policies db" "v_codes db1 = v_codes db" "v_registrations db1 = v_registrations db"
    "v_oauthRequests db1 = v_oauthRequests db" "v_tokens db1 = v_tokens db" "v_categories db1 = v_categories db"
    "v_clients db1 = update_where (\<lambda>c. c_id c = i) (\<lambda>c. touch_client now (f c)) (v_clients db)"
  using assms by (auto simp: write_client_def split: if_splits)

lemma ensureGrantClient_cases:
  assumes "ensureGrantClient now u reg db = (Inr client, db1)"
  obtains (found) "consentClient db u (g_id reg) = Inr (Some client)" "db1 = db"
      "c_trustLevel client = client_trust_level.APPROVED"
    | (promoted) existing where "consentClient db u (g_id reg) = Inr (Some existing)"
      "write_client now (c_id existing) approve_trust db = Some db1"
      "client = touch_client now (approve_trust existing)"
    | (created) name db2 where "consentClient db u (g_id reg) = Inr None"
      "client = grant_client now u name (g_id reg) (next_id db)" "insert_client client db = Some db2"
      "\<exists>inp. db1 = snd (createAuditEvent now inp db2)"
  using assms
  by (auto simp: ensureGrantClient_def Let_def split: sum.splits option.splits if_splits)

lemma consentClient_Some:
  "consentClient db u g = Inr (Some c) \<Longrightarrow>
     c \<in> set (v_clients db) \<and> c_userId c = u \<and> c_oauthRegistrationId c = Some g"
  by (auto simp: consentClient_def split: option.splits if_splits dest: find_row_SomeD)

lemma ensureGrantClient_frame:
  assumes "ensureGrantClient now u reg db = (Inr client, db1)"
  shows "v_policies db1 = v_policies db \<and> v_codes db1 = v_codes db \<and> v_registrations db1 = v_registrations db
    \<and> v_oauthRequests db1 = v_oauthRequests db \<and> v_tokens db1 = v_tokens db \<and> v_categories db1 = v_categories db"
  using assms
  by (cases rule: ensureGrantClient_cases)
    (auto simp: audit_simps insert_client_frame write_client_frame)

lemma ensureGrantClient_client:
  assumes "ensureGrantClient now u reg db = (Inr client, db1)"
    and "clients_wf (v_clients db)" "next_id db \<notin> c_id ` set (v_clients db)"
  shows "clients_wf (v_clients db1)" "client_by_id db1 (c_id client) = Some client" "c_userId client = u"
    "c_trustLevel client = client_trust_level.APPROVED"
proof -
  have "clients_wf (v_clients db1) \<and> client \<in> set (v_clients db1) \<and> c_userId client = u
      \<and> c_trustLevel client = client_trust_level.APPROVED"
    using assms(1)
  proof (cases rule: ensureGrantClient_cases)
    case found
    then show ?thesis using assms(2) consentClient_Some[OF found(1)] by simp
  next
    case (promoted existing)
    then show ?thesis
      using clients_wf_write[OF assms(2) promoted(2)] consentClient_Some[OF promoted(1)]
      by (auto simp: write_client_frame(7)[OF promoted(2)] set_update_where approve_trust_def touch_client_def)
  next
    case (created name db2)
    then have "v_clients db2 = v_clients db @ [client]" "\<not> list_ex (clients_clash client) (v_clients db)"
      using insert_client_Some by blast+
    moreover have "c_id client = next_id db" "c_userId client = u" "c_trustLevel client = client_trust_level.APPROVED"
      by (simp_all add: created(2) grant_client_def)
    ultimately show ?thesis
      using created(4) clients_wf_insert[OF assms(2)] assms(3) by (auto simp: audit_simps)
  qed
  then show "clients_wf (v_clients db1)" "client_by_id db1 (c_id client) = Some client" "c_userId client = u"
    "c_trustLevel client = client_trust_level.APPROVED"
    unfolding client_by_id_def by (auto simp: clients_wf_def intro: find_row_unique[where key = c_id])
qed

lemma ensureGrantPolicy_frame:
  assumes "ensureGrantPolicy env now u client scopes db = (Inr pid, db1)"
  shows "v_clients db1 = v_clients db \<and> v_codes db1 = v_codes db \<and> v_registrations db1 = v_registrations db
    \<and> v_oauthRequests db1 = v_oauthRequests db \<and> v_tokens db1 = v_tokens db \<and> v_categories db1 = v_categories db"
  using assms
  by (auto simp: ensureGrantPolicy_def Let_def audit_simps write_policy_def insert_policy_def draw_id_def
      split: option.splits if_splits)

text \<open>What a committed approval leaves in the tables of the grant.\<close>

lemma commit_approval_Inr:
  assumes "commit_approval env parse now code u request reg db = (Inr x, db')"
  obtains client db1 pid db2 i where "ensureGrantClient now u reg db = (Inr client, db1)"
    "ensureGrantPolicy env now u client (q_scopes request) db1 = (Inr pid, db2)" "x = code"
    "\<not> list_ex (\<lambda>k. k_codeHash k = oe_hash env code) (v_codes db)"
    "v_codes db' = v_codes db @ [grant_code env now code u (c_id client) request i]"
    "v_clients db' = v_clients db1" "v_policies db' = v_policies db2"
    "v_registrations db' = v_registrations (approve_registration reg db)"
    "v_oauthRequests db' = v_oauthRequests (decide_request now (q_id request) db)"
    "v_tokens db' = v_tokens db"
proof -
  obtain client db1 where c: "ensureGrantClient now u reg db = (Inr client, db1)"
    using assms by (auto simp: commit_approval_def split: prod.splits sum.splits)
  obtain pid db2 where p: "ensureGrantPolicy env now u client (q_scopes request) db1 = (Inr pid, db2)"
    using assms c by (auto simp: commit_approval_def split: prod.splits sum.splits)
  note fr = ensureGrantClient_frame[OF c] ensureGrantPolicy_frame[OF p]
  let ?db3 = "approve_registration reg db2"
  let ?row = "grant_code env now code u (c_id client) request (next_id ?db3)"
  have db3: "v_codes ?db3 = v_codes db" "v_clients ?db3 = v_clients db1" "v_policies ?db3 = v_policies db2"
    "v_oauthRequests ?db3 = v_oauthRequests db" "v_tokens ?db3 = v_tokens db"
    "v_registrations ?db3 = v_registrations (approve_registration reg db)"
    using fr by (simp_all add: approve_registration_def)
  obtain inp where x: "x = code" "db' = snd (createAuditEvent now inp
      (decide_request now (q_id request) (draw_id ?db3 \<lparr> v_codes := v_codes ?db3 @ [?row] \<rparr>)))"
    and fresh: "\<not> list_ex (\<lambda>k. k_codeHash k = k_codeHash ?row) (v_codes ?db3)"
    using assms c p by (auto simp: commit_approval_def Let_def split: if_splits option.splits)
  show thesis
    by (rule that[OF c p x(1)])
      (use fresh db3 in \<open>auto simp: x(2) audit_simps decide_request_def draw_id_def grant_code_def\<close>)
qed

lemma approve_Inr:
  assumes "approve env parse now code u i nonce db = (Inr rd, db')"
  obtains request reg where "loadPendingRequest env now db i (Some nonce) = Inr (request, reg)"
    "commit_approval env parse now code u request reg db = (Inr code, db')"
    "rd = \<lparr> rd_redirectUri = q_redirectUri request, rd_params = (''code'', code) # state_param request \<rparr>"
proof -
  obtain request reg where l: "loadPendingRequest env now db i (Some nonce) = Inr (request, reg)"
    using assms by (auto simp: approve_def split: sum.splits)
  then obtain x where x: "commit_approval env parse now code u request reg db = (Inr x, db')"
    "rd = \<lparr> rd_redirectUri = q_redirectUri request, rd_params = (''code'', x) # state_param request \<rparr>"
    using assms by (auto simp: approve_def split: sum.splits prod.splits)
  from x(1) have "x = code" by (rule commit_approval_Inr)
  with l x that show thesis by simp
qed

section \<open>A request is decided once\<close>

lemma decide_request_blocks:
  assumes "find_row (\<lambda>q. q_id q = i) (v_oauthRequests db) = Some request"
    and "v_oauthRequests db' = v_oauthRequests (decide_request now i db)"
  shows "\<exists>e. loadPendingRequest env later db' i nonce = Inl e"
proof -
  have "find_row (\<lambda>q. q_id q = i) (v_oauthRequests db') = Some (request \<lparr> q_decidedAt := Some now \<rparr>)"
    using assms find_row_SomeD[OF assms(1)]
    by (simp add: decide_request_def find_row_update_where[where Q = "\<lambda>q. q_id q = i"])
  then show ?thesis by (auto simp: loadPendingRequest_def split: option.split)
qed

text \<open>A decision is final: once a request has been approved or denied, no later approval or denial
  of it goes through, whatever nonce it brings.\<close>

theorem consent_decision_is_final:
  assumes "approve env parse now code u i nonce db = (Inr rd, db') \<or> deny env parse now u i nonce db = (Inr rd, db')"
  shows "(\<exists>e. approve env parse later code' u' i nonce' db' = (Inl e, db'))
    \<and> (\<exists>e. deny env parse later u' i nonce' db' = (Inl e, db'))"
proof -
  have "\<exists>e. loadPendingRequest env later db' i (Some nonce') = Inl e"
    using assms
  proof
    assume "approve env parse now code u i nonce db = (Inr rd, db')"
    then show ?thesis
    proof (rule approve_Inr)
      fix request reg
      assume l: "loadPendingRequest env now db i (Some nonce) = Inr (request, reg)"
        and "commit_approval env parse now code u request reg db = (Inr code, db')"
      from this(2) show ?thesis
        by (rule commit_approval_Inr)
          (use decide_request_blocks[OF loadPendingRequest_Inr(1)[OF l]] loadPendingRequest_Inr(2)[OF l] in blast)
    qed
  next
    assume "deny env parse now u i nonce db = (Inr rd, db')"
    then obtain request reg where l: "loadPendingRequest env now db i (Some nonce) = Inr (request, reg)"
      and "db' = commit_denial now u request reg db"
      by (auto simp: deny_def Let_def split: sum.splits option.splits)
    then have "v_oauthRequests db' = v_oauthRequests (decide_request now i db)"
      using loadPendingRequest_Inr(2)[OF l] by (simp add: commit_denial_def audit_simps)
    then show ?thesis using decide_request_blocks[OF loadPendingRequest_Inr(1)[OF l]] by blast
  qed
  then show ?thesis by (auto simp: approve_def deny_def)
qed


section \<open>The consent screen tells what is granted\<close>

lemma client_policy_user:
  "find_row (\<lambda>p. p_userId p = c_userId c \<and> p_clientId p = c_id c) (v_policies db) = client_policy db c"
  by (simp add: client_policy_def conj_commute)

lemma resultingOperations_same_length:
  assumes "distinct ops" "length (resultingOperations ops scopes) = length ops"
  shows "resultingOperations ops scopes = ops"
proof -
  have grow: "length (js_unique (xs @ ys)) \<ge> length (js_unique xs)
      \<and> (length (js_unique (xs @ ys)) = length (js_unique xs) \<longrightarrow> js_unique (xs @ ys) = js_unique xs)"
    for xs ys :: "policy_operation list"
  proof (induction ys rule: rev_induct)
    case (snoc y ys)
    then show ?case using js_unique_snoc[of "xs @ ys" y] by (auto simp: append_assoc[symmetric] simp del: append_assoc)
  qed simp
  show ?thesis
    using grow[of ops "scopesToOperations scopes"] assms by (simp add: resultingOperations_def)
qed

text \<open>The policy an approval leaves: the one that was there with the operations merged, or a new one.\<close>

lemma ensureGrantPolicy_policy:
  assumes "ensureGrantPolicy env now u client scopes db = (Inr pid, db1)" "c_userId client = u"
    and "\<And>p. client_policy db client = Some p \<Longrightarrow> distinct (p_operations p)"
  shows "\<exists>q. client_policy db1 client = Some q
    \<and> (case client_policy db client of
         Some p \<Rightarrow> \<exists>t. q = p \<lparr> p_operations := resultingOperations (p_operations p) scopes, p_updatedAt := t \<rparr>
       | None \<Rightarrow> q = grant_policy env now u (c_id client) scopes db)"
proof (cases "client_policy db client")
  case None
  let ?q = "grant_policy env now u (c_id client) scopes db"
  obtain db2 inp where db2: "insert_policy ?q db = Some db2" "db1 = snd (createAuditEvent now inp db2)"
    using assms(1,2) None client_policy_user[of client db]
    by (auto simp: ensureGrantPolicy_def Let_def split: option.splits)
  then have "v_policies db1 = v_policies db @ [?q]"
    by (auto simp: insert_policy_def draw_id_def audit_simps split: if_splits)
  then have "client_policy db1 client = Some ?q"
    using None assms(2) by (simp add: client_policy_def find_row_append) (simp add: grant_policy_def)
  then show ?thesis using None by simp
next
  case (Some p)
  let ?ops = "resultingOperations (p_operations p) scopes"
  show ?thesis
  proof (cases "length ?ops = length (p_operations p)")
    case True
    then have "db1 = db" "?ops = p_operations p"
      using assms Some client_policy_user[of client db] resultingOperations_same_length
      by (auto simp: ensureGrantPolicy_def Let_def)
    then show ?thesis using Some by (auto intro: exI[of _ "p_updatedAt p"])
  next
    case False
    then obtain inp where db1: "db1 = snd (createAuditEvent now inp
        (write_policy now (p_id p) (\<lambda>p. p \<lparr> p_operations := ?ops \<rparr>) db))"
      using assms(1,2) Some client_policy_user[of client db] by (auto simp: ensureGrantPolicy_def Let_def)
    have "client_policy db1 client = map_option
        (\<lambda>r. if p_id r = p_id p then r \<lparr> p_operations := ?ops, p_updatedAt := now \<rparr> else r) (client_policy db client)"
      unfolding client_policy_def db1 write_policy_def
      by (simp add: audit_simps find_row_update_where)
    then show ?thesis using Some by auto
  qed
qed

lemma ensureGrantClient_policy:
  assumes "ensureGrantClient now u reg db = (Inr client, db1)" "consentClient db u (g_id reg) = Inr found"
    and "policies_wf db" "next_id db \<notin> c_id ` set (v_clients db)"
  shows "client_policy db1 client = Option.bind found (client_policy db)"
proof -
  have pol: "v_policies db1 = v_policies db" using ensureGrantClient_frame[OF assms(1)] by simp
  show ?thesis using assms(1)
  proof (cases rule: ensureGrantClient_cases)
    case found
    then show ?thesis using assms(2) by (simp add: client_policy_def pol)
  next
    case (promoted existing)
    then show ?thesis using assms(2) by (simp add: client_policy_def pol touch_client_def approve_trust_def)
  next
    case (created name db2)
    have "p_clientId p \<noteq> next_id db" if "p \<in> set (v_policies db)" for p
      using that assms(3,4) unfolding policies_wf_def by (metis imageI)
    then have "client_policy db client = None"
      by (auto simp: client_policy_def created(2) grant_client_def find_row_None_iff)
    then show ?thesis using assms(2) created(1) by (simp add: client_policy_def pol)
  qed
qed


section \<open>From consent to access\<close>

lemma approve_registration_status:
  assumes "registration_by_id db g = Some reg" "g_status reg \<noteq> oauth_registration_status.BLOCKED"
    and "v_registrations db' = v_registrations (approve_registration reg db)"
  shows "\<exists>reg'. registration_by_id db' g = Some reg' \<and> g_status reg' = oauth_registration_status.APPROVED
    \<and> g_clientId reg' = g_clientId reg"
proof (cases "g_status reg = oauth_registration_status.PENDING")
  case True
  then show ?thesis
    using assms(1,3) find_row_SomeD[OF assms(1)[unfolded registration_by_id_def]]
    by (simp add: registration_by_id_def approve_registration_def
        find_row_update_where[where Q = "\<lambda>x. g_id x = g"])
next
  case False
  then have "g_status reg = oauth_registration_status.APPROVED"
    using assms(2) by (cases "g_status reg") auto
  then show ?thesis using assms(1,3) False by (simp add: registration_by_id_def approve_registration_def)
qed

text \<open>Consent leads to access: the code of an approval, exchanged by its connector within five
  minutes at the approved redirect URI, mints a pair for the approving owner with the requested
  scopes, and the access token verifies until it expires.\<close>

theorem approved_consent_gives_access:
  assumes "approve env parse now code u i nonce db = (Inr rd, db')"
    and "clients_wf (v_clients db)" "next_id db \<notin> c_id ` set (v_clients db)"
    and "find_row (\<lambda>q. q_id q = i) (v_oauthRequests db) = Some request"
    and "registration_by_id db (q_registrationId request) = Some reg"
    and "then' < now + oauthAuthorizationCodeTtlMs"
    and "take 5 a = ''fvoa_''" "\<forall>t\<in>set (v_tokens db). t_tokenHash t \<noteq> oe_hash env a"
    and "later < then' + int (oauthAccessTokenTtlSeconds env) * 1000"
  shows "\<exists>pair db'' row. exchangeAuthorizationCode env then' a r (g_clientId reg) code (Some (rd_redirectUri rd)) None db'
      = (Inr pair, db'')
    \<and> verifyAccessToken env later db'' a = Some row \<and> t_userId row = u \<and> t_scopes row = q_scopes request
    \<and> ip_scopes pair = q_scopes request"
  using assms(1)
proof (rule approve_Inr)
  fix request' reg'
  assume l: "loadPendingRequest env now db i (Some nonce) = Inr (request', reg')"
    and co: "commit_approval env parse now code u request' reg' db = (Inr code, db')"
    and rd: "rd = \<lparr> rd_redirectUri = q_redirectUri request', rd_params = (''code'', code) # state_param request' \<rparr>"
  note ld = loadPendingRequest_Inr[OF l]
  have eq: "request' = request" "reg' = reg" using ld(1,3) assms(4,5) by auto
  from co show ?thesis
  proof (rule commit_approval_Inr)
    fix client db1 pid db2 j
    assume c: "ensureGrantClient now u reg' db = (Inr client, db1)"
      and fresh: "\<not> list_ex (\<lambda>k. k_codeHash k = oe_hash env code) (v_codes db)"
      and codes: "v_codes db' = v_codes db @ [grant_code env now code u (c_id client) request' j]"
      and cls: "v_clients db' = v_clients db1"
      and regs: "v_registrations db' = v_registrations (approve_registration reg' db)"
      and toks: "v_tokens db' = v_tokens db"
    let ?k = "grant_code env now code u (c_id client) request j"
    note cl = ensureGrantClient_client[OF c assms(2,3)]
    obtain g where g: "registration_by_id db' (q_registrationId request) = Some g"
      "g_status g = oauth_registration_status.APPROVED" "g_clientId g = g_clientId reg"
      using approve_registration_status[OF ld(3,5) regs] eq by auto
    have "find_row (\<lambda>k. k_codeHash k = oe_hash env code) (v_codes db) = None"
      using fresh by (auto simp: find_row_None_iff list_ex_iff)
    then have found: "find_code env db' code = Some ?k"
      by (simp add: find_code_def codes find_row_append eq grant_code_def)
    have cb: "client_by_id db' (c_id client) = Some client" using cl(2) cls by (simp add: client_by_id_def)
    have appr: "grant_approved db' (q_registrationId request) (c_id client)"
      using g cb cl(4) by (simp add: grant_approved_def)
    have ok: "check_code env then' db' (g_clientId reg) code (Some (rd_redirectUri rd)) None = CodeOk ?k"
      using found g assms(6) appr
      by (simp add: check_code_def code_of_client_def grant_code_def rd eq assertResourceAllowed_def)
    obtain d where cons: "consume_code then' j db' = (True, d)" "v_tokens d = v_tokens db'"
      "v_clients d = v_clients db'" "v_registrations d = v_registrations db'"
      using codes by (auto simp: consume_code_def consume_rows_def grant_code_def)
    let ?inp = "code_grant ?k"
    let ?x = "issueTokenPair env then' a r ?inp d"
    have ex: "exchangeAuthorizationCode env then' a r (g_clientId reg) code (Some (rd_redirectUri rd)) None db'
        = (Inr (fst ?x), snd ?x)"
      using ok cons by (simp add: exchangeAuthorizationCode_def grant_code_def split_beta)
    let ?row = "issued_row ?inp (next_id d) oauth_token_type.ACCESS (oe_hash env a)
      (then' + int (oauthAccessTokenTtlSeconds env) * 1000)"
    have "find_row (\<lambda>t. t_tokenHash t = oe_hash env a \<and> t_type t = oauth_token_type.ACCESS) (v_tokens d) = None"
      using assms(8) cons toks by (auto simp: find_row_None_iff)
    then have "findToken env (snd ?x) a oauth_token_type.ACCESS = Some ?row"
      by (simp add: findToken_def token_simps find_row_append issued_row_def)
    moreover have "isUsableGrant later (snd ?x) ?row"
      using appr assms(9) cons
      by (simp add: isUsableGrant_def issued_row_def code_grant_def grant_code_def grant_approved_def
          registration_by_id_def client_by_id_def token_simps)
    ultimately have v: "verifyAccessToken env later (snd ?x) a = Some ?row"
      using assms(7) by (simp add: verifyAccessToken_def)
    show ?thesis
      using ex v
      by (intro exI[of _ "fst ?x"] exI[of _ "snd ?x"] exI[of _ ?row])
        (simp add: issued_row_def code_grant_def grant_code_def token_simps)
  qed
qed


section \<open>Registrations stay public clients\<close>

definition registrations_wf :: "oauth_env \<Rightarrow> (string \<Rightarrow> url_parts option) \<Rightarrow> oauth_registration list \<Rightarrow> bool" where
  "registrations_wf env parse gs =
     (distinct (map g_clientId gs)
      \<and> count_where (\<lambda>g. g_status g = oauth_registration_status.PENDING) gs \<le> oauthMaxPendingRegistrations env
      \<and> list_all (\<lambda>g. g_tokenEndpointAuthMethod g = ''none'' \<and> g_name g \<noteq> []
           \<and> list_all (isAllowedRedirectUri parse) (g_redirectUris g)) gs)"

text \<open>The open registration endpoint cannot be used to fill the table or to plant a redirect: the
  pending registrations stay under the cap, and every registration is a public client with a name
  and with https or loopback redirect URIs only.\<close>

theorem registrations_stay_safe:
  assumes "registrations_wf env parse (v_registrations db)"
  shows "registrations_wf env parse (v_registrations (snd (registerClient env parse now c db)))"
  using assms
  by (auto simp: registerClient_def Let_def registrations_wf_def draw_id_def new_registration_def
      registration_name_def list_ex_iff)

section \<open>Samples\<close>

definition sample_url :: "string \<Rightarrow> url_parts option" where
  "sample_url s = Some \<lparr> up_protocol = ''https:'', up_hostname = ''app'', up_host = ''app'', up_origin = ''https://app'' \<rparr>"

definition sample_request :: oauth_request where
  "sample_request =
     \<lparr> q_id = ''q1'', q_registrationId = ''g1'', q_redirectUri = ''https://app/cb'', q_codeChallenge = ''ch'',
       q_scopes = [''memory.read'', ''memory.suggest''], q_state = Some ''s'', q_resource = None,
       q_csrfTokenHash = ''hn'', q_expiresAt = 50, q_decidedAt = None, q_createdAt = 1 \<rparr>"

definition consent_vault :: vault where
  "consent_vault = oauth_vault \<lparr> v_oauthRequests := [sample_request],
     v_registrations := [sample_registration \<lparr> g_status := oauth_registration_status.PENDING \<rparr>] \<rparr>"

abbreviation sample_approve :: "vault \<Rightarrow> consent_redirect outcome" where
  "sample_approve \<equiv> approve sample_oauth_env sample_url 5 ''fvac_y'' ''u1'' ''q1'' ''n''"

lemma consent_decision_is_final_witness:
  "\<exists>rd db'. sample_approve consent_vault = (Inr rd, db') \<and> (\<exists>e. sample_approve db' = (Inl e, db'))"
proof -
  have "\<not> isl (fst (sample_approve consent_vault))" by code_simp
  then obtain rd where rd: "sample_approve consent_vault = (Inr rd, snd (sample_approve consent_vault))"
    using outcome_ok by blast
  from consent_decision_is_final[OF disjI1, OF this] rd show ?thesis by blast
qed

lemma consent_vault_wf:
  "policies_wf consent_vault" "clients_wf (v_clients consent_vault)"
  "next_id consent_vault \<notin> c_id ` set (v_clients consent_vault)"
  by (simp_all add: policies_wf_def clients_wf_def consent_vault_def oauth_vault_def sample_vault_def
      sample_policy_def sample_client_def empty_vault_def next_id_def sample_ids_def)


lemma approved_consent_gives_access_witness:
  "\<exists>rd db' pair db'' row. sample_approve consent_vault = (Inr rd, db')
     \<and> exchangeAuthorizationCode sample_oauth_env 9 ''fvoa_a'' ''fvor_r'' ''oc1'' ''fvac_y'' (Some (rd_redirectUri rd)) None db'
        = (Inr pair, db'') \<and> verifyAccessToken sample_oauth_env 12 db'' ''fvoa_a'' = Some row
     \<and> t_scopes row = [''memory.read'', ''memory.suggest'']"
proof -
  have "\<not> isl (fst (sample_approve consent_vault))" by code_simp
  then obtain rd where rd: "sample_approve consent_vault = (Inr rd, snd (sample_approve consent_vault))"
    using outcome_ok by blast
  let ?reg = "sample_registration \<lparr> g_status := oauth_registration_status.PENDING \<rparr>"
  have q: "find_row (\<lambda>q. q_id q = ''q1'') (v_oauthRequests consent_vault) = Some sample_request"
    by (simp add: consent_vault_def sample_request_def)
  have g: "registration_by_id consent_vault (q_registrationId sample_request) = Some ?reg"
    by (simp add: consent_vault_def sample_request_def registration_by_id_def sample_registration_def)
  have "9 < (5 :: time) + oauthAuthorizationCodeTtlMs" by (simp add: oauthAuthorizationCodeTtlMs_def)
  from approved_consent_gives_access[OF rd consent_vault_wf(2,3) q g this, of "''fvoa_a''" 12 "''fvor_r''"]
  have "\<exists>pair db'' row. exchangeAuthorizationCode sample_oauth_env 9 ''fvoa_a'' ''fvor_r'' (g_clientId ?reg) ''fvac_y''
      (Some (rd_redirectUri rd)) None (snd (sample_approve consent_vault)) = (Inr pair, db'')
    \<and> verifyAccessToken sample_oauth_env 12 db'' ''fvoa_a'' = Some row \<and> t_userId row = ''u1''
    \<and> t_scopes row = q_scopes sample_request \<and> ip_scopes pair = q_scopes sample_request"
    by (simp add: consent_vault_def oauth_vault_def sample_vault_def empty_vault_def sample_oauth_env_def
        oauthAccessTokenTtlSeconds_def)
  then obtain pair db'' row where x: "exchangeAuthorizationCode sample_oauth_env 9 ''fvoa_a'' ''fvor_r'' ''oc1'' ''fvac_y''
      (Some (rd_redirectUri rd)) None (snd (sample_approve consent_vault)) = (Inr pair, db'')"
    "verifyAccessToken sample_oauth_env 12 db'' ''fvoa_a'' = Some row" "t_scopes row = [''memory.read'', ''memory.suggest'']"
    by (auto simp: sample_request_def sample_registration_def)
  show ?thesis
    by (intro exI[of _ rd] exI[of _ "snd (sample_approve consent_vault)"] exI[of _ pair] exI[of _ db''] exI[of _ row] conjI rd x)
qed

lemma registrations_stay_safe_witness:
  "registrations_wf sample_oauth_env sample_url
     (v_registrations (snd (registerClient sample_oauth_env sample_url 5 (toClientInformation sample_registration) sample_vault)))"
proof -
  have "registrations_wf sample_oauth_env sample_url (v_registrations sample_vault)"
    by (simp add: registrations_wf_def sample_vault_def empty_vault_def)
  then show ?thesis by (rule registrations_stay_safe)
qed

section \<open>Two ways a consent goes wrong\<close>

text \<open>The merge is written only when it is longer.  A policy may list an operation twice, and then a
  merge that adds an operation can have the same length: the screen shows an operation, the owner
  approves it, and the policy does not get it.\<close>

definition twice_read_vault :: vault where
  "twice_read_vault = consent_vault
     \<lparr> v_clients := [connector],
       v_policies := [sample_policy \<lparr> p_operations := [policy_operation.READ, policy_operation.READ] \<rparr>] \<rparr>"

theorem repeated_operation_hides_consent:
  "(case getConsentContext sample_oauth_env sample_url 5 twice_read_vault ''q1'' (Some ''u1'') of
      Inr cx \<Rightarrow> policy_operation.SUGGEST \<in> set (cx_operations cx) | Inl e \<Rightarrow> False)
   \<and> (case sample_approve twice_read_vault of
      (Inr rd, db') \<Rightarrow> map p_operations (v_policies db') = [[policy_operation.READ, policy_operation.READ]]
    | (Inl e, db') \<Rightarrow> False)"
  by code_simp

text \<open>The transaction does not read the request again: an approval that was loaded while another
  decision was being committed still commits.  After a denial it leaves a code that exchanges.\<close>

theorem approval_overrides_concurrent_denial:
  "(case loadPendingRequest sample_oauth_env 5 consent_vault ''q1'' (Some ''n'') of
      Inl e \<Rightarrow> False
    | Inr (request, registration) \<Rightarrow>
        (let denied = commit_denial 6 ''u1'' request registration consent_vault
         in case commit_approval sample_oauth_env sample_url 7 ''fvac_y'' ''u1'' request registration denied of
              (Inl e, db') \<Rightarrow> False
            | (Inr code, db') \<Rightarrow>
                map q_decidedAt (v_oauthRequests denied) = [Some 6]
                \<and> (case check_code sample_oauth_env 8 db' ''oc1'' ''fvac_y'' None None of CodeOk _ \<Rightarrow> True | _ \<Rightarrow> False)))"
  by code_simp

end
