(* ===== verification/SecretScan.thy ===== *)
theory SecretScan
  imports AuditTrail
begin

text \<open>
  \<open>common/secret-like-content.ts\<close>: the scan that keeps credentials out of the vault.  The regular
  expressions of the source are terms of a small syntax, and a matcher computes where a match can
  end, so that the scan runs in the model; \<open>test\<close> is the search of \<open>RegExp.prototype.test\<close>.  The
  text of a JSON value is a parameter (\<open>JSON.stringify\<close>).
\<close>

section \<open>Regular expressions\<close>

datatype rx =
    Lit string
  | Exactly nat "char \<Rightarrow> bool"
  | AtLeast nat "char \<Rightarrow> bool"
  | Optional rx
  | Both rx rx
  | Either rx rx
  | Boundary

text \<open>\<open>\w\<close>, and the boundary \<open>\b\<close> between a word character and something else.\<close>

definition char_in :: "char \<Rightarrow> char \<Rightarrow> char \<Rightarrow> bool" where
  "char_in a b c = (of_char a \<le> (of_char c :: nat) \<and> of_char c \<le> (of_char b :: nat))"

definition rx_upper :: "char \<Rightarrow> bool" where "rx_upper c = char_in (CHR ''A'') (CHR ''Z'') c"
definition rx_lower :: "char \<Rightarrow> bool" where "rx_lower c = char_in (CHR ''a'') (CHR ''z'') c"
definition rx_digit :: "char \<Rightarrow> bool" where "rx_digit c = char_in (CHR ''0'') (CHR ''9'') c"

definition rx_word :: "char \<Rightarrow> bool" where
  "rx_word c = (rx_upper c \<or> rx_lower c \<or> rx_digit c \<or> c = CHR ''_'')"

definition word_before :: "string \<Rightarrow> nat \<Rightarrow> bool" where
  "word_before s i = (0 < i \<and> i \<le> length s \<and> rx_word (s ! (i - 1)))"

definition word_after :: "string \<Rightarrow> nat \<Rightarrow> bool" where
  "word_after s i = (i < length s \<and> rx_word (s ! i))"

fun ends :: "string \<Rightarrow> rx \<Rightarrow> nat \<Rightarrow> nat list" where
  "ends s (Lit w) i = (if i + length w \<le> length s \<and> take (length w) (drop i s) = w then [i + length w] else [])"
| "ends s (Exactly n P) i =
     (if i + n \<le> length s \<and> list_all P (take n (drop i s)) then [i + n] else [])"
| "ends s (AtLeast n P) i = [i + n ..< Suc (i + length (takeWhile P (drop i s)))]"
| "ends s (Optional r) i = ends s r i @ [i]"
| "ends s (Both a b) i = concat (map (ends s b) (ends s a i))"
| "ends s (Either a b) i = ends s a i @ ends s b i"
| "ends s Boundary i = (if word_before s i \<noteq> word_after s i then [i] else [])"

definition rx_test :: "rx \<Rightarrow> string \<Rightarrow> bool" where
  "rx_test r s = list_ex (\<lambda>i. ends s r i \<noteq> []) [0 ..< Suc (length s)]"

text \<open>The flag \<open>i\<close>: the pattern is written in lower case and the text is lowered.\<close>

definition lower :: "char \<Rightarrow> char" where
  "lower c = (if rx_upper c then char_of (of_char c + (32 :: nat)) else c)"

section \<open>The patterns\<close>

definition any_of :: "string list \<Rightarrow> rx" where
  "any_of ws = foldr (\<lambda>w r. Either (Lit w) r) ws (AtLeast 1 (\<lambda>_. False))"

definition seq_of :: "rx list \<Rightarrow> rx" where
  "seq_of rs = foldr Both rs (Lit [])"

text \<open>\<open>-----BEGIN (?:RSA |DSA |EC |OPENSSH |PGP )?PRIVATE KEY-----\<close>, ignoring case.\<close>

definition rx_private_key :: rx where
  "rx_private_key = seq_of [Lit ''-----begin '',
     Optional (any_of [''rsa '', ''dsa '', ''ec '', ''openssh '', ''pgp '']), Lit ''private key-----'']"

text \<open>\<open>\b(?:AKIA|ASIA)[A-Z0-9]{16}\b\<close>\<close>

definition rx_aws_access_key :: rx where
  "rx_aws_access_key = seq_of [Boundary, any_of [''AKIA'', ''ASIA''],
     Exactly 16 (\<lambda>c. rx_upper c \<or> rx_digit c), Boundary]"

definition rx_token_char :: "char \<Rightarrow> bool" where
  "rx_token_char c = (rx_word c \<or> c = CHR ''-'')"

text \<open>\<open>\bsk-[A-Za-z0-9_-]{20,}\b\<close>\<close>

definition rx_openai_api_key :: rx where
  "rx_openai_api_key = seq_of [Boundary, Lit ''sk-'', AtLeast 20 rx_token_char, Boundary]"

text \<open>\<open>\b(?:ghp|gho|ghu|ghs|ghr)_[A-Za-z0-9_]{20,}\b\<close>\<close>

definition rx_github_token :: rx where
  "rx_github_token = seq_of [Boundary, any_of [''ghp'', ''gho'', ''ghu'', ''ghs'', ''ghr''], Lit ''_'',
     AtLeast 20 rx_word, Boundary]"

text \<open>\<open>\beyJ[A-Za-z0-9_-]{8,}\.[A-Za-z0-9_-]{8,}\.[A-Za-z0-9_-]{8,}\b\<close>\<close>

definition rx_jwt :: rx where
  "rx_jwt = seq_of [Boundary, Lit ''eyJ'', AtLeast 8 rx_token_char, Lit ''.'', AtLeast 8 rx_token_char,
     Lit ''.'', AtLeast 8 rx_token_char, Boundary]"

text \<open>An optional character of a set, and \<open>\s*\<close>.\<close>

definition rx_maybe :: "string \<Rightarrow> rx" where
  "rx_maybe cs = Optional (Exactly 1 (\<lambda>c. c \<in> set cs))"

definition rx_key_name :: rx where
  "rx_key_name = foldr Either
     [seq_of [Lit ''api'', rx_maybe ''_-'', Lit ''key''], seq_of [Lit ''access'', rx_maybe ''_-'', Lit ''token''],
      seq_of [Lit ''auth'', rx_maybe ''_-'', Lit ''token''], seq_of [Lit ''client'', rx_maybe ''_-'', Lit ''secret'']]
     (Lit ''password'')"

text \<open>The assignment of at least twelve characters to a name of a credential, ignoring case.\<close>

definition rx_assigned_secret :: rx where
  "rx_assigned_secret = seq_of [Boundary, rx_key_name, Boundary, AtLeast 0 js_space,
     Exactly 1 (\<lambda>c. c \<in> set '':=''), AtLeast 0 js_space, rx_maybe [CHR 0x22, CHR 0x27],
     AtLeast 12 (\<lambda>c. c \<notin> {CHR 0x22, CHR 0x27} \<and> \<not> js_space c)]"

definition secretPatterns :: "(string \<times> (string \<Rightarrow> bool)) list" where
  "secretPatterns =
     [(''private_key'', \<lambda>s. rx_test rx_private_key (map lower s)),
      (''aws_access_key'', rx_test rx_aws_access_key),
      (''openai_api_key'', rx_test rx_openai_api_key),
      (''github_token'', rx_test rx_github_token),
      (''jwt'', rx_test rx_jwt),
      (''assigned_secret'', \<lambda>s. rx_test rx_assigned_secret (map lower s))]"

section \<open>The scan\<close>

record secret_scan_input =
  ss_title :: "string option"
  ss_body :: "string option"
  ss_evidence :: "string option"
  ss_sourceMetadata :: "(string \<times> json) list option"

fun join_lines :: "string list \<Rightarrow> string" where
  "join_lines [] = []"
| "join_lines [l] = l"
| "join_lines (l # ls) = l @ CHR 0x0A # join_lines ls"

definition scan_text :: "((string \<times> json) list \<Rightarrow> string) \<Rightarrow> secret_scan_input \<Rightarrow> string" where
  "scan_text stringify inp =
     join_lines (map the (filter truthy
       [ss_title inp, ss_body inp, ss_evidence inp, map_option stringify (ss_sourceMetadata inp)]))"

definition detectSecretLikeContent ::
  "((string \<times> json) list \<Rightarrow> string) \<Rightarrow> secret_scan_input \<Rightarrow> string list" where
  "detectSecretLikeContent stringify inp =
     map fst (filter (\<lambda>p. snd p (scan_text stringify inp)) secretPatterns)"

definition assertNoSecretLikeContent ::
  "((string \<times> json) list \<Rightarrow> string) \<Rightarrow> secret_scan_input \<Rightarrow> error + unit" where
  "assertNoSecretLikeContent stringify inp =
     (if detectSecretLikeContent stringify inp \<noteq> []
      then Inl (BadRequest ''Memory content appears to contain secret-like material and was not stored.'')
      else Inr ())"

section \<open>What is detected\<close>

lemma ends_seq_Nil [simp]: "ends s (seq_of []) i = (if i \<le> length s then [i] else [])"
  by (simp add: seq_of_def)

lemma ends_seq_Cons [simp]: "ends s (seq_of (r # rs)) i = concat (map (ends s (seq_of rs)) (ends s r i))"
  by (simp add: seq_of_def)

lemma rx_test_iff: "rx_test r s \<longleftrightarrow> (\<exists>i\<le>length s. ends s r i \<noteq> [])"
  by (auto simp: rx_test_def list_ex_iff less_Suc_eq_le simp del: upt_Suc)

lemma takeWhile_False [simp]: "takeWhile (\<lambda>_. False) xs = []"
  by (cases xs) simp_all

lemma ends_any_of:
  "j \<in> set (ends s (any_of ws) i) \<longleftrightarrow>
     (\<exists>w\<in>set ws. i + length w \<le> length s \<and> take (length w) (drop i s) = w \<and> j = i + length w)"
  by (induction ws) (auto simp: any_of_def split: if_splits)

definition delimited :: "string \<Rightarrow> string \<Rightarrow> bool" where
  "delimited pre post = ((pre = [] \<or> \<not> rx_word (last pre)) \<and> (post = [] \<or> \<not> rx_word (hd post)))"

lemma split_at:
  assumes "take (length w) (drop i s) = w" "i + length w \<le> length s"
  shows "s = take i s @ w @ drop (i + length w) s"
  using assms by (metis append_take_drop_id drop_drop add.commute)

lemma word_before_append [simp]: "word_before (pre @ post) (length pre) = (pre \<noteq> [] \<and> rx_word (last pre))"
  by (auto simp: word_before_def nth_append last_conv_nth)

lemma word_after_append [simp]: "word_after (pre @ post) (length pre) = (post \<noteq> [] \<and> rx_word (hd post))"
  by (auto simp: word_after_def hd_conv_nth nth_append)

lemma aws_endsI:
  assumes "word_before s i \<noteq> word_after s i" "j \<in> set (ends s (any_of [''AKIA'', ''ASIA'']) i)"
    and "ends s (Exactly 16 (\<lambda>c. rx_upper c \<or> rx_digit c)) j = [l]" "word_before s l \<noteq> word_after s l"
  shows "ends s rx_aws_access_key i \<noteq> []"
proof -
  have "l \<le> length s" using assms(4) by (auto simp: word_before_def word_after_def)
  then have "l \<in> set (ends s rx_aws_access_key i)"
    using assms unfolding rx_aws_access_key_def by (auto simp del: ends.simps(2) intro!: bexI[of _ j])
  then show ?thesis by force
qed

text \<open>What the scan takes for an AWS access key: AKIA or ASIA and sixteen capitals or digits, not
  part of a longer word, anywhere in the text; nothing else.\<close>

theorem aws_access_key_detected:
  "rx_test rx_aws_access_key str \<longleftrightarrow>
     (\<exists>pre prefix key post. str = pre @ prefix @ key @ post \<and> prefix \<in> {''AKIA'', ''ASIA''}
        \<and> length key = 16 \<and> list_all (\<lambda>c. rx_upper c \<or> rx_digit c) key \<and> delimited pre post)"
proof -
  have word: "rx_word (hd w)" "w \<noteq> []" if "w \<in> {''AKIA'', ''ASIA''}" for w
    using that by (auto simp: rx_word_def rx_upper_def char_in_def)
  have lastw: "rx_word (last k)" if "list_all (\<lambda>c. rx_upper c \<or> rx_digit c) k" "length k = 16" for k
    using that by (cases k rule: rev_cases) (auto simp: rx_word_def)
  have len: "length w = 4" if "w \<in> {''AKIA'', ''ASIA''}" for w using that by auto
  have at: "ends str rx_aws_access_key i \<noteq> [] \<longleftrightarrow>
      (\<exists>w\<in>{''AKIA'', ''ASIA''}. \<exists>key post. str = take i str @ w @ key @ post \<and> i \<le> length str \<and> length key = 16
        \<and> list_all (\<lambda>c. rx_upper c \<or> rx_digit c) key \<and> delimited (take i str) post)" for i
  proof
    assume "ends str rx_aws_access_key i \<noteq> []"
    then obtain j where j: "j \<in> set (ends str (any_of [''AKIA'', ''ASIA'']) i)"
      and b: "word_before str i \<noteq> word_after str i"
      and k': "j + 16 \<le> length str" "list_all (\<lambda>c. rx_upper c \<or> rx_digit c) (take 16 (drop j str))"
      and e': "word_before str (j + 16) \<noteq> word_after str (j + 16)"
      by (auto simp: rx_aws_access_key_def simp del: word_before_append word_after_append split: if_splits)
    from j obtain w where w': "w \<in> set [''AKIA'', ''ASIA'']" "i + length w \<le> length str"
      "take (length w) (drop i str) = w" and jw: "j = i + length w"
      unfolding ends_any_of by blast
    have w1: "w \<in> {''AKIA'', ''ASIA''}" using w'(1) by simp
    have j4: "j = i + 4" using jw len[OF w1] by simp
    have w: "w \<in> {''AKIA'', ''ASIA''}" "i + 4 \<le> length str" "take (length w) (drop i str) = w"
      using w1 w'(2,3) len[OF w1] by simp_all
    have k: "i + 4 + 16 \<le> length str" "list_all (\<lambda>c. rx_upper c \<or> rx_digit c) (take 16 (drop (i + 4) str))"
      using k' j4 by simp_all
    have e: "word_before str (i + 20) \<noteq> word_after str (i + 20)" using e' j4 by (simp add: add.commute)
    let ?key = "take 16 (drop (i + 4) str)" and ?post = "drop (i + 20) str"
    have s: "str = take i str @ w @ ?key @ ?post"
    proof -
      have "str = take i str @ w @ drop (i + 4) str" using split_at[OF w(3)] w(2) len[OF w(1)] by simp
      moreover have "drop (i + 4) str = ?key @ drop 16 (drop (i + 4) str)"
        by (simp only: append_take_drop_id)
      ultimately show ?thesis by (simp add: add.commute)
    qed
    have li: "length (take i str) = i" using k(1) by simp
    have lk: "length ?key = 16" using k(1) by simp
    have after: "word_after str i" using word_after_append[of "take i str" "w @ ?key @ ?post"] s li word[OF w(1)] by simp
    have "word_before str i = (take i str \<noteq> [] \<and> rx_word (last (take i str)))"
      using word_before_append[of "take i str" "w @ ?key @ ?post"] s li by simp
    then have pre: "take i str = [] \<or> \<not> rx_word (last (take i str))" using b after by auto
    have l20: "length (take i str @ w @ ?key) = i + 20" using li lk len[OF w(1)] by simp
    have ne: "?key \<noteq> []" using lk by (metis list.size(3) zero_neq_numeral)
    have ll: "last (take i str @ w @ ?key) = last ?key" "take i str @ w @ ?key \<noteq> []"
      using ne by (metis last_appendR append_is_Nil_conv)+
    have "word_before str (i + 20)"
      using word_before_append[of "take i str @ w @ ?key" ?post, unfolded l20 append_assoc s[symmetric]]
        lastw[OF k(2) lk] ll by metis
    moreover have "word_after str (i + 20) = (?post \<noteq> [] \<and> rx_word (hd ?post))"
      using word_after_append[of "take i str @ w @ ?key" ?post, unfolded l20 append_assoc s[symmetric]] .
    ultimately have "?post = [] \<or> \<not> rx_word (hd ?post)" using e by auto
    with pre have "delimited (take i str) ?post" by (simp add: delimited_def)
    with w(1) s lk k li show "\<exists>w\<in>{''AKIA'', ''ASIA''}. \<exists>key post. str = take i str @ w @ key @ post \<and> i \<le> length str
        \<and> length key = 16 \<and> list_all (\<lambda>c. rx_upper c \<or> rx_digit c) key \<and> delimited (take i str) post"
      by (intro bexI[of _ w] exI[of _ ?key] exI[of _ ?post]) auto
  next
    assume "\<exists>w\<in>{''AKIA'', ''ASIA''}. \<exists>key post. str = take i str @ w @ key @ post \<and> i \<le> length str \<and> length key = 16
        \<and> list_all (\<lambda>c. rx_upper c \<or> rx_digit c) key \<and> delimited (take i str) post"
    then obtain w key post where w: "w \<in> {''AKIA'', ''ASIA''}" and s: "str = take i str @ w @ key @ post"
      and k: "i \<le> length str" "length key = 16" "list_all (\<lambda>c. rx_upper c \<or> rx_digit c) key"
      and d: "delimited (take i str) post" by blast
    define pre where "pre = take i str"
    have i: "i = length pre" using k(1) by (simp add: pre_def)
    have s': "str = pre @ w @ key @ post" using s by (simp add: pre_def)
    have d': "delimited pre post" using d by (simp add: pre_def)
    have b: "word_before str i \<noteq> word_after str i"
      using d' word[OF w] by (auto simp: s' i delimited_def)
    have "word_before str (i + 20) = rx_word (last key)"
    proof -
      have ne: "key \<noteq> []" using k(2) by auto
      then have "last (pre @ w @ key) = last key" "pre @ w @ key \<noteq> []"
        by (metis last_appendR append_is_Nil_conv)+
      then show ?thesis
        using word_before_append[of "pre @ w @ key" post] len[OF w] k(2) by (simp add: s' i)
    qed
    moreover have "word_after str (i + 20) = (post \<noteq> [] \<and> rx_word (hd post))"
      using word_after_append[of "pre @ w @ key" post] len[OF w] k(2) by (simp add: s' i)
    ultimately have e: "word_before str (i + 20) \<noteq> word_after str (i + 20)"
      using d' lastw[OF k(3,2)] by (auto simp: delimited_def)
    have m: "i + 4 \<in> set (ends str (any_of [''AKIA'', ''ASIA'']) i)"
      unfolding ends_any_of using w len[OF w] k(2) by (intro bexI[of _ w]) (auto simp: s' i)
    have "ends str (Exactly 16 (\<lambda>c. rx_upper c \<or> rx_digit c)) (i + 4) = [i + 20]"
      using k(2,3) len[OF w] by (simp add: s' i)
    then show "ends str rx_aws_access_key i \<noteq> []" using b e m by (intro aws_endsI)
  qed
  show ?thesis
  proof
    assume "rx_test rx_aws_access_key str"
    then obtain i where "ends str rx_aws_access_key i \<noteq> []" by (auto simp: rx_test_iff)
    then show "\<exists>pre prefix key post. str = pre @ prefix @ key @ post \<and> prefix \<in> {''AKIA'', ''ASIA''}
        \<and> length key = 16 \<and> list_all (\<lambda>c. rx_upper c \<or> rx_digit c) key \<and> delimited pre post"
      unfolding at by blast
  next
    assume "\<exists>pre prefix key post. str = pre @ prefix @ key @ post \<and> prefix \<in> {''AKIA'', ''ASIA''}
        \<and> length key = 16 \<and> list_all (\<lambda>c. rx_upper c \<or> rx_digit c) key \<and> delimited pre post"
    then obtain pre w key post where x: "str = pre @ w @ key @ post" "w \<in> {''AKIA'', ''ASIA''}" "length key = 16"
      "list_all (\<lambda>c. rx_upper c \<or> rx_digit c) key" "delimited pre post" by blast
    have "ends str rx_aws_access_key (length pre) \<noteq> []"
      unfolding at using x by (intro bexI[of _ w] exI[of _ key] exI[of _ post]) auto
    moreover have "length pre \<le> length str" using x(1) by simp
    ultimately show "rx_test rx_aws_access_key str" by (auto simp: rx_test_iff)
  qed
qed

section \<open>What is too short\<close>

text \<open>The least length of a match.  A text below the least of the patterns is accepted.\<close>

fun min_len :: "rx \<Rightarrow> nat" where
  "min_len (Lit w) = length w"
| "min_len (Exactly n P) = n"
| "min_len (AtLeast n P) = n"
| "min_len (Optional r) = 0"
| "min_len (Both a b) = min_len a + min_len b"
| "min_len (Either a b) = min (min_len a) (min_len b)"
| "min_len Boundary = 0"

lemma ends_bounds:
  "j \<in> set (ends s r i) \<Longrightarrow> i \<le> length s \<Longrightarrow> i + min_len r \<le> j \<and> j \<le> length s"
proof (induction r arbitrary: i j)
  case (AtLeast n P)
  have "length (takeWhile P (drop i s)) \<le> length s - i" by (metis length_drop length_takeWhile_le)
  then show ?case using AtLeast by auto
next
  case (Optional r)
  then show ?case by (auto dest: Optional.IH)
next
  case (Both a b)
  then obtain k where k: "k \<in> set (ends s a i)" "j \<in> set (ends s b k)" by auto
  with Both.IH(1)[OF k(1) Both.prems(2)] Both.IH(2)[OF k(2)] show ?case by simp
next
  case (Either a b)
  then have "j \<in> set (ends s a i) \<or> j \<in> set (ends s b i)" by auto
  then have "i + min_len a \<le> j \<and> j \<le> length s \<or> i + min_len b \<le> j \<and> j \<le> length s"
    using Either.IH Either.prems(2) by blast
  then show ?case by (auto simp: min_def)
qed (auto split: if_splits)

lemma rx_test_short: "length s < min_len r \<Longrightarrow> \<not> rx_test r s"
proof
  assume l: "length s < min_len r" and "rx_test r s"
  then obtain i j where "i \<le> length s" "j \<in> set (ends s r i)"
    unfolding rx_test_iff by (metis list.set_intros(1) neq_Nil_conv)
  from ends_bounds[OF this(2,1)] l show False by simp
qed

lemma min_len_patterns:
  "17 \<le> min_len rx_private_key" "17 \<le> min_len rx_aws_access_key" "17 \<le> min_len rx_openai_api_key"
  "17 \<le> min_len rx_github_token" "17 \<le> min_len rx_jwt" "17 \<le> min_len rx_assigned_secret"
  by code_simp+

lemma short_text_accepted:
  assumes "length (scan_text stringify inp) < 17"
  shows "assertNoSecretLikeContent stringify inp = Inr ()"
proof -
  have l: "length (map lower (scan_text stringify inp)) < 17" using assms by simp
  have s: "\<not> rx_test r str" if "17 \<le> min_len r" "length str < 17" for r str
    using rx_test_short[of str r] that by linarith
  have "detectSecretLikeContent stringify inp = []"
    unfolding detectSecretLikeContent_def secretPatterns_def
    by (simp add: s[OF min_len_patterns(1) l] s[OF min_len_patterns(6) l] s[OF _ assms] min_len_patterns)
  then show ?thesis by (simp add: assertNoSecretLikeContent_def)
qed

end
