(* ===== verification/Memories.thy ===== *)
theory Memories
  imports Policies SecretScan Retrieval
begin

text \<open>
  \<open>memories/memories.service.ts\<close> with \<open>memory-update.ts\<close>, \<open>memory-fields.ts\<close> and
  \<open>memory-provenance-recorder.ts\<close>, and the producer side of \<open>embeddings/embedding-jobs.service.ts\<close>:
  an owner's memories, the history every change of them leaves, and the embedding job that follows.
  A transaction is one step at one instant.  The text of a JSON value (for the scan of secrets) and
  the job queue are the fields of \<open>memory_env\<close>.
\<close>

section \<open>The memory table\<close>

definition memory_row :: "ident \<Rightarrow> memory list \<Rightarrow> memory option" where
  "memory_row i = find_row (\<lambda>m. m_id m = i)"

definition update_memory :: "ident \<Rightarrow> (memory \<Rightarrow> memory) \<Rightarrow> memory list \<Rightarrow> memory list" where
  "update_memory i f = update_where (\<lambda>m. m_id m = i) f"

interpretation memories: row_table memory_row update_memory "\<lambda>f. \<forall>m. m_id (f m) = m_id m"
  by unfold_locales (simp_all add: memory_row_def update_memory_def find_key_update)

text \<open>\<open>memory.update\<close>: the column \<open>updatedAt\<close> takes the instant of the write.\<close>

definition write_memory :: "time \<Rightarrow> ident \<Rightarrow> (memory \<Rightarrow> memory) \<Rightarrow> vault \<Rightarrow> vault" where
  "write_memory now i f db =
     db \<lparr> v_memories := update_memory i (\<lambda>m. (f m) \<lparr> m_updatedAt := now \<rparr>) (v_memories db) \<rparr>"

definition owned_memory :: "vault \<Rightarrow> ident \<Rightarrow> ident \<Rightarrow> memory option" where
  "owned_memory db userId i = find_row (\<lambda>m. m_id m = i \<and> m_userId m = userId) (v_memories db)"

definition insert_memory :: "memory \<Rightarrow> vault \<Rightarrow> vault" where
  "insert_memory m db = draw_id db \<lparr> v_memories := v_memories db @ [m] \<rparr>"

section \<open>Jobs\<close>

text \<open>What the services take from outside: \<open>JSON.stringify\<close>, and the queue.  \<open>None\<close> is a deployment
  without Redis; \<open>add userId memoryId jobRunId\<close> gives the queue's id of the job, \<open>None\<close> when it
  throws.\<close>

record memory_env =
  me_stringify :: "(string \<times> json) list \<Rightarrow> string"
  me_queue :: "(ident \<Rightarrow> ident \<Rightarrow> ident \<Rightarrow> string option) option"

definition EMBEDDING_QUEUE_NAME :: string where
  "EMBEDDING_QUEUE_NAME = ''funes-vault-embedding-generation''"

definition maxJobAttempts :: nat where "maxJobAttempts = 3"

definition new_job :: "time \<Rightarrow> ident \<Rightarrow> ident \<Rightarrow> job_type \<Rightarrow> (string \<times> json) list \<Rightarrow> job_run" where
  "new_job now i userId ty md =
     \<lparr> j_id = i, j_userId = userId, j_type = ty, j_status = job_status.QUEUED, j_attempts = 0,
       j_maxAttempts = maxJobAttempts, j_error = None, j_metadata = md, j_startedAt = None,
       j_finishedAt = None, j_createdAt = now, j_updatedAt = now \<rparr>"

definition insert_job :: "job_run \<Rightarrow> vault \<Rightarrow> vault" where
  "insert_job j db = draw_id db \<lparr> v_jobRuns := v_jobRuns db @ [j] \<rparr>"

definition write_job :: "time \<Rightarrow> ident \<Rightarrow> (job_run \<Rightarrow> job_run) \<Rightarrow> vault \<Rightarrow> vault" where
  "write_job now i f db =
     db \<lparr> v_jobRuns := update_where (\<lambda>j. j_id j = i) (\<lambda>j. (f j) \<lparr> j_updatedAt := now \<rparr>) (v_jobRuns db) \<rparr>"

text \<open>The job's row is written before the queue is asked: a queue that throws leaves it queued.\<close>

definition enqueueMemoryEmbedding ::
  "memory_env \<Rightarrow> time \<Rightarrow> ident \<Rightarrow> ident \<Rightarrow> string \<Rightarrow> vault \<Rightarrow> (ident \<times> bool) outcome" where
  "enqueueMemoryEmbedding env now userId memoryId reason db =
     (let jobRunId = next_id db;
          md = [(''memoryId'', JStr memoryId), (''reason'', JStr reason)];
          db1 = insert_job (new_job now jobRunId userId job_type.GENERATE_EMBEDDING md) db
      in case me_queue env of
           None \<Rightarrow>
             (Inr (jobRunId, False),
              write_job now jobRunId (\<lambda>j. j \<lparr> j_status := job_status.CANCELLED,
                j_error := Some ''REDIS_URL is not configured'' \<rparr>) db1)
         | Some add \<Rightarrow>
             (case add userId memoryId jobRunId of
                None \<Rightarrow> (Inl (Internal ''queue''), db1)
              | Some bullJobId \<Rightarrow>
                  (Inr (jobRunId, True),
                   write_job now jobRunId (\<lambda>j. j \<lparr> j_metadata := md @
                     [(''queueName'', JStr EMBEDDING_QUEUE_NAME), (''bullJobId'', JStr bullJobId)] \<rparr>) db1)))"

text \<open>The services swallow the queue's failure; what it wrote stays.\<close>

definition enqueueEmbeddingGeneration ::
  "memory_env \<Rightarrow> time \<Rightarrow> ident \<Rightarrow> ident \<Rightarrow> string \<Rightarrow> vault \<Rightarrow> vault" where
  "enqueueEmbeddingGeneration env now userId memoryId reason db =
     snd (enqueueMemoryEmbedding env now userId memoryId reason db)"

section \<open>Requests\<close>

record create_memory =
  mc_kind :: memory_kind
  mc_title :: string
  mc_body :: string
  mc_categoryKeys :: "ident list"
  mc_sensitivity :: memory_sensitivity
  mc_confidence :: rat
  mc_status :: memory_status
  mc_reviewState :: review_state
  mc_expiresAt :: "time option"
  mc_sourceType :: source_type
  mc_sourceUri :: "string option"
  mc_sourceMetadata :: "(string \<times> json) list"

text \<open>\<open>UpdateMemoryRequest\<close>: an absent field is \<open>None\<close>, a null one \<open>Some None\<close>.\<close>

record memory_update =
  mu_kind :: "memory_kind option"
  mu_title :: "string option"
  mu_body :: "string option"
  mu_categoryKeys :: "ident list option"
  mu_sensitivity :: "memory_sensitivity option"
  mu_confidence :: "rat option"
  mu_status :: "memory_status option"
  mu_reviewState :: "review_state option"
  mu_expiresAt :: "time option option"
  mu_sourceType :: "source_type option"
  mu_sourceUri :: "string option option"
  mu_sourceMetadata :: "(string \<times> json) list option"

definition no_memory_update :: memory_update where
  "no_memory_update =
     \<lparr> mu_kind = None, mu_title = None, mu_body = None, mu_categoryKeys = None, mu_sensitivity = None,
       mu_confidence = None, mu_status = None, mu_reviewState = None, mu_expiresAt = None,
       mu_sourceType = None, mu_sourceUri = None, mu_sourceMetadata = None \<rparr>"

definition memoryContentFields :: "string list" where
  "memoryContentFields =
     [''kind'', ''title'', ''body'', ''categoryKeys'', ''sensitivity'', ''confidence'', ''expiresAt'']"

definition memorySourceFields :: "string list" where
  "memorySourceFields = [''sourceType'', ''sourceUri'', ''sourceMetadata'']"

definition memoryStatusFields :: "string list" where
  "memoryStatusFields = [''status'', ''reviewState'']"

text \<open>\<open>Object.keys(request)\<close>, in the order of the schema that parsed it.\<close>

definition request_fields :: "memory_update \<Rightarrow> (string \<times> bool) list" where
  "request_fields u =
     [(''kind'', mu_kind u \<noteq> None), (''title'', mu_title u \<noteq> None), (''body'', mu_body u \<noteq> None),
      (''categoryKeys'', mu_categoryKeys u \<noteq> None), (''sensitivity'', mu_sensitivity u \<noteq> None),
      (''confidence'', mu_confidence u \<noteq> None), (''status'', mu_status u \<noteq> None),
      (''reviewState'', mu_reviewState u \<noteq> None), (''expiresAt'', mu_expiresAt u \<noteq> None),
      (''sourceType'', mu_sourceType u \<noteq> None), (''sourceUri'', mu_sourceUri u \<noteq> None),
      (''sourceMetadata'', mu_sourceMetadata u \<noteq> None)]"

definition changed_fields :: "memory_update \<Rightarrow> string list" where
  "changed_fields u = map fst (filter snd (request_fields u))"

definition has_field :: "string list \<Rightarrow> memory_update \<Rightarrow> bool" where
  "has_field keys u = list_ex (\<lambda>key. key \<in> set (changed_fields u)) keys"

section \<open>The written row\<close>

definition isConsolidationRelevantUpdate :: "memory_update \<Rightarrow> bool" where
  "isConsolidationRelevantUpdate u =
     (mu_status u = Some memory_status.ACTIVE
      \<or> has_field (memoryContentFields @ memorySourceFields @ [''reviewState'']) u)"

definition memory_toUpdateData :: "time \<Rightarrow> vault \<Rightarrow> memory_update \<Rightarrow> memory \<Rightarrow> memory" where
  "memory_toUpdateData now db u m =
     m \<lparr> m_kind := or_keep (mu_kind u) (m_kind m), m_title := or_keep (mu_title u) (m_title m),
         m_body := or_keep (mu_body u) (m_body m),
         m_sensitivity := or_keep (mu_sensitivity u) (m_sensitivity m),
         m_confidence := or_keep (mu_confidence u) (m_confidence m),
         m_status := or_keep (mu_status u) (m_status m),
         m_reviewState := or_keep (mu_reviewState u) (m_reviewState m),
         m_sourceType := or_keep (mu_sourceType u) (m_sourceType m),
         m_sourceUri := or_keep (mu_sourceUri u) (m_sourceUri m),
         m_sourceMetadata := or_keep (mu_sourceMetadata u) (m_sourceMetadata m),
         m_expiresAt := or_keep (mu_expiresAt u) (m_expiresAt m),
         m_categories := or_keep (map_option (toCategoryConnect db) (mu_categoryKeys u)) (m_categories m),
         m_consolidationRelevantAt :=
           (if isConsolidationRelevantUpdate u then now else m_consolidationRelevantAt m) \<rparr>"

definition new_memory :: "time \<Rightarrow> ident \<Rightarrow> create_memory \<Rightarrow> vault \<Rightarrow> memory" where
  "new_memory now userId r db =
     \<lparr> m_id = next_id db, m_sensitivity = mc_sensitivity r, m_status = mc_status r,
       m_reviewState = mc_reviewState r, m_expiresAt = mc_expiresAt r,
       m_categories = toCategoryConnect db (mc_categoryKeys r), m_userId = userId, m_kind = mc_kind r,
       m_title = mc_title r, m_body = mc_body r, m_confidence = mc_confidence r,
       m_sourceType = mc_sourceType r, m_sourceClientId = None, m_sourceUri = mc_sourceUri r,
       m_sourceMetadata = mc_sourceMetadata r, m_lastConfirmedAt = None,
       m_consolidationRelevantAt = now, m_lastConsolidatedAt = None, m_semanticInspectedAt = None,
       m_createdAt = now, m_updatedAt = now \<rparr>"

section \<open>MemoryProvenanceRecorder\<close>

datatype memory_mutation = Mutation_create | Mutation_update | Mutation_archive | Mutation_delete

definition auditMutationForUpdate :: "memory_status \<Rightarrow> memory_update \<Rightarrow> memory_mutation" where
  "auditMutationForUpdate currentStatus u =
     (if currentStatus \<noteq> memory_status.ARCHIVED \<and> mu_status u = Some memory_status.ARCHIVED
      then Mutation_archive
      else if mu_status u = Some memory_status.DELETED then Mutation_delete
      else Mutation_update)"

primrec typeByMutation :: "memory_mutation \<Rightarrow> audit_event_type" where
  "typeByMutation Mutation_create = audit_event_type.MEMORY_CREATED"
| "typeByMutation Mutation_update = audit_event_type.MEMORY_UPDATED"
| "typeByMutation Mutation_archive = audit_event_type.MEMORY_ARCHIVED"
| "typeByMutation Mutation_delete = audit_event_type.MEMORY_DELETED"

primrec roleByMutation :: "memory_mutation \<Rightarrow> audit_subject_role" where
  "roleByMutation Mutation_create = audit_subject_role.CREATED"
| "roleByMutation Mutation_update = audit_subject_role.UPDATED"
| "roleByMutation Mutation_archive = audit_subject_role.ARCHIVED"
| "roleByMutation Mutation_delete = audit_subject_role.DELETED"

definition memory_event :: "ident \<Rightarrow> memory \<Rightarrow> memory_mutation \<Rightarrow> audit_event_input" where
  "memory_event userId m mutation =
     \<lparr> ai_userId = userId, ai_clientId = None, ai_memoryRequestId = None,
       ai_type = typeByMutation mutation, ai_actorType = audit_actor_type.USER, ai_actorId = Some userId,
       ai_metadata = no_metadata \<lparr> am_memoryId := Some (m_id m) \<rparr>,
       ai_subjects = [auditMemorySubject (m_id m) (Some (m_title m)) (roleByMutation mutation)],
       ai_inferSubjects = True \<rparr>"

primrec status_name :: "memory_status \<Rightarrow> string" where
  "status_name memory_status.SUGGESTED = ''SUGGESTED''"
| "status_name memory_status.ACTIVE = ''ACTIVE''"
| "status_name memory_status.ARCHIVED = ''ARCHIVED''"
| "status_name memory_status.EXPIRED = ''EXPIRED''"
| "status_name memory_status.DELETED = ''DELETED''"

primrec review_name :: "review_state \<Rightarrow> string" where
  "review_name review_state.PENDING = ''PENDING''"
| "review_name review_state.APPROVED = ''APPROVED''"
| "review_name review_state.REJECTED = ''REJECTED''"

primrec source_name :: "source_type \<Rightarrow> string" where
  "source_name source_type.MANUAL = ''MANUAL''"
| "source_name source_type.IMPORT = ''IMPORT''"
| "source_name source_type.CHAT = ''CHAT''"
| "source_name source_type.CLIENT_SUGGESTION = ''CLIENT_SUGGESTION''"
| "source_name source_type.CONSOLIDATION = ''CONSOLIDATION''"
| "source_name source_type.API = ''API''"
| "source_name source_type.DERIVED = ''DERIVED''"

text \<open>An entry of the memory's history by its owner, with its target and event as subjects.\<close>

definition provenance_subjects :: "ident \<Rightarrow> string \<Rightarrow> ident \<Rightarrow> provenance_subject list" where
  "provenance_subjects memoryId title auditEventId =
     [memorySubject memoryId (Some title) provenance_subject_role.TARGET,
      subject provenance_subject_type.AUDIT_EVENT (Some auditEventId) provenance_subject_role.AUDIT_EVENT]"

definition user_provenance ::
  "ident \<Rightarrow> memory \<Rightarrow> memory_provenance_entry_type \<Rightarrow> string option \<Rightarrow> ident \<Rightarrow> (string \<times> json) list
     \<Rightarrow> provenance_input" where
  "user_provenance userId m ty reason auditEventId md =
     \<lparr> pi_userId = userId, pi_memoryId = m_id m, pi_type = ty, pi_actorType = audit_actor_type.USER,
       pi_actorId = Some userId, pi_sourceType = Some (m_sourceType m),
       pi_sourceClientId = m_sourceClientId m, pi_sourceUri = m_sourceUri m, pi_suggestionId = None,
       pi_jobRunId = None, pi_auditEventId = Some auditEventId, pi_memoryRequestId = None,
       pi_reason = reason, pi_evidence = None, pi_confidence = None, pi_metadata = md,
       pi_subjects = provenance_subjects (m_id m) (m_title m) auditEventId \<rparr>"

definition create_provenance ::
  "ident \<Rightarrow> memory \<Rightarrow> ident \<Rightarrow> (string \<times> json) list \<Rightarrow> provenance_input" where
  "create_provenance userId m auditEventId sourceMetadata =
     (user_provenance userId m
        (if m_sourceType m = source_type.IMPORT then memory_provenance_entry_type.IMPORTED
         else memory_provenance_entry_type.CREATED)
        None auditEventId [(''sourceMetadata'', JObj sourceMetadata)])
       \<lparr> pi_subjects := provenance_subjects (m_id m) (m_title m) auditEventId
           @ [subject provenance_subject_type.CLIENT (m_sourceClientId m) provenance_subject_role.CLIENT] \<rparr>"

definition lifecycleProvenanceType ::
  "memory_status \<Rightarrow> memory_status option \<Rightarrow> memory_provenance_entry_type option" where
  "lifecycleProvenanceType currentStatus nextStatus =
     (if nextStatus = None \<or> nextStatus = Some currentStatus then None
      else if nextStatus = Some memory_status.ARCHIVED then Some memory_provenance_entry_type.ARCHIVED
      else if nextStatus = Some memory_status.DELETED then Some memory_provenance_entry_type.DELETED
      else if nextStatus = Some memory_status.ACTIVE \<and> currentStatus \<noteq> memory_status.ACTIVE
        then Some memory_provenance_entry_type.RESTORED
      else None)"

text \<open>\<open>lifecycleType.toLowerCase()\<close>, of the three types a status change can have.\<close>

definition lifecycle_reason :: "memory_provenance_entry_type \<Rightarrow> string" where
  "lifecycle_reason ty =
     (case ty of
        memory_provenance_entry_type.ARCHIVED \<Rightarrow> ''archived''
      | memory_provenance_entry_type.DELETED \<Rightarrow> ''deleted''
      | _ \<Rightarrow> ''restored'')"

definition sourceSummary :: "memory \<Rightarrow> json" where
  "sourceSummary m =
     JObj [(''type'', JStr (source_name (m_sourceType m))), (''clientId'', json_opt (m_sourceClientId m)),
           (''uri'', json_opt (m_sourceUri m))]"

definition changed_among :: "memory_update \<Rightarrow> string list \<Rightarrow> string \<times> json" where
  "changed_among u keys =
     (''changedFields'', json_strings (filter (\<lambda>key. key \<in> set keys) (changed_fields u)))"

definition update_provenance ::
  "ident \<Rightarrow> memory \<Rightarrow> memory \<Rightarrow> memory_update \<Rightarrow> ident \<Rightarrow> provenance_input list" where
  "update_provenance userId before after u auditEventId =
     (let lifecycleType = lifecycleProvenanceType (m_status before) (mu_status u);
          entry = user_provenance userId after
      in (case lifecycleType of
            None \<Rightarrow> []
          | Some ty \<Rightarrow>
              [entry ty (Some (lifecycle_reason ty)) auditEventId
                 [(''changedFields'', json_strings (changed_fields u)),
                  (''previousStatus'', JStr (status_name (m_status before))),
                  (''status'', JStr (status_name (m_status after)))]])
       @ (if has_field memorySourceFields u
          then [entry memory_provenance_entry_type.SOURCE_UPDATED None auditEventId
                 [changed_among u memorySourceFields,
                  (''previousSource'', sourceSummary before), (''source'', sourceSummary after),
                  (''previousSourceMetadataKeys'', json_strings (map fst (m_sourceMetadata before))),
                  (''sourceMetadataKeys'', json_strings (map fst (m_sourceMetadata after)))]]
          else [])
       @ (if has_field memoryContentFields u
          then [entry memory_provenance_entry_type.CONTENT_UPDATED None auditEventId
                 [changed_among u memoryContentFields]]
          else [])
       @ (if lifecycleType = None \<and> has_field memoryStatusFields u
          then [entry memory_provenance_entry_type.STATUS_CHANGED None auditEventId
                 [changed_among u memoryStatusFields,
                  (''previousStatus'', JStr (status_name (m_status before))),
                  (''status'', JStr (status_name (m_status after))),
                  (''previousReviewState'', JStr (review_name (m_reviewState before))),
                  (''reviewState'', JStr (review_name (m_reviewState after)))]]
          else []))"

definition record_provenance :: "time \<Rightarrow> provenance_input list \<Rightarrow> vault \<Rightarrow> vault" where
  "record_provenance now inputs db = fold (\<lambda>inp d. snd (createMemoryProvenanceEntry now inp d)) inputs db"

section \<open>MemoriesService\<close>

text \<open>A memory's response is its row; \<open>toMemoryResponse\<close> drops the owner and the bookkeeping columns.\<close>

definition getMemory :: "ident \<Rightarrow> ident \<Rightarrow> vault \<Rightarrow> error + memory" where
  "getMemory userId i db =
     (case owned_memory db userId i of
        None \<Rightarrow> Inl (NotFound ''Memory not found'')
      | Some m \<Rightarrow> Inr m)"

definition create_scan :: "create_memory \<Rightarrow> secret_scan_input" where
  "create_scan r =
     \<lparr> ss_title = Some (mc_title r), ss_body = Some (mc_body r), ss_evidence = None,
       ss_sourceMetadata = Some (mc_sourceMetadata r) \<rparr>"

definition update_scan :: "memory_update \<Rightarrow> secret_scan_input" where
  "update_scan u =
     \<lparr> ss_title = mu_title u, ss_body = mu_body u, ss_evidence = None,
       ss_sourceMetadata = mu_sourceMetadata u \<rparr>"

definition create_memory_tx :: "time \<Rightarrow> ident \<Rightarrow> create_memory \<Rightarrow> vault \<Rightarrow> memory \<times> vault" where
  "create_memory_tx now userId r db =
     (let created = new_memory now userId r db;
          (auditEventId, db1) = createAuditEvent now (memory_event userId created Mutation_create)
                                  (insert_memory created db)
      in (created, record_provenance now [create_provenance userId created auditEventId (mc_sourceMetadata r)] db1))"

definition createMemory ::
  "memory_env \<Rightarrow> time \<Rightarrow> ident \<Rightarrow> create_memory \<Rightarrow> vault \<Rightarrow> memory outcome" where
  "createMemory env now userId r db =
     (case assertNoSecretLikeContent (me_stringify env) (create_scan r) of
        Inl e \<Rightarrow> (Inl e, db)
      | Inr _ \<Rightarrow>
          (case assertExist db (mc_categoryKeys r) of
             Inl e \<Rightarrow> (Inl e, db)
           | Inr _ \<Rightarrow>
               let (created, db1) = create_memory_tx now userId r db
               in (Inr created, enqueueEmbeddingGeneration env now userId (m_id created) ''memory_created'' db1)))"

definition update_memory_tx ::
  "time \<Rightarrow> ident \<Rightarrow> memory \<Rightarrow> memory_mutation \<Rightarrow> memory_update \<Rightarrow> vault \<Rightarrow> memory \<times> vault" where
  "update_memory_tx now userId existing mutation u db =
     (let updated = (memory_toUpdateData now db u existing) \<lparr> m_updatedAt := now \<rparr>;
          db1 = write_memory now (m_id existing) (memory_toUpdateData now db u) db;
          (auditEventId, db2) = createAuditEvent now (memory_event userId updated mutation) db1
      in (updated, record_provenance now (update_provenance userId existing updated u auditEventId) db2))"

definition updateMemory ::
  "memory_env \<Rightarrow> time \<Rightarrow> ident \<Rightarrow> ident \<Rightarrow> memory_update \<Rightarrow> vault \<Rightarrow> memory outcome" where
  "updateMemory env now userId i u db =
     (case assertNoSecretLikeContent (me_stringify env) (update_scan u) of
        Inl e \<Rightarrow> (Inl e, db)
      | Inr _ \<Rightarrow>
          (case (case mu_categoryKeys u of None \<Rightarrow> Inr () | Some keys \<Rightarrow> assertExist db keys) of
             Inl e \<Rightarrow> (Inl e, db)
           | Inr _ \<Rightarrow>
               (case owned_memory db userId i of
                  None \<Rightarrow> (Inl (NotFound ''Memory not found''), db)
                | Some existing \<Rightarrow>
                    let mutation = auditMutationForUpdate (m_status existing) u;
                        (updated, db1) = update_memory_tx now userId existing mutation u db
                    in (Inr updated,
                        enqueueEmbeddingGeneration env now userId (m_id updated) ''memory_updated'' db1))))"

definition delete_request :: memory_update where
  "delete_request = no_memory_update \<lparr> mu_status := Some memory_status.DELETED \<rparr>"

text \<open>The row that \<open>deleteMemory\<close> writes has the status and \<open>updatedAt\<close> only; the request names the
  change in the history.\<close>

definition deleteMemory :: "time \<Rightarrow> ident \<Rightarrow> ident \<Rightarrow> vault \<Rightarrow> memory outcome" where
  "deleteMemory now userId i db =
     (case owned_memory db userId i of
        None \<Rightarrow> (Inl (NotFound ''Memory not found''), db)
      | Some existing \<Rightarrow>
          let deleted = existing \<lparr> m_status := memory_status.DELETED, m_updatedAt := now \<rparr>;
              db1 = write_memory now (m_id existing) (\<lambda>m. m \<lparr> m_status := memory_status.DELETED \<rparr>) db;
              (auditEventId, db2) = createAuditEvent now (memory_event userId deleted Mutation_delete) db1
          in (Inr deleted,
              record_provenance now (update_provenance userId existing deleted delete_request auditEventId) db2))"

section \<open>What the recorder leaves\<close>

lemma record_provenance_simps [audit_simps]:
  "auditEvents (record_provenance now inps db) = auditEvents db"
  "auditEventSubjects (record_provenance now inps db) = auditEventSubjects db"
  "audit_db.more (record_provenance now inps db) = audit_db.more db"
  by (induction inps arbitrary: db) (simp_all add: record_provenance_def audit_simps)

lemma record_provenance_tables [audit_simps]:
  "v_memories (record_provenance now inps db) = v_memories db"
  "v_suggestions (record_provenance now inps db) = v_suggestions db"
  "v_jobRuns (record_provenance now inps db) = v_jobRuns db"
  "v_policies (record_provenance now inps db) = v_policies db"
  "v_clients (record_provenance now inps db) = v_clients db"
  "v_requests (record_provenance now inps db) = v_requests db"
  "v_categories (record_provenance now inps db) = v_categories db"
  by (induction inps arbitrary: db) (simp_all add: record_provenance_def audit_simps)

lemma record_provenance_entries:
  "\<exists>es. provenanceEntries (record_provenance now inps db) = provenanceEntries db @ es \<and> map pe_input es = inps"
proof (induction inps arbitrary: db)
  case Nil
  then show ?case by (simp add: record_provenance_def)
next
  case (Cons inp inps)
  let ?d = "snd (createMemoryProvenanceEntry now inp db)"
  obtain es where es: "provenanceEntries (record_provenance now inps ?d) = provenanceEntries ?d @ es"
    "map pe_input es = inps" using Cons by blast
  have "provenanceEntries ?d = provenanceEntries db @ [\<lparr> pe_id = next_id db, pe_input = inp, pe_createdAt = now \<rparr>]"
    by (simp add: createMemoryProvenanceEntry_def Let_def draw_id_def)
  with es have "provenanceEntries (record_provenance now (inp # inps) db)
      = provenanceEntries db @ \<lparr> pe_id = next_id db, pe_input = inp, pe_createdAt = now \<rparr> # es"
    by (simp add: record_provenance_def)
  with es(2) show ?case by (metis list.simps(9) provenance_entry.select_convs(2))
qed

text \<open>The tables a job's producer leaves alone.\<close>

lemma enqueue_simps [audit_simps]:
  "auditEvents (enqueueEmbeddingGeneration env now u m r db) = auditEvents db"
  "auditEventSubjects (enqueueEmbeddingGeneration env now u m r db) = auditEventSubjects db"
  "provenanceEntries (enqueueEmbeddingGeneration env now u m r db) = provenanceEntries db"
  "v_memories (enqueueEmbeddingGeneration env now u m r db) = v_memories db"
  "v_suggestions (enqueueEmbeddingGeneration env now u m r db) = v_suggestions db"
  "v_policies (enqueueEmbeddingGeneration env now u m r db) = v_policies db"
  "v_clients (enqueueEmbeddingGeneration env now u m r db) = v_clients db"
  "v_requests (enqueueEmbeddingGeneration env now u m r db) = v_requests db"
  "v_categories (enqueueEmbeddingGeneration env now u m r db) = v_categories db"
  by (simp_all add: enqueueEmbeddingGeneration_def enqueueMemoryEmbedding_def Let_def insert_job_def
      write_job_def draw_id_def split: option.splits)

text \<open>Every field is a content, a source or a status field, so a request that names one leaves an
  entry.\<close>

lemma changed_fields_covered:
  assumes "changed_fields u \<noteq> []"
  shows "has_field memorySourceFields u \<or> has_field memoryContentFields u \<or> has_field memoryStatusFields u"
proof -
  obtain f where "f \<in> set (changed_fields u)" using assms by (cases "changed_fields u") auto
  moreover have "set (changed_fields u) \<subseteq> set (memorySourceFields @ memoryContentFields @ memoryStatusFields)"
  proof -
    have "set (changed_fields u) \<subseteq> set (map fst (request_fields u))" by (auto simp: changed_fields_def)
    also have "\<dots> = set (memorySourceFields @ memoryContentFields @ memoryStatusFields)"
      unfolding request_fields_def memorySourceFields_def memoryContentFields_def memoryStatusFields_def
      by (simp only: list.map fst_conv append.simps list.set insert_commute)
    finally show ?thesis .
  qed
  ultimately show ?thesis by (auto simp: has_field_def list_ex_iff)
qed

lemma update_provenance_entries:
  "inp \<in> set (update_provenance userId before after u ev) \<Longrightarrow>
     pi_userId inp = userId \<and> pi_memoryId inp = m_id after \<and> pi_auditEventId inp = Some ev"
  by (auto simp: update_provenance_def Let_def user_provenance_def split: option.splits if_splits)

lemma update_provenance_nonempty:
  "changed_fields u \<noteq> [] \<Longrightarrow> update_provenance userId before after u ev \<noteq> []"
  using changed_fields_covered[of u]
  by (auto simp: update_provenance_def Let_def split: option.splits)

lemma memory_event_subject:
  assumes "m_id m \<noteq> []"
  shows "(audit_subject_type.MEMORY, m_id m, roleByMutation mutation)
     \<in> subject_key ` set (event_subjects (memory_event userId m mutation))"
proof -
  let ?s = "auditMemorySubject (m_id m) (Some (m_title m)) (roleByMutation mutation)"
  have "subject_key ?s \<in> subject_key ` set (event_subjects (memory_event userId m mutation))"
    unfolding recorded_subjects_exact_aux
    using assms by (intro imageI) (simp add: memory_event_def auditMemorySubject_def)
  then show ?thesis by (simp add: subject_key_def auditMemorySubject_def)
qed

section \<open>A change of a memory\<close>

lemma owned_memory_SomeD:
  "owned_memory db userId i = Some m \<Longrightarrow> m \<in> set (v_memories db) \<and> m_id m = i \<and> m_userId m = userId"
  unfolding owned_memory_def by (auto dest: find_row_SomeD)

lemma owned_memory_row:
  assumes "owned_memory db userId i = Some m" "distinct (map m_id (v_memories db))"
  shows "memory_row i (v_memories db) = Some m"
  using owned_memory_SomeD[OF assms(1)] find_row_unique[OF assms(2), of m] by (auto simp: memory_row_def)

lemma toUpdateData_key [simp]:
  "m_id (memory_toUpdateData now db u m) = m_id m" "m_userId (memory_toUpdateData now db u m) = m_userId m"
  by (simp_all add: memory_toUpdateData_def)

lemma write_memory_simps [audit_simps]:
  "v_memories (write_memory now i f db) = update_memory i (\<lambda>m. (f m) \<lparr> m_updatedAt := now \<rparr>) (v_memories db)"
  "auditEvents (write_memory now i f db) = auditEvents db"
  "auditEventSubjects (write_memory now i f db) = auditEventSubjects db"
  "provenanceEntries (write_memory now i f db) = provenanceEntries db"
  "v_suggestions (write_memory now i f db) = v_suggestions db"
  "v_policies (write_memory now i f db) = v_policies db"
  "v_clients (write_memory now i f db) = v_clients db"
  "v_requests (write_memory now i f db) = v_requests db"
  "v_categories (write_memory now i f db) = v_categories db"
  "id_next (write_memory now i f db) = id_next db"
  "id_supply (write_memory now i f db) = id_supply db"
  by (simp_all add: write_memory_def)

text \<open>The effect every accepted change has: one row written, one event, and the entries of \<open>entries\<close>.\<close>

definition memory_change ::
  "time \<Rightarrow> ident \<Rightarrow> memory \<Rightarrow> (memory \<Rightarrow> memory) \<Rightarrow> memory_mutation \<Rightarrow> memory_update \<Rightarrow> vault \<Rightarrow> vault \<Rightarrow> bool" where
  "memory_change now userId existing f mutation u db db' =
     (let updated = (f existing) \<lparr> m_updatedAt := now \<rparr>; e = next_id db
      in v_memories db' = update_memory (m_id existing) (\<lambda>m. (f m) \<lparr> m_updatedAt := now \<rparr>) (v_memories db)
         \<and> auditEvents db' = auditEvents db @ [event_row now e (memory_event userId updated mutation)]
         \<and> auditEventSubjects db' = auditEventSubjects db
              @ map (subject_row_of userId e) (event_subjects (memory_event userId updated mutation))
         \<and> (\<exists>es. provenanceEntries db' = provenanceEntries db @ es
              \<and> map pe_input es = update_provenance userId existing updated u e)
         \<and> v_clients db' = v_clients db \<and> v_policies db' = v_policies db
         \<and> v_requests db' = v_requests db \<and> v_suggestions db' = v_suggestions db)"

lemma recorded_change:
  fixes db :: vault
  assumes "db' = record_provenance now (update_provenance userId existing updated u e)
             (snd (createAuditEvent now (memory_event userId updated mutation)
               (write_memory now (m_id existing) f db)))"
    and "updated = (f existing) \<lparr> m_updatedAt := now \<rparr>" "e = next_id db"
  shows "memory_change now userId existing f mutation u db db'"
proof -
  let ?d = "snd (createAuditEvent now (memory_event userId updated mutation)
               (write_memory now (m_id existing) f db))"
  obtain es where "provenanceEntries db' = provenanceEntries ?d @ es"
    "map pe_input es = update_provenance userId existing updated u e"
    using record_provenance_entries assms(1) by blast
  moreover have "next_id (write_memory now (m_id existing) f db) = next_id db"
    by (simp add: next_id_def audit_simps)
  moreover have "ai_userId (memory_event userId updated mutation) = userId" by (simp add: memory_event_def)
  ultimately show ?thesis
    unfolding memory_change_def Let_def assms(2,3)[symmetric]
    by (auto simp: assms(1) audit_simps)
qed

lemma updateMemory_change:
  assumes "updateMemory env now userId i u db = (Inr m, db')"
  obtains existing db1 where "owned_memory db userId i = Some existing"
    "m = (memory_toUpdateData now db u existing) \<lparr> m_updatedAt := now \<rparr>"
    "memory_change now userId existing (memory_toUpdateData now db u)
       (auditMutationForUpdate (m_status existing) u) u db db1"
    "db' = enqueueEmbeddingGeneration env now userId i ''memory_updated'' db1"
proof -
  obtain existing where ex: "owned_memory db userId i = Some existing"
    using assms by (auto simp: updateMemory_def split: sum.splits option.splits)
  let ?mut = "auditMutationForUpdate (m_status existing) u"
  let ?p = "update_memory_tx now userId existing ?mut u db"
  have m: "m = fst ?p" "db' = enqueueEmbeddingGeneration env now userId (m_id (fst ?p)) ''memory_updated'' (snd ?p)"
    using assms ex by (auto simp: updateMemory_def Let_def split_beta split: sum.splits option.splits)
  have "m_id existing = i" using owned_memory_SomeD[OF ex] by simp
  moreover have "memory_change now userId existing (memory_toUpdateData now db u) ?mut u db (snd ?p)"
    by (rule recorded_change[OF _ refl refl])
      (simp add: update_memory_tx_def Let_def split_beta audit_simps next_id_def)
  moreover have "fst ?p = (memory_toUpdateData now db u existing) \<lparr> m_updatedAt := now \<rparr>"
    by (simp add: update_memory_tx_def Let_def split_beta)
  ultimately show thesis using that[OF ex, of "snd ?p"] m by simp
qed

lemma deleteMemory_change:
  assumes "deleteMemory now userId i db = (Inr m, db')"
  obtains existing where "owned_memory db userId i = Some existing"
    "m = existing \<lparr> m_status := memory_status.DELETED, m_updatedAt := now \<rparr>"
    "memory_change now userId existing (\<lambda>m. m \<lparr> m_status := memory_status.DELETED \<rparr>)
       Mutation_delete delete_request db db'"
proof -
  obtain existing where ex: "owned_memory db userId i = Some existing"
    using assms by (auto simp: deleteMemory_def split: option.splits)
  have "memory_change now userId existing (\<lambda>m. m \<lparr> m_status := memory_status.DELETED \<rparr>)
       Mutation_delete delete_request db db'"
    by (rule recorded_change[OF _ refl refl])
      (use assms ex in \<open>auto simp: deleteMemory_def Let_def split_beta audit_simps next_id_def\<close>)
  then show thesis using that[OF ex] assms ex
    by (auto simp: deleteMemory_def Let_def split_beta)
qed

lemma updateMemory_error: "updateMemory env now userId i u db = (Inl e, db') \<Longrightarrow> db' = db"
  by (auto simp: updateMemory_def Let_def split_beta split: sum.splits option.splits)

lemma deleteMemory_error: "deleteMemory now userId i db = (Inl e, db') \<Longrightarrow> db' = db"
  by (auto simp: deleteMemory_def Let_def split_beta split: option.splits)

text \<open>The history of an accepted change.\<close>

definition history_of :: "ident \<Rightarrow> ident \<Rightarrow> vault \<Rightarrow> vault \<Rightarrow> bool" where
  "history_of userId i db db' =
     (\<exists>e es. auditEvents db' = auditEvents db @ [e] \<and> ae_userId e = userId
        \<and> list_ex (\<lambda>s. sr_parentId s = ae_id e \<and> sr_subjectType s = audit_subject_type.MEMORY
             \<and> sr_subjectId s = i) (auditEventSubjects db')
        \<and> provenanceEntries db' = provenanceEntries db @ es \<and> es \<noteq> []
        \<and> list_all (\<lambda>p. pi_userId (pe_input p) = userId \<and> pi_memoryId (pe_input p) = i
             \<and> pi_auditEventId (pe_input p) = Some (ae_id e)) es)"

lemma memory_change_history:
  assumes "memory_change now userId existing f mutation u db db'" "changed_fields u \<noteq> []"
    and "m_id existing = i" "i \<noteq> []" "\<And>m. m_id (f m) = m_id m"
  shows "history_of userId i db db'"
proof -
  let ?m = "(f existing) \<lparr> m_updatedAt := now \<rparr>" and ?e = "next_id db"
  let ?inp = "memory_event userId ?m mutation"
  have mid: "m_id ?m = i" using assms(3,5) by simp
  obtain es where es: "provenanceEntries db' = provenanceEntries db @ es"
    "map pe_input es = update_provenance userId existing ?m u ?e"
    and ev: "auditEvents db' = auditEvents db @ [event_row now ?e ?inp]"
    and sb: "auditEventSubjects db' = auditEventSubjects db @ map (subject_row_of userId ?e) (event_subjects ?inp)"
    using assms(1) unfolding memory_change_def Let_def by blast
  have ne: "es \<noteq> []" using es(2) update_provenance_nonempty[OF assms(2), of userId existing ?m ?e] by auto
  have all: "list_all (\<lambda>p. pi_userId (pe_input p) = userId \<and> pi_memoryId (pe_input p) = i
      \<and> pi_auditEventId (pe_input p) = Some ?e) es"
  proof (unfold list_all_iff, rule ballI)
    fix p assume "p \<in> set es"
    then have "pe_input p \<in> set (update_provenance userId existing ?m u ?e)"
      using es(2) by (metis image_eqI set_map)
    from update_provenance_entries[OF this] mid
    show "pi_userId (pe_input p) = userId \<and> pi_memoryId (pe_input p) = i
      \<and> pi_auditEventId (pe_input p) = Some ?e" by simp
  qed
  have "(audit_subject_type.MEMORY, i, roleByMutation mutation) \<in> subject_key ` set (event_subjects ?inp)"
    using memory_event_subject[of ?m mutation userId] mid assms(4) by simp
  then obtain s where s: "s \<in> set (event_subjects ?inp)"
    "subject_key s = (audit_subject_type.MEMORY, i, roleByMutation mutation)" by fastforce
  let ?r = "subject_row_of userId ?e s"
  have "?r \<in> set (auditEventSubjects db')" unfolding sb using s(1) by simp
  moreover have "sr_parentId ?r = ?e" "sr_subjectType ?r = audit_subject_type.MEMORY" "sr_subjectId ?r = i"
    using s(2) by (simp_all add: subject_row_of_def subject_key_def)
  ultimately have "list_ex (\<lambda>s. sr_parentId s = ?e \<and> sr_subjectType s = audit_subject_type.MEMORY
      \<and> sr_subjectId s = i) (auditEventSubjects db')"
    unfolding list_ex_iff by blast
  then show ?thesis
    unfolding history_of_def using es(1) ev ne all
    by (intro exI[of _ "event_row now ?e ?inp"] exI[of _ es]) (simp add: memory_event_def)
qed

text \<open>No edit of a memory goes unrecorded: an accepted edit that names a field, and an accepted
  deletion, add exactly one audit event of the owner, with the memory among its subjects, and at least
  one entry to the memory's history, every one of which points to that event.\<close>

theorem memory_edits_leave_history:
  assumes "i \<noteq> []"
    and "updateMemory env now userId i u db = (Inr m, db') \<and> changed_fields u \<noteq> []
         \<or> deleteMemory now userId i db = (Inr m, db')"
  shows "history_of userId i db db'"
  using assms(2)
proof
  assume a: "updateMemory env now userId i u db = (Inr m, db') \<and> changed_fields u \<noteq> []"
  then have up: "updateMemory env now userId i u db = (Inr m, db')" and f: "changed_fields u \<noteq> []" by auto
  show "history_of userId i db db'"
  proof (rule updateMemory_change[OF up])
    fix existing db1
    assume o: "owned_memory db userId i = Some existing"
      and ch: "memory_change now userId existing (memory_toUpdateData now db u)
        (auditMutationForUpdate (m_status existing) u) u db db1"
      and db': "db' = enqueueEmbeddingGeneration env now userId i ''memory_updated'' db1"
    have "history_of userId i db db1"
      using memory_change_history[OF ch f _ assms(1)] owned_memory_SomeD[OF o] by simp
    then show ?thesis by (simp add: db' history_of_def audit_simps)
  qed
next
  assume del: "deleteMemory now userId i db = (Inr m, db')"
  have f: "changed_fields delete_request \<noteq> []" by code_simp
  show "history_of userId i db db'"
    using deleteMemory_change[OF del] memory_change_history[OF _ f _ assms(1)] owned_memory_SomeD by fastforce
qed

text \<open>An edit or a deletion by one owner touches that owner's row and nothing else: an error
  leaves the database as it was, every other memory is the row it was, the written one keeps its id and
  owner, and no client, policy, request or suggestion changes.\<close>

theorem memory_edits_touch_one_row:
  assumes "distinct (map m_id (v_memories db))"
    and "updateMemory env now userId i u db = (res, db') \<or> deleteMemory now userId i db = (res, db')"
  shows "(case res of
            Inl e \<Rightarrow> db' = db
          | Inr m \<Rightarrow> memory_row i (v_memories db') = Some m \<and> m_id m = i \<and> m_userId m = userId
              \<and> m_updatedAt m = now
              \<and> map_option m_userId (memory_row i (v_memories db)) = Some userId
              \<and> v_clients db' = v_clients db \<and> v_policies db' = v_policies db
              \<and> v_requests db' = v_requests db \<and> v_suggestions db' = v_suggestions db)
       \<and> (j = i \<or> memory_row j (v_memories db') = memory_row j (v_memories db))"
proof (cases res)
  case (Inl e)
  then show ?thesis using assms(2) updateMemory_error deleteMemory_error by fastforce
next
  case (Inr m)
  have key: "\<forall>x. m_id ((f x) \<lparr> m_updatedAt := now \<rparr>) = m_id x"
    if "f = memory_toUpdateData now db u \<or> f = (\<lambda>m. m \<lparr> m_status := memory_status.DELETED \<rparr>)" for f
    using that by auto
  have "\<exists>existing f mutation u' db1. owned_memory db userId i = Some existing
      \<and> (f = memory_toUpdateData now db u \<or> f = (\<lambda>m. m \<lparr> m_status := memory_status.DELETED \<rparr>))
      \<and> m = (f existing) \<lparr> m_updatedAt := now \<rparr> \<and> memory_change now userId existing f mutation u' db db1
      \<and> v_memories db' = v_memories db1 \<and> v_clients db' = v_clients db1 \<and> v_policies db' = v_policies db1
      \<and> v_requests db' = v_requests db1 \<and> v_suggestions db' = v_suggestions db1"
    using assms(2) unfolding Inr
  proof
    assume "updateMemory env now userId i u db = (Inr m, db')"
    then show ?thesis
      by (rule updateMemory_change) (auto simp: audit_simps)
  next
    assume "deleteMemory now userId i db = (Inr m, db')"
    then show ?thesis by (rule deleteMemory_change) auto
  qed
  then obtain existing f mutation u' db1 where ex: "owned_memory db userId i = Some existing"
    and f: "f = memory_toUpdateData now db u \<or> f = (\<lambda>m. m \<lparr> m_status := memory_status.DELETED \<rparr>)"
    and m: "m = (f existing) \<lparr> m_updatedAt := now \<rparr>"
    and ch: "memory_change now userId existing f mutation u' db db1"
    and t: "v_memories db' = v_memories db1" "v_clients db' = v_clients db1" "v_policies db' = v_policies db1"
      "v_requests db' = v_requests db1" "v_suggestions db' = v_suggestions db1" by blast
  have i: "m_id existing = i" "m_userId existing = userId" using owned_memory_SomeD[OF ex] by auto
  have row: "memory_row i (v_memories db) = Some existing" using owned_memory_row[OF ex assms(1)] .
  have vm: "v_memories db' = update_memory i (\<lambda>m. (f m) \<lparr> m_updatedAt := now \<rparr>) (v_memories db)"
    using ch t(1) i(1) by (simp add: memory_change_def Let_def)
  have "memory_row j (v_memories db') = memory_row j (v_memories db)" if "j \<noteq> i"
    unfolding vm by (rule memories.look_change_other[OF key[OF f] that])
  moreover have "memory_row i (v_memories db') = Some m"
    unfolding vm memories.look_change_same[OF key[OF f]] row m by simp
  moreover have "m_id m = i" "m_userId m = userId" "m_updatedAt m = now" using f i by (auto simp: m)
  ultimately show ?thesis
    using Inr ch t(2-5) row i(2) by (auto simp: memory_change_def Let_def)
qed

section \<open>A sample edit\<close>

definition sample_memory_env :: memory_env where
  "sample_memory_env = \<lparr> me_stringify = (\<lambda>_. ''{}''), me_queue = None \<rparr>"

definition sample_edit :: memory_update where
  "sample_edit = no_memory_update \<lparr> mu_body := Some ''Uses emacs'', mu_status := Some memory_status.ARCHIVED \<rparr>"

lemma sample_edit_ok:
  "\<not> isl (fst (updateMemory sample_memory_env 9 ''u1'' ''m1'' sample_edit sample_vault))"
  "\<not> isl (fst (deleteMemory 9 ''u1'' ''m1'' sample_vault))"
  "changed_fields sample_edit \<noteq> []" "distinct (map m_id (v_memories sample_vault))"
  by code_simp+

lemma memory_edits_leave_history_witness:
  "(\<exists>m db'. updateMemory sample_memory_env 9 ''u1'' ''m1'' sample_edit sample_vault = (Inr m, db')
      \<and> history_of ''u1'' ''m1'' sample_vault db')
   \<and> (\<exists>m db'. deleteMemory 9 ''u1'' ''m1'' sample_vault = (Inr m, db')
      \<and> history_of ''u1'' ''m1'' sample_vault db')"
proof -
  obtain m where m: "updateMemory sample_memory_env 9 ''u1'' ''m1'' sample_edit sample_vault
      = (Inr m, snd (updateMemory sample_memory_env 9 ''u1'' ''m1'' sample_edit sample_vault))"
    using outcome_ok[OF sample_edit_ok(1)] by blast
  obtain m' where m': "deleteMemory 9 ''u1'' ''m1'' sample_vault
      = (Inr m', snd (deleteMemory 9 ''u1'' ''m1'' sample_vault))"
    using outcome_ok[OF sample_edit_ok(2)] by blast
  have ne: "''m1'' \<noteq> []" by simp
  show ?thesis
    by (intro conjI exI) (rule m, rule memory_edits_leave_history[OF ne disjI1[OF conjI[OF m sample_edit_ok(3)]]],
        rule m', rule memory_edits_leave_history[OF ne disjI2[OF m']])
qed

lemma memory_edits_touch_one_row_witness:
  "\<exists>m db'. updateMemory sample_memory_env 9 ''u1'' ''m1'' sample_edit sample_vault = (Inr m, db')
     \<and> memory_row ''m1'' (v_memories db') = Some m
     \<and> memory_row ''m2'' (v_memories db') = memory_row ''m2'' (v_memories sample_vault)"
proof -
  obtain m where m: "updateMemory sample_memory_env 9 ''u1'' ''m1'' sample_edit sample_vault
      = (Inr m, snd (updateMemory sample_memory_env 9 ''u1'' ''m1'' sample_edit sample_vault))"
    using outcome_ok[OF sample_edit_ok(1)] by blast
  note x = memory_edits_touch_one_row[OF sample_edit_ok(4) disjI1[OF m], of "''m2''", unfolded sum.case]
  have "''m2'' \<noteq> ''m1''" by simp
  then have "memory_row ''m2'' (v_memories (snd (updateMemory sample_memory_env 9 ''u1'' ''m1'' sample_edit sample_vault)))
      = memory_row ''m2'' (v_memories sample_vault)" using x by blast
  with m x show ?thesis by blast
qed

end
