(* ===== verification/Suggestions.thy ===== *)
theory Suggestions
  imports Memories Requests
begin

text \<open>
  The intake of suggestions (\<open>memory-suggestions/\<close>): \<open>suggestion-intake.service.ts\<close>,
  \<open>suggestion-writer.service.ts\<close>, \<open>suggestion-records.ts\<close>, \<open>suggestion-subjects.ts\<close>,
  \<open>suggestion-denial.ts\<close>, \<open>capture-intake.ts\<close> and \<open>quick-capture.ts\<close>.  A client's proposal is
  written as a memory, queued for the owner's review, or denied, as the gate decides; a quick capture
  is always queued.
\<close>

section \<open>The suggestion table\<close>

definition suggestion_row :: "ident \<Rightarrow> suggestion list \<Rightarrow> suggestion option" where
  "suggestion_row i = find_row (\<lambda>s. s_id s = i)"

definition update_suggestion ::
  "ident \<Rightarrow> (suggestion \<Rightarrow> suggestion) \<Rightarrow> suggestion list \<Rightarrow> suggestion list" where
  "update_suggestion i f = update_where (\<lambda>s. s_id s = i) f"

interpretation suggestions: row_table suggestion_row update_suggestion "\<lambda>f. \<forall>s. s_id (f s) = s_id s"
  by unfold_locales (simp_all add: suggestion_row_def update_suggestion_def find_key_update)

definition insert_suggestion :: "suggestion \<Rightarrow> vault \<Rightarrow> vault" where
  "insert_suggestion s db = draw_id db \<lparr> v_suggestions := v_suggestions db @ [s] \<rparr>"

section \<open>Records\<close>

text \<open>\<open>CreateMemorySuggestionRequest\<close>\<close>

record suggestion_request =
  sq_purpose :: "string option"
  sq_kind :: memory_kind
  sq_title :: string
  sq_body :: string
  sq_categoryKeys :: "ident list"
  sq_sensitivity :: memory_sensitivity
  sq_evidence :: "string option"
  sq_confidence :: rat
  sq_expiresAt :: "time option"
  sq_sourceMetadata :: "(string \<times> json) list"

definition new_suggestion ::
  "time \<Rightarrow> ident \<Rightarrow> ident \<Rightarrow> source_type \<Rightarrow> ident option \<Rightarrow> suggestion_request
     \<Rightarrow> memory_suggestion_status \<Rightarrow> ident option \<Rightarrow> (string \<times> json) list \<Rightarrow> suggestion" where
  "new_suggestion now i userId sourceType sourceClientId request status policyId serverMetadata =
     \<lparr> s_id = i, s_userId = userId, s_sourceType = sourceType, s_sourceClientId = sourceClientId,
       s_statedPurpose = sq_purpose request, s_policyId = policyId, s_title = sq_title request,
       s_body = sq_body request, s_suggestedKind = sq_kind request,
       s_suggestedSensitivity = sq_sensitivity request, s_suggestedCategories = sq_categoryKeys request,
       s_evidence = sq_evidence request,
       s_sourceMetadata = spread serverMetadata
         [(''statedPurpose'', json_opt (sq_purpose request)), (''policyId'', json_opt policyId),
          (''caller'', JObj (sq_sourceMetadata request))],
       s_confidence = sq_confidence request, s_status = status, s_expiresAt = sq_expiresAt request,
       s_createdAt = now, s_updatedAt = now \<rparr>"

definition createSuggestionRecord ::
  "time \<Rightarrow> ident \<Rightarrow> source_type \<Rightarrow> ident option \<Rightarrow> suggestion_request \<Rightarrow> memory_suggestion_status
     \<Rightarrow> ident option \<Rightarrow> (string \<times> json) list \<Rightarrow> vault \<Rightarrow> suggestion \<times> vault" where
  "createSuggestionRecord now userId sourceType sourceClientId request status policyId serverMetadata db =
     (let s = new_suggestion now (next_id db) userId sourceType sourceClientId request status policyId serverMetadata
      in (s, insert_suggestion s db))"

text \<open>The categories are connected by key; every caller has checked that they exist.\<close>

definition memory_of_suggestion ::
  "time \<Rightarrow> vault \<Rightarrow> suggestion \<Rightarrow> (string \<times> json) list \<Rightarrow> memory" where
  "memory_of_suggestion now db s md =
     \<lparr> m_id = next_id db, m_sensitivity = s_suggestedSensitivity s, m_status = memory_status.ACTIVE,
       m_reviewState = review_state.APPROVED, m_expiresAt = s_expiresAt s,
       m_categories = toCategoryConnect db (s_suggestedCategories s), m_userId = s_userId s,
       m_kind = s_suggestedKind s, m_title = s_title s, m_body = s_body s, m_confidence = s_confidence s,
       m_sourceType = s_sourceType s, m_sourceClientId = s_sourceClientId s, m_sourceUri = None,
       m_sourceMetadata = spread
         [(''suggestionId'', JStr (s_id s)), (''evidence'', json_opt (s_evidence s)),
          (''sourceMetadata'', JObj (s_sourceMetadata s))] md,
       m_lastConfirmedAt = None, m_consolidationRelevantAt = now, m_lastConsolidatedAt = None,
       m_semanticInspectedAt = None, m_createdAt = now, m_updatedAt = now \<rparr>"

definition createMemoryFromSuggestion ::
  "time \<Rightarrow> suggestion \<Rightarrow> (string \<times> json) list \<Rightarrow> vault \<Rightarrow> memory \<times> vault" where
  "createMemoryFromSuggestion now s md db =
     (let m = memory_of_suggestion now db s md in (m, insert_memory m db))"

definition suggestionAuditSubjects ::
  "suggestion \<Rightarrow> ident option \<Rightarrow> ident option \<Rightarrow> string option \<Rightarrow> audit_subject list" where
  "suggestionAuditSubjects s clientId policyId policyLabel =
     [subject audit_subject_type.MEMORY_SUGGESTION (Some (s_id s)) audit_subject_role.SUGGESTION
        \<lparr>sj_label := Some (s_title s)\<rparr>,
      subject audit_subject_type.CLIENT clientId audit_subject_role.CLIENT,
      subject audit_subject_type.POLICY policyId audit_subject_role.POLICY \<lparr>sj_label := policyLabel\<rparr>]"

definition suggestionProvenanceSubjects ::
  "memory \<Rightarrow> suggestion \<Rightarrow> ident option \<Rightarrow> ident option \<Rightarrow> ident list \<Rightarrow> provenance_subject list" where
  "suggestionProvenanceSubjects m s clientId policyId auditEventIds =
     [memorySubject (m_id m) (Some (m_title m)) provenance_subject_role.TARGET,
      subject provenance_subject_type.MEMORY_SUGGESTION (Some (s_id s)) provenance_subject_role.SUGGESTION
        \<lparr>sj_label := Some (s_title s)\<rparr>,
      subject provenance_subject_type.CLIENT clientId provenance_subject_role.CLIENT,
      subject provenance_subject_type.POLICY policyId provenance_subject_role.POLICY]
     @ map (\<lambda>i. subject provenance_subject_type.AUDIT_EVENT (Some i) provenance_subject_role.AUDIT_EVENT)
         auditEventIds"

section \<open>Events\<close>

definition client_actor_event ::
  "ident \<Rightarrow> ident \<Rightarrow> audit_event_type \<Rightarrow> audit_metadata \<Rightarrow> audit_subject list \<Rightarrow> audit_event_input" where
  "client_actor_event userId clientId ty md subjects =
     \<lparr> ai_userId = userId, ai_clientId = Some clientId, ai_memoryRequestId = None, ai_type = ty,
       ai_actorType = audit_actor_type.CLIENT, ai_actorId = Some clientId, ai_metadata = md,
       ai_subjects = subjects, ai_inferSubjects = True \<rparr>"

definition user_actor_event ::
  "ident \<Rightarrow> audit_event_type \<Rightarrow> audit_metadata \<Rightarrow> audit_subject list \<Rightarrow> audit_event_input" where
  "user_actor_event userId ty md subjects =
     \<lparr> ai_userId = userId, ai_clientId = None, ai_memoryRequestId = None, ai_type = ty,
       ai_actorType = audit_actor_type.USER, ai_actorId = Some userId, ai_metadata = md,
       ai_subjects = subjects, ai_inferSubjects = True \<rparr>"

definition authority_label :: "authority \<Rightarrow> string" where
  "authority_label policy = appPermissionsLabel (map_option c_name (au_client policy))"

definition recordSuggestionDenial ::
  "time \<Rightarrow> ident \<Rightarrow> ident \<Rightarrow> string option \<Rightarrow> authority \<Rightarrow> vault \<Rightarrow> ident \<times> vault" where
  "recordSuggestionDenial now userId clientId purpose policy db =
     createAuditEvent now
       (client_actor_event userId clientId audit_event_type.MEMORY_SUGGESTION_DENIED
          (no_metadata \<lparr> am_policyId := pr_policyId policy,
             am_policyLabel := Some (authority_label policy),
             am_details :=
               [(''statedPurpose'', json_opt purpose),
                (''policyVersion'', json_version (au_policyVersion policy)),
                (''reason'', json_opt (map_option reason_name (pr_reason policy))),
                (''decision'', JStr ''DENY''), (''operation'', JStr ''SUGGEST'')] \<rparr>) []) db"

text \<open>The facts of a request that its event records.\<close>

definition request_facts :: "suggestion_request \<Rightarrow> (string \<times> json) list" where
  "request_facts r =
     [(''kind'', JStr (kind_name (sq_kind r))), (''sensitivity'', JStr (sensitivity_name (sq_sensitivity r))),
      (''categoryKeys'', json_strings (sq_categoryKeys r)), (''confidence'', JNum (sq_confidence r)),
      (''expiresAt'', json_version (sq_expiresAt r)), (''caller'', JObj (sq_sourceMetadata r))]"

section \<open>SuggestionWriterService\<close>

text \<open>\<open>MemorySuggestionResponse\<close>; the status is \<open>None\<close> for \<open>DENIED\<close>.\<close>

record suggestion_response =
  sg_suggestionId :: "ident option"
  sg_memoryId :: "ident option"
  sg_status :: "memory_suggestion_status option"
  sg_policyId :: "ident option"
  sg_auditEventId :: "ident option"
  sg_reason :: "memory_request_reason option"
  sg_decision :: decision
  sg_denied :: "(ident \<times> memory_request_reason) list"

definition direct_metadata ::
  "string \<Rightarrow> suggestion_request \<Rightarrow> ident \<Rightarrow> ident option \<Rightarrow> time option \<Rightarrow> ident \<Rightarrow> ident
     \<Rightarrow> (string \<times> json) list \<Rightarrow> audit_metadata" where
  "direct_metadata transport request clientId policyId policyVersion suggestionId memoryId facts =
     no_metadata \<lparr> am_suggestionId := Some suggestionId, am_memoryId := Some memoryId,
       am_clientId := Some clientId, am_policyId := policyId,
       am_details := [(''transport'', JStr transport), (''policyVersion'', json_version policyVersion),
          (''reason'', JNull), (''statedPurpose'', json_opt (sq_purpose request))]
         @ facts @ [(''directWrite'', JBool True)] \<rparr>"

definition createDirectMemoryFromSuggestion ::
  "time \<Rightarrow> ident \<Rightarrow> ident \<Rightarrow> string \<Rightarrow> suggestion_request \<Rightarrow> ident option \<Rightarrow> time option \<Rightarrow> string
     \<Rightarrow> (string \<times> json) list \<Rightarrow> vault \<Rightarrow> suggestion_response \<times> vault" where
  "createDirectMemoryFromSuggestion now userId clientId transport request policyId policyVersion
      policyLabel serverMetadata db =
     (let (createdSuggestion, db1) = createSuggestionRecord now userId source_type.CLIENT_SUGGESTION
            (Some clientId) request memory_suggestion_status.APPLIED policyId
            (spread serverMetadata [(''directWrite'', JBool True)]) db;
          (createdMemory, db2) = createMemoryFromSuggestion now createdSuggestion
            [(''policyId'', json_opt policyId), (''directWrite'', JBool True)] db1;
          subjects = suggestionAuditSubjects createdSuggestion (Some clientId) policyId (Some policyLabel);
          createdSubject = auditMemorySubject (m_id createdMemory) (Some (m_title createdMemory))
            audit_subject_role.CREATED;
          metadata = direct_metadata transport request clientId policyId policyVersion
            (s_id createdSuggestion) (m_id createdMemory);
          (suggestionAuditEvent, db3) = createAuditEvent now
            (client_actor_event userId clientId audit_event_type.MEMORY_SUGGESTION_CREATED
               (metadata (request_facts request)) (subjects @ [createdSubject])) db2;
          (memoryAuditEvent, db4) = createAuditEvent now
            (client_actor_event userId clientId audit_event_type.MEMORY_CREATED
               (metadata []) (createdSubject # subjects)) db3;
          db5 = snd (createMemoryProvenanceEntry now
            \<lparr> pi_userId = userId, pi_memoryId = m_id createdMemory,
              pi_type = memory_provenance_entry_type.SUGGESTED, pi_actorType = audit_actor_type.CLIENT,
              pi_actorId = Some clientId, pi_sourceType = Some source_type.CLIENT_SUGGESTION,
              pi_sourceClientId = Some clientId, pi_sourceUri = None,
              pi_suggestionId = Some (s_id createdSuggestion), pi_jobRunId = None,
              pi_auditEventId = Some memoryAuditEvent, pi_memoryRequestId = None, pi_reason = None,
              pi_evidence = sq_evidence request, pi_confidence = Some (sq_confidence request),
              pi_metadata = [(''directWrite'', JBool True), (''policyId'', json_opt policyId),
                (''suggestionAuditEventId'', JStr suggestionAuditEvent)],
              pi_subjects = suggestionProvenanceSubjects createdMemory createdSuggestion (Some clientId)
                policyId [suggestionAuditEvent, memoryAuditEvent] \<rparr> db4)
      in (\<lparr> sg_suggestionId = Some (s_id createdSuggestion), sg_memoryId = Some (m_id createdMemory),
            sg_status = Some (s_status createdSuggestion), sg_policyId = policyId,
            sg_auditEventId = Some suggestionAuditEvent, sg_reason = None, sg_decision = ALLOW,
            sg_denied = [] \<rparr>, db5))"

section \<open>SuggestionIntakeService\<close>

definition suggestion_scan :: "suggestion_request \<Rightarrow> secret_scan_input" where
  "suggestion_scan r =
     \<lparr> ss_title = Some (sq_title r), ss_body = Some (sq_body r), ss_evidence = sq_evidence r,
       ss_sourceMetadata = Some (sq_sourceMetadata r) \<rparr>"

definition proposedMemoryId :: ident where "proposedMemoryId = ''proposed_memory''"

definition proposed_memory :: "memory_sensitivity \<Rightarrow> time option \<Rightarrow> ident list \<Rightarrow> candidate_memory" where
  "proposed_memory sensitivity expiresAt keys =
     \<lparr> m_id = proposedMemoryId, m_sensitivity = sensitivity, m_status = memory_status.ACTIVE,
       m_reviewState = review_state.APPROVED, m_expiresAt = expiresAt,
       m_categories = map (\<lambda>key. \<lparr> cat_key = key, cat_name = [] \<rparr>) keys \<rparr>"

record suggestion_input =
  su_userId :: ident
  su_clientId :: ident
  su_transport :: string
  su_reviewOnly :: bool
  su_serverMetadata :: "(string \<times> json) list"
  su_body :: suggestion_request

datatype prepared_suggestion = Direct_write authority | Evaluated authority

primrec prepared_decision :: "prepared_suggestion \<Rightarrow> decision" where
  "prepared_decision (Direct_write p) = pr_decision p"
| "prepared_decision (Evaluated p) = pr_decision p"

definition prepareSuggestion ::
  "memory_env \<Rightarrow> time \<Rightarrow> suggestion_input \<Rightarrow> vault \<Rightarrow> error + prepared_suggestion" where
  "prepareSuggestion env now inp db =
     (let request = su_body inp
      in case assertNoSecretLikeContent (me_stringify env) (suggestion_scan request) of
           Inl e \<Rightarrow> Inl e
         | Inr _ \<Rightarrow>
             (case assertExist db (sq_categoryKeys request) of
                Inl e \<Rightarrow> Inl e
              | Inr _ \<Rightarrow>
                  let proposed = proposed_memory (sq_sensitivity request) (sq_expiresAt request) (sq_categoryKeys request);
                      evaluate = (\<lambda>operation. evaluateForClient now db (su_userId inp) (su_clientId inp)
                        operation (Some [proposed]))
                  in if \<not> su_reviewOnly inp \<and> pr_decision (evaluate policy_operation.WRITE) = ALLOW
                     then Inr (Direct_write (evaluate policy_operation.WRITE))
                     else Inr (Evaluated (evaluate policy_operation.SUGGEST))))"

definition createEvaluatedSuggestion ::
  "time \<Rightarrow> suggestion_input \<Rightarrow> authority \<Rightarrow> vault \<Rightarrow> suggestion_response \<times> vault" where
  "createEvaluatedSuggestion now inp policy db =
     (let request = su_body inp
      in if pr_decision policy = DENY
         then let (ev, db1) = recordSuggestionDenial now (su_userId inp) (su_clientId inp) (sq_purpose request) policy db
              in (\<lparr> sg_suggestionId = None, sg_memoryId = None, sg_status = None,
                    sg_policyId = pr_policyId policy, sg_auditEventId = Some ev, sg_reason = pr_reason policy,
                    sg_decision = pr_decision policy, sg_denied = pr_denied policy \<rparr>, db1)
         else
           let (s, db1) = createSuggestionRecord now (su_userId inp) source_type.CLIENT_SUGGESTION
                 (Some (su_clientId inp)) request memory_suggestion_status.QUEUED_FOR_REVIEW
                 (pr_policyId policy) (su_serverMetadata inp) db;
               (ev, db2) = createAuditEvent now
                 (client_actor_event (su_userId inp) (su_clientId inp) audit_event_type.MEMORY_SUGGESTION_CREATED
                    (no_metadata \<lparr> am_suggestionId := Some (s_id s), am_clientId := Some (su_clientId inp),
                       am_policyId := pr_policyId policy,
                       am_details := [(''transport'', JStr (su_transport inp)),
                          (''policyVersion'', json_version (au_policyVersion policy)),
                          (''statedPurpose'', json_opt (sq_purpose request)),
                          (''reason'', json_opt (map_option reason_name (pr_reason policy)))]
                         @ request_facts request
                         @ [(''requiresConfirmation'', JBool (pr_requiresConfirmation policy))] \<rparr>)
                    (suggestionAuditSubjects s (Some (su_clientId inp)) (pr_policyId policy)
                       (Some (authority_label policy)))) db1
           in (\<lparr> sg_suggestionId = Some (s_id s), sg_memoryId = None, sg_status = Some (s_status s),
                 sg_policyId = pr_policyId policy, sg_auditEventId = Some ev, sg_reason = pr_reason policy,
                 sg_decision = pr_decision policy, sg_denied = pr_denied policy \<rparr>, db2))"

primrec apply_prepared ::
  "time \<Rightarrow> suggestion_input \<Rightarrow> prepared_suggestion \<Rightarrow> vault \<Rightarrow> suggestion_response \<times> vault" where
  "apply_prepared now inp (Direct_write policy) =
     createDirectMemoryFromSuggestion now (su_userId inp) (su_clientId inp) (su_transport inp) (su_body inp)
       (pr_policyId policy) (au_policyVersion policy) (authority_label policy) (su_serverMetadata inp)"
| "apply_prepared now inp (Evaluated policy) = createEvaluatedSuggestion now inp policy"

text \<open>\<open>createSuggestion\<close> in the caller's transaction, and in one of its own with the job after it.\<close>

definition createSuggestion_in ::
  "memory_env \<Rightarrow> time \<Rightarrow> suggestion_input \<Rightarrow> vault \<Rightarrow> suggestion_response outcome" where
  "createSuggestion_in env now inp db =
     (case prepareSuggestion env now inp db of
        Inl e \<Rightarrow> (Inl e, db)
      | Inr p \<Rightarrow> (let (response, db1) = apply_prepared now inp p db in (Inr response, db1)))"

definition createSuggestion ::
  "memory_env \<Rightarrow> time \<Rightarrow> suggestion_input \<Rightarrow> vault \<Rightarrow> suggestion_response outcome" where
  "createSuggestion env now inp db =
     (case createSuggestion_in env now inp db of
        (Inl e, _) \<Rightarrow> (Inl e, db)
      | (Inr response, db1) \<Rightarrow>
          (Inr response,
           (if truthy (sg_memoryId response)
            then enqueueEmbeddingGeneration env now (su_userId inp) (the (sg_memoryId response)) ''memory_created'' db1
            else db1)))"

definition createUserSuggestion ::
  "memory_env \<Rightarrow> time \<Rightarrow> ident \<Rightarrow> suggestion_request \<Rightarrow> vault \<Rightarrow> suggestion outcome" where
  "createUserSuggestion env now userId request db =
     (case assertNoSecretLikeContent (me_stringify env) (suggestion_scan request) of
        Inl e \<Rightarrow> (Inl e, db)
      | Inr _ \<Rightarrow>
          (case assertExist db (sq_categoryKeys request) of
             Inl e \<Rightarrow> (Inl e, db)
           | Inr _ \<Rightarrow>
               let (created, db1) = createSuggestionRecord now userId source_type.CHAT None request
                     memory_suggestion_status.QUEUED_FOR_REVIEW None [] db
               in (Inr created,
                   snd (createAuditEvent now
                     (user_actor_event userId audit_event_type.MEMORY_SUGGESTION_CREATED
                        (no_metadata \<lparr> am_suggestionId := Some (s_id created),
                           am_details := [(''statedPurpose'', json_opt (sq_purpose request)),
                              (''policyVersion'', JNull), (''reason'', JNull)] @ request_facts request \<rparr>)
                        (suggestionAuditSubjects created None None None)) db1))))"

section \<open>Tables\<close>

lemma insert_simps [audit_simps]:
  fixes db :: vault
  shows
  "v_suggestions (insert_suggestion s db) = v_suggestions db @ [s]"
  "v_memories (insert_suggestion s db) = v_memories db"
  "auditEvents (insert_suggestion s db) = auditEvents db"
  "provenanceEntries (insert_suggestion s db) = provenanceEntries db"
  "v_categories (insert_suggestion s db) = v_categories db"
  "v_memories (insert_memory m db) = v_memories db @ [m]"
  "v_suggestions (insert_memory m db) = v_suggestions db"
  "auditEvents (insert_memory m db) = auditEvents db"
  "provenanceEntries (insert_memory m db) = provenanceEntries db"
  "v_categories (insert_memory m db) = v_categories db"
  "v_clients (insert_suggestion s db) = v_clients db" "v_clients (insert_memory m db) = v_clients db"
  "v_policies (insert_suggestion s db) = v_policies db" "v_policies (insert_memory m db) = v_policies db"
  "v_requests (insert_suggestion s db) = v_requests db" "v_requests (insert_memory m db) = v_requests db"
  by (simp_all add: insert_suggestion_def insert_memory_def draw_id_def)

lemma new_suggestion_simps [simp]:
  "s_id (new_suggestion now i u ty c r st p md) = i" "s_userId (new_suggestion now i u ty c r st p md) = u"
  "s_status (new_suggestion now i u ty c r st p md) = st"
  "s_sourceClientId (new_suggestion now i u ty c r st p md) = c"
  "s_suggestedCategories (new_suggestion now i u ty c r st p md) = sq_categoryKeys r"
  "s_suggestedSensitivity (new_suggestion now i u ty c r st p md) = sq_sensitivity r"
  "s_expiresAt (new_suggestion now i u ty c r st p md) = sq_expiresAt r"
  by (simp_all add: new_suggestion_def)

lemma memory_of_suggestion_simps [simp]:
  "m_id (memory_of_suggestion now db s md) = next_id db"
  "m_userId (memory_of_suggestion now db s md) = s_userId s"
  "m_sourceClientId (memory_of_suggestion now db s md) = s_sourceClientId s"
  "m_status (memory_of_suggestion now db s md) = memory_status.ACTIVE"
  "m_reviewState (memory_of_suggestion now db s md) = review_state.APPROVED"
  "m_sensitivity (memory_of_suggestion now db s md) = s_suggestedSensitivity s"
  "m_expiresAt (memory_of_suggestion now db s md) = s_expiresAt s"
  "m_categories (memory_of_suggestion now db s md) = toCategoryConnect db (s_suggestedCategories s)"
  by (simp_all add: memory_of_suggestion_def)

text \<open>Connecting keys that exist connects all of them.\<close>

lemma toCategoryConnect_keys:
  "assertExist db keys = Inr () \<Longrightarrow> cat_key ` set (toCategoryConnect db keys) = set keys"
  by (rule keys_toCategoryConnect[OF assertExist_Inr])

text \<open>The gate on one candidate.\<close>

lemma evaluate_single:
  "pr_decision (evaluateForClient now db u c op (Some [m])) = ALLOW \<longleftrightarrow>
     (\<exists>cl p. authorized db now u c op cl p \<and> \<not> p_requiresConfirmation p \<and> disclosable p now m
        \<and> pr_policyId (evaluateForClient now db u c op (Some [m])) = Some (p_id p))"
  "pr_decision (evaluateForClient now db u c op (Some [m])) \<noteq> DENY \<longleftrightarrow>
     (\<exists>cl p. authorized db now u c op cl p \<and> disclosable p now m
        \<and> pr_policyId (evaluateForClient now db u c op (Some [m])) = Some (p_id p))"
proof -
  let ?r = "evaluateForClient now db u c op (Some [m])"
  have "(pr_decision ?r = ALLOW \<longleftrightarrow> (\<exists>cl p. authorized db now u c op cl p \<and> \<not> p_requiresConfirmation p
          \<and> disclosable p now m \<and> pr_policyId ?r = Some (p_id p)))
      \<and> (pr_decision ?r \<noteq> DENY \<longleftrightarrow> (\<exists>cl p. authorized db now u c op cl p \<and> disclosable p now m
          \<and> pr_policyId ?r = Some (p_id p)))"
  proof (cases "\<exists>cl p. authorized db now u c op cl p")
    case False
    then show ?thesis using evaluateForClient_unauthorized(1)[of db now u c op "Some [m]"] by simp
  next
    case True
    then obtain cl p where a: "authorized db now u c op cl p" by blast
    have uniq: "p' = p" if "authorized db now u c op cl' p'" for cl' p'
      using a that by (simp add: authorized_def)
    have pid: "pr_policyId ?r = Some (p_id p)"
      by (simp add: evaluateForClient_authorized[OF a] evaluate_policyId)
    have dec: "pr_decision ?r = (if \<not> disclosable p now m then DENY
        else if p_requiresConfirmation p then NEEDS_CONFIRMATION else ALLOW)"
      by (simp add: evaluateForClient_authorized[OF a] evaluateCandidateMemories_def Let_def
          candidate_denial_None[symmetric] split: option.splits)
    have "(\<exists>cl p'. authorized db now u c op cl p' \<and> Q p') = Q p" for Q using a uniq by blast
    then show ?thesis by (simp add: dec pid)
  qed
  then show "pr_decision ?r = ALLOW \<longleftrightarrow> (\<exists>cl p. authorized db now u c op cl p \<and> \<not> p_requiresConfirmation p
      \<and> disclosable p now m \<and> pr_policyId ?r = Some (p_id p))"
    and "pr_decision ?r \<noteq> DENY \<longleftrightarrow> (\<exists>cl p. authorized db now u c op cl p \<and> disclosable p now m
      \<and> pr_policyId ?r = Some (p_id p))" by blast+
qed

lemma evaluate_single_denied:
  assumes "pr_decision (evaluateForClient now db u c op (Some [m])) = DENY" "authorized db now u c op cl p"
  shows "\<not> disclosable p now m"
  using assms(1)
  by (auto simp: evaluateForClient_authorized[OF assms(2)] evaluateCandidateMemories_def Let_def
      candidate_denial_None[symmetric] split: option.splits if_splits)

section \<open>What an intake writes\<close>

lemma createDirect_tables:
  fixes db :: vault
  assumes "createDirectMemoryFromSuggestion now u c tr r pid pv pl md db = (res, db')"
    and "assertExist db (sq_categoryKeys r) = Inr ()"
  obtains m s where "v_memories db' = v_memories db @ [m]" "v_suggestions db' = v_suggestions db @ [s]"
    "sg_memoryId res = Some (m_id m)" "sg_suggestionId res = Some (s_id s)" "sg_policyId res = pid"
    "s_status s = memory_suggestion_status.APPLIED" "s_userId s = u" "s_id s = next_id db"
    "m_userId m = u" "m_sourceClientId m = Some c" "m_status m = memory_status.ACTIVE"
    "m_reviewState m = review_state.APPROVED" "m_sensitivity m = sq_sensitivity r"
    "m_expiresAt m = sq_expiresAt r" "category_keys m = set (sq_categoryKeys r)"
    "m_id m = next_id (insert_suggestion s db)"
    "v_clients db' = v_clients db" "v_policies db' = v_policies db" "v_requests db' = v_requests db"
proof -
  let ?s = "new_suggestion now (next_id db) u source_type.CLIENT_SUGGESTION (Some c) r
      memory_suggestion_status.APPLIED pid (spread md [(''directWrite'', JBool True)])"
  let ?d1 = "insert_suggestion ?s db"
  let ?m = "memory_of_suggestion now ?d1 ?s [(''policyId'', json_opt pid), (''directWrite'', JBool True)]"
  have "v_categories ?d1 = v_categories db" by (simp add: audit_simps)
  then have "toCategoryConnect ?d1 (sq_categoryKeys r) = toCategoryConnect db (sq_categoryKeys r)"
    by (simp add: toCategoryConnect_def)
  then have k: "category_keys ?m = set (sq_categoryKeys r)"
    using toCategoryConnect_keys[OF assms(2)] by (simp add: category_keys_def)
  show thesis
    by (rule that[of ?m ?s])
      (use assms(1) k in \<open>auto simp: createDirectMemoryFromSuggestion_def createSuggestionRecord_def
         createMemoryFromSuggestion_def Let_def split_beta audit_simps\<close>)
qed

lemma createEvaluated_cases:
  fixes db :: vault
  assumes "createEvaluatedSuggestion now inp policy db = (res, db')"
  obtains (denied) "pr_decision policy = DENY" "sg_status res = None" "sg_memoryId res = None"
      "sg_suggestionId res = None" "sg_decision res = DENY"
      "v_suggestions db' = v_suggestions db" "v_memories db' = v_memories db"
      "\<exists>e. auditEvents db' = auditEvents db @ [e] \<and> ae_type e = audit_event_type.MEMORY_SUGGESTION_DENIED
         \<and> ae_userId e = su_userId inp"
    | (queued) s where "pr_decision policy \<noteq> DENY" "sg_memoryId res = None"
      "sg_status res = Some memory_suggestion_status.QUEUED_FOR_REVIEW" "sg_suggestionId res = Some (s_id s)"
      "sg_policyId res = pr_policyId policy"
      "v_suggestions db' = v_suggestions db @ [s]" "v_memories db' = v_memories db"
      "s_status s = memory_suggestion_status.QUEUED_FOR_REVIEW" "s_userId s = su_userId inp"
      "s_sourceClientId s = Some (su_clientId inp)" "s_id s = next_id db"
proof (cases "pr_decision policy = DENY")
  case True
  then show thesis
    using assms by (intro denied)
      (auto simp: createEvaluatedSuggestion_def recordSuggestionDenial_def client_actor_event_def
        Let_def split_beta audit_simps)
next
  case False
  let ?s = "new_suggestion now (next_id db) (su_userId inp) source_type.CLIENT_SUGGESTION
      (Some (su_clientId inp)) (su_body inp) memory_suggestion_status.QUEUED_FOR_REVIEW
      (pr_policyId policy) (su_serverMetadata inp)"
  show thesis
    using assms False by (intro queued[of ?s])
      (auto simp: createEvaluatedSuggestion_def createSuggestionRecord_def Let_def split_beta audit_simps)
qed

text \<open>What the decision to write means: the gate said so, for this very proposal.\<close>

definition proposal :: "suggestion_input \<Rightarrow> candidate_memory" where
  "proposal inp = proposed_memory (sq_sensitivity (su_body inp)) (sq_expiresAt (su_body inp))
     (sq_categoryKeys (su_body inp))"

lemma prepareSuggestion_cases:
  assumes "prepareSuggestion env now inp db = Inr p"
  obtains (direct) a where "p = Direct_write a" "\<not> su_reviewOnly inp" "pr_decision a = ALLOW"
      "a = evaluateForClient now db (su_userId inp) (su_clientId inp) policy_operation.WRITE (Some [proposal inp])"
      "assertExist db (sq_categoryKeys (su_body inp)) = Inr ()"
    | (evaluated) a where "p = Evaluated a"
      "a = evaluateForClient now db (su_userId inp) (su_clientId inp) policy_operation.SUGGEST (Some [proposal inp])"
  using assms by (auto simp: prepareSuggestion_def proposal_def Let_def split: sum.splits if_splits)

lemma disclosable_cong:
  "m_status m = m_status m' \<Longrightarrow> m_reviewState m = m_reviewState m' \<Longrightarrow> m_expiresAt m = m_expiresAt m' \<Longrightarrow>
   m_sensitivity m = m_sensitivity m' \<Longrightarrow> category_keys m = category_keys m' \<Longrightarrow>
   disclosable p now m = disclosable p now m'"
  by (simp add: disclosable_def)

lemma proposal_simps [simp]:
  "m_status (proposal inp) = memory_status.ACTIVE" "m_reviewState (proposal inp) = review_state.APPROVED"
  "m_expiresAt (proposal inp) = sq_expiresAt (su_body inp)"
  "m_sensitivity (proposal inp) = sq_sensitivity (su_body inp)"
  "category_keys (proposal inp) = set (sq_categoryKeys (su_body inp))"
  by (auto simp: proposal_def proposed_memory_def category_keys_def)

lemma createSuggestion_tables:
  assumes "createSuggestion env now inp db = (Inr res, db')"
  obtains p db1 where "prepareSuggestion env now inp db = Inr p" "apply_prepared now inp p db = (res, db1)"
    "v_memories db' = v_memories db1" "v_suggestions db' = v_suggestions db1" "auditEvents db' = auditEvents db1"
proof (cases "prepareSuggestion env now inp db")
  case (Inr p)
  then show thesis
    using assms
    by (intro that[OF Inr, of "snd (apply_prepared now inp p db)"])
      (auto simp: createSuggestion_def createSuggestion_in_def Let_def split_beta audit_simps split: if_splits)
qed (use assms in \<open>auto simp: createSuggestion_def createSuggestion_in_def\<close>)

text \<open>C5. A client's proposal has exactly the effect its permissions allow.  It becomes a memory only
  when the caller did not ask for review and the client holds WRITE without confirmation under a policy
  that would let it read that memory back; otherwise no memory changes, and it is queued only when the
  client holds SUGGEST under a policy that covers it; otherwise the proposal is refused, and nothing is
  stored but the audit event of the refusal.\<close>

theorem suggestion_needs_authority:
  assumes "createSuggestion env now inp db = (Inr res, db')"
  shows "case sg_memoryId res of
      Some i \<Rightarrow>
        (\<exists>cl p m. \<not> su_reviewOnly inp \<and> authorized db now (su_userId inp) (su_clientId inp) policy_operation.WRITE cl p
           \<and> \<not> p_requiresConfirmation p \<and> sg_policyId res = Some (p_id p)
           \<and> v_memories db' = v_memories db @ [m] \<and> m_id m = i \<and> m_userId m = su_userId inp
           \<and> m_sourceClientId m = Some (su_clientId inp) \<and> disclosable p now m)
    | None \<Rightarrow> v_memories db' = v_memories db \<and>
        (case sg_status res of
           Some st \<Rightarrow>
             (\<exists>cl p s. authorized db now (su_userId inp) (su_clientId inp) policy_operation.SUGGEST cl p
                \<and> disclosable p now (proposal inp) \<and> sg_policyId res = Some (p_id p)
                \<and> v_suggestions db' = v_suggestions db @ [s] \<and> sg_suggestionId res = Some (s_id s)
                \<and> s_userId s = su_userId inp \<and> s_status s = memory_suggestion_status.QUEUED_FOR_REVIEW
                \<and> st = memory_suggestion_status.QUEUED_FOR_REVIEW)
         | None \<Rightarrow>
             v_suggestions db' = v_suggestions db \<and> sg_decision res = DENY
             \<and> (\<nexists>cl p. authorized db now (su_userId inp) (su_clientId inp) policy_operation.SUGGEST cl p
                  \<and> disclosable p now (proposal inp))
             \<and> (\<exists>e. auditEvents db' = auditEvents db @ [e] \<and> ae_userId e = su_userId inp
                  \<and> ae_type e = audit_event_type.MEMORY_SUGGESTION_DENIED))"
proof -
  obtain p db1 where p: "prepareSuggestion env now inp db = Inr p" "apply_prepared now inp p db = (res, db1)"
    and t: "v_memories db' = v_memories db1" "v_suggestions db' = v_suggestions db1" "auditEvents db' = auditEvents db1"
    using createSuggestion_tables[OF assms] by blast
  from p(1) show ?thesis
  proof (cases rule: prepareSuggestion_cases)
    case (direct a)
    obtain cl pl where a: "authorized db now (su_userId inp) (su_clientId inp) policy_operation.WRITE cl pl"
      "\<not> p_requiresConfirmation pl" "disclosable pl now (proposal inp)" "pr_policyId a = Some (p_id pl)"
      using direct(3,4) evaluate_single(1) by metis
    have "createDirectMemoryFromSuggestion now (su_userId inp) (su_clientId inp) (su_transport inp) (su_body inp)
       (pr_policyId a) (au_policyVersion a) (authority_label a) (su_serverMetadata inp) db = (res, db1)"
      using p(2) direct(1) by simp
    then obtain m s where m: "v_memories db1 = v_memories db @ [m]" "sg_memoryId res = Some (m_id m)"
      "sg_policyId res = pr_policyId a" "m_userId m = su_userId inp" "m_sourceClientId m = Some (su_clientId inp)"
      "m_status m = memory_status.ACTIVE" "m_reviewState m = review_state.APPROVED"
      "m_sensitivity m = sq_sensitivity (su_body inp)" "m_expiresAt m = sq_expiresAt (su_body inp)"
      "category_keys m = set (sq_categoryKeys (su_body inp))"
      by (rule createDirect_tables[OF _ direct(5)])
    have "disclosable pl now m = disclosable pl now (proposal inp)"
      by (simp add: disclosable_def m)
    then show ?thesis using a m t direct(2) by auto
  next
    case (evaluated a)
    have "createEvaluatedSuggestion now inp a db = (res, db1)" using p(2) evaluated(1) by simp
    then show ?thesis
    proof (cases rule: createEvaluated_cases)
      case denied
      then show ?thesis
        using t evaluate_single_denied[OF denied(1)[unfolded evaluated(2)]] by auto
    next
      case (queued s)
      obtain cl pl where "authorized db now (su_userId inp) (su_clientId inp) policy_operation.SUGGEST cl pl"
        "disclosable pl now (proposal inp)" "pr_policyId a = Some (p_id pl)"
        using queued(1) evaluated(2) evaluate_single(2) by metis
      then show ?thesis using queued t by auto
    qed
  qed
qed

section \<open>A sample proposal\<close>

definition sample_proposal :: suggestion_request where
  "sample_proposal =
     \<lparr> sq_purpose = Some ''notes'', sq_kind = memory_kind.FACT, sq_title = ''Tea'', sq_body = ''Likes tea'',
       sq_categoryKeys = [''work''], sq_sensitivity = memory_sensitivity.LOW, sq_evidence = None,
       sq_confidence = 1 / 2, sq_expiresAt = None, sq_sourceMetadata = [] \<rparr>"

definition sample_input :: suggestion_input where
  "sample_input =
     \<lparr> su_userId = ''u1'', su_clientId = ''c1'', su_transport = ''http_api'', su_reviewOnly = False,
       su_serverMetadata = [], su_body = sample_proposal \<rparr>"

definition write_vault :: vault where
  "write_vault = sample_vault
     \<lparr> v_policies := [sample_policy \<lparr> p_operations := [policy_operation.READ, policy_operation.WRITE] \<rparr>] \<rparr>"

lemma sample_input_scan:
  "assertNoSecretLikeContent (me_stringify sample_memory_env) (suggestion_scan (su_body sample_input)) = Inr ()"
  by (rule short_text_accepted) code_simp

lemma sample_input_gate:
  "assertExist write_vault (sq_categoryKeys (su_body sample_input)) = Inr ()"
  "pr_decision (evaluateForClient 9 write_vault (su_userId sample_input) (su_clientId sample_input)
     policy_operation.WRITE (Some [proposal sample_input])) = ALLOW" "\<not> su_reviewOnly sample_input"
  by code_simp+

lemma sample_input_prepared:
  "case prepareSuggestion sample_memory_env 9 sample_input write_vault of
     Inr p \<Rightarrow> (case p of Direct_write a \<Rightarrow> True | Evaluated a \<Rightarrow> False) | Inl e \<Rightarrow> False"
  using sample_input_gate
  by (simp add: prepareSuggestion_def sample_input_scan Let_def proposal_def)

lemma sample_input_written:
  "case fst (createSuggestion sample_memory_env 9 sample_input write_vault) of
     Inr res \<Rightarrow> sg_memoryId res \<noteq> None | Inl e \<Rightarrow> False"
  using sample_input_prepared
  by (auto simp: createSuggestion_def createSuggestion_in_def createDirectMemoryFromSuggestion_def Let_def
      split_beta split: sum.splits prepared_suggestion.splits)

lemma suggestion_needs_authority_witness:
  "\<exists>res db' m cl p. createSuggestion sample_memory_env 9 sample_input write_vault = (Inr res, db')
     \<and> authorized write_vault 9 ''u1'' ''c1'' policy_operation.WRITE cl p
     \<and> v_memories db' = v_memories write_vault @ [m] \<and> m_userId m = ''u1'' \<and> disclosable p 9 m"
proof -
  obtain res where r: "createSuggestion sample_memory_env 9 sample_input write_vault
      = (Inr res, snd (createSuggestion sample_memory_env 9 sample_input write_vault))"
    and i: "sg_memoryId res \<noteq> None"
    using outcome_okE[OF sample_input_written] by blast
  obtain j where j: "sg_memoryId res = Some j" using i by blast
  have u: "su_userId sample_input = ''u1''" "su_clientId sample_input = ''c1''" by (simp_all add: sample_input_def)
  show ?thesis
    using suggestion_needs_authority[OF r, unfolded j option.case u] r by blast
qed

end
