(* ===== verification/SuggestionReview.thy ===== *)
theory SuggestionReview
  imports Suggestions
begin

text \<open>
  The owner's review of suggestions (\<open>memory-suggestions/\<close>): \<open>claim-suggestion.ts\<close>,
  \<open>suggestion-review.service.ts\<close>, \<open>archive-suggestion-applier.ts\<close> with
  \<open>archive-suggestion-subjects.ts\<close>, and \<open>suggestion-bulk-review.service.ts\<close>.  A decision claims the
  suggestion's row inside its transaction, so a suggestion is decided once; a transaction that throws
  leaves the database it found.
\<close>

section \<open>The claim\<close>

datatype verdict = Apply | Reject

primrec verdict_status :: "verdict \<Rightarrow> memory_suggestion_status" where
  "verdict_status Apply = memory_suggestion_status.APPLIED"
| "verdict_status Reject = memory_suggestion_status.REJECTED"

definition decide_row :: "time \<times> verdict \<Rightarrow> suggestion \<Rightarrow> suggestion" where
  "decide_row x s = s \<lparr> s_status := verdict_status (snd x), s_updatedAt := fst x \<rparr>"

definition reviewable :: "ident \<Rightarrow> suggestion \<Rightarrow> bool" where
  "reviewable userId s = (s_userId s = userId \<and> s_status s = memory_suggestion_status.QUEUED_FOR_REVIEW)"

text \<open>\<open>updateMany where { id, userId, status }\<close>: whether a row was changed, and the table.\<close>

definition claim_suggestion ::
  "ident \<Rightarrow> time \<times> verdict \<Rightarrow> ident \<Rightarrow> suggestion list \<Rightarrow> bool \<times> suggestion list" where
  "claim_suggestion userId x i ss =
     (list_ex (\<lambda>s. s_id s = i \<and> reviewable userId s) ss,
      update_where (\<lambda>s. s_id s = i \<and> reviewable userId s) (decide_row x) ss)"

definition claimSuggestion ::
  "time \<Rightarrow> ident \<Rightarrow> ident \<Rightarrow> verdict \<Rightarrow> vault \<Rightarrow> error + vault" where
  "claimSuggestion now userId i v db =
     (let (won, ss) = claim_suggestion userId (now, v) i (v_suggestions db)
      in if won then Inr (db \<lparr> v_suggestions := ss \<rparr>)
         else Inl (Conflict ''Memory suggestion is not reviewable''))"

interpretation review_claims: claim_table suggestion_row update_suggestion "\<lambda>f. \<forall>s. s_id (f s) = s_id s"
  "\<lambda>ss. distinct (map s_id ss)" "reviewable userId" decide_row "claim_suggestion userId" for userId
proof unfold_locales
  fix x :: "time \<times> verdict" and s :: suggestion and ss :: "suggestion list" and f k
  show "\<forall>s. s_id (decide_row x s) = s_id s" by (simp add: decide_row_def)
  show "\<not> reviewable userId (decide_row x s)"
    by (cases "snd x") (simp_all add: decide_row_def reviewable_def)
  show "distinct (map s_id (update_suggestion k f ss))" if "distinct (map s_id ss)" "\<forall>s. s_id (f s) = s_id s"
    using that by (simp add: update_suggestion_def map_update_where)
  show "claim_suggestion userId x k ss = (True, update_suggestion k (decide_row x) ss)"
    if "distinct (map s_id ss)" "suggestion_row k ss = Some s" "reviewable userId s"
    using conditional_update_won[where key = s_id and P = "reviewable userId", OF that(1) that(2)[unfolded suggestion_row_def] that(3)]
    by (simp add: claim_suggestion_def update_suggestion_def)
  show "claim_suggestion userId x k ss = (False, ss)"
    if "distinct (map s_id ss)" "\<And>s. suggestion_row k ss = Some s \<Longrightarrow> \<not> reviewable userId s"
    using conditional_update_lost[where key = s_id and P = "reviewable userId", OF that(1) that(2)[unfolded suggestion_row_def]]
    by (simp add: claim_suggestion_def)
qed

section \<open>SuggestionReviewService\<close>

definition owned_suggestion :: "vault \<Rightarrow> ident \<Rightarrow> ident \<Rightarrow> suggestion option" where
  "owned_suggestion db userId i = find_row (\<lambda>s. s_id s = i \<and> s_userId s = userId) (v_suggestions db)"

definition listUserSuggestions ::
  "vault \<Rightarrow> ident \<Rightarrow> memory_suggestion_status option \<Rightarrow> pagination_query \<Rightarrow> suggestion list \<times> pagination" where
  "listUserSuggestions db userId status query =
     (let rows = filter (\<lambda>s. s_userId s = userId
            \<and> (case status of Some st \<Rightarrow> s_status s = st | None \<Rightarrow> True)) (v_suggestions db);
          pagination = buildPagination query (length rows)
      in (page_rows pagination (sort_key (\<lambda>s. - s_createdAt s) rows), pagination))"

text \<open>\<open>suggestion.update\<close> after the claim.\<close>

definition write_suggestion :: "time \<Rightarrow> ident \<Rightarrow> verdict \<Rightarrow> vault \<Rightarrow> vault" where
  "write_suggestion now i v db =
     db \<lparr> v_suggestions := update_suggestion i (decide_row (now, v)) (v_suggestions db) \<rparr>"

definition review_provenance ::
  "ident \<Rightarrow> memory \<Rightarrow> suggestion \<Rightarrow> ident \<Rightarrow> ident \<Rightarrow> provenance_input" where
  "review_provenance userId m existing suggestionEvent memoryEvent =
     \<lparr> pi_userId = userId, pi_memoryId = m_id m, pi_type = memory_provenance_entry_type.SUGGESTED,
       pi_actorType = audit_actor_type.USER, pi_actorId = Some userId,
       pi_sourceType = Some (s_sourceType existing), pi_sourceClientId = s_sourceClientId existing,
       pi_sourceUri = None, pi_suggestionId = Some (s_id existing), pi_jobRunId = None,
       pi_auditEventId = Some memoryEvent, pi_memoryRequestId = None, pi_reason = None,
       pi_evidence = s_evidence existing, pi_confidence = Some (s_confidence existing),
       pi_metadata = [(''suggestionAuditEventId'', JStr suggestionEvent)],
       pi_subjects = suggestionProvenanceSubjects m existing (s_sourceClientId existing) None
         [suggestionEvent, memoryEvent] \<rparr>"

definition apply_suggestion_tx ::
  "time \<Rightarrow> ident \<Rightarrow> suggestion \<Rightarrow> vault \<Rightarrow> (suggestion \<times> memory) outcome" where
  "apply_suggestion_tx now userId existing db =
     (case claimSuggestion now userId (s_id existing) Apply db of
        Inl e \<Rightarrow> (Inl e, db)
      | Inr db1 \<Rightarrow>
          let (m, db2) = createMemoryFromSuggestion now existing [] db1;
              db3 = write_suggestion now (s_id existing) Apply db2;
              subjects = suggestionAuditSubjects existing (s_sourceClientId existing) None None;
              createdSubject = auditMemorySubject (m_id m) (Some (m_title m)) audit_subject_role.CREATED;
              (suggestionEvent, db4) = createAuditEvent now
                (user_actor_event userId audit_event_type.MEMORY_SUGGESTION_APPROVED
                   (no_metadata \<lparr> am_suggestionId := Some (s_id existing), am_memoryId := Some (m_id m) \<rparr>)
                   (createdSubject # subjects)) db3;
              (memoryEvent, db5) = createAuditEvent now
                (user_actor_event userId audit_event_type.MEMORY_CREATED
                   (no_metadata \<lparr> am_memoryId := Some (m_id m), am_suggestionId := Some (s_id existing),
                      am_clientId := s_sourceClientId existing \<rparr>)
                   (createdSubject # subjects)) db4
          in (Inr (decide_row (now, Apply) existing, m),
              snd (createMemoryProvenanceEntry now (review_provenance userId m existing suggestionEvent memoryEvent) db5)))"

section \<open>Archive suggestions\<close>

text \<open>A string of the stored metadata, and JavaScript's truth of a value.  A version is written as the
  text of an instant, so it is compared as one.\<close>

definition md_string :: "(string \<times> json) list \<Rightarrow> string \<Rightarrow> string option" where
  "md_string md key = (case map_of md key of Some (JStr s) \<Rightarrow> Some s | _ \<Rightarrow> None)"

definition stringMetadata :: "(string \<times> json) list \<Rightarrow> string \<Rightarrow> string option" where
  "stringMetadata md key = (case md_string md key of Some s \<Rightarrow> if s \<noteq> [] then Some s else None | None \<Rightarrow> None)"

definition json_truthy :: "json option \<Rightarrow> bool" where
  "json_truthy v =
     (case v of None \<Rightarrow> False | Some JNull \<Rightarrow> False | Some (JBool b) \<Rightarrow> b | Some (JNum n) \<Rightarrow> n \<noteq> 0
      | Some (JStr s) \<Rightarrow> s \<noteq> [] | _ \<Rightarrow> True)"

definition version_changed :: "(string \<times> json) list \<Rightarrow> string \<Rightarrow> memory \<Rightarrow> bool" where
  "version_changed md key m =
     (json_truthy (map_of md key) \<and> map_of md key \<noteq> Some (JTime (m_updatedAt m)))"

definition target_stale :: "(string \<times> json) list \<Rightarrow> memory \<Rightarrow> bool" where
  "target_stale md target =
     (json_truthy (map_of md ''targetVersion'')
      \<and> (m_status target \<noteq> memory_status.ACTIVE
         \<or> map_of md ''targetVersion'' \<noteq> Some (JTime (m_updatedAt target))))"

definition survivor_of :: "vault \<Rightarrow> ident \<Rightarrow> ident \<Rightarrow> memory option" where
  "survivor_of db userId i =
     find_row (\<lambda>m. m_id m = i \<and> m_userId m = userId \<and> m_status m = memory_status.ACTIVE
       \<and> m_reviewState m = review_state.APPROVED) (v_memories db)"

definition survivor_changed :: "time \<Rightarrow> vault \<Rightarrow> ident \<Rightarrow> (string \<times> json) list \<Rightarrow> memory \<Rightarrow> bool" where
  "survivor_changed now db userId md target =
     (case md_string md ''canonicalMemoryId'' of
        None \<Rightarrow> False
      | Some i \<Rightarrow>
          (case survivor_of db userId i of
             None \<Rightarrow> True
           | Some survivor \<Rightarrow>
               m_id survivor = m_id target
               \<or> (case m_expiresAt survivor of Some e \<Rightarrow> e \<le> now | None \<Rightarrow> False)
               \<or> version_changed md ''canonicalVersion'' survivor))"

definition archive_status :: "(string \<times> json) list \<Rightarrow> memory_status" where
  "archive_status md =
     (if md_string md ''reason'' = Some ''expired'' then memory_status.EXPIRED else memory_status.ARCHIVED)"

definition findCanonicalMemoryForSuggestion ::
  "vault \<Rightarrow> ident \<Rightarrow> (string \<times> json) list \<Rightarrow> memory option" where
  "findCanonicalMemoryForSuggestion db userId md =
     Option.bind (stringMetadata md ''canonicalMemoryId'') (owned_memory db userId)"

definition archiveAuditSubjects ::
  "suggestion \<Rightarrow> memory \<Rightarrow> memory option \<Rightarrow> ident option \<Rightarrow> audit_subject list" where
  "archiveAuditSubjects s target canonical jobRunId =
     [auditMemorySubject (m_id target) (Some (m_title target)) audit_subject_role.ARCHIVED,
      subject audit_subject_type.MEMORY (map_option m_id canonical) audit_subject_role.CANONICAL
        \<lparr>sj_label := map_option m_title canonical\<rparr>,
      subject audit_subject_type.MEMORY_SUGGESTION (Some (s_id s)) audit_subject_role.SUGGESTION
        \<lparr>sj_label := Some (s_title s)\<rparr>,
      subject audit_subject_type.JOB_RUN jobRunId audit_subject_role.JOB]"

definition archiveProvenanceSubjects ::
  "suggestion \<Rightarrow> memory \<Rightarrow> memory option \<Rightarrow> ident option \<Rightarrow> ident list \<Rightarrow> provenance_subject list" where
  "archiveProvenanceSubjects s target canonical jobRunId auditEventIds =
     [memorySubject (m_id target) (Some (m_title target)) provenance_subject_role.TARGET,
      subject provenance_subject_type.MEMORY (map_option m_id canonical) provenance_subject_role.CANONICAL
        \<lparr>sj_label := map_option m_title canonical\<rparr>,
      subject provenance_subject_type.MEMORY_SUGGESTION (Some (s_id s)) provenance_subject_role.SUGGESTION
        \<lparr>sj_label := Some (s_title s)\<rparr>,
      subject provenance_subject_type.JOB_RUN jobRunId provenance_subject_role.JOB]
     @ map (\<lambda>i. subject provenance_subject_type.AUDIT_EVENT (Some i) provenance_subject_role.AUDIT_EVENT)
         auditEventIds"

definition archive_provenance ::
  "ident \<Rightarrow> suggestion \<Rightarrow> memory \<Rightarrow> memory option \<Rightarrow> (string \<times> json) list \<Rightarrow> ident \<Rightarrow> ident \<Rightarrow> provenance_input" where
  "archive_provenance userId existing archived canonical md suggestionEvent archiveEvent =
     \<lparr> pi_userId = userId, pi_memoryId = m_id archived,
       pi_type = memory_provenance_entry_type.CONSOLIDATION_APPLIED, pi_actorType = audit_actor_type.USER,
       pi_actorId = Some userId, pi_sourceType = Some source_type.CONSOLIDATION, pi_sourceClientId = None,
       pi_sourceUri = None, pi_suggestionId = Some (s_id existing), pi_jobRunId = stringMetadata md ''jobRunId'',
       pi_auditEventId = Some archiveEvent, pi_memoryRequestId = None, pi_reason = stringMetadata md ''reason'',
       pi_evidence = s_evidence existing, pi_confidence = Some (s_confidence existing),
       pi_metadata = [(''mode'', JStr (case stringMetadata md ''mode'' of Some m \<Rightarrow> m | None \<Rightarrow> ''REVIEW_ONLY'')),
         (''suggestionAuditEventId'', JStr suggestionEvent)],
       pi_subjects = archiveProvenanceSubjects existing archived canonical (stringMetadata md ''jobRunId'')
         [suggestionEvent, archiveEvent] \<rparr>"

definition archive_metadata ::
  "suggestion \<Rightarrow> memory \<Rightarrow> memory option \<Rightarrow> (string \<times> json) list \<Rightarrow> audit_metadata" where
  "archive_metadata existing archived canonical md =
     no_metadata \<lparr> am_suggestionId := Some (s_id existing), am_memoryId := Some (m_id archived),
       am_canonicalMemoryId := map_option m_id canonical, am_jobRunId := stringMetadata md ''jobRunId'',
       am_details := [(''action'', JStr ''archive_memory''),
         (''reason'', json_opt (stringMetadata md ''reason''))] \<rparr>"

text \<open>The writes of an accepted archive, on the target as it is now.\<close>

definition archive_writes ::
  "time \<Rightarrow> ident \<Rightarrow> suggestion \<Rightarrow> (string \<times> json) list \<Rightarrow> memory \<Rightarrow> vault \<Rightarrow> vault" where
  "archive_writes now userId existing md target db1 =
     (let archived = target \<lparr> m_status := archive_status md, m_updatedAt := now \<rparr>;
          db2 = write_memory now (m_id target) (\<lambda>m. m \<lparr> m_status := archive_status md \<rparr>) db1;
          db3 = write_suggestion now (s_id existing) Apply db2;
          canonical = findCanonicalMemoryForSuggestion db3 userId md;
          subjects = archiveAuditSubjects existing archived canonical (stringMetadata md ''jobRunId'');
          metadata = archive_metadata existing archived canonical md;
          (suggestionEvent, db4) = createAuditEvent now
            (user_actor_event userId audit_event_type.MEMORY_SUGGESTION_APPROVED metadata subjects) db3;
          (archiveEvent, db5) = createAuditEvent now
            (user_actor_event userId audit_event_type.MEMORY_ARCHIVED metadata subjects) db4
      in snd (createMemoryProvenanceEntry now
           (archive_provenance userId existing archived canonical md suggestionEvent archiveEvent) db5))"

definition applyArchiveSuggestion ::
  "time \<Rightarrow> ident \<Rightarrow> suggestion \<Rightarrow> vault \<Rightarrow> (suggestion \<times> memory) outcome" where
  "applyArchiveSuggestion now userId existing db =
     (let md = s_sourceMetadata existing
      in if s_sourceType existing \<noteq> source_type.CONSOLIDATION
         then (Inl (BadRequest ''Only consolidation suggestions can archive memories''), db)
         else case stringMetadata md ''targetMemoryId'' of
           None \<Rightarrow> (Inl (BadRequest ''Archive suggestion is missing a target''), db)
         | Some targetMemoryId \<Rightarrow>
             (case claimSuggestion now userId (s_id existing) Apply db of
                Inl e \<Rightarrow> (Inl e, db)
              | Inr db1 \<Rightarrow>
                  (case owned_memory db1 userId targetMemoryId of
                     None \<Rightarrow> (Inl (NotFound ''Target memory not found''), db)
                   | Some target \<Rightarrow>
                       if target_stale md target
                       then (Inl (Conflict ''This proposal is stale; run consolidation again.''), db)
                       else if survivor_changed now db1 userId md target
                       then (Inl (Conflict ''The surviving memory changed; run consolidation again.''), db)
                       else (Inr (decide_row (now, Apply) existing,
                                  target \<lparr> m_status := archive_status md, m_updatedAt := now \<rparr>),
                             archive_writes now userId existing md target db1))))"

section \<open>Decisions\<close>

definition is_archive :: "suggestion \<Rightarrow> bool" where
  "is_archive s = (s_sourceType s = source_type.CONSOLIDATION
     \<and> map_of (s_sourceMetadata s) ''action'' = Some (JStr ''archive_memory''))"

definition applyLoadedUserSuggestion ::
  "memory_env \<Rightarrow> time \<Rightarrow> ident \<Rightarrow> suggestion \<Rightarrow> vault \<Rightarrow> (suggestion \<times> memory) outcome" where
  "applyLoadedUserSuggestion env now userId existing db =
     (if is_archive existing then applyArchiveSuggestion now userId existing db
      else case apply_suggestion_tx now userId existing db of
        (Inl e, db1) \<Rightarrow> (Inl e, db1)
      | (Inr (s, m), db1) \<Rightarrow>
          (Inr (s, m), enqueueEmbeddingGeneration env now userId (m_id m) ''memory_created'' db1))"

definition applyUserSuggestion ::
  "memory_env \<Rightarrow> time \<Rightarrow> ident \<Rightarrow> ident \<Rightarrow> vault \<Rightarrow> (suggestion \<times> memory) outcome" where
  "applyUserSuggestion env now userId i db =
     (case owned_suggestion db userId i of
        None \<Rightarrow> (Inl (NotFound ''Memory suggestion not found''), db)
      | Some existing \<Rightarrow>
          if s_status existing \<noteq> memory_suggestion_status.QUEUED_FOR_REVIEW
          then (Inl (Conflict ''Memory suggestion is not reviewable''), db)
          else case assertExist db (s_suggestedCategories existing) of
            Inl e \<Rightarrow> (Inl e, db)
          | Inr _ \<Rightarrow> applyLoadedUserSuggestion env now userId existing db)"

definition rejectLoadedUserSuggestion ::
  "time \<Rightarrow> ident \<Rightarrow> suggestion \<Rightarrow> vault \<Rightarrow> suggestion outcome" where
  "rejectLoadedUserSuggestion now userId existing db =
     (case claimSuggestion now userId (s_id existing) Reject db of
        Inl e \<Rightarrow> (Inl e, db)
      | Inr db1 \<Rightarrow>
          (Inr (decide_row (now, Reject) existing),
           snd (createAuditEvent now
             (user_actor_event userId audit_event_type.MEMORY_SUGGESTION_REJECTED
                (no_metadata \<lparr> am_suggestionId := Some (s_id existing),
                   am_clientId := s_sourceClientId existing \<rparr>)
                (suggestionAuditSubjects existing (s_sourceClientId existing) None None))
             (write_suggestion now (s_id existing) Reject db1))))"

definition rejectUserSuggestion :: "time \<Rightarrow> ident \<Rightarrow> ident \<Rightarrow> vault \<Rightarrow> suggestion outcome" where
  "rejectUserSuggestion now userId i db =
     (case owned_suggestion db userId i of
        None \<Rightarrow> (Inl (NotFound ''Memory suggestion not found''), db)
      | Some existing \<Rightarrow>
          if s_status existing \<noteq> memory_suggestion_status.QUEUED_FOR_REVIEW
          then (Inl (Conflict ''Memory suggestion is not reviewable''), db)
          else rejectLoadedUserSuggestion now userId existing db)"

section \<open>SuggestionBulkReviewService\<close>

datatype review_result =
    Applied_result suggestion memory
  | Rejected_result suggestion
  | Failed_result string

fun http_message :: "error \<Rightarrow> string option" where
  "http_message (NotFound m) = Some m"
| "http_message (Conflict m) = Some m"
| "http_message (BadRequest m) = Some m"
| "http_message (Forbidden m) = Some m"
| "http_message (Unauthorized m) = Some m"
| "http_message _ = None"

definition reviewErrorMessage :: "error \<Rightarrow> string" where
  "reviewErrorMessage e =
     (if truthy (http_message e) then the (http_message e) else ''Could not review this suggestion.'')"

text \<open>One item of the loop: the suggestion loaded before it, at the item's own instant.\<close>

definition review_item ::
  "memory_env \<Rightarrow> time \<Rightarrow> ident \<Rightarrow> verdict \<Rightarrow> suggestion option \<Rightarrow> vault \<Rightarrow> review_result \<times> vault" where
  "review_item env now userId v loaded db =
     (case loaded of
        None \<Rightarrow> (Failed_result (reviewErrorMessage (NotFound ''Memory suggestion not found'')), db)
      | Some s \<Rightarrow>
          if s_status s \<noteq> memory_suggestion_status.QUEUED_FOR_REVIEW
          then (Failed_result (reviewErrorMessage (Conflict ''Memory suggestion is not reviewable'')), db)
          else case v of
            Apply \<Rightarrow>
              (case applyLoadedUserSuggestion env now userId s db of
                 (Inr (s', m), db1) \<Rightarrow> (Applied_result s' m, db1)
               | (Inl e, db1) \<Rightarrow> (Failed_result (reviewErrorMessage e), db1))
          | Reject \<Rightarrow>
              (case rejectLoadedUserSuggestion now userId s db of
                 (Inr s', db1) \<Rightarrow> (Rejected_result s', db1)
               | (Inl e, db1) \<Rightarrow> (Failed_result (reviewErrorMessage e), db1)))"

fun review_items ::
  "(ident \<Rightarrow> vault \<Rightarrow> review_result \<times> vault) \<Rightarrow> ident list \<Rightarrow> vault \<Rightarrow> (ident \<times> review_result) list \<times> vault" where
  "review_items step [] db = ([], db)"
| "review_items step (i # is) db =
     (let (r, db1) = step i db; (rs, db2) = review_items step is db1 in ((i, r) # rs, db2))"

definition bulkReviewUserSuggestions ::
  "memory_env \<Rightarrow> (ident \<Rightarrow> time) \<Rightarrow> ident \<Rightarrow> verdict \<Rightarrow> ident list \<Rightarrow> vault
     \<Rightarrow> (ident \<times> review_result) list \<times> vault" where
  "bulkReviewUserSuggestions env clock userId v requested db =
     (let ids = js_unique requested;
          loaded = filter (\<lambda>s. s_id s \<in> set ids \<and> s_userId s = userId) (v_suggestions db);
          byId = (\<lambda>i. find_row (\<lambda>s. s_id s = i) loaded);
          categoryKeys = concat (map s_suggestedCategories
            (filter (\<lambda>s. s_status s = memory_suggestion_status.QUEUED_FOR_REVIEW) loaded))
      in case (if v = Apply then assertExist db categoryKeys else Inr ()) of
           Inl e \<Rightarrow> (map (\<lambda>i. (i, Failed_result (reviewErrorMessage e))) ids, db)
         | Inr _ \<Rightarrow> review_items (\<lambda>i. review_item env (clock i) userId v (byId i)) ids db)"

text \<open>The counts of the response: requested, succeeded, failed.\<close>

definition bulk_counts :: "(ident \<times> review_result) list \<Rightarrow> nat \<times> nat \<times> nat" where
  "bulk_counts results =
     (let failed = length (filter (\<lambda>r. case snd r of Failed_result _ \<Rightarrow> True | _ \<Rightarrow> False) results)
      in (length results, length results - failed, failed))"

section \<open>What a decision does to the table\<close>

text \<open>A decision moves the row of its suggestion, which was reviewable, and no other; the categories
  stay.\<close>

definition decides :: "time \<Rightarrow> verdict \<Rightarrow> ident \<Rightarrow> ident \<Rightarrow> vault \<Rightarrow> vault \<Rightarrow> bool" where
  "decides now v userId i db db' =
     (v_suggestions db' = update_suggestion i (decide_row (now, v)) (v_suggestions db)
      \<and> v_categories db' = v_categories db
      \<and> (\<exists>s. suggestion_row i (v_suggestions db) = Some s \<and> reviewable userId s))"

lemma decide_row_simps [simp]:
  "s_id (decide_row x s) = s_id s" "s_userId (decide_row x s) = s_userId s"
  "decide_row x (decide_row x s) = decide_row x s"
  "s_status (decide_row x s) = verdict_status (snd x)"
  by (simp_all add: decide_row_def)

lemma update_suggestion_twice [simp]:
  "update_suggestion i (decide_row x) (update_suggestion i (decide_row x) ss) = update_suggestion i (decide_row x) ss"
  by (induction ss) (auto simp: update_suggestion_def)

lemma claimSuggestion_ok:
  assumes "distinct (map s_id (v_suggestions db))" "claimSuggestion now userId i v db = Inr db1"
  shows "db1 = db \<lparr> v_suggestions := update_suggestion i (decide_row (now, v)) (v_suggestions db) \<rparr>"
    and "\<exists>s. suggestion_row i (v_suggestions db) = Some s \<and> reviewable userId s"
  using assms(2)
  by (cases rule: review_claims.claim_cases[OF assms(1), of i userId "(now, v)"];
      auto simp: claimSuggestion_def)+

lemma claimSuggestion_spent:
  assumes "distinct (map s_id (v_suggestions db))" "suggestion_row i (v_suggestions db) = Some s"
    and "s_status s \<noteq> memory_suggestion_status.QUEUED_FOR_REVIEW"
  shows "claimSuggestion now userId i v db = Inl (Conflict ''Memory suggestion is not reviewable'')"
proof -
  have "claim_suggestion userId (now, v) i (v_suggestions db) = (False, v_suggestions db)"
    using assms(2,3) by (intro review_claims.claim_lost[OF assms(1)]) (auto simp: reviewable_def)
  then show ?thesis by (simp add: claimSuggestion_def)
qed

lemma write_suggestion_simps [audit_simps]:
  "v_suggestions (write_suggestion now i v db) = update_suggestion i (decide_row (now, v)) (v_suggestions db)"
  "v_memories (write_suggestion now i v db) = v_memories db"
  "v_categories (write_suggestion now i v db) = v_categories db"
  "auditEvents (write_suggestion now i v db) = auditEvents db"
  "provenanceEntries (write_suggestion now i v db) = provenanceEntries db"
  by (simp_all add: write_suggestion_def)

lemma apply_suggestion_tx_ok:
  assumes "distinct (map s_id (v_suggestions db))" "apply_suggestion_tx now userId existing db = (Inr (s, m), db')"
  shows "decides now Apply userId (s_id existing) db db'" "s = decide_row (now, Apply) existing"
    and "v_memories db' = v_memories db @ [m]"
    and "\<exists>db0. v_categories db0 = v_categories db \<and> m = memory_of_suggestion now db0 existing []"
    and "\<exists>e1 e2 p. auditEvents db' = auditEvents db @ [e1, e2]
        \<and> ae_type e1 = audit_event_type.MEMORY_SUGGESTION_APPROVED \<and> ae_type e2 = audit_event_type.MEMORY_CREATED
        \<and> provenanceEntries db' = provenanceEntries db @ [p] \<and> pi_memoryId (pe_input p) = m_id m
        \<and> pi_suggestionId (pe_input p) = Some (s_id existing) \<and> pi_auditEventId (pe_input p) = Some (ae_id e2)"
proof -
  obtain db1 where c: "claimSuggestion now userId (s_id existing) Apply db = Inr db1"
    using assms(2) by (auto simp: apply_suggestion_tx_def split: sum.splits)
  note ok = claimSuggestion_ok[OF assms(1) c]
  have prov: "provenanceEntries (snd (createMemoryProvenanceEntry now inp d))
      = provenanceEntries d @ [\<lparr> pe_id = next_id d, pe_input = inp, pe_createdAt = now \<rparr>]" for inp d
    by (simp add: createMemoryProvenanceEntry_def Let_def draw_id_def)
  note unf = apply_suggestion_tx_def createMemoryFromSuggestion_def Let_def split_beta audit_simps
  show "decides now Apply userId (s_id existing) db db'"
    using assms(2) c ok by (auto simp: decides_def unf)
  show "s = decide_row (now, Apply) existing" using assms(2) c by (auto simp: unf)
  show "v_memories db' = v_memories db @ [m]" using assms(2) c ok(1) by (auto simp: unf)
  have "v_categories db1 = v_categories db" by (simp add: ok(1))
  moreover have "m = memory_of_suggestion now db1 existing []" using assms(2) c by (auto simp: unf)
  ultimately show "\<exists>db0. v_categories db0 = v_categories db \<and> m = memory_of_suggestion now db0 existing []" by blast
  show "\<exists>e1 e2 p. auditEvents db' = auditEvents db @ [e1, e2]
        \<and> ae_type e1 = audit_event_type.MEMORY_SUGGESTION_APPROVED \<and> ae_type e2 = audit_event_type.MEMORY_CREATED
        \<and> provenanceEntries db' = provenanceEntries db @ [p] \<and> pi_memoryId (pe_input p) = m_id m
        \<and> pi_suggestionId (pe_input p) = Some (s_id existing) \<and> pi_auditEventId (pe_input p) = Some (ae_id e2)"
    using assms(2) c ok(1)
    by (auto simp: unf prov review_provenance_def user_actor_event_def)
qed

lemma applyArchive_ok:
  assumes "distinct (map s_id (v_suggestions db))" "applyArchiveSuggestion now userId existing db = (Inr (s, m), db')"
  obtains target where "decides now Apply userId (s_id existing) db db'"
    "stringMetadata (s_sourceMetadata existing) ''targetMemoryId'' = Some (m_id target)"
    "owned_memory db userId (m_id target) = Some target"
    "\<not> target_stale (s_sourceMetadata existing) target"
    "\<not> survivor_changed now db userId (s_sourceMetadata existing) target"
    "m = target \<lparr> m_status := archive_status (s_sourceMetadata existing), m_updatedAt := now \<rparr>"
    "v_memories db' = update_memory (m_id target)
       (\<lambda>m. m \<lparr> m_status := archive_status (s_sourceMetadata existing), m_updatedAt := now \<rparr>) (v_memories db)"
proof -
  let ?md = "s_sourceMetadata existing"
  obtain i db1 where i: "stringMetadata ?md ''targetMemoryId'' = Some i"
    and c: "claimSuggestion now userId (s_id existing) Apply db = Inr db1"
    using assms(2) by (auto simp: applyArchiveSuggestion_def Let_def split: if_splits option.splits sum.splits)
  note ok = claimSuggestion_ok[OF assms(1) c]
  have mem: "v_memories db1 = v_memories db" by (simp add: ok(1))
  have om: "owned_memory db1 u j = owned_memory db u j" for u j by (simp add: owned_memory_def mem)
  have sv: "survivor_of db1 = survivor_of db" by (simp add: survivor_of_def mem fun_eq_iff)
  have sc: "survivor_changed now db1 u md tg = survivor_changed now db u md tg" for u md tg
    unfolding survivor_changed_def sv by (rule refl)
  obtain target where tg: "owned_memory db userId i = Some target" "\<not> target_stale ?md target"
    "\<not> survivor_changed now db userId ?md target"
    and m: "m = target \<lparr> m_status := archive_status ?md, m_updatedAt := now \<rparr>"
    and db': "db' = archive_writes now userId existing ?md target db1"
    using assms(2) i c om sc
    by (auto simp: applyArchiveSuggestion_def Let_def split: if_splits option.splits)
  have id: "m_id target = i" using owned_memory_SomeD[OF tg(1)] by simp
  have w: "v_suggestions db' = update_suggestion (s_id existing) (decide_row (now, Apply)) (v_suggestions db)"
    "v_categories db' = v_categories db"
    "v_memories db' = update_memory (m_id target)
       (\<lambda>m. m \<lparr> m_status := archive_status ?md, m_updatedAt := now \<rparr>) (v_memories db)"
    by (simp_all add: db' archive_writes_def Let_def split_beta audit_simps ok(1))
  show thesis
    by (rule that[of target]) (use i tg m w id ok(2) in \<open>auto simp: decides_def\<close>)
qed

lemma applyArchive_error: "applyArchiveSuggestion now userId existing db = (Inl e, db') \<Longrightarrow> db' = db"
  by (auto simp: applyArchiveSuggestion_def Let_def split: if_splits option.splits sum.splits)

lemma applyLoaded_decides:
  assumes "distinct (map s_id (v_suggestions db))"
  shows "applyLoadedUserSuggestion env now userId existing db = (Inr x, db') \<Longrightarrow>
      decides now Apply userId (s_id existing) db db'"
    and "applyLoadedUserSuggestion env now userId existing db = (Inl e, db') \<Longrightarrow> db' = db"
proof -
  assume a: "applyLoadedUserSuggestion env now userId existing db = (Inr x, db')"
  show "decides now Apply userId (s_id existing) db db'"
  proof (cases "is_archive existing")
    case True
    then have "applyArchiveSuggestion now userId existing db = (Inr (fst x, snd x), db')"
      using a by (simp add: applyLoadedUserSuggestion_def)
    then show ?thesis by (rule applyArchive_ok[OF assms])
  next
    case False
    then obtain s m db1 where tx: "apply_suggestion_tx now userId existing db = (Inr (s, m), db1)"
      and db': "db' = enqueueEmbeddingGeneration env now userId (m_id m) ''memory_created'' db1"
      using a by (auto simp: applyLoadedUserSuggestion_def split: prod.splits sum.splits)
    show ?thesis using apply_suggestion_tx_ok(1)[OF assms tx] by (simp add: decides_def db' audit_simps)
  qed
next
  assume "applyLoadedUserSuggestion env now userId existing db = (Inl e, db')"
  then show "db' = db"
    using applyArchive_error
    by (auto simp: applyLoadedUserSuggestion_def apply_suggestion_tx_def Let_def split_beta
        split: if_splits prod.splits sum.splits)
qed

lemma rejectLoaded_decides:
  assumes "distinct (map s_id (v_suggestions db))"
  shows "rejectLoadedUserSuggestion now userId existing db = (Inr x, db') \<Longrightarrow>
      decides now Reject userId (s_id existing) db db'"
    and "rejectLoadedUserSuggestion now userId existing db = (Inl e, db') \<Longrightarrow> db' = db"
  using claimSuggestion_ok[OF assms, of now userId "s_id existing" Reject]
  by (auto simp: rejectLoadedUserSuggestion_def decides_def audit_simps split: sum.splits)

lemma decides_keys: "decides now v userId i db db' \<Longrightarrow> map s_id (v_suggestions db') = map s_id (v_suggestions db)"
  by (simp add: decides_def update_suggestion_def map_update_where)

lemma decides_row:
  assumes "decides now v userId i db db'"
  shows "\<exists>s. suggestion_row i (v_suggestions db') = Some s \<and> s_status s = verdict_status v \<and> s_userId s = userId"
    and "j \<noteq> i \<Longrightarrow> suggestion_row j (v_suggestions db') = suggestion_row j (v_suggestions db)"
  using assms suggestions.look_change_same[of "decide_row (now, v)" i "v_suggestions db"]
    suggestions.look_change_other[of "decide_row (now, v)" j i "v_suggestions db"]
  by (auto simp: decides_def reviewable_def)

section \<open>Decided once\<close>

lemma owned_suggestion_SomeD:
  "owned_suggestion db userId i = Some s \<Longrightarrow> s \<in> set (v_suggestions db) \<and> s_id s = i \<and> s_userId s = userId"
  unfolding owned_suggestion_def by (auto dest: find_row_SomeD)

lemma applyUserSuggestion_ok:
  assumes "applyUserSuggestion env now userId i db = (Inr x, db')"
  obtains existing where "owned_suggestion db userId i = Some existing" "s_id existing = i"
    "s_status existing = memory_suggestion_status.QUEUED_FOR_REVIEW"
    "assertExist db (s_suggestedCategories existing) = Inr ()"
    "applyLoadedUserSuggestion env now userId existing db = (Inr x, db')"
  using assms owned_suggestion_SomeD
  by (auto simp: applyUserSuggestion_def split: option.splits if_splits sum.splits)

lemma rejectUserSuggestion_ok:
  assumes "rejectUserSuggestion now userId i db = (Inr x, db')"
  obtains existing where "owned_suggestion db userId i = Some existing" "s_id existing = i"
    "rejectLoadedUserSuggestion now userId existing db = (Inr x, db')"
  using assms owned_suggestion_SomeD
  by (auto simp: rejectUserSuggestion_def split: option.splits if_splits)

lemma loaded_spent:
  assumes "distinct (map s_id (v_suggestions db))" "suggestion_row (s_id copy) (v_suggestions db) = Some s"
    and "s_status s \<noteq> memory_suggestion_status.QUEUED_FOR_REVIEW"
  shows "isl (fst (applyLoadedUserSuggestion env now userId copy db)) \<and> snd (applyLoadedUserSuggestion env now userId copy db) = db"
    and "isl (fst (rejectLoadedUserSuggestion now userId copy db)) \<and> snd (rejectLoadedUserSuggestion now userId copy db) = db"
  using claimSuggestion_spent[OF assms]
  by (auto simp: applyLoadedUserSuggestion_def applyArchiveSuggestion_def apply_suggestion_tx_def
      rejectLoadedUserSuggestion_def Let_def split: option.splits)

text \<open>C18. A suggestion is decided once.  After it was applied or rejected, every further decision on
  it, by anyone, even one that had loaded the suggestion while it was still queued, fails and leaves the
  database as it is: no suggestion becomes two memories, and none is both applied and rejected.\<close>

theorem suggestion_decided_once:
  assumes "distinct (map s_id (v_suggestions db))"
    and "applyUserSuggestion env now userId i db = (Inr (s, m), db') \<or> rejectUserSuggestion now userId i db = (Inr s', db')"
    and "s_id copy = i"
  shows "isl (fst (applyLoadedUserSuggestion env' now' userId' copy db'))
       \<and> snd (applyLoadedUserSuggestion env' now' userId' copy db') = db'
       \<and> isl (fst (rejectLoadedUserSuggestion now' userId' copy db'))
       \<and> snd (rejectLoadedUserSuggestion now' userId' copy db') = db'"
proof -
  have "\<exists>v. decides now v userId i db db'"
    using assms(2)
  proof
    assume "applyUserSuggestion env now userId i db = (Inr (s, m), db')"
    then show ?thesis
      by (rule applyUserSuggestion_ok) (use applyLoaded_decides(1)[OF assms(1)] in blast)
  next
    assume "rejectUserSuggestion now userId i db = (Inr s', db')"
    then show ?thesis
      by (rule rejectUserSuggestion_ok) (use rejectLoaded_decides(1)[OF assms(1)] in blast)
  qed
  then obtain v where d: "decides now v userId i db db'" by blast
  obtain r where r: "suggestion_row i (v_suggestions db') = Some r" "s_status r = verdict_status v"
    using decides_row(1)[OF d] by blast
  have "s_status r \<noteq> memory_suggestion_status.QUEUED_FOR_REVIEW" using r(2) by (cases v) simp_all
  moreover have "distinct (map s_id (v_suggestions db'))" using assms(1) decides_keys[OF d] by simp
  ultimately show ?thesis using loaded_spent r(1) assms(3) by blast
qed

text \<open>Applying a suggestion that is not an archive proposal writes exactly one memory, the one
  proposed: it has the suggestion's owner, content, sensitivity, expiry and source, is active and
  approved, and is connected to every suggested category.  The suggestion becomes APPLIED, two events
  record the approval and the creation, and the memory's history names the suggestion.\<close>

theorem applied_suggestion_becomes_memory:
  assumes "distinct (map s_id (v_suggestions db))"
    and "applyUserSuggestion env now userId i db = (Inr (s, m), db')" "\<not> is_archive s"
  shows "\<exists>existing e1 e2 p. owned_suggestion db userId i = Some existing
      \<and> v_memories db' = v_memories db @ [m] \<and> m_userId m = userId
      \<and> m_title m = s_title existing \<and> m_body m = s_body existing \<and> m_kind m = s_suggestedKind existing
      \<and> m_sensitivity m = s_suggestedSensitivity existing \<and> m_expiresAt m = s_expiresAt existing
      \<and> m_sourceClientId m = s_sourceClientId existing \<and> category_keys m = set (s_suggestedCategories existing)
      \<and> m_status m = memory_status.ACTIVE \<and> m_reviewState m = review_state.APPROVED
      \<and> map_option s_status (suggestion_row i (v_suggestions db')) = Some memory_suggestion_status.APPLIED
      \<and> auditEvents db' = auditEvents db @ [e1, e2]
      \<and> ae_type e1 = audit_event_type.MEMORY_SUGGESTION_APPROVED \<and> ae_type e2 = audit_event_type.MEMORY_CREATED
      \<and> provenanceEntries db' = provenanceEntries db @ [p] \<and> pi_memoryId (pe_input p) = m_id m
      \<and> pi_suggestionId (pe_input p) = Some i \<and> pi_auditEventId (pe_input p) = Some (ae_id e2)"
proof -
  obtain existing where ex: "owned_suggestion db userId i = Some existing" "s_id existing = i"
    and cats: "assertExist db (s_suggestedCategories existing) = Inr ()"
    and ok: "applyLoadedUserSuggestion env now userId existing db = (Inr (s, m), db')"
    using applyUserSuggestion_ok[OF assms(2)] by metis
  have na: "\<not> is_archive existing"
  proof
    assume a: "is_archive existing"
    then have "applyArchiveSuggestion now userId existing db = (Inr (s, m), db')"
      using ok by (simp add: applyLoadedUserSuggestion_def)
    then have "s = decide_row (now, Apply) existing"
      by (auto simp: applyArchiveSuggestion_def Let_def split: if_splits option.splits sum.splits)
    then show False using a assms(3) by (simp add: is_archive_def decide_row_def)
  qed
  obtain db1 where tx: "apply_suggestion_tx now userId existing db = (Inr (s, m), db1)"
    and db': "db' = enqueueEmbeddingGeneration env now userId (m_id m) ''memory_created'' db1"
    using ok na by (auto simp: applyLoadedUserSuggestion_def split: prod.splits sum.splits)
  note eff = apply_suggestion_tx_ok[OF assms(1) tx]
  obtain db0 where "v_categories db0 = v_categories db" and m: "m = memory_of_suggestion now db0 existing []"
    using eff(4) by blast
  then have "toCategoryConnect db0 (s_suggestedCategories existing) = toCategoryConnect db (s_suggestedCategories existing)"
    by (simp add: toCategoryConnect_def)
  then have ck: "category_keys m = set (s_suggestedCategories existing)"
    using toCategoryConnect_keys[OF cats] by (simp add: m category_keys_def)
  have own: "s_userId existing = userId" using owned_suggestion_SomeD[OF ex(1)] by simp
  have st: "map_option s_status (suggestion_row i (v_suggestions db')) = Some memory_suggestion_status.APPLIED"
    using decides_row(1)[OF eff(1)] ex(2) by (auto simp: db' audit_simps)
  have mf: "m_title m = s_title existing" "m_body m = s_body existing" "m_kind m = s_suggestedKind existing"
    "m_userId m = userId" "m_status m = memory_status.ACTIVE" "m_reviewState m = review_state.APPROVED"
    "m_sensitivity m = s_suggestedSensitivity existing" "m_expiresAt m = s_expiresAt existing"
    "m_sourceClientId m = s_sourceClientId existing"
    by (simp_all add: m memory_of_suggestion_def own)
  obtain e1 e2 p where ev: "auditEvents db1 = auditEvents db @ [e1, e2]"
    "ae_type e1 = audit_event_type.MEMORY_SUGGESTION_APPROVED" "ae_type e2 = audit_event_type.MEMORY_CREATED"
    "provenanceEntries db1 = provenanceEntries db @ [p]" "pi_memoryId (pe_input p) = m_id m"
    "pi_suggestionId (pe_input p) = Some (s_id existing)" "pi_auditEventId (pe_input p) = Some (ae_id e2)"
    using eff(5) by blast
  have tables: "v_memories db' = v_memories db @ [m]" "auditEvents db' = auditEvents db @ [e1, e2]"
    "provenanceEntries db' = provenanceEntries db @ [p]"
    by (simp_all add: db' audit_simps eff(3) ev)
  show ?thesis
    by (rule exI[of _ existing], rule exI[of _ e1], rule exI[of _ e2], rule exI[of _ p])
      (use tables st ev ex mf ck in simp)
qed

text \<open>An archive proposal is applied only while it is current.  Its target is an active memory of
  the owner at the version the proposal saw, the memory meant to survive is another one, active,
  approved and unexpired at the version the proposal saw, and stays so; and of all the memories only the
  target changes, in its status and \<open>updatedAt\<close>.\<close>

theorem archive_applies_current_proposal:
  assumes "distinct (map s_id (v_suggestions db))" "distinct (map m_id (v_memories db))"
    and "applyArchiveSuggestion now userId existing db = (Inr (s, m), db')"
    and "map_of (s_sourceMetadata existing) ''targetVersion'' = Some (JTime tv)"
    and "md_string (s_sourceMetadata existing) ''canonicalMemoryId'' = Some c"
    and "map_of (s_sourceMetadata existing) ''canonicalVersion'' = Some (JTime cv)"
  shows "\<exists>target survivor. memory_row (m_id m) (v_memories db) = Some target \<and> m_userId target = userId
      \<and> m_status target = memory_status.ACTIVE \<and> m_updatedAt target = tv
      \<and> m_status m \<in> {memory_status.ARCHIVED, memory_status.EXPIRED}
      \<and> m = target \<lparr> m_status := m_status m, m_updatedAt := now \<rparr>
      \<and> memory_row (m_id m) (v_memories db') = Some m
      \<and> (\<forall>j. j \<noteq> m_id m \<longrightarrow> memory_row j (v_memories db') = memory_row j (v_memories db))
      \<and> c \<noteq> m_id m \<and> memory_row c (v_memories db') = Some survivor \<and> m_userId survivor = userId
      \<and> m_status survivor = memory_status.ACTIVE \<and> m_reviewState survivor = review_state.APPROVED
      \<and> (\<forall>e\<in>set_option (m_expiresAt survivor). now < e) \<and> m_updatedAt survivor = cv"
proof -
  let ?md = "s_sourceMetadata existing"
  obtain target where tg: "owned_memory db userId (m_id target) = Some target"
    and stale: "\<not> target_stale ?md target" and sv: "\<not> survivor_changed now db userId ?md target"
    and m: "m = target \<lparr> m_status := archive_status ?md, m_updatedAt := now \<rparr>"
    and vm: "v_memories db' = update_memory (m_id target)
       (\<lambda>m. m \<lparr> m_status := archive_status ?md, m_updatedAt := now \<rparr>) (v_memories db)"
    using applyArchive_ok[OF assms(1,3)] by metis
  have id: "m_id m = m_id target" by (simp add: m)
  have row: "memory_row (m_id target) (v_memories db) = Some target"
    using owned_memory_row[OF tg assms(2)] .
  have t: "m_status target = memory_status.ACTIVE" "m_updatedAt target = tv"
    using stale assms(4) by (auto simp: target_stale_def json_truthy_def)
  obtain survivor where su: "survivor_of db userId c = Some survivor" "m_id survivor \<noteq> m_id target"
    "\<forall>e\<in>set_option (m_expiresAt survivor). now < e" "m_updatedAt survivor = cv"
    using sv assms(5,6)
    by (auto simp: survivor_changed_def version_changed_def json_truthy_def split: option.splits)
  have sf: "survivor \<in> set (v_memories db)" "m_id survivor = c" "m_userId survivor = userId"
    "m_status survivor = memory_status.ACTIVE" "m_reviewState survivor = review_state.APPROVED"
    using find_row_SomeD[OF su(1)[unfolded survivor_of_def]] by auto
  have srow: "memory_row c (v_memories db) = Some survivor"
    using find_row_unique[OF assms(2) sf(1)] sf(2) by (simp add: memory_row_def)
  have key: "\<forall>x. m_id (x \<lparr> m_status := archive_status ?md, m_updatedAt := now \<rparr>) = m_id (x :: memory)" by simp
  have other: "memory_row j (v_memories db') = memory_row j (v_memories db)" if "j \<noteq> m_id target" for j
    unfolding vm by (rule memories.look_change_other[OF key that])
  have self: "memory_row (m_id target) (v_memories db') = Some m"
    unfolding vm memories.look_change_same[OF key] row m by simp
  have st: "m_status m \<in> {memory_status.ARCHIVED, memory_status.EXPIRED}" by (simp add: m archive_status_def)
  have me: "m = target \<lparr> m_status := m_status m, m_updatedAt := now \<rparr>" by (simp add: m)
  have cne: "c \<noteq> m_id target" using su(2) sf(2) by simp
  show ?thesis
    unfolding id
    by (rule exI[of _ target], rule exI[of _ survivor], intro conjI row t st me self cne sf su(3,4))
      (use other owned_memory_SomeD[OF tg] srow cne in auto)
qed

section \<open>Bulk review\<close>

text \<open>The reference: the single decisions, one after the other, each on the database it finds.\<close>

definition single_review ::
  "memory_env \<Rightarrow> time \<Rightarrow> ident \<Rightarrow> verdict \<Rightarrow> ident \<Rightarrow> vault \<Rightarrow> review_result \<times> vault" where
  "single_review env now userId v i db =
     (case v of
        Apply \<Rightarrow>
          (case applyUserSuggestion env now userId i db of
             (Inr (s, m), db1) \<Rightarrow> (Applied_result s m, db1)
           | (Inl e, db1) \<Rightarrow> (Failed_result (reviewErrorMessage e), db1))
      | Reject \<Rightarrow>
          (case rejectUserSuggestion now userId i db of
             (Inr s, db1) \<Rightarrow> (Rejected_result s, db1)
           | (Inl e, db1) \<Rightarrow> (Failed_result (reviewErrorMessage e), db1)))"

lemma find_row_filter: "find_row P (filter Q rows) = find_row (\<lambda>r. P r \<and> Q r) rows"
  by (induction rows) auto

lemma bulk_loaded:
  "i \<in> set ids \<Longrightarrow>
   find_row (\<lambda>s. s_id s = i) (filter (\<lambda>s. s_id s \<in> set ids \<and> s_userId s = userId) (v_suggestions db))
     = owned_suggestion db userId i"
  by (auto simp: find_row_filter owned_suggestion_def intro!: find_row_cong)

lemma assertExist_iff: "assertExist db keys = Inr () \<longleftrightarrow> set keys \<subseteq> cat_key ` set (v_categories db)"
proof -
  have "js_unique keys = [] \<longleftrightarrow> keys = []"
    using set_js_unique[of keys] by (metis set_empty)
  then show ?thesis
    by (auto simp: assertExist_def Let_def filter_empty_conv image_iff split: if_splits)
qed

lemma review_item_single:
  assumes "v = Apply \<Longrightarrow> \<forall>s. owned_suggestion db userId i = Some s \<longrightarrow>
      s_status s = memory_suggestion_status.QUEUED_FOR_REVIEW \<longrightarrow> assertExist db (s_suggestedCategories s) = Inr ()"
  shows "review_item env now userId v (owned_suggestion db userId i) db = single_review env now userId v i db"
proof (cases "owned_suggestion db userId i")
  case None
  then show ?thesis
    by (cases v) (simp_all add: review_item_def single_review_def applyUserSuggestion_def rejectUserSuggestion_def)
next
  case (Some s)
  then show ?thesis using assms
    by (cases v) (auto simp: review_item_def single_review_def applyUserSuggestion_def rejectUserSuggestion_def)
qed

lemma review_item_frame:
  assumes "distinct (map s_id (v_suggestions db))" "review_item env now userId v loaded db = (r, db1)"
    and "\<And>s. loaded = Some s \<Longrightarrow> s_id s = i"
  shows "v_categories db1 = v_categories db" "map s_id (v_suggestions db1) = map s_id (v_suggestions db)"
    and "j \<noteq> i \<Longrightarrow> owned_suggestion db1 userId' j = owned_suggestion db userId' j"
proof -
  have "db1 = db \<or> (\<exists>v'. decides now v' userId i db db1)"
  proof (cases loaded)
    case None
    then show ?thesis using assms(2) by (simp add: review_item_def)
  next
    case (Some s)
    then show ?thesis
      using assms(2,3) applyLoaded_decides[OF assms(1), of env now userId s]
        rejectLoaded_decides[OF assms(1), of now userId s]
      by (cases v) (auto simp: review_item_def split: if_splits prod.splits sum.splits)
  qed
  then show c: "v_categories db1 = v_categories db" and k: "map s_id (v_suggestions db1) = map s_id (v_suggestions db)"
    using decides_keys by (auto simp: decides_def)
  show "j \<noteq> i \<Longrightarrow> owned_suggestion db1 userId' j = owned_suggestion db userId' j"
  proof -
    assume "j \<noteq> i"
    have "find_row (\<lambda>s. s_id s = j \<and> s_userId s = userId') (update_suggestion i (decide_row x) ss)
        = find_row (\<lambda>s. s_id s = j \<and> s_userId s = userId') ss" for x ss
      using \<open>j \<noteq> i\<close> by (induction ss) (auto simp: update_suggestion_def)
    then show ?thesis
      using \<open>db1 = db \<or> (\<exists>v'. decides now v' userId i db db1)\<close>
      by (auto simp: owned_suggestion_def decides_def)
  qed
qed

lemma review_items_single:
  assumes "distinct is" "distinct (map s_id (v_suggestions db))"
    and "\<And>i. i \<in> set is \<Longrightarrow> loaded i = owned_suggestion db userId i"
    and "\<And>i s. v = Apply \<Longrightarrow> i \<in> set is \<Longrightarrow> loaded i = Some s \<Longrightarrow>
      s_status s = memory_suggestion_status.QUEUED_FOR_REVIEW \<Longrightarrow> assertExist db (s_suggestedCategories s) = Inr ()"
  shows "review_items (\<lambda>i. review_item env (clock i) userId v (loaded i)) is db
       = review_items (\<lambda>i. single_review env (clock i) userId v i) is db"
  using assms
proof (induction "is" arbitrary: db)
  case (Cons i js)
  have li: "loaded i = owned_suggestion db userId i" using Cons.prems(3) by simp
  obtain r db1 where r: "review_item env (clock i) userId v (loaded i) db = (r, db1)" by fastforce
  have single: "single_review env (clock i) userId v i db = (r, db1)"
    using r review_item_single[of v db userId i env "clock i"] Cons.prems(4)[of i] li by auto
  note fr = review_item_frame[OF Cons.prems(2) r, of i]
  have id: "\<And>s. loaded i = Some s \<Longrightarrow> s_id s = i" using owned_suggestion_SomeD li by metis
  have "review_items (\<lambda>i. review_item env (clock i) userId v (loaded i)) js db1
      = review_items (\<lambda>i. single_review env (clock i) userId v i) js db1"
  proof (rule Cons.IH)
    show "distinct js" using Cons.prems(1) by simp
    show "distinct (map s_id (v_suggestions db1))" using fr(2)[OF id] Cons.prems(2) by simp
    show "loaded j = owned_suggestion db1 userId j" if "j \<in> set js" for j
    proof -
      have "j \<noteq> i" using that Cons.prems(1) by auto
      then show ?thesis using fr(3)[OF id, of j userId] Cons.prems(3)[of j] that by simp
    qed
    show "assertExist db1 (s_suggestedCategories s) = Inr ()"
      if "v = Apply" "j \<in> set js" "loaded j = Some s" "s_status s = memory_suggestion_status.QUEUED_FOR_REVIEW" for j s
      using Cons.prems(4)[OF that(1) _ that(3,4)] that(2) fr(1)[OF id] by (simp add: assertExist_iff)
  qed
  then show ?case by (simp add: r single)
qed simp

text \<open>C39. Reviewing in bulk is reviewing one by one: with the categories of the batch in place, the
  batch has, for each distinct id in the order given, the outcome the single decision would have on the
  database its predecessors left, and leaves the same database; and a batch whose categories are not in
  place fails as a whole and writes nothing.\<close>

theorem bulk_review_is_sequential:
  assumes "distinct (map s_id (v_suggestions db))"
  shows "if v = Apply \<and> (\<exists>s\<in>set (v_suggestions db). s_id s \<in> set requested \<and> reviewable userId s
              \<and> \<not> set (s_suggestedCategories s) \<subseteq> cat_key ` set (v_categories db))
         then snd (bulkReviewUserSuggestions env clock userId v requested db) = db
            \<and> map fst (fst (bulkReviewUserSuggestions env clock userId v requested db)) = js_unique requested
            \<and> list_all (\<lambda>r. \<exists>msg. snd r = Failed_result msg)
                (fst (bulkReviewUserSuggestions env clock userId v requested db))
         else bulkReviewUserSuggestions env clock userId v requested db
            = review_items (\<lambda>i. single_review env (clock i) userId v i) (js_unique requested) db"
proof -
  let ?ids = "js_unique requested"
  let ?loaded = "filter (\<lambda>s. s_id s \<in> set ?ids \<and> s_userId s = userId) (v_suggestions db)"
  let ?keys = "concat (map s_suggestedCategories
      (filter (\<lambda>s. s_status s = memory_suggestion_status.QUEUED_FOR_REVIEW) ?loaded))"
  have keys: "assertExist db ?keys = Inr () \<longleftrightarrow>
      \<not> (\<exists>s\<in>set (v_suggestions db). s_id s \<in> set requested \<and> reviewable userId s
              \<and> \<not> set (s_suggestedCategories s) \<subseteq> cat_key ` set (v_categories db))" (is "_ \<longleftrightarrow> \<not> ?bad")
    unfolding assertExist_iff by (auto simp: reviewable_def)
  show ?thesis
  proof (cases "v = Apply \<and> assertExist db ?keys \<noteq> Inr ()")
    case True
    then obtain e where "assertExist db ?keys = Inl e" by (cases "assertExist db ?keys") auto
    then have b: "bulkReviewUserSuggestions env clock userId v requested db
        = (map (\<lambda>i. (i, Failed_result (reviewErrorMessage e))) ?ids, db)"
      using True by (simp add: bulkReviewUserSuggestions_def Let_def)
    have c: "v = Apply \<and> ?bad" using True keys by blast
    show ?thesis unfolding if_P[OF c] b by (simp add: comp_def list_all_iff)
  next
    case False
    then have "bulkReviewUserSuggestions env clock userId v requested db
        = review_items (\<lambda>i. review_item env (clock i) userId v (find_row (\<lambda>s. s_id s = i) ?loaded)) ?ids db"
      by (auto simp: bulkReviewUserSuggestions_def Let_def split: sum.splits)
    also have "\<dots> = review_items (\<lambda>i. single_review env (clock i) userId v i) ?ids db"
    proof (rule review_items_single[OF distinct_js_unique assms])
      show "find_row (\<lambda>s. s_id s = i) ?loaded = owned_suggestion db userId i" if "i \<in> set ?ids" for i
        using bulk_loaded[OF that] .
      show "assertExist db (s_suggestedCategories s) = Inr ()"
        if "v = Apply" "i \<in> set ?ids" "find_row (\<lambda>s. s_id s = i) ?loaded = Some s"
          "s_status s = memory_suggestion_status.QUEUED_FOR_REVIEW" for i s
        using False that find_row_SomeD[OF that(3)] unfolding assertExist_iff by auto
    qed
    finally have "bulkReviewUserSuggestions env clock userId v requested db
        = review_items (\<lambda>i. single_review env (clock i) userId v i) ?ids db" .
    moreover have "\<not> (v = Apply \<and> ?bad)" using False keys by blast
    ultimately show ?thesis by (simp only: if_False)
  qed
qed

section \<open>A sample review\<close>

definition queued_suggestion :: suggestion where
  "queued_suggestion =
     new_suggestion 5 ''s1'' ''u1'' source_type.CHAT None sample_proposal
       memory_suggestion_status.QUEUED_FOR_REVIEW None []"

definition archive_proposal :: suggestion where
  "archive_proposal = queued_suggestion
     \<lparr> s_id := ''s2'', s_sourceType := source_type.CONSOLIDATION,
       s_sourceMetadata := [(''targetVersion'', JTime 1), (''canonicalVersion'', JTime 1),
         (''action'', JStr ''archive_memory''), (''reason'', JStr ''exact_duplicate''),
         (''targetMemoryId'', JStr ''m2''), (''canonicalMemoryId'', JStr ''m1'')] \<rparr>"

definition review_vault :: vault where
  "review_vault = sample_vault \<lparr> v_suggestions := [queued_suggestion, archive_proposal] \<rparr>"

lemma review_vault_ids: "distinct (map s_id (v_suggestions review_vault))"
    "distinct (map m_id (v_memories review_vault))"
  by code_simp+

lemma sample_apply_ok:
  "case fst (applyUserSuggestion sample_memory_env 9 ''u1'' ''s1'' review_vault) of
     Inr x \<Rightarrow> \<not> is_archive (fst x) | Inl e \<Rightarrow> False"
  by code_simp

lemma sample_archive_ok: "\<not> isl (fst (applyArchiveSuggestion 9 ''u1'' archive_proposal review_vault))"
  by code_simp

lemma sample_apply:
  obtains s m where "applyUserSuggestion sample_memory_env 9 ''u1'' ''s1'' review_vault
      = (Inr (s, m), snd (applyUserSuggestion sample_memory_env 9 ''u1'' ''s1'' review_vault))" "\<not> is_archive s"
  using outcome_okE[OF sample_apply_ok] by (metis prod.collapse)

lemma suggestion_decided_once_witness:
  "\<exists>s m db'. applyUserSuggestion sample_memory_env 9 ''u1'' ''s1'' review_vault = (Inr (s, m), db')
     \<and> isl (fst (rejectLoadedUserSuggestion 10 ''u1'' queued_suggestion db'))"
proof -
  obtain s m where a: "applyUserSuggestion sample_memory_env 9 ''u1'' ''s1'' review_vault
      = (Inr (s, m), snd (applyUserSuggestion sample_memory_env 9 ''u1'' ''s1'' review_vault))"
    by (rule sample_apply)
  have i: "s_id queued_suggestion = ''s1''" by (simp add: queued_suggestion_def)
  show ?thesis
    by (intro exI conjI) (rule a, rule suggestion_decided_once[OF review_vault_ids(1) disjI1[OF a] i,
        THEN conjunct2, THEN conjunct2, THEN conjunct1])
qed

lemma applied_suggestion_becomes_memory_witness:
  "\<exists>s m db'. applyUserSuggestion sample_memory_env 9 ''u1'' ''s1'' review_vault = (Inr (s, m), db')
     \<and> v_memories db' = v_memories review_vault @ [m] \<and> m_userId m = ''u1''"
proof -
  obtain s m where a: "applyUserSuggestion sample_memory_env 9 ''u1'' ''s1'' review_vault
      = (Inr (s, m), snd (applyUserSuggestion sample_memory_env 9 ''u1'' ''s1'' review_vault))" "\<not> is_archive s"
    by (rule sample_apply)
  obtain existing :: suggestion where
    x: "v_memories (snd (applyUserSuggestion sample_memory_env 9 ''u1'' ''s1'' review_vault))
        = v_memories review_vault @ [m]" "m_userId m = ''u1''"
    using applied_suggestion_becomes_memory[OF review_vault_ids(1) a] by metis
  show ?thesis by (intro exI conjI) (rule a(1), rule x(1), rule x(2))
qed

lemma archive_applies_current_proposal_witness:
  "\<exists>s m db' target. applyArchiveSuggestion 9 ''u1'' archive_proposal review_vault = (Inr (s, m), db')
     \<and> memory_row (m_id m) (v_memories review_vault) = Some target \<and> m_updatedAt target = 1
     \<and> memory_row (m_id m) (v_memories db') = Some m"
proof -
  obtain x where "applyArchiveSuggestion 9 ''u1'' archive_proposal review_vault
      = (Inr x, snd (applyArchiveSuggestion 9 ''u1'' archive_proposal review_vault))"
    using outcome_ok[OF sample_archive_ok] by blast
  then obtain s m where a: "applyArchiveSuggestion 9 ''u1'' archive_proposal review_vault
      = (Inr (s, m), snd (applyArchiveSuggestion 9 ''u1'' archive_proposal review_vault))" by (cases x) auto
  have md: "map_of (s_sourceMetadata archive_proposal) ''targetVersion'' = Some (JTime 1)"
    "md_string (s_sourceMetadata archive_proposal) ''canonicalMemoryId'' = Some ''m1''"
    "map_of (s_sourceMetadata archive_proposal) ''canonicalVersion'' = Some (JTime 1)"
    by (simp_all add: archive_proposal_def md_string_def)
  obtain target where t: "memory_row (m_id m) (v_memories review_vault) = Some target" "m_updatedAt target = 1"
    "memory_row (m_id m) (v_memories (snd (applyArchiveSuggestion 9 ''u1'' archive_proposal review_vault))) = Some m"
    using archive_applies_current_proposal[OF review_vault_ids a md] by metis
  show ?thesis by (intro exI conjI) (rule a, rule t(1), rule t(2), rule t(3))
qed

lemma bulk_review_is_sequential_witness:
  "bulkReviewUserSuggestions sample_memory_env (\<lambda>_. 9) ''u1'' Reject [''s1'', ''s2'', ''s1''] review_vault
     = review_items (\<lambda>i. single_review sample_memory_env 9 ''u1'' Reject i) (js_unique [''s1'', ''s2'', ''s1'']) review_vault"
  using bulk_review_is_sequential[OF review_vault_ids(1), of Reject] by simp

end
