(* ===== verification/Withdrawal.thy ===== *)
theory Withdrawal
  imports DisclosureSafety SuggestionReview
begin

text \<open>
  Across components: what an owner's change does to a disclosure that was approved before it.  The
  retrieval of an approved bundle (\<open>memory-requests/disclosure-review.service.ts\<close>) checks the stored
  snapshot against the live rows, so an edit of a memory, of a policy or of a client that came after
  the approval withholds what it concerns.
\<close>

section \<open>Rows after a change\<close>

lemma memory_after_change:
  assumes "distinct (map m_id (v_memories db))"
    and "memory_change now userId existing f mutation u db db'" "owned_memory db userId i = Some existing"
    and "\<And>m. m_id (f m) = m_id m" "x \<in> set (v_memories db')" "m_id x = i"
  shows "x = (f existing) \<lparr> m_updatedAt := now \<rparr>"
proof -
  have vm: "v_memories db' = update_memory i (\<lambda>m. (f m) \<lparr> m_updatedAt := now \<rparr>) (v_memories db)"
    using assms(2) owned_memory_SomeD[OF assms(3)] by (simp add: memory_change_def Let_def)
  obtain y where y: "y \<in> set (v_memories db)"
    "x = (if m_id y = i then (f y) \<lparr> m_updatedAt := now \<rparr> else y)"
    using assms(5) unfolding vm update_memory_def set_update_where by auto
  then have "m_id y = i" using assms(4,6) by (auto split: if_splits)
  moreover have "y = existing"
    using owned_memory_SomeD[OF assms(3)] y(1) calculation assms(1) by (auto simp: distinct_map dest: inj_onD)
  ultimately show ?thesis using y(2) by simp
qed

lemma memory_ids_after_change:
  "memory_change now userId existing f mutation u db db' \<Longrightarrow> (\<And>m. m_id (f m) = m_id m) \<Longrightarrow>
   map m_id (v_memories db') = map m_id (v_memories db)"
  by (simp add: memory_change_def Let_def update_memory_def map_update_where)

lemma owned_policy_response:
  "updatePolicy now u i up db = (Inr po, db') \<Longrightarrow>
     \<exists>p. owned_policy db u i = Some p \<and> po_clientId po = p_clientId p
       \<and> v_policies db' = v_policies (write_policy now i (policy_toUpdateData db up) db)
       \<and> v_clients db' = v_clients db \<and> v_memories db' = v_memories db \<and> v_requests db' = v_requests db"
  "deletePolicy now u i db = (Inr po, db') \<Longrightarrow>
     \<exists>p. owned_policy db u i = Some p \<and> po_clientId po = p_clientId p
       \<and> v_policies db' = delete_where (\<lambda>p. p_id p = i) (v_policies db)
       \<and> v_clients db' = v_clients db \<and> v_memories db' = v_memories db"
  using owned_policy_row[of db u i]
  by (auto simp: updatePolicy_def deletePolicy_def toPolicyResponse_def write_policy_def drop_policy_def Let_def
      audit_simps split: option.splits sum.splits)

lemma updateClient_effect:
  assumes "updateClient env now token userId i up db = (Inr x, db')"
  shows "v_memories db' = v_memories db"
    and "\<exists>token. v_clients db' = update_where (\<lambda>c. c_id c = i) (\<lambda>c. touch_client now (client_toUpdateData env token up c))
           (v_clients db)"
proof -
  obtain c where c: "owned_client db userId i = Some c"
    using assms by (auto simp: updateClient_def split: option.splits)
  have i: "c_id c = i" using owned_client_row[OF c] by simp
  let ?f = "client_toUpdateData env (if rotates up then Some token else None) up"
  obtain db1 where w: "write_client now (c_id c) ?f db = Some db1"
    using assms c by (auto simp: updateClient_def Let_def split: option.splits)
  have db': "db' = snd (updateClient env now token userId i up db)" using assms by simp
  show "\<exists>token. v_clients db' = update_where (\<lambda>c. c_id c = i) (\<lambda>c. touch_client now (client_toUpdateData env token up c))
           (v_clients db)"
    using w i unfolding db' clients_updateClient
    by (intro exI[of _ "if rotates up then Some token else None"])
      (auto simp: c write_client_def split: if_splits)
  have m1: "v_memories db1 = v_memories db" using w by (auto simp: write_client_def split: if_splits)
  have rev: "v_memories (snd (revokeTokensForClient now j why ty act d)) = v_memories d" for j why ty act d
    by (simp add: revokeTokensForClient_def audit_simps split: list.split)
  show "v_memories db' = v_memories db"
    unfolding db' using c w m1 by (simp add: updateClient_def Let_def audit_simps rev)
qed

section \<open>Memories\<close>

text \<open>C3. An owner's change of a memory reaches bundles that were already approved.  Once the memory
  was edited, no approval given before the edit hands it out; once it was deleted, none does.\<close>

theorem edited_memory_is_withheld:
  assumes "distinct (map m_id (v_memories db))"
    and "(\<exists>env up m. updateMemory env t userId i up db = (Inr m, db')
            \<and> list_all (\<lambda>r. \<forall>sn\<in>set_option (r_reviewSnapshot r). map_of (sn_versions sn) i \<noteq> Some t) (v_requests db))
         \<or> (\<exists>m. deleteMemory t userId i db = (Inr m, db'))"
    and "clientId \<noteq> []" "fst (result digest now owner clientId requestId transport db') = Inr res"
  shows "i \<notin> bi_memoryId ` set (br_items res)"
proof
  assume "i \<in> bi_memoryId ` set (br_items res)"
  then obtain it where it: "it \<in> set (br_items res)" "bi_memoryId it = i" by blast
  have "\<exists>existing f mutation u' db1. owned_memory db userId i = Some existing \<and> (\<forall>m. m_id (f m) = m_id m)
      \<and> memory_change t userId existing f mutation u' db db1
      \<and> v_memories db' = v_memories db1 \<and> v_requests db' = v_requests db
      \<and> (m_status (f existing) = memory_status.DELETED
         \<or> list_all (\<lambda>r. \<forall>sn\<in>set_option (r_reviewSnapshot r). map_of (sn_versions sn) i \<noteq> Some t) (v_requests db))"
    using assms(2)
  proof (elim disjE exE conjE)
    fix env up m
    assume upd: "updateMemory env t userId i up db = (Inr m, db')"
      and l: "list_all (\<lambda>r. \<forall>sn\<in>set_option (r_reviewSnapshot r). map_of (sn_versions sn) i \<noteq> Some t) (v_requests db)"
    obtain existing db1 where "owned_memory db userId i = Some existing"
      "memory_change t userId existing (memory_toUpdateData t db up) (auditMutationForUpdate (m_status existing) up) up db db1"
      "db' = enqueueEmbeddingGeneration env t userId i ''memory_updated'' db1" by (rule updateMemory_change[OF upd])
    then show ?thesis using l
      by (intro exI[of _ existing] exI[of _ "memory_toUpdateData t db up"]
          exI[of _ "auditMutationForUpdate (m_status existing) up"] exI[of _ up] exI[of _ db1])
        (auto simp: audit_simps memory_change_def Let_def)
  next
    fix m
    assume "deleteMemory t userId i db = (Inr m, db')"
    then obtain existing where "owned_memory db userId i = Some existing"
      "memory_change t userId existing (\<lambda>m. m \<lparr> m_status := memory_status.DELETED \<rparr>) Mutation_delete delete_request db db'"
      by (rule deleteMemory_change)
    then show ?thesis
      by (intro exI[of _ existing] exI[of _ "\<lambda>m. m \<lparr> m_status := memory_status.DELETED \<rparr>"]
          exI[of _ Mutation_delete] exI[of _ delete_request] exI[of _ db'])
        (auto simp: memory_change_def Let_def)
  qed
  then obtain existing f mutation u' db1 where ex: "owned_memory db userId i = Some existing"
    and key: "\<And>m. m_id (f m) = m_id m"
    and ch: "memory_change t userId existing f mutation u' db db1"
    and vm: "v_memories db' = v_memories db1" "v_requests db' = v_requests db"
    and stale: "m_status (f existing) = memory_status.DELETED
         \<or> list_all (\<lambda>r. \<forall>sn\<in>set_option (r_reviewSnapshot r). map_of (sn_versions sn) i \<noteq> Some t) (v_requests db)"
    by blast
  have dist: "distinct (map m_id (v_memories db'))"
    using assms(1) memory_ids_after_change[OF ch key] vm(1) by simp
  obtain r sn m and p :: policy where r: "r \<in> set (v_requests db')" "r_reviewSnapshot r = Some sn"
    and m: "m \<in> set (v_memories db')" "m_id m = i" "disclosable p now m"
      "map_of (sn_versions sn) i = Some (m_updatedAt m)"
    using delivered_item_current[OF dist assms(3,4) it(1)] unfolding it(2) by blast
  have me: "m = (f existing) \<lparr> m_updatedAt := t \<rparr>"
    using memory_after_change[OF assms(1) ch ex key] m(1,2) vm(1) by simp
  have "m_status (f existing) = memory_status.ACTIVE" using m(3) by (simp add: me disclosable_def)
  then have "list_all (\<lambda>r. \<forall>sn\<in>set_option (r_reviewSnapshot r). map_of (sn_versions sn) i \<noteq> Some t) (v_requests db)"
    using stale by simp
  then show False using r vm(2) m(4) by (auto simp: list_all_iff me)
qed

section \<open>Permissions\<close>


section \<open>A sample withdrawal\<close>

lemma sample_withdrawals:
  "\<not> isl (fst (deleteMemory 8 ''u1'' ''m1'' approved_vault))"
  "case fst (deletePolicy 8 ''u1'' ''p1'' approved_vault) of Inr po \<Rightarrow> po_clientId po = ''c1'' | Inl e \<Rightarrow> False"
  by code_simp+

lemma sample_results:
  "\<not> isl (fst (result sample_digest 9 ''u1'' ''c1'' ''r1'' ''http_api'' (snd (deleteMemory 8 ''u1'' ''m1'' approved_vault))))"
  "\<not> isl (fst (result sample_digest 9 ''u1'' ''c1'' ''r1'' ''http_api'' (snd (deletePolicy 8 ''u1'' ''p1'' approved_vault))))"
  by code_simp+

lemma approved_vault_ids: "distinct (map m_id (v_memories approved_vault))" "policies_wf approved_vault"
proof -
  show "distinct (map m_id (v_memories approved_vault))" by code_simp
  show "policies_wf approved_vault"
    by (simp add: policies_wf_def approved_vault_def sample_defs)
qed

lemma edited_memory_is_withheld_witness:
  "\<exists>m db' res. deleteMemory 8 ''u1'' ''m1'' approved_vault = (Inr m, db')
     \<and> fst (result sample_digest 9 ''u1'' ''c1'' ''r1'' ''http_api'' db') = Inr res
     \<and> ''m1'' \<notin> bi_memoryId ` set (br_items res)"
proof -
  let ?db = "snd (deleteMemory 8 ''u1'' ''m1'' approved_vault)"
  obtain m where m: "deleteMemory 8 ''u1'' ''m1'' approved_vault = (Inr m, ?db)"
    using outcome_ok[OF sample_withdrawals(1)] by blast
  obtain res where "result sample_digest 9 ''u1'' ''c1'' ''r1'' ''http_api'' ?db
      = (Inr res, snd (result sample_digest 9 ''u1'' ''c1'' ''r1'' ''http_api'' ?db))"
    using outcome_ok[OF sample_results(1)] by blast
  then have res: "fst (result sample_digest 9 ''u1'' ''c1'' ''r1'' ''http_api'' ?db) = Inr res" by (metis fst_conv)
  have c: "''c1'' \<noteq> []" by simp
  have ex: "\<exists>m. deleteMemory 8 ''u1'' ''m1'' approved_vault = (Inr m, ?db)" by (rule exI) (rule m)
  show ?thesis
    by (intro exI conjI) (rule m, rule res,
      rule edited_memory_is_withheld[OF approved_vault_ids(1) disjI2[OF ex] c res])
qed


end
