(* ===== verification/Captures.thy ===== *)
theory Captures
  imports Suggestions
begin

text \<open>
  Quick captures (\<open>memory-suggestions/capture-intake.ts\<close>, \<open>quick-capture.ts\<close>): a note with no form.
  The first line makes its title, the owner reviews it, and the id a device gives it makes a retry
  harmless.  The ellipsis of a shortened title is a single code unit outside Latin-1;
  \<open>CHR 0x85\<close> stands for it.
\<close>

section \<open>The title\<close>

definition quickCapturePurpose :: string where "quickCapturePurpose = ''quick_capture''"
definition quickCaptureTitleLimit :: nat where "quickCaptureTitleLimit = 80"
definition quickCaptureSensitivity :: memory_sensitivity where
  "quickCaptureSensitivity = memory_sensitivity.INTERNAL"
definition quickCaptureConfidence :: rat where "quickCaptureConfidence = 1 / 2"

text \<open>\<open>text.split("\n")\<close>\<close>

fun split_lines :: "string \<Rightarrow> string list" where
  "split_lines [] = [[]]"
| "split_lines (c # cs) =
     (if c = CHR 0x0A then [] # split_lines cs
      else case split_lines cs of l # ls \<Rightarrow> (c # l) # ls | [] \<Rightarrow> [[c]])"

text \<open>\<open>line.replace(/\s+/g, " ")\<close>\<close>

function collapse_space :: "string \<Rightarrow> string" where
  "collapse_space [] = []"
| "collapse_space (c # cs) =
     (if js_space c then CHR '' '' # collapse_space (dropWhile js_space cs) else c # collapse_space cs)"
  by pat_completeness auto
termination
  by (relation "measure length") (auto simp: le_imp_less_Suc length_dropWhile_le)

definition quickCaptureTitle :: "string \<Rightarrow> string" where
  "quickCaptureTitle t =
     (let lines = map (\<lambda>line. js_trim (collapse_space line)) (split_lines t);
          firstLine = (case find_row (\<lambda>line. line \<noteq> []) lines of Some l \<Rightarrow> l | None \<Rightarrow> ''Quick capture'')
      in if length firstLine \<le> quickCaptureTitleLimit then firstLine
         else js_trimEnd (take (quickCaptureTitleLimit - 1) firstLine) @ [CHR 0x85])"

section \<open>The capture\<close>

record capture_request =
  cp_text :: string
  cp_captureId :: "string option"
  cp_capturedAt :: "time option"

record capture_response =
  cr_suggestionId :: "ident option"
  cr_status :: "memory_suggestion_status option"
  cr_reason :: "memory_request_reason option"
  cr_auditEventId :: "ident option"
  cr_deduplicated :: bool

definition capture_metadata :: "capture_request \<Rightarrow> (string \<times> json) list" where
  "capture_metadata cap =
     (''channel'', JStr quickCapturePurpose)
     # (if truthy (cp_captureId cap) then [(''captureId'', JStr (the (cp_captureId cap)))] else [])"

definition capture_suggestion :: "capture_request \<Rightarrow> suggestion_request" where
  "capture_suggestion cap =
     \<lparr> sq_purpose = Some quickCapturePurpose, sq_kind = memory_kind.FACT,
       sq_title = quickCaptureTitle (cp_text cap), sq_body = cp_text cap, sq_categoryKeys = [],
       sq_sensitivity = quickCaptureSensitivity, sq_evidence = None,
       sq_confidence = quickCaptureConfidence, sq_expiresAt = None,
       sq_sourceMetadata = capture_metadata cap \<rparr>"

definition capture_caller :: "capture_request \<Rightarrow> (string \<times> json) list" where
  "capture_caller cap = (case cp_capturedAt cap of Some t \<Rightarrow> [(''capturedAt'', JTime t)] | None \<Rightarrow> [])"

text \<open>\<open>findFirst\<close> by the JSON path \<open>captureId\<close> of the stored metadata.\<close>

definition find_capture :: "vault \<Rightarrow> ident \<Rightarrow> string \<Rightarrow> suggestion option" where
  "find_capture db userId captureId =
     find_row (\<lambda>s. s_userId s = userId \<and> map_of (s_sourceMetadata s) ''captureId'' = Some (JStr captureId))
       (v_suggestions db)"

definition capture_policy :: "time \<Rightarrow> vault \<Rightarrow> ident \<Rightarrow> ident option \<Rightarrow> authority option" where
  "capture_policy now db userId clientId =
     (if truthy clientId
      then Some (evaluateForClient now db userId (the clientId) policy_operation.SUGGEST
             (Some [proposed_memory quickCaptureSensitivity None []]))
      else None)"

definition record_capture ::
  "time \<Rightarrow> ident \<Rightarrow> ident option \<Rightarrow> capture_request \<Rightarrow> authority option \<Rightarrow> vault \<Rightarrow> capture_response \<times> vault" where
  "record_capture now userId clientId cap policy db =
     (let isClient = truthy clientId;
          policyId = Option.bind policy pr_policyId;
          (s, db1) = createSuggestionRecord now userId
            (if isClient then source_type.CLIENT_SUGGESTION else source_type.MANUAL) clientId
            (capture_suggestion cap \<lparr> sq_sourceMetadata := capture_caller cap \<rparr>)
            memory_suggestion_status.QUEUED_FOR_REVIEW policyId (capture_metadata cap) db;
          (ev, db2) = createAuditEvent now
            \<lparr> ai_userId = userId, ai_clientId = clientId, ai_memoryRequestId = None,
              ai_type = audit_event_type.MEMORY_SUGGESTION_CREATED,
              ai_actorType = (if isClient then audit_actor_type.CLIENT else audit_actor_type.USER),
              ai_actorId = Some (if isClient then the clientId else userId),
              ai_metadata = no_metadata \<lparr> am_suggestionId := Some (s_id s), am_policyId := policyId,
                am_clientId := clientId,
                am_details :=
                  [(''statedPurpose'', JStr quickCapturePurpose),
                   (''policyVersion'', json_version (Option.bind policy au_policyVersion)),
                   (''reason'', json_opt (map_option reason_name (Option.bind policy pr_reason))),
                   (''channel'', JStr quickCapturePurpose), (''captureId'', json_opt (cp_captureId cap)),
                   (''caller'', JObj (capture_caller cap)),
                   (''sensitivity'', JStr (sensitivity_name quickCaptureSensitivity))] \<rparr>,
              ai_subjects = suggestionAuditSubjects s clientId policyId
                (Some (appPermissionsLabel (Option.bind policy (\<lambda>p. map_option c_name (au_client p))))),
              ai_inferSubjects = True \<rparr> db1
      in (\<lparr> cr_suggestionId = Some (s_id s), cr_status = Some (s_status s), cr_reason = None,
            cr_auditEventId = Some ev, cr_deduplicated = False \<rparr>, db2))"

text \<open>\<open>captureNote\<close>, which \<open>createCapture\<close> runs in a transaction.  A client id is null or not empty.\<close>

definition captureNote ::
  "memory_env \<Rightarrow> time \<Rightarrow> ident \<Rightarrow> ident option \<Rightarrow> capture_request \<Rightarrow> vault \<Rightarrow> capture_response outcome" where
  "captureNote env now userId clientId cap db =
     (case assertNoSecretLikeContent (me_stringify env) (suggestion_scan (capture_suggestion cap)) of
        Inl e \<Rightarrow> (Inl e, db)
      | Inr _ \<Rightarrow>
          let policy = capture_policy now db userId clientId
          in if (case policy of Some p \<Rightarrow> pr_decision p = DENY | None \<Rightarrow> False)
             then let (ev, db1) = recordSuggestionDenial now userId (the clientId) (Some quickCapturePurpose) (the policy) db
                  in (Inr \<lparr> cr_suggestionId = None, cr_status = None, cr_reason = pr_reason (the policy),
                        cr_auditEventId = Some ev, cr_deduplicated = False \<rparr>, db1)
             else
               case (if truthy (cp_captureId cap) then find_capture db userId (the (cp_captureId cap)) else None) of
                 Some existing \<Rightarrow>
                   (Inr \<lparr> cr_suggestionId = Some (s_id existing), cr_status = Some (s_status existing),
                      cr_reason = None, cr_auditEventId = None, cr_deduplicated = True \<rparr>, db)
               | None \<Rightarrow>
                   (let (response, db1) = record_capture now userId clientId cap policy db
                    in (Inr response, db1)))"

section \<open>The title is a title\<close>

lemma split_lines_ne: "split_lines t \<noteq> []"
  by (induction t) (auto split: list.splits)

lemma split_lines_no_newline: "l \<in> set (split_lines t) \<Longrightarrow> CHR 0x0A \<notin> set l"
proof (induction t arbitrary: l)
  case (Cons c cs)
  then show ?case using split_lines_ne[of cs] by (cases "split_lines cs") (auto split: if_splits)
qed simp

lemma set_collapse_space: "set (collapse_space t) \<subseteq> insert (CHR '' '') (set t)"
  by (induction t rule: collapse_space.induct) (auto dest: set_dropWhileD)

lemma set_js_trimEnd: "set (js_trimEnd t) \<subseteq> set t"
  unfolding js_trimEnd_def by (auto dest: set_dropWhileD)

lemma set_js_trim: "set (js_trim t) \<subseteq> set t"
  unfolding js_trim_def js_trimStart_def using set_js_trimEnd by (force dest: set_dropWhileD)

text \<open>The title of a capture fits a title: never empty, at most 80 units, on one line.\<close>

theorem quick_capture_title:
  "quickCaptureTitle t \<noteq> [] \<and> length (quickCaptureTitle t) \<le> 80 \<and> CHR 0x0A \<notin> set (quickCaptureTitle t)"
proof -
  let ?lines = "map (\<lambda>line. js_trim (collapse_space line)) (split_lines t)"
  define first where "first = (case find_row (\<lambda>line. line \<noteq> []) ?lines of Some l \<Rightarrow> l | None \<Rightarrow> ''Quick capture'')"
  have f: "first \<noteq> [] \<and> CHR 0x0A \<notin> set first"
  proof (cases "find_row (\<lambda>line. line \<noteq> []) ?lines")
    case None
    then show ?thesis by (simp add: first_def)
  next
    case (Some l)
    then obtain line where line: "line \<in> set (split_lines t)" "l = js_trim (collapse_space line)" "l \<noteq> []"
      by (auto dest!: find_row_SomeD)
    have "set l \<subseteq> insert (CHR '' '') (set line)"
      using set_js_trim[of "collapse_space line"] set_collapse_space[of line] line(2) by blast
    then show ?thesis using Some line(3) split_lines_no_newline[OF line(1)] by (auto simp: first_def)
  qed
  have t: "quickCaptureTitle t = (if length first \<le> 80 then first else js_trimEnd (take 79 first) @ [CHR 0x85])"
    by (simp add: quickCaptureTitle_def Let_def first_def quickCaptureTitleLimit_def)
  have "length (js_trimEnd (take 79 first)) \<le> 79"
    using length_js_trimEnd[of "take 79 first"] by simp
  moreover have "CHR 0x0A \<notin> set (js_trimEnd (take 79 first))"
    using f set_js_trimEnd[of "take 79 first"] by (auto dest: in_set_takeD)
  ultimately show ?thesis using f by (auto simp: t)
qed

section \<open>Retries\<close>

text \<open>The outcomes of a capture that was not refused.\<close>

lemma captureNote_cases:
  assumes "captureNote env now u c cap db = (Inr r, db')" "cr_status r \<noteq> None"
  obtains (found) s where "truthy (cp_captureId cap)" "find_capture db u (the (cp_captureId cap)) = Some s"
      "cr_suggestionId r = Some (s_id s)" "cr_deduplicated r" "db' = db"
    | (recorded) s where "truthy (cp_captureId cap) \<Longrightarrow> find_capture db u (the (cp_captureId cap)) = None"
      "cr_suggestionId r = Some (s_id s)" "\<not> cr_deduplicated r"
      "s_userId s = u" "s_status s = memory_suggestion_status.QUEUED_FOR_REVIEW"
      "\<And>i. truthy (cp_captureId cap) \<Longrightarrow> i = the (cp_captureId cap) \<Longrightarrow>
         map_of (s_sourceMetadata s) ''captureId'' = Some (JStr i)"
      "v_suggestions db' = v_suggestions db @ [s]" "v_memories db' = v_memories db"
proof -
  let ?pol = "capture_policy now db u c"
  have nd: "\<not> (case ?pol of Some p \<Rightarrow> pr_decision p = DENY | None \<Rightarrow> False)"
    using assms by (auto simp: captureNote_def Let_def split_beta split: sum.splits)
  let ?found = "if truthy (cp_captureId cap) then find_capture db u (the (cp_captureId cap)) else None"
  show thesis
  proof (cases ?found)
    case (Some s)
    then have "truthy (cp_captureId cap)" "find_capture db u (the (cp_captureId cap)) = Some s"
      by (auto split: if_splits)
    then show thesis
      using assms nd Some by (intro found) (auto simp: captureNote_def Let_def split: sum.splits)
  next
    case None
    then have r: "(r, db') = record_capture now u c cap ?pol db"
      using assms nd by (auto simp: captureNote_def Let_def split_beta split: sum.splits)
    let ?s = "new_suggestion now (next_id db) u
        (if truthy c then source_type.CLIENT_SUGGESTION else source_type.MANUAL) c
        (capture_suggestion cap \<lparr> sq_sourceMetadata := capture_caller cap \<rparr>)
        memory_suggestion_status.QUEUED_FOR_REVIEW (Option.bind ?pol pr_policyId) (capture_metadata cap)"
    have md: "map_of (s_sourceMetadata ?s) ''captureId'' = Some (JStr i)"
      if "truthy (cp_captureId cap)" "i = the (cp_captureId cap)" for i
      using that by (simp add: new_suggestion_def spread_def capture_metadata_def)
    show thesis
      by (rule recorded[of ?s])
        (use None r md in \<open>auto simp: record_capture_def createSuggestionRecord_def Let_def split_beta audit_simps\<close>)
  qed
qed

text \<open>A device may retry a capture: sent again under the same capture id, while the suggestions are
  those the first call left, it reports the suggestion of the first call and writes nothing; and no
  capture ever writes a memory.\<close>

theorem capture_retry_is_harmless:
  assumes "captureNote env now u c cap db = (Inr r1, db1)" "cr_status r1 \<noteq> None"
    and "truthy (cp_captureId cap)" "v_suggestions db2 = v_suggestions db1"
    and "captureNote env now' u c' cap' db2 = (Inr r2, db3)" "cr_status r2 \<noteq> None"
    and "cp_captureId cap' = cp_captureId cap"
  shows "cr_suggestionId r2 = cr_suggestionId r1 \<and> cr_deduplicated r2 \<and> db3 = db2
       \<and> v_memories db1 = v_memories db"
proof -
  let ?id = "the (cp_captureId cap)"
  have "\<exists>s. find_capture db1 u ?id = Some s \<and> cr_suggestionId r1 = Some (s_id s) \<and> v_memories db1 = v_memories db"
    using assms(1,2)
  proof (cases rule: captureNote_cases)
    case (found s)
    then show ?thesis by auto
  next
    case (recorded s)
    have "find_row (\<lambda>s. s_userId s = u \<and> map_of (s_sourceMetadata s) ''captureId'' = Some (JStr ?id))
        (v_suggestions db) = None"
      using recorded(1)[OF assms(3)] by (simp add: find_capture_def)
    then have "find_capture db1 u ?id = Some s"
      using recorded(4,7) recorded(6)[OF assms(3) refl] by (simp add: find_capture_def find_row_append)
    then show ?thesis using recorded(2,8) by simp
  qed
  then obtain s where s: "find_capture db2 u ?id = Some s" "cr_suggestionId r1 = Some (s_id s)"
    "v_memories db1 = v_memories db" using assms(4) by (auto simp: find_capture_def)
  from assms(5,6) show ?thesis
  proof (cases rule: captureNote_cases)
    case (found s')
    then show ?thesis using s assms(7) by auto
  next
    case (recorded s')
    then show ?thesis using s assms(3,7) by auto
  qed
qed

definition sample_capture :: capture_request where
  "sample_capture = \<lparr> cp_text = ''tea'', cp_captureId = Some ''capture1'', cp_capturedAt = None \<rparr>"

lemma sample_capture_scan:
  "assertNoSecretLikeContent (me_stringify sample_memory_env) (suggestion_scan (capture_suggestion sample_capture)) = Inr ()"
  by (rule short_text_accepted) code_simp

lemma sample_capture_taken:
  "case fst (captureNote sample_memory_env now ''u1'' None sample_capture db) of
     Inr r \<Rightarrow> cr_status r \<noteq> None | Inl e \<Rightarrow> False"
  by (auto simp: captureNote_def sample_capture_scan capture_policy_def record_capture_def Let_def split_beta
      split: option.splits)

lemma capture_retry_is_harmless_witness:
  "\<exists>r1 db1 r2 db3. captureNote sample_memory_env 9 ''u1'' None sample_capture sample_vault = (Inr r1, db1)
     \<and> captureNote sample_memory_env 10 ''u1'' None sample_capture db1 = (Inr r2, db3)
     \<and> cr_suggestionId r2 = cr_suggestionId r1 \<and> db3 = db1"
proof -
  let ?db1 = "snd (captureNote sample_memory_env 9 ''u1'' None sample_capture sample_vault)"
  let ?db3 = "snd (captureNote sample_memory_env 10 ''u1'' None sample_capture ?db1)"
  obtain r1 where r1: "captureNote sample_memory_env 9 ''u1'' None sample_capture sample_vault = (Inr r1, ?db1)"
    and s1: "cr_status r1 \<noteq> None" using outcome_okE[OF sample_capture_taken] by blast
  obtain r2 where r2: "captureNote sample_memory_env 10 ''u1'' None sample_capture ?db1 = (Inr r2, ?db3)"
    and s2: "cr_status r2 \<noteq> None" using outcome_okE[OF sample_capture_taken] by blast
  have id: "truthy (cp_captureId sample_capture)" by (simp add: sample_capture_def)
  note same = capture_retry_is_harmless[OF r1 s1 id refl r2 s2 refl]
  show ?thesis
    by (intro exI conjI) (rule r1, rule r2, rule same[THEN conjunct1],
        rule same[THEN conjunct2, THEN conjunct2, THEN conjunct1])
qed

end
