(* ===== verification/Processing.thy ===== *)
theory Processing
  imports Suggestions
begin

text \<open>
  The choice of a memory-processing provider (\<open>apps/api/src/memory-processing\<close>):
  \<open>memory-processing-config.service.ts\<close> resolves the deployment's environment and the owner's
  preferences into a configuration, \<open>processing-permission.service.ts\<close> rechecks the choice before
  every disclosure to a provider and every write of its results.
\<close>

section \<open>Environment and configuration\<close>

datatype processing_system = System_1 | System_2

datatype processing_scope = Scope_extraction | Scope_consolidation

datatype write_mode = Write_policy | Write_review

datatype apply_mode = Apply_user_setting | Apply_review

primrec system_name :: "processing_system \<Rightarrow> string" where
  "system_name System_1 = ''system_1''"
| "system_name System_2 = ''system_2''"

primrec scope_name :: "processing_scope \<Rightarrow> string" where
  "scope_name Scope_extraction = ''extraction''"
| "scope_name Scope_consolidation = ''consolidation''"

primrec write_mode_name :: "write_mode \<Rightarrow> string" where
  "write_mode_name Write_policy = ''policy''"
| "write_mode_name Write_review = ''review''"

primrec apply_mode_name :: "apply_mode \<Rightarrow> string" where
  "apply_mode_name Apply_user_setting = ''user_setting''"
| "apply_mode_name Apply_review = ''review''"

lemma system_name_inj [simp]: "system_name a = system_name b \<longleftrightarrow> a = b"
  by (cases a; cases b) simp_all

lemma scope_name_inj [simp]: "scope_name a = scope_name b \<longleftrightarrow> a = b"
  by (cases a; cases b) simp_all

text \<open>The variables \<open>apiEnv()\<close> gives the service, with the digest and \<open>JSON.stringify\<close> of the runtime.\<close>

record processing_env =
  px_OPENAI_API_KEY :: "string option"
  px_TYPESAFE_API_KEY :: "string option"
  px_EXTRACTION_SYSTEM :: "processing_system option"
  px_CONSOLIDATION_SYSTEM :: "processing_system option"
  px_EXTRACTION_LLM_MODEL :: "string option"
  px_CONSOLIDATION_LLM_MODEL :: "string option"
  px_NORMALIZATION_LLM_MODEL :: "string option"
  px_EXTRACTION_JEV_MODEL :: string
  px_CONSOLIDATION_JEV_MODEL :: string
  px_OPENAI_CHAT_MODEL :: string
  px_EXTRACTION_TIMEOUT_MS :: nat
  px_CONSOLIDATION_TIMEOUT_MS :: nat
  px_EXTRACTION_WRITE_MODE :: write_mode
  px_CONSOLIDATION_APPLY_MODE :: apply_mode
  px_CONSOLIDATION_MAX_SENSITIVITY :: memory_sensitivity
  px_sha256_hex :: "string \<Rightarrow> string"
  px_stringify :: "(string \<times> json) list \<Rightarrow> string"

record extraction_task =
  et_system :: processing_system
  et_model :: string
  et_normalizationModel :: string
  et_timeoutMs :: nat
  et_writeMode :: write_mode
  et_processors :: "string list"
  et_available :: bool

record consolidation_task =
  ct_system :: processing_system
  ct_model :: string
  ct_timeoutMs :: nat
  ct_applyMode :: apply_mode
  ct_maxSensitivity :: memory_sensitivity
  ct_processors :: "string list"
  ct_available :: bool

record processing_configuration =
  pf_rubric :: string
  pf_extraction :: extraction_task
  pf_consolidation :: consolidation_task
  pf_fingerprint :: string
  pf_extractionFingerprint :: string

text \<open>\<open>Record<ProcessingScope, ProcessingSystem>\<close>\<close>

record selected_systems =
  sel_extraction :: processing_system
  sel_consolidation :: processing_system

definition ProcessorName_classifier :: string where "ProcessorName_classifier = ''typesafe''"
definition ProcessorName_openai :: string where "ProcessorName_openai = ''openai''"

definition defaultProcessingSystems :: "processing_env \<Rightarrow> selected_systems" where
  "defaultProcessingSystems env =
     \<lparr> sel_extraction =
         (case px_EXTRACTION_SYSTEM env of Some s \<Rightarrow> s
          | None \<Rightarrow> if truthy (px_TYPESAFE_API_KEY env) \<and> truthy (px_OPENAI_API_KEY env)
                   then System_1 else System_2),
       sel_consolidation =
         (case px_CONSOLIDATION_SYSTEM env of Some s \<Rightarrow> s
          | None \<Rightarrow> if truthy (px_TYPESAFE_API_KEY env) then System_1 else System_2) \<rparr>"

definition extraction_task_of :: "processing_env \<Rightarrow> processing_system \<Rightarrow> extraction_task" where
  "extraction_task_of env sys =
     \<lparr> et_system = sys,
       et_model = (if sys = System_1 then px_EXTRACTION_JEV_MODEL env
                   else or_keep (px_EXTRACTION_LLM_MODEL env) (px_OPENAI_CHAT_MODEL env)),
       et_normalizationModel = or_keep (px_NORMALIZATION_LLM_MODEL env) (px_OPENAI_CHAT_MODEL env),
       et_timeoutMs = px_EXTRACTION_TIMEOUT_MS env, et_writeMode = px_EXTRACTION_WRITE_MODE env,
       et_processors = (if sys = System_1 then [ProcessorName_classifier, ProcessorName_openai]
                        else [ProcessorName_openai]),
       et_available = (truthy (px_OPENAI_API_KEY env)
                       \<and> (sys \<noteq> System_1 \<or> truthy (px_TYPESAFE_API_KEY env))) \<rparr>"

definition consolidation_task_of :: "processing_env \<Rightarrow> processing_system \<Rightarrow> consolidation_task" where
  "consolidation_task_of env sys =
     \<lparr> ct_system = sys,
       ct_model = (if sys = System_1 then px_CONSOLIDATION_JEV_MODEL env
                   else or_keep (px_CONSOLIDATION_LLM_MODEL env) (px_OPENAI_CHAT_MODEL env)),
       ct_timeoutMs = px_CONSOLIDATION_TIMEOUT_MS env, ct_applyMode = px_CONSOLIDATION_APPLY_MODE env,
       ct_maxSensitivity = px_CONSOLIDATION_MAX_SENSITIVITY env,
       ct_processors = (if sys = System_1 then [ProcessorName_classifier] else [ProcessorName_openai]),
       ct_available = truthy (if sys = System_1 then px_TYPESAFE_API_KEY env else px_OPENAI_API_KEY env) \<rparr>"

text \<open>The configuration as JSON, with its keys in the order the source writes them.\<close>

definition extraction_json :: "extraction_task \<Rightarrow> json" where
  "extraction_json t =
     JObj [(''system'', JStr (system_name (et_system t))), (''model'', JStr (et_model t)),
       (''normalizationModel'', JStr (et_normalizationModel t)), (''timeoutMs'', JNum (of_nat (et_timeoutMs t))),
       (''writeMode'', JStr (write_mode_name (et_writeMode t))), (''processors'', json_strings (et_processors t)),
       (''available'', JBool (et_available t))]"

definition consolidation_json :: "consolidation_task \<Rightarrow> json" where
  "consolidation_json t =
     JObj [(''system'', JStr (system_name (ct_system t))), (''model'', JStr (ct_model t)),
       (''timeoutMs'', JNum (of_nat (ct_timeoutMs t))), (''applyMode'', JStr (apply_mode_name (ct_applyMode t))),
       (''maxSensitivity'', JStr (sensitivity_name (ct_maxSensitivity t))),
       (''processors'', json_strings (ct_processors t)), (''available'', JBool (ct_available t))]"

definition fingerprint :: "processing_env \<Rightarrow> (string \<times> json) list \<Rightarrow> string" where
  "fingerprint env v = take 20 (px_sha256_hex env (px_stringify env v))"

definition rubric_version :: string where "rubric_version = ''memory-processing-v1''"

definition resolveProcessingConfiguration ::
  "processing_env \<Rightarrow> selected_systems \<Rightarrow> processing_configuration" where
  "resolveProcessingConfiguration env selected =
     (let extraction = extraction_task_of env (sel_extraction selected);
          consolidation = consolidation_task_of env (sel_consolidation selected)
      in \<lparr> pf_rubric = rubric_version, pf_extraction = extraction, pf_consolidation = consolidation,
           pf_fingerprint = fingerprint env [(''rubric'', JStr rubric_version),
             (''extraction'', extraction_json extraction), (''consolidation'', consolidation_json consolidation)],
           pf_extractionFingerprint = fingerprint env [(''rubric'', JStr rubric_version),
             (''extraction'', extraction_json extraction)] \<rparr>)"

text \<open>\<open>configuration[scope]\<close>, of the fields both tasks have.\<close>

primrec task_system :: "processing_scope \<Rightarrow> processing_configuration \<Rightarrow> processing_system" where
  "task_system Scope_extraction c = et_system (pf_extraction c)"
| "task_system Scope_consolidation c = ct_system (pf_consolidation c)"

primrec task_processors :: "processing_scope \<Rightarrow> processing_configuration \<Rightarrow> string list" where
  "task_processors Scope_extraction c = et_processors (pf_extraction c)"
| "task_processors Scope_consolidation c = ct_processors (pf_consolidation c)"

primrec task_available :: "processing_scope \<Rightarrow> processing_configuration \<Rightarrow> bool" where
  "task_available Scope_extraction c = et_available (pf_extraction c)"
| "task_available Scope_consolidation c = ct_available (pf_consolidation c)"

section \<open>MemoryProcessingConfigService\<close>

record provider_options =
  po_extraction_typesafe :: bool
  po_extraction_openai :: bool
  po_consolidation_typesafe :: bool
  po_consolidation_openai :: bool

definition processing_options :: "processing_env \<Rightarrow> provider_options" where
  "processing_options env =
     (let typesafe = resolveProcessingConfiguration env \<lparr> sel_extraction = System_1, sel_consolidation = System_1 \<rparr>;
          openai = resolveProcessingConfiguration env \<lparr> sel_extraction = System_2, sel_consolidation = System_2 \<rparr>
      in \<lparr> po_extraction_typesafe = et_available (pf_extraction typesafe),
           po_extraction_openai = et_available (pf_extraction openai),
           po_consolidation_typesafe = ct_available (pf_consolidation typesafe),
           po_consolidation_openai = ct_available (pf_consolidation openai) \<rparr>)"

definition scope_of_name :: "string \<Rightarrow> processing_scope option" where
  "scope_of_name s =
     (if s = ''extraction'' then Some Scope_extraction
      else if s = ''consolidation'' then Some Scope_consolidation else None)"

definition system_of_name :: "string \<Rightarrow> processing_system option" where
  "system_of_name s =
     (if s = ''system_1'' then Some System_1 else if s = ''system_2'' then Some System_2 else None)"

primrec select_system :: "processing_scope \<Rightarrow> processing_system \<Rightarrow> selected_systems \<Rightarrow> selected_systems" where
  "select_system Scope_extraction sys sel = sel \<lparr> sel_extraction := sys \<rparr>"
| "select_system Scope_consolidation sys sel = sel \<lparr> sel_consolidation := sys \<rparr>"

fun apply_preferences :: "provider_preference list \<Rightarrow> selected_systems \<Rightarrow> error + selected_systems" where
  "apply_preferences [] selected = Inr selected"
| "apply_preferences (p # ps) selected =
     (case (scope_of_name (pp_scope p), system_of_name (pp_system p)) of
        (Some scope, Some sys) \<Rightarrow> apply_preferences ps (select_system scope sys selected)
      | _ \<Rightarrow> Inl (Internal ''Invalid provider preference''))"

definition owner_preferences :: "vault \<Rightarrow> ident \<Rightarrow> provider_preference list" where
  "owner_preferences db userId = filter (\<lambda>p. pp_userId p = userId) (v_preferences db)"

definition forUser :: "processing_env \<Rightarrow> vault \<Rightarrow> ident \<Rightarrow> error + processing_configuration" where
  "forUser env db userId =
     map_sum id (resolveProcessingConfiguration env)
       (apply_preferences (owner_preferences db userId) (defaultProcessingSystems env))"

definition is_preference :: "ident \<Rightarrow> string \<Rightarrow> provider_preference \<Rightarrow> bool" where
  "is_preference userId scope p = (pp_userId p = userId \<and> pp_scope p = scope)"

definition upsert_preference ::
  "ident \<Rightarrow> string \<Rightarrow> string \<Rightarrow> provider_preference list \<Rightarrow> provider_preference list" where
  "upsert_preference userId scope sys prefs =
     (if list_ex (is_preference userId scope) prefs
      then update_where (is_preference userId scope) (\<lambda>p. p \<lparr> pp_system := sys \<rparr>) prefs
      else prefs @ [\<lparr> pp_userId = userId, pp_scope = scope, pp_system = sys \<rparr>])"

definition provider_event :: "ident \<Rightarrow> processing_scope \<Rightarrow> processing_system \<Rightarrow> processing_system \<Rightarrow> audit_event_input" where
  "provider_event userId scope previous sys =
     user_actor_event userId audit_event_type.PROCESSING_PROVIDER_SELECTED
       (no_metadata \<lparr> am_details := [(''action'', JStr ''provider_selected''), (''scope'', JStr (scope_name scope)),
          (''previous'', JStr (system_name previous)), (''system'', JStr (system_name sys))] \<rparr>) []"

definition setProvider_tx ::
  "processing_env \<Rightarrow> time \<Rightarrow> ident \<Rightarrow> processing_scope \<Rightarrow> processing_system \<Rightarrow> vault \<Rightarrow> unit outcome" where
  "setProvider_tx env now userId scope sys db =
     (let saved = find_row (is_preference userId (scope_name scope)) (v_preferences db)
      in if map_option pp_system saved = Some (system_name sys) then (Inr (), db)
         else case forUser env db userId of
                Inl e \<Rightarrow> (Inl e, db)
              | Inr current \<Rightarrow>
                  (Inr (), snd (createAuditEvent now
                     (provider_event userId scope (task_system scope current) sys)
                     (db \<lparr> v_preferences := upsert_preference userId (scope_name scope) (system_name sys)
                              (v_preferences db) \<rparr>))))"

definition setProvider ::
  "processing_env \<Rightarrow> time \<Rightarrow> ident \<Rightarrow> processing_scope \<Rightarrow> processing_system \<Rightarrow> vault
     \<Rightarrow> processing_configuration outcome" where
  "setProvider env now userId scope sys db =
     (if \<not> task_available scope
            (resolveProcessingConfiguration env \<lparr> sel_extraction = sys, sel_consolidation = sys \<rparr>)
      then (Inl (BadRequest ''Selected provider is not configured''), db)
      else case setProvider_tx env now userId scope sys db of
             (Inl e, db1) \<Rightarrow> (Inl e, db1)
           | (Inr _, db1) \<Rightarrow> (forUser env db1 userId, db1))"

section \<open>ProcessingPermissionService\<close>

text \<open>\<open>ProcessingBlocked\<close>, or another exception.\<close>

datatype processing_error = Blocked string | Raised error

definition secret_in_payload :: "processing_env \<Rightarrow> (string \<times> json) list \<Rightarrow> bool" where
  "secret_in_payload env payload =
     (detectSecretLikeContent (px_stringify env)
        \<lparr> ss_title = None, ss_body = Some (px_stringify env payload), ss_evidence = None,
          ss_sourceMetadata = None \<rparr> \<noteq> [])"

definition check ::
  "processing_env \<Rightarrow> vault \<Rightarrow> ident \<Rightarrow> processing_scope \<Rightarrow> string list \<Rightarrow> (string \<times> json) list option
     \<Rightarrow> processing_error + unit" where
  "check env db userId scope processors payload =
     (if (case payload of Some v \<Rightarrow> secret_in_payload env v | None \<Rightarrow> False)
      then Inl (Blocked ''secret_like_content'')
      else case forUser env db userId of
             Inl e \<Rightarrow> Inl (Raised e)
           | Inr configuration \<Rightarrow>
               if task_processors scope configuration \<noteq> processors
               then Inl (Blocked ''processing_provider_changed'')
               else if \<not> task_available scope configuration
               then Inl (Blocked ''provider_not_configured'')
               else Inr ())"

section \<open>What a choice changes\<close>

text \<open>The preferences of an owner, as the unique key (owner, scope) keeps them.\<close>

definition preferences_ok :: "vault \<Rightarrow> bool" where
  "preferences_ok db = distinct (map (\<lambda>p. (pp_userId p, pp_scope p)) (v_preferences db))"

lemma scope_of_scope_name [simp]: "scope_of_name (scope_name s) = Some s"
  by (cases s) (simp_all add: scope_of_name_def)

lemma system_of_system_name [simp]: "system_of_name (system_name s) = Some s"
  by (cases s) (simp_all add: system_of_name_def)

lemma scope_of_name_Some: "scope_of_name x = Some s \<longleftrightarrow> x = scope_name s"
  by (cases s) (auto simp: scope_of_name_def)

lemma system_of_name_Some: "system_of_name x = Some s \<longleftrightarrow> x = system_name s"
  by (cases s) (auto simp: system_of_name_def)

primrec sel_of :: "processing_scope \<Rightarrow> selected_systems \<Rightarrow> processing_system" where
  "sel_of Scope_extraction sel = sel_extraction sel"
| "sel_of Scope_consolidation sel = sel_consolidation sel"

lemma sel_of_select: "sel_of s (select_system t sys sel) = (if s = t then sys else sel_of s sel)"
  by (cases s; cases t) simp_all

lemma task_system_resolve [simp]: "task_system s (resolveProcessingConfiguration env sel) = sel_of s sel"
  by (cases s) (simp_all add: resolveProcessingConfiguration_def Let_def extraction_task_of_def consolidation_task_of_def)

lemma selected_eqI: "(\<And>s. sel_of s a = sel_of s b) \<Longrightarrow> a = (b :: selected_systems)"
  by (metis (full_types) sel_of.simps selected_systems.equality old.unit.exhaust)

text \<open>What the preferences of an owner select: the row of the scope, or the default.\<close>

lemma apply_preferences_sel:
  assumes "distinct (map pp_scope ps)" "apply_preferences ps sel = Inr sel'"
  shows "sel_of s sel' =
    (case find_row (\<lambda>p. pp_scope p = scope_name s) ps of
       Some p \<Rightarrow> the (system_of_name (pp_system p)) | None \<Rightarrow> sel_of s sel)"
  using assms
proof (induction ps arbitrary: sel)
  case (Cons p ps)
  obtain t sys where ts: "pp_scope p = scope_name t" "pp_system p = system_name sys"
    and rest: "apply_preferences ps (select_system t sys sel) = Inr sel'"
    using Cons.prems(2) by (auto simp: scope_of_name_Some system_of_name_Some split: option.splits)
  have "find_row (\<lambda>q. pp_scope q = scope_name t) ps = None"
    using Cons.prems(1) ts(1) by (auto simp: find_row_None_iff image_iff)
  then show ?case
    using Cons.IH[OF _ rest] Cons.prems(1) ts by (auto simp: sel_of_select split: option.splits)
qed simp

lemma apply_preferences_ok:
  "(\<exists>sel'. apply_preferences ps sel = Inr sel')
     \<longleftrightarrow> (\<forall>p\<in>set ps. scope_of_name (pp_scope p) \<noteq> None \<and> system_of_name (pp_system p) \<noteq> None)"
  by (induction ps arbitrary: sel) (auto split: option.splits)

lemma preferences_scopes: "preferences_ok db \<Longrightarrow> distinct (map pp_scope (owner_preferences db userId))"
  unfolding preferences_ok_def owner_preferences_def
  by (induction "v_preferences db" arbitrary: db rule: list.induct)
    (auto simp: distinct_map inj_on_def)

lemma upsert_preference_owner:
  "filter (\<lambda>p. pp_userId p = userId) (upsert_preference userId scope sys prefs)
     = upsert_preference userId scope sys (filter (\<lambda>p. pp_userId p = userId) prefs)"
proof -
  have "filter (\<lambda>p. pp_userId p = userId) (update_where (is_preference userId scope) (\<lambda>p. p \<lparr> pp_system := sys \<rparr>) ps)
      = update_where (is_preference userId scope) (\<lambda>p. p \<lparr> pp_system := sys \<rparr>) (filter (\<lambda>p. pp_userId p = userId) ps)"
    for ps by (induction ps) auto
  moreover have "list_ex (is_preference userId scope) (filter (\<lambda>p. pp_userId p = userId) prefs)
      = list_ex (is_preference userId scope) prefs"
    by (auto simp: list_ex_iff is_preference_def)
  ultimately show ?thesis by (simp add: upsert_preference_def)
qed

lemma upsert_preference_other:
  "u \<noteq> userId \<Longrightarrow> filter (\<lambda>p. pp_userId p = u) (upsert_preference userId scope sys prefs)
     = filter (\<lambda>p. pp_userId p = u) prefs"
proof -
  assume u: "u \<noteq> userId"
  have "filter (\<lambda>p. pp_userId p = u) (update_where (is_preference userId scope) (\<lambda>p. p \<lparr> pp_system := sys \<rparr>) ps)
      = filter (\<lambda>p. pp_userId p = u) ps" for ps
    using u by (induction ps) (auto simp: is_preference_def)
  then show ?thesis using u by (simp add: upsert_preference_def)
qed

lemma find_upsert_preference:
  assumes "\<forall>p\<in>set ps. pp_userId p = userId"
  shows "find_row (\<lambda>p. pp_scope p = s) (upsert_preference userId scope sys ps) =
    (if s = scope then
       Some (case find_row (\<lambda>p. pp_scope p = s) ps of
               Some p \<Rightarrow> p \<lparr> pp_system := sys \<rparr>
             | None \<Rightarrow> \<lparr> pp_userId = userId, pp_scope = scope, pp_system = sys \<rparr>)
     else find_row (\<lambda>p. pp_scope p = s) ps)"
proof (cases "list_ex (is_preference userId scope) ps")
  case True
  have "find_row (\<lambda>p. pp_scope p = s) (update_where (is_preference userId scope) (\<lambda>p. p \<lparr> pp_system := sys \<rparr>) ps)
      = map_option (\<lambda>p. if is_preference userId scope p then p \<lparr> pp_system := sys \<rparr> else p)
          (find_row (\<lambda>p. pp_scope p = s) ps)"
    by (rule find_row_update_where) simp
  moreover have "find_row (\<lambda>p. pp_scope p = scope) ps \<noteq> None"
    using True by (auto simp: list_ex_iff is_preference_def find_row_None_iff)
  ultimately show ?thesis
    using True assms
    by (cases "find_row (\<lambda>p. pp_scope p = s) ps")
      (auto simp: upsert_preference_def is_preference_def dest: find_row_SomeD)
next
  case False
  then have "find_row (\<lambda>p. pp_scope p = scope) ps = None"
    using assms by (auto simp: list_ex_iff is_preference_def find_row_None_iff)
  then show ?thesis
    using False by (auto simp: upsert_preference_def find_row_append split: option.split)
qed

lemma preferences_ok_upsert:
  "preferences_ok db \<Longrightarrow> preferences_ok (db \<lparr> v_preferences := upsert_preference userId scope sys (v_preferences db) \<rparr>)"
  by (auto simp: preferences_ok_def upsert_preference_def map_update_where list_ex_iff is_preference_def)

lemma setProvider_tx_ok:
  assumes "setProvider_tx env now userId scope sys db = (Inr (), db1)"
  obtains (same) p where "find_row (is_preference userId (scope_name scope)) (v_preferences db) = Some p"
      "pp_system p = system_name sys" "db1 = db"
    | (new) current where "forUser env db userId = Inr current"
      "v_preferences db1 = upsert_preference userId (scope_name scope) (system_name sys) (v_preferences db)"
      "auditEvents db1 = auditEvents db @ [event_row now (next_id db) (provider_event userId scope (task_system scope current) sys)]"
  using assms
  by (auto simp: setProvider_tx_def Let_def audit_simps next_id_def split: if_splits sum.splits)

lemma find_owner_preference:
  "find_row (\<lambda>p. pp_scope p = s) (owner_preferences db userId) = find_row (is_preference userId s) (v_preferences db)"
proof -
  have "find_row (\<lambda>p. pp_scope p = s) (filter (\<lambda>p. pp_userId p = userId) ps) = find_row (is_preference userId s) ps" for ps
    by (induction ps) (auto simp: is_preference_def)
  then show ?thesis by (simp add: owner_preferences_def)
qed

lemma forUser_sel:
  assumes "preferences_ok db" "forUser env db userId = Inr c"
  shows "task_system s c =
    (case find_row (is_preference userId (scope_name s)) (v_preferences db) of
       Some p \<Rightarrow> the (system_of_name (pp_system p)) | None \<Rightarrow> sel_of s (defaultProcessingSystems env))"
proof -
  obtain sel where a: "apply_preferences (owner_preferences db userId) (defaultProcessingSystems env) = Inr sel"
    and c: "c = resolveProcessingConfiguration env sel"
    using assms(2) by (cases "apply_preferences (owner_preferences db userId) (defaultProcessingSystems env)")
      (auto simp: forUser_def)
  show ?thesis
    using apply_preferences_sel[OF preferences_scopes[OF assms(1)] a, of s] by (simp add: c find_owner_preference)
qed

lemma task_available_system:
  "task_system s (resolveProcessingConfiguration env a) = task_system s (resolveProcessingConfiguration env b) \<Longrightarrow>
   task_available s (resolveProcessingConfiguration env a) = task_available s (resolveProcessingConfiguration env b)
   \<and> task_processors s (resolveProcessingConfiguration env a) = task_processors s (resolveProcessingConfiguration env b)"
  by (cases s) (simp_all add: resolveProcessingConfiguration_def Let_def extraction_task_of_def consolidation_task_of_def)

lemma forUser_resolved: "forUser env db userId = Inr c \<Longrightarrow> \<exists>sel. c = resolveProcessingConfiguration env sel"
  by (cases "apply_preferences (owner_preferences db userId) (defaultProcessingSystems env)")
    (auto simp: forUser_def)

lemma setProvider_ok:
  assumes "setProvider env now userId scope sys db = (Inr c, db1)"
  shows "setProvider_tx env now userId scope sys db = (Inr (), db1)" "forUser env db1 userId = Inr c"
    and "task_available scope (resolveProcessingConfiguration env \<lparr> sel_extraction = sys, sel_consolidation = sys \<rparr>)"
  using assms by (auto simp: setProvider_def split: if_splits prod.splits sum.splits)

lemma sel_of_same [simp]: "sel_of s \<lparr> sel_extraction = sys, sel_consolidation = sys \<rparr> = sys"
  by (cases s) simp_all

text \<open>The choice is the owner's row of the scope; nothing else is selected differently.\<close>

lemma setProvider_selects:
  assumes "preferences_ok db" "setProvider env now userId scope sys db = (Inr c, db1)"
  shows "task_system scope c = sys"
    and "t \<noteq> scope \<Longrightarrow> find_row (is_preference userId (scope_name t)) (v_preferences db1)
           = find_row (is_preference userId (scope_name t)) (v_preferences db)"
    and "u \<noteq> userId \<Longrightarrow> owner_preferences db1 u = owner_preferences db u"
    and "preferences_ok db1"
proof -
  note ok = setProvider_ok[OF assms(2)]
  have own: "\<forall>p\<in>set (owner_preferences db userId). pp_userId p = userId" by (simp add: owner_preferences_def)
  have "task_system scope c = sys
    \<and> (t \<noteq> scope \<longrightarrow> find_row (is_preference userId (scope_name t)) (v_preferences db1)
           = find_row (is_preference userId (scope_name t)) (v_preferences db))
    \<and> (u \<noteq> userId \<longrightarrow> owner_preferences db1 u = owner_preferences db u) \<and> preferences_ok db1"
    using ok(1)
  proof (cases rule: setProvider_tx_ok)
    case (same p)
    then show ?thesis using forUser_sel[of db1 env userId c scope] ok(2) assms(1) by simp
  next
    case (new current)
    have up: "owner_preferences db1 userId
        = upsert_preference userId (scope_name scope) (system_name sys) (owner_preferences db userId)"
      by (simp add: owner_preferences_def new(2) upsert_preference_owner)
    have ok1: "preferences_ok db1"
      using preferences_ok_upsert[OF assms(1)] new(2) by (simp add: preferences_ok_def)
    have f: "find_row (is_preference userId s) (v_preferences db1)
        = (if s = scope_name scope then
             Some (case find_row (\<lambda>p. pp_scope p = s) (owner_preferences db userId) of
                     Some p \<Rightarrow> p \<lparr> pp_system := system_name sys \<rparr>
                   | None \<Rightarrow> \<lparr> pp_userId = userId, pp_scope = scope_name scope, pp_system = system_name sys \<rparr>)
           else find_row (is_preference userId s) (v_preferences db))" for s
      using find_upsert_preference[OF own, of s "scope_name scope" "system_name sys"]
      by (simp add: up flip: find_owner_preference)
    have "owner_preferences db1 u = owner_preferences db u" if "u \<noteq> userId"
      using upsert_preference_other[OF that] by (simp add: owner_preferences_def new(2))
    moreover have "task_system scope c = sys"
      using forUser_sel[OF ok1 ok(2), of scope] by (simp add: f split: option.splits)
    ultimately show ?thesis using f[of "scope_name t"] ok1 by simp
  qed
  then show "task_system scope c = sys"
    and "t \<noteq> scope \<Longrightarrow> find_row (is_preference userId (scope_name t)) (v_preferences db1)
           = find_row (is_preference userId (scope_name t)) (v_preferences db)"
    and "u \<noteq> userId \<Longrightarrow> owner_preferences db1 u = owner_preferences db u"
    and "preferences_ok db1" by blast+
qed

text \<open>Choosing a provider takes effect for that scope and nothing else: the configuration resolved
  for the owner afterwards names the chosen system, which is available; the owner's other scope and
  every other owner keep their configuration; and the choice is recorded with the system it replaces,
  unless it was already the saved one.\<close>

theorem provider_choice_takes_effect:
  assumes "preferences_ok db" "forUser env db userId = Inr before"
    and "setProvider env now userId scope sys db = (Inr c, db')"
  shows "forUser env db' userId = Inr c \<and> task_system scope c = sys \<and> task_available scope c
    \<and> (\<forall>t. t \<noteq> scope \<longrightarrow> task_system t c = task_system t before)
    \<and> (\<forall>u. u \<noteq> userId \<longrightarrow> forUser env db' u = forUser env db u)
    \<and> (db' = db \<or> auditEvents db' = auditEvents db
          @ [event_row now (next_id db) (provider_event userId scope (task_system scope before) sys)])"
proof -
  note sel = setProvider_selects[OF assms(1,3)] and ok = setProvider_ok[OF assms(3)]
  obtain s where c: "c = resolveProcessingConfiguration env s" using forUser_resolved[OF ok(2)] by blast
  have "task_available scope c"
    using task_available_system[of scope env s "\<lparr> sel_extraction = sys, sel_consolidation = sys \<rparr>"] ok(3) sel(1) c
    by simp
  moreover have "task_system t c = task_system t before" if "t \<noteq> scope" for t
    unfolding forUser_sel[OF assms(1,2)] forUser_sel[OF sel(4) ok(2)] sel(2)[OF that] by (rule refl)
  moreover have "forUser env db' u = forUser env db u" if "u \<noteq> userId" for u
    using sel(3)[OF that] by (simp add: forUser_def)
  moreover have "db' = db \<or> auditEvents db' = auditEvents db
          @ [event_row now (next_id db) (provider_event userId scope (task_system scope before) sys)]"
    using ok(1) by (cases rule: setProvider_tx_ok) (use assms(2) in auto)
  ultimately show ?thesis using ok(2) sel(1) by blast
qed

lemma processors_determine_system:
  "task_processors s (resolveProcessingConfiguration env a) = task_processors s (resolveProcessingConfiguration env b)
   \<Longrightarrow> sel_of s a = sel_of s b"
  by (cases s; cases "sel_of s a"; cases "sel_of s b")
    (auto simp: resolveProcessingConfiguration_def Let_def extraction_task_of_def consolidation_task_of_def
      ProcessorName_classifier_def ProcessorName_openai_def)

lemma check_ok:
  assumes "check env db userId scope processors payload = Inr ()"
  obtains c where "forUser env db userId = Inr c" "task_processors scope c = processors"
    "task_available scope c" "\<And>v. payload = Some v \<Longrightarrow> \<not> secret_in_payload env v"
  using assms by (auto simp: check_def split: if_splits sum.splits option.splits)

text \<open>A provider the owner turned away from is stopped: a check that passed with one provider's
  processors is refused, whatever the payload, once the owner has chosen another system for the scope.
  A run in progress therefore neither sends more to the old provider nor writes what it answered.\<close>

theorem deselected_provider_is_blocked:
  assumes "preferences_ok db" "check env db userId scope processors payload = Inr ()"
    and "forUser env db userId = Inr before" "task_system scope before \<noteq> sys"
    and "setProvider env now userId scope sys db = (Inr c, db')"
  shows "\<exists>reason\<in>{''secret_like_content'', ''processing_provider_changed''}.
    check env db' userId scope processors payload' = Inl (Blocked reason)"
proof -
  note sel = setProvider_selects[OF assms(1,5)] and ok = setProvider_ok[OF assms(5)]
  obtain a where a: "before = resolveProcessingConfiguration env a" using forUser_resolved[OF assms(3)] by blast
  obtain b where b: "c = resolveProcessingConfiguration env b" using forUser_resolved[OF ok(2)] by blast
  have "task_processors scope before = processors"
    using assms(2,3) by (auto elim!: check_ok)
  moreover have "task_processors scope c \<noteq> task_processors scope before"
    using processors_determine_system[of scope env b a] assms(4) sel(1) by (auto simp: a b)
  ultimately show ?thesis using ok(2) by (auto simp: check_def)
qed

section \<open>A sample\<close>

definition sample_processing_env :: processing_env where
  "sample_processing_env =
     \<lparr> px_OPENAI_API_KEY = Some ''o'', px_TYPESAFE_API_KEY = Some ''t'', px_EXTRACTION_SYSTEM = None,
       px_CONSOLIDATION_SYSTEM = None, px_EXTRACTION_LLM_MODEL = None, px_CONSOLIDATION_LLM_MODEL = None,
       px_NORMALIZATION_LLM_MODEL = None, px_EXTRACTION_JEV_MODEL = ''jev'', px_CONSOLIDATION_JEV_MODEL = ''jev'',
       px_OPENAI_CHAT_MODEL = ''gpt'', px_EXTRACTION_TIMEOUT_MS = 15, px_CONSOLIDATION_TIMEOUT_MS = 60,
       px_EXTRACTION_WRITE_MODE = Write_policy, px_CONSOLIDATION_APPLY_MODE = Apply_user_setting,
       px_CONSOLIDATION_MAX_SENSITIVITY = memory_sensitivity.INTERNAL, px_sha256_hex = (\<lambda>s. s),
       px_stringify = (\<lambda>_. ''{}'') \<rparr>"

definition sample_choice :: "processing_configuration outcome" where
  "sample_choice = setProvider sample_processing_env 9 ''u1'' Scope_consolidation System_2 sample_vault"

definition sample_default :: processing_configuration where
  "sample_default = resolveProcessingConfiguration sample_processing_env
     (defaultProcessingSystems sample_processing_env)"

lemma sample_choice_ok:
  "\<not> isl (fst sample_choice)" "preferences_ok sample_vault"
  "forUser sample_processing_env sample_vault ''u1'' = Inr sample_default"
  "task_system Scope_consolidation sample_default = System_1"
  "check sample_processing_env sample_vault ''u1'' Scope_consolidation [ProcessorName_classifier] None = Inr ()"
  by code_simp+

lemma provider_choice_takes_effect_witness:
  "\<exists>c db'. sample_choice = (Inr c, db') \<and> task_system Scope_consolidation c = System_2
     \<and> task_system Scope_extraction c = task_system Scope_extraction sample_default"
proof -
  obtain c where c: "sample_choice = (Inr c, snd sample_choice)"
    using outcome_ok[OF sample_choice_ok(1)] by blast
  note eff = provider_choice_takes_effect[OF sample_choice_ok(2,3) c[unfolded sample_choice_def]]
  show ?thesis by (intro exI conjI, rule c) (use eff in auto)
qed

lemma deselected_provider_is_blocked_witness:
  "\<exists>reason\<in>{''secret_like_content'', ''processing_provider_changed''}.
    check sample_processing_env (snd sample_choice) ''u1'' Scope_consolidation [ProcessorName_classifier] None
      = Inl (Blocked reason)"
proof -
  obtain c where c: "sample_choice = (Inr c, snd sample_choice)"
    using outcome_ok[OF sample_choice_ok(1)] by blast
  show ?thesis
    by (rule deselected_provider_is_blocked[OF sample_choice_ok(2,5,3) _ c[unfolded sample_choice_def],
          unfolded sample_choice_def[symmetric]])
      (use sample_choice_ok(4) in simp)
qed

end
