(* ===== verification/Consolidation.thy ===== *)
theory Consolidation
  imports Processing SuggestionReview
begin

text \<open>
  What consolidation looks at (\<open>apps/api/src/consolidation\<close>): the bounds and similarity of
  \<open>consolidation.types.ts\<close>, the queries of \<open>consolidation.repository.ts\<close>, candidate discovery in
  \<open>consolidation-candidates.service.ts\<close>, and \<open>dedupe-candidates.ts\<close>.  Discovery reads the database;
  it changes nothing.
\<close>

section \<open>Types and bounds\<close>

datatype archive_reason =
    Reason_expired | Reason_exact_duplicate | Reason_semantic_duplicate | Reason_conflict | Reason_superseded

primrec archive_reason_name :: "archive_reason \<Rightarrow> string" where
  "archive_reason_name Reason_expired = ''expired''"
| "archive_reason_name Reason_exact_duplicate = ''exact_duplicate''"
| "archive_reason_name Reason_semantic_duplicate = ''semantic_duplicate''"
| "archive_reason_name Reason_conflict = ''conflict''"
| "archive_reason_name Reason_superseded = ''superseded''"

text \<open>\<open>ArchiveCandidate\<close>; its \<open>processing\<close> is the note the judging service attaches.\<close>

record processing_note =
  pn_pairId :: string
  pn_fingerprint :: string
  pn_model :: string
  pn_rubric :: string
  pn_processors :: "string list"

record archive_candidate =
  ac_memory :: memory
  ac_reason :: archive_reason
  ac_evidence :: string
  ac_confidence :: "rat option"
  ac_canonical :: "memory option"
  ac_processing :: "processing_note option"

datatype pair_source = Source_semantic | Source_lexical

record consolidation_pair =
  cp_recent :: memory
  cp_candidate :: memory
  cp_score :: rat
  cp_source :: pair_source

definition recentConsolidationWindowHours :: int where "recentConsolidationWindowHours = 24"
definition semanticCandidateLimit :: nat where "semanticCandidateLimit = 8"
definition lexicalCandidateLimit :: nat where "lexicalCandidateLimit = 60"
definition exactDuplicateCandidateLimit :: nat where "exactDuplicateCandidateLimit = 50"
definition maxLlmPairs :: nat where "maxLlmPairs = 30"
definition minimumSemanticScore :: rat where "minimumSemanticScore = 72 / 100"
definition minimumLexicalScore :: rat where "minimumLexicalScore = 34 / 100"
definition minimumLlmConfidence :: rat where "minimumLlmConfidence = 65 / 100"

text \<open>\<open>value.trim().toLowerCase().replace(/\s+/g, " ")\<close>\<close>

function collapse_runs :: "string \<Rightarrow> string" where
  "collapse_runs [] = []"
| "collapse_runs (c # cs) =
     (if js_space c then CHR '' '' # collapse_runs (dropWhile js_space cs) else c # collapse_runs cs)"
  by pat_completeness auto
termination
  by (relation "measure length") (auto simp: le_imp_less_Suc length_dropWhile_le)

definition normalizeForDuplicate :: "string \<Rightarrow> string" where
  "normalizeForDuplicate v = collapse_runs (js_lower (js_trim v))"

definition duplicate_text :: "memory \<Rightarrow> string" where
  "duplicate_text m = m_title m @ [CHR 0x0A] @ m_body m"

definition categoryKeys :: "memory \<Rightarrow> ident list" where
  "categoryKeys m = map cat_key (m_categories m)"

definition pairKey :: "ident \<Rightarrow> ident \<Rightarrow> string" where
  "pairKey leftId rightId = js_join ''::'' (sort [leftId, rightId])"

definition lexicalSimilarity :: "memory \<Rightarrow> memory \<Rightarrow> rat" where
  "lexicalSimilarity left right =
     (let leftTerms = extractTerms (m_title left @ '' '' @ m_body left) None;
          rightTerms = extractTerms (m_title right @ '' '' @ m_body right) None;
          intersection = filter (\<lambda>term. term \<in> set rightTerms) leftTerms;
          union_terms = js_unique (leftTerms @ rightTerms);
          termScore = of_nat (length intersection) / of_nat (length union_terms);
          categoryScore = (if list_ex (\<lambda>key. key \<in> set (categoryKeys right)) (categoryKeys left)
                           then 15 / 100 else 0);
          kindScore = (if m_kind left = m_kind right then 1 / 10 else 0)
      in if leftTerms = [] \<or> rightTerms = [] then 0
         else min 1 (termScore + categoryScore + kindScore))"

definition candidateConfidence :: "archive_candidate \<Rightarrow> rat" where
  "candidateConfidence c =
     or_keep (ac_confidence c)
       (if ac_reason c = Reason_exact_duplicate then 95 / 100 else minimumLlmConfidence)"

section \<open>Queries\<close>

text \<open>The embedding rows, with the time the vector queries order by.\<close>

record 'v timed_embedding = "'v embedding" +
  te_updatedAt :: time

text \<open>What discovery takes from outside the program: the text of an instant, the database's
  case-insensitive \<open>contains\<close>, its \<open>LOWER(regexp_replace(TRIM(..)))\<close>, the vector distance, and whether
  the vector query of a memory fails.\<close>

record 'v consolidation_env =
  cx_iso :: "time \<Rightarrow> string"
  cx_contains :: "string \<Rightarrow> string \<Rightarrow> bool"
  cx_sqlNormalize :: "string \<Rightarrow> string"
  cx_distance :: "'v \<Rightarrow> 'v \<Rightarrow> rat"
  cx_searchFails :: "ident \<Rightarrow> bool"
  cx_embeddings :: "'v timed_embedding list"

definition active_memories :: "vault \<Rightarrow> ident \<Rightarrow> memory list" where
  "active_memories db userId =
     filter (\<lambda>m. m_userId m = userId \<and> m_status m = memory_status.ACTIVE) (v_memories db)"

definition before_time :: "time option \<Rightarrow> time \<Rightarrow> bool" where
  "before_time v t = (case v of None \<Rightarrow> True | Some x \<Rightarrow> x < t)"

definition findRecentIds :: "vault \<Rightarrow> ident \<Rightarrow> time \<Rightarrow> ident list" where
  "findRecentIds db userId cutoff =
     map m_id (sort_key (\<lambda>m. - m_consolidationRelevantAt m) (sort_key m_id
       (filter (\<lambda>m. (cutoff \<le> m_consolidationRelevantAt m
                      \<and> before_time (m_lastConsolidatedAt m) (m_consolidationRelevantAt m))
                    \<or> before_time (m_semanticInspectedAt m) (m_consolidationRelevantAt m))
          (active_memories db userId))))"

definition findExpiredIds :: "vault \<Rightarrow> ident \<Rightarrow> time \<Rightarrow> ident list" where
  "findExpiredIds db userId now =
     map m_id (sort_key (\<lambda>m. the (m_expiresAt m)) (sort_key m_id
       (filter (\<lambda>m. case m_expiresAt m of None \<Rightarrow> False
                    | Some e \<Rightarrow> e \<le> now \<and> before_time (m_lastConsolidatedAt m) e)
          (active_memories db userId))))"

definition findDuplicateIds :: "'v consolidation_env \<Rightarrow> vault \<Rightarrow> ident \<Rightarrow> memory \<Rightarrow> ident list" where
  "findDuplicateIds env db userId recent =
     take exactDuplicateCandidateLimit (map m_id (sort_key (\<lambda>m. - m_updatedAt m) (sort_key m_id
       (filter (\<lambda>m. m_id m \<noteq> m_id recent
                  \<and> cx_sqlNormalize env (duplicate_text m) = normalizeForDuplicate (duplicate_text recent))
          (active_memories db userId)))))"

text \<open>\<open>SELECT DISTINCT ON (memoryId) .. ORDER BY memoryId, updatedAt DESC\<close>: the newest row of each memory.\<close>

definition newest_embeddings :: "'v timed_embedding list \<Rightarrow> 'v timed_embedding list" where
  "newest_embeddings rows =
     (let ordered = sort_key (\<lambda>e. - te_updatedAt e) rows
      in List.map_filter (\<lambda>i. find_row (\<lambda>e. e_memoryId e = i) ordered)
           (sort (js_unique (map e_memoryId rows))))"

definition findSemanticResults :: "'v consolidation_env \<Rightarrow> vault \<Rightarrow> ident \<Rightarrow> memory \<Rightarrow> (ident \<times> rat) list" where
  "findSemanticResults env db userId recent =
     (case sort_key (\<lambda>e. - te_updatedAt e)
             (filter (\<lambda>e. e_userId e = userId \<and> e_memoryId e = m_id recent) (cx_embeddings env)) of
        [] \<Rightarrow> []
      | source # _ \<Rightarrow>
          let candidates = newest_embeddings (filter (\<lambda>e. e_provider e = e_provider source
                  \<and> e_model e = e_model source \<and> e_userId e = userId \<and> e_memoryId e \<noteq> m_id recent
                  \<and> list_ex (\<lambda>m. m_id m = e_memoryId e \<and> m_status m = memory_status.ACTIVE
                              \<and> m_reviewState m = review_state.APPROVED) (v_memories db))
                (cx_embeddings env));
              distance = (\<lambda>e. cx_distance env (e_vector e) (e_vector source))
          in map (\<lambda>e. (e_memoryId e, max 0 (1 - distance e)))
               (take semanticCandidateLimit (sort_key distance candidates)))"

section \<open>ConsolidationCandidatesService\<close>

definition findMemoriesByIds :: "vault \<Rightarrow> ident \<Rightarrow> ident list \<Rightarrow> memory list" where
  "findMemoriesByIds db userId ids = List.map_filter (owned_memory db userId) (js_unique ids)"

definition findRecentConsolidationMemories :: "vault \<Rightarrow> ident \<Rightarrow> time \<Rightarrow> memory list" where
  "findRecentConsolidationMemories db userId cutoff = findMemoriesByIds db userId (findRecentIds db userId cutoff)"

definition findExpiredConsolidationMemories :: "vault \<Rightarrow> ident \<Rightarrow> time \<Rightarrow> memory list" where
  "findExpiredConsolidationMemories db userId now = findMemoriesByIds db userId (findExpiredIds db userId now)"

definition expired_at :: "time \<Rightarrow> memory \<Rightarrow> bool" where
  "expired_at now m = (case m_expiresAt m of None \<Rightarrow> False | Some e \<Rightarrow> e \<le> now)"

definition findExpiredCandidates :: "'v consolidation_env \<Rightarrow> memory list \<Rightarrow> time \<Rightarrow> archive_candidate list" where
  "findExpiredCandidates env memories now =
     map (\<lambda>m. \<lparr> ac_memory = m, ac_reason = Reason_expired,
                ac_evidence = ''Expired on '' @ cx_iso env (the (m_expiresAt m)) @ ''.'',
                ac_confidence = None, ac_canonical = None, ac_processing = None \<rparr>)
       (filter (expired_at now) memories)"

definition duplicate_group :: "'v consolidation_env \<Rightarrow> vault \<Rightarrow> ident \<Rightarrow> memory \<Rightarrow> memory list" where
  "duplicate_group env db userId recent =
     filter (\<lambda>m. normalizeForDuplicate (duplicate_text m) = normalizeForDuplicate (duplicate_text recent))
       (recent # findMemoriesByIds db userId (findDuplicateIds env db userId recent))"

definition duplicate_candidate :: "memory \<Rightarrow> memory \<Rightarrow> archive_candidate" where
  "duplicate_candidate canonical duplicate =
     \<lparr> ac_memory = duplicate, ac_reason = Reason_exact_duplicate,
       ac_evidence = ''Exact duplicate of memory '' @ m_id canonical @ ''.'',
       ac_confidence = None, ac_canonical = Some canonical, ac_processing = None \<rparr>"

fun push_duplicates :: "memory \<Rightarrow> memory list \<Rightarrow> archive_candidate list \<times> ident list
    \<Rightarrow> archive_candidate list \<times> ident list" where
  "push_duplicates canonical [] acc = acc"
| "push_duplicates canonical (d # ds) (candidates, seen) =
     (if m_id d \<in> set seen then push_duplicates canonical ds (candidates, seen)
      else push_duplicates canonical ds (candidates @ [duplicate_candidate canonical d], m_id d # seen))"

definition duplicate_step :: "'v consolidation_env \<Rightarrow> vault \<Rightarrow> ident \<Rightarrow> memory
    \<Rightarrow> archive_candidate list \<times> ident list \<Rightarrow> archive_candidate list \<times> ident list" where
  "duplicate_step env db userId recent acc =
     (case sort_key (\<lambda>m. - m_updatedAt m) (duplicate_group env db userId recent) of
        canonical # d # ds \<Rightarrow> push_duplicates canonical (d # ds) acc
      | _ \<Rightarrow> acc)"

definition findDuplicateCandidates ::
  "'v consolidation_env \<Rightarrow> vault \<Rightarrow> ident \<Rightarrow> memory list \<Rightarrow> archive_candidate list" where
  "findDuplicateCandidates env db userId recentMemories =
     fst (fold (duplicate_step env db userId) recentMemories ([], []))"

definition findLexicalPairs :: "'v consolidation_env \<Rightarrow> vault \<Rightarrow> ident \<Rightarrow> memory \<Rightarrow> consolidation_pair list" where
  "findLexicalPairs env db userId recent =
     (let terms = take 8 (sort_key (\<lambda>t. - int (length t))
            (extractTerms (m_title recent @ '' '' @ m_body recent) None));
          candidates = take lexicalCandidateLimit (sort_key (\<lambda>m. - m_consolidationRelevantAt m)
            (filter (\<lambda>m. m_reviewState m = review_state.APPROVED \<and> m_id m \<noteq> m_id recent
                       \<and> list_ex (\<lambda>term. cx_contains env (m_title m) term \<or> cx_contains env (m_body m) term) terms)
               (active_memories db userId)))
      in if terms = [] then []
         else filter (\<lambda>p. cp_score p \<ge> minimumLexicalScore)
                (map (\<lambda>m. \<lparr> cp_recent = recent, cp_candidate = m, cp_score = lexicalSimilarity recent m,
                            cp_source = Source_lexical \<rparr>) candidates))"

definition findSemanticPairs :: "'v consolidation_env \<Rightarrow> vault \<Rightarrow> ident \<Rightarrow> memory \<Rightarrow> consolidation_pair list" where
  "findSemanticPairs env db userId recent =
     (if cx_searchFails env (m_id recent) then []
      else
        let results = findSemanticResults env db userId recent;
            candidateMemories = findMemoriesByIds db userId (map fst results)
        in List.map_filter
             (\<lambda>(i, score). if score < minimumSemanticScore then None
                else map_option (\<lambda>m. \<lparr> cp_recent = recent, cp_candidate = m, cp_score = score,
                                       cp_source = Source_semantic \<rparr>)
                       (find_row (\<lambda>m. m_id m = i) candidateMemories))
             results)"

definition pair_key :: "consolidation_pair \<Rightarrow> string" where
  "pair_key p = pairKey (m_id (cp_recent p)) (m_id (cp_candidate p))"

definition keep_better :: "consolidation_pair \<Rightarrow> (string \<times> consolidation_pair) list
    \<Rightarrow> (string \<times> consolidation_pair) list" where
  "keep_better p pairs =
     (let existing = map_of pairs (pair_key p)
      in upsert (pair_key p)
           (case existing of Some q \<Rightarrow> if cp_score q \<ge> cp_score p then q else p | None \<Rightarrow> p) pairs)"

definition collect_pairs :: "'v consolidation_env \<Rightarrow> vault \<Rightarrow> ident \<Rightarrow> memory
    \<Rightarrow> (string \<times> consolidation_pair) list \<Rightarrow> (string \<times> consolidation_pair) list" where
  "collect_pairs env db userId m pairs =
     fold keep_better (findSemanticPairs env db userId m)
       (fold (\<lambda>p. upsert (pair_key p) p) (findLexicalPairs env db userId m) pairs)"

definition findRecentCandidatePairs ::
  "'v consolidation_env \<Rightarrow> vault \<Rightarrow> ident \<Rightarrow> memory list \<Rightarrow> nat \<Rightarrow> consolidation_pair list" where
  "findRecentCandidatePairs env db userId recentMemories pairLimit =
     take pairLimit (sort_key (\<lambda>p. - cp_score p)
       (map snd (fold (collect_pairs env db userId) recentMemories [])))"

definition queued_archive_target :: "ident \<Rightarrow> suggestion \<Rightarrow> ident option" where
  "queued_archive_target userId s =
     (if s_userId s = userId \<and> s_status s = memory_suggestion_status.QUEUED_FOR_REVIEW
         \<and> s_sourceType s = source_type.CONSOLIDATION
         \<and> md_string (s_sourceMetadata s) ''action'' = Some ''archive_memory''
      then md_string (s_sourceMetadata s) ''targetMemoryId'' else None)"

definition findQueuedArchiveSuggestionTargetIds :: "vault \<Rightarrow> ident \<Rightarrow> ident list" where
  "findQueuedArchiveSuggestionTargetIds db userId =
     js_unique (List.map_filter (queued_archive_target userId) (v_suggestions db))"

section \<open>dedupeCandidates\<close>

definition canonical_id :: "archive_candidate \<Rightarrow> ident option" where
  "canonical_id c = map_option m_id (ac_canonical c)"

definition target_id :: "archive_candidate \<Rightarrow> ident" where
  "target_id c = m_id (ac_memory c)"

definition viable :: "archive_candidate list \<Rightarrow> ident list \<Rightarrow> archive_candidate \<Rightarrow> bool" where
  "viable candidates seen c =
     (target_id c \<notin> set seen
      \<and> (case canonical_id c of
           None \<Rightarrow> True
         | Some k \<Rightarrow> k \<notin> set seen
             \<and> \<not> list_ex (\<lambda>other. target_id other = k \<and> ac_reason other = Reason_expired) candidates)
      \<and> \<not> list_ex (\<lambda>other. target_id other \<in> set seen \<and> canonical_id other = Some (target_id c)) candidates)"

fun dedupe_loop :: "archive_candidate list \<Rightarrow> ident list \<Rightarrow> archive_candidate list \<Rightarrow> archive_candidate list" where
  "dedupe_loop candidates seen [] = []"
| "dedupe_loop candidates seen (c # cs) =
     (if viable candidates seen c then c # dedupe_loop candidates (target_id c # seen) cs
      else dedupe_loop candidates seen cs)"

definition dedupeCandidates :: "archive_candidate list \<Rightarrow> archive_candidate list" where
  "dedupeCandidates candidates = dedupe_loop candidates [] candidates"

section \<open>Similarity\<close>

lemma length_filter_inter:
  "distinct xs \<Longrightarrow> length (filter (\<lambda>x. x \<in> set ys) xs) = card (set xs \<inter> set ys)"
proof -
  assume "distinct xs"
  then have "length (filter (\<lambda>x. x \<in> set ys) xs) = card (set (filter (\<lambda>x. x \<in> set ys) xs))"
    by (metis distinct_card distinct_filter)
  also have "set (filter (\<lambda>x. x \<in> set ys) xs) = set xs \<inter> set ys" by auto
  finally show ?thesis .
qed

lemma length_js_unique: "length (js_unique xs) = card (set xs)"
  by (metis distinct_card distinct_js_unique set_js_unique)

text \<open>The lexical similarity of two memories is symmetric and lies between 0 and 1, whatever their
  texts; in particular no division by zero occurs when neither has a term.\<close>

theorem lexical_similarity_symmetric:
  "lexicalSimilarity left right = lexicalSimilarity right left
   \<and> 0 \<le> lexicalSimilarity left right \<and> lexicalSimilarity left right \<le> 1"
proof -
  define ls rs where "ls = extractTerms (m_title left @ '' '' @ m_body left) None"
    and "rs = extractTerms (m_title right @ '' '' @ m_body right) None"
  have d: "distinct ls" "distinct rs" by (simp_all add: ls_def rs_def extractTerms_bounded)
  have "length (filter (\<lambda>t. t \<in> set rs) ls) = length (filter (\<lambda>t. t \<in> set ls) rs)"
    unfolding length_filter_inter[OF d(1)] length_filter_inter[OF d(2)] by (simp add: Int_commute)
  moreover have "length (js_unique (ls @ rs)) = length (js_unique (rs @ ls))"
    unfolding length_js_unique by (simp add: Un_commute)
  moreover have "list_ex (\<lambda>key. key \<in> set (categoryKeys right)) (categoryKeys left)
      = list_ex (\<lambda>key. key \<in> set (categoryKeys left)) (categoryKeys right)"
    by (auto simp: list_ex_iff)
  ultimately have "lexicalSimilarity left right = lexicalSimilarity right left"
    unfolding lexicalSimilarity_def Let_def ls_def[symmetric] rs_def[symmetric] by auto
  moreover have "0 \<le> lexicalSimilarity left right" "lexicalSimilarity left right \<le> 1"
    unfolding lexicalSimilarity_def Let_def by auto
  ultimately show ?thesis by simp
qed

section \<open>What deduplication keeps\<close>

lemma dedupe_loop_subset: "set (dedupe_loop all seen cs) \<subseteq> set cs"
  by (induction all seen cs rule: dedupe_loop.induct) auto

lemma dedupe_loop_fresh: "c \<in> set (dedupe_loop all seen cs) \<Longrightarrow> target_id c \<notin> set seen"
  by (induction all seen cs rule: dedupe_loop.induct) (auto simp: viable_def split: if_splits)

lemma dedupe_loop_distinct: "distinct (map target_id (dedupe_loop all seen cs))"
proof (induction all seen cs rule: dedupe_loop.induct)
  case (2 all seen c cs)
  have "target_id c \<notin> target_id ` set (dedupe_loop all (target_id c # seen) cs)"
    using dedupe_loop_fresh[of _ all "target_id c # seen" cs] by fastforce
  then show ?case using 2 by simp
qed simp

lemma viable_survivor:
  "viable all seen c \<Longrightarrow> canonical_id c = Some k \<Longrightarrow>
   k \<notin> set seen \<and> \<not> (\<exists>other\<in>set all. target_id other = k \<and> ac_reason other = Reason_expired)"
  by (auto simp: viable_def list_ex_iff)

lemma viable_target:
  "viable all seen c \<Longrightarrow> other \<in> set all \<Longrightarrow> target_id other \<in> set seen \<Longrightarrow> canonical_id other \<noteq> Some (target_id c)"
  by (auto simp: viable_def list_ex_iff)

lemma dedupe_loop_survivors:
  assumes "c \<in> set (dedupe_loop all seen cs)" "canonical_id c = Some k"
  shows "k \<notin> set seen \<and> \<not> (\<exists>other\<in>set all. target_id other = k \<and> ac_reason other = Reason_expired)"
  using assms
proof (induction all seen cs rule: dedupe_loop.induct)
  case (2 all seen x xs)
  show ?case
  proof (cases "viable all seen x")
    case True
    then show ?thesis using 2(1)[OF True] 2(3,4) viable_survivor[OF True] by fastforce
  next
    case False
    then show ?thesis using 2(2)[OF False] 2(3,4) by simp
  qed
qed simp

lemma dedupe_loop_targets:
  assumes "c \<in> set (dedupe_loop all seen cs)" "other \<in> set all" "target_id other \<in> set seen"
  shows "canonical_id other \<noteq> Some (target_id c)"
  using assms
proof (induction all seen cs rule: dedupe_loop.induct)
  case (2 all seen x xs)
  show ?case
  proof (cases "viable all seen x")
    case True
    then show ?thesis using 2(1)[OF True] 2(3-5) viable_target[OF True 2(4,5)] by fastforce
  next
    case False
    then show ?thesis using 2(2)[OF False] 2(3-5) by simp
  qed
qed simp

text \<open>No kept candidate is archived for another kept one.\<close>

lemma dedupe_loop_apart:
  assumes "set cs \<subseteq> set all" "c \<in> set (dedupe_loop all seen cs)" "d \<in> set (dedupe_loop all seen cs)"
    and "target_id c \<noteq> target_id d"
  shows "canonical_id c \<noteq> Some (target_id d)"
  using assms
proof (induction all seen cs rule: dedupe_loop.induct)
  case (2 all seen x xs)
  show ?case
  proof (cases "viable all seen x")
    case True
    let ?rest = "dedupe_loop all (target_id x # seen) xs"
    have mem: "c = x \<or> c \<in> set ?rest" "d = x \<or> d \<in> set ?rest" using 2(4,5) True by auto
    consider "c \<in> set ?rest" "d \<in> set ?rest" | "c = x" "d \<in> set ?rest" | "c \<in> set ?rest" "d = x"
      using mem 2(6) by blast
    then show ?thesis
    proof cases
      case 1
      then show ?thesis using 2(1)[OF True] 2(3,6) by simp
    next
      case 2
      then show ?thesis using dedupe_loop_targets[of d all "target_id x # seen" xs x] "2.prems"(1) by simp
    next
      case 3
      then show ?thesis using dedupe_loop_survivors[of c all "target_id x # seen" xs] by auto
    qed
  next
    case False
    then show ?thesis using 2(2)[OF False] 2(3-6) by simp
  qed
qed simp

lemma dedupe_subset: "set (dedupeCandidates cs) \<subseteq> set cs"
  by (simp add: dedupeCandidates_def dedupe_loop_subset)

lemma dedupe_apart:
  "c \<in> set (dedupeCandidates cs) \<Longrightarrow> d \<in> set (dedupeCandidates cs) \<Longrightarrow> target_id c \<noteq> target_id d \<Longrightarrow>
   canonical_id c \<noteq> Some (target_id d)"
  unfolding dedupeCandidates_def by (rule dedupe_loop_apart) simp_all

text \<open>What deduplication keeps can be archived without losing a survivor: each kept candidate is one of
  the proposed ones, no memory is archived twice, no memory another kept candidate relies on as its
  survivor is itself archived, and no survivor is one of the expired memories of the run.\<close>

theorem dedupe_keeps_survivors:
  "set (dedupeCandidates cs) \<subseteq> set cs
   \<and> distinct (map target_id (dedupeCandidates cs))
   \<and> (\<forall>c\<in>set (dedupeCandidates cs). \<forall>d\<in>set (dedupeCandidates cs).
        target_id c \<noteq> target_id d \<longrightarrow> canonical_id c \<noteq> Some (target_id d))
   \<and> (\<forall>c\<in>set (dedupeCandidates cs). \<forall>x\<in>set cs. ac_reason x = Reason_expired \<longrightarrow> canonical_id c \<noteq> Some (target_id x))"
  using dedupe_subset dedupe_apart dedupe_loop_survivors[of _ cs "[]" cs]
    dedupe_loop_distinct[of cs "[]" cs]
  by (auto simp: dedupeCandidates_def)

text \<open>A candidate nothing competes with is kept.\<close>

lemma dedupe_keeps_first:
  "dedupeCandidates (c # cs) \<noteq> []
   \<or> (\<exists>k. canonical_id c = Some k \<and> (\<exists>x\<in>set (c # cs). target_id x = k \<and> ac_reason x = Reason_expired))"
  by (auto simp: dedupeCandidates_def viable_def list_ex_iff split: option.splits)

definition sample_candidate :: "ident \<Rightarrow> ident \<Rightarrow> archive_candidate" where
  "sample_candidate i k =
     duplicate_candidate (sample_memory \<lparr> m_id := k \<rparr>) (sample_memory \<lparr> m_id := i \<rparr>)"

text \<open>A witness: of two candidates that name each other, one is kept.\<close>

lemma dedupe_keeps_survivors_witness:
  "map target_id (dedupeCandidates [sample_candidate ''a'' ''b'', sample_candidate ''b'' ''a'']) = [''a'']
   \<and> distinct (map target_id (dedupeCandidates [sample_candidate ''a'' ''b'', sample_candidate ''b'' ''a'']))"
proof
  show "map target_id (dedupeCandidates [sample_candidate ''a'' ''b'', sample_candidate ''b'' ''a'']) = [''a'']"
    by code_simp
qed (use dedupe_keeps_survivors in blast)

section \<open>What discovery finds\<close>

lemma findMemoriesByIds_owned:
  "m \<in> set (findMemoriesByIds db userId ids) \<Longrightarrow> owned_memory db userId (m_id m) = Some m \<and> m_id m \<in> set ids"
  by (auto simp: findMemoriesByIds_def mem_map_filter dest: owned_memory_SomeD)

lemma push_duplicates_elem:
  "c \<in> set (fst (push_duplicates canonical ds acc)) \<Longrightarrow>
   c \<in> set (fst acc) \<or> (\<exists>d\<in>set ds. c = duplicate_candidate canonical d)"
  by (induction canonical ds acc rule: push_duplicates.induct) (auto split: if_splits)

text \<open>A duplicate is a memory of the same normalised text as its survivor, and not the newer one.\<close>

definition proper_duplicate :: "'v consolidation_env \<Rightarrow> vault \<Rightarrow> ident \<Rightarrow> memory list \<Rightarrow> archive_candidate \<Rightarrow> bool" where
  "proper_duplicate env db userId ms c =
     (\<exists>r\<in>set ms. \<exists>canonical d. c = duplicate_candidate canonical d
        \<and> canonical \<in> set (duplicate_group env db userId r) \<and> d \<in> set (duplicate_group env db userId r)
        \<and> m_updatedAt d \<le> m_updatedAt canonical \<and> m_id d \<noteq> m_id canonical)"

lemma distinct_map_filter_ids:
  "distinct ids \<Longrightarrow> (\<And>i m. f i = Some m \<Longrightarrow> m_id m = i) \<Longrightarrow> distinct (map m_id (List.map_filter f ids))"
  by (induction ids) (auto simp: mem_map_filter split: option.split)

lemma findMemoriesByIds_distinct: "distinct (map m_id (findMemoriesByIds db userId ids))"
  unfolding findMemoriesByIds_def by (rule distinct_map_filter_ids) (auto dest: owned_memory_SomeD)

lemma findDuplicateIds_other: "m_id recent \<notin> set (findDuplicateIds env db userId recent)"
  by (auto simp: findDuplicateIds_def dest!: in_set_takeD)

lemma duplicate_group_distinct: "distinct (map m_id (duplicate_group env db userId recent))"
proof -
  have "m_id recent \<notin> m_id ` set (findMemoriesByIds db userId (findDuplicateIds env db userId recent))"
    using findDuplicateIds_other[of recent env db userId] by (auto dest!: findMemoriesByIds_owned)
  then show ?thesis
    unfolding duplicate_group_def using findMemoriesByIds_distinct[of db userId]
    by (intro distinct_map_filter) simp
qed

lemma duplicate_step_elem:
  assumes "c \<in> set (fst (duplicate_step env db userId r acc))"
  shows "c \<in> set (fst acc) \<or> proper_duplicate env db userId [r] c"
proof (cases "sort_key (\<lambda>m. - m_updatedAt m) (duplicate_group env db userId r)")
  case Nil
  then show ?thesis using assms by (simp add: duplicate_step_def)
next
  case (Cons canonical ds)
  have st: "set (duplicate_group env db userId r) = set (canonical # ds)"
    using arg_cong[OF Cons, of set] by simp
  have "sorted (map (\<lambda>m. - m_updatedAt m) (canonical # ds))" using sorted_sort_key Cons by metis
  then have le: "\<forall>x\<in>set ds. m_updatedAt x \<le> m_updatedAt canonical" by auto
  have "distinct (map m_id (canonical # ds))"
    using duplicate_group_distinct[of env db userId r] unfolding Cons[symmetric]
    by (simp add: distinct_map)
  then have ids: "\<forall>x\<in>set ds. m_id x \<noteq> m_id canonical" by (auto simp: image_iff)
  have "c \<in> set (fst acc) \<or> (\<exists>d\<in>set ds. c = duplicate_candidate canonical d)"
    using assms Cons by (cases ds) (auto simp: duplicate_step_def dest!: push_duplicates_elem)
  then show ?thesis
  proof
    assume "\<exists>d\<in>set ds. c = duplicate_candidate canonical d"
    then obtain d where d: "d \<in> set ds" "c = duplicate_candidate canonical d" by blast
    have "proper_duplicate env db userId [r] c"
      unfolding proper_duplicate_def st
      by (rule bexI[of _ r], rule exI[of _ canonical], rule exI[of _ d]) (use d le ids st in simp_all)
    then show ?thesis ..
  qed simp
qed

lemma proper_duplicate_mono: "proper_duplicate env db userId ms c \<Longrightarrow> set ms \<subseteq> set ms' \<Longrightarrow> proper_duplicate env db userId ms' c"
  unfolding proper_duplicate_def by blast

lemma findDuplicateCandidates_elem:
  "c \<in> set (findDuplicateCandidates env db userId ms) \<Longrightarrow> proper_duplicate env db userId ms c"
proof -
  have "c \<in> set (fst (fold (duplicate_step env db userId) ms acc)) \<Longrightarrow>
      c \<in> set (fst acc) \<or> proper_duplicate env db userId ms c" for acc
  proof (induction ms arbitrary: acc)
    case (Cons r ms)
    then have "c \<in> set (fst (duplicate_step env db userId r acc)) \<or> proper_duplicate env db userId ms c" by simp
    then show ?case
      using duplicate_step_elem[of c env db userId r acc] proper_duplicate_mono[of env db userId _ c "r # ms"] by fastforce
  qed simp
  then show "c \<in> set (findDuplicateCandidates env db userId ms) \<Longrightarrow> proper_duplicate env db userId ms c"
    by (fastforce simp: findDuplicateCandidates_def)
qed

end
