(* ===== verification/Judgment.thy ===== *)
theory Judgment
  imports Consolidation
begin

text \<open>
  The comparison of memories by an external model: \<open>consolidation-llm.service.ts\<close> selects the pairs,
  sends them in batches and turns the decisions into archive candidates; the two providers of
  \<open>consolidation.providers.ts\<close>, \<open>provider-retry.ts\<close> and \<open>typesafe.transport.ts\<close> make the calls.
  The models and the clock's deadline are parameters; the providers' diagnostics and the latency,
  which nothing reads, are left out.  Nothing here changes the database.
\<close>

section \<open>The contract of a provider\<close>

datatype side = Side_left | Side_right

datatype newer_side = Newer_left | Newer_right | Newer_same

datatype decision_reason = Decision_duplicate | Decision_conflict | Decision_superseded

record judge_pair =
  jp_id :: string
  jp_left :: memory
  jp_right :: memory
  jp_newer :: newer_side

record judge_decision =
  jd_pairId :: string
  jd_archive :: side
  jd_reason :: decision_reason
  jd_confidence :: rat
  jd_evidence :: string

text \<open>An answer of the classifier: a choice with its confidence, or a likelihood.\<close>

datatype answer = Choice string rat | Noul rat

text \<open>What a call throws, as far as \<open>sanitizedFailure\<close> distinguishes it.\<close>

datatype thrown = Thrown_blocked string | Thrown_timeout | Thrown_rate_limited | Thrown_other

definition sanitizedFailure :: "thrown \<Rightarrow> string" where
  "sanitizedFailure t =
     (case t of Thrown_timeout \<Rightarrow> ''deadline_or_cancelled'' | Thrown_rate_limited \<Rightarrow> ''rate_limited''
      | _ \<Rightarrow> ''provider_unavailable'')"

definition failure_reason :: "thrown \<Rightarrow> string" where
  "failure_reason t = (case t of Thrown_blocked reason \<Rightarrow> reason | _ \<Rightarrow> sanitizedFailure t)"

definition thrown_of :: "processing_error \<Rightarrow> thrown" where
  "thrown_of e = (case e of Blocked reason \<Rightarrow> Thrown_blocked reason | Raised _ \<Rightarrow> Thrown_other)"

datatype 'a reply = Reply 'a | Refused bool thrown

text \<open>The models, whether the signal is aborted and the deadline past at an attempt of the batch at an
  offset, and the SDK's form of the questions about a number of pairs.\<close>

record judge_env =
  je_processing :: processing_env
  je_aborted :: "nat \<Rightarrow> nat \<Rightarrow> bool"
  je_late :: "nat \<Rightarrow> nat \<Rightarrow> bool"
  je_llm :: "judge_pair list \<Rightarrow> nat \<Rightarrow> judge_decision list reply"
  je_jev :: "judge_pair list \<Rightarrow> (string \<times> answer) list reply"
  je_questions :: "nat \<Rightarrow> json"

section \<open>withProviderRetry\<close>

text \<open>\<open>before\<close> is the check before each call, \<open>call\<close> the call of an attempt.\<close>

function withProviderRetry ::
  "(nat \<Rightarrow> bool) \<Rightarrow> (nat \<Rightarrow> processing_error + unit) \<Rightarrow> (nat \<Rightarrow> bool) \<Rightarrow> (nat \<Rightarrow> 'a reply) \<Rightarrow> nat
     \<Rightarrow> thrown + 'a" where
  "withProviderRetry aborted before late call attempt =
     (if aborted attempt then Inl Thrown_timeout
      else case before attempt of
             Inl e \<Rightarrow> Inl (thrown_of e)
           | Inr _ \<Rightarrow>
               (case call attempt of
                  Reply x \<Rightarrow> Inr x
                | Refused retryable e \<Rightarrow>
                    if attempt \<noteq> 0 \<or> \<not> retryable \<or> late attempt then Inl e
                    else withProviderRetry aborted before late call (attempt + 1)))"
  by pat_completeness auto
termination
  by (relation "measure (\<lambda>(_, _, _, _, attempt). 1 - attempt)") auto

declare withProviderRetry.simps [simp del]

lemma withProviderRetry_unfold:
  "withProviderRetry aborted before late call 0 =
     (if aborted 0 then Inl Thrown_timeout
      else case before 0 of
        Inl e \<Rightarrow> Inl (thrown_of e)
      | Inr _ \<Rightarrow>
          (case call 0 of
             Reply x \<Rightarrow> Inr x
           | Refused retryable e \<Rightarrow>
               if \<not> retryable \<or> late 0 then Inl e
               else if aborted 1 then Inl Thrown_timeout
               else case before 1 of
                 Inl e \<Rightarrow> Inl (thrown_of e)
               | Inr _ \<Rightarrow> (case call 1 of Reply x \<Rightarrow> Inr x | Refused _ e \<Rightarrow> Inl e)))"
  by (auto simp: withProviderRetry.simps[of _ _ _ _ 0] withProviderRetry.simps[of _ _ _ _ "Suc 0"]
      split: sum.split reply.split)

text \<open>The retry loop of a provider call ends: whatever the provider answers, it makes at most two calls, the
  second only after a retryable refusal in time, and each only after the abort signal and the permission
  were checked.\<close>

theorem withProviderRetry_calls:
  "withProviderRetry aborted before late call 0 =
     (if aborted 0 then Inl Thrown_timeout
      else case before 0 of
        Inl e \<Rightarrow> Inl (thrown_of e)
      | Inr _ \<Rightarrow>
          (case call 0 of
             Reply x \<Rightarrow> Inr x
           | Refused retryable e \<Rightarrow>
               if retryable \<and> \<not> late 0
               then (if aborted 1 then Inl Thrown_timeout
                     else case before 1 of
                       Inl e \<Rightarrow> Inl (thrown_of e)
                     | Inr _ \<Rightarrow> (case call 1 of Reply x \<Rightarrow> Inr x | Refused _ e \<Rightarrow> Inl e))
               else Inl e))"
  by (auto simp: withProviderRetry_unfold split: sum.split reply.split)

section \<open>What is sent\<close>

text \<open>The decimal text of a number.\<close>

function decimal :: "nat \<Rightarrow> string" where
  "decimal n = (if n < 10 then [char_of (48 + n)] else decimal (n div 10) @ [char_of (48 + n mod 10)])"
  by pat_completeness auto
termination
  by (relation "measure id") auto

declare decimal.simps [simp del]

definition json_time :: "time option \<Rightarrow> json" where
  "json_time v = (case v of None \<Rightarrow> JNull | Some t \<Rightarrow> JTime t)"

definition toLlmMemory :: "memory \<Rightarrow> (string \<times> json) list" where
  "toLlmMemory m =
     [(''id'', JStr (m_id m)), (''kind'', JStr (kind_name (m_kind m))), (''title'', JStr (m_title m)),
      (''body'', JStr (m_body m)), (''categoryKeys'', json_strings (categoryKeys m)),
      (''sensitivity'', JStr (sensitivity_name (m_sensitivity m))), (''confidence'', JNum (m_confidence m)),
      (''createdAt'', JTime (m_createdAt m)), (''updatedAt'', JTime (m_updatedAt m)),
      (''lastConfirmedAt'', json_time (m_lastConfirmedAt m)), (''expiresAt'', json_time (m_expiresAt m))]"

primrec newer_name :: "newer_side \<Rightarrow> string" where
  "newer_name Newer_left = ''left''"
| "newer_name Newer_right = ''right''"
| "newer_name Newer_same = ''same''"

definition pair_json :: "judge_pair \<Rightarrow> json" where
  "pair_json p =
     JObj [(''id'', JStr (jp_id p)), (''left'', JObj (toLlmMemory (jp_left p))),
           (''right'', JObj (toLlmMemory (jp_right p))), (''newer'', JStr (newer_name (jp_newer p)))]"

definition input_json :: "judge_pair list \<Rightarrow> (string \<times> json) list" where
  "input_json pairs = [(''pairs'', JArr (map pair_json pairs))]"

definition pair_id :: "nat \<Rightarrow> string" where
  "pair_id i = ''pair_'' @ decimal i"

definition judge_pair_of :: "nat \<Rightarrow> consolidation_pair \<Rightarrow> judge_pair" where
  "judge_pair_of i p =
     \<lparr> jp_id = pair_id i, jp_left = cp_recent p, jp_right = cp_candidate p,
       jp_newer = (if m_updatedAt (cp_recent p) > m_updatedAt (cp_candidate p) then Newer_left
                   else if m_updatedAt (cp_recent p) < m_updatedAt (cp_candidate p) then Newer_right
                   else Newer_same) \<rparr>"

definition judge_input :: "consolidation_pair list \<Rightarrow> judge_pair list" where
  "judge_input selected = map (\<lambda>(i, p). judge_pair_of i p) (enumerate 0 selected)"

section \<open>The providers\<close>

text \<open>The check the service hands to the providers, for a payload, on the database of the moment.\<close>

definition check_call ::
  "judge_env \<Rightarrow> vault \<Rightarrow> ident \<Rightarrow> processing_configuration \<Rightarrow> (string \<times> json) list option
     \<Rightarrow> processing_error + unit" where
  "check_call env db userId c payload =
     check (je_processing env) db userId Scope_consolidation (ct_processors (pf_consolidation c)) payload"

definition llm_judge ::
  "judge_env \<Rightarrow> (nat \<Rightarrow> vault) \<Rightarrow> ident \<Rightarrow> processing_configuration \<Rightarrow> nat \<Rightarrow> judge_pair list
     \<Rightarrow> thrown + judge_decision list" where
  "llm_judge env view userId c offset pairs =
     map_sum id (filter (\<lambda>d. jd_confidence d \<ge> minimumLlmConfidence))
       (withProviderRetry (je_aborted env offset)
          (\<lambda>attempt. check_call env (view attempt) userId c (Some (input_json pairs)))
          (je_late env offset) (je_llm env pairs) 0)"

definition relationship_key :: "nat \<Rightarrow> string" where
  "relationship_key i = decimal i @ ''_relationship''"

definition loss_key :: "nat \<Rightarrow> side \<Rightarrow> string" where
  "loss_key i s = decimal i @ (case s of Side_left \<Rightarrow> ''_left_loss'' | Side_right \<Rightarrow> ''_right_loss'')"

definition jev_archive :: "string \<Rightarrow> judge_pair \<Rightarrow> side option" where
  "jev_archive ch p =
     (if ch = ''left_replaces_right'' then Some Side_right
      else if ch = ''right_replaces_left'' then Some Side_left
      else if ch = ''duplicate'' then Some (if jp_newer p = Newer_right then Side_left else Side_right)
      else None)"

definition jev_decision :: "(string \<times> answer) list \<Rightarrow> nat \<times> judge_pair \<Rightarrow> judge_decision option" where
  "jev_decision answers ip =
     (case map_of answers (relationship_key (fst ip)) of
        Some (Choice ch confidence) \<Rightarrow>
          if confidence < 8 / 10 then None
          else (case jev_archive ch (snd ip) of
                  None \<Rightarrow> None
                | Some archive \<Rightarrow>
                    (case map_of answers (loss_key (fst ip) archive) of
                       Some (Noul loss) \<Rightarrow>
                         if loss > 1 / 10 then None
                         else Some \<lparr> jd_pairId = jp_id (snd ip), jd_archive = archive,
                                jd_reason = (if ch = ''duplicate'' then Decision_duplicate else Decision_superseded),
                                jd_confidence = confidence,
                                jd_evidence = (if ch = ''duplicate''
                                  then ''Equivalent supported claims without a distinct scope to preserve.''
                                  else ''The surviving claim explicitly replaces the archived claim without losing a distinct constraint.'') \<rparr>
                     | _ \<Rightarrow> None))
      | _ \<Rightarrow> None)"

text \<open>\<open>TypeSafeTransport.ask\<close>: the check, then the signal, then the call.\<close>

definition ask ::
  "judge_env \<Rightarrow> vault \<Rightarrow> ident \<Rightarrow> processing_configuration \<Rightarrow> nat \<Rightarrow> judge_pair list
     \<Rightarrow> thrown + (string \<times> answer) list" where
  "ask env db userId c offset pairs =
     (case check_call env db userId c
             (Some [(''state'', JObj (input_json pairs)), (''questions'', je_questions env (length pairs))]) of
        Inl e \<Rightarrow> Inl (thrown_of e)
      | Inr _ \<Rightarrow>
          if je_aborted env offset 0 then Inl Thrown_timeout
          else (case je_jev env pairs of Reply answers \<Rightarrow> Inr answers | Refused _ e \<Rightarrow> Inl e))"

definition jev_judge ::
  "judge_env \<Rightarrow> vault \<Rightarrow> ident \<Rightarrow> processing_configuration \<Rightarrow> nat \<Rightarrow> judge_pair list
     \<Rightarrow> thrown + judge_decision list" where
  "jev_judge env db userId c offset pairs =
     (if pairs = [] then Inr []
      else map_sum id (\<lambda>answers. List.map_filter (jev_decision answers) (enumerate 0 pairs))
             (ask env db userId c offset pairs))"

section \<open>Batches\<close>

text \<open>The database as the batch at an offset finds it at an attempt, and at the start and the end.\<close>

record views =
  vw_start :: vault
  vw_batch :: "nat \<Rightarrow> nat \<Rightarrow> vault"
  vw_end :: vault

definition judge_batch ::
  "judge_env \<Rightarrow> views \<Rightarrow> ident \<Rightarrow> processing_configuration \<Rightarrow> nat \<Rightarrow> judge_pair list
     \<Rightarrow> thrown + judge_decision list" where
  "judge_batch env vw userId c offset batch =
     (if je_aborted env offset 0 then Inl Thrown_timeout
      else if ct_system (pf_consolidation c) = System_1
      then jev_judge env (vw_batch vw offset 0) userId c offset batch
      else llm_judge env (vw_batch vw offset) userId c offset batch)"

record batches =
  bs_decisions :: "judge_decision list"
  bs_judged :: "string list"
  bs_stopped :: "thrown option"

function judge_batches ::
  "judge_env \<Rightarrow> views \<Rightarrow> ident \<Rightarrow> processing_configuration \<Rightarrow> nat \<Rightarrow> judge_pair list \<Rightarrow> batches \<Rightarrow> batches" where
  "judge_batches env vw userId c offset pairs acc =
     (if pairs = [] then acc
      else
        let batch = take maxLlmPairs pairs
        in case judge_batch env vw userId c offset batch of
             Inl t \<Rightarrow> acc \<lparr> bs_stopped := Some t \<rparr>
           | Inr decisions \<Rightarrow>
               judge_batches env vw userId c (offset + maxLlmPairs) (drop maxLlmPairs pairs)
                 (acc \<lparr> bs_decisions := bs_decisions acc @ decisions,
                        bs_judged := bs_judged acc @ map jp_id batch \<rparr>))"
  by pat_completeness auto
termination
  by (relation "measure (\<lambda>(_, _, _, _, _, pairs, _). length pairs)") (auto simp: maxLlmPairs_def)

declare judge_batches.simps [simp del]

section \<open>Which memories may be compared\<close>

definition exclusionReason ::
  "judge_env \<Rightarrow> time \<Rightarrow> ident \<Rightarrow> consolidation_task \<Rightarrow> memory \<Rightarrow> string option" where
  "exclusionReason env now userId task m =
     (if m_userId m \<noteq> userId \<or> m_status m \<noteq> memory_status.ACTIVE then Some ''unavailable''
      else if m_reviewState m \<noteq> review_state.APPROVED then Some ''not_approved''
      else if expired_at now m then Some ''expired''
      else if \<not> isAtMostSensitivity (m_sensitivity m) (ct_maxSensitivity task) then Some ''above_sensitivity_limit''
      else if secret_in_payload (je_processing env) (toLlmMemory m) then Some ''secret_like_content''
      else None)"

definition permitted :: "judge_env \<Rightarrow> time \<Rightarrow> ident \<Rightarrow> consolidation_task \<Rightarrow> memory \<Rightarrow> bool" where
  "permitted env now userId task m = (exclusionReason env now userId task m = None)"

definition count_reason :: "string \<Rightarrow> (string \<times> nat) list \<Rightarrow> (string \<times> nat) list" where
  "count_reason reason counts =
     upsert reason ((case map_of counts reason of Some n \<Rightarrow> n | None \<Rightarrow> 0) + 1) counts"

section \<open>Decisions\<close>

definition semantic_reason :: "decision_reason \<Rightarrow> archive_reason" where
  "semantic_reason r =
     (case r of Decision_duplicate \<Rightarrow> Reason_semantic_duplicate | Decision_conflict \<Rightarrow> Reason_conflict
      | Decision_superseded \<Rightarrow> Reason_superseded)"

record decided =
  dc_targets :: "ident list"
  dc_survivors :: "ident list"
  dc_candidates :: "archive_candidate list"

definition decision_target :: "judge_decision \<Rightarrow> judge_pair \<Rightarrow> memory" where
  "decision_target d p = (if jd_archive d = Side_left then jp_left p else jp_right p)"

definition decision_survivor :: "judge_decision \<Rightarrow> judge_pair \<Rightarrow> memory" where
  "decision_survivor d p = (if jd_archive d = Side_left then jp_right p else jp_left p)"

definition decision_candidate :: "processing_configuration \<Rightarrow> judge_decision \<Rightarrow> judge_pair \<Rightarrow> archive_candidate" where
  "decision_candidate c d p =
     \<lparr> ac_memory = decision_target d p, ac_reason = semantic_reason (jd_reason d),
       ac_evidence = jd_evidence d, ac_confidence = Some (jd_confidence d),
       ac_canonical = Some (decision_survivor d p),
       ac_processing = Some \<lparr> pn_pairId = jd_pairId d, pn_fingerprint = pf_fingerprint c,
         pn_model = ct_model (pf_consolidation c), pn_rubric = pf_rubric c,
         pn_processors = ct_processors (pf_consolidation c) \<rparr> \<rparr>"

definition decide_step ::
  "processing_configuration \<Rightarrow> judge_pair list \<Rightarrow> judge_decision list \<Rightarrow> judge_decision \<Rightarrow> decided \<Rightarrow> decided" where
  "decide_step c inp decisions d acc =
     (case find_row (\<lambda>p. jp_id p = jd_pairId d) inp of
        None \<Rightarrow> acc
      | Some p \<Rightarrow>
          let target = decision_target d p;
              survivor = decision_survivor d p
          in if count_where (\<lambda>d'. jd_pairId d' = jd_pairId d) decisions \<noteq> 1
                \<or> m_id target = m_id survivor \<or> m_id target \<in> set (dc_targets acc)
                \<or> m_id survivor \<in> set (dc_targets acc) \<or> m_id target \<in> set (dc_survivors acc)
             then acc
             else acc \<lparr> dc_targets := m_id target # dc_targets acc,
                        dc_survivors := m_id survivor # dc_survivors acc,
                        dc_candidates := dc_candidates acc @ [decision_candidate c d p] \<rparr>)"

definition decide_all ::
  "processing_configuration \<Rightarrow> judge_pair list \<Rightarrow> judge_decision list \<Rightarrow> archive_candidate list" where
  "decide_all c inp decisions =
     dc_candidates (fold (decide_step c inp decisions) decisions
       \<lparr> dc_targets = [], dc_survivors = [], dc_candidates = [] \<rparr>)"

section \<open>ConsolidationLlmService\<close>

datatype judged_status = Judged_completed | Judged_partial | Judged_failed | Judged_skipped

record judging =
  jg_candidates :: "archive_candidate list"
  jg_status :: judged_status
  jg_reason :: "string option"
  jg_skippedPairs :: nat
  jg_skippedSources :: nat
  jg_skippedSourceReasons :: "(string \<times> nat) list"
  jg_deferredPairs :: nat
  jg_completedSourceIds :: "ident list"
  jg_fingerprint :: string
  jg_model :: string
  jg_maxSensitivity :: memory_sensitivity

definition empty_judgment :: "processing_configuration \<Rightarrow> judging" where
  "empty_judgment c =
     \<lparr> jg_candidates = [], jg_status = Judged_completed, jg_reason = None, jg_skippedPairs = 0,
       jg_skippedSources = 0, jg_skippedSourceReasons = [], jg_deferredPairs = 0,
       jg_completedSourceIds = [], jg_fingerprint = pf_fingerprint c,
       jg_model = ct_model (pf_consolidation c), jg_maxSensitivity = ct_maxSensitivity (pf_consolidation c) \<rparr>"

text \<open>The outer \<open>catch\<close>: what was counted stays.\<close>

definition fail_judgment :: "thrown \<Rightarrow> judging \<Rightarrow> judging" where
  "fail_judgment t r =
     r \<lparr> jg_status := (case t of Thrown_blocked _ \<Rightarrow> Judged_skipped | _ \<Rightarrow> Judged_failed),
         jg_reason := Some (failure_reason t) \<rparr>"

definition max_safe_integer :: nat where "max_safe_integer = 9007199254740991"
definition judgedPairLimit :: nat where "judgedPairLimit = 1000"

definition eligible_pair :: "judge_env \<Rightarrow> time \<Rightarrow> ident \<Rightarrow> consolidation_task \<Rightarrow> consolidation_pair \<Rightarrow> bool" where
  "eligible_pair env now userId task p =
     (permitted env now userId task (cp_recent p) \<and> permitted env now userId task (cp_candidate p))"

definition involves :: "memory \<Rightarrow> consolidation_pair \<Rightarrow> bool" where
  "involves m p = (m_id (cp_recent p) = m_id m \<or> m_id (cp_candidate p) = m_id m)"

text \<open>Whether a pair was judged: its place among the selected ones, whose keys are distinct.\<close>

definition pair_judged :: "consolidation_pair list \<Rightarrow> string list \<Rightarrow> consolidation_pair \<Rightarrow> bool" where
  "pair_judged selected judged p =
     list_ex (\<lambda>(i, q). pair_key q = pair_key p \<and> pair_id i \<in> set judged) (enumerate 0 selected)"

definition skip_source ::
  "judge_env \<Rightarrow> time \<Rightarrow> ident \<Rightarrow> consolidation_task \<Rightarrow> memory \<Rightarrow> judging \<Rightarrow> judging" where
  "skip_source env now userId task m r =
     (case exclusionReason env now userId task m of
        None \<Rightarrow> r
      | Some reason \<Rightarrow> r \<lparr> jg_skippedSources := jg_skippedSources r + 1,
                           jg_skippedSourceReasons := count_reason reason (jg_skippedSourceReasons r) \<rparr>)"

definition judge_pairs ::
  "judge_env \<Rightarrow> time \<Rightarrow> ident \<Rightarrow> memory list \<Rightarrow> processing_configuration \<Rightarrow> views \<Rightarrow> consolidation_pair list
     \<Rightarrow> judging \<Rightarrow> judging" where
  "judge_pairs env now userId memories c vw pairs r0 =
     (let task = pf_consolidation c;
          eligible = filter (eligible_pair env now userId task) pairs;
          selected = take judgedPairLimit eligible;
          deferred = length eligible - length selected;
          r1 = r0 \<lparr> jg_skippedPairs := length pairs - length selected, jg_deferredPairs := deferred,
                    jg_status := (if deferred > 0 then Judged_partial else Judged_completed),
                    jg_reason := (if deferred > 0 then Some ''pair_limit_reached'' else None) \<rparr>;
          inp = judge_input selected;
          out = judge_batches env vw userId c 0 inp \<lparr> bs_decisions = [], bs_judged = [], bs_stopped = None \<rparr>;
          r2 = (case bs_stopped out of
                  None \<Rightarrow> r1
                | Some t \<Rightarrow> r1 \<lparr> jg_status := (if bs_judged out \<noteq> [] then Judged_partial else Judged_failed),
                                jg_reason := Some (failure_reason t) \<rparr>)
      in case check_call env (vw_end vw) userId c None of
           Inl e \<Rightarrow> fail_judgment (thrown_of e) r2
         | Inr _ \<Rightarrow>
             r2 \<lparr> jg_candidates := decide_all c inp (bs_decisions out),
                  jg_completedSourceIds := map m_id (filter (\<lambda>m. permitted env now userId task m
                      \<and> list_all (pair_judged selected (bs_judged out)) (filter (involves m) pairs)) memories) \<rparr>)"

definition judge ::
  "judge_env \<Rightarrow> 'v consolidation_env \<Rightarrow> time \<Rightarrow> ident \<Rightarrow> memory list \<Rightarrow> processing_configuration \<Rightarrow> views
     \<Rightarrow> judging" where
  "judge env cenv now userId memories c vw =
     (if \<not> ct_available (pf_consolidation c)
      then fail_judgment (Thrown_blocked ''provider_not_configured'') (empty_judgment c)
      else case check_call env (vw_start vw) userId c None of
             Inl e \<Rightarrow> fail_judgment (thrown_of e) (empty_judgment c)
           | Inr _ \<Rightarrow>
               judge_pairs env now userId memories c vw
                 (findRecentCandidatePairs cenv (vw_start vw) userId memories max_safe_integer)
                 (fold (skip_source env now userId (pf_consolidation c)) memories (empty_judgment c)))"

section \<open>Pair ids\<close>

definition of_decimal :: "string \<Rightarrow> nat" where
  "of_decimal str = foldl (\<lambda>n c. 10 * n + (of_char c - 48)) 0 str"

lemma of_decimal_decimal: "of_decimal (decimal n) = n"
proof (induction n rule: decimal.induct)
  case (1 n)
  have d: "of_char (char_of (48 + k) :: char) - 48 = k" if "k < 10" for k :: nat
    using that by (simp add: of_char_of take_bit_nat_def)
  show ?case
    using 1 by (subst decimal.simps) (auto simp: of_decimal_def d)
qed

lemma pair_id_inj [simp]: "pair_id i = pair_id j \<longleftrightarrow> i = j"
  unfolding pair_id_def by (metis append_same_eq of_decimal_decimal same_append_eq)

lemma judge_input_nth: "judge_input ps = map (\<lambda>i. judge_pair_of i (ps ! i)) [0..<length ps]"
  by (intro nth_equalityI) (auto simp: judge_input_def nth_enumerate_eq)

lemma distinct_judge_input: "distinct (map jp_id (judge_input ps))"
  by (auto simp: judge_input_nth judge_pair_of_def distinct_map inj_on_def)

lemma judge_input_elem:
  "p \<in> set (judge_input ps) \<Longrightarrow> \<exists>q\<in>set ps. jp_left p = cp_recent q \<and> jp_right p = cp_candidate q"
  by (auto simp: judge_input_nth judge_pair_of_def intro!: bexI[of _ "ps ! _"])

section \<open>What a provider is given\<close>

text \<open>A batch that may be sent at an attempt: at most thirty pairs of permitted memories, in a payload
  without secrets, under the provider the owner has chosen at that moment.\<close>

definition permitted_pair :: "judge_env \<Rightarrow> time \<Rightarrow> ident \<Rightarrow> processing_configuration \<Rightarrow> judge_pair \<Rightarrow> bool" where
  "permitted_pair env now userId c p =
     (permitted env now userId (pf_consolidation c) (jp_left p)
      \<and> permitted env now userId (pf_consolidation c) (jp_right p))"

definition may_send ::
  "judge_env \<Rightarrow> time \<Rightarrow> ident \<Rightarrow> processing_configuration \<Rightarrow> views \<Rightarrow> judge_pair list \<Rightarrow> nat \<Rightarrow> bool" where
  "may_send env now userId c vw pairs attempt =
     (pairs \<noteq> [] \<and> length pairs \<le> 30 \<and> list_all (permitted_pair env now userId c) pairs
      \<and> (\<exists>offset payload. payload \<in> {input_json pairs,
              [(''state'', JObj (input_json pairs)), (''questions'', je_questions env (length pairs))]}
          \<and> check_call env (vw_batch vw offset attempt) userId c (Some payload) = Inr ()))"

definition with_models ::
  "(judge_pair list \<Rightarrow> nat \<Rightarrow> judge_decision list reply) \<Rightarrow> (judge_pair list \<Rightarrow> (string \<times> answer) list reply)
     \<Rightarrow> judge_env \<Rightarrow> judge_env" where
  "with_models llm jev env = env \<lparr> je_llm := llm, je_jev := jev \<rparr>"

lemma with_models_same [simp]:
  "je_processing (with_models llm jev env) = je_processing env"
  "je_aborted (with_models llm jev env) = je_aborted env"
  "je_late (with_models llm jev env) = je_late env"
  "je_questions (with_models llm jev env) = je_questions env"
  "je_llm (with_models llm jev env) = llm" "je_jev (with_models llm jev env) = jev"
  "check_call (with_models llm jev env) = check_call env"
  "exclusionReason (with_models llm jev env) = exclusionReason env"
  "permitted (with_models llm jev env) = permitted env"
  "eligible_pair (with_models llm jev env) = eligible_pair env"
  "skip_source (with_models llm jev env) = skip_source env"
  by (auto simp: with_models_def check_call_def exclusionReason_def permitted_def eligible_pair_def
      skip_source_def fun_eq_iff)

lemma retry_models:
  assumes "\<And>attempt. before attempt = Inr () \<Longrightarrow> call' attempt = call attempt"
  shows "withProviderRetry aborted before late call' 0 = withProviderRetry aborted before late call 0"
  unfolding withProviderRetry_unfold using assms by (auto split: sum.split reply.split)

lemma judge_batch_models:
  assumes agree: "\<And>pairs attempt. may_send env now userId c vw pairs attempt \<Longrightarrow>
      llm pairs attempt = je_llm env pairs attempt \<and> jev pairs = je_jev env pairs"
    and b: "batch \<noteq> []" "length batch \<le> 30" "list_all (permitted_pair env now userId c) batch"
  shows "judge_batch (with_models llm jev env) vw userId c offset batch = judge_batch env vw userId c offset batch"
proof -
  have send: "may_send env now userId c vw batch attempt"
    if "check_call env (vw_batch vw offset attempt) userId c (Some payload) = Inr ()"
      and "payload \<in> {input_json batch, [(''state'', JObj (input_json batch)), (''questions'', je_questions env (length batch))]}"
    for attempt payload
    using that b unfolding may_send_def by blast
  have "llm_judge (with_models llm jev env) (vw_batch vw offset) userId c offset batch
      = llm_judge env (vw_batch vw offset) userId c offset batch"
    unfolding llm_judge_def with_models_same
    by (subst retry_models[where call = "je_llm env batch"]) (use agree send in blast)+
  moreover have "ask (with_models llm jev env) (vw_batch vw offset 0) userId c offset batch
      = ask env (vw_batch vw offset 0) userId c offset batch"
  proof (cases "check_call env (vw_batch vw offset 0) userId c
      (Some [(''state'', JObj (input_json batch)), (''questions'', je_questions env (length batch))])")
    case (Inr u)
    then have "may_send env now userId c vw batch 0" by (intro send) auto
    then have jev: "jev batch = je_jev env batch" using agree by blast
    show ?thesis unfolding ask_def with_models_same jev by (rule refl)
  next
    case (Inl e)
    then show ?thesis unfolding ask_def with_models_same by simp
  qed
  ultimately show ?thesis by (simp add: judge_batch_def jev_judge_def)
qed

lemma judge_batches_models:
  assumes agree: "\<And>pairs attempt. may_send env now userId c vw pairs attempt \<Longrightarrow>
      llm pairs attempt = je_llm env pairs attempt \<and> jev pairs = je_jev env pairs"
    and p: "list_all (permitted_pair env now userId c) pairs"
  shows "judge_batches (with_models llm jev env) vw userId c offset pairs acc
       = judge_batches env vw userId c offset pairs acc"
  using p
proof (induction "length pairs" arbitrary: offset pairs acc rule: less_induct)
  case less
  show ?case
  proof (cases "pairs = []")
    case False
    have shorter: "length (drop maxLlmPairs pairs) < length pairs" using False by (simp add: maxLlmPairs_def)
    have take_drop: "list_all (permitted_pair env now userId c) (take maxLlmPairs pairs)"
      "list_all (permitted_pair env now userId c) (drop maxLlmPairs pairs)"
      using less.prems by (auto simp: list_all_iff dest: in_set_takeD in_set_dropD)
    have "judge_batch (with_models llm jev env) vw userId c offset (take maxLlmPairs pairs)
        = judge_batch env vw userId c offset (take maxLlmPairs pairs)"
      by (rule judge_batch_models[OF agree]) (use False take_drop in \<open>auto simp: maxLlmPairs_def\<close>)
    then show ?thesis
      using less.hyps[OF shorter take_drop(2)] False
      by (subst (1 2) judge_batches.simps) (auto simp: Let_def split: sum.split)
  qed (simp add: judge_batches.simps)
qed


section \<open>What the decisions give\<close>

lemma judge_batch_confidence:
  assumes "judge_batch env vw userId c offset batch = Inr ds" "d \<in> set ds"
  shows "minimumLlmConfidence \<le> jd_confidence d"
proof -
  have "minimumLlmConfidence \<le> jd_confidence d" if "jev_decision answers ip = Some d" for answers ip
    using that by (auto simp: jev_decision_def minimumLlmConfidence_def split: option.splits answer.splits if_splits)
  moreover have map: "(map_sum id f x = Inr y) = (\<exists>z. x = Inr z \<and> y = f z)"
    for f :: "'x \<Rightarrow> 'y" and x :: "thrown + 'x" and y by (cases x) auto
  moreover have "ds = [] \<or> (\<exists>xs. ds = filter (\<lambda>d. jd_confidence d \<ge> minimumLlmConfidence) xs)
      \<or> (\<exists>answers ips. ds = List.map_filter (jev_decision answers) ips)"
    using assms(1) by (auto simp: judge_batch_def llm_judge_def jev_judge_def map split: if_splits)
  ultimately show ?thesis using assms(2) by (auto simp: mem_map_filter)
qed


lemma judge_batches_confidence:
  assumes "\<forall>d\<in>set (bs_decisions acc). minimumLlmConfidence \<le> jd_confidence d"
  shows "\<forall>d\<in>set (bs_decisions (judge_batches env vw userId c offset pairs acc)). minimumLlmConfidence \<le> jd_confidence d"
  using assms
proof (induction env vw userId c offset pairs acc rule: judge_batches.induct)
  case (1 env vw userId c offset pairs acc)
  show ?case
  proof (cases "pairs = []")
    case ne: False
    show ?thesis
    proof (cases "judge_batch env vw userId c offset (take maxLlmPairs pairs)")
      case (Inl t)
      then show ?thesis using ne 1(2) by (subst judge_batches.simps) (simp add: Let_def)
    next
      case (Inr ds)
      have "\<forall>d\<in>set (bs_decisions acc @ ds). minimumLlmConfidence \<le> jd_confidence d"
        using 1(2) judge_batch_confidence[OF Inr] by auto
      then show ?thesis using 1(1)[OF ne refl Inr] ne Inr by (subst judge_batches.simps) (simp add: Let_def)
    qed
  qed (use 1 in \<open>simp add: judge_batches.simps\<close>)
qed

text \<open>What the loop over the decisions keeps: targets and survivors are those of the candidates, no target
  is repeated or a survivor, and each candidate comes from a decision about a pair of the input.\<close>

definition decided_inv :: "processing_configuration \<Rightarrow> judge_pair list \<Rightarrow> judge_decision list \<Rightarrow> decided \<Rightarrow> bool" where
  "decided_inv c inp decisions acc =
     (set (dc_targets acc) = target_id ` set (dc_candidates acc)
      \<and> Some ` set (dc_survivors acc) = canonical_id ` set (dc_candidates acc)
      \<and> distinct (map target_id (dc_candidates acc))
      \<and> set (dc_targets acc) \<inter> set (dc_survivors acc) = {}
      \<and> (\<forall>x\<in>set (dc_candidates acc). \<exists>d\<in>set decisions. \<exists>p\<in>set inp.
           jp_id p = jd_pairId d \<and> x = decision_candidate c d p))"

lemma candidate_ids [simp]:
  "target_id (decision_candidate c d p) = m_id (decision_target d p)"
  "canonical_id (decision_candidate c d p) = Some (m_id (decision_survivor d p))"
  by (simp_all add: decision_candidate_def target_id_def canonical_id_def)

lemma decide_step_inv:
  assumes "decided_inv c inp decisions acc" "d \<in> set decisions"
  shows "decided_inv c inp decisions (decide_step c inp decisions d acc)"
proof (cases "decide_step c inp decisions d acc = acc")
  case False
  then obtain p where p: "find_row (\<lambda>p. jp_id p = jd_pairId d) inp = Some p"
    and fresh: "m_id (decision_target d p) \<noteq> m_id (decision_survivor d p)"
      "m_id (decision_target d p) \<notin> set (dc_targets acc)" "m_id (decision_survivor d p) \<notin> set (dc_targets acc)"
      "m_id (decision_target d p) \<notin> set (dc_survivors acc)"
    and new: "decide_step c inp decisions d acc
      = acc \<lparr> dc_targets := m_id (decision_target d p) # dc_targets acc,
              dc_survivors := m_id (decision_survivor d p) # dc_survivors acc,
              dc_candidates := dc_candidates acc @ [decision_candidate c d p] \<rparr>"
    by (auto simp: decide_step_def Let_def split: option.splits if_splits)
  have "p \<in> set inp" "jp_id p = jd_pairId d" using find_row_SomeD[OF p] by auto
  then have ex: "\<exists>d'\<in>set decisions. \<exists>p'\<in>set inp. jp_id p' = jd_pairId d' \<and> decision_candidate c d p = decision_candidate c d' p'"
    using assms(2) by blast
  have t: "m_id (decision_target d p) \<notin> target_id ` set (dc_candidates acc)"
    using assms(1) fresh(2) by (simp add: decided_inv_def)
  show ?thesis
    using assms(1) fresh ex t unfolding decided_inv_def new by auto
qed (simp add: assms(1))

lemma decide_inv:
  "\<exists>acc. decide_all c inp decisions = dc_candidates acc \<and> decided_inv c inp decisions acc"
proof -
  have inv: "set ds \<subseteq> set decisions \<Longrightarrow> decided_inv c inp decisions acc \<Longrightarrow>
      decided_inv c inp decisions (fold (decide_step c inp decisions) ds acc)" for ds acc
    by (induction ds arbitrary: acc) (auto intro: decide_step_inv)
  have "decided_inv c inp decisions (fold (decide_step c inp decisions) decisions
      \<lparr> dc_targets = [], dc_survivors = [], dc_candidates = [] \<rparr>)"
    by (rule inv) (simp_all add: decided_inv_def)
  then show ?thesis unfolding decide_all_def by blast
qed

lemma decide_sound:
  shows "distinct (map target_id (decide_all c inp decisions))"
    and "x \<in> set (decide_all c inp decisions) \<Longrightarrow> y \<in> set (decide_all c inp decisions) \<Longrightarrow> canonical_id x \<noteq> Some (target_id y)"
    and "x \<in> set (decide_all c inp decisions) \<Longrightarrow>
      \<exists>d\<in>set decisions. \<exists>p\<in>set inp. jp_id p = jd_pairId d \<and> x = decision_candidate c d p"
proof -
  obtain acc where acc: "decide_all c inp decisions = dc_candidates acc" "decided_inv c inp decisions acc"
    using decide_inv by blast
  show "distinct (map target_id (decide_all c inp decisions))" using acc by (simp add: decided_inv_def)
  show "x \<in> set (decide_all c inp decisions) \<Longrightarrow>
      \<exists>d\<in>set decisions. \<exists>p\<in>set inp. jp_id p = jd_pairId d \<and> x = decision_candidate c d p"
    using acc by (auto simp: decided_inv_def)
  assume "x \<in> set (decide_all c inp decisions)" "y \<in> set (decide_all c inp decisions)"
  then have "canonical_id x \<in> canonical_id ` set (dc_candidates acc)" "target_id y \<in> target_id ` set (dc_candidates acc)"
    using acc(1) by auto
  moreover have "set (dc_targets acc) = target_id ` set (dc_candidates acc)"
    "Some ` set (dc_survivors acc) = canonical_id ` set (dc_candidates acc)"
    "set (dc_targets acc) \<inter> set (dc_survivors acc) = {}"
    using acc(2) unfolding decided_inv_def by blast+
  ultimately have "canonical_id x \<in> Some ` set (dc_survivors acc)" "target_id y \<in> set (dc_targets acc)" by simp_all
  then show "canonical_id x \<noteq> Some (target_id y)"
    using \<open>set (dc_targets acc) \<inter> set (dc_survivors acc) = {}\<close> by auto
qed

lemma no_candidates [simp]:
  "jg_candidates (fail_judgment t r) = jg_candidates r" "jg_candidates (empty_judgment c) = []"
  "jg_candidates (skip_source env now userId task m r) = jg_candidates r"
  by (simp_all add: fail_judgment_def empty_judgment_def skip_source_def split: option.split)

lemma no_candidates_fold [simp]:
  "jg_candidates (fold (skip_source env now userId task) ms r) = jg_candidates r"
  by (induction ms arbitrary: r) simp_all

lemma judge_candidates:
  assumes "x \<in> set (jg_candidates (judge env cenv now userId memories c vw))"
  obtains decisions pairs where
    "jg_candidates (judge env cenv now userId memories c vw) = decide_all c (judge_input pairs) decisions"
    "\<forall>d\<in>set decisions. minimumLlmConfidence \<le> jd_confidence d"
    "\<forall>p\<in>set pairs. eligible_pair env now userId (pf_consolidation c) p"
    "check_call env (vw_end vw) userId c None = Inr ()"
proof -
  define sel where "sel pairs = take judgedPairLimit (filter (eligible_pair env now userId (pf_consolidation c)) pairs)" for pairs
  define out where "out pairs = judge_batches env vw userId c 0 (judge_input (sel pairs))
        \<lparr> bs_decisions = [], bs_judged = [], bs_stopped = None \<rparr>" for pairs
  have jp: "jg_candidates (judge_pairs env now userId memories c vw pairs r)
      = (if check_call env (vw_end vw) userId c None = Inr ()
         then decide_all c (judge_input (sel pairs)) (bs_decisions (out pairs)) else jg_candidates r)" for pairs r
    unfolding judge_pairs_def Let_def sel_def[symmetric] out_def[symmetric]
    by (auto split: sum.split option.split)
  obtain pairs where j: "check_call env (vw_end vw) userId c None = Inr ()"
    "jg_candidates (judge env cenv now userId memories c vw)
       = decide_all c (judge_input (sel pairs)) (bs_decisions (out pairs))"
    using assms by (auto simp: judge_def jp split: if_splits sum.splits)
  show thesis
    by (rule that[OF j(2) _ _ j(1)])
      (use judge_batches_confidence[of "\<lparr> bs_decisions = [], bs_judged = [], bs_stopped = None \<rparr>"] in
        \<open>auto simp: sel_def out_def dest: in_set_takeD\<close>)
qed

text \<open>C10. What a model's decisions may archive: no memory twice, and never a memory that another decision
  keeps as its survivor; only permitted memories, in favour of a different permitted memory; only with the
  confidence the service requires; and only while the provider still is the owner's choice.\<close>

theorem judged_candidates_sound:
  assumes "x \<in> set (jg_candidates (judge env cenv now userId memories c vw))"
  shows "distinct (map target_id (jg_candidates (judge env cenv now userId memories c vw)))
    \<and> list_all (\<lambda>y. canonical_id x \<noteq> Some (target_id y)) (jg_candidates (judge env cenv now userId memories c vw))
    \<and> permitted env now userId (pf_consolidation c) (ac_memory x)
    \<and> (\<exists>survivor. ac_canonical x = Some survivor \<and> m_id survivor \<noteq> m_id (ac_memory x)
          \<and> permitted env now userId (pf_consolidation c) survivor)
    \<and> minimumLlmConfidence \<le> candidateConfidence x
    \<and> check_call env (vw_end vw) userId c None = Inr ()"
proof -
  obtain decisions pairs where j:
    "jg_candidates (judge env cenv now userId memories c vw) = decide_all c (judge_input pairs) decisions"
    "\<forall>d\<in>set decisions. minimumLlmConfidence \<le> jd_confidence d"
    "\<forall>p\<in>set pairs. eligible_pair env now userId (pf_consolidation c) p"
    "check_call env (vw_end vw) userId c None = Inr ()"
    by (rule judge_candidates[OF assms])
  have x: "x \<in> set (decide_all c (judge_input pairs) decisions)" using assms j(1) by simp
  obtain d p where d: "d \<in> set decisions" "p \<in> set (judge_input pairs)" "x = decision_candidate c d p"
    using decide_sound(3)[OF x] by blast
  obtain q where q: "q \<in> set pairs" "jp_left p = cp_recent q" "jp_right p = cp_candidate q"
    using judge_input_elem[OF d(2)] by blast
  have "permitted env now userId (pf_consolidation c) (jp_left p)" "permitted env now userId (pf_consolidation c) (jp_right p)"
    using j(3) q by (auto simp: eligible_pair_def)
  then have pm: "permitted env now userId (pf_consolidation c) (decision_target d p)"
    "permitted env now userId (pf_consolidation c) (decision_survivor d p)"
    by (simp_all add: decision_target_def decision_survivor_def)
  have "m_id (decision_survivor d p) \<noteq> m_id (decision_target d p)"
    using decide_sound(2)[OF x x] by (simp add: d(3))
  moreover have "ac_memory x = decision_target d p" "ac_canonical x = Some (decision_survivor d p)"
    "candidateConfidence x = jd_confidence d"
    by (simp_all add: d(3) decision_candidate_def candidateConfidence_def or_keep_def)
  ultimately show ?thesis
    using pm j(2,4) d(1) decide_sound(1,2) x unfolding j(1) by (auto simp: list_all_iff)
qed


section \<open>A sample\<close>

definition sample_copy :: memory where
  "sample_copy = sample_memory \<lparr> m_id := ''m3'', m_updatedAt := 2 \<rparr>"

definition copies_vault :: vault where
  "copies_vault = sample_vault \<lparr> v_memories := [sample_memory, sample_copy] \<rparr>"

definition sample_consolidation_env :: "nat consolidation_env" where
  "sample_consolidation_env =
     \<lparr> cx_iso = (\<lambda>_. ''then''), cx_contains = (\<lambda>t term. sublist term (js_lower t)),
       cx_sqlNormalize = normalizeForDuplicate, cx_distance = (\<lambda>_ _. 1), cx_searchFails = (\<lambda>_. True),
       cx_embeddings = [] \<rparr>"

definition sample_judge_env :: judge_env where
  "sample_judge_env =
     \<lparr> je_processing = sample_processing_env, je_aborted = (\<lambda>_ _. False), je_late = (\<lambda>_ _. False),
       je_llm = (\<lambda>_ _. Reply []),
       je_jev = (\<lambda>_. Reply [(''0_relationship'', Choice ''duplicate'' 1), (''0_left_loss'', Noul 0)]),
       je_questions = (\<lambda>_. JNull) \<rparr>"

definition sample_views :: views where
  "sample_views = \<lparr> vw_start = copies_vault, vw_batch = (\<lambda>_ _. copies_vault), vw_end = copies_vault \<rparr>"

definition sample_judged :: judging where
  "sample_judged = judge sample_judge_env sample_consolidation_env 9 ''u1'' [sample_memory] sample_default sample_views"

definition sample_pair :: consolidation_pair where
  "sample_pair = \<lparr> cp_recent = sample_memory, cp_candidate = sample_copy, cp_score = 1, cp_source = Source_lexical \<rparr>"

lemma sample_pairs:
  "findRecentCandidatePairs sample_consolidation_env copies_vault ''u1'' [sample_memory] max_safe_integer = [sample_pair]"
proof -
  have "map snd (fold (collect_pairs sample_consolidation_env copies_vault ''u1'') [sample_memory] []) = [sample_pair]"
    by code_simp
  then show ?thesis unfolding findRecentCandidatePairs_def by (simp add: max_safe_integer_def)
qed

lemma short_payload: "length (px_stringify env v) < 17 \<Longrightarrow> \<not> secret_in_payload env v"
proof -
  assume "length (px_stringify env v) < 17"
  then have "assertNoSecretLikeContent (px_stringify env) \<lparr> ss_title = None, ss_body = Some (px_stringify env v),
      ss_evidence = None, ss_sourceMetadata = None \<rparr> = Inr ()"
    by (intro short_text_accepted) (simp add: scan_text_def)
  then show ?thesis by (auto simp: secret_in_payload_def assertNoSecretLikeContent_def split: if_splits)
qed

lemma sample_no_secret: "\<not> secret_in_payload sample_processing_env v"
  by (rule short_payload) (simp add: sample_processing_env_def)

lemma sample_check:
  "check_call sample_judge_env db userId c (Some v) = check_call sample_judge_env db userId c None"
  by (simp add: check_call_def check_def sample_no_secret sample_judge_env_def)

lemma sample_permitted:
  "permitted sample_judge_env 9 ''u1'' (pf_consolidation sample_default) sample_memory"
  "permitted sample_judge_env 9 ''u1'' (pf_consolidation sample_default) sample_copy"
proof -
  have "isAtMostSensitivity memory_sensitivity.LOW (ct_maxSensitivity (pf_consolidation sample_default))" by code_simp
  then show "permitted sample_judge_env 9 ''u1'' (pf_consolidation sample_default) sample_memory"
    "permitted sample_judge_env 9 ''u1'' (pf_consolidation sample_default) sample_copy"
    by (simp_all add: permitted_def exclusionReason_def sample_copy_def sample_memory_def expired_at_def
        sample_judge_env_def sample_no_secret)
qed

lemma sample_judged_targets: "map target_id (jg_candidates sample_judged) = [''m1'']"
proof -
  define inp ds where "inp = judge_input [sample_pair]"
    and "ds = [\<lparr> jd_pairId = ''pair_0'', jd_archive = Side_left, jd_reason = Decision_duplicate, jd_confidence = 1,
      jd_evidence = ''Equivalent supported claims without a distinct scope to preserve.'' \<rparr>]"
  have ok: "ct_available (pf_consolidation sample_default)"
    "ct_system (pf_consolidation sample_default) = System_1"
    "check_call sample_judge_env copies_vault ''u1'' sample_default None = Inr ()"
    by code_simp+
  have jev: "List.map_filter (jev_decision [(''0_relationship'', Choice ''duplicate'' 1), (''0_left_loss'', Noul 0)])
      (enumerate 0 inp) = ds" and inp: "inp \<noteq> []" "length inp = 1" and dec: "map target_id (decide_all sample_default inp ds) = [''m1'']"
    unfolding inp_def ds_def by code_simp+
  have batch: "judge_batch sample_judge_env sample_views ''u1'' sample_default 0 inp = Inr ds"
    using ok inp by (simp add: judge_batch_def jev_judge_def ask_def sample_check sample_views_def jev[symmetric])
      (simp add: sample_judge_env_def)
  have "drop maxLlmPairs inp = []" "take maxLlmPairs inp = inp" using inp by (simp_all add: maxLlmPairs_def)
  then have out: "bs_decisions (judge_batches sample_judge_env sample_views ''u1'' sample_default 0 inp
      \<lparr> bs_decisions = [], bs_judged = [], bs_stopped = None \<rparr>) = ds"
    "bs_stopped (judge_batches sample_judge_env sample_views ''u1'' sample_default 0 inp
      \<lparr> bs_decisions = [], bs_judged = [], bs_stopped = None \<rparr>) = None"
    using inp batch by (simp_all add: judge_batches.simps[of _ _ _ _ 0] judge_batches.simps[of _ _ _ _ _ "[]"])
  have sel: "eligible_pair sample_judge_env 9 ''u1'' (pf_consolidation sample_default) sample_pair"
    "take judgedPairLimit [sample_pair] = [sample_pair]"
    by (simp_all add: eligible_pair_def sample_pair_def sample_permitted judgedPairLimit_def)
  have "jg_candidates sample_judged = decide_all sample_default inp ds"
    using ok(1,3) unfolding sample_judged_def judge_def
    by (simp add: sample_views_def sample_pairs judge_pairs_def Let_def sel)
      (simp add: sample_views_def[symmetric] inp_def[symmetric] out)
  then show ?thesis using dec by simp
qed

lemma judged_candidates_sound_witness:
  "\<exists>x\<in>set (jg_candidates sample_judged). target_id x = ''m1''
     \<and> permitted sample_judge_env 9 ''u1'' (pf_consolidation sample_default) (ac_memory x)
     \<and> (\<exists>survivor. ac_canonical x = Some survivor \<and> m_id survivor \<noteq> m_id (ac_memory x))"
proof -
  obtain x where x: "x \<in> set (jg_candidates sample_judged)" "target_id x = ''m1''"
  proof -
    have "''m1'' \<in> target_id ` set (jg_candidates sample_judged)"
      unfolding set_map[symmetric] sample_judged_targets by simp
    then show thesis by (rule imageE) (rule that, simp_all only:)
  qed
  note sound = judged_candidates_sound[OF x(1)[unfolded sample_judged_def]]
  have "permitted sample_judge_env 9 ''u1'' (pf_consolidation sample_default) (ac_memory x)"
    "\<exists>survivor. ac_canonical x = Some survivor \<and> m_id survivor \<noteq> m_id (ac_memory x)"
    using sound by blast+
  then show ?thesis by (intro bexI[OF _ x(1)] conjI x(2))
qed

definition guarded_llm :: "judge_pair list \<Rightarrow> nat \<Rightarrow> judge_decision list reply" where
  "guarded_llm pairs attempt =
     (if may_send sample_judge_env 9 ''u1'' sample_default sample_views pairs attempt
      then je_llm sample_judge_env pairs attempt else Refused False Thrown_other)"


end
