(* ===== verification/ConsolidationWriter.thy ===== *)
theory ConsolidationWriter
  imports Consolidation
begin

text \<open>
  \<open>consolidation-writer.service.ts\<close> with \<open>consolidation-subjects.ts\<close>: what consolidation writes.  A
  candidate found earlier is rechecked inside the transaction that archives its target or queues a
  suggestion to archive it.  The vault a function is given is the one of that moment, whatever other
  requests did since the candidate was found.
\<close>

section \<open>Subjects and events\<close>

primrec mode_name :: "consolidation_mode \<Rightarrow> string" where
  "mode_name consolidation_mode.REVIEW_ONLY = ''REVIEW_ONLY''"
| "mode_name consolidation_mode.AUTO_APPLY = ''AUTO_APPLY''"

definition consolidate_type_name :: string where "consolidate_type_name = ''CONSOLIDATE_MEMORIES''"

definition canonical_title :: "archive_candidate \<Rightarrow> string option" where
  "canonical_title c = map_option m_title (ac_canonical c)"

definition job_subject :: "ident \<Rightarrow> audit_subject" where
  "job_subject jobRunId =
     (subject audit_subject_type.JOB_RUN (Some jobRunId) audit_subject_role.JOB)
       \<lparr>sj_label := Some consolidate_type_name\<rparr>"

definition consolidationArchiveAuditSubjects :: "archive_candidate \<Rightarrow> ident \<Rightarrow> audit_subject_role \<Rightarrow> audit_subject list" where
  "consolidationArchiveAuditSubjects c jobRunId auditRole =
     [auditMemorySubject (target_id c) (Some (m_title (ac_memory c))) auditRole,
      subject audit_subject_type.MEMORY (canonical_id c) audit_subject_role.CANONICAL \<lparr>sj_label := canonical_title c\<rparr>,
      job_subject jobRunId]"

definition consolidationArchiveProvenanceSubjects ::
  "archive_candidate \<Rightarrow> ident option \<Rightarrow> ident \<Rightarrow> ident option \<Rightarrow> provenance_subject list" where
  "consolidationArchiveProvenanceSubjects c suggestionId jobRunId auditEventId =
     [memorySubject (target_id c) (Some (m_title (ac_memory c))) provenance_subject_role.TARGET,
      subject provenance_subject_type.MEMORY (canonical_id c) provenance_subject_role.CANONICAL \<lparr>sj_label := canonical_title c\<rparr>,
      subject provenance_subject_type.MEMORY_SUGGESTION suggestionId provenance_subject_role.SUGGESTION,
      subject provenance_subject_type.JOB_RUN (Some jobRunId) provenance_subject_role.JOB,
      subject provenance_subject_type.AUDIT_EVENT auditEventId provenance_subject_role.AUDIT_EVENT]"

definition job_event ::
  "ident \<Rightarrow> ident \<Rightarrow> audit_event_type \<Rightarrow> audit_metadata \<Rightarrow> audit_subject list \<Rightarrow> audit_event_input" where
  "job_event userId jobRunId ty md subjects =
     \<lparr> ai_userId = userId, ai_clientId = None, ai_memoryRequestId = None, ai_type = ty,
       ai_actorType = audit_actor_type.JOB, ai_actorId = Some jobRunId, ai_metadata = md,
       ai_subjects = subjects, ai_inferSubjects = True \<rparr>"

section \<open>Revalidation\<close>

text \<open>\<open>memory.findFirst where { id, userId, status ACTIVE, updatedAt }\<close>\<close>

definition current_version :: "vault \<Rightarrow> ident \<Rightarrow> memory \<Rightarrow> memory option" where
  "current_version db userId expected =
     find_row (\<lambda>m. m_id m = m_id expected \<and> m_userId m = userId \<and> m_status m = memory_status.ACTIVE
       \<and> m_updatedAt m = m_updatedAt expected) (v_memories db)"

definition version_valid :: "time \<Rightarrow> vault \<Rightarrow> ident \<Rightarrow> archive_candidate \<Rightarrow> memory \<Rightarrow> bool" where
  "version_valid now db userId c expected =
     (case current_version db userId expected of
        None \<Rightarrow> False
      | Some actual \<Rightarrow>
          \<not> (canonical_id c = Some (m_id expected)
             \<and> (m_reviewState actual \<noteq> review_state.APPROVED \<or> expired_at now actual)))"

definition candidateStillValid ::
  "processing_env \<Rightarrow> time \<Rightarrow> vault \<Rightarrow> ident \<Rightarrow> archive_candidate \<Rightarrow> error + bool" where
  "candidateStillValid env now db userId c =
     (if \<not> list_all (version_valid now db userId c) (ac_memory c # (case ac_canonical c of Some k \<Rightarrow> [k] | None \<Rightarrow> []))
      then Inr False
      else case ac_processing c of
             None \<Rightarrow> Inr True
           | Some note \<Rightarrow>
               (case check env db userId Scope_consolidation (pn_processors note) None of
                  Inl (Blocked _) \<Rightarrow> Inr False
                | Inl (Raised e) \<Rightarrow> Inl e
                | Inr _ \<Rightarrow> Inr True))"

section \<open>Suggestions to archive\<close>

definition note_json :: "processing_note option \<Rightarrow> json" where
  "note_json v =
     (case v of
        None \<Rightarrow> JNull
      | Some n \<Rightarrow> JObj [(''pairId'', JStr (pn_pairId n)), (''fingerprint'', JStr (pn_fingerprint n)),
          (''model'', JStr (pn_model n)), (''rubric'', JStr (pn_rubric n)),
          (''processors'', json_strings (pn_processors n))])"

definition archive_source_metadata ::
  "archive_candidate \<Rightarrow> ident \<Rightarrow> consolidation_mode \<Rightarrow> (string \<times> json) list" where
  "archive_source_metadata c jobRunId mode =
     [(''processing'', note_json (ac_processing c)),
      (''targetVersion'', JTime (m_updatedAt (ac_memory c))),
      (''canonicalVersion'', (case ac_canonical c of Some k \<Rightarrow> JTime (m_updatedAt k) | None \<Rightarrow> JNull)),
      (''action'', JStr ''archive_memory''), (''reason'', JStr (archive_reason_name (ac_reason c))),
      (''targetMemoryId'', JStr (target_id c)), (''targetTitle'', JStr (m_title (ac_memory c))),
      (''canonicalMemoryId'', json_opt (canonical_id c)), (''canonicalTitle'', json_opt (canonical_title c)),
      (''jobRunId'', JStr jobRunId), (''mode'', JStr (mode_name mode))]"

definition archive_suggestion ::
  "time \<Rightarrow> ident \<Rightarrow> ident \<Rightarrow> archive_candidate \<Rightarrow> ident \<Rightarrow> consolidation_mode \<Rightarrow> suggestion" where
  "archive_suggestion now userId i c jobRunId mode =
     \<lparr> s_id = i, s_userId = userId, s_sourceType = source_type.CONSOLIDATION, s_sourceClientId = None,
       s_statedPurpose = None, s_policyId = None, s_title = ''Archive '' @ m_title (ac_memory c),
       s_body = ''Archive this memory: '' @ m_body (ac_memory c), s_suggestedKind = m_kind (ac_memory c),
       s_suggestedSensitivity = m_sensitivity (ac_memory c),
       s_suggestedCategories = categoryKeys (ac_memory c), s_evidence = Some (ac_evidence c),
       s_sourceMetadata = archive_source_metadata c jobRunId mode, s_confidence = candidateConfidence c,
       s_status = memory_suggestion_status.QUEUED_FOR_REVIEW, s_expiresAt = None, s_createdAt = now,
       s_updatedAt = now \<rparr>"

definition consolidation_provenance ::
  "ident \<Rightarrow> ident \<Rightarrow> archive_candidate \<Rightarrow> consolidation_mode \<Rightarrow> memory_provenance_entry_type \<Rightarrow> ident option
     \<Rightarrow> ident option \<Rightarrow> provenance_input" where
  "consolidation_provenance userId jobRunId c mode ty suggestionId auditEventId =
     \<lparr> pi_userId = userId, pi_memoryId = target_id c, pi_type = ty, pi_actorType = audit_actor_type.JOB,
       pi_actorId = Some jobRunId, pi_sourceType = Some source_type.CONSOLIDATION, pi_sourceClientId = None,
       pi_sourceUri = None, pi_suggestionId = suggestionId, pi_jobRunId = Some jobRunId,
       pi_auditEventId = auditEventId, pi_memoryRequestId = None,
       pi_reason = Some (archive_reason_name (ac_reason c)), pi_evidence = Some (ac_evidence c),
       pi_confidence = Some (candidateConfidence c),
       pi_metadata = [(''action'', JStr ''archive_memory''), (''mode'', JStr (mode_name mode))],
       pi_subjects = consolidationArchiveProvenanceSubjects c suggestionId jobRunId auditEventId \<rparr>"

definition createArchiveSuggestion ::
  "processing_env \<Rightarrow> time \<Rightarrow> ident \<Rightarrow> ident \<Rightarrow> archive_candidate \<Rightarrow> consolidation_mode \<Rightarrow> ident list \<Rightarrow> vault
     \<Rightarrow> suggestion option outcome" where
  "createArchiveSuggestion env now userId jobRunId c mode queued db =
     (if target_id c \<in> set queued then (Inr None, db)
      else case candidateStillValid env now db userId c of
             Inl e \<Rightarrow> (Inl e, db)
           | Inr False \<Rightarrow> (Inr None, db)
           | Inr True \<Rightarrow>
               let s = archive_suggestion now userId (next_id db) c jobRunId mode
               in (Inr (Some s),
                   snd (createMemoryProvenanceEntry now
                     (consolidation_provenance userId jobRunId c mode
                        memory_provenance_entry_type.CONSOLIDATION_SUGGESTED (Some (s_id s)) None)
                     (insert_suggestion s db))))"

section \<open>Archiving\<close>

definition candidate_status :: "archive_candidate \<Rightarrow> memory_status" where
  "candidate_status c = (if ac_reason c = Reason_expired then memory_status.EXPIRED else memory_status.ARCHIVED)"

definition candidate_metadata :: "archive_candidate \<Rightarrow> ident \<Rightarrow> consolidation_mode \<Rightarrow> audit_metadata" where
  "candidate_metadata c jobRunId mode =
     no_metadata \<lparr> am_memoryId := Some (target_id c), am_canonicalMemoryId := canonical_id c,
       am_canonicalTitle := canonical_title c, am_jobRunId := Some jobRunId,
       am_details := [(''action'', JStr ''archive_memory''), (''reason'', JStr (archive_reason_name (ac_reason c))),
         (''mode'', JStr (mode_name mode))] \<rparr>"

definition archive_write :: "time \<Rightarrow> ident \<Rightarrow> ident \<Rightarrow> archive_candidate \<Rightarrow> consolidation_mode \<Rightarrow> vault \<Rightarrow> ident \<times> vault" where
  "archive_write now userId jobRunId c mode db =
     (let db1 = write_memory now (target_id c) (\<lambda>m. m \<lparr> m_status := candidate_status c \<rparr>) db;
          (eventId, db2) = createAuditEvent now
            (job_event userId jobRunId audit_event_type.MEMORY_ARCHIVED (candidate_metadata c jobRunId mode)
               (consolidationArchiveAuditSubjects c jobRunId audit_subject_role.ARCHIVED)) db1
      in (eventId, snd (createMemoryProvenanceEntry now
            (consolidation_provenance userId jobRunId c mode
               memory_provenance_entry_type.CONSOLIDATION_APPLIED None (Some eventId)) db2)))"

text \<open>\<open>{ archived, auditEventId }\<close>: the event of an archived target.\<close>

definition archiveCandidate ::
  "processing_env \<Rightarrow> time \<Rightarrow> ident \<Rightarrow> ident \<Rightarrow> archive_candidate \<Rightarrow> consolidation_mode \<Rightarrow> vault
     \<Rightarrow> ident option outcome" where
  "archiveCandidate env now userId jobRunId c mode db =
     (case candidateStillValid env now db userId c of
        Inl e \<Rightarrow> (Inl e, db)
      | Inr False \<Rightarrow> (Inr None, db)
      | Inr True \<Rightarrow>
          (case find_row (\<lambda>m. m_id m = target_id c \<and> m_userId m = userId \<and> m_status m = memory_status.ACTIVE)
                  (v_memories db) of
             None \<Rightarrow> (Inr None, db)
           | Some _ \<Rightarrow>
               let (eventId, db1) = archive_write now userId jobRunId c mode db in (Inr (Some eventId), db1)))"

section \<open>What an accepted candidate was\<close>

lemma current_version_row:
  assumes "current_version db userId m = Some a" "distinct (map m_id (v_memories db))"
  shows "memory_row (m_id m) (v_memories db) = Some a" "m_userId a = userId" "m_status a = memory_status.ACTIVE"
    "m_updatedAt a = m_updatedAt m" "m_id a = m_id m"
  using find_row_SomeD[OF assms(1)[unfolded current_version_def]] find_row_unique[OF assms(2), of a]
  by (auto simp: memory_row_def)

text \<open>A live row of an owner, at a version.\<close>

definition live_at :: "vault \<Rightarrow> ident \<Rightarrow> memory \<Rightarrow> memory \<Rightarrow> bool" where
  "live_at db userId seen m =
     (memory_row (m_id seen) (v_memories db) = Some m \<and> m_userId m = userId
      \<and> m_status m = memory_status.ACTIVE \<and> m_updatedAt m = m_updatedAt seen)"

lemma candidateStillValid_true:
  assumes "candidateStillValid env now db userId c = Inr True" "distinct (map m_id (v_memories db))"
  shows "\<exists>target. live_at db userId (ac_memory c) target"
    and "ac_canonical c = Some k \<Longrightarrow>
      \<exists>survivor. live_at db userId k survivor \<and> m_reviewState survivor = review_state.APPROVED \<and> \<not> expired_at now survivor"
    and "ac_processing c = Some note \<Longrightarrow>
      check env db userId Scope_consolidation (pn_processors note) None = Inr ()"
proof -
  have valid: "list_all (version_valid now db userId c) (ac_memory c # (case ac_canonical c of Some k \<Rightarrow> [k] | None \<Rightarrow> []))"
    using assms(1) by (auto simp: candidateStillValid_def split: if_splits)
  have live: "\<exists>a. current_version db userId m = Some a \<and> live_at db userId m a
      \<and> (canonical_id c = Some (m_id m) \<longrightarrow> m_reviewState a = review_state.APPROVED \<and> \<not> expired_at now a)"
    if v: "version_valid now db userId c m" for m
  proof -
    obtain a where a: "current_version db userId m = Some a"
      using v by (auto simp: version_valid_def split: option.splits)
    show ?thesis
      using v current_version_row[OF a assms(2)] by (intro exI[of _ a]) (auto simp: a live_at_def version_valid_def)
  qed
  show "\<exists>target. live_at db userId (ac_memory c) target" using live valid by auto
  show "ac_canonical c = Some k \<Longrightarrow>
      \<exists>survivor. live_at db userId k survivor \<and> m_reviewState survivor = review_state.APPROVED \<and> \<not> expired_at now survivor"
    using live[of k] valid by (auto simp: canonical_id_def)
  show "ac_processing c = Some note \<Longrightarrow> check env db userId Scope_consolidation (pn_processors note) None = Inr ()"
    using assms(1) by (auto simp: candidateStillValid_def split: if_splits sum.splits processing_error.splits)
qed

lemma archiveCandidate_ok:
  assumes "archiveCandidate env now userId jobRunId c mode db = (Inr (Some e), db')"
  shows "candidateStillValid env now db userId c = Inr True" "archive_write now userId jobRunId c mode db = (e, db')"
  using assms by (auto simp: archiveCandidate_def split: sum.splits bool.splits option.splits prod.splits)

lemma archiveCandidate_none:
  "archiveCandidate env now userId jobRunId c mode db = (r, db') \<Longrightarrow> r = Inr None \<or> isl r \<Longrightarrow> db' = db"
  by (auto simp: archiveCandidate_def split: sum.splits bool.splits option.splits prod.splits)

lemma archive_write_tables:
  assumes "archive_write now userId jobRunId c mode db = (e, db')"
  shows "v_memories db' = update_memory (target_id c)
      (\<lambda>m. m \<lparr> m_status := candidate_status c, m_updatedAt := now \<rparr>) (v_memories db)"
    and "v_suggestions db' = v_suggestions db" "v_jobRuns db' = v_jobRuns db" "v_users db' = v_users db"
    and "v_preferences db' = v_preferences db" "v_requests db' = v_requests db"
    and "auditEvents db' = auditEvents db @ [event_row now e
      (job_event userId jobRunId audit_event_type.MEMORY_ARCHIVED (candidate_metadata c jobRunId mode)
         (consolidationArchiveAuditSubjects c jobRunId audit_subject_role.ARCHIVED))]"
    and "\<exists>p. provenanceEntries db' = provenanceEntries db @ [p] \<and> pi_memoryId (pe_input p) = target_id c
      \<and> pi_type (pe_input p) = memory_provenance_entry_type.CONSOLIDATION_APPLIED
      \<and> pi_auditEventId (pe_input p) = Some e"
proof -
  have prov: "provenanceEntries (snd (createMemoryProvenanceEntry now inp d))
      = provenanceEntries d @ [\<lparr> pe_id = next_id d, pe_input = inp, pe_createdAt = now \<rparr>]" for inp d
    by (simp add: createMemoryProvenanceEntry_def Let_def draw_id_def)
  note w = assms[unfolded archive_write_def Let_def split_beta]
  show "v_memories db' = update_memory (target_id c)
      (\<lambda>m. m \<lparr> m_status := candidate_status c, m_updatedAt := now \<rparr>) (v_memories db)"
    and "v_suggestions db' = v_suggestions db" "v_jobRuns db' = v_jobRuns db" "v_users db' = v_users db"
    and "v_preferences db' = v_preferences db" "v_requests db' = v_requests db"
    and "auditEvents db' = auditEvents db @ [event_row now e
      (job_event userId jobRunId audit_event_type.MEMORY_ARCHIVED (candidate_metadata c jobRunId mode)
         (consolidationArchiveAuditSubjects c jobRunId audit_subject_role.ARCHIVED))]"
    using w by (auto simp: audit_simps write_memory_def next_id_def)
  show "\<exists>p. provenanceEntries db' = provenanceEntries db @ [p] \<and> pi_memoryId (pe_input p) = target_id c
      \<and> pi_type (pe_input p) = memory_provenance_entry_type.CONSOLIDATION_APPLIED
      \<and> pi_auditEventId (pe_input p) = Some e"
    using w by (auto simp: prov audit_simps consolidation_provenance_def)
qed

text \<open>C12. An automatic archive happens only to what the run saw.  Whatever other requests did in between,
  an archived target was, at that moment, an active memory of the owner at the version the candidate was
  found at; its survivor, when it has one, was too, and approved and unexpired; the provider a model
  decision came from was still the owner's choice.  Only the target's row changes, in its status and
  \<open>updatedAt\<close>, and one event and one entry of its history record the archive.\<close>

theorem archive_applies_current_candidate:
  assumes "distinct (map m_id (v_memories db))"
    and "archiveCandidate env now userId jobRunId c mode db = (Inr (Some e), db')"
  shows "\<exists>target p. live_at db userId (ac_memory c) target
      \<and> pred_option (\<lambda>k. \<exists>survivor. live_at db userId k survivor \<and> m_reviewState survivor = review_state.APPROVED
            \<and> \<not> expired_at now survivor) (ac_canonical c)
      \<and> pred_option (\<lambda>note. check env db userId Scope_consolidation (pn_processors note) None = Inr ()) (ac_processing c)
      \<and> memory_row (target_id c) (v_memories db')
          = Some (target \<lparr> m_status := candidate_status c, m_updatedAt := now \<rparr>)
      \<and> (\<forall>j. j = target_id c \<or> memory_row j (v_memories db') = memory_row j (v_memories db))
      \<and> map ae_type (drop (length (auditEvents db)) (auditEvents db')) = [audit_event_type.MEMORY_ARCHIVED]
      \<and> provenanceEntries db' = provenanceEntries db @ [p] \<and> pi_memoryId (pe_input p) = target_id c
      \<and> pi_auditEventId (pe_input p) = Some e"
proof -
  note ok = archiveCandidate_ok[OF assms(2)]
  note valid = candidateStillValid_true[OF ok(1) assms(1)] and w = archive_write_tables[OF ok(2)]
  obtain target where t: "live_at db userId (ac_memory c) target" using valid(1) by blast
  obtain p where p: "provenanceEntries db' = provenanceEntries db @ [p]" "pi_memoryId (pe_input p) = target_id c"
    "pi_auditEventId (pe_input p) = Some e" using w(8) by blast
  have key: "\<forall>x. m_id (x \<lparr> m_status := candidate_status c, m_updatedAt := now \<rparr>) = m_id (x :: memory)" by simp
  have self: "memory_row (target_id c) (v_memories db')
      = Some (target \<lparr> m_status := candidate_status c, m_updatedAt := now \<rparr>)"
    using t unfolding w(1) memories.look_change_same[OF key] by (simp add: live_at_def target_id_def)
  have other: "j = target_id c \<or> memory_row j (v_memories db') = memory_row j (v_memories db)" for j
    unfolding w(1) using memories.look_change_other[OF key] by blast
  have ev: "map ae_type (drop (length (auditEvents db)) (auditEvents db')) = [audit_event_type.MEMORY_ARCHIVED]"
    by (simp add: w(7) event_row_def job_event_def)
  have sv: "pred_option (\<lambda>k. \<exists>survivor. live_at db userId k survivor \<and> m_reviewState survivor = review_state.APPROVED
            \<and> \<not> expired_at now survivor) (ac_canonical c)"
    using valid(2) by (cases "ac_canonical c") auto
  have pr: "pred_option (\<lambda>note. check env db userId Scope_consolidation (pn_processors note) None = Inr ()) (ac_processing c)"
    using valid(3) by (cases "ac_processing c") auto
  show ?thesis
    by (rule exI[of _ target], rule exI[of _ p]) (use t sv pr self other ev p in blast)
qed

section \<open>A sample\<close>

definition two_copies :: vault where
  "two_copies = sample_vault \<lparr> v_memories := [sample_memory \<lparr> m_id := ''a'' \<rparr>, sample_memory \<lparr> m_id := ''b'' \<rparr>] \<rparr>"

lemma two_copies_ok:
  "distinct (map m_id (v_memories two_copies))"
  "(case fst (archiveCandidate sample_processing_env 9 ''u1'' ''j1'' (sample_candidate ''a'' ''b'')
      consolidation_mode.AUTO_APPLY two_copies) of Inr (Some e) \<Rightarrow> True | _ \<Rightarrow> False)"
  by code_simp+

lemma archive_applies_current_candidate_witness:
  "\<exists>e db' target. archiveCandidate sample_processing_env 9 ''u1'' ''j1'' (sample_candidate ''a'' ''b'')
        consolidation_mode.AUTO_APPLY two_copies = (Inr (Some e), db')
     \<and> live_at two_copies ''u1'' (ac_memory (sample_candidate ''a'' ''b'')) target
     \<and> memory_row (target_id (sample_candidate ''a'' ''b'')) (v_memories db')
          = Some (target \<lparr> m_status := candidate_status (sample_candidate ''a'' ''b''), m_updatedAt := 9 \<rparr>)"
proof -
  obtain e db' where r: "archiveCandidate sample_processing_env 9 ''u1'' ''j1'' (sample_candidate ''a'' ''b'')
        consolidation_mode.AUTO_APPLY two_copies = (Inr (Some e), db')"
    using two_copies_ok(2)
    by (cases "archiveCandidate sample_processing_env 9 ''u1'' ''j1'' (sample_candidate ''a'' ''b'')
        consolidation_mode.AUTO_APPLY two_copies") (auto split: sum.splits option.splits)
  show ?thesis
    using r archive_applies_current_candidate[OF two_copies_ok(1) r] by blast
qed

end
