(* ===== verification/ConsolidationRun.thy ===== *)
theory ConsolidationRun
  imports Judgment ConsolidationWriter
begin

text \<open>
  A consolidation run (\<open>consolidation-orchestrator.service.ts\<close>) and its job
  (\<open>consolidation-job.service.ts\<close>).  A run reads and writes in several transactions; the clock gives
  the instants of its steps, and the run finds the vault as its own previous step left it.  What a
  change by another request between two steps can do is the subject of \<open>ConsolidationWriter\<close>, whose
  functions take any vault.
\<close>

section \<open>Environment\<close>

record 'v run_env =
  rn_judge :: judge_env
  rn_discovery :: "'v consolidation_env"
  rn_cron :: string

record run_clock =
  ck_create :: time
  ck_begin :: time
  ck_start :: time
  ck_judge :: time
  ck_write :: "nat \<Rightarrow> time"
  ck_finish :: time

definition rn_processing :: "'v run_env \<Rightarrow> processing_env" where
  "rn_processing env = je_processing (rn_judge env)"

section \<open>The configuration as JSON\<close>

definition configuration_json :: "processing_configuration \<Rightarrow> json" where
  "configuration_json c =
     JObj [(''rubric'', JStr (pf_rubric c)), (''extraction'', extraction_json (pf_extraction c)),
       (''consolidation'', consolidation_json (pf_consolidation c)), (''fingerprint'', JStr (pf_fingerprint c)),
       (''extractionFingerprint'', JStr (pf_extractionFingerprint c))]"

definition json_field :: "json \<Rightarrow> string \<Rightarrow> json option" where
  "json_field j key = (case j of JObj kvs \<Rightarrow> map_of kvs key | _ \<Rightarrow> None)"

definition str_field :: "json \<Rightarrow> string \<Rightarrow> string option" where
  "str_field j key = (case json_field j key of Some (JStr s) \<Rightarrow> Some s | _ \<Rightarrow> None)"

definition nat_field :: "json \<Rightarrow> string \<Rightarrow> nat option" where
  "nat_field j key = (case json_field j key of Some (JNum r) \<Rightarrow> Some (nat \<lfloor>r\<rfloor>) | _ \<Rightarrow> None)"

definition bool_field :: "json \<Rightarrow> string \<Rightarrow> bool option" where
  "bool_field j key = (case json_field j key of Some (JBool b) \<Rightarrow> Some b | _ \<Rightarrow> None)"

definition json_text :: "json \<Rightarrow> string option" where
  "json_text j = (case j of JStr s \<Rightarrow> Some s | _ \<Rightarrow> None)"

definition strings_field :: "json \<Rightarrow> string \<Rightarrow> string list option" where
  "strings_field j key =
     (case json_field j key of Some (JArr vs) \<Rightarrow> those (map json_text vs) | _ \<Rightarrow> None)"

definition write_mode_of :: "string \<Rightarrow> write_mode option" where
  "write_mode_of s = (if s = ''policy'' then Some Write_policy else if s = ''review'' then Some Write_review else None)"

definition apply_mode_of :: "string \<Rightarrow> apply_mode option" where
  "apply_mode_of s =
     (if s = ''user_setting'' then Some Apply_user_setting else if s = ''review'' then Some Apply_review else None)"

definition sensitivity_of_name :: "string \<Rightarrow> memory_sensitivity option" where
  "sensitivity_of_name s =
     find_row (\<lambda>v. sensitivity_name v = s)
       [memory_sensitivity.PUBLIC, memory_sensitivity.LOW, memory_sensitivity.INTERNAL,
        memory_sensitivity.SENSITIVE, memory_sensitivity.RESTRICTED, memory_sensitivity.SECRET]"

definition extraction_of_json :: "json \<Rightarrow> extraction_task option" where
  "extraction_of_json j =
     Option.bind (Option.bind (str_field j ''system'') system_of_name) (\<lambda>sys.
     Option.bind (str_field j ''model'') (\<lambda>model.
     Option.bind (str_field j ''normalizationModel'') (\<lambda>norm.
     Option.bind (nat_field j ''timeoutMs'') (\<lambda>timeout.
     Option.bind (Option.bind (str_field j ''writeMode'') write_mode_of) (\<lambda>mode.
     Option.bind (strings_field j ''processors'') (\<lambda>processors.
     Option.bind (bool_field j ''available'') (\<lambda>available.
       Some \<lparr> et_system = sys, et_model = model, et_normalizationModel = norm, et_timeoutMs = timeout,
              et_writeMode = mode, et_processors = processors, et_available = available \<rparr>)))))))"

definition consolidation_of_json :: "json \<Rightarrow> consolidation_task option" where
  "consolidation_of_json j =
     Option.bind (Option.bind (str_field j ''system'') system_of_name) (\<lambda>sys.
     Option.bind (str_field j ''model'') (\<lambda>model.
     Option.bind (nat_field j ''timeoutMs'') (\<lambda>timeout.
     Option.bind (Option.bind (str_field j ''applyMode'') apply_mode_of) (\<lambda>mode.
     Option.bind (Option.bind (str_field j ''maxSensitivity'') sensitivity_of_name) (\<lambda>maximum.
     Option.bind (strings_field j ''processors'') (\<lambda>processors.
     Option.bind (bool_field j ''available'') (\<lambda>available.
       Some \<lparr> ct_system = sys, ct_model = model, ct_timeoutMs = timeout, ct_applyMode = mode,
              ct_maxSensitivity = maximum, ct_processors = processors, ct_available = available \<rparr>)))))))"

text \<open>\<open>previous.configuration as ProcessingConfiguration\<close>: the values this program stores are of that
  form, so the reading of any other value is left open.\<close>

definition configuration_of_json :: "json \<Rightarrow> processing_configuration option" where
  "configuration_of_json j =
     Option.bind (str_field j ''rubric'') (\<lambda>rubric.
     Option.bind (Option.bind (json_field j ''extraction'') extraction_of_json) (\<lambda>extraction.
     Option.bind (Option.bind (json_field j ''consolidation'') consolidation_of_json) (\<lambda>consolidation.
     Option.bind (str_field j ''fingerprint'') (\<lambda>fp.
     Option.bind (str_field j ''extractionFingerprint'') (\<lambda>efp.
       Some \<lparr> pf_rubric = rubric, pf_extraction = extraction, pf_consolidation = consolidation,
              pf_fingerprint = fp, pf_extractionFingerprint = efp \<rparr>)))))"

lemma those_map_Some [simp]: "those (map (\<lambda>x. Some (f x)) xs) = Some (map f xs)"
  by (induction xs) auto

lemma json_strings_read [simp]: "strings_field (JObj kvs) key = Some vs"
  if "map_of kvs key = Some (json_strings vs)"
  using that by (simp add: strings_field_def json_field_def json_strings_def comp_def json_text_def)

lemma write_mode_of_name [simp]: "write_mode_of (write_mode_name w) = Some w"
  by (cases w) (simp_all add: write_mode_of_def)

lemma apply_mode_of_name [simp]: "apply_mode_of (apply_mode_name a) = Some a"
  by (cases a) (simp_all add: apply_mode_of_def)

lemma sensitivity_of_sensitivity_name [simp]: "sensitivity_of_name (sensitivity_name s) = Some s"
  by (cases s) (simp_all add: sensitivity_of_name_def)

lemma task_roundtrip [simp]:
  "extraction_of_json (extraction_json t) = Some t" "consolidation_of_json (consolidation_json u) = Some u"
  by (simp_all add: extraction_of_json_def extraction_json_def consolidation_of_json_def consolidation_json_def
      str_field_def nat_field_def bool_field_def json_field_def)

lemma configuration_decodes [simp]: "configuration_of_json (configuration_json c) = Some c"
  by (simp add: configuration_of_json_def configuration_json_def str_field_def json_field_def)

text \<open>The configuration a job stores is the configuration a later attempt reads: its JSON decodes to
  the same provider, processors, limits and fingerprints.\<close>

theorem configuration_roundtrip: "configuration_of_json (configuration_json c) = Some c"
  by (rule configuration_decodes)

section \<open>Sources\<close>

text \<open>The recorded versions: an array of objects with an id and a version.\<close>

definition source_version_json :: "memory \<Rightarrow> json" where
  "source_version_json m = JObj [(''id'', JStr (m_id m)), (''version'', JTime (m_updatedAt m))]"

definition original_sources :: "(string \<times> json) list \<Rightarrow> json list option" where
  "original_sources previous = (case map_of previous ''sourceVersions'' of Some (JArr vs) \<Rightarrow> Some vs | _ \<Rightarrow> None)"

definition same_source :: "memory \<Rightarrow> json \<Rightarrow> bool" where
  "same_source m s =
     (json_field s ''id'' = Some (JStr (m_id m)) \<and> json_field s ''version'' = Some (JTime (m_updatedAt m)))"

definition recent_sources :: "vault \<Rightarrow> ident \<Rightarrow> time \<Rightarrow> json list option \<Rightarrow> memory list" where
  "recent_sources db userId cutoff original =
     (case original of
        None \<Rightarrow> findRecentConsolidationMemories db userId cutoff
      | Some sources \<Rightarrow>
          filter (\<lambda>m. m_status m = memory_status.ACTIVE \<and> list_ex (same_source m) sources)
            (findMemoriesByIds db userId (List.map_filter (\<lambda>s. str_field s ''id'') sources)))"

section \<open>The actions of a run\<close>

text \<open>\<open>ConsolidationActionSummary\<close>\<close>

record action_summary =
  as_candidate :: archive_candidate
  as_suggestionId :: "ident option"
  as_auditEventId :: "ident option"
  as_applied :: bool
  as_mode :: consolidation_mode

record run_state =
  rs_suggestions :: "ident list"
  rs_applied :: "ident list"
  rs_actions :: "action_summary list"
  rs_queued :: "ident list"

definition archives_directly :: "consolidation_mode \<Rightarrow> processing_configuration \<Rightarrow> archive_candidate \<Rightarrow> bool" where
  "archives_directly mode c cand =
     (mode = consolidation_mode.AUTO_APPLY
      \<and> \<not> (ac_processing cand \<noteq> None \<and> ct_applyMode (pf_consolidation c) = Apply_review))"

definition toConsolidationActionSummary ::
  "archive_candidate \<Rightarrow> consolidation_mode \<Rightarrow> bool \<Rightarrow> ident option \<Rightarrow> ident option \<Rightarrow> action_summary" where
  "toConsolidationActionSummary cand mode applied suggestionId auditEventId =
     \<lparr> as_candidate = cand, as_suggestionId = suggestionId, as_auditEventId = auditEventId,
       as_applied = applied, as_mode = mode \<rparr>"

definition act ::
  "processing_env \<Rightarrow> time \<Rightarrow> ident \<Rightarrow> ident \<Rightarrow> consolidation_mode \<Rightarrow> processing_configuration \<Rightarrow> archive_candidate
     \<Rightarrow> run_state \<Rightarrow> vault \<Rightarrow> run_state outcome" where
  "act env now userId jobRunId mode c cand st db =
     (if archives_directly mode c cand
      then (case archiveCandidate env now userId jobRunId cand mode db of
              (Inl e, db1) \<Rightarrow> (Inl e, db1)
            | (Inr None, db1) \<Rightarrow> (Inr st, db1)
            | (Inr (Some eventId), db1) \<Rightarrow>
                (Inr (st \<lparr> rs_applied := rs_applied st @ [target_id cand],
                           rs_actions := rs_actions st
                             @ [toConsolidationActionSummary cand mode True None (Some eventId)] \<rparr>), db1))
      else (case createArchiveSuggestion env now userId jobRunId cand mode (rs_queued st) db of
              (Inl e, db1) \<Rightarrow> (Inl e, db1)
            | (Inr None, db1) \<Rightarrow> (Inr st, db1)
            | (Inr (Some s), db1) \<Rightarrow>
                (Inr (st \<lparr> rs_suggestions := rs_suggestions st @ [s_id s],
                           rs_queued := rs_queued st @ [target_id cand],
                           rs_actions := rs_actions st
                             @ [toConsolidationActionSummary cand mode False (Some (s_id s)) None] \<rparr>), db1)))"

fun act_all ::
  "processing_env \<Rightarrow> (nat \<Rightarrow> time) \<Rightarrow> ident \<Rightarrow> ident \<Rightarrow> consolidation_mode \<Rightarrow> processing_configuration \<Rightarrow> nat
     \<Rightarrow> archive_candidate list \<Rightarrow> run_state \<Rightarrow> vault \<Rightarrow> run_state outcome" where
  "act_all env clock userId jobRunId mode c n [] st db = (Inr st, db)"
| "act_all env clock userId jobRunId mode c n (cand # cands) st db =
     (case act env (clock n) userId jobRunId mode c cand st db of
        (Inl e, db1) \<Rightarrow> (Inl e, db1)
      | (Inr st1, db1) \<Rightarrow> act_all env clock userId jobRunId mode c (n + 1) cands st1 db1)"

section \<open>Bookkeeping\<close>

text \<open>\<open>markMemoriesConsolidated\<close> and the inspection mark: raw updates that leave \<open>updatedAt\<close>.\<close>

definition markMemoriesConsolidated :: "ident \<Rightarrow> ident list \<Rightarrow> time \<Rightarrow> vault \<Rightarrow> vault" where
  "markMemoriesConsolidated userId ids consolidatedAt db =
     db \<lparr> v_memories := update_where (\<lambda>m. m_userId m = userId \<and> m_id m \<in> set ids)
            (\<lambda>m. m \<lparr> m_lastConsolidatedAt := Some consolidatedAt \<rparr>) (v_memories db) \<rparr>"

definition mark_inspected :: "ident \<Rightarrow> time \<Rightarrow> memory \<Rightarrow> vault \<Rightarrow> vault" where
  "mark_inspected userId startedAt memory db =
     db \<lparr> v_memories := update_where (\<lambda>m. m_id m = m_id memory \<and> m_userId m = userId
              \<and> m_consolidationRelevantAt m = m_consolidationRelevantAt memory)
            (\<lambda>m. m \<lparr> m_semanticInspectedAt := Some startedAt \<rparr>) (v_memories db) \<rparr>"

section \<open>ConsolidationOrchestratorService\<close>

record run_result =
  rr_configuration :: processing_configuration
  rr_sourceVersions :: "json list"
  rr_semantic :: judging
  rr_jobRunId :: ident
  rr_mode :: consolidation_mode
  rr_inspectedMemories :: nat
  rr_recentMemoryCount :: nat
  rr_expiredMemoryCount :: nat
  rr_candidateCount :: nat
  rr_suggestionIds :: "ident list"
  rr_appliedMemoryIds :: "ident list"
  rr_actions :: "action_summary list"

definition partial_judging :: "string \<Rightarrow> judging \<Rightarrow> judging" where
  "partial_judging reason r = r \<lparr> jg_status := Judged_partial, jg_reason := Some reason \<rparr>"

definition run_configuration ::
  "'v run_env \<Rightarrow> vault \<Rightarrow> ident \<Rightarrow> (string \<times> json) list \<Rightarrow> error + processing_configuration" where
  "run_configuration env db userId previous =
     (case map_of previous ''configuration'' of
        None \<Rightarrow> forUser (rn_processing env) db userId
      | Some JNull \<Rightarrow> forUser (rn_processing env) db userId
      | Some j \<Rightarrow> (case configuration_of_json j of
                     Some c \<Rightarrow> Inr c | None \<Rightarrow> Inl (Internal ''not a configuration'')))"

definition steady :: "vault \<Rightarrow> views" where
  "steady db = \<lparr> vw_start = db, vw_batch = (\<lambda>_ _. db), vw_end = db \<rparr>"

text \<open>The candidates of a run, deduplicated.\<close>

definition run_candidates ::
  "'v run_env \<Rightarrow> time \<Rightarrow> vault \<Rightarrow> ident \<Rightarrow> memory list \<Rightarrow> memory list \<Rightarrow> judging \<Rightarrow> archive_candidate list" where
  "run_candidates env startedAt db userId expired recent semantic =
     dedupeCandidates (findExpiredCandidates (rn_discovery env) expired startedAt
       @ findDuplicateCandidates (rn_discovery env) db userId recent @ jg_candidates semantic)"

definition queued_targets :: "vault \<Rightarrow> ident \<Rightarrow> consolidation_mode \<Rightarrow> processing_configuration \<Rightarrow> ident list" where
  "queued_targets db userId mode c =
     (if mode = consolidation_mode.REVIEW_ONLY \<or> ct_applyMode (pf_consolidation c) = Apply_review
      then findQueuedArchiveSuggestionTargetIds db userId else [])"

text \<open>The last transaction: the inspected sources are marked while the provider is the one that ran.\<close>

definition finish_semantic ::
  "'v run_env \<Rightarrow> time \<Rightarrow> ident \<Rightarrow> processing_configuration \<Rightarrow> memory list \<Rightarrow> judging \<Rightarrow> vault \<Rightarrow> judging outcome" where
  "finish_semantic env startedAt userId c recent semantic db =
     (case forUser (rn_processing env) db userId of
        Inl e \<Rightarrow> (Inl e, db)
      | Inr current \<Rightarrow>
          if ct_system (pf_consolidation current) \<noteq> ct_system (pf_consolidation c)
          then (Inr (partial_judging ''processing_provider_changed'' semantic), db)
          else (Inr semantic, fold (mark_inspected userId startedAt)
                  (filter (\<lambda>m. m_id m \<in> set (jg_completedSourceIds semantic)) recent) db))"

definition consolidate ::
  "'v run_env \<Rightarrow> run_clock \<Rightarrow> ident \<Rightarrow> ident \<Rightarrow> consolidation_mode \<Rightarrow> processing_configuration
     \<Rightarrow> json list option \<Rightarrow> memory list \<Rightarrow> memory list \<Rightarrow> vault \<Rightarrow> run_result outcome" where
  "consolidate env ck userId jobRunId mode c original recent expired db =
     (let judged = judge (rn_judge env) (rn_discovery env) (ck_judge ck) userId recent c (steady db);
          semantic = (if original \<noteq> None \<and> length (the original) \<noteq> length recent
                      then partial_judging ''source_versions_changed'' judged else judged);
          candidates = run_candidates env (ck_start ck) db userId expired recent semantic;
          inspected = js_unique (map m_id recent @ map m_id expired @ map target_id candidates)
      in case act_all (rn_processing env) (ck_write ck) userId jobRunId mode c 0 candidates
                \<lparr> rs_suggestions = [], rs_applied = [], rs_actions = [], rs_queued = queued_targets db userId mode c \<rparr> db of
           (Inl e, db1) \<Rightarrow> (Inl e, db1)
         | (Inr st, db1) \<Rightarrow>
             (case finish_semantic env (ck_start ck) userId c recent semantic
                     (markMemoriesConsolidated userId inspected (ck_start ck) db1) of
                (Inl e, db2) \<Rightarrow> (Inl e, db2)
              | (Inr semantic', db2) \<Rightarrow>
                  (Inr \<lparr> rr_configuration = c,
                         rr_sourceVersions = (case original of Some s \<Rightarrow> s | None \<Rightarrow> map source_version_json recent),
                         rr_semantic = semantic', rr_jobRunId = jobRunId, rr_mode = mode,
                         rr_inspectedMemories = length inspected, rr_recentMemoryCount = length recent,
                         rr_expiredMemoryCount = length expired, rr_candidateCount = length candidates,
                         rr_suggestionIds = rs_suggestions st, rr_appliedMemoryIds = rs_applied st,
                         rr_actions = rs_actions st \<rparr>, db2)))"

definition owner_row :: "vault \<Rightarrow> ident \<Rightarrow> vault_user option" where
  "owner_row db userId = find_row (\<lambda>u. u_id u = userId) (v_users db)"

definition job_row :: "vault \<Rightarrow> ident \<Rightarrow> job_run option" where
  "job_row db i = find_row (\<lambda>j. j_id j = i) (v_jobRuns db)"

definition runConsolidation :: "'v run_env \<Rightarrow> run_clock \<Rightarrow> ident \<Rightarrow> ident \<Rightarrow> vault \<Rightarrow> run_result outcome" where
  "runConsolidation env ck userId jobRunId db =
     (case owner_row db userId of
        None \<Rightarrow> (Inl (Internal ''No record was found for a query.''), db)
      | Some user \<Rightarrow>
          let previous = (case find_row (\<lambda>j. j_id j = jobRunId \<and> j_userId j = userId) (v_jobRuns db) of
                            Some j \<Rightarrow> j_metadata j | None \<Rightarrow> []);
              original = original_sources previous;
              recent = recent_sources db userId
                (ck_start ck - recentConsolidationWindowHours * 60 * 60 * 1000) original;
              expired = findExpiredConsolidationMemories db userId (ck_start ck);
              sourceVersions = (case original of Some s \<Rightarrow> s | None \<Rightarrow> map source_version_json recent)
          in case run_configuration env db userId previous of
               Inl e \<Rightarrow> (Inl e, db)
             | Inr c \<Rightarrow>
                 if job_row db jobRunId = None
                 then (Inl (Internal ''No record was found for an update.''), db)
                 else consolidate env ck userId jobRunId (u_consolidationMode user) c original recent expired
                        (write_job (ck_start ck) jobRunId (\<lambda>j. j \<lparr> j_metadata := spread previous
                           [(''sourceVersions'', JArr sourceVersions), (''configuration'', configuration_json c)] \<rparr>) db))"

section \<open>What a run does to the memories\<close>

text \<open>How a run may change a memory: its bookkeeping columns, and the status of an active one.\<close>

definition evolved :: "memory \<Rightarrow> memory \<Rightarrow> bool" where
  "evolved m m' =
     (m' = m \<lparr> m_status := m_status m', m_updatedAt := m_updatedAt m', m_lastConsolidatedAt := m_lastConsolidatedAt m',
               m_semanticInspectedAt := m_semanticInspectedAt m' \<rparr>
      \<and> (m_status m' = m_status m \<and> m_updatedAt m' = m_updatedAt m
         \<or> m_status m = memory_status.ACTIVE \<and> m_status m' \<in> {memory_status.ARCHIVED, memory_status.EXPIRED}))"

definition memories_evolve :: "memory list \<Rightarrow> memory list \<Rightarrow> bool" where
  "memories_evolve ms ms' = list_all2 evolved ms ms'"

lemma evolved_refl [simp]: "evolved m m"
  by (simp add: evolved_def)

lemma evolved_trans: "evolved a b \<Longrightarrow> evolved b c \<Longrightarrow> evolved a c"
  unfolding evolved_def by (cases a; cases b; cases c) auto

lemma memories_evolve_refl [simp]: "memories_evolve ms ms"
  by (simp add: memories_evolve_def list.rel_refl)

lemma memories_evolve_trans: "memories_evolve a b \<Longrightarrow> memories_evolve b c \<Longrightarrow> memories_evolve a c"
  unfolding memories_evolve_def by (rule list_all2_trans[OF evolved_trans])

lemma evolves_update_where:
  "(\<And>m. m \<in> set ms \<Longrightarrow> P m \<Longrightarrow> evolved m (f m)) \<Longrightarrow> memories_evolve ms (update_where P f ms)"
  by (induction ms) (auto simp: memories_evolve_def)

lemma evolved_key: "evolved m m' \<Longrightarrow> m_id m' = m_id m"
  unfolding evolved_def by (cases m; cases m') auto

lemma evolves_keys: "memories_evolve ms ms' \<Longrightarrow> map m_id ms' = map m_id ms"
  unfolding memories_evolve_def by (induction ms ms' rule: list_all2_induct) (auto dest: evolved_key)

lemma archiveCandidate_evolves:
  assumes "archiveCandidate env now userId jobRunId c mode db = (r, db')" "distinct (map m_id (v_memories db))"
  shows "memories_evolve (v_memories db) (v_memories db')"
proof (cases r)
  case (Inr v)
  show ?thesis
  proof (cases v)
    case (Some e)
    note ok = archiveCandidate_ok[OF assms(1)[unfolded Inr Some]]
    obtain target where t: "live_at db userId (ac_memory c) target"
      using candidateStillValid_true(1)[OF ok(1) assms(2)] by blast
    have "evolved m (m \<lparr> m_status := candidate_status c, m_updatedAt := now \<rparr>)"
      if "m \<in> set (v_memories db)" "m_id m = target_id c" for m
    proof -
      have "m = target"
        using t find_row_unique[OF assms(2) that(1)] that(2) by (simp add: live_at_def memory_row_def target_id_def)
      then show ?thesis using t by (simp add: evolved_def live_at_def candidate_status_def)
    qed
    then show ?thesis
      unfolding archive_write_tables(1)[OF ok(2)] update_memory_def by (rule evolves_update_where)
  qed (use archiveCandidate_none[OF assms(1)] Inr in simp)
qed (use archiveCandidate_none[OF assms(1)] in simp)

lemma createArchiveSuggestion_memories:
  "createArchiveSuggestion env now userId jobRunId c mode queued db = (r, db') \<Longrightarrow> v_memories db' = v_memories db"
  by (auto simp: createArchiveSuggestion_def Let_def insert_suggestion_def draw_id_def audit_simps
      split: if_splits sum.splits bool.splits)

lemma act_evolves:
  assumes "act env now userId jobRunId mode c cand st db = (r, db')" "distinct (map m_id (v_memories db))"
  shows "memories_evolve (v_memories db) (v_memories db')"
    and "mode = consolidation_mode.REVIEW_ONLY \<Longrightarrow> v_memories db' = v_memories db"
proof -
  have arch: "archiveCandidate env now userId jobRunId cand mode db = (x, d) \<Longrightarrow> memories_evolve (v_memories db) (v_memories d)" for x d
    using archiveCandidate_evolves assms(2) by blast
  have sug: "createArchiveSuggestion env now userId jobRunId cand mode (rs_queued st) db = (x, d) \<Longrightarrow>
      v_memories d = v_memories db" for x d
    by (rule createArchiveSuggestion_memories)
  show "memories_evolve (v_memories db) (v_memories db')"
    using assms(1) by (auto simp: act_def dest!: arch sug split: if_splits prod.splits sum.splits option.splits)
  show "mode = consolidation_mode.REVIEW_ONLY \<Longrightarrow> v_memories db' = v_memories db"
    using assms(1) by (auto simp: act_def archives_directly_def dest!: createArchiveSuggestion_memories split: if_splits prod.splits sum.splits option.splits)
qed

lemma act_all_evolves:
  assumes "act_all env clock userId jobRunId mode c n cands st db = (r, db')" "distinct (map m_id (v_memories db))"
  shows "memories_evolve (v_memories db) (v_memories db')
    \<and> (mode = consolidation_mode.REVIEW_ONLY \<longrightarrow> v_memories db' = v_memories db)"
  using assms
proof (induction cands arbitrary: n st db)
  case (Cons cand cands)
  obtain r1 db1 where a: "act env (clock n) userId jobRunId mode c cand st db = (r1, db1)" by fastforce
  note ev = act_evolves[OF a Cons.prems(2)]
  show ?case
  proof (cases r1)
    case (Inl e)
    then show ?thesis using Cons.prems(1) a ev by simp
  next
    case (Inr st1)
    then have "act_all env clock userId jobRunId mode c (n + 1) cands st1 db1 = (r, db')" using Cons.prems(1) a by simp
    moreover have "distinct (map m_id (v_memories db1))" using evolves_keys[OF ev(1)] Cons.prems(2) by simp
    ultimately show ?thesis using Cons.IH ev memories_evolve_trans by metis
  qed
qed simp

text \<open>Bookkeeping.\<close>

definition booked :: "memory \<Rightarrow> memory \<Rightarrow> bool" where
  "booked m m' =
     (m' = m \<lparr> m_lastConsolidatedAt := m_lastConsolidatedAt m', m_semanticInspectedAt := m_semanticInspectedAt m' \<rparr>)"

lemma booked_refl [simp]: "booked m m"
  by (simp add: booked_def)

lemma booked_trans: "booked a b \<Longrightarrow> booked b c \<Longrightarrow> booked a c"
  unfolding booked_def by (cases a; cases b; cases c) auto

lemma booked_evolved: "booked m m' \<Longrightarrow> evolved m m'"
  unfolding booked_def evolved_def by (cases m; cases m') auto

definition books :: "memory list \<Rightarrow> memory list \<Rightarrow> bool" where
  "books ms ms' = list_all2 booked ms ms'"

lemma books_refl [simp]: "books ms ms"
  by (simp add: books_def list.rel_refl)

lemma books_trans: "books a b \<Longrightarrow> books b c \<Longrightarrow> books a c"
  unfolding books_def by (rule list_all2_trans[OF booked_trans])

lemma books_evolves: "books ms ms' \<Longrightarrow> memories_evolve ms ms'"
  unfolding books_def memories_evolve_def using list_all2_mono[of booked ms ms' evolved] booked_evolved by blast

lemma booked_update_where:
  "(\<And>m. booked m (f m)) \<Longrightarrow> books ms (update_where P f ms)"
  by (induction ms) (auto simp: books_def)

lemma booked_mark: "books (v_memories db) (v_memories (markMemoriesConsolidated userId ids t db))"
  by (simp add: markMemoriesConsolidated_def booked_update_where booked_def)

lemma booked_inspected: "books (v_memories db) (v_memories (fold (mark_inspected userId t) ms db))"
proof (induction ms arbitrary: db)
  case (Cons m ms)
  have "books (v_memories db) (v_memories (mark_inspected userId t m db))"
    by (simp add: mark_inspected_def booked_update_where booked_def)
  then show ?case using books_trans Cons[of "mark_inspected userId t m db"] by simp
qed simp

lemma booked_finish:
  "finish_semantic env startedAt userId c recent semantic db = (r, db') \<Longrightarrow> books (v_memories db) (v_memories db')"
  by (auto simp: finish_semantic_def booked_inspected split: sum.splits if_splits)

lemma consolidate_memories:
  assumes "consolidate env ck userId jobRunId mode c original recent expired db = (r, db')"
  obtains cands st0 r1 db1 where
    "act_all (rn_processing env) (ck_write ck) userId jobRunId mode c 0 cands st0 db = (r1, db1)"
    "books (v_memories db1) (v_memories db')"
proof -
  define judged where "judged = judge (rn_judge env) (rn_discovery env) (ck_judge ck) userId recent c (steady db)"
  define semantic where "semantic = (if original \<noteq> None \<and> length (the original) \<noteq> length recent
                      then partial_judging ''source_versions_changed'' judged else judged)"
  define candidates where "candidates = run_candidates env (ck_start ck) db userId expired recent semantic"
  define inspected where "inspected = js_unique (map m_id recent @ map m_id expired @ map target_id candidates)"
  define st0 where "st0 = \<lparr> rs_suggestions = [], rs_applied = [], rs_actions = [], rs_queued = queued_targets db userId mode c \<rparr>"
  obtain r1 db1 where a: "act_all (rn_processing env) (ck_write ck) userId jobRunId mode c 0 candidates st0 db = (r1, db1)"
    by fastforce
  note run = assms[unfolded consolidate_def Let_def, folded judged_def, folded semantic_def, folded candidates_def,
      folded inspected_def, folded st0_def, unfolded a]
  have "books (v_memories db1) (v_memories db')"
  proof (cases r1)
    case (Inl e)
    then show ?thesis using run by simp
  next
    case (Inr st)
    obtain r2 db2 where f: "finish_semantic env (ck_start ck) userId c recent semantic
        (markMemoriesConsolidated userId inspected (ck_start ck) db1) = (r2, db2)" by fastforce
    have "db' = db2" using run Inr f by (auto split: sum.splits)
    then show ?thesis
      using books_trans[OF booked_mark booked_finish[OF f]] by simp
  qed
  with a show thesis by (rule that)
qed

lemma runConsolidation_cases:
  assumes "runConsolidation env ck userId jobRunId db = (r, db')"
  obtains (early) "db' = db" "\<exists>e. r = Inl e"
    | (run) user c original recent expired db0 where "owner_row db userId = Some user"
      "consolidate env ck userId jobRunId (u_consolidationMode user) c original recent expired db0 = (r, db')"
      "v_memories db0 = v_memories db" "v_suggestions db0 = v_suggestions db" "v_users db0 = v_users db"
  using assms by (auto simp: runConsolidation_def Let_def write_job_def split: option.splits sum.splits if_splits)

text \<open>C26. A consolidation run never rewrites a memory.  Whatever its outcome, success or exception, every
  memory is still there, in place, with the same content, owner, sensitivity, review state and history
  of sources; only the run's bookkeeping columns change, and the status of memories that were active,
  to ARCHIVED or EXPIRED.  In review-only mode no status and no \<open>updatedAt\<close> changes.\<close>

theorem run_keeps_content:
  assumes "distinct (map m_id (v_memories db))" "runConsolidation env ck userId jobRunId db = (r, db')"
  shows "memories_evolve (v_memories db) (v_memories db')
    \<and> (map_option u_consolidationMode (owner_row db userId) = Some consolidation_mode.REVIEW_ONLY
        \<longrightarrow> books (v_memories db) (v_memories db'))"
  using assms(2)
proof (cases rule: runConsolidation_cases)
  case early
  then show ?thesis by simp
next
  case (run user c original recent expired db0)
  obtain cands st0 r1 db1 where
    a: "act_all (rn_processing env) (ck_write ck) userId jobRunId (u_consolidationMode user) c 0 cands st0 db0 = (r1, db1)"
    and b: "books (v_memories db1) (v_memories db')"
    using run(2) by (rule consolidate_memories)
  note ev = act_all_evolves[OF a, unfolded run(3), OF assms(1)]
  have "memories_evolve (v_memories db1) (v_memories db')"
    by (rule books_evolves[OF b])
  then have "memories_evolve (v_memories db) (v_memories db')" using ev memories_evolve_trans by blast
  moreover have "books (v_memories db) (v_memories db')" if "u_consolidationMode user = consolidation_mode.REVIEW_ONLY"
    using ev b that by simp
  ultimately show ?thesis using run(1) by simp
qed

section \<open>Survivors\<close>

text \<open>No candidate of a run is archived for itself or for another candidate of the run.\<close>

lemma findExpiredCandidates_elem: "x \<in> set (findExpiredCandidates env ms now) \<Longrightarrow> ac_canonical x = None"
  by (auto simp: findExpiredCandidates_def)

lemma run_candidates_apart:
  assumes judged: "\<forall>x\<in>set (jg_candidates semantic). canonical_id x \<noteq> Some (target_id x)"
    and "x \<in> set (run_candidates env startedAt db userId expired recent semantic)"
    and "y \<in> set (run_candidates env startedAt db userId expired recent semantic)"
  shows "canonical_id x \<noteq> Some (target_id y)"
proof (cases "target_id x = target_id y")
  case True
  have "x \<in> set (findExpiredCandidates (rn_discovery env) expired startedAt)
      \<or> x \<in> set (findDuplicateCandidates (rn_discovery env) db userId recent) \<or> x \<in> set (jg_candidates semantic)"
    using assms(2) dedupe_subset unfolding run_candidates_def by fastforce
  then have "canonical_id x \<noteq> Some (target_id x)"
  proof (elim disjE)
    assume "x \<in> set (findDuplicateCandidates (rn_discovery env) db userId recent)"
    then have "proper_duplicate (rn_discovery env) db userId recent x" by (rule findDuplicateCandidates_elem)
    then obtain canonical d where "x = duplicate_candidate canonical d" "m_id d \<noteq> m_id canonical"
      unfolding proper_duplicate_def by blast
    then show ?thesis by (auto simp: duplicate_candidate_def canonical_id_def target_id_def)
  qed (use judged in \<open>auto simp: canonical_id_def dest: findExpiredCandidates_elem\<close>)
  then show ?thesis using True by simp
next
  case False
  then show ?thesis using dedupe_apart assms(2,3) unfolding run_candidates_def by blast
qed

definition survives :: "vault \<Rightarrow> ident \<Rightarrow> archive_candidate \<Rightarrow> bool" where
  "survives db userId c =
     pred_option (\<lambda>k. \<exists>m. memory_row (m_id k) (v_memories db) = Some m \<and> m_userId m = userId
       \<and> m_status m = memory_status.ACTIVE \<and> m_reviewState m = review_state.APPROVED) (ac_canonical c)"

definition applied_survive :: "vault \<Rightarrow> ident \<Rightarrow> archive_candidate list \<Rightarrow> run_state \<Rightarrow> bool" where
  "applied_survive db userId cands st =
     (\<forall>a\<in>set (rs_actions st). as_applied a \<longrightarrow> as_candidate a \<in> set cands \<and> survives db userId (as_candidate a))"

lemma applied_survive_same:
  "v_memories db' = v_memories db \<Longrightarrow> applied_survive db userId cands st \<Longrightarrow> applied_survive db' userId cands st"
  by (auto simp: applied_survive_def survives_def)

lemma survives_other:
  assumes "v_memories db' = update_memory i f (v_memories db)" "\<forall>m. m_id (f m) = m_id m"
    and "survives db userId c" "canonical_id c \<noteq> Some i"
  shows "survives db' userId c"
  using assms(3,4) memories.look_change_other[OF assms(2)]
  by (cases "ac_canonical c") (auto simp: survives_def canonical_id_def assms(1))

lemma act_survivors:
  assumes "act env now userId jobRunId mode c cand st db = (Inr st', db')" "distinct (map m_id (v_memories db))"
    and apart: "\<forall>x\<in>set all. \<forall>y\<in>set all. canonical_id x \<noteq> Some (target_id y)"
    and "cand \<in> set all" "applied_survive db userId all st"
  shows "applied_survive db' userId all st'"
proof (cases "archives_directly mode c cand")
  case False
  obtain r where r: "createArchiveSuggestion env now userId jobRunId cand mode (rs_queued st) db = (r, db')"
    using assms(1) False by (auto simp: act_def split: prod.splits sum.splits option.splits)
  have "applied_survive db userId all st'"
    using assms(1,5) False
    by (auto simp: act_def applied_survive_def toConsolidationActionSummary_def split: prod.splits sum.splits option.splits)
  then show ?thesis using applied_survive_same createArchiveSuggestion_memories[OF r] by blast
next
  case True
  show ?thesis
  proof (cases "\<exists>e. fst (archiveCandidate env now userId jobRunId cand mode db) = Inr (Some e)")
    case True
    then obtain e where "fst (archiveCandidate env now userId jobRunId cand mode db) = Inr (Some e)" by blast
    then have a: "archiveCandidate env now userId jobRunId cand mode db = (Inr (Some e), db')"
      and st': "st' = st \<lparr> rs_applied := rs_applied st @ [target_id cand],
            rs_actions := rs_actions st @ [toConsolidationActionSummary cand mode True None (Some e)] \<rparr>"
      using assms(1) \<open>archives_directly mode c cand\<close> by (auto simp: act_def split: prod.splits)
    note ok = archiveCandidate_ok[OF a]
    have w: "v_memories db' = update_memory (target_id cand)
      (\<lambda>m. m \<lparr> m_status := candidate_status cand, m_updatedAt := now \<rparr>) (v_memories db)"
      by (rule archive_write_tables(1)[OF ok(2)])
    have keep: "survives db userId x \<Longrightarrow> x \<in> set all \<Longrightarrow> survives db' userId x" for x
      by (rule survives_other[OF w]) (use apart assms(4) in auto)
    have "survives db userId cand"
      using candidateStillValid_true(2)[OF ok(1) assms(2)]
      by (cases "ac_canonical cand") (auto simp: survives_def live_at_def)
    then show ?thesis
      using assms(4,5) keep by (auto simp: st' applied_survive_def toConsolidationActionSummary_def)
  next
    case False
    then have "archiveCandidate env now userId jobRunId cand mode db = (Inr None, db')" "st' = st"
      using assms(1) \<open>archives_directly mode c cand\<close> by (auto simp: act_def split: prod.splits sum.splits option.splits)
    then show ?thesis using archiveCandidate_none assms(5) by blast
  qed
qed

lemma act_all_survivors:
  assumes "act_all env clock userId jobRunId mode c n cands st db = (Inr st', db')" "distinct (map m_id (v_memories db))"
    and "\<forall>x\<in>set all. \<forall>y\<in>set all. canonical_id x \<noteq> Some (target_id y)" "set cands \<subseteq> set all"
    and "applied_survive db userId all st"
  shows "applied_survive db' userId all st'"
  using assms(1,2,4,5)
proof (induction cands arbitrary: n st db)
  case (Cons cand cands)
  obtain st1 db1 where a: "act env (clock n) userId jobRunId mode c cand st db = (Inr st1, db1)"
    and rest: "act_all env clock userId jobRunId mode c (n + 1) cands st1 db1 = (Inr st', db')"
    using Cons.prems(1) by (auto split: prod.splits sum.splits)
  have d: "distinct (map m_id (v_memories db1))"
    using evolves_keys[OF act_evolves(1)[OF a Cons.prems(2)]] Cons.prems(2) by simp
  have "applied_survive db1 userId all st1"
    by (rule act_survivors[OF a Cons.prems(2) assms(3) _ Cons.prems(4)]) (use Cons.prems(3) in simp)
  then show ?case using Cons.IH[OF rest d] Cons.prems(3) by simp
qed simp

lemma survives_books:
  assumes "books (v_memories db) (v_memories db')" "survives db userId c"
  shows "survives db' userId c"
proof -
  have "list_all2 booked ms ms' \<Longrightarrow> memory_row i ms = Some m \<Longrightarrow> \<exists>m'. memory_row i ms' = Some m' \<and> booked m m'" for ms ms' i m
  proof (induction ms ms' rule: list_all2_induct)
    case (Cons a as b bs)
    moreover have "m_id b = m_id a" using evolved_key[OF booked_evolved[OF Cons(1)]] .
    ultimately show ?case by (auto simp: memory_row_def split: if_splits)
  qed (simp add: memory_row_def)
  then have row: "memory_row i (v_memories db) = Some m \<Longrightarrow>
      \<exists>m'. memory_row i (v_memories db') = Some m' \<and> booked m m'" for i m
    using assms(1) unfolding books_def by blast
  have keep: "m_userId m' = m_userId m \<and> m_status m' = m_status m \<and> m_reviewState m' = m_reviewState m"
    if "booked m m'" for m m'
    by (subst (1 2 3) that[unfolded booked_def]) simp
  show ?thesis
  proof (cases "ac_canonical c")
    case (Some k)
    then obtain m where m: "memory_row (m_id k) (v_memories db) = Some m" "m_userId m = userId"
      "m_status m = memory_status.ACTIVE" "m_reviewState m = review_state.APPROVED"
      using assms(2) by (auto simp: survives_def)
    obtain m' where "memory_row (m_id k) (v_memories db') = Some m'" "booked m m'" using row[OF m(1)] by blast
    then show ?thesis using m keep Some by (simp add: survives_def)
  qed (simp add: survives_def)
qed

text \<open>An applied action's target is no longer active, and nothing in the run brings it back.\<close>

definition retired :: "vault \<Rightarrow> archive_candidate \<Rightarrow> bool" where
  "retired db c =
     pred_option (\<lambda>m. m_status m \<noteq> memory_status.ACTIVE) (memory_row (target_id c) (v_memories db))"

definition applied_retired :: "vault \<Rightarrow> run_state \<Rightarrow> bool" where
  "applied_retired db st = (\<forall>a\<in>set (rs_actions st). as_applied a \<longrightarrow> retired db (as_candidate a))"

lemma evolves_row:
  assumes "memories_evolve ms ms'"
  shows "rel_option evolved (memory_row i ms) (memory_row i ms')"
  using assms unfolding memories_evolve_def
  by (induction ms ms' rule: list_all2_induct) (auto simp: memory_row_def dest: evolved_key)

lemma retired_evolves: "memories_evolve (v_memories db) (v_memories db') \<Longrightarrow> retired db c \<Longrightarrow> retired db' c"
  using evolves_row[of "v_memories db" "v_memories db'" "target_id c"]
  by (auto simp: retired_def rel_option_iff evolved_def split: option.splits)

lemma act_retired:
  assumes "act env now userId jobRunId mode c cand st db = (Inr st', db')" "distinct (map m_id (v_memories db))"
    and "applied_retired db st"
  shows "applied_retired db' st'"
proof -
  have old: "applied_retired db' st"
    using assms(3) retired_evolves[OF act_evolves(1)[OF assms(1,2)]] by (simp add: applied_retired_def)
  show ?thesis
  proof (cases "rs_actions st' = rs_actions st")
    case True
    then show ?thesis using old by (simp add: applied_retired_def)
  next
    case False
    show ?thesis
    proof (cases "archives_directly mode c cand")
      case True
      then obtain e where a: "archiveCandidate env now userId jobRunId cand mode db = (Inr (Some e), db')"
        and st': "rs_actions st' = rs_actions st @ [toConsolidationActionSummary cand mode True None (Some e)]"
        using assms(1) False by (auto simp: act_def split: prod.splits sum.splits option.splits)
      note ok = archiveCandidate_ok[OF a]
      have "retired db' cand"
        by (simp add: retired_def archive_write_tables(1)[OF ok(2)] memories.look_change_same option.pred_map
            comp_def candidate_status_def option.pred_True)
      then show ?thesis
        using old by (auto simp: applied_retired_def st' toConsolidationActionSummary_def)
    next
      case no: False
      then show ?thesis
        using assms(1) old
        by (auto simp: act_def applied_retired_def toConsolidationActionSummary_def
            split: prod.splits sum.splits option.splits)
    qed
  qed
qed


lemma act_all_retired:
  assumes "act_all env clock userId jobRunId mode c n cands st db = (Inr st', db')" "distinct (map m_id (v_memories db))"
    and "applied_retired db st"
  shows "applied_retired db' st'"
  using assms
proof (induction cands arbitrary: n st db)
  case (Cons cand cands)
  obtain st1 db1 where a: "act env (clock n) userId jobRunId mode c cand st db = (Inr st1, db1)"
    and rest: "act_all env clock userId jobRunId mode c (n + 1) cands st1 db1 = (Inr st', db')"
    using Cons.prems(1) by (auto split: prod.splits sum.splits)
  have "distinct (map m_id (v_memories db1))"
    using evolves_keys[OF act_evolves(1)[OF a Cons.prems(2)]] Cons.prems(2) by simp
  then show ?case using Cons.IH[OF rest] act_retired[OF a Cons.prems(2,3)] by blast
qed simp

lemma judged_apart:
  assumes "x \<in> set (jg_candidates (judge env cenv now userId memories c vw))"
  shows "canonical_id x \<noteq> Some (target_id x)"
proof -
  obtain decisions pairs where
    "jg_candidates (judge env cenv now userId memories c vw) = decide_all c (judge_input pairs) decisions"
    by (rule judge_candidates[OF assms])
  then show ?thesis using assms decide_sound(2) by simp
qed

lemma consolidate_ok:
  assumes "consolidate env ck userId jobRunId mode c original recent expired db = (Inr result, db')"
  obtains cands st0 st db1 where
    "act_all (rn_processing env) (ck_write ck) userId jobRunId mode c 0 cands st0 db = (Inr st, db1)"
    "rs_actions st0 = []" "rr_actions result = rs_actions st" "rs_queued st0 = queued_targets db userId mode c"
    "\<forall>x\<in>set cands. \<forall>y\<in>set cands. canonical_id x \<noteq> Some (target_id y)"
    "books (v_memories db1) (v_memories db')"
proof -
  define judged where "judged = judge (rn_judge env) (rn_discovery env) (ck_judge ck) userId recent c (steady db)"
  define semantic where "semantic = (if original \<noteq> None \<and> length (the original) \<noteq> length recent
                      then partial_judging ''source_versions_changed'' judged else judged)"
  define candidates where "candidates = run_candidates env (ck_start ck) db userId expired recent semantic"
  define inspected where "inspected = js_unique (map m_id recent @ map m_id expired @ map target_id candidates)"
  define st0 where "st0 = \<lparr> rs_suggestions = [], rs_applied = [], rs_actions = [], rs_queued = queued_targets db userId mode c \<rparr>"
  note run = assms[unfolded consolidate_def Let_def, folded judged_def, folded semantic_def, folded candidates_def,
      folded inspected_def, folded st0_def]
  obtain st db1 where a: "act_all (rn_processing env) (ck_write ck) userId jobRunId mode c 0 candidates st0 db = (Inr st, db1)"
    using run by (auto split: prod.splits sum.splits)
  obtain semantic' where f: "finish_semantic env (ck_start ck) userId c recent semantic
        (markMemoriesConsolidated userId inspected (ck_start ck) db1) = (Inr semantic', db')"
    and acts: "rr_actions result = rs_actions st"
    using run a by (auto split: prod.splits sum.splits)
  have "\<forall>x\<in>set (jg_candidates judged). canonical_id x \<noteq> Some (target_id x)"
    unfolding judged_def using judged_apart by blast
  then have "\<forall>x\<in>set (jg_candidates semantic). canonical_id x \<noteq> Some (target_id x)"
    by (simp add: semantic_def partial_judging_def)
  then have "\<forall>x\<in>set candidates. \<forall>y\<in>set candidates. canonical_id x \<noteq> Some (target_id y)"
    unfolding candidates_def using run_candidates_apart by blast
  moreover have "books (v_memories db1) (v_memories db')" using books_trans[OF booked_mark booked_finish[OF f]] .
  ultimately show thesis using that[OF a _ acts] by (simp add: st0_def)
qed

definition action_holds :: "vault \<Rightarrow> ident \<Rightarrow> action_summary \<Rightarrow> bool" where
  "action_holds db userId a =
     (as_applied a \<longrightarrow> retired db (as_candidate a) \<and> survives db userId (as_candidate a))"

text \<open>C9. What a finished run reports as applied holds in the vault it leaves: the target of every automatic
  action is no longer active, and the memory it was archived in favour of is still an active, approved
  memory of the same user, although the run may have archived many memories after it.\<close>

theorem run_keeps_survivors:
  assumes "distinct (map m_id (v_memories db))" "runConsolidation env ck userId jobRunId db = (Inr result, db')"
  shows "list_all (action_holds db' userId) (rr_actions result)"
  using assms(2)
proof (cases rule: runConsolidation_cases)
  case early
  then show ?thesis by simp
next
  case (run user c original recent expired db0)
  have d: "distinct (map m_id (v_memories db0))" using assms(1) run(3) by simp
  obtain cands st0 st db1 where
    a: "act_all (rn_processing env) (ck_write ck) userId jobRunId (u_consolidationMode user) c 0 cands st0 db0 = (Inr st, db1)"
    and st0: "rs_actions st0 = []" and acts: "rr_actions result = rs_actions st"
    and apart: "\<forall>x\<in>set cands. \<forall>y\<in>set cands. canonical_id x \<noteq> Some (target_id y)"
    and b: "books (v_memories db1) (v_memories db')"
    using run(2) by (rule consolidate_ok)
  have "applied_survive db1 userId cands st"
    by (rule act_all_survivors[OF a d apart]) (simp_all add: applied_survive_def st0)
  moreover have "applied_retired db1 st" by (rule act_all_retired[OF a d]) (simp add: applied_retired_def st0)
  ultimately show ?thesis
    using survives_books[OF b] retired_evolves[OF books_evolves[OF b]]
    by (simp add: acts list_all_iff action_holds_def applied_survive_def applied_retired_def)
qed


section \<open>A sample\<close>

definition no_keys :: processing_env where
  "no_keys = sample_processing_env \<lparr> px_OPENAI_API_KEY := None, px_TYPESAFE_API_KEY := None \<rparr>"

definition sample_run_env :: "nat run_env" where
  "sample_run_env =
     \<lparr> rn_judge = sample_judge_env \<lparr> je_processing := no_keys \<rparr>, rn_discovery = sample_consolidation_env,
       rn_cron = ''0 3 * * *'' \<rparr>"

definition sample_clock :: run_clock where
  "sample_clock = \<lparr> ck_create = 9, ck_begin = 9, ck_start = 9, ck_judge = 9, ck_write = (\<lambda>_. 9), ck_finish = 9 \<rparr>"

definition sample_job :: job_run where
  "sample_job = \<lparr> j_id = ''j1'', j_userId = ''u1'', j_type = job_type.CONSOLIDATE_MEMORIES,
     j_status = job_status.QUEUED, j_attempts = 0, j_maxAttempts = 3, j_error = None, j_metadata = [],
     j_startedAt = None, j_finishedAt = None, j_createdAt = 0, j_updatedAt = 0 \<rparr>"

definition auto_vault :: vault where
  "auto_vault = copies_vault \<lparr> v_jobRuns := [sample_job],
     v_users := [\<lparr> u_id = ''u1'', u_email = ''u@x'', u_consolidationEnabled = True,
                   u_consolidationMode = consolidation_mode.AUTO_APPLY \<rparr>] \<rparr>"

definition sample_run :: "run_result outcome" where
  "sample_run = runConsolidation sample_run_env sample_clock ''u1'' ''j1'' auto_vault"

lemma sample_run_ok:
  "distinct (map m_id (v_memories auto_vault))"
  "\<not> isl (fst sample_run)"
  "map as_applied (rr_actions (projr (fst sample_run))) = [True]"
  by code_simp+

lemma run_keeps_content_witness:
  "\<exists>r db'. sample_run = (r, db') \<and> memories_evolve (v_memories auto_vault) (v_memories db')"
proof -
  obtain r db' where r: "sample_run = (r, db')" by fastforce
  show ?thesis using run_keeps_content[OF sample_run_ok(1) r[unfolded sample_run_def]] r by blast
qed

lemma run_keeps_survivors_witness:
  "\<exists>result db'. sample_run = (Inr result, db') \<and> map as_applied (rr_actions result) = [True]
     \<and> list_all (action_holds db' ''u1'') (rr_actions result)"
proof -
  obtain result db' where r: "sample_run = (Inr result, db')" using outcome_ok[OF sample_run_ok(2)] by blast
  have "map as_applied (rr_actions result) = [True]" using sample_run_ok(3) by (simp add: r)
  moreover have "list_all (action_holds db' ''u1'') (rr_actions result)"
    using run_keeps_survivors[OF sample_run_ok(1) r[unfolded sample_run_def]] .
  ultimately show ?thesis by (intro exI[of _ result] exI[of _ db'] conjI r)
qed

end
