(* ===== verification/ConsolidationJob.thy ===== *)
theory ConsolidationJob
  imports ConsolidationRun
begin

text \<open>
  The job around a consolidation run: \<open>consolidation-job.service.ts\<close>, with
  \<open>consolidationResultAuditSubjects\<close>, \<open>consolidationFailureMessage\<close> (packages/shared) and the result a
  run leaves in its job's metadata.  The arrow of two messages is written in ASCII.
\<close>

section \<open>Messages\<close>

text \<open>\<open>errorMessage\<close>: every exception of the model is an \<open>Error\<close>.\<close>

primrec errorMessage :: "error \<Rightarrow> string" where
  "errorMessage (NotFound s) = s"
| "errorMessage (Conflict s) = s"
| "errorMessage (BadRequest s) = s"
| "errorMessage (Forbidden s) = s"
| "errorMessage (Unauthorized s) = s"
| "errorMessage (InvalidGrant s) = s"
| "errorMessage (InvalidScope s) = s"
| "errorMessage (InvalidTarget s) = s"
| "errorMessage (InvalidToken s) = s"
| "errorMessage (InvalidClientMetadata s) = s"
| "errorMessage (RateLimited s) = s"
| "errorMessage (Internal s) = s"

definition consolidationFailureMessage :: "string option \<Rightarrow> string" where
  "consolidationFailureMessage reason =
     (let is = (\<lambda>s. reason = Some s) in
      if is ''processing_consent_required''
      then ''This run used an older TypeSafe permission. Choose a provider in Settings -> Profile, then start a new consolidation run.''
      else if is ''processing_provider_changed''
      then ''The provider changed while this run was active. Start a new consolidation run with the current choice.''
      else if is ''provider_not_configured''
      then ''Memory comparison is unavailable because its provider is not configured. Ask your vault administrator to check the processing configuration.''
      else if is ''source_versions_changed''
      then ''Some memories changed after this run started. Start a new consolidation run to check their current versions.''
      else if is ''pair_limit_reached''
      then ''The comparison limit was reached. Some memory comparisons remain unfinished.''
      else if is ''secret_like_content''
      then ''Memory comparison was blocked because the request contained possible credentials. Review your memories before starting another run.''
      else if is ''rate_limited''
      then ''The comparison service is receiving too many requests. Wait a few minutes, then retry.''
      else if is ''deadline_or_cancelled''
      then ''Memory comparison did not finish within the time limit. You can retry this run.''
      else ''Memory comparison could not finish. You can retry this run. Any local maintenance already completed is recorded below.'')"

section \<open>The job's data\<close>

datatype consolidation_trigger = Trigger_manual | Trigger_manual_retry | Trigger_scheduled

primrec trigger_name :: "consolidation_trigger \<Rightarrow> string" where
  "trigger_name Trigger_manual = ''manual''"
| "trigger_name Trigger_manual_retry = ''manual_retry''"
| "trigger_name Trigger_scheduled = ''scheduled''"

record consolidation_job_data =
  cd_userId :: ident
  cd_jobRunId :: "ident option"
  cd_trigger :: "consolidation_trigger option"

definition CONSOLIDATION_QUEUE_NAME :: string where
  "CONSOLIDATION_QUEUE_NAME = ''funes-vault-consolidation''"

definition consolidationSchedulerId :: "ident \<Rightarrow> string" where
  "consolidationSchedulerId userId = ''consolidation-'' @ userId"

text \<open>What the judgment measures beside its result: the latency, and the provider's diagnostics.\<close>

record measured =
  ms_latencyMs :: nat
  ms_diagnostics :: json

section \<open>The result as JSON\<close>

primrec judged_status_name :: "judged_status \<Rightarrow> string" where
  "judged_status_name Judged_completed = ''completed''"
| "judged_status_name Judged_partial = ''partial''"
| "judged_status_name Judged_failed = ''failed''"
| "judged_status_name Judged_skipped = ''skipped''"

definition json_nat :: "nat \<Rightarrow> json" where "json_nat n = JNum (of_nat n)"

definition action_json :: "action_summary \<Rightarrow> json" where
  "action_json a =
     (let c = as_candidate a in
      JObj [(''action'', JStr ''archive_memory''), (''reason'', JStr (archive_reason_name (ac_reason c))),
        (''evidence'', JStr (ac_evidence c)), (''confidence'', JNum (candidateConfidence c)),
        (''targetMemoryId'', JStr (target_id c)), (''targetLabel'', JStr (m_title (ac_memory c))),
        (''canonicalMemoryId'', json_opt (canonical_id c)), (''canonicalLabel'', json_opt (canonical_title c)),
        (''suggestionId'', json_opt (as_suggestionId a)), (''auditEventId'', json_opt (as_auditEventId a)),
        (''applied'', JBool (as_applied a)), (''mode'', JStr (mode_name (as_mode a)))])"

definition semantic_json :: "measured \<Rightarrow> judging \<Rightarrow> json" where
  "semantic_json ms r =
     JObj [(''status'', JStr (judged_status_name (jg_status r))), (''reason'', json_opt (jg_reason r)),
       (''skippedPairs'', json_nat (jg_skippedPairs r)), (''skippedSources'', json_nat (jg_skippedSources r)),
       (''skippedSourceReasons'', JObj (map (\<lambda>(k, n). (k, json_nat n)) (jg_skippedSourceReasons r))),
       (''deferredPairs'', json_nat (jg_deferredPairs r)), (''latencyMs'', json_nat (ms_latencyMs ms)),
       (''fingerprint'', JStr (jg_fingerprint r)), (''model'', JStr (jg_model r)),
       (''maxSensitivity'', JStr (sensitivity_name (jg_maxSensitivity r))),
       (''diagnostics'', ms_diagnostics ms)]"

definition noActionPairs :: "run_result \<Rightarrow> nat" where
  "noActionPairs r = rr_inspectedMemories r - rr_candidateCount r"

definition result_json :: "measured \<Rightarrow> run_result \<Rightarrow> (string \<times> json) list" where
  "result_json ms r =
     [(''configuration'', configuration_json (rr_configuration r)),
      (''sourceVersions'', JArr (rr_sourceVersions r)), (''semantic'', semantic_json ms (rr_semantic r)),
      (''jobRunId'', JStr (rr_jobRunId r)), (''type'', JStr consolidate_type_name),
      (''mode'', JStr (mode_name (rr_mode r))),
      (''recentWindowHours'', JNum (of_int recentConsolidationWindowHours)),
      (''inspectedMemories'', json_nat (rr_inspectedMemories r)),
      (''recentMemoryCount'', json_nat (rr_recentMemoryCount r)),
      (''expiredMemoryCount'', json_nat (rr_expiredMemoryCount r)),
      (''candidateCount'', json_nat (rr_candidateCount r)),
      (''suggestionIds'', json_strings (rr_suggestionIds r)),
      (''appliedMemoryIds'', json_strings (rr_appliedMemoryIds r)),
      (''actionCounts'', JObj [(''suggestionsCreated'', json_nat (length (rr_suggestionIds r))),
         (''actionsAutoApplied'', json_nat (length (rr_appliedMemoryIds r))),
         (''noActionPairs'', json_nat (noActionPairs r))]),
      (''actions'', JArr (map action_json (rr_actions r)))]"

section \<open>ConsolidationJobService\<close>

definition created_metadata ::
  "'v run_env \<Rightarrow> ident \<Rightarrow> consolidation_trigger \<Rightarrow> processing_configuration \<Rightarrow> consolidation_mode
     \<Rightarrow> (string \<times> json) list" where
  "created_metadata env userId trigger c mode =
     [(''trigger'', JStr (trigger_name trigger)), (''configuration'', configuration_json c),
      (''mode'', JStr (mode_name mode)), (''queueName'', JStr CONSOLIDATION_QUEUE_NAME),
      (''schedulerId'', if trigger = Trigger_scheduled then JStr (consolidationSchedulerId userId) else JNull),
      (''schedulePattern'', if trigger = Trigger_scheduled then JStr (rn_cron env) else JNull)]"

definition job_created_event :: "ident \<Rightarrow> ident \<Rightarrow> consolidation_trigger \<Rightarrow> consolidation_mode \<Rightarrow> audit_event_input" where
  "job_created_event userId jobRunId trigger mode =
     \<lparr> ai_userId = userId, ai_clientId = None, ai_memoryRequestId = None, ai_type = audit_event_type.JOB_CREATED,
       ai_actorType = (if trigger = Trigger_scheduled then audit_actor_type.SYSTEM else audit_actor_type.USER),
       ai_actorId = (if trigger = Trigger_scheduled then None else Some userId),
       ai_metadata = no_metadata \<lparr> am_jobRunId := Some jobRunId, am_type := Some consolidate_type_name,
         am_details := [(''trigger'', JStr (trigger_name trigger)), (''mode'', JStr (mode_name mode)),
           (''schedulerId'', if trigger = Trigger_scheduled then JStr (consolidationSchedulerId userId) else JNull)] \<rparr>,
       ai_subjects = [job_subject jobRunId], ai_inferSubjects = True \<rparr>"

definition createConsolidationJobRun ::
  "'v run_env \<Rightarrow> time \<Rightarrow> ident \<Rightarrow> consolidation_trigger \<Rightarrow> vault \<Rightarrow> job_run outcome" where
  "createConsolidationJobRun env now userId trigger db =
     (case forUser (rn_processing env) db userId of
        Inl e \<Rightarrow> (Inl e, db)
      | Inr c \<Rightarrow>
          (case owner_row db userId of
             None \<Rightarrow> (Inl (Internal ''No record was found for a query.''), db)
           | Some user \<Rightarrow>
               let created = new_job now (next_id db) userId job_type.CONSOLIDATE_MEMORIES
                     (created_metadata env userId trigger c (u_consolidationMode user))
               in (Inr created,
                   snd (createAuditEvent now
                     (job_created_event userId (j_id created) trigger (u_consolidationMode user))
                     (insert_job created db)))))"

definition start_job :: "time \<Rightarrow> ident \<Rightarrow> vault \<Rightarrow> unit outcome" where
  "start_job now jobRunId db =
     (if job_row db jobRunId = None then (Inl (Internal ''No record was found for an update.''), db)
      else (Inr (), write_job now jobRunId (\<lambda>j. j \<lparr> j_status := job_status.RUNNING,
              j_attempts := j_attempts j + 1, j_startedAt := Some now \<rparr>) db))"

text \<open>\<open>consolidationResultAuditSubjects\<close>\<close>

definition action_subjects :: "action_summary \<Rightarrow> audit_subject list" where
  "action_subjects a =
     (let c = as_candidate a in
      [subject audit_subject_type.MEMORY (Some (target_id c))
         (if as_applied a then audit_subject_role.ARCHIVED else audit_subject_role.TARGET)
         \<lparr>sj_label := Some (m_title (ac_memory c))\<rparr>,
       subject audit_subject_type.MEMORY (canonical_id c) audit_subject_role.CANONICAL \<lparr>sj_label := canonical_title c\<rparr>,
       subject audit_subject_type.MEMORY_SUGGESTION (as_suggestionId a) audit_subject_role.SUGGESTION])"

definition consolidationResultAuditSubjects :: "run_result \<Rightarrow> audit_subject list" where
  "consolidationResultAuditSubjects r = job_subject (rr_jobRunId r) # concat (map action_subjects (rr_actions r))"

definition result_metadata :: "measured \<Rightarrow> run_result \<Rightarrow> audit_metadata" where
  "result_metadata ms r =
     no_metadata \<lparr> am_jobRunId := Some (rr_jobRunId r), am_type := Some consolidate_type_name,
       am_details := filter (\<lambda>(k, _). k \<notin> {''jobRunId'', ''type''}) (result_json ms r) \<rparr>"

definition semantic_complete :: "run_result \<Rightarrow> bool" where
  "semantic_complete r = (jg_status (rr_semantic r) = Judged_completed)"

definition finish_job :: "time \<Rightarrow> measured \<Rightarrow> ident \<Rightarrow> ident \<Rightarrow> run_result \<Rightarrow> vault \<Rightarrow> vault" where
  "finish_job now ms userId jobRunId result db =
     snd (createAuditEvent now
       (job_event userId jobRunId
          (if semantic_complete result then audit_event_type.JOB_COMPLETED else audit_event_type.JOB_FAILED)
          (result_metadata ms result) (consolidationResultAuditSubjects result))
       (write_job now jobRunId (\<lambda>j. j \<lparr>
           j_status := (if semantic_complete result then job_status.SUCCEEDED else job_status.FAILED),
           j_error := (if semantic_complete result then None
                       else Some (consolidationFailureMessage (jg_reason (rr_semantic result)))),
           j_metadata := result_json ms result, j_finishedAt := Some now \<rparr>) db))"

definition fail_job :: "time \<Rightarrow> ident \<Rightarrow> ident \<Rightarrow> error \<Rightarrow> vault \<Rightarrow> vault" where
  "fail_job now userId jobRunId e db =
     snd (createAuditEvent now
       (job_event userId jobRunId audit_event_type.JOB_FAILED
          (no_metadata \<lparr> am_jobRunId := Some jobRunId, am_details := [(''error'', JStr (errorMessage e))] \<rparr>)
          [job_subject jobRunId])
       (write_job now jobRunId (\<lambda>j. j \<lparr> j_status := job_status.FAILED, j_error := Some (errorMessage e),
           j_finishedAt := Some now \<rparr>) db))"

text \<open>The data names the job's row once it exists: a second attempt of the queue finds it there.\<close>

definition claim_job ::
  "'v run_env \<Rightarrow> time \<Rightarrow> consolidation_job_data \<Rightarrow> vault \<Rightarrow> (ident \<times> consolidation_job_data) outcome" where
  "claim_job env now data db =
     (case cd_jobRunId data of
        Some i \<Rightarrow> (Inr (i, data), db)
      | None \<Rightarrow>
          (case createConsolidationJobRun env now (cd_userId data)
                  (case cd_trigger data of Some t \<Rightarrow> t | None \<Rightarrow> Trigger_scheduled) db of
             (Inl e, db1) \<Rightarrow> (Inl e, db1)
           | (Inr j, db1) \<Rightarrow> (Inr (j_id j, data \<lparr> cd_jobRunId := Some (j_id j) \<rparr>), db1)))"

definition attempt_job ::
  "'v run_env \<Rightarrow> run_clock \<Rightarrow> measured \<Rightarrow> ident \<Rightarrow> ident \<Rightarrow> vault \<Rightarrow> unit outcome" where
  "attempt_job env ck ms userId jobRunId db =
     (case start_job (ck_begin ck) jobRunId db of
        (Inl e, db1) \<Rightarrow> (Inl e, db1)
      | (Inr _, db1) \<Rightarrow>
          (case runConsolidation env ck userId jobRunId db1 of
             (Inr result, db2) \<Rightarrow> (Inr (), finish_job (ck_finish ck) ms userId jobRunId result db2)
           | (Inl e, db2) \<Rightarrow> (Inl e, fail_job (ck_finish ck) userId jobRunId e db2)))"

definition processConsolidation ::
  "'v run_env \<Rightarrow> run_clock \<Rightarrow> measured \<Rightarrow> consolidation_job_data \<Rightarrow> vault
     \<Rightarrow> consolidation_job_data \<times> unit outcome" where
  "processConsolidation env ck ms data db =
     (case claim_job env (ck_create ck) data db of
        (Inl e, db1) \<Rightarrow> (data, (Inl e, db1))
      | (Inr (jobRunId, data1), db1) \<Rightarrow> (data1, attempt_job env ck ms (cd_userId data) jobRunId db1))"

section \<open>What an attempt leaves\<close>

lemma archiveCandidate_jobs:
  "archiveCandidate env now userId jobRunId c mode db = (r, db') \<Longrightarrow> v_jobRuns db' = v_jobRuns db"
  by (cases r; cases "projr r")
    (use archiveCandidate_none archiveCandidate_ok archive_write_tables(3) in \<open>fastforce+\<close>)

lemma createArchiveSuggestion_jobs:
  "createArchiveSuggestion env now userId jobRunId c mode queued db = (r, db') \<Longrightarrow> v_jobRuns db' = v_jobRuns db"
  by (auto simp: createArchiveSuggestion_def Let_def insert_suggestion_def draw_id_def audit_simps
      split: if_splits sum.splits bool.splits)

lemma act_jobs: "act env now userId jobRunId mode c cand st db = (r, db') \<Longrightarrow> v_jobRuns db' = v_jobRuns db"
  by (auto simp: act_def dest!: archiveCandidate_jobs createArchiveSuggestion_jobs
      split: if_splits prod.splits sum.splits option.splits)

lemma act_all_jobs:
  "act_all env clock userId jobRunId mode c n cands st db = (r, db') \<Longrightarrow> v_jobRuns db' = v_jobRuns db"
proof (induction cands arbitrary: n st db)
  case (Cons cand cands)
  obtain r1 db1 where a: "act env (clock n) userId jobRunId mode c cand st db = (r1, db1)" by fastforce
  then show ?case using Cons act_jobs[OF a] by (cases r1) auto
qed simp

lemma inspected_jobs: "v_jobRuns (fold (mark_inspected userId t) ms db) = v_jobRuns db"
  by (induction ms arbitrary: db) (simp_all add: mark_inspected_def)

lemma finish_semantic_jobs:
  "finish_semantic env startedAt userId c recent semantic db = (r, db') \<Longrightarrow> v_jobRuns db' = v_jobRuns db"
  by (auto simp: finish_semantic_def inspected_jobs split: sum.splits if_splits)

lemma consolidate_jobs:
  "consolidate env ck userId jobRunId mode c original recent expired db = (r, db') \<Longrightarrow> v_jobRuns db' = v_jobRuns db"
  unfolding consolidate_def Let_def
  by (auto simp: markMemoriesConsolidated_def dest!: act_all_jobs finish_semantic_jobs split: prod.splits sum.splits)

definition job_core :: "job_run \<Rightarrow> ident \<times> nat \<times> job_type" where
  "job_core j = (j_id j, j_attempts j, j_type j)"

lemma runConsolidation_jobs:
  assumes "runConsolidation env ck userId jobRunId db = (r, db')"
  shows "map job_core (v_jobRuns db')
    = map job_core (v_jobRuns db)"
  using assms unfolding runConsolidation_def Let_def
  by (auto simp: write_job_def map_update_where job_core_def dest!: consolidate_jobs split: option.splits sum.splits if_splits)

lemma job_row_map:
  assumes "job_row db i = Some j" "map job_core (v_jobRuns db') = map job_core (v_jobRuns db)"
  shows "\<exists>j'. job_row db' i = Some j' \<and> j_attempts j' = j_attempts j \<and> j_type j' = j_type j"
proof -
  have "map job_core ys = map job_core xs \<Longrightarrow> find_row (\<lambda>j. j_id j = i) xs = Some j \<Longrightarrow>
     \<exists>j'. find_row (\<lambda>j. j_id j = i) ys = Some j' \<and> j_attempts j' = j_attempts j \<and> j_type j' = j_type j" for xs ys
    by (induction xs arbitrary: ys) (auto simp: map_eq_Cons_conv job_core_def split: if_splits)
  then show ?thesis using assms unfolding job_row_def by blast
qed

lemma job_row_write:
  assumes "\<forall>j. j_id (f j) = j_id j"
  shows "job_row (write_job now i f db) i = map_option (\<lambda>j. (f j) \<lparr> j_updatedAt := now \<rparr>) (job_row db i)"
  unfolding job_row_def write_job_def using assms
  by (simp add: find_row_update_where) (cases "find_row (\<lambda>j. j_id j = i) (v_jobRuns db)"; auto dest: find_row_SomeD)

lemma job_row_event [simp]: "job_row (snd (createAuditEvent now inp db)) i = job_row db i"
  by (simp add: job_row_def audit_simps)

lemma attempt_cases:
  assumes "job_row db jobRunId = Some j" "attempt_job env ck ms userId jobRunId db = (r, db')"
  obtains (failed) e db1 db2 j2 where "runConsolidation env ck userId jobRunId db1 = (Inl e, db2)" "r = Inl e"
      "db' = fail_job (ck_finish ck) userId jobRunId e db2"
      "job_row db2 jobRunId = Some j2" "j_attempts j2 = j_attempts j + 1" "j_type j2 = j_type j"
    | (finished) result db1 db2 j2 where "runConsolidation env ck userId jobRunId db1 = (Inr result, db2)" "r = Inr ()"
      "db1 = snd (start_job (ck_begin ck) jobRunId db)"
      "db' = finish_job (ck_finish ck) ms userId jobRunId result db2"
      "job_row db2 jobRunId = Some j2" "j_attempts j2 = j_attempts j + 1" "j_type j2 = j_type j"
proof -
  define db1 where "db1 = write_job (ck_begin ck) jobRunId (\<lambda>j. j \<lparr> j_status := job_status.RUNNING,
              j_attempts := j_attempts j + 1, j_startedAt := Some (ck_begin ck) \<rparr>) db"
  obtain r2 db2 where run: "runConsolidation env ck userId jobRunId db1 = (r2, db2)" by fastforce
  have "\<exists>j1. job_row db1 jobRunId = Some j1 \<and> j_attempts j1 = j_attempts j + 1 \<and> j_type j1 = j_type j"
    unfolding db1_def using assms(1) by (subst job_row_write) simp_all
  then obtain j2 where j2: "job_row db2 jobRunId = Some j2" "j_attempts j2 = j_attempts j + 1" "j_type j2 = j_type j"
    using job_row_map[OF _ runConsolidation_jobs[OF run]] by fastforce
  show thesis
  proof (cases r2)
    case (Inl e)
    show thesis
      by (rule failed[OF run[unfolded Inl] _ _ j2])
        (use assms run Inl in \<open>simp_all add: attempt_job_def start_job_def db1_def\<close>)
  next
    case (Inr result)
    show thesis
      by (rule finished[OF run[unfolded Inr] _ _ _ j2])
        (use assms run Inr in \<open>simp_all add: attempt_job_def start_job_def db1_def\<close>)
  qed
qed

text \<open>An attempt at a job always settles it: whether the run succeeds, ends early or throws, the job's
  row is afterwards SUCCEEDED or FAILED with its end recorded and one attempt more, and the last audit
  event is the job's JOB_COMPLETED or JOB_FAILED accordingly.  It succeeds exactly if every comparison
  was judged; an exception's message is the row's error.\<close>

theorem attempt_settles_job:
  assumes "job_row db jobRunId = Some j" "attempt_job env ck ms userId jobRunId db = (r, db')"
  shows "\<exists>j' e. job_row db' jobRunId = Some j' \<and> j_attempts j' = j_attempts j + 1
    \<and> j_finishedAt j' = Some (ck_finish ck)
    \<and> (j_status j' = job_status.SUCCEEDED \<and> j_error j' = None \<and> r = Inr ()
       \<or> j_status j' = job_status.FAILED \<and> j_error j' \<noteq> None)
    \<and> (r = Inr () \<or> j_error j' = Some (errorMessage (projl r)))
    \<and> auditEvents db' \<noteq> [] \<and> last (auditEvents db') = e \<and> ae_actorId e = Some jobRunId
    \<and> ae_type e = (if j_status j' = job_status.SUCCEEDED then audit_event_type.JOB_COMPLETED else audit_event_type.JOB_FAILED)"
  using assms
proof (cases rule: attempt_cases)
  case (failed e db1 db2 j2)
  then show ?thesis by (simp add: fail_job_def job_row_write audit_simps event_row_def job_event_def)
next
  case (finished result db1 db2 j2)
  then show ?thesis by (simp add: finish_job_def job_row_write audit_simps event_row_def job_event_def)
qed

definition sample_measured :: measured where
  "sample_measured = \<lparr> ms_latencyMs = 1, ms_diagnostics = JObj [] \<rparr>"

lemma sample_job_row: "job_row auto_vault ''j1'' = Some sample_job"
  by (simp add: job_row_def auto_vault_def sample_job_def)

lemma attempt_settles_job_witness:
  "\<exists>r db' j'. attempt_job sample_run_env sample_clock sample_measured ''u1'' ''j1'' auto_vault = (r, db')
     \<and> job_row db' ''j1'' = Some j' \<and> j_attempts j' = 1 \<and> j_finishedAt j' = Some 9"
proof -
  obtain r db' where a: "attempt_job sample_run_env sample_clock sample_measured ''u1'' ''j1'' auto_vault = (r, db')"
    by fastforce
  obtain j' where "job_row db' ''j1'' = Some j'" "j_attempts j' = j_attempts sample_job + 1"
    "j_finishedAt j' = Some (ck_finish sample_clock)"
    using attempt_settles_job[OF sample_job_row a] by blast
  then show ?thesis using a by (auto simp: sample_job_def sample_clock_def)
qed

end
