(* ===== verification/Jobs.thy ===== *)
theory Jobs
  imports ConsolidationJob
begin

text \<open>
  \<open>jobs/jobs.service.ts\<close> and \<open>jobs/job.mapper.ts\<close>: the owner's view of the jobs, retries, the
  consolidation settings and the schedules the queue keeps, and the worker side of
  \<open>embeddings/embedding-jobs.service.ts\<close>.
\<close>

section \<open>job.mapper\<close>

record consolidation_details =
  cs_trigger :: string
  cs_mode :: consolidation_mode
  cs_inspectedMemoryCount :: rat
  cs_recentMemoryCount :: rat
  cs_expiredMemoryCount :: rat
  cs_candidateCount :: rat
  cs_suggestionsCreated :: rat
  cs_actionsAutoApplied :: rat
  cs_noActionPairs :: rat
  cs_actions :: "json list"

record job_response =
  jr_job :: job_run
  jr_consolidation :: "consolidation_details option"

definition get_number :: "(string \<times> json) list \<Rightarrow> string \<Rightarrow> rat option" where
  "get_number md key = (case map_of md key of Some (JNum r) \<Rightarrow> Some r | _ \<Rightarrow> None)"

definition get_array :: "(string \<times> json) list \<Rightarrow> string \<Rightarrow> json list option" where
  "get_array md key = (case map_of md key of Some (JArr vs) \<Rightarrow> Some vs | _ \<Rightarrow> None)"

definition getObjectMetadata :: "json option \<Rightarrow> (string \<times> json) list" where
  "getObjectMetadata v = (case v of Some (JObj kvs) \<Rightarrow> kvs | _ \<Rightarrow> [])"

definition is_object :: "json \<Rightarrow> bool" where
  "is_object j = (case j of JObj _ \<Rightarrow> True | _ \<Rightarrow> False)"

definition or_zero :: "rat option \<Rightarrow> rat" where
  "or_zero v = (case v of Some r \<Rightarrow> r | None \<Rightarrow> 0)"

definition action_count :: "(string \<times> json) list \<Rightarrow> string \<Rightarrow> string \<Rightarrow> rat" where
  "action_count md key ids =
     (case get_number (getObjectMetadata (map_of md ''actionCounts'')) key of
        Some n \<Rightarrow> n
      | None \<Rightarrow> (case get_array md ids of Some vs \<Rightarrow> of_nat (length vs) | None \<Rightarrow> 0))"

definition consolidationDetailsFromMetadata :: "(string \<times> json) list \<Rightarrow> consolidation_details" where
  "consolidationDetailsFromMetadata md =
     \<lparr> cs_trigger = (case map_of md ''trigger'' of Some (JStr s) \<Rightarrow> s | _ \<Rightarrow> ''manual''),
       cs_mode = (if map_of md ''mode'' = Some (JStr ''AUTO_APPLY'') then consolidation_mode.AUTO_APPLY
                  else consolidation_mode.REVIEW_ONLY),
       cs_inspectedMemoryCount = or_zero (get_number md ''inspectedMemories''),
       cs_recentMemoryCount = or_zero (get_number md ''recentMemoryCount''),
       cs_expiredMemoryCount = or_zero (get_number md ''expiredMemoryCount''),
       cs_candidateCount = or_zero (get_number md ''candidateCount''),
       cs_suggestionsCreated = action_count md ''suggestionsCreated'' ''suggestionIds'',
       cs_actionsAutoApplied = action_count md ''actionsAutoApplied'' ''appliedMemoryIds'',
       cs_noActionPairs = or_zero (get_number (getObjectMetadata (map_of md ''actionCounts'')) ''noActionPairs''),
       cs_actions = (case get_array md ''actions'' of Some vs \<Rightarrow> filter is_object vs | None \<Rightarrow> []) \<rparr>"

definition toJobRunResponse :: "job_run \<Rightarrow> job_response" where
  "toJobRunResponse j =
     \<lparr> jr_job = j,
       jr_consolidation = (if j_type j = job_type.CONSOLIDATE_MEMORIES
                           then Some (consolidationDetailsFromMetadata (j_metadata j)) else None) \<rparr>"

section \<open>Reading jobs\<close>

record list_jobs_query =
  lj_pagination :: pagination_query
  lj_type :: "job_type option"
  lj_status :: "job_status option"

definition job_listed :: "ident \<Rightarrow> list_jobs_query \<Rightarrow> job_run \<Rightarrow> bool" where
  "job_listed userId query j =
     (j_userId j = userId \<and> pred_option ((=) (j_type j)) (lj_type query)
      \<and> pred_option ((=) (j_status j)) (lj_status query))"

definition listJobs :: "vault \<Rightarrow> ident \<Rightarrow> list_jobs_query \<Rightarrow> job_response list \<times> pagination" where
  "listJobs db userId query =
     (let rows = filter (job_listed userId query) (v_jobRuns db);
          pagination = buildPagination (lj_pagination query) (length rows)
      in (map toJobRunResponse (page_rows pagination (sort_key (\<lambda>j. - j_createdAt j) rows)), pagination))"

definition own_job :: "vault \<Rightarrow> ident \<Rightarrow> ident \<Rightarrow> job_run option" where
  "own_job db userId i = find_row (\<lambda>j. j_id j = i \<and> j_userId j = userId) (v_jobRuns db)"

definition getJob :: "vault \<Rightarrow> ident \<Rightarrow> ident \<Rightarrow> error + job_response" where
  "getJob db userId i =
     (case own_job db userId i of None \<Rightarrow> Inl (NotFound ''Job run not found'') | Some j \<Rightarrow> Inr (toJobRunResponse j))"

section \<open>Queueing a run\<close>

text \<open>The queues: adding a job gives its id in the queue or throws, and a schedule is kept under its id.\<close>

record 'v jobs_env =
  jx_run :: "'v run_env"
  jx_embedding :: memory_env
  jx_queue :: "(ident \<Rightarrow> ident \<Rightarrow> consolidation_trigger \<Rightarrow> string option) option"
  jx_scheduler :: "ident \<Rightarrow> bool"

definition updated_job :: "ident \<Rightarrow> vault \<Rightarrow> job_response outcome" where
  "updated_job i db =
     (case job_row db i of
        None \<Rightarrow> (Inl (Internal ''No record was found for an update.''), db)
      | Some j \<Rightarrow> (Inr (toJobRunResponse j), db))"

definition queued_metadata ::
  "(string \<times> json) list \<Rightarrow> (string \<times> json) list option \<Rightarrow> consolidation_trigger \<Rightarrow> string \<Rightarrow> (string \<times> json) list" where
  "queued_metadata created retry trigger bullJobId =
     spread (spread created (case retry of Some r \<Rightarrow> r | None \<Rightarrow> []))
       [(''trigger'', JStr (trigger_name trigger)), (''queueName'', JStr CONSOLIDATION_QUEUE_NAME),
        (''bullJobId'', JStr bullJobId)]"

text \<open>The last write of a queued run.  The queue has the job by then, and a worker may already run it.\<close>

definition record_queued ::
  "time \<Rightarrow> job_run \<Rightarrow> (string \<times> json) list option \<Rightarrow> consolidation_trigger \<Rightarrow> string \<Rightarrow> vault
     \<Rightarrow> job_response outcome" where
  "record_queued now jobRun retry trigger bullJobId db =
     updated_job (j_id jobRun) (write_job now (j_id jobRun)
       (\<lambda>j. j \<lparr> j_metadata := queued_metadata (j_metadata jobRun) retry trigger bullJobId \<rparr>) db)"

definition enqueueConsolidationRun ::
  "'v jobs_env \<Rightarrow> time \<Rightarrow> ident \<Rightarrow> consolidation_trigger \<Rightarrow> (string \<times> json) list option \<Rightarrow> vault
     \<Rightarrow> job_response outcome" where
  "enqueueConsolidationRun env now userId trigger retry db =
     (case createConsolidationJobRun (jx_run env) now userId trigger db of
        (Inl e, db1) \<Rightarrow> (Inl e, db1)
      | (Inr jobRun, db1) \<Rightarrow>
          let db2 = (case retry of
                       None \<Rightarrow> db1
                     | Some r \<Rightarrow> write_job now (j_id jobRun) (\<lambda>j. j \<lparr> j_metadata := spread (j_metadata jobRun) r \<rparr>) db1)
          in case jx_queue env of
               None \<Rightarrow> updated_job (j_id jobRun) (write_job now (j_id jobRun)
                         (\<lambda>j. j \<lparr> j_status := job_status.CANCELLED, j_error := Some ''REDIS_URL is not configured'' \<rparr>) db2)
             | Some add \<Rightarrow>
                 (case add userId (j_id jobRun) trigger of
                    None \<Rightarrow> (Inl (Internal ''queue''), db2)
                  | Some bullJobId \<Rightarrow> record_queued now jobRun retry trigger bullJobId db2))"

definition job_memory_id :: "(string \<times> json) list \<Rightarrow> ident option" where
  "job_memory_id md = (case map_of md ''memoryId'' of Some (JStr s) \<Rightarrow> if s = [] then None else Some s | _ \<Rightarrow> None)"

definition retryJob :: "'v jobs_env \<Rightarrow> time \<Rightarrow> ident \<Rightarrow> ident \<Rightarrow> vault \<Rightarrow> job_response outcome" where
  "retryJob env now userId i db =
     (case own_job db userId i of
        None \<Rightarrow> (Inl (NotFound ''Job run not found''), db)
      | Some job \<Rightarrow>
          if j_status job \<noteq> job_status.FAILED \<and> j_status job \<noteq> job_status.CANCELLED
          then (Inl (Conflict ''Only failed or cancelled jobs can retry''), db)
          else if j_type job = job_type.GENERATE_EMBEDDING
          then (case job_memory_id (j_metadata job) of
                  None \<Rightarrow> (Inl (Conflict ''Embedding job is missing a memory ID''), db)
                | Some memoryId \<Rightarrow>
                    (case enqueueMemoryEmbedding (jx_embedding env) now userId memoryId ''manual_regeneration'' db of
                       (Inl e, db1) \<Rightarrow> (Inl e, db1)
                     | (Inr (jobRunId, _), db1) \<Rightarrow> (getJob db1 userId jobRunId, db1)))
          else if j_type job = job_type.CONSOLIDATE_MEMORIES
          then enqueueConsolidationRun env now userId Trigger_manual_retry (Some (j_metadata job)) db
          else (Inl (Conflict ''This job type does not support retry yet''), db))"

section \<open>Settings and schedules\<close>

record schedule =
  sc_id :: string
  sc_pattern :: string
  sc_data :: consolidation_job_data

record settings =
  st_enabled :: bool
  st_mode :: consolidation_mode

record settings_update =
  su_enabled :: "bool option"
  su_mode :: "consolidation_mode option"

definition user_settings :: "vault_user \<Rightarrow> settings" where
  "user_settings u = \<lparr> st_enabled = u_consolidationEnabled u, st_mode = u_consolidationMode u \<rparr>"

definition getConsolidationSettings :: "vault \<Rightarrow> ident \<Rightarrow> error + settings" where
  "getConsolidationSettings db userId =
     (case owner_row db userId of
        None \<Rightarrow> Inl (Internal ''No record was found for a query.'') | Some u \<Rightarrow> Inr (user_settings u))"

definition upsertJobScheduler :: "schedule \<Rightarrow> schedule list \<Rightarrow> schedule list" where
  "upsertJobScheduler s ss = filter (\<lambda>x. sc_id x \<noteq> sc_id s) ss @ [s]"

definition removeJobScheduler :: "string \<Rightarrow> schedule list \<Rightarrow> schedule list" where
  "removeJobScheduler i ss = filter (\<lambda>x. sc_id x \<noteq> i) ss"

definition consolidation_schedule :: "'v jobs_env \<Rightarrow> ident \<Rightarrow> schedule" where
  "consolidation_schedule env userId =
     \<lparr> sc_id = consolidationSchedulerId userId, sc_pattern = rn_cron (jx_run env),
       sc_data = \<lparr> cd_userId = userId, cd_jobRunId = None, cd_trigger = Some Trigger_scheduled \<rparr> \<rparr>"

definition syncScheduledConsolidationJob ::
  "'v jobs_env \<Rightarrow> ident \<Rightarrow> bool \<Rightarrow> schedule list \<Rightarrow> (error + unit) \<times> schedule list" where
  "syncScheduledConsolidationJob env userId enabled ss =
     (if jx_queue env = None then (Inr (), ss)
      else if \<not> jx_scheduler env userId then (Inl (Internal ''queue''), ss)
      else if \<not> enabled then (Inr (), removeJobScheduler (consolidationSchedulerId userId) ss)
      else (Inr (), upsertJobScheduler (consolidation_schedule env userId) ss))"

definition apply_settings :: "settings_update \<Rightarrow> vault_user \<Rightarrow> vault_user" where
  "apply_settings inp u =
     u \<lparr> u_consolidationEnabled := (case su_enabled inp of Some b \<Rightarrow> b | None \<Rightarrow> u_consolidationEnabled u),
         u_consolidationMode := (case su_mode inp of Some m \<Rightarrow> m | None \<Rightarrow> u_consolidationMode u) \<rparr>"

definition updateConsolidationSettings ::
  "'v jobs_env \<Rightarrow> ident \<Rightarrow> settings_update \<Rightarrow> vault \<Rightarrow> schedule list \<Rightarrow> (error + settings) \<times> vault \<times> schedule list" where
  "updateConsolidationSettings env userId inp db ss =
     (case owner_row db userId of
        None \<Rightarrow> (Inl (Internal ''No record was found for an update.''), db, ss)
      | Some u \<Rightarrow>
          let u' = apply_settings inp u;
              db' = db \<lparr> v_users := update_where (\<lambda>x. u_id x = userId) (apply_settings inp) (v_users db) \<rparr>
          in case syncScheduledConsolidationJob env userId (u_consolidationEnabled u') ss of
               (Inl e, ss') \<Rightarrow> (Inl e, db', ss')
             | (Inr _, ss') \<Rightarrow> (Inr (user_settings u'), db', ss'))"

text \<open>At a worker's start every enabled schedule is written; all calls are made, one failure is reported.\<close>

fun sync_users :: "'v jobs_env \<Rightarrow> ident list \<Rightarrow> schedule list \<Rightarrow> (error + unit) \<times> schedule list" where
  "sync_users env [] ss = (Inr (), ss)"
| "sync_users env (u # us) ss =
     (let (r, ss1) = syncScheduledConsolidationJob env u True ss;
          (r', ss2) = sync_users env us ss1
      in (case r of Inl e \<Rightarrow> Inl e | Inr _ \<Rightarrow> r', ss2))"

definition syncScheduledConsolidationJobs ::
  "'v jobs_env \<Rightarrow> vault \<Rightarrow> schedule list \<Rightarrow> (error + unit) \<times> schedule list" where
  "syncScheduledConsolidationJobs env db ss =
     (if jx_queue env = None then (Inr (), ss)
      else sync_users env (map u_id (filter u_consolidationEnabled (v_users db))) ss)"

section \<open>The embedding worker\<close>

record 'v worker_env =
  we_retrieval :: "'v retrieval_env"
  we_metadata :: "string \<Rightarrow> json"

definition embedding_type_name :: string where "embedding_type_name = ''GENERATE_EMBEDDING''"

definition embedding_result_json :: "'v worker_env \<Rightarrow> embedding_result \<Rightarrow> json" where
  "embedding_result_json env r =
     JObj (case r of
        SkippedNotEmbeddable \<Rightarrow> [(''skipped'', JBool True), (''reason'', JStr ''memory_not_embeddable'')]
      | SkippedCurrent \<Rightarrow> [(''skipped'', JBool True), (''reason'', JStr ''embedding_already_current'')]
      | Generated provider model contentHash \<Rightarrow>
          [(''skipped'', JBool False), (''provider'', JStr provider), (''model'', JStr model),
           (''contentHash'', JStr contentHash), (''metadata'', we_metadata env contentHash)])"

definition embeddingJobSubjects :: "ident \<Rightarrow> ident \<Rightarrow> audit_subject list" where
  "embeddingJobSubjects memoryId jobRunId =
     [subject audit_subject_type.JOB_RUN (Some jobRunId) audit_subject_role.JOB \<lparr>sj_label := Some embedding_type_name\<rparr>,
      subject audit_subject_type.MEMORY (Some memoryId) audit_subject_role.TARGET]"

definition embedding_done :: "'v worker_env \<Rightarrow> time \<Rightarrow> ident \<Rightarrow> ident \<Rightarrow> ident \<Rightarrow> embedding_result \<Rightarrow> vault \<Rightarrow> vault" where
  "embedding_done env now userId memoryId jobRunId result db =
     snd (createAuditEvent now
       (job_event userId jobRunId audit_event_type.JOB_COMPLETED
          (no_metadata \<lparr> am_jobRunId := Some jobRunId, am_memoryId := Some memoryId,
             am_details := [(''result'', embedding_result_json env result)] \<rparr>)
          (embeddingJobSubjects memoryId jobRunId))
       (write_job now jobRunId (\<lambda>j. j \<lparr> j_status := job_status.SUCCEEDED,
          j_metadata := [(''memoryId'', JStr memoryId), (''result'', embedding_result_json env result)],
          j_finishedAt := Some now \<rparr>) db))"

definition embedding_failed :: "time \<Rightarrow> ident \<Rightarrow> ident \<Rightarrow> ident \<Rightarrow> error \<Rightarrow> vault \<Rightarrow> vault" where
  "embedding_failed now userId memoryId jobRunId e db =
     snd (createAuditEvent now
       (job_event userId jobRunId audit_event_type.JOB_FAILED
          (no_metadata \<lparr> am_jobRunId := Some jobRunId, am_memoryId := Some memoryId,
             am_details := [(''error'', JStr (errorMessage e))] \<rparr>)
          (embeddingJobSubjects memoryId jobRunId))
       (write_job now jobRunId (\<lambda>j. j \<lparr> j_status := job_status.FAILED, j_error := Some (errorMessage e),
          j_finishedAt := Some now \<rparr>) db))"

definition process_embedding ::
  "'v worker_env \<Rightarrow> time \<Rightarrow> time \<Rightarrow> ident \<Rightarrow> ident \<Rightarrow> ident \<Rightarrow> ident \<Rightarrow> vault \<times> 'v embedding list
     \<Rightarrow> (error + unit) \<times> vault \<times> 'v embedding list" where
  "process_embedding env began ended freshId userId memoryId jobRunId s =
     (case start_job began jobRunId (fst s) of
        (Inl e, db1) \<Rightarrow> (Inl e, db1, snd s)
      | (Inr _, db1) \<Rightarrow>
          (case generateForMemory (we_retrieval env) freshId userId memoryId (v_memories db1) (snd s) of
             (Inr result, rows) \<Rightarrow> (Inr (), embedding_done env ended userId memoryId jobRunId result db1, rows)
           | (Inl e, rows) \<Rightarrow> (Inl e, embedding_failed ended userId memoryId jobRunId e db1, rows)))"

section \<open>Retries\<close>

lemma map_of_rev_distinct:
  assumes "distinct (map fst xs)"
  shows "map_of (rev xs) k = map_of xs k"
proof (cases "map_of xs k")
  case None
  then have "map_of (rev xs) k = None" by (simp add: map_of_eq_None_iff)
  then show ?thesis using None by simp
next
  case (Some v)
  then have "(k, v) \<in> set (rev xs)" by (simp add: map_of_SomeD)
  moreover have "distinct (map fst (rev xs))" using assms by (simp add: rev_map[symmetric])
  ultimately show ?thesis using Some by simp
qed

lemma map_of_spread:
  "map_of (spread a b) k = (case map_of (rev b) k of Some v \<Rightarrow> Some v | None \<Rightarrow> map_of a k)"
  unfolding spread_def
  by (induction b arbitrary: a) (auto simp: map_add_def split: option.splits)

text \<open>The row an enqueue adds: fresh, the owner's, of its type.\<close>

lemma find_row_last: "(\<forall>x\<in>set xs. \<not> P x) \<Longrightarrow> P y \<Longrightarrow> find_row P (xs @ [y]) = Some y"
  by (induction xs) auto

lemma write_last_job:
  "i \<notin> j_id ` set js \<Longrightarrow> update_where (\<lambda>j. j_id j = i) f (js @ [x]) = js @ [if j_id x = i then f x else x]"
  by (induction js) auto

lemma create_job_ok:
  assumes "createConsolidationJobRun env now userId trigger db = (Inr j, db')"
  obtains c user where "forUser (rn_processing env) db userId = Inr c" "owner_row db userId = Some user"
    "j = new_job now (next_id db) userId job_type.CONSOLIDATE_MEMORIES
       (created_metadata env userId trigger c (u_consolidationMode user))"
    "v_jobRuns db' = v_jobRuns db @ [j]" "v_memories db' = v_memories db"
  using assms by (auto simp: createConsolidationJobRun_def Let_def insert_job_def draw_id_def audit_simps
      split: sum.splits option.splits)

lemma job_row_last:
  "v_jobRuns db = js @ [j] \<Longrightarrow> j_id j \<notin> j_id ` set js \<Longrightarrow> job_row db (j_id j) = Some j"
  unfolding job_row_def by (auto simp: image_iff intro!: find_row_last)

lemma write_job_last:
  "v_jobRuns db = js @ [j] \<Longrightarrow> j_id j \<notin> j_id ` set js \<Longrightarrow>
     v_jobRuns (write_job now (j_id j) f db) = js @ [(f j) \<lparr> j_updatedAt := now \<rparr>]"
  unfolding write_job_def by (simp add: write_last_job)

lemma updated_job_ok:
  assumes "updated_job i db = (Inr resp, db')" "v_jobRuns db = js @ [j]" "j_id j = i" "i \<notin> j_id ` set js"
  shows "resp = toJobRunResponse j" "db' = db"
  using assms job_row_last[of db js j] by (auto simp: updated_job_def)

definition enqueued_row ::
  "'v jobs_env \<Rightarrow> time \<Rightarrow> ident \<Rightarrow> consolidation_trigger \<Rightarrow> processing_configuration \<Rightarrow> vault_user \<Rightarrow> ident
     \<Rightarrow> job_status \<Rightarrow> string option \<Rightarrow> (string \<times> json) list \<Rightarrow> job_run" where
  "enqueued_row env now userId trigger c user i st err md =
     (new_job now i userId job_type.CONSOLIDATE_MEMORIES
        (created_metadata (jx_run env) userId trigger c (u_consolidationMode user)))
       \<lparr> j_status := st, j_error := err, j_metadata := md \<rparr>"

lemma enqueued_row_sel [simp]:
  "j_id (enqueued_row env now userId trigger c user i st err md) = i"
  "j_userId (enqueued_row env now userId trigger c user i st err md) = userId"
  "j_type (enqueued_row env now userId trigger c user i st err md) = job_type.CONSOLIDATE_MEMORIES"
  "j_attempts (enqueued_row env now userId trigger c user i st err md) = 0"
  "j_status (enqueued_row env now userId trigger c user i st err md) = st"
  "j_metadata (enqueued_row env now userId trigger c user i st err md) = md"
  by (simp_all add: enqueued_row_def new_job_def)

lemma enqueueConsolidationRun_ok:
  assumes e: "enqueueConsolidationRun env now userId trigger retry db = (Inr resp, db')"
    and fresh: "next_id db \<notin> j_id ` set (v_jobRuns db)"
  obtains c user st err md where "forUser (rn_processing (jx_run env)) db userId = Inr c" "owner_row db userId = Some user"
    "v_jobRuns db' = v_jobRuns db @ [enqueued_row env now userId trigger c user (next_id db) st err md]"
    "resp = toJobRunResponse (enqueued_row env now userId trigger c user (next_id db) st err md)"
    "st = (if jx_queue env = None then job_status.CANCELLED else job_status.QUEUED)"
    "jx_queue env = None \<or> (\<exists>bull. md = queued_metadata
       (created_metadata (jx_run env) userId trigger c (u_consolidationMode user)) retry trigger bull)"
proof -
  obtain created db1 where cr: "createConsolidationJobRun (jx_run env) now userId trigger db = (Inr created, db1)"
    using e by (auto simp: enqueueConsolidationRun_def split: prod.splits sum.splits)
  obtain c user where c: "forUser (rn_processing (jx_run env)) db userId = Inr c" "owner_row db userId = Some user"
    "created = new_job now (next_id db) userId job_type.CONSOLIDATE_MEMORIES
       (created_metadata (jx_run env) userId trigger c (u_consolidationMode user))"
    "v_jobRuns db1 = v_jobRuns db @ [created]"
    by (rule create_job_ok[OF cr])
  have i: "j_id created = next_id db" "j_updatedAt created = now" "j_status created = job_status.QUEUED"
    by (simp_all add: c(3) new_job_def)
  define f where "f = (\<lambda>j :: job_run. case retry of None \<Rightarrow> j | Some r \<Rightarrow> j \<lparr> j_metadata := spread (j_metadata created) r \<rparr>)"
  define db2 where "db2 = (case retry of None \<Rightarrow> db1
     | Some r \<Rightarrow> write_job now (j_id created) (\<lambda>j. j \<lparr> j_metadata := spread (j_metadata created) r \<rparr>) db1)"
  have upd: "x \<lparr> j_updatedAt := now \<rparr> = x" if "j_updatedAt x = now" for x :: job_run using that by simp
  have j2: "v_jobRuns db2 = v_jobRuns db @ [f created]"
    using write_job_last[OF c(4)] fresh i by (auto simp: db2_def f_def c(4) split: option.split)
  have fi: "j_id (f created) = next_id db" "j_updatedAt (f created) = now" "j_status (f created) = job_status.QUEUED"
    using i by (simp_all add: f_def split: option.splits)
  obtain fm where fm: "f created = created \<lparr> j_metadata := fm \<rparr>"
    by (cases retry) (simp_all add: f_def, metis job_run.surjective job_run.update_convs(8))
  have w: "v_jobRuns (write_job now (next_id db) g db2) = v_jobRuns db @ [(g (f created)) \<lparr> j_updatedAt := now \<rparr>]" for g
    using write_job_last[OF j2] fresh fi(1) by simp
  show thesis
  proof (cases "jx_queue env")
    case None
    define j where "j = enqueued_row env now userId trigger c user (next_id db) job_status.CANCELLED
        (Some ''REDIS_URL is not configured'') fm"
    have u: "updated_job (next_id db) (write_job now (next_id db) (\<lambda>j. j \<lparr> j_status := job_status.CANCELLED,
        j_error := Some ''REDIS_URL is not configured'' \<rparr>) db2) = (Inr resp, db')"
      using e cr None i(1) by (simp add: enqueueConsolidationRun_def db2_def Let_def)
    have wj: "v_jobRuns (write_job now (next_id db) (\<lambda>j. j \<lparr> j_status := job_status.CANCELLED,
        j_error := Some ''REDIS_URL is not configured'' \<rparr>) db2) = v_jobRuns db @ [j]"
      using w unfolding fm by (simp add: j_def c(3) enqueued_row_def new_job_def)
    note r = updated_job_ok[OF u wj _ fresh]
    show thesis
      by (rule that[OF c(1,2), of job_status.CANCELLED "Some ''REDIS_URL is not configured''" fm])
        (use r wj None in \<open>simp_all add: j_def\<close>)
  next
    case (Some add)
    obtain bull where "add userId (next_id db) trigger = Some bull"
      and u: "record_queued now created retry trigger bull db2 = (Inr resp, db')"
      using e cr Some i(1) by (auto simp: enqueueConsolidationRun_def db2_def Let_def split: option.splits)
    define md where "md = queued_metadata (j_metadata created) retry trigger bull"
    define j where "j = enqueued_row env now userId trigger c user (next_id db) job_status.QUEUED None md"
    have wj: "v_jobRuns (write_job now (next_id db) (\<lambda>j. j \<lparr> j_metadata :=
        queued_metadata (j_metadata created) retry trigger bull \<rparr>) db2) = v_jobRuns db @ [j]"
      using w unfolding fm by (simp add: j_def md_def c(3) enqueued_row_def new_job_def)
    note r = updated_job_ok[OF u[unfolded record_queued_def i(1)] wj _ fresh]
    have md: "md = queued_metadata (created_metadata (jx_run env) userId trigger c (u_consolidationMode user)) retry trigger bull"
      by (simp add: md_def c(3) new_job_def)
    show thesis
      by (rule that[OF c(1,2), of job_status.QUEUED None md]) (use r wj Some md in \<open>auto simp: j_def\<close>)
  qed
qed

lemma enqueueMemoryEmbedding_row:
  assumes "enqueueMemoryEmbedding env now userId memoryId reason db = (Inr (i, b), db')"
    and "next_id db \<notin> j_id ` set (v_jobRuns db)"
  shows "\<exists>md st err. i = next_id db \<and> st \<in> {job_status.QUEUED, job_status.CANCELLED} \<and> v_jobRuns db'
    = v_jobRuns db @ [(new_job now (next_id db) userId job_type.GENERATE_EMBEDDING md) \<lparr> j_status := st, j_error := err \<rparr>]"
proof (cases "me_queue env")
  case None
  have "i = next_id db" "v_jobRuns db' = v_jobRuns db @ [(new_job now (next_id db) userId job_type.GENERATE_EMBEDDING
      [(''memoryId'', JStr memoryId), (''reason'', JStr reason)])
         \<lparr> j_status := job_status.CANCELLED, j_error := Some ''REDIS_URL is not configured'' \<rparr>]"
    using assms None
    by (auto simp: enqueueMemoryEmbedding_def Let_def insert_job_def draw_id_def new_job_def write_job_def write_last_job)
  then show ?thesis by (intro exI conjI) (assumption, rule insertI2, rule singletonI)
next
  case (Some add)
  then obtain bull where "i = next_id db"
    "v_jobRuns db' = v_jobRuns db @ [(new_job now (next_id db) userId job_type.GENERATE_EMBEDDING
      [(''memoryId'', JStr memoryId), (''reason'', JStr reason), (''queueName'', JStr EMBEDDING_QUEUE_NAME),
       (''bullJobId'', JStr bull)]) \<lparr> j_status := job_status.QUEUED, j_error := None \<rparr>]"
    using assms
    by (auto simp: enqueueMemoryEmbedding_def Let_def insert_job_def draw_id_def new_job_def write_job_def write_last_job
        split: option.splits)
  then show ?thesis by (intro exI conjI) (assumption, rule insertI1)
qed

text \<open>A retry is offered only for an owner's failed or cancelled job, and adds one job of the same type for
  that owner, queued (or cancelled at once when no queue is configured); every other job stays as it is.\<close>

theorem retry_adds_one_job:
  assumes "next_id db \<notin> j_id ` set (v_jobRuns db)" "retryJob env now userId i db = (Inr resp, db')"
  shows "\<exists>old j. own_job db userId i = Some old \<and> j_status old \<in> {job_status.FAILED, job_status.CANCELLED}
    \<and> v_jobRuns db' = v_jobRuns db @ [j] \<and> resp = toJobRunResponse j
    \<and> j_userId j = userId \<and> j_type j = j_type old \<and> j_attempts j = 0
    \<and> j_status j \<in> {job_status.QUEUED, job_status.CANCELLED}"
proof -
  obtain old where old: "own_job db userId i = Some old" "j_status old \<in> {job_status.FAILED, job_status.CANCELLED}"
    using assms(2) by (auto simp: retryJob_def split: option.splits if_splits)
  have "\<exists>j. v_jobRuns db' = v_jobRuns db @ [j] \<and> resp = toJobRunResponse j
    \<and> j_userId j = userId \<and> j_type j = j_type old \<and> j_attempts j = 0
    \<and> j_status j \<in> {job_status.QUEUED, job_status.CANCELLED}"
  proof (cases "j_type old = job_type.GENERATE_EMBEDDING")
    case True
    obtain memoryId jobRunId b where q: "enqueueMemoryEmbedding (jx_embedding env) now userId memoryId
        ''manual_regeneration'' db = (Inr (jobRunId, b), db')" and g: "getJob db' userId jobRunId = Inr resp"
      using assms(2) old True by (auto simp: retryJob_def split: option.splits prod.splits sum.splits if_splits)
    obtain md st err where i: "jobRunId = next_id db" "st \<in> {job_status.QUEUED, job_status.CANCELLED}"
      "v_jobRuns db' = v_jobRuns db
         @ [(new_job now (next_id db) userId job_type.GENERATE_EMBEDDING md) \<lparr> j_status := st, j_error := err \<rparr>]"
      using enqueueMemoryEmbedding_row[OF q assms(1)] by blast
    define j where "j = (new_job now (next_id db) userId job_type.GENERATE_EMBEDDING md) \<lparr> j_status := st, j_error := err \<rparr>"
    have j: "v_jobRuns db' = v_jobRuns db @ [j]" "j_id j = jobRunId" "jobRunId = next_id db" "j_userId j = userId"
      "j_type j = job_type.GENERATE_EMBEDDING" "j_attempts j = 0" "j_status j \<in> {job_status.QUEUED, job_status.CANCELLED}"
      using i by (simp_all add: j_def new_job_def)
    have "own_job db' userId jobRunId = Some j"
      unfolding own_job_def j(1) by (rule find_row_last) (use j(2-7) assms(1) in \<open>force simp: image_iff\<close>)+
    then show ?thesis using g j True by (auto simp: getJob_def)
  next
    case False
    then have t: "j_type old = job_type.CONSOLIDATE_MEMORIES"
      and q: "enqueueConsolidationRun env now userId Trigger_manual_retry (Some (j_metadata old)) db = (Inr resp, db')"
      using assms(2) old by (auto simp: retryJob_def split: if_splits)
    obtain c user st err md where
      "v_jobRuns db' = v_jobRuns db @ [enqueued_row env now userId Trigger_manual_retry c user (next_id db) st err md]"
      "resp = toJobRunResponse (enqueued_row env now userId Trigger_manual_retry c user (next_id db) st err md)"
      "st = (if jx_queue env = None then job_status.CANCELLED else job_status.QUEUED)"
      using enqueueConsolidationRun_ok[OF q assms(1)] by metis
    then show ?thesis using t by (intro exI[of _ "enqueued_row env now userId Trigger_manual_retry c user (next_id db) st err md"]) simp
  qed
  then show ?thesis using old by blast
qed

text \<open>A retry resumes the run it retries: with a queue, the new job carries the old job's configuration and
  source versions, so a run of it uses the same provider configuration, however the owner's choice has
  changed since, and compares the same versions of the same memories; only the trigger is new.\<close>

theorem retry_resumes_run:
  assumes "next_id db \<notin> j_id ` set (v_jobRuns db)" "retryJob env now userId i db = (Inr resp, db')"
    and "own_job db userId i = Some old" "j_type old = job_type.CONSOLIDATE_MEMORIES" "jx_queue env \<noteq> None"
    and "distinct (map fst (j_metadata old))"
    and "map_of (j_metadata old) ''configuration'' = Some (configuration_json conf)"
    and "map_of (j_metadata old) ''sourceVersions'' = Some (JArr sources)"
  shows "run_configuration renv db' userId (j_metadata (jr_job resp)) = Inr conf
    \<and> original_sources (j_metadata (jr_job resp)) = Some sources
    \<and> map_option cs_trigger (jr_consolidation resp) = Some ''manual_retry''"
proof -
  have q: "enqueueConsolidationRun env now userId Trigger_manual_retry (Some (j_metadata old)) db = (Inr resp, db')"
    using assms(2-4) by (auto simp: retryJob_def split: if_splits)
  obtain c user st err bull where r: "resp = toJobRunResponse (enqueued_row env now userId Trigger_manual_retry c user
      (next_id db) st err (queued_metadata
        (created_metadata (jx_run env) userId Trigger_manual_retry c (u_consolidationMode user))
        (Some (j_metadata old)) Trigger_manual_retry bull))"
    using enqueueConsolidationRun_ok[OF q assms(1)] assms(5) by metis
  define md where "md = queued_metadata
        (created_metadata (jx_run env) userId Trigger_manual_retry c (u_consolidationMode user))
        (Some (j_metadata old)) Trigger_manual_retry bull"
  have old: "map_of (rev (j_metadata old)) k = map_of (j_metadata old) k" for k
    by (rule map_of_rev_distinct[OF assms(6)])
  have keys: "map_of md ''configuration'' = Some (configuration_json conf)"
    "map_of md ''sourceVersions'' = Some (JArr sources)" "map_of md ''trigger'' = Some (JStr ''manual_retry'')"
    unfolding md_def queued_metadata_def by (simp_all add: map_of_spread old assms(7,8))
  have conf: "run_configuration renv db' userId md = Inr conf"
  proof (cases "configuration_json conf")
    case (JObj kvs)
    then show ?thesis using configuration_decodes[of conf] keys(1) by (simp add: run_configuration_def)
  qed (simp_all add: configuration_json_def)
  show ?thesis
    using keys conf unfolding r md_def[symmetric]
    by (simp add: toJobRunResponse_def original_sources_def consolidationDetailsFromMetadata_def)
qed

section \<open>Reports\<close>

definition reported :: "run_result \<Rightarrow> consolidation_details" where
  "reported r =
     \<lparr> cs_trigger = ''manual'', cs_mode = rr_mode r, cs_inspectedMemoryCount = of_nat (rr_inspectedMemories r),
       cs_recentMemoryCount = of_nat (rr_recentMemoryCount r), cs_expiredMemoryCount = of_nat (rr_expiredMemoryCount r),
       cs_candidateCount = of_nat (rr_candidateCount r), cs_suggestionsCreated = of_nat (length (rr_suggestionIds r)),
       cs_actionsAutoApplied = of_nat (length (rr_appliedMemoryIds r)), cs_noActionPairs = of_nat (noActionPairs r),
       cs_actions = map action_json (rr_actions r) \<rparr>"

lemma details_of_result: "consolidationDetailsFromMetadata (result_json ms r) = reported r"
  by (cases "rr_mode r")
    (simp_all add: consolidationDetailsFromMetadata_def result_json_def reported_def get_number_def get_array_def
      action_count_def getObjectMetadata_def or_zero_def json_nat_def mode_name_def filter_map is_object_def
      action_json_def Let_def comp_def)

text \<open>The job of a finished run reports the run: the mapper reads back, from the metadata the run left, its
  mode, its counts and its actions.  The one thing it does not find there is the trigger, so a scheduled
  run and a retried one are reported as manual once they finish.\<close>

theorem finished_job_reports_run:
  assumes "job_row db i = Some j" "j_type j = job_type.CONSOLIDATE_MEMORIES"
    and "attempt_job env ck ms userId i db = (Inr (), db')"
  shows "\<exists>result db2. runConsolidation env ck userId i (snd (start_job (ck_begin ck) i db)) = (Inr result, db2)
    \<and> map_option (\<lambda>x. jr_consolidation (toJobRunResponse x)) (job_row db' i) = Some (Some (reported result))"
  using assms(1,3)
proof (cases rule: attempt_cases)
  case (finished result db1 db2 j2)
  have "map_option (\<lambda>x. jr_consolidation (toJobRunResponse x)) (job_row db' i) = Some (Some (reported result))"
    using finished(5,7) assms(2)
    by (simp add: finished(4) finish_job_def job_row_write toJobRunResponse_def details_of_result)
  then show ?thesis using finished(1,3) by blast
qed simp

text \<open>The last write of a queued run races with the run itself.  The queue has the job before the write, so
  a worker may have finished it; the write then replaces the run's report by the metadata of creation,
  and the finished job reports no inspected memory and no action.\<close>

theorem queued_write_hides_report:
  assumes "job_row db i = Some j" "j_type j = job_type.CONSOLIDATE_MEMORIES" "j_id created = i"
    and "j_metadata created = created_metadata env userId Trigger_manual c mode"
  shows "\<exists>resp details. fst (record_queued now created None Trigger_manual bull db) = Inr resp
    \<and> j_status (jr_job resp) = j_status j \<and> jr_consolidation resp = Some details
    \<and> cs_inspectedMemoryCount details = 0 \<and> cs_actionsAutoApplied details = 0 \<and> cs_actions details = []"
  using assms
  by (simp add: record_queued_def updated_job_def job_row_write toJobRunResponse_def consolidationDetailsFromMetadata_def
      queued_metadata_def spread_def created_metadata_def get_number_def get_array_def action_count_def
      getObjectMetadata_def or_zero_def)

section \<open>Schedules\<close>

definition scheduled :: "ident \<Rightarrow> schedule list \<Rightarrow> bool" where
  "scheduled userId ss = list_ex (\<lambda>s. sc_id s = consolidationSchedulerId userId) ss"

definition schedules_match :: "vault \<Rightarrow> schedule list \<Rightarrow> bool" where
  "schedules_match db ss = list_all (\<lambda>u. scheduled (u_id u) ss = u_consolidationEnabled u) (v_users db)"

lemma scheduler_id_inj [simp]: "consolidationSchedulerId u = consolidationSchedulerId v \<longleftrightarrow> u = v"
  by (simp add: consolidationSchedulerId_def)

lemma scheduled_after:
  "scheduled u (upsertJobScheduler (consolidation_schedule env v) ss) = (u = v \<or> scheduled u ss)"
  "scheduled u (removeJobScheduler (consolidationSchedulerId v) ss) = (u \<noteq> v \<and> scheduled u ss)"
  by (auto simp: scheduled_def upsertJobScheduler_def removeJobScheduler_def consolidation_schedule_def list_ex_iff)

lemma apply_settings_sel [simp]:
  "u_id (apply_settings inp u) = u_id u"
  "u_consolidationEnabled (apply_settings inp u)
     = (case su_enabled inp of Some b \<Rightarrow> b | None \<Rightarrow> u_consolidationEnabled u)"
  by (simp_all add: apply_settings_def)

lemma updated_user:
  assumes "y \<in> set (update_where (\<lambda>x. u_id x = userId) (apply_settings inp) us)"
  obtains x where "x \<in> set us" "u_id y = u_id x" "y = (if u_id x = userId then apply_settings inp x else x)"
proof -
  obtain x where "x \<in> set us" "y = (if u_id x = userId then apply_settings inp x else x)"
    using assms unfolding update_where_def by auto
  then show thesis by (intro that[of x]) simp_all
qed

text \<open>The schedules follow the settings.  Where every owner has a schedule exactly if consolidation is
  enabled, a settings update that succeeds keeps it so, for the owner it changes and for all others.\<close>

theorem settings_keep_schedules:
  assumes "jx_queue env \<noteq> None" "schedules_match db ss"
    and "updateConsolidationSettings env userId inp db ss = (Inr r, db', ss')"
  shows "schedules_match db' ss'"
proof -
  obtain u where u: "owner_row db userId = Some u" "u_id u = userId" "u \<in> set (v_users db)"
    using assms(3) by (auto simp: updateConsolidationSettings_def owner_row_def split: option.splits dest: find_row_SomeD)
  have db': "v_users db' = update_where (\<lambda>x. u_id x = userId) (apply_settings inp) (v_users db)"
    and sy: "syncScheduledConsolidationJob env userId (u_consolidationEnabled (apply_settings inp u)) ss = (Inr (), ss')"
    using assms(3) u(1) by (auto simp: updateConsolidationSettings_def Let_def split: prod.splits sum.splits)
  have same: "u_consolidationEnabled (apply_settings inp x) = u_consolidationEnabled (apply_settings inp u)"
    if "x \<in> set (v_users db)" "u_id x = userId" for x
    using assms(2) that u(2,3) by (simp add: schedules_match_def list_all_iff split: option.split) metis
  have "scheduled v ss' = (if v = userId then u_consolidationEnabled (apply_settings inp u) else scheduled v ss)" for v
    using sy assms(1) by (auto simp: syncScheduledConsolidationJob_def scheduled_after split: if_splits)
  then have after: "scheduled v ss' = (if v = userId then u_consolidationEnabled (apply_settings inp u) else scheduled v ss)" for v .
  have "scheduled (u_id y) ss' = u_consolidationEnabled y" if y: "y \<in> set (v_users db')" for y
  proof -
    obtain x where x: "x \<in> set (v_users db)" "u_id y = u_id x" "y = (if u_id x = userId then apply_settings inp x else x)"
      by (rule updated_user[OF y[unfolded db']])
    have old: "scheduled (u_id x) ss = u_consolidationEnabled x"
      using assms(2) x(1) by (simp add: schedules_match_def list_all_iff)
    show ?thesis
    proof (cases "u_id x = userId")
      case True
      then show ?thesis unfolding x(2) after using same[OF x(1)] x(3) by simp
    next
      case False
      then show ?thesis unfolding x(2) after using old x(3) by simp
    qed
  qed
  then show ?thesis by (simp add: schedules_match_def list_all_iff)
qed

lemma sync_users_keeps: "s \<in> set ss \<Longrightarrow> \<forall>u\<in>set us. sc_id s \<noteq> consolidationSchedulerId u \<Longrightarrow> s \<in> set (snd (sync_users env us ss))"
proof (induction us arbitrary: ss)
  case (Cons u us)
  have "s \<in> set (snd (syncScheduledConsolidationJob env u True ss))"
    using Cons.prems by (auto simp: syncScheduledConsolidationJob_def upsertJobScheduler_def consolidation_schedule_def)
  then show ?case using Cons.IH Cons.prems(2) by (simp add: split_beta Let_def)
qed simp

text \<open>Disabling consolidation while the queue is unreachable stores the setting but not its effect, and
  starting a worker does not repair it: the start writes the enabled schedules and removes none, so the
  schedule of the owner who disabled it stays, whatever state the queue is in by then.\<close>

theorem failed_disable_keeps_schedule:
  assumes "jx_queue env \<noteq> None" "\<not> jx_scheduler env userId" "owner_row db userId = Some u"
    and "su_enabled inp = Some False" "scheduled userId ss"
  shows "\<exists>db'. updateConsolidationSettings env userId inp db ss = (Inl (Internal ''queue''), db', ss)
    \<and> map_option u_consolidationEnabled (owner_row db' userId) = Some False
    \<and> scheduled userId (snd (syncScheduledConsolidationJobs env' db' ss))"
proof -
  define db' where "db' = db \<lparr> v_users := update_where (\<lambda>x. u_id x = userId) (apply_settings inp) (v_users db) \<rparr>"
  have upd: "updateConsolidationSettings env userId inp db ss = (Inl (Internal ''queue''), db', ss)"
    using assms by (simp add: updateConsolidationSettings_def syncScheduledConsolidationJob_def db'_def Let_def)
  have row: "map_option u_consolidationEnabled (owner_row db' userId) = Some False"
    using assms(3,4) find_row_SomeD[OF assms(3)[unfolded owner_row_def]]
    by (simp add: owner_row_def db'_def find_row_update_where)
  have off: "userId \<notin> u_id ` set (filter u_consolidationEnabled (v_users db'))"
  proof
    assume "userId \<in> u_id ` set (filter u_consolidationEnabled (v_users db'))"
    then obtain y where y: "y \<in> set (update_where (\<lambda>x. u_id x = userId) (apply_settings inp) (v_users db))"
      "u_id y = userId" "u_consolidationEnabled y" by (auto simp: db'_def)
    show False by (rule updated_user[OF y(1)]) (use y(2,3) assms(4) in auto)
  qed
  obtain s where s: "s \<in> set ss" "sc_id s = consolidationSchedulerId userId"
    using assms(5) by (auto simp: scheduled_def list_ex_iff)
  have "s \<in> set (snd (syncScheduledConsolidationJobs env' db' ss))"
    using s off by (auto simp: syncScheduledConsolidationJobs_def intro!: sync_users_keeps)
  then have "scheduled userId (snd (syncScheduledConsolidationJobs env' db' ss))"
    using s(2) by (auto simp: scheduled_def list_ex_iff)
  then show ?thesis using upd row by blast
qed

section \<open>Embedding jobs\<close>

text \<open>An embedding job that succeeds after a failed attempt still shows the error of that attempt: the
  write that marks it SUCCEEDED leaves the column, unlike the one of a consolidation job.\<close>

theorem succeeded_embedding_keeps_error:
  assumes "job_row (fst s) jobRunId = Some j"
    and "process_embedding env began ended freshId userId memoryId jobRunId s = (Inr (), db', rows)"
  shows "\<exists>j'. job_row db' jobRunId = Some j' \<and> j_status j' = job_status.SUCCEEDED \<and> j_error j' = j_error j
    \<and> j_finishedAt j' = Some ended \<and> j_attempts j' = j_attempts j + 1"
  using assms
  by (auto simp: process_embedding_def start_job_def embedding_done_def job_row_write split: sum.splits prod.splits)

text \<open>What a successful embedding job leaves: nothing of the provider and model for a memory that may not be
  embedded, and a row with the hash of the memory's present text for one that may.\<close>

theorem embedding_is_current_after_job:
  assumes "find_row (\<lambda>m. m_id m = memoryId \<and> m_userId m = userId) (v_memories (fst s)) = Some m"
    and "process_embedding env began ended freshId userId memoryId jobRunId s = (Inr (), db', rows)"
    and "pred_option (\<lambda>g. gv_provider g = re_provider (we_retrieval env) \<and> gv_model g = re_model (we_retrieval env))
      (re_generate (we_retrieval env) (buildMemoryEmbeddingText m))"
  shows "(if isEmbeddable (we_retrieval env) m
     then list_ex (\<lambda>e. e_memoryId e = memoryId \<and> e_provider e = re_provider (we_retrieval env)
        \<and> e_model e = re_model (we_retrieval env)
        \<and> e_contentHash e = re_contentHash (we_retrieval env) (buildMemoryEmbeddingText m)) rows
     else list_all (\<lambda>e. \<not> (e_memoryId e = memoryId \<and> e_provider e = re_provider (we_retrieval env)
        \<and> e_model e = re_model (we_retrieval env))) rows)"
proof -
  have mid: "m_id m = memoryId" using find_row_SomeD[OF assms(1)] by simp
  have ms: "v_memories (snd (start_job began jobRunId (fst s))) = v_memories (fst s)"
    by (simp add: start_job_def write_job_def)
  obtain result where "generateForMemory (we_retrieval env) freshId userId memoryId (v_memories (fst s)) (snd s) = (Inr result, rows)"
    using assms(2) ms by (auto simp: process_embedding_def split: sum.splits prod.splits)
  then show ?thesis
    using assms(1,3) mid
    by (auto simp: generateForMemory_def Let_def upsertEmbedding_def list_ex_iff list_all_iff delete_where_def update_where_def
        split: if_splits option.splits)
qed

section \<open>Samples\<close>

definition sample_jobs_env :: "nat jobs_env" where
  "sample_jobs_env =
     \<lparr> jx_run = sample_run_env, jx_embedding = \<lparr> me_stringify = (\<lambda>_. []), me_queue = None \<rparr>,
       jx_queue = Some (\<lambda>_ _ _. Some ''b1''), jx_scheduler = (\<lambda>_. False) \<rparr>"

definition sample_configuration :: processing_configuration where
  "sample_configuration = resolveProcessingConfiguration no_keys (defaultProcessingSystems no_keys)"

definition failed_job :: job_run where
  "failed_job = sample_job \<lparr> j_status := job_status.FAILED, j_metadata :=
     [(''configuration'', configuration_json sample_configuration), (''sourceVersions'', JArr [])] \<rparr>"

definition failed_vault :: vault where
  "failed_vault = auto_vault \<lparr> v_jobRuns := [failed_job] \<rparr>"

lemma sample_retry_ok:
  "\<not> isl (fst (retryJob sample_jobs_env 20 ''u1'' ''j1'' failed_vault))"
  "next_id failed_vault \<notin> j_id ` set (v_jobRuns failed_vault)"
  "own_job failed_vault ''u1'' ''j1'' = Some failed_job"
  by code_simp+

lemma retry_adds_one_job_witness:
  "\<exists>resp db' j. retryJob sample_jobs_env 20 ''u1'' ''j1'' failed_vault = (Inr resp, db')
     \<and> v_jobRuns db' = [failed_job, j] \<and> j_userId j = ''u1''"
proof -
  obtain resp db' where r: "retryJob sample_jobs_env 20 ''u1'' ''j1'' failed_vault = (Inr resp, db')"
    using outcome_ok[OF sample_retry_ok(1)] by blast
  obtain j where "v_jobRuns db' = v_jobRuns failed_vault @ [j]" "j_userId j = ''u1''"
    using retry_adds_one_job[OF sample_retry_ok(2) r] by blast
  then show ?thesis using r by (simp add: failed_vault_def)
qed

lemma retry_resumes_run_witness:
  "\<exists>resp db'. retryJob sample_jobs_env 20 ''u1'' ''j1'' failed_vault = (Inr resp, db')
     \<and> run_configuration sample_run_env db' ''u1'' (j_metadata (jr_job resp)) = Inr sample_configuration
     \<and> original_sources (j_metadata (jr_job resp)) = Some []"
proof -
  obtain resp db' where r: "retryJob sample_jobs_env 20 ''u1'' ''j1'' failed_vault = (Inr resp, db')"
    using outcome_ok[OF sample_retry_ok(1)] by blast
  have "run_configuration sample_run_env db' ''u1'' (j_metadata (jr_job resp)) = Inr sample_configuration
     \<and> original_sources (j_metadata (jr_job resp)) = Some []
     \<and> map_option cs_trigger (jr_consolidation resp) = Some ''manual_retry''"
    by (rule retry_resumes_run[OF sample_retry_ok(2) r sample_retry_ok(3)])
      (simp_all add: failed_job_def sample_job_def sample_jobs_env_def)
  then show ?thesis using r by blast
qed

lemma sample_attempt_ok:
  "\<not> isl (fst (attempt_job sample_run_env sample_clock sample_measured ''u1'' ''j1'' auto_vault))"
  by code_simp

lemma finished_job_reports_run_witness:
  "\<exists>db' result. attempt_job sample_run_env sample_clock sample_measured ''u1'' ''j1'' auto_vault = (Inr (), db')
     \<and> map_option (\<lambda>x. jr_consolidation (toJobRunResponse x)) (job_row db' ''j1'') = Some (Some (reported result))"
proof -
  obtain db' where r: "attempt_job sample_run_env sample_clock sample_measured ''u1'' ''j1'' auto_vault = (Inr (), db')"
    using outcome_ok[OF sample_attempt_ok] by auto
  then show ?thesis
    using finished_job_reports_run[OF sample_job_row _ r] by (auto simp: sample_job_def)
qed

definition sample_created :: job_run where
  "sample_created = new_job 9 ''j1'' ''u1'' job_type.CONSOLIDATE_MEMORIES
     (created_metadata sample_run_env ''u1'' Trigger_manual sample_configuration consolidation_mode.AUTO_APPLY)"

lemma queued_write_hides_report_witness:
  "\<exists>resp details. fst (record_queued 9 sample_created None Trigger_manual ''b1'' auto_vault) = Inr resp
     \<and> jr_consolidation resp = Some details \<and> cs_actions details = []"
  using queued_write_hides_report[OF sample_job_row, of sample_created sample_run_env "''u1''" sample_configuration
      "consolidation_mode.AUTO_APPLY" 9 "''b1''"]
  by (auto simp: sample_job_def sample_created_def new_job_def)

definition good_scheduler :: "nat jobs_env" where
  "good_scheduler = sample_jobs_env \<lparr> jx_scheduler := (\<lambda>_. True) \<rparr>"

lemma settings_keep_schedules_witness:
  "\<exists>r db' ss'. updateConsolidationSettings good_scheduler ''u1'' \<lparr> su_enabled = Some False, su_mode = None \<rparr> auto_vault
      [consolidation_schedule good_scheduler ''u1''] = (Inr r, db', ss') \<and> schedules_match db' ss' \<and> ss' = []"
proof -
  have q: "jx_queue good_scheduler \<noteq> None" by (simp add: good_scheduler_def sample_jobs_env_def)
  have m: "schedules_match auto_vault [consolidation_schedule good_scheduler ''u1'']" by code_simp
  have e: "snd (snd (updateConsolidationSettings good_scheduler ''u1'' \<lparr> su_enabled = Some False, su_mode = None \<rparr>
      auto_vault [consolidation_schedule good_scheduler ''u1''])) = []"
    "\<not> isl (fst (updateConsolidationSettings good_scheduler ''u1'' \<lparr> su_enabled = Some False, su_mode = None \<rparr>
      auto_vault [consolidation_schedule good_scheduler ''u1'']))"
    by code_simp+
  obtain r db' ss' where r: "updateConsolidationSettings good_scheduler ''u1'' \<lparr> su_enabled = Some False, su_mode = None \<rparr>
      auto_vault [consolidation_schedule good_scheduler ''u1''] = (Inr r, db', ss')"
    using outcome_ok[OF e(2)] by (metis surj_pair)
  then show ?thesis using settings_keep_schedules[OF q m r] e(1) by simp
qed

lemma failed_disable_keeps_schedule_witness:
  "\<exists>db'. updateConsolidationSettings sample_jobs_env ''u1'' \<lparr> su_enabled = Some False, su_mode = None \<rparr> auto_vault
      [consolidation_schedule sample_jobs_env ''u1''] = (Inl (Internal ''queue''), db', [consolidation_schedule sample_jobs_env ''u1''])
     \<and> scheduled ''u1'' (snd (syncScheduledConsolidationJobs good_scheduler db' [consolidation_schedule sample_jobs_env ''u1'']))"
proof -
  have "owner_row auto_vault ''u1'' = Some (hd (v_users auto_vault))" by code_simp
  from failed_disable_keeps_schedule[OF _ _ this, of sample_jobs_env "\<lparr> su_enabled = Some False, su_mode = None \<rparr>"
      "[consolidation_schedule sample_jobs_env ''u1'']" good_scheduler]
  show ?thesis by (auto simp: sample_jobs_env_def scheduled_def consolidation_schedule_def)
qed

definition sample_worker :: "nat worker_env" where
  "sample_worker =
     \<lparr> we_retrieval = \<lparr> re_provider = ''local'', re_model = ''m'',
         re_generate = (\<lambda>_. Some \<lparr> gv_provider = ''local'', gv_model = ''m'', gv_vector = 0 \<rparr>),
         re_dimensions = (\<lambda>_. EMBEDDING_DIMENSIONS), re_similarity = (\<lambda>_ _. 1), re_contentHash = (\<lambda>s. s),
         re_contains = (\<lambda>_ _. True), re_maxSensitivity = memory_sensitivity.INTERNAL \<rparr>,
       we_metadata = (\<lambda>_. JNull) \<rparr>"

definition once_failed_vault :: vault where
  "once_failed_vault = auto_vault \<lparr> v_jobRuns := [sample_job \<lparr> j_type := job_type.GENERATE_EMBEDDING,
     j_status := job_status.FAILED, j_error := Some ''rate limited'' \<rparr>] \<rparr>"

lemma once_failed_ok:
  "process_embedding sample_worker 9 10 ''e1'' ''u1'' ''m1'' ''j1'' (once_failed_vault, [])
     = (Inr (), fst (snd (process_embedding sample_worker 9 10 ''e1'' ''u1'' ''m1'' ''j1'' (once_failed_vault, []))),
        snd (snd (process_embedding sample_worker 9 10 ''e1'' ''u1'' ''m1'' ''j1'' (once_failed_vault, []))))"
  "job_row once_failed_vault ''j1'' = Some (hd (v_jobRuns once_failed_vault))"
  "j_error (hd (v_jobRuns once_failed_vault)) = Some ''rate limited''"
  "find_row (\<lambda>m. m_id m = ''m1'' \<and> m_userId m = ''u1'') (v_memories once_failed_vault) = Some sample_memory"
  "isEmbeddable (we_retrieval sample_worker) sample_memory"
  by (simp_all add: process_embedding_def generateForMemory_def start_job_def once_failed_vault_def sample_job_def job_row_def auto_vault_def copies_vault_def sample_worker_def Let_def isEmbeddable_def shouldEmbedSensitivity_def sample_memory_def write_job_def)

lemma succeeded_embedding_keeps_error_witness:
  "\<exists>db' rows j'. process_embedding sample_worker 9 10 ''e1'' ''u1'' ''m1'' ''j1'' (once_failed_vault, []) = (Inr (), db', rows)
     \<and> job_row db' ''j1'' = Some j' \<and> j_status j' = job_status.SUCCEEDED \<and> j_error j' = Some ''rate limited''"
proof -
  obtain db' rows where r: "process_embedding sample_worker 9 10 ''e1'' ''u1'' ''m1'' ''j1'' (once_failed_vault, [])
      = (Inr (), db', rows)" using once_failed_ok(1) by blast
  have "job_row (fst (once_failed_vault, [] :: nat embedding list)) ''j1'' = Some (hd (v_jobRuns once_failed_vault))"
    using once_failed_ok(2) by simp
  from succeeded_embedding_keeps_error[OF this r]
  show ?thesis using r once_failed_ok(3) by auto
qed

lemma embedding_is_current_after_job_witness:
  "\<exists>db' rows. process_embedding sample_worker 9 10 ''e1'' ''u1'' ''m1'' ''j1'' (once_failed_vault, []) = (Inr (), db', rows)
     \<and> list_ex (\<lambda>e. e_memoryId e = ''m1'' \<and> e_contentHash e = buildMemoryEmbeddingText sample_memory) rows"
proof -
  obtain db' rows where r: "process_embedding sample_worker 9 10 ''e1'' ''u1'' ''m1'' ''j1'' (once_failed_vault, [])
      = (Inr (), db', rows)" using once_failed_ok(1) by blast
  have "find_row (\<lambda>m. m_id m = ''m1'' \<and> m_userId m = ''u1'') (v_memories (fst (once_failed_vault, [] :: nat embedding list)))
      = Some sample_memory" using once_failed_ok(4) by simp
  from embedding_is_current_after_job[OF this r]
  show ?thesis using r once_failed_ok(5) by (auto simp: sample_worker_def list_ex_iff)
qed

end
