(* ===== verification/Candidates.thy ===== *)
theory Candidates
  imports ConsolidationRun
begin

text \<open>
  \<open>apps/api/src/memory-processing\<close>, from a user's message to the candidates of its extraction: the
  contract of a provider (\<open>contracts.ts\<close>), the input it gets and the call that discloses it
  (\<open>extraction-provider.service.ts\<close>) and the checks its output has to pass (\<open>validation.ts\<close>).
\<close>

section \<open>Constants and contracts\<close>

definition extractionLeaseSlackMs :: int where "extractionLeaseSlackMs = 5000"
definition voiceFinalizationWindowMs :: int where "voiceFinalizationWindowMs = 60000"
definition extractionHistoryLimit :: nat where "extractionHistoryLimit = 6"
definition extractionContextCharacterLimit :: nat where "extractionContextCharacterLimit = 2000"
definition extractionConfidence :: rat where "extractionConfidence = 7 / 10"

datatype candidate_intent = Assertion | Remember | Confirmation | Correction | Retraction

datatype candidate_disposition = Eligible | Needs_clarification | Rejected

primrec intent_name :: "candidate_intent \<Rightarrow> string" where
  "intent_name Assertion = ''assertion''"
| "intent_name Remember = ''remember''"
| "intent_name Confirmation = ''confirmation''"
| "intent_name Correction = ''correction''"
| "intent_name Retraction = ''retraction''"

primrec disposition_name :: "candidate_disposition \<Rightarrow> string" where
  "disposition_name Eligible = ''eligible''"
| "disposition_name Needs_clarification = ''needs_clarification''"
| "disposition_name Rejected = ''rejected''"

record evidence =
  ev_messageId :: ident
  ev_start :: nat
  ev_end :: nat
  ev_quote :: string

record candidate =
  cd_id :: ident
  cd_title :: string
  cd_body :: string
  cd_kind :: memory_kind
  cd_categoryKeys :: "ident list"
  cd_sensitivity :: memory_sensitivity
  cd_expiresAt :: "string option"
  cd_temporalEvidence :: "string option"
  cd_intent :: candidate_intent
  cd_atomic :: bool
  cd_disposition :: candidate_disposition
  cd_reason :: string
  cd_evidence :: "evidence list"

definition sized :: "nat \<Rightarrow> nat \<Rightarrow> 'a list \<Rightarrow> bool" where
  "sized lo hi xs = (lo \<le> length xs \<and> length xs \<le> hi)"

text \<open>\<open>candidateSchema\<close> and \<open>extractionSchema\<close>, of what a typed value can still violate.\<close>

definition evidence_schema :: "evidence \<Rightarrow> bool" where
  "evidence_schema e = (0 < ev_end e \<and> sized 1 6000 (ev_quote e))"

definition candidate_schema :: "candidate \<Rightarrow> bool" where
  "candidate_schema c =
     (sized 1 80 (cd_id c) \<and> sized 1 120 (cd_title c) \<and> sized 1 2000 (cd_body c)
      \<and> cd_kind c \<in> {memory_kind.FACT, memory_kind.PREFERENCE, memory_kind.CONSTRAINT, memory_kind.PROJECT_CONTEXT,
           memory_kind.GOAL, memory_kind.INSTRUCTION}
      \<and> sized 1 8 (cd_categoryKeys c)
      \<and> cd_sensitivity c \<in> {memory_sensitivity.LOW, memory_sensitivity.INTERNAL, memory_sensitivity.SENSITIVE,
           memory_sensitivity.RESTRICTED}
      \<and> length (cd_reason c) \<le> 120 \<and> sized 1 4 (cd_evidence c) \<and> list_all evidence_schema (cd_evidence c))"

record extraction_output =
  xo_candidates :: "candidate list"
  xo_partial :: bool
  xo_diagnostics :: "(string \<times> json) list"

definition extraction_schema :: "extraction_output \<Rightarrow> bool" where
  "extraction_schema out = (list_all candidate_schema (xo_candidates out) \<and> length (xo_candidates out) \<le> 12)"

datatype channel = Chat | Voice

primrec channel_name :: "channel \<Rightarrow> string" where
  "channel_name Chat = ''chat''"
| "channel_name Voice = ''voice''"

record turn =
  tn_id :: ident
  tn_role :: string
  tn_content :: string

record extraction_input =
  xi_source_id :: ident
  xi_source_content :: string
  xi_channel :: channel
  xi_context :: "turn list"
  xi_categories :: "category list"
  xi_now :: time
  xi_timezone :: string

text \<open>Values as the JSON that is scanned and sent.\<close>

definition evidence_json :: "evidence \<Rightarrow> json" where
  "evidence_json e =
     JObj [(''messageId'', JStr (ev_messageId e)), (''start'', JNum (of_nat (ev_start e))),
       (''end'', JNum (of_nat (ev_end e))), (''quote'', JStr (ev_quote e))]"

definition candidate_fields :: "candidate \<Rightarrow> (string \<times> json) list" where
  "candidate_fields c =
     [(''id'', JStr (cd_id c)), (''title'', JStr (cd_title c)), (''body'', JStr (cd_body c)),
      (''kind'', JStr (kind_name (cd_kind c))), (''categoryKeys'', json_strings (cd_categoryKeys c)),
      (''sensitivity'', JStr (sensitivity_name (cd_sensitivity c))), (''expiresAt'', json_opt (cd_expiresAt c)),
      (''temporalEvidence'', json_opt (cd_temporalEvidence c)), (''intent'', JStr (intent_name (cd_intent c))),
      (''atomic'', JBool (cd_atomic c)), (''disposition'', JStr (disposition_name (cd_disposition c))),
      (''reason'', JStr (cd_reason c)), (''evidence'', JArr (map evidence_json (cd_evidence c)))]"

definition input_fields :: "extraction_input \<Rightarrow> (string \<times> json) list" where
  "input_fields x =
     [(''source'', JObj [(''id'', JStr (xi_source_id x)), (''content'', JStr (xi_source_content x))]),
      (''channel'', JStr (channel_name (xi_channel x))),
      (''context'', JArr (map (\<lambda>t. JObj [(''id'', JStr (tn_id t)), (''role'', JStr (tn_role t)),
          (''content'', JStr (tn_content t))]) (xi_context x))),
      (''categories'', JArr (map (\<lambda>c. JObj [(''key'', JStr (cat_key c)), (''name'', JStr (cat_name c))]) (xi_categories x))),
      (''now'', JTime (xi_now x)), (''timezone'', JStr (xi_timezone x))]"

section \<open>Validation\<close>

text \<open>What the checks use of \<open>Date\<close>: \<open>getTime\<close> of a parsed text (\<open>None\<close> for NaN), and the day of the ISO
  text of a parsed date.\<close>

record date_env =
  de_getTime :: "string \<Rightarrow> time option"
  de_isoDay :: "string \<Rightarrow> string"

definition js_slice :: "nat \<Rightarrow> nat \<Rightarrow> string \<Rightarrow> string" where
  "js_slice i j s = take (j - i) (drop i s)"

definition js_includes :: "string \<Rightarrow> string \<Rightarrow> bool" where
  "js_includes s t = list_ex (\<lambda>n. take (length t) (drop n s) = t) [0 ..< Suc (length s)]"

text \<open>The expression that an expiration has to match: a calendar day, a \<open>T\<close>, no line break, and a zone at
  the end.\<close>

definition digit :: "char \<Rightarrow> bool" where
  "digit c = (let n = of_char c :: nat in 48 \<le> n \<and> n \<le> 57)"

definition line_break :: "char \<Rightarrow> bool" where
  "line_break c = (let n = of_char c :: nat in n = 10 \<or> n = 13)"

definition day_prefix :: "string \<Rightarrow> bool" where
  "day_prefix s =
     (length s \<ge> 11 \<and> list_all digit (take 4 s) \<and> s ! 4 = CHR ''-'' \<and> digit (s ! 5) \<and> digit (s ! 6)
      \<and> s ! 7 = CHR ''-'' \<and> digit (s ! 8) \<and> digit (s ! 9) \<and> s ! 10 = CHR ''T'')"

definition zone_offset :: "string \<Rightarrow> bool" where
  "zone_offset z =
     (length z = 6 \<and> z ! 0 \<in> {CHR ''+'', CHR ''-''} \<and> digit (z ! 1) \<and> digit (z ! 2) \<and> z ! 3 = CHR '':''
      \<and> digit (z ! 4) \<and> digit (z ! 5))"

definition iso_with_zone :: "string \<Rightarrow> bool" where
  "iso_with_zone s =
     (day_prefix s
      \<and> (let rest = drop 11 s
         in (rest \<noteq> [] \<and> last rest = CHR ''Z'' \<and> \<not> list_ex line_break (butlast rest))
            \<or> (length rest \<ge> 6 \<and> zone_offset (drop (length rest - 6) rest)
               \<and> \<not> list_ex line_break (take (length rest - 6) rest))))"

definition future_expiration :: "date_env \<Rightarrow> extraction_input \<Rightarrow> candidate \<Rightarrow> string \<Rightarrow> bool" where
  "future_expiration de inp c expiresAt =
     ((case cd_temporalEvidence c of
         None \<Rightarrow> False | Some t \<Rightarrow> t \<noteq> [] \<and> js_includes (xi_source_content inp) t)
      \<and> iso_with_zone expiresAt
      \<and> (case de_getTime de expiresAt of
           None \<Rightarrow> False
         | Some t \<Rightarrow> de_isoDay de (take 10 expiresAt) = take 10 expiresAt \<and> xi_now inp < t))"

definition secret_candidate :: "processing_env \<Rightarrow> candidate \<Rightarrow> bool" where
  "secret_candidate env c = secret_in_payload env (candidate_fields c)"

definition cited_text :: "extraction_input \<Rightarrow> candidate \<Rightarrow> evidence \<Rightarrow> string option" where
  "cited_text inp c e =
     (if ev_messageId e = xi_source_id inp then Some (xi_source_content inp)
      else if cd_intent c = Confirmation
      then map_option tn_content (find_row (\<lambda>t. tn_id t = ev_messageId e) (xi_context inp))
      else None)"

definition evidence_valid :: "extraction_input \<Rightarrow> candidate \<Rightarrow> evidence \<Rightarrow> bool" where
  "evidence_valid inp c e =
     (case cited_text inp c e of
        None \<Rightarrow> False
      | Some content \<Rightarrow> ev_start e < ev_end e \<and> ev_end e \<le> length content
          \<and> js_slice (ev_start e) (ev_end e) content = ev_quote e)"

definition rejected_for :: "string \<Rightarrow> candidate \<Rightarrow> candidate" where
  "rejected_for reason c = c \<lparr> cd_disposition := Rejected, cd_reason := reason \<rparr>"

definition validateCandidate :: "processing_env \<Rightarrow> date_env \<Rightarrow> candidate \<Rightarrow> extraction_input \<Rightarrow> candidate" where
  "validateCandidate env de c inp =
     (if secret_candidate env c \<or> cd_sensitivity c = memory_sensitivity.RESTRICTED
      then rejected_for ''secret_like_content'' c
      else if list_ex (\<lambda>key. \<not> list_ex (\<lambda>k. cat_key k = key) (xi_categories inp)) (cd_categoryKeys c)
      then rejected_for ''unknown_category'' c
      else if \<not> list_ex (\<lambda>e. ev_messageId e = xi_source_id inp) (cd_evidence c)
      then rejected_for ''missing_source_evidence'' c
      else if list_ex (\<lambda>e. \<not> evidence_valid inp c e) (cd_evidence c)
      then rejected_for ''invalid_source_evidence'' c
      else if \<not> cd_atomic c
      then c \<lparr> cd_disposition := Needs_clarification, cd_reason := ''non_atomic_claim'' \<rparr>
      else case cd_expiresAt c of
             None \<Rightarrow> c
           | Some expiresAt \<Rightarrow>
               if expiresAt \<noteq> [] \<and> \<not> future_expiration de inp c expiresAt
               then c \<lparr> cd_expiresAt := None, cd_disposition := Needs_clarification, cd_reason := ''ambiguous_expiration'' \<rparr>
               else c)"

text \<open>What a provider or one of the services throws.  A provider's error has a name and perhaps an HTTP
  status.\<close>

datatype run_failure = Service_error processing_error | Provider_error string "nat option"

definition thrown_of_failure :: "run_failure \<Rightarrow> thrown" where
  "thrown_of_failure f =
     (case f of
        Service_error e \<Rightarrow> thrown_of e
      | Provider_error name status \<Rightarrow>
          if name = ''TimeoutError'' \<or> name = ''AbortError'' then Thrown_timeout
          else if status = Some 429 then Thrown_rate_limited else Thrown_other)"

section \<open>ExtractionProviderService\<close>

text \<open>The rows of a conversation.\<close>

datatype chat_role = Role_user | Role_assistant

primrec role_name :: "chat_role \<Rightarrow> string" where
  "role_name Role_user = ''USER''"
| "role_name Role_assistant = ''ASSISTANT''"

record chat_message =
  ms_id :: ident
  ms_sessionId :: ident
  ms_userId :: ident
  ms_role :: chat_role
  ms_content :: string
  ms_sourceTimezone :: "string option"
  ms_voiceSessionId :: "ident option"
  ms_processing :: "(string \<times> json) list"
  ms_createdAt :: time

record voice_session =
  vs_id :: ident
  vs_userId :: ident
  vs_endedAt :: "time option"
  vs_extractionFingerprint :: "string option"

definition loadSource :: "chat_message list \<Rightarrow> ident \<Rightarrow> ident \<Rightarrow> error + chat_message" where
  "loadSource messages userId sourceMessageId =
     (case find_row (\<lambda>m. ms_id m = sourceMessageId \<and> ms_userId m = userId \<and> ms_role m = Role_user) messages of
        None \<Rightarrow> Inl (NotFound ''Source turn not found'')
      | Some m \<Rightarrow> Inr m)"

text \<open>The order of two texts in the database.\<close>

fun string_less :: "string \<Rightarrow> string \<Rightarrow> bool" where
  "string_less _ [] = False"
| "string_less [] (_ # _) = True"
| "string_less (a # as) (b # bs) =
     ((of_char a :: nat) < of_char b \<or> (a = b \<and> string_less as bs))"

definition earlier :: "chat_message \<Rightarrow> chat_message \<Rightarrow> bool" where
  "earlier source m =
     (ms_createdAt m < ms_createdAt source \<or> (ms_createdAt m = ms_createdAt source \<and> string_less (ms_id m) (ms_id source)))"

definition extraction_history :: "chat_message list \<Rightarrow> ident \<Rightarrow> chat_message \<Rightarrow> chat_message list" where
  "extraction_history messages userId source =
     take extractionHistoryLimit (sort_key (\<lambda>m. - ms_createdAt m)
       (filter (\<lambda>m. ms_userId m = userId \<and> ms_sessionId m = ms_sessionId source \<and> earlier source m) messages))"

definition voice_blocked ::
  "voice_session list \<Rightarrow> ident \<Rightarrow> chat_message \<Rightarrow> string \<Rightarrow> processing_configuration \<Rightarrow> ident \<Rightarrow> string option" where
  "voice_blocked sessions userId source run_fingerprint configuration voiceSessionId =
     (case find_row (\<lambda>v. vs_id v = voiceSessionId \<and> vs_userId v = userId) sessions of
        None \<Rightarrow> Some ''voice_transcript_arrived_too_late''
      | Some v \<Rightarrow>
          if (case vs_endedAt v of None \<Rightarrow> False
              | Some t \<Rightarrow> ms_createdAt source - t > voiceFinalizationWindowMs)
          then Some ''voice_transcript_arrived_too_late''
          else if truthy (vs_extractionFingerprint v)
            \<and> vs_extractionFingerprint v \<noteq> Some (if pf_extractionFingerprint configuration \<noteq> []
                 then pf_extractionFingerprint configuration else run_fingerprint)
          then Some ''reconnect_voice_session''
          else None)"

definition prepareInput ::
  "processing_env \<Rightarrow> vault \<Rightarrow> chat_message list \<Rightarrow> voice_session list \<Rightarrow> ident \<Rightarrow> chat_message \<Rightarrow> string
     \<Rightarrow> processing_configuration \<Rightarrow> channel \<Rightarrow> run_failure + extraction_input" where
  "prepareInput env db messages sessions userId source run_fingerprint configuration channel =
     (case (if truthy (ms_voiceSessionId source)
            then voice_blocked sessions userId source run_fingerprint configuration (the (ms_voiceSessionId source))
            else None) of
        Some reason \<Rightarrow> Inl (Service_error (Blocked reason))
      | None \<Rightarrow>
          if \<not> et_available (pf_extraction configuration)
          then Inl (Service_error (Blocked ''provider_not_configured''))
          else if \<not> truthy (px_OPENAI_API_KEY env)
            \<or> (et_system (pf_extraction configuration) = System_1 \<and> \<not> truthy (px_TYPESAFE_API_KEY env))
          then Inl (Service_error (Blocked ''configuration_unavailable''))
          else Inr \<lparr> xi_source_id = ms_id source, xi_source_content = ms_content source,
                 xi_channel = (if truthy (ms_voiceSessionId source) then Voice else channel),
                 xi_context = map (\<lambda>m. \<lparr> tn_id = ms_id m, tn_role = role_name (ms_role m),
                     tn_content = take extractionContextCharacterLimit (ms_content m) \<rparr>)
                   (rev (extraction_history messages userId source)),
                 xi_categories = v_categories db, xi_now = ms_createdAt source,
                 xi_timezone = (case ms_sourceTimezone source of Some z \<Rightarrow> z | None \<Rightarrow> ''UTC'') \<rparr>)"

text \<open>A candidate whose id an earlier one has is rejected.\<close>

fun validate_all ::
  "processing_env \<Rightarrow> date_env \<Rightarrow> extraction_input \<Rightarrow> ident list \<Rightarrow> candidate list \<Rightarrow> candidate list" where
  "validate_all env de inp ids [] = []"
| "validate_all env de inp ids (c # cs) =
     (let valid = validateCandidate env de c inp
      in if cd_id c \<in> set ids
         then rejected_for ''duplicate_candidate_id'' valid # validate_all env de inp ids cs
         else valid # validate_all env de inp (cd_id c # ids) cs)"

text \<open>The provider is outside: it gets the input and the configuration and returns an output or throws.  The
  later checks of its own calls are part of it.\<close>

definition invokeProvider ::
  "processing_env \<Rightarrow> date_env \<Rightarrow> (extraction_input \<Rightarrow> processing_configuration \<Rightarrow> run_failure + extraction_output)
     \<Rightarrow> vault \<Rightarrow> ident \<Rightarrow> extraction_input \<Rightarrow> processing_configuration \<Rightarrow> run_failure + extraction_output" where
  "invokeProvider env de extract db userId inp configuration =
     (case check env db userId Scope_extraction (et_processors (pf_extraction configuration))
             (Some (input_fields inp)) of
        Inl e \<Rightarrow> Inl (Service_error e)
      | Inr _ \<Rightarrow>
          (case extract inp configuration of
             Inl f \<Rightarrow> Inl f
           | Inr out \<Rightarrow>
               if extraction_schema out
               then Inr (out \<lparr> xo_candidates := validate_all env de inp [] (xo_candidates out) \<rparr>)
               else Inl (Provider_error ''ZodError'' None)))"

section \<open>What passes\<close>

lemma js_includes_iff: "js_includes s t \<longleftrightarrow> sublist t s"
proof
  assume "js_includes s t"
  then obtain n where "take (length t) (drop n s) = t" by (auto simp: js_includes_def list_ex_iff)
  then have "s = take n s @ t @ drop (length t) (drop n s)" by (metis append_take_drop_id)
  then show "sublist t s" unfolding sublist_def by blast
next
  assume "sublist t s"
  then obtain a b where s: "s = a @ t @ b" unfolding sublist_def by blast
  then have "take (length t) (drop (length a) s) = t" by simp
  moreover have "length a \<in> set [0 ..< Suc (length s)]" using s by simp
  ultimately show "js_includes s t" unfolding js_includes_def list_ex_iff by blast
qed

lemma rejected_for_disposition [simp]: "cd_disposition (rejected_for r c) = Rejected" "cd_id (rejected_for r c) = cd_id c"
  by (simp_all add: rejected_for_def)

lemma validate_id [simp]: "cd_id (validateCandidate env de c inp) = cd_id c"
  by (simp add: validateCandidate_def split: option.split)

text \<open>A claim the owner made: in the text of the message, of categories the owner has, one at a time, and with no
  expiration or one the message supports.\<close>

definition grounded :: "date_env \<Rightarrow> extraction_input \<Rightarrow> candidate \<Rightarrow> bool" where
  "grounded de inp c =
     (cd_sensitivity c \<noteq> memory_sensitivity.RESTRICTED
      \<and> set (cd_categoryKeys c) \<subseteq> cat_key ` set (xi_categories inp)
      \<and> (\<exists>e\<in>set (cd_evidence c). ev_messageId e = xi_source_id inp)
      \<and> (\<forall>e\<in>set (cd_evidence c). \<exists>content. cited_text inp c e = Some content \<and> sublist (ev_quote e) content)
      \<and> cd_atomic c
      \<and> (case cd_expiresAt c of None \<Rightarrow> True | Some x \<Rightarrow> x = [] \<or> (\<exists>t. de_getTime de x = Some t \<and> xi_now inp < t)))"

lemma evidence_valid_quote: "evidence_valid inp c e \<Longrightarrow> \<exists>content. cited_text inp c e = Some content \<and> sublist (ev_quote e) content"
  by (auto simp: evidence_valid_def js_slice_def split: option.splits)
    (metis sublist_order.order.trans sublist_drop sublist_take)

lemma validate_eligible:
  assumes "cd_disposition (validateCandidate env de c inp) = Eligible"
  shows "validateCandidate env de c inp = c \<and> \<not> secret_candidate env c \<and> grounded de inp c"
proof -
  have ok: "\<not> (secret_candidate env c \<or> cd_sensitivity c = memory_sensitivity.RESTRICTED)"
    "\<not> list_ex (\<lambda>key. \<not> list_ex (\<lambda>k. cat_key k = key) (xi_categories inp)) (cd_categoryKeys c)"
    "list_ex (\<lambda>e. ev_messageId e = xi_source_id inp) (cd_evidence c)"
    "\<not> list_ex (\<lambda>e. \<not> evidence_valid inp c e) (cd_evidence c)" "cd_atomic c"
    "cd_expiresAt c = Some x \<Longrightarrow> x = [] \<or> future_expiration de inp c x" for x
    using assms by (auto simp: validateCandidate_def split: if_splits)
  have keys: "set (cd_categoryKeys c) \<subseteq> cat_key ` set (xi_categories inp)"
    using ok(2) by (force simp: list_ex_iff)
  have quotes: "\<forall>e\<in>set (cd_evidence c). \<exists>content. cited_text inp c e = Some content \<and> sublist (ev_quote e) content"
    using ok(4) evidence_valid_quote by (auto simp: list_ex_iff)
  have expiry: "case cd_expiresAt c of None \<Rightarrow> True | Some x \<Rightarrow> x = [] \<or> (\<exists>t. de_getTime de x = Some t \<and> xi_now inp < t)"
    using ok(6) by (auto simp: future_expiration_def split: option.splits)
  have "validateCandidate env de c inp = c" using ok by (auto simp: validateCandidate_def split: option.split)
  then show ?thesis using ok(1,3,5) keys quotes expiry by (auto simp: grounded_def list_ex_iff)
qed

lemma validate_all_members:
  assumes "c' \<in> set (validate_all env de inp ids cs)" "cd_disposition c' \<noteq> Rejected"
  shows "cd_id c' \<notin> set ids \<and> (\<exists>c\<in>set cs. c' = validateCandidate env de c inp)"
  using assms(1)
proof (induction cs arbitrary: ids)
  case (Cons c cs)
  show ?case
  proof (cases "cd_id c \<in> set ids \<or> c' \<noteq> validateCandidate env de c inp")
    case True
    then have "c' \<in> set (validate_all env de inp ids cs) \<or> c' \<in> set (validate_all env de inp (cd_id c # ids) cs)"
      using Cons.prems assms(2) by (auto simp: Let_def split: if_splits)
    then show ?thesis using Cons.IH by fastforce
  qed auto
qed simp

lemma validate_all_distinct:
  "distinct (map cd_id (filter (\<lambda>c. cd_disposition c \<noteq> Rejected) (validate_all env de inp ids cs)))"
proof (induction cs arbitrary: ids)
  case (Cons c cs)
  have "cd_id c \<notin> cd_id ` set (filter (\<lambda>c. cd_disposition c \<noteq> Rejected) (validate_all env de inp (cd_id c # ids) cs))"
  proof
    assume "cd_id c \<in> cd_id ` set (filter (\<lambda>c. cd_disposition c \<noteq> Rejected) (validate_all env de inp (cd_id c # ids) cs))"
    then obtain c' where "c' \<in> set (validate_all env de inp (cd_id c # ids) cs)" "cd_disposition c' \<noteq> Rejected"
      "cd_id c' = cd_id c" by auto
    then show False using validate_all_members by fastforce
  qed
  then show ?case using Cons.IH by (simp add: Let_def)
qed simp

text \<open>C13. What a provider returns is used only as far as the owner said it: an eligible candidate quotes the source
  message word for word, names categories of the vault, holds one claim, is not restricted and shows no secret, and
  its expiration lies after the message.  No two candidates that are not rejected share an id.\<close>

theorem eligible_candidates_are_grounded:
  assumes "invokeProvider env de extract db userId inp configuration = Inr out"
  shows "(\<forall>c\<in>set (xo_candidates out). cd_disposition c = Eligible \<longrightarrow> grounded de inp c \<and> \<not> secret_candidate env c)
    \<and> distinct (map cd_id (filter (\<lambda>c. cd_disposition c \<noteq> Rejected) (xo_candidates out)))
    \<and> check env db userId Scope_extraction (et_processors (pf_extraction configuration)) (Some (input_fields inp)) = Inr ()"
proof -
  from assms obtain raw where out: "out = raw \<lparr> xo_candidates := validate_all env de inp [] (xo_candidates raw) \<rparr>"
    and ok: "check env db userId Scope_extraction (et_processors (pf_extraction configuration)) (Some (input_fields inp)) = Inr ()"
    by (auto simp: invokeProvider_def split: sum.splits if_splits)
  have "grounded de inp c \<and> \<not> secret_candidate env c" if c: "c \<in> set (xo_candidates out)" "cd_disposition c = Eligible" for c
  proof -
    obtain c0 where "c = validateCandidate env de c0 inp"
      using c validate_all_members[of c env de inp "[]" "xo_candidates raw"] by (force simp: out)
    then show ?thesis using validate_eligible[of env de c0 inp] c(2) by simp
  qed
  then show ?thesis using ok validate_all_distinct by (auto simp: out)
qed

definition sample_dates :: date_env where
  "sample_dates = \<lparr> de_getTime = (\<lambda>_. None), de_isoDay = (\<lambda>s. s) \<rparr>"

definition sample_message :: chat_message where
  "sample_message =
     \<lparr> ms_id = ''t1'', ms_sessionId = ''s1'', ms_userId = ''u1'', ms_role = Role_user, ms_content = ''I use emacs'',
       ms_sourceTimezone = None, ms_voiceSessionId = None, ms_processing = [], ms_createdAt = 4 \<rparr>"

definition sample_claim :: candidate where
  "sample_claim =
     \<lparr> cd_id = ''k1'', cd_title = ''Ed'', cd_body = ''Emacs'', cd_kind = memory_kind.FACT,
       cd_categoryKeys = [''work''], cd_sensitivity = memory_sensitivity.LOW, cd_expiresAt = None,
       cd_temporalEvidence = None, cd_intent = Assertion, cd_atomic = True, cd_disposition = Eligible, cd_reason = [],
       cd_evidence = [\<lparr> ev_messageId = ''t1'', ev_start = 2, ev_end = 5, ev_quote = ''use'' \<rparr>] \<rparr>"

definition sample_extraction_input :: extraction_input where
  "sample_extraction_input =
     \<lparr> xi_source_id = ''t1'', xi_source_content = ''I use emacs'', xi_channel = Chat, xi_context = [],
       xi_categories = [work_category, health_category], xi_now = 4, xi_timezone = ''UTC'' \<rparr>"

text \<open>The provider returns the claim twice.\<close>

definition sample_extract :: "extraction_input \<Rightarrow> processing_configuration \<Rightarrow> run_failure + extraction_output" where
  "sample_extract = (\<lambda>_ _. Inr \<lparr> xo_candidates = [sample_claim, sample_claim], xo_partial = False, xo_diagnostics = [] \<rparr>)"

lemma sample_extraction_prepared:
  "prepareInput sample_processing_env sample_vault [sample_message] [] ''u1'' sample_message ''f'' sample_default Chat
     = Inr sample_extraction_input"
  by code_simp

lemma sample_extraction_check: "check sample_processing_env sample_vault ''u1'' Scope_extraction
    (et_processors (pf_extraction sample_default)) (Some v) = Inr ()"
proof -
  have "task_available Scope_extraction sample_default" by code_simp
  then show ?thesis by (simp add: check_def sample_no_secret sample_choice_ok(3))
qed

lemma sample_claim_schema: "extraction_schema \<lparr> xo_candidates = [sample_claim, sample_claim], xo_partial = False, xo_diagnostics = [] \<rparr>"
  by code_simp

lemma sample_claim_valid: "validateCandidate sample_processing_env sample_dates sample_claim sample_extraction_input = sample_claim"
proof -
  have "\<not> secret_candidate sample_processing_env sample_claim" by (simp add: secret_candidate_def sample_no_secret)
  moreover have "\<not> list_ex (\<lambda>e. \<not> evidence_valid sample_extraction_input sample_claim e) (cd_evidence sample_claim)" by code_simp
  moreover have "\<not> list_ex (\<lambda>key. \<not> list_ex (\<lambda>k. cat_key k = key) (xi_categories sample_extraction_input)) (cd_categoryKeys sample_claim)"
    by code_simp
  moreover have "list_ex (\<lambda>e. ev_messageId e = xi_source_id sample_extraction_input) (cd_evidence sample_claim)"
    "cd_sensitivity sample_claim \<noteq> memory_sensitivity.RESTRICTED" "cd_atomic sample_claim" "cd_expiresAt sample_claim = None"
    by code_simp+
  ultimately show ?thesis unfolding validateCandidate_def by simp
qed

lemma sample_extracted:
  "invokeProvider sample_processing_env sample_dates sample_extract sample_vault ''u1'' sample_extraction_input sample_default
     = Inr \<lparr> xo_candidates = [sample_claim, rejected_for ''duplicate_candidate_id'' sample_claim], xo_partial = False,
             xo_diagnostics = [] \<rparr>"
  by (simp add: invokeProvider_def sample_extraction_check sample_extract_def sample_claim_schema sample_claim_valid)

lemma eligible_candidates_are_grounded_witness:
  "grounded sample_dates sample_extraction_input sample_claim"
proof -
  have "cd_disposition sample_claim = Eligible" by (simp add: sample_claim_def)
  then show ?thesis using eligible_candidates_are_grounded[OF sample_extracted] by simp
qed

end
