(* ===== verification/DataControl.thy ===== *)
theory DataControl
  imports Jobs Policies
begin

text \<open>
  \<open>apps/api/src/data-control\<close>: the export of a vault as a file, the preview and the import of one.  A
  category's description and id are not part of the model; neither are the extraction runs, consents
  and display names an export carries and an import ignores.
\<close>

section \<open>The file\<close>

definition exportSchemaVersion :: string where "exportSchemaVersion = ''funes-vault.export.v2''"

text \<open>The memory of a file: what \<open>toMemoryResponse\<close> shows of a row.  The keys repeat the categories in an
  export; a file from elsewhere may have others.\<close>

record file_memory = memory +
  fm_categoryKeys :: "ident list"

record export_query =
  eq_categoryKeys :: "ident list"
  eq_sensitivity :: "memory_sensitivity option"
  eq_createdAfter :: "time option"
  eq_createdBefore :: "time option"
  eq_includeAuditEvents :: bool
  eq_includeArchived :: bool

record export_file =
  xf_exportedAt :: time
  xf_sourceUserId :: ident
  xf_email :: "string option"
  xf_filters :: export_query
  xf_categories :: "category list"
  xf_memories :: "file_memory list"
  xf_clients :: "client list"
  xf_policies :: "policy list"
  xf_auditEvents :: "audit_event list option"

section \<open>VaultExportService\<close>

definition exported :: "ident \<Rightarrow> export_query \<Rightarrow> memory \<Rightarrow> bool" where
  "exported userId q m =
     (m_userId m = userId
      \<and> m_status m \<notin> set (if eq_includeArchived q then [memory_status.DELETED]
                           else [memory_status.DELETED, memory_status.ARCHIVED])
      \<and> (eq_categoryKeys q = [] \<or> list_ex (\<lambda>c. cat_key c \<in> set (eq_categoryKeys q)) (m_categories m))
      \<and> (case eq_sensitivity q of None \<Rightarrow> True | Some s \<Rightarrow> m_sensitivity m = s)
      \<and> (case eq_createdAfter q of None \<Rightarrow> True | Some t \<Rightarrow> t \<le> m_createdAt m)
      \<and> (case eq_createdBefore q of None \<Rightarrow> True | Some t \<Rightarrow> m_createdAt m \<le> t))"

definition to_file_memory :: "memory \<Rightarrow> file_memory" where
  "to_file_memory m =
     (let cs = by_name (m_categories m)
      in memory.extend (m \<lparr> m_categories := cs \<rparr>) \<lparr> fm_categoryKeys = map cat_key cs \<rparr>)"

definition filtered :: "export_query \<Rightarrow> bool" where
  "filtered q = (eq_categoryKeys q \<noteq> [] \<or> eq_sensitivity q \<noteq> None \<or> eq_createdAfter q \<noteq> None
                 \<or> eq_createdBefore q \<noteq> None)"

definition newest_first :: "('r \<Rightarrow> time) \<Rightarrow> 'r list \<Rightarrow> 'r list" where
  "newest_first f rows = sort_key (\<lambda>r. - f r) rows"

definition exportVault :: "time \<Rightarrow> ident \<Rightarrow> export_query \<Rightarrow> vault \<Rightarrow> export_file" where
  "exportVault now userId q db =
     (let memories = newest_first m_updatedAt (filter (exported userId q) (v_memories db));
          keys = concat (map (\<lambda>m. map cat_key (m_categories m)) memories);
          categories = by_name (v_categories db)
      in \<lparr> xf_exportedAt = now, xf_sourceUserId = userId, xf_email = map_option u_email (owner_row db userId),
           xf_filters = q,
           xf_categories = (if filtered q then filter (\<lambda>c. cat_key c \<in> set keys) categories else categories),
           xf_memories = map to_file_memory memories,
           xf_clients = map (\<lambda>c. c \<lparr> c_tokenHash := None \<rparr>)
             (newest_first c_updatedAt (filter (\<lambda>c. c_userId c = userId) (v_clients db))),
           xf_policies = newest_first p_updatedAt (filter (\<lambda>p. p_userId p = userId) (v_policies db)),
           xf_auditEvents = (if eq_includeAuditEvents q
             then Some (newest_first ae_createdAt (filter (\<lambda>e. ae_userId e = userId) (auditEvents db))) else None) \<rparr>)"

section \<open>import-mappers\<close>

text \<open>\<open>toUpperCase\<close> on the code units whose capital is a code unit of the model.\<close>

definition js_upper_char :: "char \<Rightarrow> char" where
  "js_upper_char c =
     (let n = of_char c :: nat
      in if (97 \<le> n \<and> n \<le> 122) \<or> (224 \<le> n \<and> n \<le> 254 \<and> n \<noteq> 247) then char_of (n - 32) else c)"

fun split_char :: "char \<Rightarrow> string \<Rightarrow> string list" where
  "split_char sep [] = [[]]"
| "split_char sep (c # cs) =
     (if c = sep then [] # split_char sep cs
      else (case split_char sep cs of [] \<Rightarrow> [[c]] | part # parts \<Rightarrow> (c # part) # parts))"

definition titleFromKey :: "string \<Rightarrow> string" where
  "titleFromKey key =
     js_join '' '' (map (\<lambda>part. map js_upper_char (take 1 part) @ drop 1 part)
       (filter (\<lambda>part. part \<noteq> []) (split_char (CHR ''_'') key)))"

text \<open>\<open>Map.set\<close>, and the values in the order of the first insertion.\<close>

definition set_category :: "category \<Rightarrow> (ident \<times> category) list \<Rightarrow> (ident \<times> category) list" where
  "set_category c acc = upsert (cat_key c) c acc"

definition set_key :: "ident \<Rightarrow> (ident \<times> category) list \<Rightarrow> (ident \<times> category) list" where
  "set_key key acc =
     (if map_of acc key = None then upsert key \<lparr> cat_key = key, cat_name = titleFromKey key \<rparr> acc else acc)"

definition file_categories :: "export_file \<Rightarrow> (ident \<times> category) list" where
  "file_categories file =
     fold (\<lambda>m acc. fold set_key (fm_categoryKeys m) (fold set_category (m_categories m) acc))
       (xf_memories file) (fold set_category (xf_categories file) [])"

definition exportCategoryDefinitions :: "export_file \<Rightarrow> category list" where
  "exportCategoryDefinitions file = map snd (file_categories file)"

definition expired_by :: "time \<Rightarrow> 'a memory_scheme \<Rightarrow> bool" where
  "expired_by now m = (case m_expiresAt m of None \<Rightarrow> False | Some e \<Rightarrow> e \<le> now)"

definition importedActiveStatus :: "time \<Rightarrow> 'a memory_scheme \<Rightarrow> memory_status" where
  "importedActiveStatus now m =
     (if m_status m = memory_status.ARCHIVED then memory_status.ARCHIVED
      else if m_status m = memory_status.EXPIRED \<or> expired_by now m
      then memory_status.EXPIRED
      else memory_status.ACTIVE)"

definition imported_from :: "export_file \<Rightarrow> file_memory \<Rightarrow> json" where
  "imported_from file m =
     JObj [(''schemaVersion'', JStr exportSchemaVersion), (''exportedAt'', JTime (xf_exportedAt file)),
       (''sourceUserId'', JStr (xf_sourceUserId file)), (''memoryId'', JStr (m_id m))]"

definition original_source :: "file_memory \<Rightarrow> json" where
  "original_source m =
     JObj [(''type'', JStr (source_name (m_sourceType m))), (''clientId'', json_opt (m_sourceClientId m)),
       (''uri'', json_opt (m_sourceUri m)), (''metadata'', JObj (m_sourceMetadata m))]"

definition importSourceMetadata :: "export_file \<Rightarrow> file_memory \<Rightarrow> (string \<times> json) list" where
  "importSourceMetadata file m =
     [(''importedFrom'', imported_from file m), (''originalSource'', original_source m)]"

text \<open>The name with its counter; the first one has none.\<close>

definition import_name :: "string \<Rightarrow> nat \<Rightarrow> string" where
  "import_name baseName counter =
     (if counter = 1 then baseName @ '' (imported)''
      else baseName @ '' (imported '' @ decimal counter @ '')'')"

lemma js_lower_decimal: "js_lower (decimal n) = decimal n"
proof (induction n rule: decimal.induct)
  case (1 n)
  have d: "js_lower_char (char_of (48 + k)) = char_of (48 + k)" if "k < 10" for k :: nat
    using that by (simp add: js_lower_char_def Let_def of_char_of take_bit_nat_def)
  show ?case
    using 1 d by (cases "n < 10") (simp_all add: decimal.simps[of n] js_lower_def)
qed

lemma decimal_inj [simp]: "decimal m = decimal n \<longleftrightarrow> m = n"
  by (metis of_decimal_decimal)

lemma decimal_nonempty [simp]: "decimal n \<noteq> []"
  by (simp add: decimal.simps[of n])

lemma import_name_inj:
  assumes "js_lower (import_name s m) = js_lower (import_name s n)" "1 \<le> m" "1 \<le> n"
  shows "m = n"
proof -
  have low: "js_lower (import_name s k)
      = js_lower s @ (if k = 1 then '' (imported)'' else '' (imported '' @ decimal k @ '')'')" for k
    using js_lower_decimal[of k]
    by (simp add: import_name_def js_lower_def js_lower_char_def Let_def of_char_def)
  show ?thesis using assms(1) unfolding low by (auto split: if_splits)
qed

text \<open>The loop of \<open>uniqueImportName\<close>.  It ends because the names it tries are different and finitely many
  are claimed.\<close>

function next_import_name :: "string \<Rightarrow> string list \<Rightarrow> nat \<Rightarrow> string" where
  "next_import_name baseName claimed counter =
     (if js_lower (import_name baseName counter) \<in> set claimed
      then next_import_name baseName claimed (Suc counter)
      else import_name baseName counter)"
  by pat_completeness auto
termination
proof (relation "measure (\<lambda>(s, claimed, counter).
    card {n. counter \<le> n \<and> js_lower (import_name s (max 1 n)) \<in> set claimed} + (if counter = 0 then 1 else 0))")
  fix s :: string and claimed :: "string list" and counter :: nat
  assume hit: "js_lower (import_name s counter) \<in> set claimed"
  let ?S = "\<lambda>k. {n. k \<le> n \<and> js_lower (import_name s (max 1 n)) \<in> set claimed}"
  have inj: "inj_on (\<lambda>n. js_lower (import_name s (max 1 n))) {1..}"
    by (rule inj_onI) (auto dest: import_name_inj)
  have "finite (?S 1)"
    by (rule finite_imageD[OF _ inj_on_subset[OF inj]])
      (auto intro: finite_subset[of _ "set claimed"])
  moreover have "?S 0 \<subseteq> insert 0 (?S 1)" by auto
  ultimately have fin: "finite (?S k)" for k
    by (rule_tac finite_subset[of "?S k" "insert 0 (?S 1)"]) auto
  show "((s, claimed, Suc counter), s, claimed, counter)
    \<in> measure (\<lambda>(s, claimed, counter).
      card {n. counter \<le> n \<and> js_lower (import_name s (max 1 n)) \<in> set claimed} + (if counter = 0 then 1 else 0))"
  proof (cases "counter = 0")
    case True
    have "card (?S (Suc 0)) \<le> card (?S 0)" by (rule card_mono[OF fin]) auto
    then show ?thesis using True by simp
  next
    case False
    have "counter \<in> ?S counter" using hit False by (simp add: max_def)
    moreover have "counter \<notin> ?S (Suc counter)" by simp
    moreover have "?S (Suc counter) \<subseteq> ?S counter" by (rule subsetI) (drule CollectD, erule conjE, rule CollectI, erule conjI[OF Suc_leD])
    ultimately have "?S (Suc counter) \<subset> ?S counter" by blast
    then have "card (?S (Suc counter)) < card (?S counter)" by (rule psubset_card_mono[OF fin])
    then show ?thesis using False by simp
  qed
qed simp

declare next_import_name.simps [simp del]

definition uniqueImportName :: "string \<Rightarrow> string list \<Rightarrow> string \<times> string list" where
  "uniqueImportName baseName claimed =
     (let name = next_import_name baseName claimed 1 in (name, js_lower name # claimed))"

lemma next_import_name_fresh: "js_lower (next_import_name s claimed n) \<notin> set claimed"
  by (induction s claimed n rule: next_import_name.induct) (subst next_import_name.simps, auto)


section \<open>VaultImportWriterService\<close>

text \<open>\<open>upsert\<close> with an empty update: a category that exists stays as it is.\<close>

definition upsertCategories :: "category list \<Rightarrow> vault \<Rightarrow> vault" where
  "upsertCategories cs db =
     db \<lparr> v_categories := fold (\<lambda>c rows. if list_ex (\<lambda>r. cat_key r = cat_key c) rows then rows else rows @ [c])
            cs (v_categories db) \<rparr>"

definition imported_client :: "time \<Rightarrow> ident \<Rightarrow> ident \<Rightarrow> string \<Rightarrow> client \<Rightarrow> client" where
  "imported_client now userId i name c =
     \<lparr> c_id = i, c_userId = userId, c_name = name, c_type = c_type c, c_trustLevel = client_trust_level.UNKNOWN,
       c_declaredRetention = c_declaredRetention c, c_tokenHash = None, c_oauthRegistrationId = None,
       c_lastUsedAt = None, c_createdAt = now, c_updatedAt = now \<rparr>"

fun importClients_loop ::
  "time \<Rightarrow> ident \<Rightarrow> client list \<Rightarrow> string list \<Rightarrow> (ident \<times> ident) list \<Rightarrow> vault \<Rightarrow> (ident \<times> ident) list outcome" where
  "importClients_loop now userId [] claimed idMap db = (Inr idMap, db)"
| "importClients_loop now userId (c # cs) claimed idMap db =
     (let (name, claimed') = uniqueImportName (c_name c) claimed;
          created = imported_client now userId (next_id db) name c
      in case insert_client created db of
           None \<Rightarrow> (Inl (Internal ''P2002''), db)
         | Some db1 \<Rightarrow> importClients_loop now userId cs claimed' (upsert (c_id c) (c_id created) idMap) db1)"

definition importClients :: "time \<Rightarrow> ident \<Rightarrow> export_file \<Rightarrow> vault \<Rightarrow> (ident \<times> ident) list outcome" where
  "importClients now userId file db =
     importClients_loop now userId (xf_clients file)
       (map (\<lambda>c. js_lower (c_name c)) (filter (\<lambda>c. c_userId c = userId) (v_clients db))) [] db"

text \<open>A nested \<open>connect\<close> throws when a key has no row.\<close>

definition connectable :: "vault \<Rightarrow> ident list \<Rightarrow> bool" where
  "connectable db keys = list_all (\<lambda>k. list_ex (\<lambda>c. cat_key c = k) (v_categories db)) keys"

definition imported_policy :: "time \<Rightarrow> ident \<Rightarrow> ident \<Rightarrow> policy \<Rightarrow> vault \<Rightarrow> policy" where
  "imported_policy now userId clientId p db =
     \<lparr> p_id = next_id db, p_maxSensitivity = p_maxSensitivity p, p_operations = p_operations p,
       p_requiresConfirmation = p_requiresConfirmation p, p_expiresAt = p_expiresAt p,
       p_allowedCategories = toCategoryConnect db (map cat_key (p_allowedCategories p)),
       p_deniedCategories = toCategoryConnect db (map cat_key (p_deniedCategories p)),
       p_userId = userId, p_clientId = clientId, p_createdAt = now, p_updatedAt = now \<rparr>"

fun importPolicies ::
  "time \<Rightarrow> ident \<Rightarrow> (ident \<times> ident) list \<Rightarrow> policy list \<Rightarrow> ident list \<Rightarrow> vault \<Rightarrow> ident list outcome" where
  "importPolicies now userId idMap [] createdIds db = (Inr createdIds, db)"
| "importPolicies now userId idMap (p # ps) createdIds db =
     (case map_of idMap (p_clientId p) of
        None \<Rightarrow> (Inl (Internal ''Policy client is missing from validated export''), db)
      | Some clientId \<Rightarrow>
          if clientId = [] then (Inl (Internal ''Policy client is missing from validated export''), db)
          else if \<not> connectable db (map cat_key (p_allowedCategories p) @ map cat_key (p_deniedCategories p))
          then (Inl (Internal ''P2025''), db)
          else let created = imported_policy now userId clientId p db
               in case insert_policy created db of
                    None \<Rightarrow> (Inl (Internal ''P2002''), db)
                  | Some db1 \<Rightarrow> importPolicies now userId idMap ps (createdIds @ [p_id created]) db1)"

definition mapped_client :: "(ident \<times> ident) list \<Rightarrow> file_memory \<Rightarrow> ident option" where
  "mapped_client idMap m =
     (case m_sourceClientId m of None \<Rightarrow> None | Some c \<Rightarrow> if c = [] then None else map_of idMap c)"

definition restored_memory ::
  "time \<Rightarrow> ident \<Rightarrow> export_file \<Rightarrow> (ident \<times> ident) list \<Rightarrow> file_memory \<Rightarrow> vault \<Rightarrow> memory" where
  "restored_memory now userId file idMap m db =
     \<lparr> m_id = next_id db, m_sensitivity = m_sensitivity m, m_status = importedActiveStatus now m,
       m_reviewState = review_state.APPROVED, m_expiresAt = m_expiresAt m,
       m_categories = toCategoryConnect db (fm_categoryKeys m), m_userId = userId, m_kind = m_kind m,
       m_title = m_title m, m_body = m_body m, m_confidence = m_confidence m,
       m_sourceType = source_type.IMPORT, m_sourceClientId = mapped_client idMap m,
       m_sourceUri = m_sourceUri m, m_sourceMetadata = importSourceMetadata file m,
       m_lastConfirmedAt = None, m_consolidationRelevantAt = now, m_lastConsolidatedAt = None,
       m_semanticInspectedAt = None, m_createdAt = now, m_updatedAt = now \<rparr>"

definition import_type_name :: string where "import_type_name = ''PROCESS_IMPORT''"

definition import_job_subject :: "ident \<Rightarrow> audit_subject" where
  "import_job_subject jobRunId =
     (subject audit_subject_type.JOB_RUN (Some jobRunId) audit_subject_role.JOB)
       \<lparr>sj_label := Some import_type_name\<rparr>"

definition import_source_subject :: "export_file \<Rightarrow> file_memory \<Rightarrow> audit_subject" where
  "import_source_subject file m =
     (subject audit_subject_type.IMPORT (Some (m_id m)) audit_subject_role.IMPORTED)
       \<lparr>sj_label := Some (m_title m), sj_metadata := [(''sourceExportedAt'', JTime (xf_exportedAt file))]\<rparr>"

definition owner_event ::
  "ident \<Rightarrow> audit_event_type \<Rightarrow> audit_metadata \<Rightarrow> audit_subject list \<Rightarrow> audit_event_input" where
  "owner_event userId ty md subjects =
     \<lparr> ai_userId = userId, ai_clientId = None, ai_memoryRequestId = None, ai_type = ty,
       ai_actorType = audit_actor_type.USER, ai_actorId = Some userId, ai_metadata = md,
       ai_subjects = subjects, ai_inferSubjects = True \<rparr>"

definition restored_event :: "ident \<Rightarrow> export_file \<Rightarrow> ident \<Rightarrow> file_memory \<Rightarrow> memory \<Rightarrow> audit_event_input" where
  "restored_event userId file jobRunId m created =
     owner_event userId audit_event_type.MEMORY_CREATED
       (no_metadata \<lparr> am_memoryId := Some (m_id created), am_importedMemoryId := Some (m_id m),
          am_jobRunId := Some jobRunId, am_details := [(''sourceExportedAt'', JTime (xf_exportedAt file))] \<rparr>)
       [auditMemorySubject (m_id created) (Some (m_title m)) audit_subject_role.CREATED,
        import_source_subject file m, import_job_subject jobRunId]"

definition import_provenance ::
  "ident \<Rightarrow> export_file \<Rightarrow> (ident \<times> ident) list \<Rightarrow> ident \<Rightarrow> file_memory \<Rightarrow> memory \<Rightarrow> ident \<Rightarrow> provenance_input" where
  "import_provenance userId file idMap jobRunId m created eventId =
     \<lparr> pi_userId = userId, pi_memoryId = m_id created, pi_type = memory_provenance_entry_type.IMPORTED,
       pi_actorType = audit_actor_type.USER, pi_actorId = Some userId, pi_sourceType = Some source_type.IMPORT,
       pi_sourceClientId = mapped_client idMap m, pi_sourceUri = m_sourceUri m, pi_suggestionId = None,
       pi_jobRunId = Some jobRunId, pi_auditEventId = Some eventId, pi_memoryRequestId = None,
       pi_reason = Some ''import'', pi_evidence = None, pi_confidence = None,
       pi_metadata = [(''importedFrom'', imported_from file m), (''originalSource'', original_source m)],
       pi_subjects = [memorySubject (m_id created) (Some (m_title m)) provenance_subject_role.TARGET,
         (subject provenance_subject_type.IMPORT (Some (m_id m)) provenance_subject_role.IMPORT_SOURCE)
           \<lparr>sj_label := Some (m_title m), sj_metadata := [(''sourceExportedAt'', JTime (xf_exportedAt file))]\<rparr>,
         subject provenance_subject_type.JOB_RUN (Some jobRunId) provenance_subject_role.JOB,
         subject provenance_subject_type.AUDIT_EVENT (Some eventId) provenance_subject_role.AUDIT_EVENT] \<rparr>"

definition restoreExportedMemory ::
  "time \<Rightarrow> ident \<Rightarrow> export_file \<Rightarrow> (ident \<times> ident) list \<Rightarrow> ident \<Rightarrow> file_memory \<Rightarrow> vault \<Rightarrow> unit outcome" where
  "restoreExportedMemory now userId file idMap jobRunId m db =
     (if \<not> connectable db (fm_categoryKeys m) then (Inl (Internal ''P2025''), db)
      else let created = restored_memory now userId file idMap m db;
               (eventId, db1) = createAuditEvent now (restored_event userId file jobRunId m created)
                                  (insert_memory created db)
           in (Inr (), snd (createMemoryProvenanceEntry now
                 (import_provenance userId file idMap jobRunId m created eventId) db1)))"

definition imported_suggestion :: "time \<Rightarrow> ident \<Rightarrow> export_file \<Rightarrow> file_memory \<Rightarrow> ident \<Rightarrow> suggestion" where
  "imported_suggestion now userId file m i =
     \<lparr> s_id = i, s_userId = userId, s_sourceType = source_type.IMPORT, s_sourceClientId = None,
       s_statedPurpose = None, s_policyId = None, s_title = m_title m, s_body = m_body m,
       s_suggestedKind = m_kind m, s_suggestedSensitivity = m_sensitivity m,
       s_suggestedCategories = fm_categoryKeys m,
       s_evidence = Some ''Imported from a Funes Vault export.'',
       s_sourceMetadata = importSourceMetadata file m, s_confidence = m_confidence m,
       s_status = memory_suggestion_status.QUEUED_FOR_REVIEW, s_expiresAt = m_expiresAt m,
       s_createdAt = now, s_updatedAt = now \<rparr>"

definition suggestMemory :: "time \<Rightarrow> ident \<Rightarrow> export_file \<Rightarrow> ident \<Rightarrow> file_memory \<Rightarrow> vault \<Rightarrow> vault" where
  "suggestMemory now userId file jobRunId m db =
     (let s = imported_suggestion now userId file m (next_id db)
      in snd (createAuditEvent now
           (owner_event userId audit_event_type.MEMORY_SUGGESTION_CREATED
              (no_metadata \<lparr> am_suggestionId := Some (s_id s), am_importedMemoryId := Some (m_id m),
                 am_jobRunId := Some jobRunId, am_details := [(''sourceExportedAt'', JTime (xf_exportedAt file))] \<rparr>)
              [subject audit_subject_type.MEMORY_SUGGESTION (Some (s_id s)) audit_subject_role.SUGGESTION
                 \<lparr>sj_label := Some (s_title s)\<rparr>,
               import_source_subject file m, import_job_subject jobRunId])
           (insert_suggestion s db)))"

text \<open>How many memories and suggestions were created.\<close>

fun importSuggestions ::
  "time \<Rightarrow> ident \<Rightarrow> export_file \<Rightarrow> (ident \<times> ident) list \<Rightarrow> ident \<Rightarrow> file_memory list \<Rightarrow> vault
     \<Rightarrow> (nat \<times> nat) outcome" where
  "importSuggestions now userId file idMap jobRunId [] db = (Inr (0, 0), db)"
| "importSuggestions now userId file idMap jobRunId (m # ms) db =
     (if m_status m = memory_status.ARCHIVED
      then (case restoreExportedMemory now userId file idMap jobRunId m db of
              (Inl e, db1) \<Rightarrow> (Inl e, db1)
            | (Inr _, db1) \<Rightarrow>
                apfst (map_sum id (\<lambda>(a, b). (a + 1, b))) (importSuggestions now userId file idMap jobRunId ms db1))
      else apfst (map_sum id (\<lambda>(a, b). (a, b + 1)))
             (importSuggestions now userId file idMap jobRunId ms (suggestMemory now userId file jobRunId m db)))"

fun importActiveMemories ::
  "time \<Rightarrow> ident \<Rightarrow> export_file \<Rightarrow> (ident \<times> ident) list \<Rightarrow> ident \<Rightarrow> file_memory list \<Rightarrow> vault
     \<Rightarrow> (nat \<times> nat) outcome" where
  "importActiveMemories now userId file idMap jobRunId [] db = (Inr (0, 0), db)"
| "importActiveMemories now userId file idMap jobRunId (m # ms) db =
     (case restoreExportedMemory now userId file idMap jobRunId m db of
        (Inl e, db1) \<Rightarrow> (Inl e, db1)
      | (Inr _, db1) \<Rightarrow>
          apfst (map_sum id (\<lambda>(a, b). (a + 1, b))) (importActiveMemories now userId file idMap jobRunId ms db1))"

section \<open>VaultImportService\<close>

datatype import_mode = Import_suggestions | Import_active

primrec import_mode_name :: "import_mode \<Rightarrow> string" where
  "import_mode_name Import_suggestions = ''SUGGESTIONS''"
| "import_mode_name Import_active = ''ACTIVE_MEMORIES''"

text \<open>\<open>vaultExportSchema\<close>: each policy names a client of the file, and no client has two.\<close>

definition valid_export :: "export_file \<Rightarrow> bool" where
  "valid_export file =
     (distinct (map p_clientId (xf_policies file))
      \<and> list_all (\<lambda>p. p_clientId p \<in> c_id ` set (xf_clients file)) (xf_policies file))"

record duplicate_memory =
  dm_importedId :: ident
  dm_existingId :: ident
  dm_title :: string

definition content_fingerprint :: "'a memory_scheme \<Rightarrow> string" where
  "content_fingerprint m = m_title m @ [CHR 0x0A] @ m_body m"

definition findDuplicateMemories :: "vault \<Rightarrow> ident \<Rightarrow> file_memory list \<Rightarrow> duplicate_memory list" where
  "findDuplicateMemories db userId ms =
     (let existing = filter (\<lambda>m. m_userId m = userId \<and> m_status m \<noteq> memory_status.DELETED
              \<and> list_ex (\<lambda>x. m_title x = m_title m \<and> m_body x = m_body m) ms) (v_memories db);
          byFingerprint = fold (\<lambda>m acc. upsert (content_fingerprint m) (m_id m, m_title m) acc) existing []
      in List.map_filter (\<lambda>m. map_option
            (\<lambda>(i, title). \<lparr> dm_importedId = m_id m, dm_existingId = i, dm_title = title \<rparr>)
            (map_of byFingerprint (content_fingerprint m))) ms)"

record import_preview =
  ip_exportedAt :: time
  ip_memories :: nat
  ip_archivedMemories :: nat
  ip_categories :: nat
  ip_clients :: nat
  ip_policies :: nat
  ip_auditEvents :: nat
  ip_possibleDuplicateMemories :: "duplicate_memory list"
  ip_categoryKeys :: "ident list"

definition previewImport :: "vault \<Rightarrow> ident \<Rightarrow> export_file \<Rightarrow> import_preview" where
  "previewImport db userId file =
     \<lparr> ip_exportedAt = xf_exportedAt file, ip_memories = length (xf_memories file),
       ip_archivedMemories = length (filter (\<lambda>m. m_status m = memory_status.ARCHIVED) (xf_memories file)),
       ip_categories = length (exportCategoryDefinitions file), ip_clients = length (xf_clients file),
       ip_policies = length (xf_policies file),
       ip_auditEvents = (case xf_auditEvents file of Some es \<Rightarrow> length es | None \<Rightarrow> 0),
       ip_possibleDuplicateMemories = findDuplicateMemories db userId (xf_memories file),
       ip_categoryKeys = map cat_key (exportCategoryDefinitions file) \<rparr>"

record import_result =
  ir_mode :: import_mode
  ir_memoriesCreated :: nat
  ir_suggestionsCreated :: nat
  ir_clientsCreated :: nat
  ir_policiesCreated :: nat
  ir_categoriesUpserted :: nat
  ir_jobRunId :: ident

definition import_job :: "time \<Rightarrow> ident \<Rightarrow> ident \<Rightarrow> export_file \<Rightarrow> import_mode \<Rightarrow> job_run" where
  "import_job now i userId file mode =
     (new_job now i userId job_type.PROCESS_IMPORT
        [(''schemaVersion'', JStr exportSchemaVersion), (''exportedAt'', JTime (xf_exportedAt file)),
         (''mode'', JStr (import_mode_name mode)), (''memoryCount'', json_nat (length (xf_memories file)))])
       \<lparr> j_status := job_status.RUNNING, j_attempts := 1, j_maxAttempts := 1, j_startedAt := Some now \<rparr>"

definition result_details :: "export_file \<Rightarrow> import_result \<Rightarrow> (string \<times> json) list" where
  "result_details file r =
     [(''schemaVersion'', JStr exportSchemaVersion), (''exportedAt'', JTime (xf_exportedAt file)),
      (''mode'', JStr (import_mode_name (ir_mode r))), (''memoriesCreated'', json_nat (ir_memoriesCreated r)),
      (''suggestionsCreated'', json_nat (ir_suggestionsCreated r)),
      (''clientsCreated'', json_nat (ir_clientsCreated r)), (''policiesCreated'', json_nat (ir_policiesCreated r)),
      (''categoriesUpserted'', json_nat (ir_categoriesUpserted r))]"

definition start_import :: "time \<Rightarrow> ident \<Rightarrow> export_file \<Rightarrow> import_mode \<Rightarrow> vault \<Rightarrow> ident \<times> vault" where
  "start_import now userId file mode db =
     (let job = import_job now (next_id db) userId file mode
      in (j_id job, snd (createAuditEvent now
            (owner_event userId audit_event_type.JOB_CREATED
               (no_metadata \<lparr> am_jobRunId := Some (j_id job), am_type := Some import_type_name \<rparr>)
               [import_job_subject (j_id job)])
            (insert_job job db))))"

definition finish_import :: "time \<Rightarrow> ident \<Rightarrow> export_file \<Rightarrow> import_result \<Rightarrow> vault \<Rightarrow> vault" where
  "finish_import now userId file r db =
     snd (createAuditEvent now
       (owner_event userId audit_event_type.JOB_COMPLETED
          (no_metadata \<lparr> am_jobRunId := Some (ir_jobRunId r), am_type := Some import_type_name,
             am_details := [(''mode'', JStr (import_mode_name (ir_mode r))),
               (''memoriesCreated'', json_nat (ir_memoriesCreated r)),
               (''suggestionsCreated'', json_nat (ir_suggestionsCreated r))] \<rparr>)
          [import_job_subject (ir_jobRunId r)])
       (write_job now (ir_jobRunId r) (\<lambda>j. j \<lparr> j_status := job_status.SUCCEEDED, j_finishedAt := Some now,
          j_metadata := result_details file r \<rparr>) db))"

definition import_memories ::
  "time \<Rightarrow> ident \<Rightarrow> export_file \<Rightarrow> import_mode \<Rightarrow> (ident \<times> ident) list \<Rightarrow> ident \<Rightarrow> vault \<Rightarrow> (nat \<times> nat) outcome" where
  "import_memories now userId file mode idMap jobRunId db =
     (case mode of
        Import_active \<Rightarrow> importActiveMemories now userId file idMap jobRunId (xf_memories file) db
      | Import_suggestions \<Rightarrow> importSuggestions now userId file idMap jobRunId (xf_memories file) db)"

definition import_tx ::
  "time \<Rightarrow> ident \<Rightarrow> export_file \<Rightarrow> import_mode \<Rightarrow> vault \<Rightarrow> import_result outcome" where
  "import_tx now userId file mode db =
     (let (jobRunId, db1) = start_import now userId file mode db;
          categories = exportCategoryDefinitions file
      in case importClients now userId file (upsertCategories categories db1) of
           (Inl e, db2) \<Rightarrow> (Inl e, db2)
         | (Inr idMap, db2) \<Rightarrow>
             (case importPolicies now userId idMap (xf_policies file) [] db2 of
                (Inl e, db3) \<Rightarrow> (Inl e, db3)
              | (Inr policyIds, db3) \<Rightarrow>
                  (case import_memories now userId file mode idMap jobRunId db3 of
                     (Inl e, db4) \<Rightarrow> (Inl e, db4)
                   | (Inr (memoriesCreated, suggestionsCreated), db4) \<Rightarrow>
                       let r = \<lparr> ir_mode = mode, ir_memoriesCreated = memoriesCreated,
                             ir_suggestionsCreated = suggestionsCreated, ir_clientsCreated = length idMap,
                             ir_policiesCreated = length policyIds, ir_categoriesUpserted = length categories,
                             ir_jobRunId = jobRunId \<rparr>
                       in (Inr r, finish_import now userId file r db4))))"

text \<open>The transaction: an exception leaves the vault as it was.\<close>

definition importVault ::
  "time \<Rightarrow> ident \<Rightarrow> export_file \<Rightarrow> import_mode \<Rightarrow> vault \<Rightarrow> import_result outcome" where
  "importVault now userId file mode db =
     (case import_tx now userId file mode db of
        (Inl e, _) \<Rightarrow> (Inl e, db)
      | (Inr r, db') \<Rightarrow> (Inr r, db'))"

section \<open>What an import adds\<close>

text \<open>\<open>grown db new db'\<close>: the vault \<open>db'\<close> is \<open>db\<close> with rows appended to five tables; no row of those was changed,
  and neither was any other table of the vault but the jobs and the records of the audit trail.\<close>

record additions =
  new_categories :: "category list"
  new_clients :: "client list"
  new_policies :: "policy list"
  new_memories :: "memory list"
  new_suggestions :: "suggestion list"

definition no_additions :: additions where
  "no_additions = \<lparr> new_categories = [], new_clients = [], new_policies = [], new_memories = [],
     new_suggestions = [] \<rparr>"

definition both :: "additions \<Rightarrow> additions \<Rightarrow> additions" where
  "both a b = \<lparr> new_categories = new_categories a @ new_categories b, new_clients = new_clients a @ new_clients b,
     new_policies = new_policies a @ new_policies b, new_memories = new_memories a @ new_memories b,
     new_suggestions = new_suggestions a @ new_suggestions b \<rparr>"

definition same_elsewhere :: "vault \<Rightarrow> vault \<Rightarrow> bool" where
  "same_elsewhere db db' =
     (v_users db' = v_users db \<and> v_preferences db' = v_preferences db \<and> v_requests db' = v_requests db
      \<and> v_requestItems db' = v_requestItems db \<and> v_registrations db' = v_registrations db
      \<and> v_oauthRequests db' = v_oauthRequests db \<and> v_codes db' = v_codes db \<and> v_tokens db' = v_tokens db)"

definition grown :: "vault \<Rightarrow> additions \<Rightarrow> vault \<Rightarrow> bool" where
  "grown db a db' =
     (same_elsewhere db db'
      \<and> v_categories db' = v_categories db @ new_categories a \<and> v_clients db' = v_clients db @ new_clients a
      \<and> v_policies db' = v_policies db @ new_policies a \<and> v_memories db' = v_memories db @ new_memories a
      \<and> v_suggestions db' = v_suggestions db @ new_suggestions a)"

named_theorems addition_simps

lemma grown_refl: "grown db no_additions db"
  by (simp add: grown_def no_additions_def same_elsewhere_def)

lemma grown_trans: "grown db a db1 \<Longrightarrow> grown db1 b db2 \<Longrightarrow> grown db (both a b) db2"
  by (auto simp: grown_def both_def same_elsewhere_def)

lemma both_sel [addition_simps, simp]:
  "new_categories (both a b) = new_categories a @ new_categories b"
  "new_clients (both a b) = new_clients a @ new_clients b"
  "new_policies (both a b) = new_policies a @ new_policies b"
  "new_memories (both a b) = new_memories a @ new_memories b"
  "new_suggestions (both a b) = new_suggestions a @ new_suggestions b"
  by (simp_all add: both_def)

lemma no_additions_sel [addition_simps, simp]:
  "new_categories no_additions = []" "new_clients no_additions = []" "new_policies no_additions = []"
  "new_memories no_additions = []" "new_suggestions no_additions = []"
  by (simp_all add: no_additions_def)

lemma grown_event [simp]: "grown db a (snd (createAuditEvent now inp db')) = grown db a db'"
  by (simp add: grown_def same_elsewhere_def audit_simps)

lemma grown_provenance [simp]: "grown db a (snd (createMemoryProvenanceEntry now inp db')) = grown db a db'"
  by (simp add: grown_def same_elsewhere_def audit_simps)

lemma grown_start: "grown db no_additions (snd (start_import now userId file mode db))"
  by (simp add: start_import_def Let_def insert_job_def draw_id_def)
    (simp add: grown_def same_elsewhere_def no_additions_def)

lemma grown_finish: "grown db a db' \<Longrightarrow> grown db a (finish_import now userId file r db')"
  by (simp add: finish_import_def write_job_def) (simp add: grown_def same_elsewhere_def)

lemma fold_insert_missing:
  "\<exists>rows. fold (\<lambda>c rows. if list_ex (\<lambda>r. key r = key c) rows then rows else rows @ [c]) cs init = init @ rows
     \<and> key ` set (init @ rows) = key ` set init \<union> key ` set cs"
proof (induction cs arbitrary: init)
  case (Cons c cs)
  show ?case
  proof (cases "list_ex (\<lambda>r. key r = key c) init")
    case True
    then have "key c \<in> key ` set init" by (auto simp: list_ex_iff image_iff) metis
    then show ?thesis using Cons[of init] True by auto
  next
    case False
    then show ?thesis using Cons[of "init @ [c]"] by auto
  qed
qed simp

lemma grown_upsertCategories:
  obtains rows where "grown db (no_additions \<lparr> new_categories := rows \<rparr>) (upsertCategories cs db)"
    "cat_key ` set (v_categories (upsertCategories cs db)) = cat_key ` set (v_categories db) \<union> cat_key ` set cs"
  using fold_insert_missing[of cat_key cs "v_categories db"]
  by (auto simp: grown_def same_elsewhere_def upsertCategories_def no_additions_def)

text \<open>A client an import creates: nothing in it lets the app in.\<close>

definition harmless_client :: "ident \<Rightarrow> client \<Rightarrow> bool" where
  "harmless_client userId c =
     (c_userId c = userId \<and> c_trustLevel c = client_trust_level.UNKNOWN \<and> c_tokenHash c = None
      \<and> c_oauthRegistrationId c = None)"

lemma harmless_imported [simp]: "harmless_client userId (imported_client now userId i name c)"
  by (simp add: harmless_client_def imported_client_def)

lemma set_upsert_sub: "set (upsert k v xs) \<subseteq> insert (k, v) (set xs)"
  by (induction k v xs rule: upsert.induct) auto

lemma importClients_loop_grown:
  assumes "importClients_loop now userId cs claimed idMap db = (Inr idMap', db')"
  shows "\<exists>rows. grown db (no_additions \<lparr> new_clients := rows \<rparr>) db' \<and> length rows = length cs
    \<and> list_all (harmless_client userId) rows \<and> snd ` set idMap' \<subseteq> snd ` set idMap \<union> c_id ` set rows"
  using assms
proof (induction cs arbitrary: claimed idMap db)
  case Nil
  then show ?case by (auto intro!: exI[of _ "[]"] simp: grown_def same_elsewhere_def no_additions_def)
next
  case (Cons c cs)
  obtain name claimed' where name: "uniqueImportName (c_name c) claimed = (name, claimed')" by force
  let ?c = "imported_client now userId (next_id db) name c"
  from Cons.prems name obtain db1 where ins: "insert_client ?c db = Some db1"
    and rest: "importClients_loop now userId cs claimed' (upsert (c_id c) (c_id ?c) idMap) db1 = (Inr idMap', db')"
    by (auto simp: Let_def split: option.splits)
  from Cons.IH[OF rest] obtain rows where rows: "grown db1 (no_additions \<lparr> new_clients := rows \<rparr>) db'"
    "length rows = length cs" "list_all (harmless_client userId) rows"
    "snd ` set idMap' \<subseteq> snd ` set (upsert (c_id c) (c_id ?c) idMap) \<union> c_id ` set rows" by blast
  have "grown db (no_additions \<lparr> new_clients := [?c] \<rparr>) db1" using ins
    by (auto simp: insert_client_def grown_def same_elsewhere_def draw_id_def no_additions_def split: if_splits)
  from grown_trans[OF this rows(1)] have "grown db (no_additions \<lparr> new_clients := ?c # rows \<rparr>) db'"
    by (simp add: both_def no_additions_def)
  moreover have "snd ` set (upsert (c_id c) (c_id ?c) idMap) \<subseteq> insert (c_id ?c) (snd ` set idMap)"
    using set_upsert_sub[of "c_id c" "c_id ?c" idMap] by force
  then have "snd ` set idMap' \<subseteq> snd ` set idMap \<union> c_id ` set (?c # rows)" using rows(4) by (simp, blast)
  ultimately show ?case using rows(2,3) by (intro exI[of _ "?c # rows"] conjI) simp_all
qed

lemma importPolicies_grown:
  assumes "importPolicies now userId idMap ps ids db = (Inr ids', db')"
  shows "\<exists>rows. grown db (no_additions \<lparr> new_policies := rows \<rparr>) db' \<and> length rows = length ps
    \<and> ids' = ids @ map p_id rows
    \<and> list_all (\<lambda>p. p_userId p = userId \<and> p_clientId p \<in> snd ` set idMap) rows"
  using assms
proof (induction ps arbitrary: ids db)
  case Nil
  then show ?case by (auto intro!: exI[of _ "[]"] simp: grown_def same_elsewhere_def no_additions_def)
next
  case (Cons p ps)
  from Cons.prems obtain clientId db1 where cl: "map_of idMap (p_clientId p) = Some clientId"
    and ins: "insert_policy (imported_policy now userId clientId p db) db = Some db1"
    and rest: "importPolicies now userId idMap ps (ids @ [p_id (imported_policy now userId clientId p db)]) db1
      = (Inr ids', db')"
    by (auto simp: Let_def split: option.splits if_splits)
  let ?p = "imported_policy now userId clientId p db"
  from Cons.IH[OF rest] obtain rows where rows: "grown db1 (no_additions \<lparr> new_policies := rows \<rparr>) db'"
    "length rows = length ps" "ids' = (ids @ [p_id ?p]) @ map p_id rows"
    "list_all (\<lambda>p. p_userId p = userId \<and> p_clientId p \<in> snd ` set idMap) rows" by blast
  have "grown db (no_additions \<lparr> new_policies := [?p] \<rparr>) db1" using ins
    by (auto simp: insert_policy_def grown_def same_elsewhere_def draw_id_def no_additions_def split: if_splits)
  from grown_trans[OF this rows(1)] have "grown db (no_additions \<lparr> new_policies := ?p # rows \<rparr>) db'"
    by (simp add: both_def no_additions_def)
  moreover have "p_userId ?p = userId" "p_clientId ?p \<in> snd ` set idMap"
    using map_of_SomeD[OF cl] by (force simp: imported_policy_def)+
  ultimately show ?case using rows(2,3,4) by (intro exI[of _ "?p # rows"]) auto
qed

text \<open>What an imported memory keeps, and what it does not.\<close>

definition restores :: "time \<Rightarrow> ident \<Rightarrow> export_file \<Rightarrow> file_memory \<Rightarrow> memory \<Rightarrow> bool" where
  "restores now userId file m r =
     (m_userId r = userId \<and> m_kind r = m_kind m \<and> m_title r = m_title m \<and> m_body r = m_body m
      \<and> m_sensitivity r = m_sensitivity m \<and> m_confidence r = m_confidence m \<and> m_sourceUri r = m_sourceUri m
      \<and> m_expiresAt r = m_expiresAt m \<and> m_status r = importedActiveStatus now m
      \<and> m_reviewState r = review_state.APPROVED \<and> m_sourceType r = source_type.IMPORT
      \<and> m_sourceMetadata r = importSourceMetadata file m
      \<and> cat_key ` set (m_categories r) = set (fm_categoryKeys m))"

definition proposes :: "ident \<Rightarrow> export_file \<Rightarrow> file_memory \<Rightarrow> suggestion \<Rightarrow> bool" where
  "proposes userId file m s = (\<exists>now i. s = imported_suggestion now userId file m i)"

lemma connectable_iff: "connectable db keys \<longleftrightarrow> set keys \<subseteq> cat_key ` set (v_categories db)"
  by (force simp: connectable_def list_all_iff list_ex_iff)

lemma restore_grown:
  assumes "restoreExportedMemory now userId file idMap jobRunId m db = (Inr u, db')"
  obtains r where "grown db (no_additions \<lparr> new_memories := [r] \<rparr>) db'" "restores now userId file m r"
proof (rule that[of "restored_memory now userId file idMap m db"])
  have con: "connectable db (fm_categoryKeys m)"
    using assms by (auto simp: restoreExportedMemory_def split: if_splits)
  have "grown db (no_additions \<lparr> new_memories := [restored_memory now userId file idMap m db] \<rparr>)
    (insert_memory (restored_memory now userId file idMap m db) db)"
    by (simp add: grown_def same_elsewhere_def insert_memory_def draw_id_def no_additions_def)
  then show "grown db (no_additions \<lparr> new_memories := [restored_memory now userId file idMap m db] \<rparr>) db'"
    using assms con by (auto simp: restoreExportedMemory_def Let_def case_prod_beta)
  show "restores now userId file m (restored_memory now userId file idMap m db)"
    using con keys_toCategoryConnect[of "fm_categoryKeys m" db]
    by (simp add: restores_def restored_memory_def connectable_iff)
qed

lemma suggest_grown:
  "grown db (no_additions \<lparr> new_suggestions := [imported_suggestion now userId file m (next_id db)] \<rparr>)
     (suggestMemory now userId file jobRunId m db)"
  by (simp add: suggestMemory_def Let_def)
    (simp add: grown_def same_elsewhere_def insert_suggestion_def draw_id_def no_additions_def)

lemma importActiveMemories_grown:
  assumes "importActiveMemories now userId file idMap jobRunId ms db = (Inr (a, b), db')"
  shows "\<exists>rows. grown db (no_additions \<lparr> new_memories := rows \<rparr>) db' \<and> a = length rows \<and> b = 0
    \<and> list_all2 (restores now userId file) ms rows"
  using assms
proof (induction ms arbitrary: db a)
  case Nil
  then show ?case by (auto intro!: exI[of _ "[]"] simp: grown_def same_elsewhere_def no_additions_def)
next
  case (Cons m ms)
  from Cons.prems obtain u db1 where first: "restoreExportedMemory now userId file idMap jobRunId m db = (Inr u, db1)"
    by (auto split: prod.splits sum.splits)
  obtain x db2 where rest: "importActiveMemories now userId file idMap jobRunId ms db1 = (x, db2)" by force
  with Cons.prems first obtain a' where x: "x = Inr (a', b)" "a = Suc a'" "db2 = db'"
    by (cases x) (auto simp: map_sum_def split: sum.splits)
  from Cons.IH[OF rest[unfolded x]] obtain rows where rows: "grown db1 (no_additions \<lparr> new_memories := rows \<rparr>) db'"
    "a' = length rows" "b = 0" "list_all2 (restores now userId file) ms rows" by blast
  from restore_grown[OF first] obtain r where r: "grown db (no_additions \<lparr> new_memories := [r] \<rparr>) db1"
    "restores now userId file m r" by blast
  have "grown db (no_additions \<lparr> new_memories := r # rows \<rparr>) db'"
    using grown_trans[OF r(1) rows(1)] by (simp add: both_def no_additions_def)
  then show ?case using rows(2-) r(2) x(2) by (intro exI[of _ "r # rows"] conjI) simp_all
qed

definition archived_file_memory :: "file_memory \<Rightarrow> bool" where
  "archived_file_memory m = (m_status m = memory_status.ARCHIVED)"

lemma importSuggestions_grown:
  assumes "importSuggestions now userId file idMap jobRunId ms db = (Inr (a, b), db')"
  shows "\<exists>rows sugs. grown db (no_additions \<lparr> new_memories := rows, new_suggestions := sugs \<rparr>) db'
    \<and> a = length rows \<and> b = length sugs
    \<and> list_all2 (restores now userId file) (filter archived_file_memory ms) rows
    \<and> list_all2 (proposes userId file) (filter (\<lambda>m. \<not> archived_file_memory m) ms) sugs"
  using assms
proof (induction ms arbitrary: db a b)
  case Nil
  then show ?case by (auto intro!: exI[of _ "[]"] simp: grown_def same_elsewhere_def no_additions_def)
next
  case (Cons m ms)
  show ?case
  proof (cases "m_status m = memory_status.ARCHIVED")
    case True
    from Cons.prems True obtain u db1
      where first: "restoreExportedMemory now userId file idMap jobRunId m db = (Inr u, db1)"
      by (auto split: prod.splits sum.splits)
    obtain x db2 where rest: "importSuggestions now userId file idMap jobRunId ms db1 = (x, db2)" by force
    with Cons.prems first True obtain a' where x: "x = Inr (a', b)" "a = Suc a'" "db2 = db'"
      by (cases x) (auto simp: map_sum_def split: sum.splits)
    from Cons.IH[OF rest[unfolded x]] obtain rows sugs
      where rows: "grown db1 (no_additions \<lparr> new_memories := rows, new_suggestions := sugs \<rparr>) db'"
      "a' = length rows" "b = length sugs" "list_all2 (restores now userId file) (filter archived_file_memory ms) rows"
      "list_all2 (proposes userId file) (filter (\<lambda>m. \<not> archived_file_memory m) ms) sugs" by blast
    from restore_grown[OF first] obtain r where r: "grown db (no_additions \<lparr> new_memories := [r] \<rparr>) db1"
      "restores now userId file m r" by blast
    have "grown db (no_additions \<lparr> new_memories := r # rows, new_suggestions := sugs \<rparr>) db'"
      using grown_trans[OF r(1) rows(1)] by (simp add: both_def no_additions_def)
    moreover have "archived_file_memory m" using True by (simp add: archived_file_memory_def)
    ultimately show ?thesis using rows(2-) r(2) x(2)
      by (intro exI[of _ "r # rows"] exI[of _ sugs] conjI) simp_all
  next
    case False
    let ?db1 = "suggestMemory now userId file jobRunId m db"
    let ?s = "imported_suggestion now userId file m (next_id db)"
    obtain x db2 where rest: "importSuggestions now userId file idMap jobRunId ms ?db1 = (x, db2)" by force
    with Cons.prems False obtain b' where x: "x = Inr (a, b')" "b = Suc b'" "db2 = db'"
      by (cases x) (auto simp: map_sum_def split: sum.splits)
    from Cons.IH[OF rest[unfolded x]] obtain rows sugs
      where rows: "grown ?db1 (no_additions \<lparr> new_memories := rows, new_suggestions := sugs \<rparr>) db'"
      "a = length rows" "b' = length sugs" "list_all2 (restores now userId file) (filter archived_file_memory ms) rows"
      "list_all2 (proposes userId file) (filter (\<lambda>m. \<not> archived_file_memory m) ms) sugs" by blast
    have "grown db (no_additions \<lparr> new_memories := rows, new_suggestions := ?s # sugs \<rparr>) db'"
      using grown_trans[OF suggest_grown rows(1)] by (simp add: both_def no_additions_def)
    moreover have "\<not> archived_file_memory m" using False by (simp add: archived_file_memory_def)
    moreover have "proposes userId file m ?s" unfolding proposes_def by blast
    ultimately show ?thesis using rows(2-) x(2)
      by (intro exI[of _ rows] exI[of _ "?s # sugs"] conjI) simp_all
  qed
qed

text \<open>An import that ends is its stages, each of which only adds.\<close>

definition imported_memories ::
  "time \<Rightarrow> ident \<Rightarrow> export_file \<Rightarrow> import_mode \<Rightarrow> memory list \<Rightarrow> suggestion list \<Rightarrow> bool" where
  "imported_memories now userId file mode rows sugs =
     (case mode of
        Import_active \<Rightarrow> list_all2 (restores now userId file) (xf_memories file) rows \<and> sugs = []
      | Import_suggestions \<Rightarrow>
          list_all2 (restores now userId file) (filter archived_file_memory (xf_memories file)) rows
          \<and> list_all2 (proposes userId file) (filter (\<lambda>m. \<not> archived_file_memory m) (xf_memories file)) sugs)"

lemma import_memories_grown:
  assumes "import_memories now userId file mode idMap jobRunId db = (Inr (a, b), db')"
  obtains rows sugs where "grown db (no_additions \<lparr> new_memories := rows, new_suggestions := sugs \<rparr>) db'"
    "a = length rows" "b = length sugs" "imported_memories now userId file mode rows sugs"
proof (cases mode)
  case Import_active
  with assms have "importActiveMemories now userId file idMap jobRunId (xf_memories file) db = (Inr (a, b), db')"
    by (simp add: import_memories_def)
  from importActiveMemories_grown[OF this] obtain rows where
    "grown db (no_additions \<lparr> new_memories := rows \<rparr>) db'" "a = length rows" "b = 0"
    "list_all2 (restores now userId file) (xf_memories file) rows" by blast
  then show ?thesis using that[of "[]" rows] Import_active by (simp add: imported_memories_def no_additions_def)
next
  case Import_suggestions
  with assms have "importSuggestions now userId file idMap jobRunId (xf_memories file) db = (Inr (a, b), db')"
    by (simp add: import_memories_def)
  from importSuggestions_grown[OF this] show ?thesis using that Import_suggestions
    by (auto simp: imported_memories_def)
qed

lemma import_grown:
  assumes "importVault now userId file mode db = (Inr r, db')"
  shows "\<exists>a. grown db a db' \<and> list_all (harmless_client userId) (new_clients a)
    \<and> length (new_clients a) = length (xf_clients file)
    \<and> list_all (\<lambda>p. p_userId p = userId \<and> p_clientId p \<in> c_id ` set (new_clients a)) (new_policies a)
    \<and> length (new_policies a) = length (xf_policies file)
    \<and> ir_memoriesCreated r = length (new_memories a) \<and> ir_suggestionsCreated r = length (new_suggestions a)
    \<and> imported_memories now userId file mode (new_memories a) (new_suggestions a)"
proof -
  have tx: "import_tx now userId file mode db = (Inr r, db')"
    using assms by (auto simp: importVault_def split: prod.splits sum.splits)
  obtain jobRunId db1 where start: "start_import now userId file mode db = (jobRunId, db1)" by force
  let ?up = "upsertCategories (exportCategoryDefinitions file) db1"
  note tx' = tx[unfolded import_tx_def start Let_def prod.case]
  from tx' obtain idMap db2 where cl: "importClients now userId file ?up = (Inr idMap, db2)"
    by (cases "importClients now userId file ?up"; cases "fst (importClients now userId file ?up)") simp_all
  note tx' = tx'[unfolded cl prod.case sum.case]
  let ?po = "importPolicies now userId idMap (xf_policies file) [] db2"
  from tx' obtain policyIds db3 where po: "?po = (Inr policyIds, db3)"
    by (cases ?po; cases "fst ?po") simp_all
  note tx' = tx'[unfolded po prod.case sum.case]
  let ?me = "import_memories now userId file mode idMap jobRunId db3"
  from tx' obtain ab db4 where me': "?me = (Inr ab, db4)"
    by (cases ?me; cases "fst ?me") simp_all
  obtain a b where me: "?me = (Inr (a, b), db4)" using me' by (cases ab) simp
  have fin: "db' = finish_import now userId file r db4" "ir_memoriesCreated r = a" "ir_suggestionsCreated r = b"
    using tx'[unfolded me prod.case sum.case] by auto
  obtain cats where g1: "grown db1 (no_additions \<lparr> new_categories := cats \<rparr>) ?up"
    by (rule grown_upsertCategories)
  from importClients_loop_grown[OF cl[unfolded importClients_def]] obtain cls
    where g2: "grown ?up (no_additions \<lparr> new_clients := cls \<rparr>) db2" and cls: "length cls = length (xf_clients file)"
      "list_all (harmless_client userId) cls" "snd ` set idMap \<subseteq> c_id ` set cls" by auto
  from importPolicies_grown[OF po] obtain pols
    where g3: "grown db2 (no_additions \<lparr> new_policies := pols \<rparr>) db3" and pols: "length pols = length (xf_policies file)"
      "list_all (\<lambda>p. p_userId p = userId \<and> p_clientId p \<in> snd ` set idMap) pols" by auto
  from import_memories_grown[OF me] obtain rows sugs
    where g4: "grown db3 (no_additions \<lparr> new_memories := rows, new_suggestions := sugs \<rparr>) db4"
      and rows: "a = length rows" "b = length sugs" "imported_memories now userId file mode rows sugs" .
  have g0: "grown db no_additions db1" using grown_start by (metis start snd_conv)
  define A where "A = \<lparr> new_categories = cats, new_clients = cls, new_policies = pols, new_memories = rows,
    new_suggestions = sugs \<rparr>"
  have "grown db A db4"
    using grown_trans[OF grown_trans[OF grown_trans[OF grown_trans[OF g0 g1] g2] g3] g4]
    by (simp add: both_def no_additions_def A_def)
  then have "grown db A db'" unfolding fin(1) by (rule grown_finish)
  moreover have "list_all (\<lambda>p. p_userId p = userId \<and> p_clientId p \<in> c_id ` set cls) pols"
    using pols(2) cls(3) by (auto simp: list_all_iff)
  ultimately show ?thesis using cls(1,2) pols(1) rows fin(2,3) by (intro exI[of _ A]) (simp add: A_def)
qed

section \<open>When an import fails\<close>

definition keys_of :: "category list \<Rightarrow> ident set" where
  "keys_of cs = cat_key ` set cs"

lemma fst_upsert: "fst ` set (upsert k v kvs) = insert k (fst ` set kvs)"
  using arg_cong[OF keys_upsert[of k v kvs], of set] by (auto split: if_splits)

lemma set_category_keys [simp]: "fst ` set (fold set_category cs acc) = fst ` set acc \<union> keys_of cs"
  by (induction cs arbitrary: acc) (auto simp: set_category_def fst_upsert keys_of_def)

lemma set_key_keys [simp]: "fst ` set (fold set_key ks acc) = fst ` set acc \<union> set ks"
proof (induction ks arbitrary: acc)
  case (Cons k ks)
  have "map_of acc k \<noteq> None \<Longrightarrow> k \<in> fst ` set acc" by (simp add: map_of_eq_None_iff)
  then have "fst ` set (set_key k acc) = insert k (fst ` set acc)" by (simp add: set_key_def fst_upsert insert_absorb)
  then show ?case using Cons[of "set_key k acc"] by simp
qed simp

lemma file_categories_keys:
  "fst ` set (file_categories file) = keys_of (xf_categories file)
     \<union> (\<Union>m\<in>set (xf_memories file). keys_of (m_categories m) \<union> set (fm_categoryKeys m))"
proof -
  have "fst ` set (fold (\<lambda>m acc. fold set_key (fm_categoryKeys m) (fold set_category (m_categories m) acc)) ms acc)
    = fst ` set acc \<union> (\<Union>m\<in>set ms. keys_of (m_categories m) \<union> set (fm_categoryKeys m))" for ms :: "file_memory list" and acc
    by (induction ms arbitrary: acc) auto
  then show ?thesis by (simp add: file_categories_def)
qed

definition labelled :: "(ident \<times> category) list \<Rightarrow> bool" where
  "labelled acc = list_all (\<lambda>x. cat_key (snd x) = fst x) acc"

lemma labelled_upsert: "labelled acc \<Longrightarrow> cat_key d = k \<Longrightarrow> labelled (upsert k d acc)"
  using set_upsert_sub[of k d acc] by (auto simp: labelled_def list_all_iff)

lemma labelled_set_category: "labelled acc \<Longrightarrow> labelled (fold set_category cs acc)"
  by (induction cs arbitrary: acc) (simp_all add: set_category_def labelled_upsert)

lemma labelled_set_key: "labelled acc \<Longrightarrow> labelled (fold set_key ks acc)"
  by (induction ks arbitrary: acc) (simp_all add: set_key_def labelled_upsert)

lemma labelled_file_categories: "labelled (file_categories xf)"
proof -
  have "labelled acc \<Longrightarrow> labelled (fold (\<lambda>m acc. fold set_key (fm_categoryKeys m) (fold set_category (m_categories m) acc)) ms acc)"
    for ms :: "file_memory list" and acc
    by (induction ms arbitrary: acc) (simp_all add: labelled_set_category labelled_set_key)
  moreover have "labelled (fold set_category (xf_categories xf) [])"
    by (rule labelled_set_category) (simp add: labelled_def)
  ultimately show ?thesis by (simp add: file_categories_def)
qed

text \<open>The categories of a file: those it lists and those of its memories, not those of its policies.\<close>

lemma keys_exportCategoryDefinitions:
  "keys_of (exportCategoryDefinitions xf) = keys_of (xf_categories xf)
     \<union> (\<Union>m\<in>set (xf_memories xf). keys_of (m_categories m) \<union> set (fm_categoryKeys m))"
proof -
  have "(cat_key \<circ> snd) ` set (file_categories xf) = fst ` set (file_categories xf)"
    using labelled_file_categories[of xf] by (intro image_cong) (auto simp: labelled_def list_all_iff)
  then have "keys_of (exportCategoryDefinitions xf) = fst ` set (file_categories xf)"
    by (simp add: keys_of_def exportCategoryDefinitions_def image_comp)
  then show ?thesis by (simp only: file_categories_keys)
qed

text \<open>The clients: their names are free, and each gets an id of its own.\<close>

definition names_claimed :: "ident \<Rightarrow> string list \<Rightarrow> vault \<Rightarrow> bool" where
  "names_claimed userId claimed db =
     (\<forall>c\<in>set (v_clients db). c_userId c = userId \<longrightarrow> js_lower (c_name c) \<in> set claimed)"

definition drawn :: "vault \<Rightarrow> nat \<Rightarrow> (ident \<times> ident) list \<Rightarrow> bool" where
  "drawn db start idMap =
     (start \<le> id_next db \<and> distinct (map fst idMap) \<and> distinct (map snd idMap)
      \<and> snd ` set idMap \<subseteq> id_supply db ` {start ..< id_next db})"

lemma distinct_snd_upsert: "distinct (map snd kvs) \<Longrightarrow> v \<notin> snd ` set kvs \<Longrightarrow> distinct (map snd (upsert k v kvs))"
proof (induction k v kvs rule: upsert.induct)
  case (2 k v k' v' kvs)
  then show ?case using set_upsert_sub[of k v kvs] by (auto simp: image_iff)
qed simp

lemma insert_client_fresh:
  assumes "names_claimed userId claimed db" "uniqueImportName base claimed = (name, claimed')"
  shows "insert_client (imported_client now userId i name c) db
    = Some (draw_id db \<lparr> v_clients := v_clients db @ [imported_client now userId i name c] \<rparr>)"
proof -
  have "js_lower name \<notin> set claimed"
    using assms(2) next_import_name_fresh by (auto simp: uniqueImportName_def Let_def)
  then have "\<not> list_ex (clients_clash (imported_client now userId i name c)) (v_clients db)"
    using assms(1) by (auto simp: list_ex_iff clients_clash_def imported_client_def names_claimed_def)
  then show ?thesis by (simp add: insert_client_def)
qed

lemma importClients_loop_succeeds:
  assumes "names_claimed userId claimed db" "inj (id_supply db)" "drawn db start idMap"
  shows "\<exists>idMap' db'. importClients_loop now userId cs claimed idMap db = (Inr idMap', db')
    \<and> id_supply db' = id_supply db \<and> drawn db' start idMap'
    \<and> fst ` set idMap' = fst ` set idMap \<union> c_id ` set cs"
  using assms
proof (induction cs arbitrary: claimed idMap db)
  case (Cons c cs)
  obtain name claimed' where name: "uniqueImportName (c_name c) claimed = (name, claimed')" by force
  let ?c = "imported_client now userId (next_id db) name c"
  let ?db1 = "draw_id db \<lparr> v_clients := v_clients db @ [?c] \<rparr>"
  let ?map = "upsert (c_id c) (c_id ?c) idMap"
  note ins = insert_client_fresh[OF Cons.prems(1) name, of now "next_id db" c]
  have "claimed' = js_lower name # claimed" using name by (auto simp: uniqueImportName_def Let_def)
  then have nc: "names_claimed userId claimed' ?db1"
    using Cons.prems(1) by (auto simp: names_claimed_def imported_client_def draw_id_def)
  have ids: "id_supply ?db1 = id_supply db" "id_next ?db1 = Suc (id_next db)" by (simp_all add: draw_id_def)
  have cid: "c_id ?c = id_supply db (id_next db)" by (simp add: imported_client_def next_id_def)
  have "c_id ?c \<notin> snd ` set idMap"
  proof
    assume "c_id ?c \<in> snd ` set idMap"
    then have "id_supply db (id_next db) \<in> id_supply db ` {start ..< id_next db}"
      using Cons.prems(3) by (auto simp: drawn_def cid)
    then obtain n where "n < id_next db" "id_supply db (id_next db) = id_supply db n" by auto
    then show False using injD[OF Cons.prems(2), of "id_next db" n] by simp
  qed
  then have "distinct (map snd ?map)" using Cons.prems(3) by (simp add: drawn_def distinct_snd_upsert)
  moreover have "snd ` set ?map \<subseteq> id_supply db ` {start ..< Suc (id_next db)}"
  proof -
    have "snd ` set ?map \<subseteq> insert (c_id ?c) (snd ` set idMap)" using set_upsert_sub[of "c_id c" "c_id ?c" idMap] by force
    moreover have "insert (c_id ?c) (snd ` set idMap) \<subseteq> id_supply db ` {start ..< Suc (id_next db)}"
      using Cons.prems(3) unfolding drawn_def cid atLeastLessThanSuc by auto
    ultimately show ?thesis by blast
  qed
  ultimately have dr: "drawn ?db1 start ?map" using Cons.prems(3) ids by (simp add: drawn_def)
  have "inj (id_supply ?db1)" using Cons.prems(2) ids by simp
  from Cons.IH[OF nc this dr] obtain idMap' db' where
    rest: "importClients_loop now userId cs claimed' ?map ?db1 = (Inr idMap', db')"
    and "id_supply db' = id_supply db" "drawn db' start idMap'"
    and "fst ` set idMap' = fst ` set ?map \<union> c_id ` set cs"
    unfolding ids by blast
  moreover have "importClients_loop now userId (c # cs) claimed idMap db = (Inr idMap', db')"
    using rest unfolding importClients_loop.simps name Let_def prod.case ins option.case .
  ultimately show ?case by (intro exI[of _ idMap'] exI[of _ db']) (simp add: fst_upsert)
qed simp

text \<open>The policies: one per new client, of categories that exist.\<close>

definition policy_keys :: "policy \<Rightarrow> ident list" where
  "policy_keys p = map cat_key (p_allowedCategories p) @ map cat_key (p_deniedCategories p)"

lemma map_of_inj:
  assumes "distinct (map snd kvs)" "map_of kvs a = Some v" "map_of kvs b = Some v"
  shows "a = b"
proof -
  have "(a, v) \<in> set kvs" "(b, v) \<in> set kvs" using assms(2,3) by (auto dest: map_of_SomeD)
  moreover have "inj_on snd (set kvs)" using assms(1) by (simp add: distinct_map)
  ultimately show ?thesis by (metis Pair_inject inj_onD snd_conv)
qed

lemma importPolicies_succeeds:
  assumes "distinct (map p_clientId ps)" "distinct (map snd idMap)" "[] \<notin> snd ` set idMap"
    "\<And>p. p \<in> set ps \<Longrightarrow> p_clientId p \<in> fst ` set idMap"
    "\<And>p. p \<in> set ps \<Longrightarrow> connectable db (policy_keys p)"
    "\<And>p q. p \<in> set ps \<Longrightarrow> q \<in> set (v_policies db) \<Longrightarrow> map_of idMap (p_clientId p) \<noteq> Some (p_clientId q)"
  shows "\<exists>ids' db'. importPolicies now userId idMap ps ids db = (Inr ids', db') \<and> v_categories db' = v_categories db"
  using assms
proof (induction ps arbitrary: ids db)
  case (Cons p ps)
  obtain clientId where cl: "map_of idMap (p_clientId p) = Some clientId"
    using Cons.prems(4)[of p] by (auto simp: map_of_eq_None_iff[symmetric] dest!: weak_map_of_SomeI)
  have ne: "clientId \<noteq> []" using map_of_SomeD[OF cl] Cons.prems(3) by force
  let ?p = "imported_policy now userId clientId p db"
  let ?db1 = "draw_id db \<lparr> v_policies := v_policies db @ [?p] \<rparr>"
  have "\<not> list_ex (\<lambda>q. p_clientId q = p_clientId ?p) (v_policies db)"
    using Cons.prems(6)[of p] cl by (auto simp: list_ex_iff imported_policy_def)
  then have ins: "insert_policy ?p db = Some ?db1" by (simp add: insert_policy_def)
  have cats: "v_categories ?db1 = v_categories db" by (simp add: draw_id_def)
  have "\<exists>ids' db'. importPolicies now userId idMap ps (ids @ [p_id ?p]) ?db1 = (Inr ids', db')
    \<and> v_categories db' = v_categories ?db1"
  proof (rule Cons.IH)
    show "connectable ?db1 (policy_keys q)" if "q \<in> set ps" for q
      using Cons.prems(5)[of q] that unfolding connectable_def cats by simp
    show "map_of idMap (p_clientId q) \<noteq> Some (p_clientId x)" if "q \<in> set ps" "x \<in> set (v_policies ?db1)" for q x
    proof (cases "x = ?p")
      case True
      then show ?thesis using map_of_inj[OF Cons.prems(2) cl, of "p_clientId q"] Cons.prems(1) that(1)
        by (auto simp: imported_policy_def)
    next
      case False
      then show ?thesis using that Cons.prems(6)[of q x] by simp
    qed
  qed (use Cons.prems in auto)
  moreover have "connectable db (map cat_key (p_allowedCategories p) @ map cat_key (p_deniedCategories p))"
    using Cons.prems(5)[of p] by (simp add: policy_keys_def)
  ultimately show ?case using cl ne ins cats by (simp add: Let_def)
qed simp

lemma importPolicies_connectable:
  assumes "importPolicies now userId idMap ps ids db = (Inr ids', db')" "p \<in> set ps"
  shows "connectable db (policy_keys p)"
  using assms
proof (induction ps arbitrary: ids db)
  case (Cons q ps)
  from Cons.prems obtain clientId db1 where con: "connectable db (policy_keys q)"
    and ins: "insert_policy (imported_policy now userId clientId q db) db = Some db1"
    and rest: "importPolicies now userId idMap ps (ids @ [p_id (imported_policy now userId clientId q db)]) db1
      = (Inr ids', db')"
    by (auto simp: Let_def policy_keys_def split: option.splits if_splits)
  have "v_categories db1 = v_categories db" using ins by (auto simp: insert_policy_def draw_id_def split: if_splits)
  with con Cons.IH[OF rest] Cons.prems(2) show ?case by (auto simp: connectable_def)
qed simp

text \<open>The memories.\<close>

lemma restore_succeeds:
  assumes "connectable db (fm_categoryKeys m)"
  shows "\<exists>db'. restoreExportedMemory now userId xf idMap jobRunId m db = (Inr (), db')
    \<and> v_categories db' = v_categories db"
  using assms by (simp add: restoreExportedMemory_def Let_def case_prod_beta audit_simps)

lemma import_memories_succeeds:
  assumes "\<And>m. m \<in> set (xf_memories xf) \<Longrightarrow> connectable db (fm_categoryKeys m)"
  shows "\<exists>n db'. import_memories now userId xf mode idMap jobRunId db = (Inr n, db')"
proof -
  have act: "\<exists>n db'. importActiveMemories now userId xf idMap jobRunId ms db = (Inr n, db')"
    if "\<forall>m\<in>set ms. connectable db (fm_categoryKeys m)" for ms db
    using that
  proof (induction ms arbitrary: db)
    case (Cons m ms)
    then obtain db1 where one: "restoreExportedMemory now userId xf idMap jobRunId m db = (Inr (), db1)"
      "v_categories db1 = v_categories db" using restore_succeeds[of db m] by fastforce
    then obtain n db' where "importActiveMemories now userId xf idMap jobRunId ms db1 = (Inr n, db')"
      using Cons.IH[of db1] Cons.prems by (auto simp: connectable_def)
    then show ?case using one by (simp add: case_prod_beta)
  qed simp
  have sug: "\<exists>n db'. importSuggestions now userId xf idMap jobRunId ms db = (Inr n, db')"
    if "\<forall>m\<in>set ms. connectable db (fm_categoryKeys m)" for ms db
    using that
  proof (induction ms arbitrary: db)
    case (Cons m ms)
    obtain db1 where one: "restoreExportedMemory now userId xf idMap jobRunId m db = (Inr (), db1)"
      "v_categories db1 = v_categories db" using restore_succeeds[of db m] Cons.prems by fastforce
    have cat: "v_categories (suggestMemory now userId xf jobRunId m db) = v_categories db"
      by (simp add: suggestMemory_def Let_def audit_simps)
    obtain n db' where "importSuggestions now userId xf idMap jobRunId ms db1 = (Inr n, db')"
      using Cons.IH[of db1] Cons.prems one(2) by (auto simp: connectable_def)
    moreover obtain n' db'' where
      "importSuggestions now userId xf idMap jobRunId ms (suggestMemory now userId xf jobRunId m db) = (Inr n', db'')"
      using Cons.IH[of "suggestMemory now userId xf jobRunId m db"] Cons.prems cat by (auto simp: connectable_def)
    ultimately show ?case using one by (simp add: case_prod_beta)
  qed simp
  show ?thesis using act sug assms by (cases mode) (simp_all add: import_memories_def)
qed

text \<open>A policy of the file that names a category neither the vault nor the rest of the file has.\<close>

definition names_unknown_category :: "vault \<Rightarrow> export_file \<Rightarrow> policy \<Rightarrow> bool" where
  "names_unknown_category db xf p =
     (\<not> set (policy_keys p) \<subseteq> keys_of (v_categories db) \<union> keys_of (exportCategoryDefinitions xf))"

text \<open>The ids the database has not drawn yet are in no policy.\<close>

definition fresh_supply :: "vault \<Rightarrow> bool" where
  "fresh_supply db =
     (inj (id_supply db)
      \<and> (\<forall>n\<ge>id_next db. id_supply db n \<noteq> [] \<and> id_supply db n \<notin> p_clientId ` set (v_policies db)))"

lemma categories_imported:
  assumes "grown (upsertCategories cats db1) a db2" "new_categories a = []" "v_categories db1 = v_categories db"
  shows "keys_of (v_categories db2) = keys_of (v_categories db) \<union> keys_of cats"
proof -
  have "keys_of (v_categories (upsertCategories cats db1)) = keys_of (v_categories db1) \<union> keys_of cats"
    unfolding keys_of_def by (rule grown_upsertCategories)
  then show ?thesis using assms by (simp add: grown_def)
qed

lemma start_import_facts:
  assumes "start_import now userId xf mode db = (jobRunId, db1)"
  shows "v_categories db1 = v_categories db" "v_clients db1 = v_clients db" "v_policies db1 = v_policies db"
    "id_supply db1 = id_supply db" "id_next db \<le> id_next db1"
  using assms by (auto simp: start_import_def Let_def insert_job_def draw_id_def audit_simps)

text \<open>The stages of an import up to its policies never fail.\<close>

lemma import_clients_stage:
  assumes "fresh_supply db" "start_import now userId xf mode db = (jobRunId, db1)"
  obtains idMap db2 where
    "importClients now userId xf (upsertCategories (exportCategoryDefinitions xf) db1) = (Inr idMap, db2)"
    "fst ` set idMap = c_id ` set (xf_clients xf)" "distinct (map snd idMap)" "[] \<notin> snd ` set idMap"
    "snd ` set idMap \<inter> p_clientId ` set (v_policies db) = {}" "v_policies db2 = v_policies db"
    "keys_of (v_categories db2) = keys_of (v_categories db) \<union> keys_of (exportCategoryDefinitions xf)"
proof -
  let ?up = "upsertCategories (exportCategoryDefinitions xf) db1"
  let ?claimed = "map (\<lambda>c. js_lower (c_name c)) (filter (\<lambda>c. c_userId c = userId) (v_clients ?up))"
  note s = start_import_facts[OF assms(2)]
  have ids: "id_supply ?up = id_supply db" "id_next db \<le> id_next ?up"
    using s by (simp_all add: upsertCategories_def)
  have nc: "names_claimed userId ?claimed ?up" by (simp add: names_claimed_def)
  have inj: "inj (id_supply ?up)" using assms(1) ids by (simp add: fresh_supply_def)
  have dr: "drawn ?up (id_next ?up) []" by (simp add: drawn_def)
  from importClients_loop_succeeds[OF nc inj dr, of now "xf_clients xf"] obtain idMap db2 where
    cl: "importClients now userId xf ?up = (Inr idMap, db2)" and d: "drawn db2 (id_next ?up) idMap"
    and sup: "id_supply db2 = id_supply db" and k: "fst ` set idMap = c_id ` set (xf_clients xf)"
    unfolding importClients_def ids(1) by auto
  have "snd ` set idMap \<subseteq> id_supply db ` {id_next ?up ..< id_next db2}"
    using d unfolding drawn_def sup by (elim conjE)
  also have "\<dots> \<subseteq> id_supply db ` {id_next db ..}" using ids(2) by (intro image_mono subsetI) simp
  finally have "snd ` set idMap \<subseteq> id_supply db ` {id_next db ..}" .
  moreover have "[] \<notin> id_supply db ` {id_next db ..}"
    "id_supply db ` {id_next db ..} \<inter> p_clientId ` set (v_policies db) = {}"
    using assms(1) by (auto simp: fresh_supply_def)
  ultimately have "[] \<notin> snd ` set idMap" "snd ` set idMap \<inter> p_clientId ` set (v_policies db) = {}"
    by (meson subsetD, meson disjoint_iff subsetD)
  moreover obtain rows where g: "grown ?up (no_additions \<lparr> new_clients := rows \<rparr>) db2"
    using importClients_loop_grown[OF cl[unfolded importClients_def]] by blast
  moreover have "v_policies db2 = v_policies db"
    using g s by (simp add: grown_def upsertCategories_def no_additions_def)
  ultimately show ?thesis
    using that[OF cl k] d categories_imported[OF g _ s(1)] by (simp add: drawn_def no_additions_def)
qed

lemma import_fails_iff:
  assumes "valid_export xf" "fresh_supply db"
  shows "isl (fst (importVault now userId xf mode db)) \<longleftrightarrow> (\<exists>p\<in>set (xf_policies xf). names_unknown_category db xf p)"
proof -
  obtain jobRunId db1 where start: "start_import now userId xf mode db = (jobRunId, db1)" by force
  from import_clients_stage[OF assms(2) start] obtain idMap db2 where
    cl: "importClients now userId xf (upsertCategories (exportCategoryDefinitions xf) db1) = (Inr idMap, db2)"
    and m: "fst ` set idMap = c_id ` set (xf_clients xf)" "distinct (map snd idMap)" "[] \<notin> snd ` set idMap"
      "snd ` set idMap \<inter> p_clientId ` set (v_policies db) = {}" "v_policies db2 = v_policies db"
    and cats: "keys_of (v_categories db2) = keys_of (v_categories db) \<union> keys_of (exportCategoryDefinitions xf)" .
  have known: "names_unknown_category db xf p = (\<not> connectable db2 (policy_keys p))" for p
    using cats by (simp add: names_unknown_category_def connectable_iff keys_of_def)
  let ?po = "importPolicies now userId idMap (xf_policies xf) [] db2"
  show ?thesis
  proof (cases "\<exists>p\<in>set (xf_policies xf). names_unknown_category db xf p")
    case True
    then obtain e db3 where "?po = (Inl e, db3)"
      using importPolicies_connectable[of now userId idMap "xf_policies xf" "[]" db2] known
      by (cases ?po; cases "fst ?po") auto
    then have "importVault now userId xf mode db = (Inl e, db)"
      by (simp add: importVault_def import_tx_def start cl Let_def)
    then show ?thesis using True by simp
  next
    case False
    have "\<exists>ids db3. ?po = (Inr ids, db3) \<and> v_categories db3 = v_categories db2"
    proof (rule importPolicies_succeeds)
      show "map_of idMap (p_clientId p) \<noteq> Some (p_clientId q)" if "q \<in> set (v_policies db2)" for p q
      proof
        assume "map_of idMap (p_clientId p) = Some (p_clientId q)"
        then have "p_clientId q \<in> snd ` set idMap" using map_of_SomeD by force
        moreover have "p_clientId q \<in> p_clientId ` set (v_policies db)" using that m(5) by simp
        ultimately show False using m(4) by blast
      qed
    qed (use assms(1) m False known in \<open>auto simp: valid_export_def list_all_iff\<close>)
    then obtain ids db3 where po: "?po = (Inr ids, db3)" and c3: "v_categories db3 = v_categories db2" by blast
    have "connectable db3 (fm_categoryKeys f)" if "f \<in> set (xf_memories xf)" for f
      using that cats unfolding connectable_iff c3 keys_exportCategoryDefinitions by (auto simp: keys_of_def)
    from import_memories_succeeds[of xf db3, OF this] obtain a b db4
      where "import_memories now userId xf mode idMap jobRunId db3 = (Inr (a, b), db4)" by fast
    then have "\<not> isl (fst (importVault now userId xf mode db))"
      by (simp add: importVault_def import_tx_def start cl po Let_def)
    then show ?thesis using False by blast
  qed
qed

section \<open>What an import guarantees\<close>

lemma list_all2_range: "list_all2 P xs ys \<Longrightarrow> (\<And>x y. x \<in> set xs \<Longrightarrow> P x y \<Longrightarrow> Q y) \<Longrightarrow> list_all Q ys"
  by (induction rule: list_all2_induct) auto

definition whole_query :: export_query where
  "whole_query = \<lparr> eq_categoryKeys = [], eq_sensitivity = None, eq_createdAfter = None, eq_createdBefore = None,
     eq_includeAuditEvents = False, eq_includeArchived = True \<rparr>"

definition sample_file :: export_file where
  "sample_file = exportVault 5 ''u1'' whole_query sample_vault"

text \<open>An export of the memories about work alone; the owner's policy denies health.\<close>

definition work_file :: export_file where
  "work_file = exportVault 5 ''u1'' (whole_query \<lparr> eq_categoryKeys := [''work''] \<rparr>) sample_vault"

definition blank_vault :: vault where "blank_vault = empty_vault sample_ids"

lemma fresh_blank: "fresh_supply blank_vault"
  using sample_ids_inj by (simp add: fresh_supply_def blank_vault_def empty_vault_def sample_ids_def)

lemma sample_file_valid: "valid_export sample_file" "valid_export work_file"
  by code_simp+

lemma sample_file_known: "\<not> (\<exists>p\<in>set (xf_policies sample_file). names_unknown_category blank_vault sample_file p)"
  by code_simp

lemma work_file_unknown: "\<exists>p\<in>set (xf_policies work_file). names_unknown_category blank_vault work_file p"
  by code_simp

lemma sample_imported:
  obtains r db' where "importVault 9 ''u2'' sample_file mode blank_vault = (Inr r, db')"
proof -
  have "\<not> isl (fst (importVault 9 ''u2'' sample_file mode blank_vault))"
    using import_fails_iff[OF sample_file_valid(1) fresh_blank] sample_file_known by blast
  then show ?thesis using outcome_ok that by blast
qed

text \<open>C33. An import only adds: every row of the vault's clients, policies, memories, suggestions and categories
  stays as it was, and the users, requests, connectors and tokens do not change at all.  An imported app is
  unknown and has neither a token nor a connector, and an imported policy belongs to an imported app.\<close>

theorem import_is_additive:
  assumes "importVault now userId xf mode db = (Inr r, db')"
  shows "\<exists>a. grown db a db' \<and> list_all (harmless_client userId) (new_clients a)
    \<and> length (new_clients a) = length (xf_clients xf)
    \<and> list_all (\<lambda>p. p_userId p = userId \<and> p_clientId p \<in> c_id ` set (new_clients a)) (new_policies a)
    \<and> ir_memoriesCreated r = length (new_memories a) \<and> ir_suggestionsCreated r = length (new_suggestions a)"
  using import_grown[OF assms] by blast

lemma import_is_additive_witness:
  "\<exists>r db' a. importVault 9 ''u2'' sample_file Import_active blank_vault = (Inr r, db') \<and> grown blank_vault a db'"
proof -
  obtain r db' where r: "importVault 9 ''u2'' sample_file Import_active blank_vault = (Inr r, db')"
    by (rule sample_imported)
  from import_is_additive[OF this] show ?thesis using r by blast
qed

text \<open>Importing suggestions activates nothing: each memory of the file either was archived and is restored as
  archived, or becomes a suggestion that waits for the owner's review.\<close>

theorem suggestion_import_activates_nothing:
  assumes "importVault now userId xf Import_suggestions db = (Inr r, db')"
  shows "\<exists>rows sugs. v_memories db' = v_memories db @ rows \<and> v_suggestions db' = v_suggestions db @ sugs
    \<and> list_all (\<lambda>m. m_status m = memory_status.ARCHIVED \<and> m_userId m = userId) rows
    \<and> list_all (\<lambda>s. s_status s = memory_suggestion_status.QUEUED_FOR_REVIEW \<and> s_userId s = userId) sugs
    \<and> length rows + length sugs = length (xf_memories xf)"
proof -
  from import_grown[OF assms] obtain a where g: "grown db a db'"
    and m: "list_all2 (restores now userId xf) (filter archived_file_memory (xf_memories xf)) (new_memories a)"
    and s: "list_all2 (proposes userId xf) (filter (\<lambda>m. \<not> archived_file_memory m) (xf_memories xf)) (new_suggestions a)"
    by (auto simp: imported_memories_def)
  have "list_all (\<lambda>r. m_status r = memory_status.ARCHIVED \<and> m_userId r = userId) (new_memories a)"
    by (rule list_all2_range[OF m]) (simp add: restores_def importedActiveStatus_def archived_file_memory_def)
  moreover have "list_all (\<lambda>s. s_status s = memory_suggestion_status.QUEUED_FOR_REVIEW \<and> s_userId s = userId)
    (new_suggestions a)"
    by (rule list_all2_range[OF s]) (auto simp: proposes_def imported_suggestion_def)
  moreover have "length (new_memories a) + length (new_suggestions a) = length (xf_memories xf)"
    using list_all2_lengthD[OF m] list_all2_lengthD[OF s] sum_length_filter_compl[of archived_file_memory "xf_memories xf"] by linarith
  ultimately show ?thesis using g unfolding grown_def by blast
qed

lemma suggestion_import_activates_nothing_witness:
  "\<exists>r db' sugs. importVault 9 ''u2'' sample_file Import_suggestions blank_vault = (Inr r, db')
     \<and> v_suggestions db' = v_suggestions blank_vault @ sugs"
proof -
  obtain r db' where r: "importVault 9 ''u2'' sample_file Import_suggestions blank_vault = (Inr r, db')"
    by (rule sample_imported)
  from suggestion_import_activates_nothing[OF this] show ?thesis using r by blast
qed

text \<open>C35. The import of a valid file fails in one case only: a policy of the file allows or denies a category that
  neither the vault nor the categories and memories of the file have.  An export that is filtered produces such
  files, since it keeps all policies and drops the categories of no exported memory.\<close>

theorem import_fails_exactly_when:
  assumes "valid_export xf" "fresh_supply db"
  shows "isl (fst (importVault now userId xf mode db)) \<longleftrightarrow> (\<exists>p\<in>set (xf_policies xf). names_unknown_category db xf p)"
  using assms by (rule import_fails_iff)

lemma import_fails_exactly_when_witness:
  "isl (fst (importVault 9 ''u2'' work_file Import_active blank_vault))
     \<and> \<not> isl (fst (importVault 9 ''u2'' sample_file Import_active blank_vault))"
  using import_fails_exactly_when[OF sample_file_valid(2) fresh_blank]
    import_fails_exactly_when[OF sample_file_valid(1) fresh_blank] work_file_unknown sample_file_known by blast

text \<open>The copy of a memory: its content and its categories, under its new owner.\<close>

definition copy_of :: "time \<Rightarrow> ident \<Rightarrow> memory \<Rightarrow> memory \<Rightarrow> bool" where
  "copy_of now userId m r =
     (m_userId r = userId \<and> m_kind r = m_kind m \<and> m_title r = m_title m \<and> m_body r = m_body m
      \<and> m_sensitivity r = m_sensitivity m \<and> m_confidence r = m_confidence m \<and> m_sourceUri r = m_sourceUri m
      \<and> m_expiresAt r = m_expiresAt m \<and> m_status r = importedActiveStatus now m
      \<and> keys_of (m_categories r) = keys_of (m_categories m))"

lemma restores_copy: "restores now userId xf (to_file_memory m) r \<Longrightarrow> copy_of now userId m r"
  by (auto simp: restores_def copy_of_def to_file_memory_def Let_def memory.defs importedActiveStatus_def
      expired_by_def keys_of_def)

text \<open>The rows of an owner that the tables' references allow.\<close>

definition export_consistent :: "ident \<Rightarrow> vault \<Rightarrow> bool" where
  "export_consistent userId db =
     (let ps = filter (\<lambda>p. p_userId p = userId) (v_policies db)
      in distinct (map p_clientId ps)
         \<and> list_all (\<lambda>p. list_ex (\<lambda>c. c_id c = p_clientId p \<and> c_userId c = userId) (v_clients db)
              \<and> connectable db (policy_keys p)) ps)"

lemma set_newest_first [simp]: "set (newest_first f rows) = set rows"
  by (simp add: newest_first_def)

lemma valid_exportVault: "export_consistent userId db \<Longrightarrow> valid_export (exportVault now userId q db)"
proof -
  assume c: "export_consistent userId db"
  have "mset (map p_clientId (newest_first p_updatedAt ps)) = mset (map p_clientId ps)" for ps
    by (simp add: newest_first_def)
  then have "distinct (map p_clientId (newest_first p_updatedAt ps)) = distinct (map p_clientId ps)" for ps
    by (metis mset_eq_imp_distinct_iff)
  then show ?thesis using c
    by (force simp: valid_export_def exportVault_def export_consistent_def Let_def list_all_iff list_ex_iff image_iff)
qed



end
