(* ===== verification/ExtractionRun.thy ===== *)
theory ExtractionRun
  imports Candidates DataControl
begin

text \<open>
  \<open>apps/api/src/memory-processing\<close>: the extraction run of a message.  \<open>extraction-run.service.ts\<close> claims a
  run with a lease and a token and coordinates the attempt, \<open>extraction-outcome-writer.ts\<close> writes its end
  under the token, and \<open>candidate-applier.ts\<close> applies one candidate once.  The columns \<open>createdAt\<close> and
  \<open>updatedAt\<close> of a run, which no operation reads, are left out.
\<close>

section \<open>Tables\<close>

datatype extraction_status = PENDING | RUNNING | COMPLETED | PARTIAL | SKIPPED | FAILED

primrec processingStatus :: "extraction_status \<Rightarrow> string" where
  "processingStatus extraction_status.PENDING = ''pending''"
| "processingStatus extraction_status.RUNNING = ''running''"
| "processingStatus extraction_status.COMPLETED = ''completed''"
| "processingStatus extraction_status.PARTIAL = ''partial''"
| "processingStatus extraction_status.SKIPPED = ''skipped''"
| "processingStatus extraction_status.FAILED = ''failed''"

type_synonym json_record = "(string \<times> json) list"

record extraction_run =
  xr_id :: ident
  xr_userId :: ident
  xr_sourceMessageId :: ident
  xr_configuration :: json
  xr_fingerprint :: string
  xr_status :: extraction_status
  xr_attempts :: nat
  xr_claimToken :: "ident option"
  xr_leaseUntil :: "time option"
  xr_result :: json_record
  xr_pendingCandidates :: "candidate list"
  xr_failureReason :: "string option"
  xr_finishedAt :: "time option"

record application =
  ap_id :: ident
  ap_runId :: ident
  ap_candidateId :: ident
  ap_result :: json_record

record extraction_db =
  xd_vault :: vault
  xd_messages :: "chat_message list"
  xd_voiceSessions :: "voice_session list"
  xd_runs :: "extraction_run list"
  xd_applications :: "application list"

type_synonym 'a effect = "(run_failure + 'a) \<times> extraction_db"

definition run_row :: "extraction_db \<Rightarrow> ident \<Rightarrow> extraction_run option" where
  "run_row db i = find_row (\<lambda>r. xr_id r = i) (xd_runs db)"

definition run_of_message :: "extraction_db \<Rightarrow> ident \<Rightarrow> ident \<Rightarrow> extraction_run option" where
  "run_of_message db userId sourceMessageId =
     find_row (\<lambda>r. xr_userId r = userId \<and> xr_sourceMessageId r = sourceMessageId) (xd_runs db)"

definition application_row :: "extraction_db \<Rightarrow> ident \<Rightarrow> ident \<Rightarrow> application option" where
  "application_row db runId candidateId =
     find_row (\<lambda>a. ap_runId a = runId \<and> ap_candidateId a = candidateId) (xd_applications db)"

text \<open>\<open>memoryCandidateApplication.create\<close>.\<close>

definition insert_application :: "ident \<Rightarrow> ident \<Rightarrow> json_record \<Rightarrow> extraction_db \<Rightarrow> extraction_db" where
  "insert_application runId candidateId res db =
     db \<lparr> xd_vault := draw_id (xd_vault db),
          xd_applications := xd_applications db
            @ [\<lparr> ap_id = next_id (xd_vault db), ap_runId = runId, ap_candidateId = candidateId, ap_result = res \<rparr>] \<rparr>"

text \<open>\<open>chatMessage.update\<close> of the processing column; \<open>None\<close> is the error P2025 of a message that is gone.\<close>

definition set_processing :: "ident \<Rightarrow> json_record \<Rightarrow> extraction_db \<Rightarrow> extraction_db option" where
  "set_processing i v db =
     (if find_row (\<lambda>m. ms_id m = i) (xd_messages db) = None then None
      else Some (db \<lparr> xd_messages := update_where (\<lambda>m. ms_id m = i) (\<lambda>m. m \<lparr> ms_processing := v \<rparr>) (xd_messages db) \<rparr>))"

section \<open>CandidateApplier\<close>

text \<open>What the applier takes from outside: the services' environments, the dates, the check of an ISO date and
  time by the schema library, and the comparison of two texts without regard to case by the database.\<close>

record applier_env =
  ax_memory :: memory_env
  ax_dates :: date_env
  ax_isoDatetime :: "string \<Rightarrow> bool"
  ax_sameText :: "string \<Rightarrow> string \<Rightarrow> bool"

definition webChatPurpose :: string where "webChatPurpose = ''memory_chat''"
definition voicePurpose :: string where "voicePurpose = ''memory_voice''"

text \<open>The limits of \<open>createMemorySuggestionRequestSchema\<close> and its parse of a candidate.\<close>

definition suggestion_limits :: "suggestion_request \<Rightarrow> bool" where
  "suggestion_limits r =
     (sized 1 180 (sq_title r) \<and> sized 1 10000 (sq_body r) \<and> length (sq_categoryKeys r) \<le> 12
      \<and> list_all (\<lambda>k. k \<noteq> []) (sq_categoryKeys r)
      \<and> (case sq_evidence r of None \<Rightarrow> True | Some e \<Rightarrow> length e \<le> 2000))"

definition candidate_request :: "applier_env \<Rightarrow> channel \<Rightarrow> candidate \<Rightarrow> suggestion_request" where
  "candidate_request env channel c =
     \<lparr> sq_purpose = Some (case channel of Voice \<Rightarrow> voicePurpose | Chat \<Rightarrow> webChatPurpose), sq_kind = cd_kind c,
       sq_title = js_trim (cd_title c), sq_body = js_trim (cd_body c), sq_categoryKeys = map js_trim (cd_categoryKeys c),
       sq_sensitivity = cd_sensitivity c, sq_evidence = Some (js_trim (join_lines (map ev_quote (cd_evidence c)))),
       sq_confidence = extractionConfidence, sq_expiresAt = Option.bind (cd_expiresAt c) (de_getTime (ax_dates env)),
       sq_sourceMetadata = [] \<rparr>"

definition parse_candidate :: "applier_env \<Rightarrow> channel \<Rightarrow> candidate \<Rightarrow> error + suggestion_request" where
  "parse_candidate env channel c =
     (if suggestion_limits (candidate_request env channel c)
        \<and> (case cd_expiresAt c of None \<Rightarrow> True | Some x \<Rightarrow> ax_isoDatetime env x)
      then Inr (candidate_request env channel c)
      else Inl (BadRequest ''Invalid request''))"

definition extracted_metadata :: "ident \<Rightarrow> ident \<Rightarrow> candidate \<Rightarrow> processing_configuration \<Rightarrow> json_record" where
  "extracted_metadata runId sourceMessageId c configuration =
     [(''runId'', JStr runId), (''candidateId'', JStr (cd_id c)), (''sourceMessageId'', JStr sourceMessageId),
      (''evidence'', JArr (map evidence_json (cd_evidence c))), (''fingerprint'', JStr (pf_fingerprint configuration)),
      (''model'', JStr (et_model (pf_extraction configuration))), (''rubric'', JStr (pf_rubric configuration)),
      (''processors'', json_strings (et_processors (pf_extraction configuration)))]"

definition candidate_input ::
  "applier_env \<Rightarrow> ident \<Rightarrow> ident \<Rightarrow> ident \<Rightarrow> ident \<Rightarrow> suggestion_request \<Rightarrow> candidate \<Rightarrow> processing_configuration
     \<Rightarrow> suggestion_input" where
  "candidate_input env userId runId sourceMessageId clientId body c configuration =
     \<lparr> su_userId = userId, su_clientId = clientId, su_transport = ''http_api'',
       su_reviewOnly = (et_writeMode (pf_extraction configuration) = Write_review),
       su_serverMetadata = extracted_metadata runId sourceMessageId c configuration, su_body = body \<rparr>"

primrec suggestion_status_name :: "memory_suggestion_status \<Rightarrow> string" where
  "suggestion_status_name memory_suggestion_status.QUEUED_FOR_REVIEW = ''QUEUED_FOR_REVIEW''"
| "suggestion_status_name memory_suggestion_status.APPLIED = ''APPLIED''"
| "suggestion_status_name memory_suggestion_status.REJECTED = ''REJECTED''"
| "suggestion_status_name memory_suggestion_status.APPROVED = ''APPROVED''"
| "suggestion_status_name memory_suggestion_status.DISMISSED = ''DISMISSED''"

definition response_json :: "suggestion_response \<Rightarrow> json_record" where
  "response_json r =
     [(''suggestionId'', json_opt (sg_suggestionId r)), (''memoryId'', json_opt (sg_memoryId r)),
      (''status'', JStr (case sg_status r of Some s \<Rightarrow> suggestion_status_name s | None \<Rightarrow> ''DENIED'')),
      (''policyId'', json_opt (sg_policyId r)), (''auditEventId'', json_opt (sg_auditEventId r)),
      (''reason'', json_opt (map_option reason_name (sg_reason r))), (''decision'', JStr (decision_name (sg_decision r))),
      (''denied'', JArr (map (\<lambda>(i, why). JObj [(''memoryId'', JStr i), (''reason'', JStr (reason_name why))]) (sg_denied r)))]"

definition same_memory :: "applier_env \<Rightarrow> time \<Rightarrow> ident \<Rightarrow> string \<Rightarrow> memory \<Rightarrow> bool" where
  "same_memory env now userId body m =
     (m_userId m = userId \<and> m_status m = memory_status.ACTIVE \<and> ax_sameText env (m_body m) body
      \<and> (case m_expiresAt m of None \<Rightarrow> True | Some t \<Rightarrow> now < t))"

definition same_suggestion :: "applier_env \<Rightarrow> ident \<Rightarrow> string \<Rightarrow> suggestion \<Rightarrow> bool" where
  "same_suggestion env userId body s =
     (s_userId s = userId \<and> s_status s = memory_suggestion_status.QUEUED_FOR_REVIEW \<and> ax_sameText env (s_body s) body)"

text \<open>The answer for a candidate: a row it repeats, or the outcome of the intake.\<close>

definition apply_or_dedupe ::
  "applier_env \<Rightarrow> time \<Rightarrow> suggestion_input \<Rightarrow> prepared_suggestion \<Rightarrow> vault \<Rightarrow> json_record \<times> vault" where
  "apply_or_dedupe env now inp prepared db =
     (let authorized = prepared_decision prepared \<noteq> DENY;
          body = sq_body (su_body inp);
          memory = (if authorized then find_row (same_memory env now (su_userId inp) body) (v_memories db) else None);
          suggestion = (if memory \<noteq> None \<or> \<not> authorized then None
                        else find_row (same_suggestion env (su_userId inp) body) (v_suggestions db))
      in if memory \<noteq> None \<or> suggestion \<noteq> None
         then ([(''status'', JStr ''deduplicated''), (''memoryId'', json_opt (map_option m_id memory)),
                (''suggestionId'', json_opt (map_option s_id suggestion))], db)
         else let (response, db1) = apply_prepared now inp prepared db in (response_json response, db1))"

definition candidate_result :: "candidate \<Rightarrow> suggestion_request \<Rightarrow> json_record \<Rightarrow> json_record" where
  "candidate_result c body response =
     spread [(''candidateId'', JStr (cd_id c)), (''title'', JStr (sq_title body)),
       (''categoryKeys'', json_strings (sq_categoryKeys body)), (''sensitivity'', JStr (sensitivity_name (sq_sensitivity body)))]
       response"

text \<open>\<open>memoryProcessingOutcomeSchema.parse\<close> of a stored result: the rows are written by this service, so only the
  receipts of tools, which have no status, fail it.\<close>

definition parse_outcome :: "json_record \<Rightarrow> run_failure + json_record" where
  "parse_outcome v =
     (case map_of v ''status'' of Some (JStr _) \<Rightarrow> Inr v | _ \<Rightarrow> Inl (Provider_error ''ZodError'' None))"

definition applyCandidate ::
  "applier_env \<Rightarrow> time \<Rightarrow> ident \<Rightarrow> ident \<Rightarrow> ident \<Rightarrow> ident \<Rightarrow> channel \<Rightarrow> candidate \<Rightarrow> processing_configuration
     \<Rightarrow> extraction_db \<Rightarrow> json_record effect" where
  "applyCandidate env now userId runId sourceMessageId clientId channel c configuration db =
     (case application_row db runId (cd_id c) of
        Some existing \<Rightarrow> (parse_outcome (ap_result existing), db)
      | None \<Rightarrow>
          (case parse_candidate env channel c of
             Inl e \<Rightarrow> (Inl (Service_error (Raised e)), db)
           | Inr body \<Rightarrow>
               let inp = candidate_input env userId runId sourceMessageId clientId body c configuration
               in case prepareSuggestion (ax_memory env) now inp (xd_vault db) of
                    Inl e \<Rightarrow> (Inl (Service_error (Raised e)), db)
                  | Inr prepared \<Rightarrow>
                      let (response, v1) = apply_or_dedupe env now inp prepared (xd_vault db);
                          res = candidate_result c body response
                      in (Inr res, insert_application runId (cd_id c) res (db \<lparr> xd_vault := v1 \<rparr>))))"

definition applied_memory :: "json_record \<Rightarrow> ident option" where
  "applied_memory outcome =
     (if map_of outcome ''status'' = Some (JStr ''APPLIED'')
      then (case map_of outcome ''memoryId'' of Some (JStr i) \<Rightarrow> Some i | _ \<Rightarrow> None) else None)"

definition enqueueApplied :: "applier_env \<Rightarrow> time \<Rightarrow> ident \<Rightarrow> json_record list \<Rightarrow> extraction_db \<Rightarrow> extraction_db" where
  "enqueueApplied env now userId outcomes db =
     db \<lparr> xd_vault := fold (\<lambda>i v. enqueueEmbeddingGeneration (ax_memory env) now userId i ''memory_created'' v)
            (List.map_filter applied_memory outcomes) (xd_vault db) \<rparr>"

section \<open>ExtractionOutcomeWriter\<close>

text \<open>The context of an attempt: the rows as they were read when the run was claimed.\<close>

record attempt =
  at_userId :: ident
  at_sourceMessageId :: ident
  at_source :: chat_message
  at_run :: extraction_run
  at_configuration :: "processing_configuration option"
  at_claimToken :: ident

record conclusion =
  cn_now :: time
  cn_latencyMs :: nat
  cn_aborted :: "string option"
  cn_clientId :: ident
  cn_channel :: channel

definition amends :: "candidate \<Rightarrow> bool" where
  "amends c = (cd_intent c \<in> {Correction, Retraction})"

definition applicable :: "candidate \<Rightarrow> bool" where
  "applicable c = (cd_disposition c = Eligible \<and> \<not> amends c)"

definition unapplied_outcome :: "candidate \<Rightarrow> json_record" where
  "unapplied_outcome c =
     [(''candidateId'', JStr (cd_id c)), (''title'', JStr (cd_title c)),
      (''status'', JStr (if cd_disposition c = Rejected then ''rejected''
         else if amends c then ''pending_reconciliation'' else ''needs_clarification'')),
      (''reason'', JStr (cd_reason c))]"

text \<open>The loop over the candidates: the outcomes, and the candidates that stay pending.\<close>

fun apply_candidates ::
  "applier_env \<Rightarrow> time \<Rightarrow> ident \<Rightarrow> ident \<Rightarrow> ident \<Rightarrow> ident \<Rightarrow> channel \<Rightarrow> processing_configuration
     \<Rightarrow> candidate list \<Rightarrow> extraction_db \<Rightarrow> (json_record list \<times> candidate list) effect" where
  "apply_candidates env now userId runId sourceId clientId channel configuration [] db = (Inr ([], []), db)"
| "apply_candidates env now userId runId sourceId clientId channel configuration (c # cs) db =
     (if \<not> applicable c
      then apfst (map_sum id (\<lambda>(outcomes, pending).
             (unapplied_outcome c # outcomes, if cd_disposition c \<noteq> Rejected then c # pending else pending)))
           (apply_candidates env now userId runId sourceId clientId channel configuration cs db)
      else case applyCandidate env now userId runId sourceId clientId channel c configuration db of
             (Inl e, db1) \<Rightarrow> (Inl e, db1)
           | (Inr outcome, db1) \<Rightarrow>
               apfst (map_sum id (\<lambda>(outcomes, pending). (outcome # outcomes, pending)))
                 (apply_candidates env now userId runId sourceId clientId channel configuration cs db1))"

definition outcome_status :: "extraction_output \<Rightarrow> extraction_status" where
  "outcome_status out =
     (if xo_partial out \<or> list_ex (\<lambda>c. cd_disposition c = Rejected) (xo_candidates out)
      then extraction_status.PARTIAL else extraction_status.COMPLETED)"

definition outcome_result ::
  "attempt \<Rightarrow> conclusion \<Rightarrow> processing_configuration \<Rightarrow> extraction_output \<Rightarrow> json_record list \<Rightarrow> json_record" where
  "outcome_result a cn configuration out outcomes =
     [(''runId'', JStr (xr_id (at_run a))), (''sourceMessageId'', JStr (at_sourceMessageId a)),
      (''status'', JStr (processingStatus (outcome_status out))), (''outcomes'', JArr (map JObj outcomes)),
      (''processors'', json_strings (et_processors (pf_extraction configuration))),
      (''model'', JStr (et_model (pf_extraction configuration))), (''rubric'', JStr (pf_rubric configuration)),
      (''fingerprint'', JStr (xr_fingerprint (at_run a))), (''latencyMs'', json_nat (cn_latencyMs cn)),
      (''diagnostics'', JObj (xo_diagnostics out))]"

definition processing_completed :: "ident \<Rightarrow> audit_actor_type \<Rightarrow> ident option \<Rightarrow> json_record \<Rightarrow> audit_event_input" where
  "processing_completed userId actorType actorId details =
     \<lparr> ai_userId = userId, ai_clientId = None, ai_memoryRequestId = None,
       ai_type = audit_event_type.MEMORY_PROCESSING_COMPLETED, ai_actorType = actorType, ai_actorId = actorId,
       ai_metadata = no_metadata \<lparr> am_details := details \<rparr>, ai_subjects = [], ai_inferSubjects = True \<rparr>"

definition extraction_status_name :: "extraction_status \<Rightarrow> string" where
  "extraction_status_name s = map js_upper_char (processingStatus s)"

definition completed_details ::
  "attempt \<Rightarrow> processing_configuration \<Rightarrow> extraction_output \<Rightarrow> nat \<Rightarrow> json_record" where
  "completed_details a configuration out n =
     [(''runId'', JStr (xr_id (at_run a))), (''sourceMessageId'', JStr (at_sourceMessageId a)),
      (''status'', JStr (extraction_status_name (outcome_status out))), (''fingerprint'', JStr (xr_fingerprint (at_run a))),
      (''rubric'', JStr (pf_rubric configuration)), (''model'', JStr (et_model (pf_extraction configuration))),
      (''outcomeCount'', json_nat n)]"

definition finished_run :: "time \<Rightarrow> extraction_status \<Rightarrow> json_record \<Rightarrow> candidate list \<Rightarrow> extraction_run \<Rightarrow> extraction_run" where
  "finished_run now status res pending r =
     r \<lparr> xr_status := status, xr_result := res, xr_pendingCandidates := pending, xr_leaseUntil := None,
         xr_claimToken := None, xr_finishedAt := Some now, xr_failureReason := None \<rparr>"

definition update_run :: "(extraction_run \<Rightarrow> bool) \<Rightarrow> (extraction_run \<Rightarrow> extraction_run) \<Rightarrow> extraction_db \<Rightarrow> extraction_db" where
  "update_run P f db = db \<lparr> xd_runs := update_where P f (xd_runs db) \<rparr>"

definition record_event :: "time \<Rightarrow> audit_event_input \<Rightarrow> extraction_db \<Rightarrow> extraction_db" where
  "record_event now inp db = db \<lparr> xd_vault := snd (createAuditEvent now inp (xd_vault db)) \<rparr>"

definition missing_row :: run_failure where "missing_row = Service_error (Raised (Internal ''P2025''))"

definition persist_tx ::
  "processing_env \<Rightarrow> applier_env \<Rightarrow> attempt \<Rightarrow> processing_configuration \<Rightarrow> conclusion \<Rightarrow> extraction_output
     \<Rightarrow> extraction_db \<Rightarrow> (json_record \<times> json_record list) effect" where
  "persist_tx env ax a configuration cn out db =
     (case run_row db (xr_id (at_run a)) of
        None \<Rightarrow> (Inl missing_row, db)
      | Some current \<Rightarrow>
          if xr_claimToken current \<noteq> Some (at_claimToken a)
          then (Inl (Service_error (Raised (Conflict ''Processing claim expired''))), db)
          else case cn_aborted cn of
            Some name \<Rightarrow> (Inl (Provider_error name None), db)
          | None \<Rightarrow>
            (case check env (xd_vault db) (at_userId a) Scope_extraction (et_processors (pf_extraction configuration)) None of
               Inl e \<Rightarrow> (Inl (Service_error e), db)
             | Inr _ \<Rightarrow>
                 (case apply_candidates ax (cn_now cn) (at_userId a) (xr_id (at_run a)) (ms_id (at_source a))
                         (cn_clientId cn) (cn_channel cn) configuration (xo_candidates out) db of
                    (Inl e, db1) \<Rightarrow> (Inl e, db1)
                  | (Inr (outcomes, pending), db1) \<Rightarrow>
                      let res = outcome_result a cn configuration out outcomes;
                          db2 = update_run (\<lambda>r. xr_id r = xr_id (at_run a))
                            (finished_run (cn_now cn) (outcome_status out) res pending) db1
                      in case set_processing (ms_id (at_source a)) res db2 of
                           None \<Rightarrow> (Inl missing_row, db2)
                         | Some db3 \<Rightarrow>
                             (Inr (res, outcomes),
                              record_event (cn_now cn) (processing_completed (at_userId a) audit_actor_type.SYSTEM None
                                (completed_details a configuration out (length outcomes))) db3))))"

text \<open>The transaction: an exception leaves every table as it was.\<close>

definition persistOutcome ::
  "processing_env \<Rightarrow> applier_env \<Rightarrow> attempt \<Rightarrow> processing_configuration \<Rightarrow> conclusion \<Rightarrow> extraction_output
     \<Rightarrow> extraction_db \<Rightarrow> (json_record \<times> json_record list) effect" where
  "persistOutcome env ax a configuration cn out db =
     (case persist_tx env ax a configuration cn out db of
        (Inl e, _) \<Rightarrow> (Inl e, db)
      | (Inr x, db') \<Rightarrow> (Inr x, db'))"

definition failure_status :: "run_failure \<Rightarrow> extraction_status" where
  "failure_status f = (case f of Service_error (Blocked _) \<Rightarrow> extraction_status.SKIPPED | _ \<Rightarrow> extraction_status.FAILED)"

definition failure_result :: "attempt \<Rightarrow> run_failure \<Rightarrow> json_record" where
  "failure_result a f =
     [(''runId'', JStr (xr_id (at_run a))), (''sourceMessageId'', JStr (at_sourceMessageId a)),
      (''status'', JStr (processingStatus (failure_status f))), (''reason'', JStr (failure_reason (thrown_of_failure f))),
      (''outcomes'', JArr []),
      (''processors'', json_strings (case at_configuration a of Some c \<Rightarrow> et_processors (pf_extraction c) | None \<Rightarrow> [])),
      (''fingerprint'', JStr (xr_fingerprint (at_run a)))]"

definition failed_run :: "time \<Rightarrow> attempt \<Rightarrow> run_failure \<Rightarrow> extraction_run \<Rightarrow> extraction_run" where
  "failed_run now a f r =
     r \<lparr> xr_status := failure_status f, xr_result := failure_result a f, xr_failureReason := Some (failure_reason (thrown_of_failure f)),
         xr_claimToken := None, xr_leaseUntil := None, xr_finishedAt := Some now \<rparr>"

definition claimed_by :: "attempt \<Rightarrow> extraction_run \<Rightarrow> bool" where
  "claimed_by a r = (xr_id r = xr_id (at_run a) \<and> xr_claimToken r = Some (at_claimToken a))"

definition persistFailure :: "time \<Rightarrow> attempt \<Rightarrow> run_failure \<Rightarrow> extraction_db \<Rightarrow> unit effect" where
  "persistFailure now a f db =
     (if \<not> list_ex (claimed_by a) (xd_runs db) then (Inr (), db)
      else case set_processing (ms_id (at_source a)) (failure_result a f) (update_run (claimed_by a) (failed_run now a f) db) of
             None \<Rightarrow> (Inl missing_row, db)
           | Some db1 \<Rightarrow> (Inr (), db1))"

section \<open>ExtractionRunService\<close>

text \<open>\<open>result\<close>: what is stored, with the run's id and status.\<close>

definition run_result_json :: "extraction_run \<Rightarrow> json_record" where
  "run_result_json r =
     spread (xr_result r) [(''runId'', JStr (xr_id r)), (''status'', JStr (processingStatus (xr_status r)))]"

definition result_of :: "extraction_db \<Rightarrow> ident \<Rightarrow> ident \<Rightarrow> run_failure + json_record" where
  "result_of db userId sourceMessageId =
     (case run_of_message db userId sourceMessageId of
        Some r \<Rightarrow> Inr (run_result_json r)
      | None \<Rightarrow> (case loadSource (xd_messages db) userId sourceMessageId of
                   Inl e \<Rightarrow> Inl (Service_error (Raised e))
                 | Inr _ \<Rightarrow> Inr [(''status'', JStr (processingStatus extraction_status.PENDING))]))"

definition claimable :: "time \<Rightarrow> ident \<Rightarrow> extraction_run \<Rightarrow> bool" where
  "claimable now i r =
     (xr_id r = i \<and> xr_status r \<in> {extraction_status.PENDING, extraction_status.FAILED, extraction_status.RUNNING}
      \<and> (case xr_leaseUntil r of None \<Rightarrow> True | Some t \<Rightarrow> t < now))"

definition claimed_run :: "ident \<Rightarrow> time \<Rightarrow> extraction_run \<Rightarrow> extraction_run" where
  "claimed_run token deadline r =
     r \<lparr> xr_status := extraction_status.RUNNING, xr_claimToken := Some token,
         xr_leaseUntil := Some (deadline + extractionLeaseSlackMs), xr_attempts := Suc (xr_attempts r) \<rparr>"

definition claimRun :: "time \<Rightarrow> ident \<Rightarrow> ident \<Rightarrow> time \<Rightarrow> extraction_db \<Rightarrow> nat \<times> extraction_db" where
  "claimRun now i token deadline db =
     (length (filter (claimable now i) (xd_runs db)), update_run (claimable now i) (claimed_run token deadline) db)"

text \<open>\<open>processingConfigurationSchema.safeParse\<close>: \<open>extractionFingerprint\<close> has a default.\<close>

definition saved_configuration :: "json \<Rightarrow> processing_configuration option" where
  "saved_configuration j =
     configuration_of_json
       (case j of
          JObj kvs \<Rightarrow> if map_of kvs ''extractionFingerprint'' = None then JObj (kvs @ [(''extractionFingerprint'', JStr [])]) else j
        | _ \<Rightarrow> j)"

definition new_run :: "ident \<Rightarrow> ident \<Rightarrow> ident \<Rightarrow> processing_configuration \<Rightarrow> extraction_run" where
  "new_run i userId sourceMessageId configuration =
     \<lparr> xr_id = i, xr_userId = userId, xr_sourceMessageId = sourceMessageId,
       xr_configuration = configuration_json configuration, xr_fingerprint = pf_fingerprint configuration,
       xr_status = extraction_status.PENDING, xr_attempts = 0, xr_claimToken = None, xr_leaseUntil = None,
       xr_result = [], xr_pendingCandidates = [], xr_failureReason = None, xr_finishedAt = None \<rparr>"

definition upsert_run :: "ident \<Rightarrow> ident \<Rightarrow> processing_configuration \<Rightarrow> extraction_db \<Rightarrow> extraction_run \<times> extraction_db" where
  "upsert_run userId sourceMessageId configuration db =
     (case find_row (\<lambda>r. xr_sourceMessageId r = sourceMessageId) (xd_runs db) of
        Some r \<Rightarrow> (r, db)
      | None \<Rightarrow> let r = new_run (next_id (xd_vault db)) userId sourceMessageId configuration
                in (r, db \<lparr> xd_vault := draw_id (xd_vault db), xd_runs := xd_runs db @ [r] \<rparr>))"

text \<open>The first part of \<open>process\<close>: it answers, or it holds a claim for the call of the provider.\<close>

datatype begun = Answered json_record | Attempting attempt processing_configuration

definition begin_process ::
  "processing_env \<Rightarrow> time \<Rightarrow> ident \<Rightarrow> ident \<Rightarrow> ident \<Rightarrow> extraction_db \<Rightarrow> begun effect" where
  "begin_process env now token userId sourceMessageId db =
     (case loadSource (xd_messages db) userId sourceMessageId of
        Inl e \<Rightarrow> (Inl (Service_error (Raised e)), db)
      | Inr source \<Rightarrow>
          (case forUser env (xd_vault db) userId of
             Inl e \<Rightarrow> (Inl (Service_error (Raised e)), db)
           | Inr current \<Rightarrow>
               let (run, db1) = upsert_run userId sourceMessageId current db;
                   a = \<lparr> at_userId = userId, at_sourceMessageId = sourceMessageId, at_source = source, at_run = run,
                         at_configuration = None, at_claimToken = token \<rparr>
               in if xr_status run \<in> {extraction_status.COMPLETED, extraction_status.PARTIAL, extraction_status.SKIPPED}
                  then (map_sum id Answered (result_of db1 userId sourceMessageId), db1)
                  else case saved_configuration (xr_configuration run) of
                    None \<Rightarrow>
                      (let (n, db2) = claimRun now (xr_id run) token now db1
                       in case (if n = 0 then (Inr (), db2)
                                else persistFailure now a
                                  (Service_error (Raised (Internal ''Invalid saved processing configuration''))) db2) of
                            (Inl f, db3) \<Rightarrow> (Inl f, db3)
                          | (Inr _, db3) \<Rightarrow> (map_sum id Answered (result_of db3 userId sourceMessageId), db3))
                  | Some configuration \<Rightarrow>
                      (let (n, db2) = claimRun now (xr_id run) token
                             (now + int (et_timeoutMs (pf_extraction configuration))) db1
                       in if n = 0
                          then (Inr (Answered [(''runId'', JStr (xr_id run)),
                                  (''status'', JStr (processingStatus extraction_status.PENDING))]), db2)
                          else (Inr (Attempting (a \<lparr> at_configuration := Some configuration \<rparr>) configuration), db2))))"

text \<open>The call of the provider.\<close>

record provider_call =
  pc_dates :: date_env
  pc_extract :: "extraction_input \<Rightarrow> processing_configuration \<Rightarrow> run_failure + extraction_output"

definition call_provider ::
  "processing_env \<Rightarrow> provider_call \<Rightarrow> attempt \<Rightarrow> processing_configuration \<Rightarrow> channel \<Rightarrow> extraction_db
     \<Rightarrow> run_failure + channel \<times> extraction_output" where
  "call_provider env pc a configuration channel db =
     (case prepareInput env (xd_vault db) (xd_messages db) (xd_voiceSessions db) (at_userId a) (at_source a)
             (xr_fingerprint (at_run a)) configuration channel of
        Inl f \<Rightarrow> Inl f
      | Inr inp \<Rightarrow> map_sum id (\<lambda>out. (xi_channel inp, out))
          (invokeProvider env (pc_dates pc) (pc_extract pc) (xd_vault db) (at_userId a) inp configuration))"

record settle_env =
  se_now :: time
  se_latencyMs :: nat
  se_aborted :: "string option"
  se_voiceClient :: "string option"

definition ensure_client :: "settle_env \<Rightarrow> ident \<Rightarrow> channel \<Rightarrow> extraction_db \<Rightarrow> ident effect" where
  "ensure_client se userId channel db =
     (let (r, v) = (case channel of
            Voice \<Rightarrow> ensureVoiceAccess (se_voiceClient se) (se_now se) userId audit_actor_type.SYSTEM None (xd_vault db)
          | Chat \<Rightarrow> ensureWebChatAccess (se_now se) userId audit_actor_type.SYSTEM None (xd_vault db))
      in (map_sum (\<lambda>e. Service_error (Raised e)) fst r, db \<lparr> xd_vault := v \<rparr>))"

definition write_outcome ::
  "processing_env \<Rightarrow> applier_env \<Rightarrow> settle_env \<Rightarrow> attempt \<Rightarrow> processing_configuration
     \<Rightarrow> run_failure + channel \<times> extraction_output \<Rightarrow> extraction_db \<Rightarrow> json_record effect" where
  "write_outcome env ax se a configuration answer db =
     (case answer of
        Inl f \<Rightarrow> (Inl f, db)
      | Inr (channel, out) \<Rightarrow>
          (case ensure_client se (at_userId a) channel db of
             (Inl f, db1) \<Rightarrow> (Inl f, db1)
           | (Inr clientId, db1) \<Rightarrow>
               (case persistOutcome env ax a configuration
                       \<lparr> cn_now = se_now se, cn_latencyMs = se_latencyMs se, cn_aborted = se_aborted se,
                         cn_clientId = clientId, cn_channel = channel \<rparr> out db1 of
                  (Inl f, db2) \<Rightarrow> (Inl f, db2)
                | (Inr (res, outcomes), db2) \<Rightarrow>
                    (Inr res, enqueueApplied ax (se_now se) (at_userId a) outcomes db2))))"

text \<open>The end of \<open>process\<close>: what another worker did to the tables in the meantime is in \<open>db\<close>.\<close>

definition settle ::
  "processing_env \<Rightarrow> applier_env \<Rightarrow> settle_env \<Rightarrow> attempt \<Rightarrow> processing_configuration
     \<Rightarrow> run_failure + channel \<times> extraction_output \<Rightarrow> extraction_db \<Rightarrow> json_record effect" where
  "settle env ax se a configuration answer db =
     (case write_outcome env ax se a configuration answer db of
        (Inr res, db1) \<Rightarrow> (Inr res, db1)
      | (Inl f, db1) \<Rightarrow>
          (case persistFailure (se_now se) a f db1 of
             (Inl f', db2) \<Rightarrow> (Inl f', db2)
           | (Inr _, db2) \<Rightarrow> (result_of db2 (at_userId a) (at_sourceMessageId a), db2)))"

text \<open>\<open>process\<close> when no other worker acts between its steps.\<close>

definition process_message ::
  "processing_env \<Rightarrow> applier_env \<Rightarrow> provider_call \<Rightarrow> settle_env \<Rightarrow> time \<Rightarrow> ident \<Rightarrow> ident \<Rightarrow> ident \<Rightarrow> channel
     \<Rightarrow> extraction_db \<Rightarrow> json_record effect" where
  "process_message env ax pc se now token userId sourceMessageId channel db =
     (case begin_process env now token userId sourceMessageId db of
        (Inl f, db1) \<Rightarrow> (Inl f, db1)
      | (Inr (Answered res), db1) \<Rightarrow> (Inr res, db1)
      | (Inr (Attempting a configuration), db1) \<Rightarrow>
          settle env ax se a configuration (call_provider env pc a configuration channel db1) db1)"

text \<open>\<open>reprocess\<close> and \<open>retry\<close> up to their call of \<open>process\<close>.\<close>

definition reconfigured :: "processing_configuration \<Rightarrow> extraction_run \<Rightarrow> extraction_run" where
  "reconfigured configuration r =
     r \<lparr> xr_configuration := configuration_json configuration, xr_fingerprint := pf_fingerprint configuration,
         xr_status := extraction_status.PENDING, xr_result := [], xr_failureReason := None \<rparr>"

definition reprocessable :: "ident \<Rightarrow> extraction_run \<Rightarrow> bool" where
  "reprocessable i r =
     (xr_id r = i \<and> xr_status r \<in> {extraction_status.FAILED, extraction_status.SKIPPED} \<and> xr_leaseUntil r = None)"

definition start_reprocess :: "processing_env \<Rightarrow> time \<Rightarrow> ident \<Rightarrow> ident \<Rightarrow> extraction_db \<Rightarrow> unit effect" where
  "start_reprocess env now userId sourceMessageId db =
     (case forUser env (xd_vault db) userId of
        Inl e \<Rightarrow> (Inl (Service_error (Raised e)), db)
      | Inr configuration \<Rightarrow>
          (case run_of_message db userId sourceMessageId of
             None \<Rightarrow> (Inl (Service_error (Raised (NotFound ''Processing run not found''))), db)
           | Some run \<Rightarrow>
               if \<not> list_ex (reprocessable (xr_id run)) (xd_runs db)
               then (Inl (Service_error (Raised (Conflict ''Only failed or skipped runs can use a new configuration''))), db)
               else (Inr (), record_event now
                      (processing_completed userId audit_actor_type.USER (Some userId)
                        [(''action'', JStr ''explicit_reprocess''), (''runId'', JStr (xr_id run)),
                         (''sourceMessageId'', JStr sourceMessageId), (''previousFingerprint'', JStr (xr_fingerprint run)),
                         (''fingerprint'', JStr (pf_fingerprint configuration))])
                      (update_run (reprocessable (xr_id run)) (reconfigured configuration) db))))"

definition retryable :: "ident \<Rightarrow> ident \<Rightarrow> extraction_run \<Rightarrow> bool" where
  "retryable userId sourceMessageId r =
     (xr_userId r = userId \<and> xr_sourceMessageId r = sourceMessageId \<and> xr_status r = extraction_status.SKIPPED)"

definition start_retry :: "ident \<Rightarrow> ident \<Rightarrow> extraction_db \<Rightarrow> extraction_db" where
  "start_retry userId sourceMessageId db =
     update_run (retryable userId sourceMessageId) (\<lambda>r. r \<lparr> xr_status := extraction_status.FAILED \<rparr>) db"

section \<open>Frames\<close>

text \<open>What the applier changes: the vault and the applications.\<close>

definition same_conversation :: "extraction_db \<Rightarrow> extraction_db \<Rightarrow> bool" where
  "same_conversation db db' =
     (xd_messages db' = xd_messages db \<and> xd_voiceSessions db' = xd_voiceSessions db \<and> xd_runs db' = xd_runs db)"

lemma same_conversation_refl [simp]: "same_conversation db db"
  by (simp add: same_conversation_def)

lemma same_conversation_trans: "same_conversation a b \<Longrightarrow> same_conversation b c \<Longrightarrow> same_conversation a c"
  by (simp add: same_conversation_def)

lemma applyCandidate_frame:
  "same_conversation db (snd (applyCandidate env now userId runId sourceId clientId channel c configuration db))"
  by (auto simp: applyCandidate_def same_conversation_def insert_application_def Let_def split: option.split sum.split prod.split)

lemma apply_candidates_frame:
  "same_conversation db (snd (apply_candidates env now userId runId sourceId clientId channel configuration cs db))"
proof (induction cs arbitrary: db)
  case (Cons c cs)
  show ?case
  proof (cases "applicable c")
    case True
    obtain r db1 where one: "applyCandidate env now userId runId sourceId clientId channel c configuration db = (r, db1)" by force
    then have "same_conversation db db1" by (metis applyCandidate_frame snd_conv)
    then show ?thesis using True one Cons.IH[of db1] same_conversation_trans by (cases r) simp_all
  qed (use Cons.IH in simp)
qed simp

lemma ensure_client_frame: "same_conversation db (snd (ensure_client se userId channel db))
    \<and> xd_applications (snd (ensure_client se userId channel db)) = xd_applications db"
  by (simp add: ensure_client_def same_conversation_def Let_def case_prod_beta)

lemma enqueueApplied_frame [simp]:
  "xd_runs (enqueueApplied env now userId outcomes db) = xd_runs db"
  "xd_messages (enqueueApplied env now userId outcomes db) = xd_messages db"
  "xd_applications (enqueueApplied env now userId outcomes db) = xd_applications db"
  by (simp_all add: enqueueApplied_def)

lemma persist_InrE:
  assumes "persistOutcome env ax a configuration cn out db = (Inr x, db')"
  obtains current outcomes pending db1 res where
    "run_row db (xr_id (at_run a)) = Some current" "xr_claimToken current = Some (at_claimToken a)"
    "cn_aborted cn = None"
    "check env (xd_vault db) (at_userId a) Scope_extraction (et_processors (pf_extraction configuration)) None = Inr ()"
    "apply_candidates ax (cn_now cn) (at_userId a) (xr_id (at_run a)) (ms_id (at_source a)) (cn_clientId cn) (cn_channel cn)
       configuration (xo_candidates out) db = (Inr (outcomes, pending), db1)"
    "res = outcome_result a cn configuration out outcomes" "x = (res, outcomes)"
    "xd_runs db' = update_where (\<lambda>r. xr_id r = xr_id (at_run a)) (finished_run (cn_now cn) (outcome_status out) res pending) (xd_runs db)"
    "xd_messages db' = update_where (\<lambda>m. ms_id m = ms_id (at_source a)) (\<lambda>m. m \<lparr> ms_processing := res \<rparr>) (xd_messages db)"
    "xd_applications db' = xd_applications db1"
    "v_memories (xd_vault db') = v_memories (xd_vault db1)"
proof -
  have tx: "persist_tx env ax a configuration cn out db = (Inr x, db')"
    using assms by (auto simp: persistOutcome_def split: prod.splits sum.splits)
  obtain current where cur: "run_row db (xr_id (at_run a)) = Some current"
    using tx by (auto simp: persist_tx_def split: option.splits)
  have tok: "xr_claimToken current = Some (at_claimToken a)"
    using tx cur by (auto simp: persist_tx_def split: if_splits)
  have ab: "cn_aborted cn = None" using tx cur tok by (auto simp: persist_tx_def split: option.splits)
  obtain u where ch: "check env (xd_vault db) (at_userId a) Scope_extraction (et_processors (pf_extraction configuration)) None = Inr u"
    using tx cur tok ab by (auto simp: persist_tx_def split: sum.splits)
  let ?ac = "apply_candidates ax (cn_now cn) (at_userId a) (xr_id (at_run a)) (ms_id (at_source a)) (cn_clientId cn) (cn_channel cn)
       configuration (xo_candidates out) db"
  note tx' = tx[unfolded persist_tx_def cur option.case ab ch sum.case]
  obtain op db1 where ac': "?ac = (Inr op, db1)"
    using tx' tok by (cases ?ac; cases "fst ?ac") simp_all
  obtain outcomes pending where ac: "?ac = (Inr (outcomes, pending), db1)" using ac' by (cases op) simp
  have frame: "same_conversation db db1" by (metis ac apply_candidates_frame snd_conv)
  show ?thesis
    by (rule that[OF cur tok ab _ ac refl])
      (use tx' tok ac ch frame in \<open>auto simp: Let_def set_processing_def update_run_def record_event_def same_conversation_def
         audit_simps split: if_splits option.splits\<close>)
qed

lemma persist_failed: "persistOutcome env ax a configuration cn out db = (Inl e, db') \<Longrightarrow> db' = db"
  by (auto simp: persistOutcome_def split: prod.splits sum.splits)

section \<open>Claims\<close>

text \<open>A run is running exactly while a worker's claim and its lease are on it.\<close>

definition run_wf :: "extraction_run \<Rightarrow> bool" where
  "run_wf r =
     ((xr_status r = extraction_status.RUNNING) = (xr_claimToken r \<noteq> None)
      \<and> (xr_claimToken r \<noteq> None) = (xr_leaseUntil r \<noteq> None))"

definition finished :: "extraction_run \<Rightarrow> bool" where
  "finished r = (xr_status r = extraction_status.COMPLETED \<or> xr_status r = extraction_status.PARTIAL)"

lemma run_wf_writes [simp]:
  "run_wf (claimed_run token deadline r)"
  "outcome_status out \<noteq> extraction_status.RUNNING"
  "run_wf (finished_run now (outcome_status out) res pending r)"
  "run_wf (failed_run now a f r)"
  "run_wf (new_run i userId sourceMessageId configuration)"
  by (auto simp: run_wf_def claimed_run_def finished_run_def failed_run_def new_run_def outcome_status_def failure_status_def
      split: run_failure.split processing_error.split)

text \<open>How the rows of a table may change: every old row is rewritten in place, and rows may follow.\<close>

definition rewritten :: "(extraction_run \<Rightarrow> extraction_run \<Rightarrow> bool) \<Rightarrow> extraction_run list \<Rightarrow> extraction_run list \<Rightarrow> bool" where
  "rewritten R rows rows' = (\<exists>olds news. rows' = olds @ news \<and> list_all2 R rows olds \<and> list_all run_wf news)"

text \<open>The rewriting every operation keeps to: a well-formed row stays so under its id, and a finished one is not
  touched.\<close>

definition kept :: "extraction_run \<Rightarrow> extraction_run \<Rightarrow> bool" where
  "kept r r' = (xr_id r' = xr_id r \<and> (run_wf r \<longrightarrow> run_wf r' \<and> (finished r \<longrightarrow> r' = r)))"

lemma kept_refl [simp]: "kept r r" by (simp add: kept_def)

lemma kept_trans: "kept a b \<Longrightarrow> kept b c \<Longrightarrow> kept a c" by (auto simp: kept_def)

lemma rewritten_refl [simp]: "rewritten kept rows rows"
  unfolding rewritten_def by (intro exI[of _ rows] exI[of _ "[]"]) (simp add: list_all2_refl)

lemma rewritten_update:
  assumes "\<And>r. r \<in> set rows \<Longrightarrow> P r \<Longrightarrow> kept r (f r)"
  shows "rewritten kept rows (update_where P f rows)"
  unfolding rewritten_def
  by (intro exI[of _ "update_where P f rows"] exI[of _ "[]"])
    (use assms in \<open>simp add: update_where_def list_all2_conv_all_nth\<close>)

lemma rewritten_append: "list_all run_wf news \<Longrightarrow> rewritten kept rows (rows @ news)"
  unfolding rewritten_def by (intro exI[of _ rows] exI[of _ news]) (simp add: list_all2_refl)

lemma list_all2_kept_wf: "list_all2 kept news olds \<Longrightarrow> list_all run_wf news \<Longrightarrow> list_all run_wf olds"
  by (induction rule: list_all2_induct) (auto simp: kept_def)

lemma rewritten_trans:
  assumes "rewritten kept a b" "rewritten kept b c"
  shows "rewritten kept a c"
proof -
  from assms(1) obtain o1 n1 where 1: "b = o1 @ n1" "list_all2 kept a o1" "list_all run_wf n1" by (auto simp: rewritten_def)
  from assms(2) obtain o2 n2 where 2: "c = o2 @ n2" "list_all2 kept b o2" "list_all run_wf n2" by (auto simp: rewritten_def)
  from 2(2) 1(1) obtain p q where o2: "o2 = p @ q" "list_all2 kept o1 p" "list_all2 kept n1 q" by (auto simp: list_all2_append1)
  have "list_all2 kept a p" by (rule list_all2_trans[OF kept_trans 1(2) o2(2)])
  moreover have "list_all run_wf (q @ n2)" using list_all2_kept_wf[OF o2(3) 1(3)] 2(3) by simp
  moreover have "c = p @ (q @ n2)" using 2(1) o2(1) by simp
  ultimately show ?thesis unfolding rewritten_def by blast
qed

lemma id_writes [simp]:
  "xr_id (claimed_run token deadline r) = xr_id r"
  "xr_id (finished_run now status res pending r) = xr_id r"
  "xr_id (failed_run now a f r) = xr_id r"
  "xr_id (reconfigured c r) = xr_id r"
  by (simp_all add: claimed_run_def finished_run_def failed_run_def reconfigured_def)

lemma kept_claim: "claimable now i r \<Longrightarrow> kept r (claimed_run token deadline r)"
  by (auto simp: kept_def finished_def claimable_def)

lemma kept_failure: "claimed_by a r \<Longrightarrow> kept r (failed_run now a f r)"
  by (auto simp: kept_def finished_def claimed_by_def run_wf_def failed_run_def failure_status_def
      split: run_failure.split processing_error.split)

lemma kept_reconfigured: "reprocessable i r \<Longrightarrow> kept r (reconfigured c r)"
  by (auto simp: kept_def finished_def reprocessable_def run_wf_def reconfigured_def)

lemma kept_retry: "retryable userId i r \<Longrightarrow> kept r (r \<lparr> xr_status := extraction_status.FAILED \<rparr>)"
  by (auto simp: kept_def finished_def retryable_def run_wf_def)

lemma rewritten_claimRun: "rewritten kept (xd_runs db) (xd_runs (snd (claimRun now i token deadline db)))"
  by (simp add: claimRun_def update_run_def rewritten_update kept_claim)

lemma set_processing_runs: "set_processing i v db = Some db' \<Longrightarrow> xd_runs db' = xd_runs db"
  by (auto simp: set_processing_def split: if_splits)

lemma rewritten_persistFailure: "rewritten kept (xd_runs db) (xd_runs (snd (persistFailure now a f db)))"
proof (cases "set_processing (ms_id (at_source a)) (failure_result a f) (update_run (claimed_by a) (failed_run now a f) db)")
  case (Some db1)
  then have "xd_runs db1 = update_where (claimed_by a) (failed_run now a f) (xd_runs db)"
    by (auto dest: set_processing_runs simp: update_run_def)
  then show ?thesis using Some by (simp add: persistFailure_def rewritten_update kept_failure)
qed (simp add: persistFailure_def)

lemma rewritten_upsert: "rewritten kept (xd_runs db) (xd_runs (snd (upsert_run userId i c db)))"
  by (auto simp: upsert_run_def Let_def rewritten_append split: option.split)

lemma rewritten_begin: "rewritten kept (xd_runs db) (xd_runs (snd (begin_process env now token userId i db)))"
proof (cases "loadSource (xd_messages db) userId i")
  case (Inr source)
  show ?thesis
  proof (cases "forUser env (xd_vault db) userId")
    case (Inr current)
    obtain run db1 where up: "upsert_run userId i current db = (run, db1)" by force
    have 1: "rewritten kept (xd_runs db) (xd_runs db1)" by (metis rewritten_upsert up snd_conv)
    have 2: "rewritten kept (xd_runs db) (xd_runs (snd (claimRun now (xr_id run) token d db1)))" for d
      using 1 rewritten_claimRun rewritten_trans by blast
    have 3: "rewritten kept (xd_runs db) (xd_runs (snd (persistFailure now a f (snd (claimRun now (xr_id run) token d db1)))))" for d a f
      using 2 rewritten_persistFailure rewritten_trans by blast
    show ?thesis
      using \<open>loadSource _ _ _ = _\<close> Inr up 1 2 3
      by (auto simp: begin_process_def Let_def case_prod_beta split: option.split sum.split)
  qed (use Inr in \<open>simp add: begin_process_def\<close>)
qed (simp add: begin_process_def)

lemma rewritten_persist:
  assumes "distinct (map xr_id (xd_runs db))"
  shows "rewritten kept (xd_runs db) (xd_runs (snd (persistOutcome env ax a configuration cn out db)))"
proof (cases "persistOutcome env ax a configuration cn out db")
  case (Pair x db')
  show ?thesis
  proof (cases x)
    case (Inl e)
    then show ?thesis using Pair persist_failed by fastforce
  next
    case (Inr y)
    from persist_InrE[OF Pair[unfolded Inr]] obtain current outcomes pending res where
      cur: "run_row db (xr_id (at_run a)) = Some current" "xr_claimToken current = Some (at_claimToken a)"
      and runs: "xd_runs db' = update_where (\<lambda>r. xr_id r = xr_id (at_run a))
        (finished_run (cn_now cn) (outcome_status out) res pending) (xd_runs db)" by metis
    have "kept r (finished_run (cn_now cn) (outcome_status out) res pending r)"
      if "r \<in> set (xd_runs db)" "xr_id r = xr_id (at_run a)" for r
    proof -
      have "run_row db (xr_id r) = Some r" unfolding run_row_def by (rule find_row_unique[OF assms that(1)])
      then have "r = current" using cur(1) that(2) by simp
      then have "\<not> (run_wf r \<and> finished r)" using cur(2) by (auto simp: run_wf_def finished_def)
      then show ?thesis by (auto simp: kept_def)
    qed
    then show ?thesis using Pair runs by (simp add: rewritten_update)
  qed
qed

lemma rewritten_write_outcome:
  assumes "distinct (map xr_id (xd_runs db))"
  shows "rewritten kept (xd_runs db) (xd_runs (snd (write_outcome env ax se a configuration answer db)))"
proof (cases answer)
  case (Inr co)
  obtain channel out where co: "co = (channel, out)" by force
  obtain x db1 where en: "ensure_client se (at_userId a) channel db = (x, db1)" by force
  have same: "xd_runs db1 = xd_runs db" using ensure_client_frame[of db se "at_userId a" channel] en
    by (simp add: same_conversation_def)
  then have d: "distinct (map xr_id (xd_runs db1))" using assms by simp
  show ?thesis
    using Inr co en same rewritten_persist[OF d, of env ax a configuration _ out]
    by (auto simp: write_outcome_def case_prod_beta split: sum.split)
qed (simp add: write_outcome_def)

lemma rewritten_settle:
  assumes "distinct (map xr_id (xd_runs db))"
  shows "rewritten kept (xd_runs db) (xd_runs (snd (settle env ax se a configuration answer db)))"
proof -
  obtain r db1 where w: "write_outcome env ax se a configuration answer db = (r, db1)" by force
  have 1: "rewritten kept (xd_runs db) (xd_runs db1)" by (metis rewritten_write_outcome[OF assms] w snd_conv)
  have 2: "rewritten kept (xd_runs db) (xd_runs (snd (persistFailure (se_now se) a f db1)))" for f
    using 1 rewritten_persistFailure rewritten_trans by blast
  show ?thesis using w 1 2 by (auto simp: settle_def case_prod_beta split: sum.split)
qed

lemma rewritten_reprocess: "rewritten kept (xd_runs db) (xd_runs (snd (start_reprocess env now userId i db)))"
  by (auto simp: start_reprocess_def record_event_def update_run_def split: sum.split option.split
      intro!: rewritten_update kept_reconfigured)

lemma rewritten_retry: "rewritten kept (xd_runs db) (xd_runs (start_retry userId i db))"
  unfolding start_retry_def update_run_def using kept_retry by (auto intro!: rewritten_update)

text \<open>The steps of any number of workers and owners, in any order: a worker begins and claims, a worker that holds
  some token ends with whatever its provider answered, and an owner reprocesses or retries.  The table keeps its
  primary key.\<close>

inductive worker_step :: "extraction_db \<Rightarrow> extraction_db \<Rightarrow> bool" where
  begins: "distinct (map xr_id (xd_runs db)) \<Longrightarrow> worker_step db (snd (begin_process env now token userId i db))"
| settles: "distinct (map xr_id (xd_runs db)) \<Longrightarrow> worker_step db (snd (settle env ax se a configuration answer db))"
| reprocesses: "distinct (map xr_id (xd_runs db)) \<Longrightarrow> worker_step db (snd (start_reprocess env now userId i db))"
| retries: "distinct (map xr_id (xd_runs db)) \<Longrightarrow> worker_step db (start_retry userId i db)"

lemma worker_step_rewritten: "worker_step db db' \<Longrightarrow> rewritten kept (xd_runs db) (xd_runs db')"
  by (induction rule: worker_step.induct)
    (simp_all add: rewritten_begin rewritten_settle rewritten_reprocess rewritten_retry)

lemma worker_steps_rewritten: "worker_step\<^sup>*\<^sup>* db db' \<Longrightarrow> rewritten kept (xd_runs db) (xd_runs db')"
proof (induction rule: rtranclp_induct)
  case (step y z)
  then show ?case using worker_step_rewritten rewritten_trans by blast
qed simp

lemma rewritten_wf: "rewritten kept a b \<Longrightarrow> list_all run_wf a \<Longrightarrow> list_all run_wf b"
  by (auto simp: rewritten_def dest: list_all2_kept_wf)

lemma rewritten_finished:
  assumes "rewritten kept a b" "list_all run_wf a" "r \<in> set a" "finished r"
  shows "r \<in> set b"
proof -
  from assms(1) obtain o1 n1 where b: "b = o1 @ n1" "list_all2 kept a o1" by (auto simp: rewritten_def)
  from assms(3) obtain k where k: "k < length a" "a ! k = r" by (metis in_set_conv_nth)
  have "kept r (o1 ! k)" "k < length o1" using b(2) k by (auto simp: list_all2_conv_all_nth)
  moreover have "run_wf r" using assms(2,3) by (simp add: list_all_iff)
  ultimately have "o1 ! k = r" using assms(4) by (simp add: kept_def)
  then show ?thesis using b(1) \<open>k < length o1\<close> nth_mem by fastforce
qed


section \<open>Tokens\<close>

text \<open>The attempts of two workers: while the lease of a claim runs no other worker gets the run, and a worker whose
  token is no longer on the run changes nothing, neither with an outcome nor with a failure.\<close>

theorem expired_claim_writes_nothing:
  assumes "\<not> list_ex (claimed_by a) (xd_runs db)"
  shows "snd (persistOutcome env ax a configuration cn out db) = db
    \<and> isl (fst (persistOutcome env ax a configuration cn out db))
    \<and> persistFailure now a f db = (Inr (), db)"
proof -
  have "\<exists>e. persistOutcome env ax a configuration cn out db = (Inl e, db)"
  proof (cases "run_row db (xr_id (at_run a))")
    case None
    then show ?thesis by (simp add: persistOutcome_def persist_tx_def)
  next
    case (Some r)
    then have "r \<in> set (xd_runs db)" "xr_id r = xr_id (at_run a)"
      unfolding run_row_def by (auto dest: find_row_SomeD)
    then have "xr_claimToken r \<noteq> Some (at_claimToken a)" using assms by (auto simp: list_ex_iff claimed_by_def)
    then show ?thesis using Some by (simp add: persistOutcome_def persist_tx_def)
  qed
  then show ?thesis using assms by (auto simp: persistFailure_def)
qed

text \<open>C28. A successful claim of the one run with the id excludes every other claim until its lease has passed.\<close>

theorem claim_excludes_others:
  assumes "claimRun now i token deadline db = (n, db1)" "n > 0"
    "distinct (map xr_id (xd_runs db))" "now' \<le> deadline + extractionLeaseSlackMs"
  shows "claimRun now' i token' deadline' db1 = (0, db1)
    \<and> (\<exists>r. run_row db1 i = Some r \<and> xr_claimToken r = Some token \<and> xr_leaseUntil r = Some (deadline + extractionLeaseSlackMs))"
proof -
  have db1: "xd_runs db1 = update_where (claimable now i) (claimed_run token deadline) (xd_runs db)"
    using assms(1) by (auto simp: claimRun_def update_run_def)
  have "filter (claimable now i) (xd_runs db) \<noteq> []" using assms(1,2) by (auto simp: claimRun_def)
  then obtain r where r: "r \<in> set (xd_runs db)" "claimable now i r" by (auto simp: filter_empty_conv)
  have only: "x = r" if "x \<in> set (xd_runs db)" "xr_id x = i" for x
    using that r assms(3) by (auto simp: distinct_map claimable_def dest: inj_onD)
  have "\<not> claimable now' i x" if x: "x \<in> set (xd_runs db1)" for x
  proof (cases "x = claimed_run token deadline r")
    case False
    obtain y where y: "y \<in> set (xd_runs db)" "x = (if claimable now i y then claimed_run token deadline y else y)"
      using x unfolding db1 set_update_where by blast
    have "y \<noteq> r" using y(2) r(2) False by auto
    then have "xr_id y \<noteq> i" using only[OF y(1)] by blast
    then show ?thesis using y(2) by (simp add: claimable_def)
  qed (use assms(4) in \<open>simp add: claimable_def claimed_run_def\<close>)
  then have none: "filter (claimable now' i) (xd_runs db1) = []" by (simp add: filter_empty_conv)
  then have "update_run (claimable now' i) f db1 = db1" for f
    by (simp add: update_run_def update_where_def filter_empty_conv map_idI)
  then have "claimRun now' i token' deadline' db1 = (0, db1)" using none by (simp add: claimRun_def)
  moreover have "run_row db1 i = Some (claimed_run token deadline r)"
  proof -
    have "run_row db i = Some r"
      using find_row_unique[OF assms(3) r(1)] r(2) by (simp add: run_row_def claimable_def)
    moreover have "xr_id (if claimable now i x then claimed_run token deadline x else x) = xr_id x" for x
      by (simp add: claimed_run_def)
    ultimately show ?thesis using r(2)
      by (simp add: run_row_def db1 find_row_update_where claimed_run_def)
  qed
  ultimately show ?thesis by (auto simp: claimed_run_def)
qed

section \<open>One application per candidate\<close>

lemma result_status: "\<exists>s. map_of (candidate_result c body (fst (apply_or_dedupe env now inp prepared db))) ''status'' = Some (JStr s)"
  by (simp add: apply_or_dedupe_def Let_def response_json_def case_prod_beta candidate_result_def map_of_spread)

lemma parse_status: "map_of res ''status'' = Some (JStr s) \<Longrightarrow> parse_outcome res = Inr res"
  by (simp add: parse_outcome_def)

lemma parse_outcome_Inr: "parse_outcome v = Inr r \<Longrightarrow> r = v \<and> parse_outcome r = Inr r"
  by (auto simp: parse_outcome_def split: option.splits json.splits)

lemma applied_recorded:
  assumes "applyCandidate env now userId runId sourceId clientId channel c configuration db = (Inr res, db1)"
  shows "\<exists>a. application_row db1 runId (cd_id c) = Some a \<and> ap_result a = res \<and> parse_outcome res = Inr res"
proof (cases "application_row db runId (cd_id c)")
  case (Some a)
  then show ?thesis using assms parse_outcome_Inr by (auto simp: applyCandidate_def)
next
  case None
  from assms None obtain body where "parse_candidate env channel c = Inr body"
    by (auto simp: applyCandidate_def split: sum.splits)
  note A = assms[unfolded applyCandidate_def None option.case this sum.case Let_def]
  let ?inp = "candidate_input env userId runId sourceId clientId body c configuration"
  from A obtain prepared where "prepareSuggestion (ax_memory env) now ?inp (xd_vault db) = Inr prepared"
    by (auto split: sum.splits)
  note A = A[unfolded this sum.case]
  obtain response v1 where r: "apply_or_dedupe env now ?inp prepared (xd_vault db) = (response, v1)" by force
  from A r have res: "res = candidate_result c body response"
    and db1: "db1 = insert_application runId (cd_id c) res (db \<lparr> xd_vault := v1 \<rparr>)" by auto
  obtain s where "map_of res ''status'' = Some (JStr s)"
    using result_status[of c body env now ?inp prepared "xd_vault db"] r res by auto
  moreover have "\<exists>a. application_row db1 runId (cd_id c) = Some a \<and> ap_result a = res"
    using None by (simp add: db1 application_row_def insert_application_def find_row_append)
  ultimately show ?thesis using parse_status by blast
qed

text \<open>A candidate is applied once per run: applying a candidate with the same id again, with whatever content, client,
  configuration or time and however the vault has changed, answers what was recorded and changes nothing.\<close>

theorem candidate_applied_once:
  assumes "applyCandidate env now userId runId sourceId clientId channel c configuration db = (Inr res, db1)"
    "cd_id c' = cd_id c" "xd_applications db2 = xd_applications db1"
  shows "applyCandidate env' now' userId' runId sourceId' clientId' channel' c' configuration' db2 = (Inr res, db2)"
proof -
  from applied_recorded[OF assms(1)] obtain a where "application_row db1 runId (cd_id c) = Some a" "ap_result a = res"
    "parse_outcome res = Inr res" by blast
  moreover have "application_row db2 = application_row db1" by (simp add: application_row_def assms(3) fun_eq_iff)
  ultimately show ?thesis by (simp add: applyCandidate_def assms(2))
qed

section \<open>Review mode\<close>

lemma applyCandidate_review:
  assumes "et_writeMode (pf_extraction configuration) = Write_review"
  shows "v_memories (xd_vault (snd (applyCandidate env now userId runId sourceId clientId channel c configuration db)))
    = v_memories (xd_vault db)"
proof -
  have "v_memories (snd (apply_or_dedupe env now inp p v)) = v_memories v"
    if "prepareSuggestion me now inp v = Inr p" "su_reviewOnly inp" for me inp p and v :: vault
    using that(1)
  proof (cases rule: prepareSuggestion_cases)
    case (evaluated a)
    obtain response v1 where r: "createEvaluatedSuggestion now inp a v = (response, v1)" by force
    then have "v_memories v1 = v_memories v" by (cases rule: createEvaluated_cases) simp_all
    then show ?thesis using evaluated(1) r by (simp add: apply_or_dedupe_def Let_def)
  qed (use that(2) in simp)
  then show ?thesis using assms
    by (auto simp: applyCandidate_def Let_def insert_application_def candidate_input_def case_prod_beta draw_id_def
        split: option.split sum.split)
qed

lemma apply_candidates_review:
  assumes "et_writeMode (pf_extraction configuration) = Write_review"
  shows "v_memories (xd_vault (snd (apply_candidates env now userId runId sourceId clientId channel configuration cs db)))
    = v_memories (xd_vault db)"
proof (induction cs arbitrary: db)
  case (Cons c cs)
  show ?case
  proof (cases "applicable c")
    case True
    obtain r db1 where one: "applyCandidate env now userId runId sourceId clientId channel c configuration db = (r, db1)" by force
    then have "v_memories (xd_vault db1) = v_memories (xd_vault db)" using applyCandidate_review[OF assms] by (metis snd_conv)
    then show ?thesis using True one Cons.IH[of db1] by (cases r) simp_all
  qed (use Cons.IH in simp)
qed simp

text \<open>With the write mode \<open>review\<close> an extraction never writes a memory, whatever permissions the chat has.\<close>

theorem review_mode_writes_no_memory:
  assumes "et_writeMode (pf_extraction configuration) = Write_review"
  shows "v_memories (xd_vault (snd (persistOutcome env ax a configuration cn out db))) = v_memories (xd_vault db)"
proof (cases "persistOutcome env ax a configuration cn out db")
  case (Pair x db')
  show ?thesis
  proof (cases x)
    case (Inl e)
    then show ?thesis using Pair persist_failed by fastforce
  next
    case (Inr y)
    from persist_InrE[OF Pair[unfolded Inr]] obtain outcomes pending db1 where
      "apply_candidates ax (cn_now cn) (at_userId a) (xr_id (at_run a)) (ms_id (at_source a)) (cn_clientId cn) (cn_channel cn)
       configuration (xo_candidates out) db = (Inr (outcomes, pending), db1)"
      "v_memories (xd_vault db') = v_memories (xd_vault db1)" by metis
    then show ?thesis using apply_candidates_review[OF assms] Pair by (metis snd_conv)
  qed
qed

section \<open>How an attempt ends\<close>

lemma write_outcome_failed:
  assumes "write_outcome env ax se a configuration answer db = (Inl f, db1)"
  shows "xd_runs db1 = xd_runs db \<and> xd_messages db1 = xd_messages db"
  using assms
  by (auto simp: write_outcome_def split: sum.splits prod.splits dest!: persist_failed)
    (metis ensure_client_frame same_conversation_def snd_conv)+

lemma write_outcome_InrE:
  assumes "write_outcome env ax se a configuration answer db = (Inr res, db')"
  obtains channel out clientId db1 outcomes db2 where "answer = Inr (channel, out)"
    "ensure_client se (at_userId a) channel db = (Inr clientId, db1)"
    "persistOutcome env ax a configuration \<lparr> cn_now = se_now se, cn_latencyMs = se_latencyMs se, cn_aborted = se_aborted se,
       cn_clientId = clientId, cn_channel = channel \<rparr> out db1 = (Inr (res, outcomes), db2)"
    "db' = enqueueApplied ax (se_now se) (at_userId a) outcomes db2"
  using assms by (auto simp: write_outcome_def split: sum.splits prod.splits)

definition settled :: "time \<Rightarrow> extraction_run \<Rightarrow> bool" where
  "settled now r =
     (xr_status r \<in> {extraction_status.COMPLETED, extraction_status.PARTIAL, extraction_status.SKIPPED, extraction_status.FAILED}
      \<and> xr_claimToken r = None \<and> xr_leaseUntil r = None \<and> xr_finishedAt r = Some now)"

lemma settled_writes: "settled now (finished_run now (outcome_status out) res pending r)" "settled now (failed_run now a f r)"
  by (auto simp: settled_def finished_run_def outcome_status_def failed_run_def failure_status_def
      split: run_failure.split processing_error.split)

lemma settle_shape:
  assumes "run_row db (xr_id (at_run a)) = Some current" "xr_claimToken current = Some (at_claimToken a)"
    "distinct (map xr_id (xd_runs db))" "find_row (\<lambda>m. ms_id m = ms_id (at_source a)) (xd_messages db) \<noteq> None"
  shows "\<exists>r. run_row (snd (settle env ax se a configuration answer db)) (xr_id (at_run a)) = Some r \<and> settled (se_now se) r
    \<and> xd_messages (snd (settle env ax se a configuration answer db))
       = update_where (\<lambda>m. ms_id m = ms_id (at_source a)) (\<lambda>m. m \<lparr> ms_processing := xr_result r \<rparr>) (xd_messages db)"
proof -
  let ?i = "xr_id (at_run a)"
  obtain w db1 where w: "write_outcome env ax se a configuration answer db = (w, db1)" by force
  show ?thesis
  proof (cases w)
    case (Inr res)
    from write_outcome_InrE[OF w[unfolded Inr]] obtain channel out clientId db0 outcomes db2 where
      en: "ensure_client se (at_userId a) channel db = (Inr clientId, db0)"
      and p: "persistOutcome env ax a configuration \<lparr> cn_now = se_now se, cn_latencyMs = se_latencyMs se, cn_aborted = se_aborted se,
       cn_clientId = clientId, cn_channel = channel \<rparr> out db0 = (Inr (res, outcomes), db2)"
      and db1: "db1 = enqueueApplied ax (se_now se) (at_userId a) outcomes db2" .
    have same: "xd_runs db0 = xd_runs db" "xd_messages db0 = xd_messages db"
      using ensure_client_frame[of db se "at_userId a" channel] en by (simp_all add: same_conversation_def)
    from persist_InrE[OF p] obtain pending where
      runs: "xd_runs db2 = update_where (\<lambda>r. xr_id r = ?i) (finished_run (se_now se) (outcome_status out) res pending) (xd_runs db)"
      and ms: "xd_messages db2 = update_where (\<lambda>m. ms_id m = ms_id (at_source a)) (\<lambda>m. m \<lparr> ms_processing := res \<rparr>) (xd_messages db)"
      unfolding same by (metis conclusion.select_convs(1) prod.inject)
    have "run_row db1 ?i = Some (finished_run (se_now se) (outcome_status out) res pending current)"
      using assms(1) by (simp add: run_row_def db1 runs find_row_update_where)
        (metis (mono_tags, lifting) find_row_SomeD)
    then show ?thesis using w Inr ms settled_writes(1) by (simp add: settle_def db1) (simp add: finished_run_def)
  next
    case (Inl f)
    have same: "xd_runs db1 = xd_runs db" "xd_messages db1 = xd_messages db" using write_outcome_failed w Inl by blast+
    have cur: "current \<in> set (xd_runs db)" "claimed_by a current"
      using assms(1,2) find_row_SomeD unfolding run_row_def claimed_by_def by fastforce+
    let ?db2 = "update_run (claimed_by a) (failed_run (se_now se) a f) db1"
    have "list_ex (claimed_by a) (xd_runs db1)" using cur by (auto simp: list_ex_iff same)
    moreover obtain db3 where db3: "set_processing (ms_id (at_source a)) (failure_result a f) ?db2 = Some db3"
      using assms(4) by (auto simp: set_processing_def update_run_def same)
    ultimately have "persistFailure (se_now se) a f db1 = (Inr (), db3)" by (simp add: persistFailure_def)
    then have s: "snd (settle env ax se a configuration answer db) = db3" using w Inl by (simp add: settle_def)
    have runs: "xd_runs db3 = update_where (claimed_by a) (failed_run (se_now se) a f) (xd_runs db)"
      using set_processing_runs[OF db3] by (simp add: update_run_def same)
    have ms: "xd_messages db3 = update_where (\<lambda>m. ms_id m = ms_id (at_source a)) (\<lambda>m. m \<lparr> ms_processing := failure_result a f \<rparr>) (xd_messages db)"
      using db3 by (auto simp: set_processing_def update_run_def same split: if_splits)
    have "run_row db3 ?i = Some (failed_run (se_now se) a f current)"
      using assms(1) cur(2) by (simp add: run_row_def runs find_row_update_where)
    then show ?thesis unfolding s using ms settled_writes(2) by (auto simp: failed_run_def)
  qed
qed

text \<open>C27. An attempt that still holds its claim always ends it: whatever the provider answered or threw and whatever the
  writes of its outcome did, the run is completed, partial, skipped or failed, its claim and lease are gone, and the
  message shows the result.\<close>

theorem attempt_settles_run:
  assumes "run_row db (xr_id (at_run a)) = Some current" "xr_claimToken current = Some (at_claimToken a)"
    "distinct (map xr_id (xd_runs db))" "find_row (\<lambda>m. ms_id m = ms_id (at_source a)) (xd_messages db) \<noteq> None"
  shows "\<exists>r. run_row (snd (settle env ax se a configuration answer db)) (xr_id (at_run a)) = Some r \<and> settled (se_now se) r
    \<and> xd_messages (snd (settle env ax se a configuration answer db))
       = update_where (\<lambda>m. ms_id m = ms_id (at_source a)) (\<lambda>m. m \<lparr> ms_processing := xr_result r \<rparr>) (xd_messages db)"
  using assms by (rule settle_shape)

section \<open>One candidate the contract refuses\<close>

lemma application_row_other:
  assumes "applyCandidate env now userId runId sourceId clientId channel c configuration db = (Inr res, db1)" "i \<noteq> cd_id c"
  shows "application_row db1 runId i = application_row db runId i"
proof (cases "application_row db runId (cd_id c)")
  case (Some a)
  then have "db1 = db" using assms(1) by (auto simp: applyCandidate_def)
  then show ?thesis by simp
next
  case None
  with assms(1) obtain v1 where "db1 = insert_application runId (cd_id c) res (db \<lparr> xd_vault := v1 \<rparr>)"
    by (auto simp: applyCandidate_def Let_def split: sum.splits prod.splits)
  then show ?thesis using assms(2)
    by (simp add: application_row_def insert_application_def find_row_append split: option.split)
qed

lemma apply_candidates_unfit:
  assumes "c \<in> set cs" "applicable c" "application_row db runId (cd_id c) = None"
    "distinct (map cd_id (filter applicable cs))" "parse_candidate env channel c = Inl e"
  shows "isl (fst (apply_candidates env now userId runId sourceId clientId channel configuration cs db))"
  using assms(1,3,4)
proof (induction cs arbitrary: db)
  case (Cons c0 cs)
  let ?rest = "apply_candidates env now userId runId sourceId clientId channel configuration cs"
  show ?case
  proof (cases "applicable c0")
    case False
    then have "isl (fst (?rest db))" using Cons assms(2) by auto
    then show ?thesis using False by (cases "fst (?rest db)") auto
  next
    case True
    obtain x db1 where one: "applyCandidate env now userId runId sourceId clientId channel c0 configuration db = (x, db1)" by force
    show ?thesis
    proof (cases x)
      case (Inr outcome)
      have "c0 \<noteq> c"
      proof
        assume "c0 = c"
        then show False using one Inr Cons.prems(2) assms(5) by (simp add: applyCandidate_def)
      qed
      then have mem: "c \<in> set cs" using Cons.prems(1) by simp
      then have "cd_id c \<in> cd_id ` set (filter applicable cs)" using assms(2) by simp
      then have "cd_id c \<noteq> cd_id c0" using Cons.prems(3) True by auto
      then have "application_row db1 runId (cd_id c) = None"
        using application_row_other[OF one[unfolded Inr]] Cons.prems(2) by simp
      then have "isl (fst (?rest db1))" using Cons.IH mem Cons.prems(3) True by simp
      then show ?thesis using True one Inr by (cases "fst (?rest db1)") auto
    qed (use True one in simp)
  qed
qed simp

text \<open>C36. One candidate whose text the suggestion contract refuses discards the whole outcome of a message: nothing of any
  candidate is written and the run ends as failed.  Validation lets such candidates through, for instance one that
  quotes more than 2000 characters of the message.\<close>

theorem unfit_candidate_discards_outcome:
  assumes "c \<in> set (xo_candidates out)" "applicable c"
    "distinct (map cd_id (filter (\<lambda>c. cd_disposition c \<noteq> Rejected) (xo_candidates out)))"
    "application_row db (xr_id (at_run a)) (cd_id c) = None" "parse_candidate ax (cn_channel cn) c = Inl e"
  shows "isl (fst (persistOutcome env ax a configuration cn out db))
    \<and> snd (persistOutcome env ax a configuration cn out db) = db"
proof -
  have "filter applicable (xo_candidates out) = filter applicable (filter (\<lambda>c. cd_disposition c \<noteq> Rejected) (xo_candidates out))"
    by (auto simp: applicable_def intro: filter_cong)
  then have "distinct (map cd_id (filter applicable (xo_candidates out)))"
    using assms(3) by (metis distinct_map_filter)
  note unfit = apply_candidates_unfit[OF assms(1,2,4) this assms(5)]
  have "isl (fst (persistOutcome env ax a configuration cn out db))"
  proof (rule ccontr)
    assume "\<not> isl (fst (persistOutcome env ax a configuration cn out db))"
    then obtain x where "persistOutcome env ax a configuration cn out db = (Inr x, snd (persistOutcome env ax a configuration cn out db))"
      by (metis prod.exhaust_sel sum.collapse(2))
    from persist_InrE[OF this] obtain outcomes pending db1 where
      "apply_candidates ax (cn_now cn) (at_userId a) (xr_id (at_run a)) (ms_id (at_source a)) (cn_clientId cn) (cn_channel cn)
       configuration (xo_candidates out) db = (Inr (outcomes, pending), db1)" by metis
    then show False using unfit[of "cn_now cn" "at_userId a" "ms_id (at_source a)" "cn_clientId cn" configuration] by simp
  qed
  then show ?thesis using persist_failed
    by (metis prod.exhaust_sel sum.collapse(1))
qed

section \<open>Witnesses\<close>

definition sample_applier :: applier_env where
  "sample_applier = \<lparr> ax_memory = sample_memory_env, ax_dates = sample_dates, ax_isoDatetime = (\<lambda>_. True), ax_sameText = (=) \<rparr>"

definition sample_extraction_run :: extraction_run where
  "sample_extraction_run = new_run ''r1'' ''u1'' ''t1'' sample_default"

definition sample_xd :: extraction_db where
  "sample_xd = \<lparr> xd_vault = write_vault, xd_messages = [sample_message], xd_voiceSessions = [], xd_runs = [sample_extraction_run],
     xd_applications = [] \<rparr>"

definition sample_claimed :: extraction_db where
  "sample_claimed = sample_xd \<lparr> xd_runs := [claimed_run ''k'' 20 sample_extraction_run] \<rparr>"

definition sample_attempt :: attempt where
  "sample_attempt =
     \<lparr> at_userId = ''u1'', at_sourceMessageId = ''t1'', at_source = sample_message, at_run = sample_extraction_run,
       at_configuration = Some sample_default, at_claimToken = ''k'' \<rparr>"

definition sample_conclusion :: conclusion where
  "sample_conclusion = \<lparr> cn_now = 9, cn_latencyMs = 3, cn_aborted = None, cn_clientId = ''c1'', cn_channel = Chat \<rparr>"

definition sample_settle :: settle_env where
  "sample_settle = \<lparr> se_now = 9, se_latencyMs = 3, se_aborted = None, se_voiceClient = None \<rparr>"


lemma expired_claim_writes_nothing_witness:
  "persistFailure 9 (sample_attempt \<lparr> at_claimToken := ''old'' \<rparr>) (Provider_error ''AbortError'' None) sample_claimed
     = (Inr (), sample_claimed)"
proof -
  have "\<not> list_ex (claimed_by (sample_attempt \<lparr> at_claimToken := ''old'' \<rparr>)) (xd_runs sample_claimed)"
    by (simp add: sample_claimed_def claimed_by_def claimed_run_def)
  from expired_claim_writes_nothing[OF this] show ?thesis by blast
qed

lemma claim_excludes_others_witness:
  "fst (claimRun 25 ''r1'' ''k2'' 45 (snd (claimRun 5 ''r1'' ''k'' 20 sample_xd))) = 0"
proof -
  have n: "fst (claimRun 5 ''r1'' ''k'' 20 sample_xd) = 1"
    by (simp add: claimRun_def sample_xd_def claimable_def sample_extraction_run_def new_run_def)
  have "distinct (map xr_id (xd_runs sample_xd))" "25 \<le> (20::int) + extractionLeaseSlackMs"
    by (simp_all add: sample_xd_def extractionLeaseSlackMs_def)
  from claim_excludes_others[OF prod.collapse[symmetric] _ this] n show ?thesis by simp
qed

lemma attempt_settles_run_witness:
  "\<exists>r. run_row (snd (settle sample_processing_env sample_applier sample_settle sample_attempt sample_default
       (Inl (Provider_error ''TimeoutError'' None)) sample_claimed)) (xr_id (at_run sample_attempt)) = Some r
     \<and> settled 9 r"
proof -
  have "run_row sample_claimed (xr_id (at_run sample_attempt)) = Some (claimed_run ''k'' 20 sample_extraction_run)"
    "xr_claimToken (claimed_run ''k'' 20 sample_extraction_run) = Some (at_claimToken sample_attempt)"
    "distinct (map xr_id (xd_runs sample_claimed))"
    "find_row (\<lambda>m. ms_id m = ms_id (at_source sample_attempt)) (xd_messages sample_claimed) \<noteq> None"
    by (simp_all add: run_row_def sample_claimed_def sample_xd_def sample_attempt_def claimed_run_def)
  from attempt_settles_run[OF this, of sample_processing_env sample_applier sample_settle sample_default
      "Inl (Provider_error ''TimeoutError'' None)"]
  show ?thesis by (auto simp: sample_settle_def)
qed

lemma prepare_accepts:
  assumes "assertNoSecretLikeContent (me_stringify env) (suggestion_scan (su_body inp)) = Inr ()"
    "assertExist db (sq_categoryKeys (su_body inp)) = Inr ()"
  shows "\<exists>q. prepareSuggestion env now inp db = Inr q"
  using assms by (simp add: prepareSuggestion_def Let_def)

lemma sample_applied:
  "\<not> isl (fst (applyCandidate sample_applier 9 ''u1'' ''r1'' ''t1'' ''c1'' Chat sample_claim sample_default sample_claimed))"
proof -
  let ?body = "candidate_request sample_applier Chat sample_claim"
  let ?inp = "candidate_input sample_applier ''u1'' ''r1'' ''t1'' ''c1'' ?body sample_claim sample_default"
  have 1: "application_row sample_claimed ''r1'' (cd_id sample_claim) = None"
    by (simp add: application_row_def sample_claimed_def sample_xd_def)
  have "suggestion_limits ?body" "cd_expiresAt sample_claim = None" by code_simp+
  then have 2: "parse_candidate sample_applier Chat sample_claim = Inr ?body" by (simp add: parse_candidate_def)
  have env: "ax_memory sample_applier = sample_memory_env" "xd_vault sample_claimed = write_vault"
    by (simp_all add: sample_applier_def sample_claimed_def sample_xd_def)
  have "assertNoSecretLikeContent (me_stringify sample_memory_env) (suggestion_scan (su_body ?inp)) = Inr ()"
    by (rule short_text_accepted) code_simp
  moreover have "assertExist write_vault (sq_categoryKeys (su_body ?inp)) = Inr ()" by code_simp
  ultimately obtain q where 3: "prepareSuggestion (ax_memory sample_applier) 9 ?inp (xd_vault sample_claimed) = Inr q"
    unfolding env using prepare_accepts by blast
  show ?thesis unfolding applyCandidate_def 1 2 option.case sum.case Let_def 3 by (simp add: case_prod_beta)
qed

lemma candidate_applied_once_witness:
  "\<exists>res db1. applyCandidate sample_applier 9 ''u1'' ''r1'' ''t1'' ''c1'' Chat sample_claim sample_default sample_claimed = (Inr res, db1)
     \<and> applyCandidate sample_applier 12 ''u1'' ''r1'' ''t1'' ''c1'' Voice (sample_claim \<lparr> cd_body := ''Vim'' \<rparr>) sample_default db1
       = (Inr res, db1)"
proof -
  obtain res db1 where r: "applyCandidate sample_applier 9 ''u1'' ''r1'' ''t1'' ''c1'' Chat sample_claim sample_default sample_claimed
    = (Inr res, db1)" using sample_applied by (metis prod.exhaust_sel sum.collapse(2))
  have "cd_id (sample_claim \<lparr> cd_body := ''Vim'' \<rparr>) = cd_id sample_claim" by simp
  from candidate_applied_once[OF r this refl] show ?thesis using r by blast
qed

lemma review_mode_writes_no_memory_witness:
  "v_memories (xd_vault (snd (persistOutcome sample_processing_env sample_applier sample_attempt
      (sample_default \<lparr> pf_extraction := pf_extraction sample_default \<lparr> et_writeMode := Write_review \<rparr> \<rparr>) sample_conclusion
      \<lparr> xo_candidates = [sample_claim], xo_partial = False, xo_diagnostics = [] \<rparr> sample_claimed)))
   = v_memories (xd_vault sample_claimed)"
  by (rule review_mode_writes_no_memory) simp

definition long_text :: string where "long_text = replicate 2001 CHR ''a''"

definition long_claim :: candidate where
  "long_claim = sample_claim \<lparr> cd_evidence := [\<lparr> ev_messageId = ''t1'', ev_start = 0, ev_end = 2001, ev_quote = long_text \<rparr>] \<rparr>"

lemma long_claim_unfit: "parse_candidate sample_applier Chat long_claim = Inl (BadRequest ''Invalid request'')"
proof -
  have "js_trim long_text = long_text"
    by (simp add: long_text_def js_trim_def js_trimStart_def js_trimEnd_def js_space_def)
  then have "sq_evidence (candidate_request sample_applier Chat long_claim) = Some long_text"
    by (simp add: candidate_request_def long_claim_def)
  moreover have "length long_text = 2001" by (simp add: long_text_def)
  ultimately show ?thesis by (simp add: parse_candidate_def suggestion_limits_def)
qed

lemma unfit_candidate_discards_outcome_witness:
  "validateCandidate sample_processing_env sample_dates long_claim (sample_extraction_input \<lparr> xi_source_content := long_text \<rparr>)
      = long_claim
   \<and> snd (persistOutcome sample_processing_env sample_applier sample_attempt sample_default sample_conclusion
        \<lparr> xo_candidates = [long_claim], xo_partial = False, xo_diagnostics = [] \<rparr> sample_claimed) = sample_claimed"
proof
  let ?inp = "sample_extraction_input \<lparr> xi_source_content := long_text \<rparr>"
  have s: "js_slice 0 2001 long_text = long_text" "length long_text = 2001"
    by (simp_all add: js_slice_def long_text_def)
  have "\<not> secret_candidate sample_processing_env long_claim" by (simp add: secret_candidate_def sample_no_secret)
  moreover have "\<not> list_ex (\<lambda>e. \<not> evidence_valid ?inp long_claim e) (cd_evidence long_claim)"
    using s by (simp add: long_claim_def evidence_valid_def cited_text_def sample_extraction_input_def)
  moreover have "list_ex (\<lambda>e. ev_messageId e = xi_source_id ?inp) (cd_evidence long_claim)"
    "\<not> list_ex (\<lambda>key. \<not> list_ex (\<lambda>k. cat_key k = key) (xi_categories ?inp)) (cd_categoryKeys long_claim)"
    "cd_sensitivity long_claim \<noteq> memory_sensitivity.RESTRICTED" "cd_atomic long_claim" "cd_expiresAt long_claim = None"
    by (simp_all add: long_claim_def sample_claim_def sample_extraction_input_def work_category_def)
  ultimately show "validateCandidate sample_processing_env sample_dates long_claim ?inp = long_claim"
    unfolding validateCandidate_def by simp
  have "applicable long_claim" "application_row sample_claimed (xr_id (at_run sample_attempt)) (cd_id long_claim) = None"
    "cn_channel sample_conclusion = Chat"
    by (simp_all add: applicable_def amends_def long_claim_def sample_claim_def application_row_def sample_claimed_def
        sample_xd_def sample_conclusion_def)
  then show "snd (persistOutcome sample_processing_env sample_applier sample_attempt sample_default sample_conclusion
        \<lparr> xo_candidates = [long_claim], xo_partial = False, xo_diagnostics = [] \<rparr> sample_claimed) = sample_claimed"
    using unfit_candidate_discards_outcome[of long_claim
        "\<lparr> xo_candidates = [long_claim], xo_partial = False, xo_diagnostics = [] \<rparr>" sample_claimed sample_attempt
        sample_applier sample_conclusion] long_claim_unfit by simp
qed

end
