(* ===== verification/Reconciliation.thy ===== *)
theory Reconciliation
  imports ExtractionRun
begin

text \<open>
  \<open>extraction-reconciliation.service.ts\<close>: what happens to the candidates an extraction leaves pending, that
  is corrections, retractions and unclear claims.  The chat assistant searches and changes the vault with tools,
  each of which leaves a receipt on the run, and then resolves a candidate; the resolution is checked against
  the receipts.
\<close>

section \<open>Tools and receipts\<close>

datatype tool_kind = Memory_search | Suggestion_search | Mutation

definition reconciliationTools :: "(string \<times> tool_kind) list" where
  "reconciliationTools =
     [(''search_memories'', Memory_search), (''list_queued_memory_suggestions'', Suggestion_search),
      (''update_memory'', Mutation), (''archive_memory'', Mutation), (''reject_memory_suggestion'', Mutation)]"

definition reconciliationToolNames :: "tool_kind option \<Rightarrow> string list" where
  "reconciliationToolNames kind =
     map fst (filter (\<lambda>(_, k). case kind of None \<Rightarrow> True | Some x \<Rightarrow> k = x) reconciliationTools)"

definition searchTools :: "string list" where
  "searchTools = reconciliationToolNames (Some Memory_search) @ reconciliationToolNames (Some Suggestion_search)"

definition toolReceiptPrefix :: string where "toolReceiptPrefix = ''_tool_''"
definition reconciliationMatchLimit :: nat where "reconciliationMatchLimit = 100"

record receipt =
  rc_toolName :: string
  rc_recordIds :: "ident list"

definition receipt_json :: "receipt \<Rightarrow> json_record" where
  "receipt_json r = [(''toolName'', JStr (rc_toolName r)), (''recordIds'', json_strings (rc_recordIds r))]"

definition receipt_of_json :: "json_record \<Rightarrow> receipt option" where
  "receipt_of_json v =
     Option.bind (str_field (JObj v) ''toolName'') (\<lambda>name.
     Option.bind (strings_field (JObj v) ''recordIds'') (\<lambda>ids.
       Some \<lparr> rc_toolName = name, rc_recordIds = ids \<rparr>))"

text \<open>What a tool was called with and what it returned, as far as a receipt reads it.\<close>

record tool_use =
  tu_toolName :: string
  tu_memoryId :: "ident option"
  tu_suggestionId :: "ident option"
  tu_items :: "ident list option"

definition tool_receipt :: "tool_use \<Rightarrow> receipt" where
  "tool_receipt u =
     \<lparr> rc_toolName = tu_toolName u,
       rc_recordIds = (case tu_items u of
          Some ids \<Rightarrow> ids
        | None \<Rightarrow> (case (if tu_memoryId u \<noteq> None then tu_memoryId u else tu_suggestionId u) of
                     Some i \<Rightarrow> if i = [] then [] else [i] | None \<Rightarrow> [])) \<rparr>"

definition recordTool ::
  "time \<Rightarrow> ident \<Rightarrow> ident \<Rightarrow> ident \<Rightarrow> tool_use \<Rightarrow> extraction_db \<Rightarrow> extraction_db" where
  "recordTool now uuid userId sourceMessageId u db =
     (if tu_toolName u \<notin> set (reconciliationToolNames None) then db
      else case run_of_message db userId sourceMessageId of
             None \<Rightarrow> db
           | Some run \<Rightarrow>
               let r = tool_receipt u;
                   db1 = insert_application (xr_id run) (toolReceiptPrefix @ uuid) (receipt_json r) db
               in if tu_toolName u \<in> set searchTools then db1
                  else record_event now (processing_completed userId audit_actor_type.USER (Some userId)
                    [(''runId'', JStr (xr_id run)), (''sourceMessageId'', JStr sourceMessageId),
                     (''toolName'', JStr (tu_toolName u)), (''recordIds'', json_strings (rc_recordIds r)),
                     (''stage'', JStr ''reconciliation'')]) db1)"

section \<open>Resolution\<close>

datatype resolution = Handled | Create | Defer

text \<open>\<open>contains\<close> of the database, without regard to case.\<close>

record reconcile_env =
  re_processing :: processing_env
  re_applier :: applier_env
  re_contains :: "string \<Rightarrow> string \<Rightarrow> bool"
  re_voiceClient :: "string option"

definition run_receipts :: "extraction_db \<Rightarrow> ident \<Rightarrow> receipt list option" where
  "run_receipts db runId =
     those (map (\<lambda>a. receipt_of_json (ap_result a))
       (filter (\<lambda>a. ap_runId a = runId \<and> prefix toolReceiptPrefix (ap_candidateId a)) (xd_applications db)))"

definition used_tool :: "tool_kind \<Rightarrow> receipt \<Rightarrow> bool" where
  "used_tool kind r = (rc_toolName r \<in> set (reconciliationToolNames (Some kind)))"

definition reconciliationTerms :: "candidate \<Rightarrow> string list" where
  "reconciliationTerms c =
     extractTerms (cd_title c @ '' '' @ cd_body c @ '' '' @ js_join '' '' (map ev_quote (cd_evidence c))) (Some 16)"

definition mentions :: "reconcile_env \<Rightarrow> string list \<Rightarrow> string \<Rightarrow> string \<Rightarrow> bool" where
  "mentions env terms title body = list_ex (\<lambda>t. re_contains env title t \<or> re_contains env body t) terms"

definition related_records :: "reconcile_env \<Rightarrow> vault \<Rightarrow> ident \<Rightarrow> candidate \<Rightarrow> ident list" where
  "related_records env db userId c =
     (let terms = reconciliationTerms c
      in if terms = [] then []
         else map m_id (take reconciliationMatchLimit (filter (\<lambda>m. m_userId m = userId \<and> m_status m = memory_status.ACTIVE
                  \<and> mentions env terms (m_title m) (m_body m)) (v_memories db)))
           @ map s_id (take reconciliationMatchLimit (filter (\<lambda>s. s_userId s = userId
                  \<and> s_status s = memory_suggestion_status.QUEUED_FOR_REVIEW
                  \<and> mentions env terms (s_title s) (s_body s)) (v_suggestions db))))"

definition searched_receipts :: "receipt list \<Rightarrow> receipt list" where
  "searched_receipts rs = filter (\<lambda>r. rc_toolName r \<in> set searchTools) rs"

definition matched_records :: "reconcile_env \<Rightarrow> vault \<Rightarrow> ident \<Rightarrow> candidate \<Rightarrow> receipt list \<Rightarrow> ident list" where
  "matched_records env db userId c rs =
     js_unique (concat (map rc_recordIds (searched_receipts rs)) @ related_records env db userId c)"

definition mutated_records :: "receipt list \<Rightarrow> ident list" where
  "mutated_records rs = js_unique (concat (map rc_recordIds (filter (used_tool Mutation) rs)))"

text \<open>What the receipts allow: an answer without a change, an error, or the resolution.\<close>

datatype ruling = Answer json_record | Refuse run_failure | Proceed

definition judge_resolution ::
  "reconcile_env \<Rightarrow> vault \<Rightarrow> ident \<Rightarrow> candidate \<Rightarrow> resolution \<Rightarrow> receipt list \<Rightarrow> ruling" where
  "judge_resolution env db userId c res rs =
     (if \<not> (list_ex (used_tool Memory_search) (searched_receipts rs)
             \<and> list_ex (used_tool Suggestion_search) (searched_receipts rs))
      then Refuse (Service_error (Raised (Conflict ''Search active memories and queued suggestions before reconciliation'')))
      else let matched = matched_records env db userId c rs;
               mutated = mutated_records rs
           in if res = Create \<and> (matched \<noteq> [] \<or> cd_intent c = Retraction)
              then Answer [(''candidateId'', JStr (cd_id c)), (''status'', JStr ''pending_reconciliation''),
                     (''reason'', JStr ''Existing records require reconciliation; a retraction cannot create a replacement''),
                     (''relatedRecordIds'', json_strings matched)]
              else if res = Handled \<and> (mutated = [] \<or> list_ex (\<lambda>i. i \<notin> set mutated) matched)
              then Refuse (Service_error (Raised (Conflict ''Matched records still require reconciliation or clarification'')))
              else Proceed)"

definition reconciled_outcome :: "candidate \<Rightarrow> receipt list \<Rightarrow> json_record" where
  "reconciled_outcome c rs =
     [(''candidateId'', JStr (cd_id c)), (''title'', JStr (cd_title c)), (''status'', JStr ''reconciled''),
      (''recordIds'', json_strings (mutated_records rs))]"

definition outcome_list :: "json_record \<Rightarrow> json list" where
  "outcome_list v = (case map_of v ''outcomes'' of Some (JArr os) \<Rightarrow> os | _ \<Rightarrow> [])"

definition replace_outcome :: "ident \<Rightarrow> json_record \<Rightarrow> json_record \<Rightarrow> json_record" where
  "replace_outcome candidateId outcome v =
     spread v [(''outcomes'', JArr (filter (\<lambda>o'. str_field o' ''candidateId'' \<noteq> Some candidateId) (outcome_list v) @ [JObj outcome]))]"

text \<open>The writes of a resolution: the outcome of the candidate, and the run and the message without it.\<close>

definition resolve_candidate ::
  "reconcile_env \<Rightarrow> time \<Rightarrow> ident \<Rightarrow> extraction_run \<Rightarrow> ident \<Rightarrow> channel \<Rightarrow> candidate \<Rightarrow> processing_configuration
     \<Rightarrow> resolution \<Rightarrow> receipt list \<Rightarrow> extraction_db \<Rightarrow> json_record effect" where
  "resolve_candidate env now userId current clientId channel c configuration res rs db =
     (if res = Create
      then applyCandidate (re_applier env) now userId (xr_id current) (xr_sourceMessageId current) clientId channel c
             configuration db
      else (Inr (reconciled_outcome c rs), insert_application (xr_id current) (cd_id c) (reconciled_outcome c rs) db))"

definition close_candidate :: "extraction_run \<Rightarrow> ident \<Rightarrow> json_record \<Rightarrow> extraction_db \<Rightarrow> extraction_db option" where
  "close_candidate current candidateId outcome db =
     (let updated = replace_outcome candidateId outcome (xr_result current)
      in set_processing (xr_sourceMessageId current) updated
           (update_run (\<lambda>r. xr_id r = xr_id current)
              (\<lambda>r. r \<lparr> xr_pendingCandidates := filter (\<lambda>c. cd_id c \<noteq> candidateId) (xr_pendingCandidates current),
                       xr_result := updated \<rparr>) db))"

definition complete_tx ::
  "reconcile_env \<Rightarrow> time \<Rightarrow> ident \<Rightarrow> ident \<Rightarrow> ident \<Rightarrow> channel \<Rightarrow> processing_configuration \<Rightarrow> ident \<Rightarrow> resolution
     \<Rightarrow> extraction_db \<Rightarrow> json_record effect" where
  "complete_tx env now userId runId clientId channel configuration candidateId res db =
     (case run_row db runId of
        None \<Rightarrow> (Inl missing_row, db)
      | Some current \<Rightarrow>
          (case application_row db runId candidateId of
             Some existing \<Rightarrow> (parse_outcome (ap_result existing), db)
           | None \<Rightarrow>
               (case find_row (\<lambda>c. cd_id c = candidateId) (xr_pendingCandidates current) of
                  None \<Rightarrow> (Inl (Service_error (Raised (NotFound ''Candidate not pending''))), db)
                | Some c \<Rightarrow>
                    if res = Defer \<or> cd_disposition c \<noteq> Eligible
                    then (Inr [(''candidateId'', JStr candidateId), (''status'', JStr ''needs_clarification'')], db)
                    else case check (re_processing env) (xd_vault db) userId Scope_extraction
                                (et_processors (pf_extraction configuration)) None of
                      Inl e \<Rightarrow> (Inl (Service_error e), db)
                    | Inr _ \<Rightarrow>
                        (case run_receipts db runId of
                           None \<Rightarrow> (Inl (Provider_error ''ZodError'' None), db)
                         | Some rs \<Rightarrow>
                             (case judge_resolution env (xd_vault db) userId c res rs of
                                Answer v \<Rightarrow> (Inr v, db)
                              | Refuse f \<Rightarrow> (Inl f, db)
                              | Proceed \<Rightarrow>
                                  (case resolve_candidate env now userId current clientId channel c configuration res rs db of
                                     (Inl f, db1) \<Rightarrow> (Inl f, db1)
                                   | (Inr outcome, db1) \<Rightarrow>
                                       (case close_candidate current candidateId outcome db1 of
                                          None \<Rightarrow> (Inl missing_row, db1)
                                        | Some db2 \<Rightarrow> (Inr outcome, db2))))))))"

definition complete ::
  "reconcile_env \<Rightarrow> time \<Rightarrow> ident \<Rightarrow> ident \<Rightarrow> ident \<Rightarrow> resolution \<Rightarrow> extraction_db \<Rightarrow> json_record effect" where
  "complete env now userId sourceMessageId candidateId res db =
     (case run_of_message db userId sourceMessageId of
        None \<Rightarrow> (Inl (Service_error (Raised (NotFound ''Processing run not found''))), db)
      | Some run \<Rightarrow>
          (case saved_configuration (xr_configuration run) of
             None \<Rightarrow> (Inl (Provider_error ''ZodError'' None), db)
           | Some configuration \<Rightarrow>
               let source = find_row (\<lambda>m. ms_id m = xr_sourceMessageId run) (xd_messages db);
                   channel = (if truthy (Option.bind source ms_voiceSessionId) then Voice else Chat);
                   se = \<lparr> se_now = now, se_latencyMs = 0, se_aborted = None, se_voiceClient = re_voiceClient env \<rparr>
               in case ensure_client se userId channel db of
                    (Inl f, db1) \<Rightarrow> (Inl f, db1)
                  | (Inr clientId, db1) \<Rightarrow>
                      (case complete_tx env now userId (xr_id run) clientId channel configuration candidateId res db1 of
                         (Inl f, _) \<Rightarrow> (Inl f, db1)
                       | (Inr outcome, db2) \<Rightarrow> (Inr outcome, enqueueApplied (re_applier env) now userId [outcome] db2))))"

section \<open>What a resolution needs\<close>

lemma complete_recordedE:
  assumes "complete_tx env now userId runId clientId channel configuration candidateId res db = (Inr outcome, db')"
    "application_row db runId candidateId = None" "application_row db' runId candidateId \<noteq> None"
  obtains current c rs db1 where "run_row db runId = Some current"
    "find_row (\<lambda>c. cd_id c = candidateId) (xr_pendingCandidates current) = Some c" "res \<noteq> Defer" "cd_disposition c = Eligible"
    "check (re_processing env) (xd_vault db) userId Scope_extraction (et_processors (pf_extraction configuration)) None = Inr ()"
    "run_receipts db runId = Some rs" "judge_resolution env (xd_vault db) userId c res rs = Proceed"
    "resolve_candidate env now userId current clientId channel c configuration res rs db = (Inr outcome, db1)"
    "close_candidate current candidateId outcome db1 = Some db'"
proof -
  have unchanged: False if "db' = db" using that assms(2,3) by simp
  note tx = assms(1)[unfolded complete_tx_def]
  from tx obtain current where cur: "run_row db runId = Some current" by (cases "run_row db runId") simp_all
  note tx = tx[unfolded cur option.case assms(2)]
  from tx obtain c where c: "find_row (\<lambda>c. cd_id c = candidateId) (xr_pendingCandidates current) = Some c"
    by (cases "find_row (\<lambda>c. cd_id c = candidateId) (xr_pendingCandidates current)") simp_all
  note tx = tx[unfolded c option.case]
  have el: "\<not> (res = Defer \<or> cd_disposition c \<noteq> Eligible)"
  proof
    assume d: "res = Defer \<or> cd_disposition c \<noteq> Eligible"
    show False using tx[unfolded if_P[OF d]] unchanged by simp
  qed
  note tx = tx[unfolded if_not_P[OF el]]
  let ?ch = "check (re_processing env) (xd_vault db) userId Scope_extraction (et_processors (pf_extraction configuration)) None"
  have ch: "?ch = Inr ()" using tx by (cases ?ch) simp_all
  note tx = tx[unfolded ch sum.case]
  from tx obtain rs where rs: "run_receipts db runId = Some rs" by (cases "run_receipts db runId") simp_all
  note tx = tx[unfolded rs option.case]
  have j: "judge_resolution env (xd_vault db) userId c res rs = Proceed"
    using tx unchanged by (cases "judge_resolution env (xd_vault db) userId c res rs") simp_all
  note tx = tx[unfolded j ruling.case]
  let ?rc = "resolve_candidate env now userId current clientId channel c configuration res rs db"
  from tx obtain outcome' db1 where rc: "?rc = (Inr outcome', db1)" by (cases ?rc; cases "fst ?rc") simp_all
  note tx = tx[unfolded rc prod.case sum.case]
  have cc: "outcome' = outcome" "close_candidate current candidateId outcome db1 = Some db'"
    using tx by (cases "close_candidate current candidateId outcome' db1"; simp)+
  have el': "res \<noteq> Defer" "cd_disposition c = Eligible" using el by simp_all
  show ?thesis by (rule that[OF cur c el' ch rs j rc[unfolded cc(1)] cc(2)])
qed

lemma judge_proceeds:
  assumes "judge_resolution env db userId c res rs = Proceed" "res \<noteq> Defer"
  shows "list_ex (used_tool Memory_search) rs \<and> list_ex (used_tool Suggestion_search) rs
    \<and> (res = Create \<longrightarrow> matched_records env db userId c rs = [] \<and> cd_intent c \<noteq> Retraction)
    \<and> (res = Handled \<longrightarrow> mutated_records rs \<noteq> []
         \<and> set (matched_records env db userId c rs) \<subseteq> set (mutated_records rs))"
  using assms by (auto simp: judge_resolution_def Let_def searched_receipts_def list_ex_iff split: if_splits)

lemma related_complete:
  assumes "related_records env db userId c = []" "m \<in> set (v_memories db)" "m_userId m = userId" "m_status m = memory_status.ACTIVE"
  shows "\<not> mentions env (reconciliationTerms c) (m_title m) (m_body m)"
proof
  assume "mentions env (reconciliationTerms c) (m_title m) (m_body m)"
  moreover from this have "reconciliationTerms c \<noteq> []" by (auto simp: mentions_def)
  ultimately show False using assms
    by (auto simp: related_records_def Let_def reconciliationMatchLimit_def filter_empty_conv)
qed


text \<open>A receipt reads back as it was written.\<close>

lemma receipt_roundtrip: "receipt_of_json (receipt_json r) = Some r"
  by (simp add: receipt_of_json_def receipt_json_def str_field_def json_field_def)

text \<open>A resolution is final: a candidate that was created or handled leaves the pending candidates, and every later
  attempt to resolve it, in whatever way, answers the recorded outcome and changes nothing.\<close>

theorem resolution_is_final:
  assumes "complete_tx env now userId runId clientId channel configuration candidateId res db = (Inr outcome, db')"
    "application_row db runId candidateId = None" "application_row db' runId candidateId \<noteq> None"
  shows "complete_tx env' now' userId' runId clientId' channel' configuration' candidateId res' db' = (Inr outcome, db')
    \<and> (\<exists>r. run_row db' runId = Some r \<and> candidateId \<notin> cd_id ` set (xr_pendingCandidates r))"
proof -
  obtain current c rs db1 where cur: "run_row db runId = Some current"
    and c: "find_row (\<lambda>c. cd_id c = candidateId) (xr_pendingCandidates current) = Some c" "res \<noteq> Defer" "cd_disposition c = Eligible"
    and "check (re_processing env) (xd_vault db) userId Scope_extraction (et_processors (pf_extraction configuration)) None = Inr ()"
    and rs: "run_receipts db runId = Some rs" and judged: "judge_resolution env (xd_vault db) userId c res rs = Proceed"
    and rc: "resolve_candidate env now userId current clientId channel c configuration res rs db = (Inr outcome, db1)"
    and cc: "close_candidate current candidateId outcome db1 = Some db'"
    by (rule complete_recordedE[OF assms])
  have id: "cd_id c = candidateId" "xr_id current = runId"
    using c(1) cur by (auto simp: run_row_def dest: find_row_SomeD)
  have rec: "\<exists>a. application_row db1 runId candidateId = Some a \<and> ap_result a = outcome \<and> parse_outcome outcome = Inr outcome"
  proof (cases "res = Create")
    case True
    with rc have "applyCandidate (re_applier env) now userId (xr_id current) (xr_sourceMessageId current) clientId channel c
      configuration db = (Inr outcome, db1)" by (simp add: resolve_candidate_def)
    from applied_recorded[OF this] show ?thesis by (simp add: id)
  next
    case False
    with rc have "outcome = reconciled_outcome c rs" "db1 = insert_application (xr_id current) (cd_id c) outcome db"
      by (auto simp: resolve_candidate_def)
    then show ?thesis using assms(2)
      by (simp add: id application_row_def insert_application_def find_row_append reconciled_outcome_def parse_outcome_def)
  qed
  have same: "xd_runs db1 = xd_runs db"
    using rc applyCandidate_frame[of db "re_applier env" now userId "xr_id current" "xr_sourceMessageId current" clientId channel c configuration]
    by (auto simp: resolve_candidate_def insert_application_def same_conversation_def split: if_splits)
  let ?upd = "\<lambda>r. r \<lparr> xr_pendingCandidates := filter (\<lambda>c. cd_id c \<noteq> candidateId) (xr_pendingCandidates current),
    xr_result := replace_outcome candidateId outcome (xr_result current) \<rparr>"
  have db': "xd_applications db' = xd_applications db1" "xd_runs db' = update_where (\<lambda>r. xr_id r = runId) ?upd (xd_runs db)"
    using cc by (auto simp: close_candidate_def Let_def set_processing_def update_run_def id same split: if_splits)
  have "run_row db' runId = Some (?upd current)"
    using cur id(2) by (simp add: run_row_def db'(2) find_row_update_where)
  moreover have "application_row db' runId candidateId = application_row db1 runId candidateId"
    by (simp add: application_row_def db'(1))
  ultimately show ?thesis using rec by (auto simp: complete_tx_def)
qed

section \<open>Witnesses\<close>

definition sample_reconcile_env :: reconcile_env where
  "sample_reconcile_env =
     \<lparr> re_processing = sample_processing_env, re_applier = sample_applier,
       re_contains = (\<lambda>t term. js_includes (js_lower t) term), re_voiceClient = None \<rparr>"

definition receipt_row :: "ident \<Rightarrow> receipt \<Rightarrow> application" where
  "receipt_row i r = \<lparr> ap_id = i, ap_runId = ''r1'', ap_candidateId = toolReceiptPrefix @ i, ap_result = receipt_json r \<rparr>"

definition sample_correction :: candidate where
  "sample_correction = sample_claim \<lparr> cd_intent := Correction \<rparr>"

definition sample_reconciling :: extraction_db where
  "sample_reconciling =
     sample_xd \<lparr> xd_runs := [finished_run 9 extraction_status.COMPLETED [] [sample_correction] sample_extraction_run],
       xd_applications :=
         [receipt_row ''a'' \<lparr> rc_toolName = ''search_memories'', rc_recordIds = [''m1''] \<rparr>,
          receipt_row ''b'' \<lparr> rc_toolName = ''list_queued_memory_suggestions'', rc_recordIds = [] \<rparr>,
          receipt_row ''c'' \<lparr> rc_toolName = ''update_memory'', rc_recordIds = [''m1''] \<rparr>] \<rparr>"

definition sample_completion :: "json_record effect" where
  "sample_completion =
     complete_tx sample_reconcile_env 12 ''u1'' ''r1'' ''c1'' Chat sample_default ''k1'' Handled sample_reconciling"

lemma sample_completed:
  "\<not> isl (fst sample_completion)" "application_row sample_reconciling ''r1'' ''k1'' = None"
  "application_row (snd sample_completion) ''r1'' ''k1'' \<noteq> None"
  by code_simp+


lemma resolution_is_final_witness:
  "complete_tx sample_reconcile_env 20 ''u1'' ''r1'' ''c1'' Chat sample_default ''k1'' Create (snd sample_completion)
     = sample_completion"
proof -
  obtain outcome where o: "sample_completion = (Inr outcome, snd sample_completion)"
    using sample_completed(1) by (metis prod.exhaust_sel sum.collapse(2))
  from resolution_is_final[OF o[unfolded sample_completion_def] sample_completed(2)
      sample_completed(3)[unfolded sample_completion_def]]
  show ?thesis using o unfolding sample_completion_def by simp
qed

end
