(* ===== verification/SignIn.thy ===== *)
theory SignIn
  imports DataControl
begin

text \<open>
  \<open>apps/api/src/auth\<close>: signing in with Google, sessions, and the deletion of an account.
  \<open>google-login.service.ts\<close> binds a login attempt to a browser and lets it be used once, \<open>auth.service.ts\<close>
  finds or creates the owner of a Google subject, \<open>sessions.service.ts\<close> resolves the session of a request,
  and the deletion of a vault needs a fresh confirmation of the same identity.

  The columns of a user that the other components read are in \<open>v_users\<close>; name and role are here.
\<close>

section \<open>Tables\<close>

datatype user_role = Role_USER | Role_ADMIN | Role_OWNER

record account =
  ac_id :: ident
  ac_email :: string
  ac_displayName :: "string option"
  ac_role :: user_role

record google_identity =
  gi_subject :: string
  gi_userId :: ident

record login_attempt =
  la_stateHash :: string
  la_browserHash :: string
  la_nonce :: string
  la_codeVerifier :: string
  la_returnTo :: string
  la_sessionId :: "ident option"
  la_expiresAt :: time

record web_session =
  ws_id :: ident
  ws_userId :: ident
  ws_tokenHash :: string
  ws_expiresAt :: time
  ws_deletionVerifiedAt :: "time option"

record auth_db =
  zd_vault :: vault
  zd_accounts :: "account list"
  zd_identities :: "google_identity list"
  zd_attempts :: "login_attempt list"
  zd_sessions :: "web_session list"

type_synonym 'a auth_outcome = "(error + 'a) \<times> auth_db"

definition account_row :: "auth_db \<Rightarrow> ident \<Rightarrow> account option" where
  "account_row db i = find_row (\<lambda>a. ac_id a = i) (zd_accounts db)"

definition identity_row :: "auth_db \<Rightarrow> string \<Rightarrow> google_identity option" where
  "identity_row db sub = find_row (\<lambda>g. gi_subject g = sub) (zd_identities db)"

definition session_row :: "auth_db \<Rightarrow> ident \<Rightarrow> web_session option" where
  "session_row db i = find_row (\<lambda>s. ws_id s = i) (zd_sessions db)"

definition session_of_hash :: "auth_db \<Rightarrow> string \<Rightarrow> web_session option" where
  "session_of_hash db h = find_row (\<lambda>s. ws_tokenHash s = h) (zd_sessions db)"

section \<open>The environment\<close>

text \<open>The digest of tokens, and what the URL parser of the runtime shows of a text resolved against a base.\<close>

record parsed_url =
  pu_origin :: string
  pu_pathname :: string
  pu_search :: string
  pu_hash :: string
  pu_params :: "(string \<times> string) list"

record auth_env =
  ze_hash :: "string \<Rightarrow> string"
  ze_url :: "string \<Rightarrow> string \<Rightarrow> parsed_url option"
  ze_development :: bool
  ze_decode :: "string \<Rightarrow> string option"

definition sessionDurationMs :: int where "sessionDurationMs = 1000 * 60 * 60 * 24 * 30"
definition deletionVerificationWindowMs :: int where "deletionVerificationWindowMs = 5 * 60000"
definition loginAttemptTtlMs :: int where "loginAttemptTtlMs = 10 * 60000"
definition sessionCookieName :: string where "sessionCookieName = ''funes_vault_session''"
definition demoAccountEmail :: string where "demoAccountEmail = ''demo@funes-vault.local''"

section \<open>Google's claims\<close>

record id_claims =
  ic_sub :: string
  ic_email :: "string option"
  ic_email_verified :: bool
  ic_name :: "string option"

record google_claims =
  gc_subject :: string
  gc_email :: string
  gc_displayName :: "string option"

text \<open>\<open>GoogleProvider.exchange\<close> after the library has exchanged the code and checked the token.\<close>

definition google_identity_of :: "id_claims option \<Rightarrow> error + google_claims" where
  "google_identity_of claims =
     (case claims of
        Some c \<Rightarrow>
          (case ic_email c of
             Some email \<Rightarrow>
               if \<not> ic_email_verified c \<or> ic_sub c = []
               then Inl (Unauthorized ''Google must provide a verified email address.'')
               else Inr \<lparr> gc_subject = ic_sub c, gc_email = js_lower email,
                         gc_displayName = map_option (take 120) (ic_name c) \<rparr>
           | None \<Rightarrow> Inl (Unauthorized ''Google must provide a verified email address.''))
      | None \<Rightarrow> Inl (Unauthorized ''Google must provide a verified email address.''))"

section \<open>AuthService\<close>

record auth_user =
  au_id :: ident
  au_email :: string
  au_displayName :: "string option"
  au_role :: user_role

definition toAuthResponse :: "account \<Rightarrow> auth_user" where
  "toAuthResponse a = \<lparr> au_id = ac_id a, au_email = ac_email a, au_displayName = ac_displayName a, au_role = ac_role a \<rparr>"

definition identity_account :: "auth_db \<Rightarrow> string \<Rightarrow> account option" where
  "identity_account db sub = Option.bind (identity_row db sub) (\<lambda>g. account_row db (gi_userId g))"

text \<open>\<open>user.create\<close> with its identity; the id is the next of the supply.\<close>

definition create_account :: "google_claims \<Rightarrow> auth_db \<Rightarrow> account \<times> auth_db" where
  "create_account claims db =
     (let a = \<lparr> ac_id = next_id (zd_vault db), ac_email = gc_email claims, ac_displayName = gc_displayName claims,
                ac_role = Role_USER \<rparr>
      in (a, db \<lparr> zd_accounts := zd_accounts db @ [a],
                  zd_identities := zd_identities db @ [\<lparr> gi_subject = gc_subject claims, gi_userId = ac_id a \<rparr>],
                  zd_vault := (draw_id (zd_vault db)) \<lparr> v_users := v_users (zd_vault db)
                    @ [\<lparr> u_id = ac_id a, u_email = ac_email a, u_consolidationEnabled = False,
                         u_consolidationMode = consolidation_mode.REVIEW_ONLY \<rparr>] \<rparr> \<rparr>))"

definition sign_in_tx :: "time \<Rightarrow> google_claims \<Rightarrow> auth_db \<Rightarrow> account auth_outcome" where
  "sign_in_tx now claims db =
     (case identity_account db (gc_subject claims) of
        Some a \<Rightarrow> (Inr a, db)
      | None \<Rightarrow>
          if list_ex (\<lambda>a. ac_email a = gc_email claims) (zd_accounts db)
          then (Inl (Conflict ''This email belongs to another identity.''), db)
          else let (a, db1) = create_account claims db
               in case ensureWebChatAccess now (ac_id a) audit_actor_type.USER (Some (ac_id a)) (zd_vault db1) of
                    (Inl e, _) \<Rightarrow> (Inl e, db)
                  | (Inr _, v) \<Rightarrow> (Inr a, db1 \<lparr> zd_vault := v \<rparr>))"

text \<open>The recovery after a conflict looks at the tables as they are then, where a concurrent sign-in may have
  created the owner.\<close>

definition recover_sign_in :: "error \<Rightarrow> google_claims \<Rightarrow> auth_db \<Rightarrow> account auth_outcome" where
  "recover_sign_in e claims later =
     (case e of
        Conflict _ \<Rightarrow> (case identity_account later (gc_subject claims) of Some a \<Rightarrow> (Inr a, later) | None \<Rightarrow> (Inl e, later))
      | _ \<Rightarrow> (Inl e, later))"

definition createSession :: "auth_env \<Rightarrow> time \<Rightarrow> string \<Rightarrow> account \<Rightarrow> auth_db \<Rightarrow> (auth_user \<times> string) \<times> auth_db" where
  "createSession env now token a db =
     (let s = \<lparr> ws_id = next_id (zd_vault db), ws_userId = ac_id a, ws_tokenHash = ze_hash env token,
                ws_expiresAt = now + sessionDurationMs, ws_deletionVerifiedAt = None \<rparr>
      in ((toAuthResponse a, token),
          db \<lparr> zd_vault := draw_id (zd_vault db),
               zd_sessions := delete_where (\<lambda>x. ws_expiresAt x < now) (zd_sessions db) @ [s] \<rparr>))"

text \<open>\<open>between\<close> is what other requests do while the failed transaction is rolled back.\<close>

definition signInWithGoogle ::
  "auth_env \<Rightarrow> time \<Rightarrow> string \<Rightarrow> google_claims \<Rightarrow> (auth_db \<Rightarrow> auth_db) \<Rightarrow> auth_db \<Rightarrow> (auth_user \<times> string) auth_outcome" where
  "signInWithGoogle env now token claims between db =
     (case (case sign_in_tx now claims db of
              (Inl e, db1) \<Rightarrow> recover_sign_in e claims (between db1) | ok \<Rightarrow> ok) of
        (Inl e, db1) \<Rightarrow> (Inl e, db1)
      | (Inr a, db1) \<Rightarrow> apfst Inr (createSession env now token a db1))"

definition signInWithDemo :: "auth_env \<Rightarrow> time \<Rightarrow> string \<Rightarrow> auth_db \<Rightarrow> (auth_user \<times> string) auth_outcome" where
  "signInWithDemo env now token db =
     (if \<not> ze_development env then (Inl (NotFound ''''), db)
      else case find_row (\<lambda>a. ac_email a = demoAccountEmail) (zd_accounts db) of
             None \<Rightarrow> (Inl (NotFound ''Demo account is missing. Run pnpm db:seed in your local development database.''), db)
           | Some a \<Rightarrow>
               if list_ex (\<lambda>g. gi_userId g = ac_id a) (zd_identities db) \<or> ac_role a \<noteq> Role_USER
               then (Inl (Forbidden ''Demo login is only available for the unlinked demo fixture account.''), db)
               else case ensureWebChatAccess now (ac_id a) audit_actor_type.USER (Some (ac_id a)) (zd_vault db) of
                      (Inl e, v) \<Rightarrow> (Inl e, db \<lparr> zd_vault := v \<rparr>)
                    | (Inr _, v) \<Rightarrow> apfst Inr (createSession env now token a (db \<lparr> zd_vault := v \<rparr>)))"

definition subject_of_user :: "auth_db \<Rightarrow> ident \<Rightarrow> string option" where
  "subject_of_user db userId = map_option gi_subject (find_row (\<lambda>g. gi_userId g = userId) (zd_identities db))"

definition verifyDeletion :: "time \<Rightarrow> ident \<Rightarrow> google_claims \<Rightarrow> auth_db \<Rightarrow> unit auth_outcome" where
  "verifyDeletion now sessionId claims db =
     (case session_row db sessionId of
        Some s \<Rightarrow>
          if ws_expiresAt s \<le> now \<or> subject_of_user db (ws_userId s) \<noteq> Some (gc_subject claims)
          then (Inl (Unauthorized ''Sign in with the Google account associated with this vault.''), db)
          else (Inr (), db \<lparr> zd_sessions := update_where (\<lambda>x. ws_id x = sessionId)
                   (\<lambda>x. x \<lparr> ws_deletionVerifiedAt := Some now \<rparr>) (zd_sessions db) \<rparr>)
      | None \<Rightarrow> (Inl (Unauthorized ''Sign in with the Google account associated with this vault.''), db))"

definition getCurrentUser :: "auth_db \<Rightarrow> ident \<Rightarrow> error + auth_user" where
  "getCurrentUser db userId =
     (case account_row db userId of Some a \<Rightarrow> Inr (toAuthResponse a) | None \<Rightarrow> Inl (Internal ''P2025''))"

text \<open>An absent name leaves the column; \<open>Some None\<close> clears it.\<close>

definition updateProfile :: "ident \<Rightarrow> string option option \<Rightarrow> auth_db \<Rightarrow> auth_user auth_outcome" where
  "updateProfile userId displayName db =
     (let f = (\<lambda>a. case displayName of None \<Rightarrow> a | Some n \<Rightarrow> a \<lparr> ac_displayName := n \<rparr>)
      in case account_row db userId of
           None \<Rightarrow> (Inl (Internal ''P2025''), db)
         | Some a \<Rightarrow> (Inr (toAuthResponse (f a)),
                      db \<lparr> zd_accounts := update_where (\<lambda>a. ac_id a = userId) f (zd_accounts db) \<rparr>))"

text \<open>\<open>user.delete\<close>: the references of all the owner's rows cascade.  The rows of an app carry the owner of
  the app, and an item goes with its request or its memory.  Registrations and authorization requests of connectors
  belong to no owner.\<close>

definition drop_owner :: "ident \<Rightarrow> vault \<Rightarrow> vault" where
  "drop_owner userId v =
     v \<lparr> auditEvents := delete_where (\<lambda>e. ae_userId e = userId) (auditEvents v),
         auditEventSubjects := delete_where (\<lambda>s. sr_userId s = userId) (auditEventSubjects v),
         provenanceEntries := delete_where (\<lambda>p. pi_userId (pe_input p) = userId) (provenanceEntries v),
         provenanceSubjects := delete_where (\<lambda>s. sr_userId s = userId) (provenanceSubjects v),
         v_users := delete_where (\<lambda>u. u_id u = userId) (v_users v),
         v_preferences := delete_where (\<lambda>p. pp_userId p = userId) (v_preferences v),
         v_memories := delete_where (\<lambda>m. m_userId m = userId) (v_memories v),
         v_clients := delete_where (\<lambda>c. c_userId c = userId) (v_clients v),
         v_policies := delete_where (\<lambda>p. p_userId p = userId) (v_policies v),
         v_requests := delete_where (\<lambda>r. r_userId r = userId) (v_requests v),
         v_requestItems := delete_where
           (\<lambda>i. list_ex (\<lambda>r. r_id r = ri_memoryRequestId i \<and> r_userId r = userId) (v_requests v)
              \<or> list_ex (\<lambda>m. m_id m = ri_memoryId i \<and> m_userId m = userId) (v_memories v)) (v_requestItems v),
         v_suggestions := delete_where (\<lambda>s. s_userId s = userId) (v_suggestions v),
         v_jobRuns := delete_where (\<lambda>j. j_userId j = userId) (v_jobRuns v),
         v_codes := delete_where (\<lambda>k. k_userId k = userId) (v_codes v),
         v_tokens := delete_where (\<lambda>t. t_userId t = userId) (v_tokens v) \<rparr>"

definition delete_user :: "ident \<Rightarrow> auth_db \<Rightarrow> auth_db" where
  "delete_user userId db =
     db \<lparr> zd_vault := drop_owner userId (zd_vault db),
          zd_accounts := delete_where (\<lambda>a. ac_id a = userId) (zd_accounts db),
          zd_identities := delete_where (\<lambda>g. gi_userId g = userId) (zd_identities db),
          zd_sessions := delete_where (\<lambda>s. ws_userId s = userId) (zd_sessions db) \<rparr>"

definition deletion_verified :: "time \<Rightarrow> ident \<Rightarrow> web_session \<Rightarrow> bool" where
  "deletion_verified now userId s =
     (ws_userId s = userId \<and> now < ws_expiresAt s
      \<and> (case ws_deletionVerifiedAt s of None \<Rightarrow> False | Some t \<Rightarrow> now - deletionVerificationWindowMs \<le> t))"

definition deleteAccount :: "time \<Rightarrow> ident \<Rightarrow> ident option \<Rightarrow> auth_db \<Rightarrow> unit auth_outcome" where
  "deleteAccount now userId sessionId db =
     (case (if truthy sessionId then session_row db (the sessionId) else None) of
        Some s \<Rightarrow>
          if \<not> deletion_verified now userId s
          then (Inl (Forbidden ''Verify your Google account before deleting your vault.''), db)
          else if account_row db userId = None then (Inl (Internal ''P2025''), db)
          else (Inr (), delete_user userId db)
      | None \<Rightarrow> (Inl (Forbidden ''Verify your Google account before deleting your vault.''), db))"

definition logout :: "ident option \<Rightarrow> auth_db \<Rightarrow> auth_db" where
  "logout sessionId db =
     (if truthy sessionId then db \<lparr> zd_sessions := delete_where (\<lambda>s. ws_id s = the sessionId) (zd_sessions db) \<rparr> else db)"

section \<open>SessionsService and the guard\<close>

definition readCookie :: "auth_env \<Rightarrow> string option \<Rightarrow> string \<Rightarrow> string option" where
  "readCookie env header name =
     (case header of
        None \<Rightarrow> None
      | Some h \<Rightarrow>
          if h = [] then None
          else case find_row (\<lambda>c. take (length name + 1) c = name @ ''='') (map js_trim (split_char (CHR '';'') h)) of
                 None \<Rightarrow> None
               | Some c \<Rightarrow> ze_decode env (drop (length name + 1) c))"

record resolved_session =
  rs_user :: auth_user
  rs_sessionId :: ident
  rs_token :: string

definition resolveSessionFromCookieHeader ::
  "auth_env \<Rightarrow> time \<Rightarrow> auth_db \<Rightarrow> string option \<Rightarrow> resolved_session option" where
  "resolveSessionFromCookieHeader env now db header =
     (case readCookie env header sessionCookieName of
        None \<Rightarrow> None
      | Some token \<Rightarrow>
          if token = [] then None
          else case session_of_hash db (ze_hash env token) of
                 None \<Rightarrow> None
               | Some s \<Rightarrow>
                   if ws_expiresAt s \<le> now then None
                   else map_option (\<lambda>a. \<lparr> rs_user = toAuthResponse a, rs_sessionId = ws_id s, rs_token = token \<rparr>)
                          (account_row db (ws_userId s)))"

definition sessionCanActivate :: "auth_env \<Rightarrow> time \<Rightarrow> auth_db \<Rightarrow> string option \<Rightarrow> error + resolved_session" where
  "sessionCanActivate env now db header =
     (case resolveSessionFromCookieHeader env now db header of
        Some s \<Rightarrow> Inr s
      | None \<Rightarrow> Inl (Unauthorized (if truthy header then ''Invalid session'' else ''Missing session'')))"

section \<open>GoogleLoginService\<close>

definition path_char :: "char \<Rightarrow> bool" where
  "path_char c = (let n = of_char c :: nat
     in (48 \<le> n \<and> n \<le> 57) \<or> (65 \<le> n \<and> n \<le> 90) \<or> (97 \<le> n \<and> n \<le> 122) \<or> n = 95 \<or> n = 45)"

definition setting_char :: "char \<Rightarrow> bool" where
  "setting_char c = (let n = of_char c :: nat in (97 \<le> n \<and> n \<le> 122) \<or> n = 45)"

text \<open>The expression of the app's paths.\<close>

definition app_path :: "string \<Rightarrow> bool" where
  "app_path p =
     (p \<in> {''/overview'', ''/vault'', ''/chat'', ''/inbox''}
      \<or> (take 6 p = ''/chat/'' \<and> drop 6 p \<noteq> [] \<and> list_all path_char (drop 6 p))
      \<or> (take 10 p = ''/settings/'' \<and> drop 10 p \<noteq> [] \<and> list_all setting_char (drop 10 p)))"

definition localOrigin :: string where "localOrigin = ''http://local.invalid''"
definition consentPath :: string where "consentPath = ''/oauth/consent''"

definition consent_params :: "(string \<times> string) list \<Rightarrow> bool" where
  "consent_params ps =
     (truthy (map_of ps ''request'') \<and> truthy (map_of ps ''nonce'')
      \<and> list_all (\<lambda>(k, _). k = ''request'' \<or> k = ''nonce'') ps)"

datatype return_value = Absent | Text string | Other_value

definition loginReturnTo :: "auth_env \<Rightarrow> return_value \<Rightarrow> error + string" where
  "loginReturnTo env returnTo =
     (case returnTo of
        Absent \<Rightarrow> Inr ''/vault''
      | Other_value \<Rightarrow> Inl (BadRequest ''Invalid return path.'')
      | Text v \<Rightarrow>
          (case ze_url env v localOrigin of
             None \<Rightarrow> Inl (Internal ''Invalid URL'')
           | Some url \<Rightarrow>
               if pu_origin url \<noteq> localOrigin \<or> take 1 v \<noteq> ''/'' \<or> take 2 v = ''//''
                 \<or> CHR 0x5C \<in> set v \<or> pu_hash url \<noteq> []
               then Inl (BadRequest ''Invalid return path.'')
               else if pu_pathname url = consentPath
               then if consent_params (pu_params url) then Inr (pu_pathname url @ pu_search url)
                    else Inl (BadRequest ''Invalid consent path.'')
               else if app_path (pu_pathname url) \<and> pu_search url = []
               then Inr (pu_pathname url @ pu_search url)
               else Inl (BadRequest ''Invalid return path.'')))"

text \<open>The random tokens of a start.\<close>

record flow_tokens =
  ft_state :: string
  ft_nonce :: string
  ft_codeVerifier :: string
  ft_browserToken :: string

definition new_attempt :: "auth_env \<Rightarrow> time \<Rightarrow> flow_tokens \<Rightarrow> string \<Rightarrow> ident option \<Rightarrow> login_attempt" where
  "new_attempt env now ft target sessionId =
     \<lparr> la_stateHash = ze_hash env (ft_state ft), la_browserHash = ze_hash env (ft_browserToken ft),
       la_nonce = ft_nonce ft, la_codeVerifier = ft_codeVerifier ft, la_returnTo = target,
       la_sessionId = sessionId, la_expiresAt = now + loginAttemptTtlMs \<rparr>"

definition start_login ::
  "auth_env \<Rightarrow> time \<Rightarrow> flow_tokens \<Rightarrow> return_value \<Rightarrow> ident option \<Rightarrow> auth_db \<Rightarrow> string auth_outcome" where
  "start_login env now ft returnTo sessionId db =
     (case (if truthy sessionId then Inr ''/settings/data'' else loginReturnTo env returnTo) of
        Inl e \<Rightarrow> (Inl e, db)
      | Inr target \<Rightarrow>
          let db1 = db \<lparr> zd_attempts := delete_where (\<lambda>a. la_expiresAt a < now) (zd_attempts db) \<rparr>;
              a = new_attempt env now ft target sessionId
          in if list_ex (\<lambda>x. la_stateHash x = la_stateHash a) (zd_attempts db1) then (Inl (Internal ''P2002''), db1)
             else (Inr (ft_browserToken ft), db1 \<lparr> zd_attempts := zd_attempts db1 @ [a] \<rparr>))"

text \<open>The first part of \<open>finish\<close>: the attempt of the callback, which the same browser must have started.\<close>

definition find_attempt :: "auth_env \<Rightarrow> time \<Rightarrow> string list \<Rightarrow> string option \<Rightarrow> auth_db \<Rightarrow> error + login_attempt" where
  "find_attempt env now states browserToken db =
     (case (states, browserToken) of
        ([state], Some b) \<Rightarrow>
          if state = [] \<or> b = [] then Inl (Unauthorized ''Invalid sign-in attempt.'')
          else (case find_row (\<lambda>a. la_stateHash a = ze_hash env state) (zd_attempts db) of
                  Some a \<Rightarrow> if la_expiresAt a \<le> now \<or> la_browserHash a \<noteq> ze_hash env b
                            then Inl (Unauthorized ''Sign-in expired or started in another browser.'')
                            else Inr a
                | None \<Rightarrow> Inl (Unauthorized ''Sign-in expired or started in another browser.''))
      | _ \<Rightarrow> Inl (Unauthorized ''Invalid sign-in attempt.''))"

text \<open>The second: a conditional deletion, whose count must be one.\<close>

definition live_attempt :: "time \<Rightarrow> string \<Rightarrow> login_attempt \<Rightarrow> bool" where
  "live_attempt now h a = (la_stateHash a = h \<and> now < la_expiresAt a)"

definition consume_attempt :: "time \<Rightarrow> string \<Rightarrow> auth_db \<Rightarrow> unit auth_outcome" where
  "consume_attempt now h db =
     (let db1 = db \<lparr> zd_attempts := delete_where (live_attempt now h) (zd_attempts db) \<rparr>
      in (if count_where (live_attempt now h) (zd_attempts db) = 1 then Inr ()
          else Inl (Unauthorized ''Sign-in already used.''), db1))"

text \<open>The rest: what the callback answers, where the exchange with Google is an argument.  A session token is
  returned only for a sign-in.\<close>

record finished_login =
  fl_token :: "string option"
  fl_target :: string

definition failed_login :: "login_attempt \<Rightarrow> finished_login" where
  "failed_login a =
     \<lparr> fl_token = None,
       fl_target = (if truthy (la_sessionId a) then ''/settings/data?authError=google'' else ''/?authError=google'') \<rparr>"

definition finish_exchange ::
  "auth_env \<Rightarrow> time \<Rightarrow> string \<Rightarrow> login_attempt \<Rightarrow> error + google_claims \<Rightarrow> string option \<Rightarrow> (auth_db \<Rightarrow> auth_db)
     \<Rightarrow> auth_db \<Rightarrow> finished_login \<times> auth_db" where
  "finish_exchange env now token a exchanged sessionToken between db =
     (case exchanged of
        Inl _ \<Rightarrow> (failed_login a, db)
      | Inr claims \<Rightarrow>
          if truthy (la_sessionId a)
          then (case (if truthy sessionToken then session_of_hash db (ze_hash env (the sessionToken)) else None) of
                  Some s \<Rightarrow>
                    if Some (ws_id s) \<noteq> la_sessionId a then (failed_login a, db)
                    else (case verifyDeletion now (ws_id s) claims db of
                            (Inl _, db1) \<Rightarrow> (failed_login a, db1)
                          | (Inr _, db1) \<Rightarrow> (\<lparr> fl_token = None, fl_target = ''/settings/data?verified=1'' \<rparr>, db1))
                | None \<Rightarrow> (failed_login a, db))
          else (case signInWithGoogle env now token claims between db of
                  (Inl _, db1) \<Rightarrow> (failed_login a, db1)
                | (Inr (_, tok), db1) \<Rightarrow> (\<lparr> fl_token = Some tok, fl_target = la_returnTo a \<rparr>, db1)))"

text \<open>\<open>finish\<close> when no other request acts between its steps.\<close>

definition finish_login ::
  "auth_env \<Rightarrow> time \<Rightarrow> string \<Rightarrow> (login_attempt \<Rightarrow> id_claims option) \<Rightarrow> string list \<Rightarrow> string option \<Rightarrow> string option
     \<Rightarrow> auth_db \<Rightarrow> finished_login auth_outcome" where
  "finish_login env now token google states browserToken sessionToken db =
     (case find_attempt env now states browserToken db of
        Inl e \<Rightarrow> (Inl e, db)
      | Inr a \<Rightarrow>
          (case consume_attempt now (la_stateHash a) db of
             (Inl e, db1) \<Rightarrow> (Inl e, db1)
           | (Inr _, db1) \<Rightarrow>
               apfst Inr (finish_exchange env now token a (google_identity_of (google a)) sessionToken (\<lambda>x. x) db1)))"

section \<open>A login attempt is used once\<close>

text \<open>What other requests do to the attempts between two callbacks: start an attempt of another state, use
  one up, or leave the table alone, as every other operation does.\<close>

inductive login_steps :: "string \<Rightarrow> auth_db \<Rightarrow> auth_db \<Rightarrow> bool" for h :: string where
  login_done: "login_steps h db db"
| login_start: "ze_hash env (ft_state ft) \<noteq> h \<Longrightarrow> login_steps h (snd (start_login env t ft r sid db)) later
    \<Longrightarrow> login_steps h db later"
| login_consume: "login_steps h (snd (consume_attempt t h' db)) later \<Longrightarrow> login_steps h db later"
| login_other: "zd_attempts db' = zd_attempts db \<Longrightarrow> login_steps h db' later \<Longrightarrow> login_steps h db later"

inductive_cases login_stepsE: "login_steps h db later"

definition state_spent :: "time \<Rightarrow> string \<Rightarrow> auth_db \<Rightarrow> bool" where
  "state_spent now h db = list_all (\<lambda>a. \<not> live_attempt now h a) (zd_attempts db)"

lemma consume_attempt_spends: "consume_attempt now h db = (r, db1) \<Longrightarrow> state_spent now h db1"
  by (auto simp: consume_attempt_def state_spent_def Let_def list_all_iff)

lemma start_keeps_spent:
  assumes "ze_hash env (ft_state ft) \<noteq> h" "state_spent now h db"
  shows "state_spent now h (snd (start_login env t ft r sid db))"
  using assms
  by (auto simp: start_login_def state_spent_def Let_def list_all_iff new_attempt_def live_attempt_def
      split: sum.split)

lemma consume_keeps_spent: "state_spent now h db \<Longrightarrow> state_spent now h (snd (consume_attempt t h' db))"
  by (auto simp: consume_attempt_def state_spent_def Let_def list_all_iff)

lemma login_steps_keep_spent: "login_steps h db later \<Longrightarrow> state_spent now h db \<Longrightarrow> state_spent now h later"
proof (induction rule: login_steps.induct)
  case (login_start env ft t r sid db later)
  then show ?case using start_keeps_spent by blast
next
  case (login_consume t h' db later)
  then show ?case using consume_keeps_spent by blast
next
  case (login_other db' db later)
  then show ?case by (simp add: state_spent_def)
qed simp

lemma spent_later: "state_spent now h db \<Longrightarrow> now \<le> now' \<Longrightarrow> state_spent now' h db"
  by (auto simp: state_spent_def list_all_iff live_attempt_def)

lemma spent_consume_fails:
  assumes "state_spent now h db"
  shows "fst (consume_attempt now h db) = Inl (Unauthorized ''Sign-in already used.'')"
proof -
  have "count_where (live_attempt now h) (zd_attempts db) = 0"
    using assms by (simp add: count_where_eq_0 state_spent_def list_all_iff)
  then show ?thesis by (simp add: consume_attempt_def Let_def)
qed

lemma spent_find_fails:
  assumes "state_spent now (ze_hash env st) db"
  shows "\<exists>m. find_attempt env now [st] b db = Inl (Unauthorized m)"
proof (cases "find_row (\<lambda>a. la_stateHash a = ze_hash env st) (zd_attempts db)")
  case (Some a)
  then have "la_expiresAt a \<le> now"
    using find_row_SomeD [OF Some] assms by (auto simp: state_spent_def list_all_iff live_attempt_def)
  then show ?thesis using Some by (simp add: find_attempt_def split: option.split)
qed (simp add: find_attempt_def split: option.split)

lemma used_state_stays_used:
  assumes "consume_attempt now h db = (Inr (), db1)" and "login_steps h db1 later" and "now \<le> now'"
    and "ze_hash env st = h"
  shows "fst (consume_attempt now' h later) = Inl (Unauthorized ''Sign-in already used.'')
    \<and> (\<exists>m. finish_login env now' token google [st] b s later = (Inl (Unauthorized m), later))"
proof -
  have spent: "state_spent now' h later"
    using consume_attempt_spends [OF assms(1)] login_steps_keep_spent [OF assms(2)] spent_later [OF _ assms(3)]
    by blast
  obtain m where "find_attempt env now' [st] b later = Inl (Unauthorized m)"
    using spent_find_fails [of now' env st later b] spent assms(4) by blast
  then show ?thesis using spent_consume_fails [OF spent] by (simp add: finish_login_def)
qed

text \<open>C30. A callback is used once: after it has consumed its login attempt, whatever other requests do, a
  second callback with the same state fails and writes nothing, and one that had already found the attempt fails
  when it tries to consume it.\<close>

theorem login_attempt_used_once:
  assumes "consume_attempt now h db = (Inr (), db1)" and "login_steps h db1 later" and "now \<le> now'"
    and "ze_hash env st = h"
  shows "fst (consume_attempt now' h later) = Inl (Unauthorized ''Sign-in already used.'')
    \<and> (\<exists>m. finish_login env now' token google [st] b s later = (Inl (Unauthorized m), later))"
  by (rule used_state_stays_used [OF assms])

section \<open>Signing in\<close>

definition identities_resolve :: "auth_db \<Rightarrow> bool" where
  "identities_resolve db =
     (list_all (\<lambda>g. account_row db (gi_userId g) \<noteq> None) (zd_identities db)
      \<and> account_row db (next_id (zd_vault db)) = None)"

lemma identity_row_unresolved:
  assumes "identities_resolve db" "identity_account db sub = None"
  shows "identity_row db sub = None"
  using assms find_row_SomeD
  by (fastforce simp: identities_resolve_def identity_account_def identity_row_def list_all_iff split: bind_splits)

lemma create_account_identity:
  assumes "identities_resolve db" "identity_account db (gc_subject claims) = None"
    and "create_account claims db = (a, db1)"
  shows "identity_account db1 (gc_subject claims) = Some a
    \<and> zd_accounts db1 = zd_accounts db @ [a]
    \<and> zd_identities db1 = zd_identities db @ [\<lparr> gi_subject = gc_subject claims, gi_userId = ac_id a \<rparr>]
    \<and> ac_email a = gc_email claims"
proof -
  have i: "find_row (\<lambda>g. gi_subject g = gc_subject claims) (zd_identities db) = None"
    using identity_row_unresolved [OF assms(1,2)] by (simp add: identity_row_def)
  have f: "find_row (\<lambda>x. ac_id x = next_id (zd_vault db)) (zd_accounts db) = None"
    using assms(1) by (simp add: identities_resolve_def account_row_def)
  have a: "a = \<lparr> ac_id = next_id (zd_vault db), ac_email = gc_email claims,
      ac_displayName = gc_displayName claims, ac_role = Role_USER \<rparr>"
    and d: "zd_accounts db1 = zd_accounts db @ [a]"
      "zd_identities db1 = zd_identities db @ [\<lparr> gi_subject = gc_subject claims, gi_userId = ac_id a \<rparr>]"
    using assms(3) by (auto simp: create_account_def Let_def)
  show ?thesis using i f d a
    by (simp add: identity_account_def identity_row_def account_row_def find_row_append)
qed

text \<open>Who a sign-in is: the owner the subject already had, or a new owner whose email nobody had.\<close>

definition signed_in_as :: "google_claims \<Rightarrow> auth_db \<Rightarrow> account \<Rightarrow> auth_db \<Rightarrow> bool" where
  "signed_in_as claims before a db' =
     (identity_account db' (gc_subject claims) = Some a
      \<and> (if identity_account before (gc_subject claims) = Some a
          then zd_accounts db' = zd_accounts before \<and> zd_identities db' = zd_identities before
          else \<not> list_ex (\<lambda>x. ac_email x = gc_email claims) (zd_accounts before)
            \<and> ac_email a = gc_email claims
            \<and> zd_accounts db' = zd_accounts before @ [a]
            \<and> zd_identities db' = zd_identities before @ [\<lparr> gi_subject = gc_subject claims, gi_userId = ac_id a \<rparr>]))"

lemma signed_in_as_cong:
  "zd_accounts db1 = zd_accounts db2 \<Longrightarrow> zd_identities db1 = zd_identities db2
     \<Longrightarrow> signed_in_as claims before a db1 = signed_in_as claims before a db2"
  by (simp add: signed_in_as_def identity_account_def identity_row_def account_row_def)

lemma sign_in_tx_as:
  assumes "identities_resolve db" "sign_in_tx now claims db = (Inr a, db1)"
  shows "signed_in_as claims db a db1"
proof (cases "identity_account db (gc_subject claims)")
  case (Some x)
  then show ?thesis using assms(2) by (simp add: sign_in_tx_def signed_in_as_def)
next
  case None
  obtain x d where c: "create_account claims db = (x, d)" by fastforce
  have new: "\<not> list_ex (\<lambda>x. ac_email x = gc_email claims) (zd_accounts db)"
    using assms(2) None by (auto simp: sign_in_tx_def split: if_splits)
  have "a = x \<and> zd_accounts db1 = zd_accounts d \<and> zd_identities db1 = zd_identities d"
    using assms(2) None new c
    by (cases "ensureWebChatAccess now (ac_id x) audit_actor_type.USER (Some (ac_id x)) (zd_vault d)";
        cases "fst (ensureWebChatAccess now (ac_id x) audit_actor_type.USER (Some (ac_id x)) (zd_vault d))")
      (auto simp: sign_in_tx_def)
  moreover have "signed_in_as claims db x d"
    using create_account_identity [OF assms(1) None c] None new by (simp add: signed_in_as_def)
  ultimately show ?thesis using signed_in_as_cong by metis
qed

lemma recover_sign_in_as:
  "recover_sign_in e claims later = (Inr a, db1) \<Longrightarrow> db1 = later \<and> signed_in_as claims later a db1"
  by (auto simp: recover_sign_in_def signed_in_as_def split: error.splits option.splits)

lemma createSession_tables:
  "createSession env now token a db = (r, db1) \<Longrightarrow>
     r = (toAuthResponse a, token) \<and> zd_accounts db1 = zd_accounts db \<and> zd_identities db1 = zd_identities db
     \<and> (\<exists>s. zd_sessions db1 = delete_where (\<lambda>x. ws_expiresAt x < now) (zd_sessions db) @ [s]
        \<and> ws_userId s = ac_id a \<and> ws_tokenHash s = ze_hash env token)"
  by (auto simp: createSession_def Let_def)

lemma signInWithGoogle_as:
  assumes "identities_resolve db"
    and "signInWithGoogle env now token claims between db = (Inr (u, tok), db')"
  shows "\<exists>before a. (before = db \<or> before = between db) \<and> signed_in_as claims before a db' \<and> u = toAuthResponse a"
proof -
  have tx_frame: "db1 = db" if "sign_in_tx now claims db = (Inl e, db1)" for e db1
    using that by (auto simp: sign_in_tx_def split: option.splits if_splits prod.splits sum.splits)
  obtain a db1 before where s: "before = db \<or> before = between db" "signed_in_as claims before a db1"
    and c: "createSession env now token a db1 = ((u, tok), db')"
  proof (cases "sign_in_tx now claims db")
    case (Pair r d)
    show thesis
    proof (cases r)
      case (Inr x)
      then have "createSession env now token x d = ((u, tok), db')"
        using assms(2) Pair by (simp add: signInWithGoogle_def apfst_def map_prod_def split: prod.splits)
      then show thesis using that [of db x d] sign_in_tx_as [OF assms(1)] Pair Inr by blast
    next
      case (Inl e)
      then have d: "d = db" using tx_frame Pair by blast
      obtain x d2 where rec: "recover_sign_in e claims (between db) = (Inr x, d2)"
        using assms(2) Pair Inl d
        by (cases "recover_sign_in e claims (between db)"; cases "fst (recover_sign_in e claims (between db))")
          (auto simp: signInWithGoogle_def)
      have "createSession env now token x d2 = ((u, tok), db')"
        using assms(2) Pair Inl d rec
        by (simp add: signInWithGoogle_def apfst_def map_prod_def split: prod.splits)
      then show thesis using that [of "between db" x d2] recover_sign_in_as [OF rec] by blast
    qed
  qed
  then show ?thesis
    using createSession_tables [OF c] signed_in_as_cong [of db' db1] by blast
qed


section \<open>Deleting a vault\<close>

text \<open>The rows of one owner, table by table.\<close>

record owner_rows =
  or_events :: "audit_event list"
  or_eventSubjects :: "(audit_subject_type, audit_subject_role) subject_row list"
  or_entries :: "provenance_entry list"
  or_entrySubjects :: "(provenance_subject_type, provenance_subject_role) subject_row list"
  or_users :: "vault_user list"
  or_preferences :: "provider_preference list"
  or_memories :: "memory list"
  or_clients :: "client list"
  or_policies :: "policy list"
  or_requests :: "memory_request list"
  or_suggestions :: "suggestion list"
  or_jobs :: "job_run list"
  or_codes :: "oauth_code list"
  or_tokens :: "oauth_token list"
  or_accounts :: "account list"
  or_identities :: "google_identity list"
  or_sessions :: "web_session list"

definition rows_of :: "ident \<Rightarrow> auth_db \<Rightarrow> owner_rows" where
  "rows_of w db =
     (let v = zd_vault db in
      \<lparr> or_events = filter (\<lambda>e. ae_userId e = w) (auditEvents v),
        or_eventSubjects = filter (\<lambda>s. sr_userId s = w) (auditEventSubjects v),
        or_entries = filter (\<lambda>p. pi_userId (pe_input p) = w) (provenanceEntries v),
        or_entrySubjects = filter (\<lambda>s. sr_userId s = w) (provenanceSubjects v),
        or_users = filter (\<lambda>u. u_id u = w) (v_users v),
        or_preferences = filter (\<lambda>p. pp_userId p = w) (v_preferences v),
        or_memories = filter (\<lambda>m. m_userId m = w) (v_memories v),
        or_clients = filter (\<lambda>c. c_userId c = w) (v_clients v),
        or_policies = filter (\<lambda>p. p_userId p = w) (v_policies v),
        or_requests = filter (\<lambda>r. r_userId r = w) (v_requests v),
        or_suggestions = filter (\<lambda>s. s_userId s = w) (v_suggestions v),
        or_jobs = filter (\<lambda>j. j_userId j = w) (v_jobRuns v),
        or_codes = filter (\<lambda>k. k_userId k = w) (v_codes v),
        or_tokens = filter (\<lambda>t. t_userId t = w) (v_tokens v),
        or_accounts = filter (\<lambda>a. ac_id a = w) (zd_accounts db),
        or_identities = filter (\<lambda>g. gi_userId g = w) (zd_identities db),
        or_sessions = filter (\<lambda>s. ws_userId s = w) (zd_sessions db) \<rparr>)"

definition no_rows :: owner_rows where
  "no_rows = \<lparr> or_events = [], or_eventSubjects = [], or_entries = [], or_entrySubjects = [], or_users = [],
     or_preferences = [], or_memories = [], or_clients = [], or_policies = [], or_requests = [],
     or_suggestions = [], or_jobs = [], or_codes = [], or_tokens = [], or_accounts = [], or_identities = [],
     or_sessions = [] \<rparr>"

lemma filter_deleted [simp]: "filter (\<lambda>r. key r = w) (delete_where (\<lambda>r. key r = w) rows) = []"
  by (simp add: delete_where_def)

lemma filter_undeleted: "w \<noteq> u \<Longrightarrow> filter (\<lambda>r. key r = w) (delete_where (\<lambda>r. key r = u) rows) = filter (\<lambda>r. key r = w) rows"
  by (induction rows) (auto simp: delete_where_def)

lemma delete_user_own: "rows_of userId (delete_user userId db) = no_rows"
  by (simp add: rows_of_def delete_user_def drop_owner_def no_rows_def Let_def)

lemma delete_user_other: "w \<noteq> userId \<Longrightarrow> rows_of w (delete_user userId db) = rows_of w db"
  by (simp add: rows_of_def delete_user_def drop_owner_def Let_def filter_undeleted)

definition verified_session :: "time \<Rightarrow> ident \<Rightarrow> ident option \<Rightarrow> auth_db \<Rightarrow> bool" where
  "verified_session now userId sessionId db =
     (case sessionId of
        None \<Rightarrow> False
      | Some i \<Rightarrow> list_ex (\<lambda>s. ws_id s = i \<and> ws_userId s = userId \<and> now < ws_expiresAt s
          \<and> (case ws_deletionVerifiedAt s of None \<Rightarrow> False | Some t \<Rightarrow> now - t \<le> 300000)) (zd_sessions db))"

lemma deleteAccount_ok:
  assumes "deleteAccount now userId sessionId db = (Inr (), db')"
  shows "verified_session now userId sessionId db \<and> db' = delete_user userId db"
proof -
  obtain i where i: "sessionId = Some i" "i \<noteq> []"
    using assms by (cases sessionId) (auto simp: deleteAccount_def split: if_splits)
  obtain s where s: "session_row db i = Some s"
    using assms i by (cases "session_row db i") (auto simp: deleteAccount_def)
  have v: "deletion_verified now userId s" and d: "db' = delete_user userId db"
    using assms i s by (auto simp: deleteAccount_def split: if_splits)
  have "s \<in> set (zd_sessions db) \<and> ws_id s = i"
    using s find_row_SomeD by (fastforce simp: session_row_def)
  then show ?thesis using v d i
    by (auto simp: verified_session_def deletion_verified_def list_ex_iff deletionVerificationWindowMs_def
        split: option.splits)
qed


text \<open>The mark itself needs the identity of the vault.\<close>

lemma verifyDeletion_ok:
  assumes "verifyDeletion now i claims db = (Inr (), db')" and "session_row db' i = Some s"
  shows "ws_deletionVerifiedAt s = Some now \<and> now < ws_expiresAt s
    \<and> subject_of_user db (ws_userId s) = Some (gc_subject claims)"
proof -
  obtain s0 where s0: "session_row db i = Some s0"
    using assms(1) by (cases "session_row db i") (auto simp: verifyDeletion_def)
  have live: "now < ws_expiresAt s0" "subject_of_user db (ws_userId s0) = Some (gc_subject claims)"
    and d: "db' = db \<lparr> zd_sessions := update_where (\<lambda>x. ws_id x = i)
      (\<lambda>x. x \<lparr> ws_deletionVerifiedAt := Some now \<rparr>) (zd_sessions db) \<rparr>"
    using assms(1) s0 by (auto simp: verifyDeletion_def split: if_splits)
  have "ws_id s0 = i" using s0 find_row_SomeD by (fastforce simp: session_row_def)
  then have "s = s0 \<lparr> ws_deletionVerifiedAt := Some now \<rparr>"
    using assms(2) s0 d find_row_update_where [of "\<lambda>x. ws_id x = i" "\<lambda>x. x \<lparr> ws_deletionVerifiedAt := Some now \<rparr>"
        "\<lambda>x. ws_id x = i" "zd_sessions db"]
    by (simp add: session_row_def)
  then show ?thesis using live by simp
qed

section \<open>The session guard\<close>

lemma find_row_deleted: "(\<And>r. r \<in> set rows \<Longrightarrow> P r \<Longrightarrow> Q r) \<Longrightarrow> find_row P (delete_where Q rows) = None"
  by (auto simp: find_row_None_iff)

definition sessions_wf :: "auth_db \<Rightarrow> bool" where
  "sessions_wf db = (distinct (map ws_tokenHash (zd_sessions db)) \<and> list_all (\<lambda>s. ws_id s \<noteq> []) (zd_sessions db))"

lemma sessionCanActivate_ok:
  assumes "sessionCanActivate env now db header = Inr r"
  obtains s where "s \<in> set (zd_sessions db)" "ws_tokenHash s = ze_hash env (rs_token r)" "now < ws_expiresAt s"
    "rs_sessionId r = ws_id s" "au_id (rs_user r) = ws_userId s"
    "readCookie env header sessionCookieName = Some (rs_token r)"
proof -
  have res: "resolveSessionFromCookieHeader env now db header = Some r"
    using assms by (simp add: sessionCanActivate_def split: option.splits)
  obtain tok where t: "readCookie env header sessionCookieName = Some tok" "tok \<noteq> []"
    using res by (auto simp: resolveSessionFromCookieHeader_def split: option.splits if_splits)
  obtain s where s: "session_of_hash db (ze_hash env tok) = Some s" "now < ws_expiresAt s"
    using res t by (auto simp: resolveSessionFromCookieHeader_def split: option.splits if_splits)
  obtain a where a: "account_row db (ws_userId s) = Some a"
    and r: "r = \<lparr> rs_user = toAuthResponse a, rs_sessionId = ws_id s, rs_token = tok \<rparr>"
    using res t s by (auto simp: resolveSessionFromCookieHeader_def)
  have "s \<in> set (zd_sessions db) \<and> ws_tokenHash s = ze_hash env tok"
    using s(1) find_row_SomeD by (fastforce simp: session_of_hash_def)
  moreover have "ac_id a = ws_userId s" using a find_row_SomeD by (fastforce simp: account_row_def)
  ultimately show thesis using that [of s] s(2) t r by (simp add: toAuthResponse_def)
qed

lemma logged_out_refused:
  assumes "sessions_wf db" "sessionCanActivate env now db header = Inr r"
  shows "sessionCanActivate env now' (logout (Some (rs_sessionId r)) db) header = Inl (Unauthorized ''Invalid session'')"
proof -
  obtain s where s: "s \<in> set (zd_sessions db)" "ws_tokenHash s = ze_hash env (rs_token r)"
      "rs_sessionId r = ws_id s" and c: "readCookie env header sessionCookieName = Some (rs_token r)"
    using sessionCanActivate_ok [OF assms(2)] by metis
  have h: "truthy header" using c by (cases header) (auto simp: readCookie_def)
  have id: "ws_id s \<noteq> []" using assms(1) s(1) by (simp add: sessions_wf_def list_all_iff)
  have same: "ws_id x = ws_id s" if "x \<in> set (zd_sessions db)" "ws_tokenHash x = ws_tokenHash s" for x
    using assms(1) that s(1) by (metis sessions_wf_def distinct_map inj_onD)
  have "session_of_hash (logout (Some (ws_id s)) db) (ze_hash env (rs_token r)) = None"
    using same id s(2) by (auto simp: session_of_hash_def logout_def intro!: find_row_deleted)
  then show ?thesis using c h s(3) by (simp add: sessionCanActivate_def resolveSessionFromCookieHeader_def)
qed

text \<open>The guard of the owner's routes admits the bearer of a session token: the session it attaches has
  the hash of the presented token, is unexpired, and its owner is the one attached.  Once that session is logged
  out, the same cookie is refused at any time.\<close>

theorem session_guard_admits_owner:
  assumes "sessions_wf db" and "sessionCanActivate env now db header = Inr r"
  shows "readCookie env header sessionCookieName = Some (rs_token r)
    \<and> list_ex (\<lambda>s. ws_tokenHash s = ze_hash env (rs_token r) \<and> now < ws_expiresAt s
         \<and> ws_id s = rs_sessionId r \<and> ws_userId s = au_id (rs_user r)) (zd_sessions db)
    \<and> sessionCanActivate env now' (logout (Some (rs_sessionId r)) db) header = Inl (Unauthorized ''Invalid session'')"
proof -
  obtain s where "s \<in> set (zd_sessions db)" "ws_tokenHash s = ze_hash env (rs_token r)" "now < ws_expiresAt s"
    "rs_sessionId r = ws_id s" "au_id (rs_user r) = ws_userId s"
    "readCookie env header sessionCookieName = Some (rs_token r)"
    by (rule sessionCanActivate_ok [OF assms(2)])
  then show ?thesis using logged_out_refused [OF assms] by (auto simp: list_ex_iff)
qed

section \<open>Where a login returns to\<close>

definition local_path :: "string \<Rightarrow> bool" where
  "local_path p = (take 1 p = ''/'' \<and> drop 1 p \<noteq> [] \<and> hd (drop 1 p) \<in> set ''abcdefghijklmnopqrstuvwxyz'')"

lemma local_path_append: "local_path p \<Longrightarrow> local_path (p @ q)"
  by (cases p; cases "tl p") (auto simp: local_path_def)

lemma local_prefix: "take n p = q \<Longrightarrow> local_path q \<Longrightarrow> local_path p"
  using local_path_append [of q "drop n p"] by (metis append_take_drop_id)

lemma app_path_local:
  assumes "app_path p"
  shows "local_path p"
proof -
  consider "p \<in> {''/overview'', ''/vault'', ''/chat'', ''/inbox''}" | "take 6 p = ''/chat/''"
    | "take 10 p = ''/settings/''"
    using assms by (auto simp: app_path_def)
  then show ?thesis
  proof cases
    case 1
    then show ?thesis by (auto simp: local_path_def)
  next
    case 2
    then show ?thesis by (rule local_prefix) (simp add: local_path_def)
  next
    case 3
    then show ?thesis by (rule local_prefix) (simp add: local_path_def)
  qed
qed

text \<open>Wherever the URL parser takes a path to, a login returns to a path of this site: a slash and a
  letter, so no other host, and with query parameters only on the consent page.\<close>

theorem login_return_stays_local:
  assumes "loginReturnTo env r = Inr target"
  shows "local_path target \<and> (app_path target \<or> take 14 target = consentPath)"
proof (cases r)
  case (Text v)
  then obtain url where u: "ze_url env v localOrigin = Some url"
    using assms by (cases "ze_url env v localOrigin") (auto simp: loginReturnTo_def)
  show ?thesis
  proof (cases "pu_pathname url = consentPath")
    case True
    then have t: "target = consentPath @ pu_search url"
      using assms Text u by (auto simp: loginReturnTo_def split: if_splits)
    have "local_path consentPath" by (simp add: local_path_def consentPath_def)
    then have "local_path target" unfolding t by (rule local_path_append)
    moreover have "take 14 target = consentPath" by (simp add: t consentPath_def)
    ultimately show ?thesis by blast
  next
    case False
    then have "target = pu_pathname url" "app_path (pu_pathname url)"
      using assms Text u by (auto simp: loginReturnTo_def split: if_splits)
    then show ?thesis using app_path_local by simp
  qed
next
  case Absent
  then have "target = ''/vault''" using assms by (simp add: loginReturnTo_def)
  then show ?thesis by (simp add: local_path_def app_path_def)
qed (use assms in \<open>simp add: loginReturnTo_def\<close>)

section \<open>A sign-in from start to end\<close>

lemma start_login_ok:
  assumes "start_login env now ft r None db = (Inr b, db1)"
  obtains target where "loginReturnTo env r = Inr target" "b = ft_browserToken ft"
    "zd_accounts db1 = zd_accounts db" "zd_identities db1 = zd_identities db"
    "find_row (\<lambda>a. la_stateHash a = ze_hash env (ft_state ft)) (zd_attempts db1)
       = Some (new_attempt env now ft target None)"
    "\<And>t. t < now + loginAttemptTtlMs \<Longrightarrow>
       count_where (live_attempt t (ze_hash env (ft_state ft))) (zd_attempts db1) = 1"
proof -
  define old where "old = delete_where (\<lambda>a. la_expiresAt a < now) (zd_attempts db)"
  obtain target where t: "loginReturnTo env r = Inr target"
    using assms by (cases "loginReturnTo env r") (auto simp: start_login_def)
  define a where "a = new_attempt env now ft target None"
  have fresh: "\<not> list_ex (\<lambda>x. la_stateHash x = la_stateHash a) old" and b: "b = ft_browserToken ft"
    and d: "db1 = db \<lparr> zd_attempts := old @ [a] \<rparr>"
    using assms t by (auto simp: start_login_def Let_def old_def a_def split: if_splits)
  have h: "la_stateHash a = ze_hash env (ft_state ft)" "la_expiresAt a = now + loginAttemptTtlMs"
    by (simp_all add: a_def new_attempt_def)
  have "find_row (\<lambda>x. la_stateHash x = ze_hash env (ft_state ft)) old = None"
    using fresh h by (auto simp: find_row_None_iff list_ex_iff)
  moreover have "count_where (live_attempt t (ze_hash env (ft_state ft))) old = 0" for t
    using fresh h by (auto simp: count_where_eq_0 list_ex_iff live_attempt_def)
  ultimately show thesis
    using that [of target] t b d h by (simp add: find_row_append live_attempt_def a_def)
qed

text \<open>C32. A login that the same browser finishes in time, with a verified identity that has an owner, signs that
  owner in: the callback answers a token whose session is the owner's for thirty days, and the checked return path
  of the start.\<close>

theorem started_login_signs_in:
  assumes "start_login env now ft r None db = (Inr b, db1)" and "ft_state ft \<noteq> []" and "b \<noteq> []"
    and "now' < now + loginAttemptTtlMs"
    and "\<And>a. google_identity_of (google a) = Inr claims"
    and "identity_account db (gc_subject claims) = Some owner"
  shows "case finish_login env now' token google [ft_state ft] (Some b) st db1 of
           (Inr f, db2) \<Rightarrow> fl_token f = Some token \<and> Inr (fl_target f) = loginReturnTo env r
             \<and> list_ex (\<lambda>s. ws_userId s = ac_id owner \<and> ws_tokenHash s = ze_hash env token
                  \<and> ws_expiresAt s = now' + sessionDurationMs) (zd_sessions db2)
         | (Inl _, _) \<Rightarrow> False"
proof -
  obtain target where t: "loginReturnTo env r = Inr target" "b = ft_browserToken ft"
    and d: "zd_accounts db1 = zd_accounts db" "zd_identities db1 = zd_identities db"
    and f: "find_row (\<lambda>a. la_stateHash a = ze_hash env (ft_state ft)) (zd_attempts db1)
        = Some (new_attempt env now ft target None)"
    and c: "count_where (live_attempt now' (ze_hash env (ft_state ft))) (zd_attempts db1) = 1"
    using start_login_ok [OF assms(1)] assms(4) by metis
  have found: "find_attempt env now' [ft_state ft] (Some b) db1 = Inr (new_attempt env now ft target None)"
    using f t assms(2-4) by (simp add: find_attempt_def new_attempt_def)
  define db2 where "db2 = snd (consume_attempt now' (ze_hash env (ft_state ft)) db1)"
  have used: "consume_attempt now' (ze_hash env (ft_state ft)) db1 = (Inr (), db2)"
    and same: "zd_accounts db2 = zd_accounts db" "zd_identities db2 = zd_identities db"
    using c d by (simp_all add: db2_def consume_attempt_def Let_def)
  have who: "identity_account db2 (gc_subject claims) = Some owner"
    using assms(6) same by (simp add: identity_account_def identity_row_def account_row_def)
  show ?thesis
    using found used who t assms(5)
    by (simp add: finish_login_def new_attempt_def finish_exchange_def signInWithGoogle_def sign_in_tx_def
        createSession_def Let_def apfst_def map_prod_def)
qed

section \<open>Witnesses\<close>

definition sample_auth_env :: auth_env where
  "sample_auth_env =
     \<lparr> ze_hash = (\<lambda>s. ''h-'' @ s),
       ze_url = (\<lambda>v base. Some \<lparr> pu_origin = base, pu_pathname = takeWhile (\<lambda>c. c \<noteq> CHR ''?'') v,
                   pu_search = dropWhile (\<lambda>c. c \<noteq> CHR ''?'') v, pu_hash = [], pu_params = [] \<rparr>),
       ze_development = False, ze_decode = Some \<rparr>"

definition sample_account :: account where
  "sample_account = \<lparr> ac_id = ''u1'', ac_email = ''ana@example.org'', ac_displayName = None, ac_role = Role_USER \<rparr>"

definition sample_session :: web_session where
  "sample_session = \<lparr> ws_id = ''ses-1'', ws_userId = ''u1'', ws_tokenHash = ''h-tok'', ws_expiresAt = 9000000,
     ws_deletionVerifiedAt = Some 900000 \<rparr>"

definition sample_attempt_row :: login_attempt where
  "sample_attempt_row = \<lparr> la_stateHash = ''h-st'', la_browserHash = ''h-br'', la_nonce = ''n'', la_codeVerifier = ''v'',
     la_returnTo = ''/vault'', la_sessionId = None, la_expiresAt = 600000 \<rparr>"

definition sample_auth :: auth_db where
  "sample_auth = \<lparr> zd_vault = sample_vault, zd_accounts = [sample_account],
     zd_identities = [\<lparr> gi_subject = ''sub-1'', gi_userId = ''u1'' \<rparr>],
     zd_attempts = [sample_attempt_row], zd_sessions = [sample_session] \<rparr>"

definition sample_flow :: flow_tokens where
  "sample_flow = \<lparr> ft_state = ''st-2'', ft_nonce = ''n-2'', ft_codeVerifier = ''v-2'', ft_browserToken = ''br-2'' \<rparr>"

definition sample_google :: google_claims where
  "sample_google = \<lparr> gc_subject = ''sub-1'', gc_email = ''ana@example.org'', gc_displayName = Some ''Ana'' \<rparr>"

lemmas auth_samples = sample_auth_env_def sample_account_def sample_session_def sample_attempt_row_def
  sample_auth_def sample_flow_def sample_google_def

lemma login_attempt_used_once_witness:
  "fst (consume_attempt 5000 ''h-st'' sample_auth) = Inr ()
   \<and> (\<exists>m. fst (finish_login sample_auth_env 7000 ''tok-2'' (\<lambda>_. None) [''st''] (Some ''br'') None
        (snd (start_login sample_auth_env 6000 sample_flow Absent None (snd (consume_attempt 5000 ''h-st'' sample_auth)))))
      = Inl (Unauthorized m))"
proof -
  let ?later = "snd (start_login sample_auth_env 6000 sample_flow Absent None (snd (consume_attempt 5000 ''h-st'' sample_auth)))"
  have c: "consume_attempt 5000 ''h-st'' sample_auth = (Inr (), snd (consume_attempt 5000 ''h-st'' sample_auth))"
    by (simp add: consume_attempt_def auth_samples live_attempt_def Let_def)
  have s: "login_steps ''h-st'' (snd (consume_attempt 5000 ''h-st'' sample_auth))
      (snd (start_login sample_auth_env 6000 sample_flow Absent None (snd (consume_attempt 5000 ''h-st'' sample_auth))))"
    by (rule login_start [of sample_auth_env sample_flow "''h-st''", OF _ login_done]) (simp add: auth_samples)
  have h: "ze_hash sample_auth_env ''st'' = ''h-st''" by (simp add: sample_auth_env_def)
  from login_attempt_used_once [OF c s, of 7000 sample_auth_env "''st''" "''tok-2''" "\<lambda>_. None" "Some ''br''" None] h
  have "\<exists>m. finish_login sample_auth_env 7000 ''tok-2'' (\<lambda>_. None) [''st''] (Some ''br'') None ?later = (Inl (Unauthorized m), ?later)"
    by simp
  then show ?thesis using c by (metis fst_conv)
qed

definition new_google :: google_claims where
  "new_google = \<lparr> gc_subject = ''sub-2'', gc_email = ''eva@example.org'', gc_displayName = None \<rparr>"

lemma sample_sign_in_ok:
  "case fst (signInWithGoogle sample_auth_env 5000 ''tok-2'' new_google (\<lambda>x. x) sample_auth) of
     Inr p \<Rightarrow> snd p = ''tok-2'' | Inl e \<Rightarrow> False"
  by code_simp



definition sample_cookie :: string where "sample_cookie = ''lang=en; funes_vault_session=tok''"

lemma sample_cookie_read: "readCookie sample_auth_env (Some sample_cookie) sessionCookieName = Some ''tok''"
  by code_simp

lemma sample_guard_ok:
  "sessionCanActivate sample_auth_env 5000 sample_auth (Some sample_cookie)
     = Inr \<lparr> rs_user = toAuthResponse sample_account, rs_sessionId = ''ses-1'', rs_token = ''tok'' \<rparr>"
  using sample_cookie_read
  by (simp add: sessionCanActivate_def resolveSessionFromCookieHeader_def session_of_hash_def account_row_def auth_samples)

lemma session_guard_admits_owner_witness:
  "sessionCanActivate sample_auth_env 6000 (logout (Some ''ses-1'') sample_auth) (Some sample_cookie)
     = Inl (Unauthorized ''Invalid session'')"
proof -
  have "sessions_wf sample_auth" by (simp add: sessions_wf_def auth_samples)
  from session_guard_admits_owner [OF this sample_guard_ok] show ?thesis by simp
qed

lemma login_return_stays_local_witness:
  "loginReturnTo sample_auth_env (Text ''/inbox'') = Inr ''/inbox'' \<and> local_path ''/inbox''"
proof -
  have r: "loginReturnTo sample_auth_env (Text ''/inbox'') = Inr ''/inbox''" by code_simp
  show ?thesis using login_return_stays_local [OF r] r by simp
qed

lemma started_login_signs_in_witness:
  "case finish_login sample_auth_env 2000 ''tok-2''
      (\<lambda>_. Some \<lparr> ic_sub = ''sub-1'', ic_email = Some ''ana@example.org'', ic_email_verified = True, ic_name = Some ''Ana'' \<rparr>)
      [''st-2''] (Some ''br-2'') None (snd (start_login sample_auth_env 1000 sample_flow (Text ''/inbox'') None sample_auth)) of
     (Inr f, db2) \<Rightarrow> fl_token f = Some ''tok-2'' \<and> fl_target f = ''/inbox'' | (Inl _, _) \<Rightarrow> False"
proof -
  have r: "loginReturnTo sample_auth_env (Text ''/inbox'') = Inr ''/inbox''" by code_simp
  have s: "start_login sample_auth_env 1000 sample_flow (Text ''/inbox'') None sample_auth
      = (Inr ''br-2'', snd (start_login sample_auth_env 1000 sample_flow (Text ''/inbox'') None sample_auth))"
    using r by (simp add: start_login_def Let_def new_attempt_def sample_auth_env_def sample_flow_def sample_auth_def
        sample_attempt_row_def delete_where_def)
  have g: "google_identity_of (Some \<lparr> ic_sub = ''sub-1'', ic_email = Some ''ana@example.org'', ic_email_verified = True,
      ic_name = Some ''Ana'' \<rparr>) = Inr sample_google"
    by code_simp
  have o: "identity_account sample_auth (gc_subject sample_google) = Some sample_account" by code_simp
  from started_login_signs_in [OF s, of 2000 "\<lambda>_. Some \<lparr> ic_sub = ''sub-1'', ic_email = Some ''ana@example.org'',
      ic_email_verified = True, ic_name = Some ''Ana'' \<rparr>" sample_google sample_account "''tok-2''" None] g o r
  show ?thesis by (auto simp: sample_flow_def loginAttemptTtlMs_def split: prod.splits sum.splits)
qed

end
