(* ===== verification/Spec2Isabelle.thy ===== *)
theory Spec2Isabelle
  imports DisclosureLife OAuthRace OAuthGrants Withdrawal Captures Jobs Reconciliation SignIn
begin

text \<open>
  Funes Vault: a verification library for the core of its API (\<open>apps/api/src\<close>) and of the shared
  contract (\<open>packages/shared/src\<close>).

  The program.  An owner keeps memories in a vault.  Apps (clients) hold bearer tokens or OAuth
  grants; a policy per app says which operations it may ask for, up to which sensitivity, in which
  categories, and whether the owner confirms each disclosure.  An app asks for a bundle of memories
  for a task, or proposes a memory; the owner reviews disclosures and proposals.  Jobs embed memories
  and consolidate duplicates with the help of a comparison model the owner has chosen.  Every write
  leaves an audit event, and every change of a memory an entry of its history.

  How the model is laid out.  One theory per component, in the order the code calls them.
  \<^item> \<open>Prelude\<close>: errors as values, tables as lists of rows (\<open>find_row\<close>, \<open>update_where\<close>, \<open>delete_where\<close>,
    \<open>count_where\<close>), lists in first-seen order, and the interfaces (locales) of point updates and of
    conditional claims, which the components interpret on their own tables.
  \<^item> \<open>Domain\<close>, \<open>Common\<close>, \<open>AuditTrail\<close>, \<open>Vault\<close>, \<open>Samples\<close>: enumerations and the sensitivity order
    (\<open>enums.ts\<close>, \<open>domain.ts\<close>), trimming and pages (\<open>common/\<close>), the recorder of events and history
    (\<open>audit-trail/\<close>), the database as one record of tables, and the rows the witnesses use.
  \<^item> \<open>PolicyEval\<close>, \<open>Retrieval\<close>, \<open>Bundle\<close>, \<open>Requests\<close>: \<open>policy-evaluation.service.ts\<close>,
    \<open>retrieval.service.ts\<close> with \<open>embeddings.service.ts\<close>, \<open>bundle-compiler.service.ts\<close> and
    \<open>memory-requests.service.ts\<close>.  Lemmas: who is authorized, what a policy lets through, that bundles
    keep their token budget and are maximal in it, and that a bundle holds allowed memories only.
  \<^item> \<open>Disclosure\<close>, \<open>DisclosureSafety\<close>, \<open>DisclosureLife\<close>, \<open>Withdrawal\<close>: the review of a disclosure
    (\<open>disclosure-*.ts\<close>).  Lemmas: what a retrieval delivers is current and allowed at that moment; the
    handlers refine a small state machine in which a request is decided once and delivered at most
    once; edits and withdrawn permissions withhold an approved snapshot.
  \<^item> \<open>OAuthTokens\<close>, \<open>OAuthProvider\<close>, \<open>OAuthExchange\<close>, \<open>OAuthRace\<close>, \<open>OAuthGrants\<close>: \<open>oauth/\<close>.  Lemmas: rotation,
    narrowing of scopes, revocation on replay, a code minting at most once under any interleaving of
    the database calls of concurrent exchanges, and what a consent grants.
  \<^item> \<open>Clients\<close>, \<open>Policies\<close>: \<open>clients/\<close>, \<open>policies/\<close>, \<open>first-party-access/\<close>.  Lemmas: the unique
    constraints as invariants of every operation, the bearer guard, and lasting cut-off.
  \<^item> \<open>SecretScan\<close>, \<open>Memories\<close>, \<open>Suggestions\<close>, \<open>Captures\<close>, \<open>SuggestionReview\<close>: the scan for secrets, the owner's
    edits, proposals, quick capture and their review.  Lemmas: every change leaves its history, a
    proposal is written only with the authority for it, and is decided once.
  \<^item> \<open>Processing\<close>, \<open>Consolidation\<close>, \<open>Judgment\<close>, \<open>ConsolidationWriter\<close>, \<open>ConsolidationRun\<close>, \<open>ConsolidationJob\<close>,
    \<open>Jobs\<close>: the choice of a provider, the discovery of duplicates, the judgment of a model, the
    writes of a run, its job, and the job API with the embedding worker.  Lemmas: a model sees
    permitted memories only, what it decides is applied only to the versions it saw, no run archives
    a memory and its survivor, a run never rewrites content, and a job always settles.
  \<^item> Data control (\<open>apps/api/src/data-control\<close>): \<open>DataControl\<close>: export, preview and import.  Lemmas:
    an import only adds rows and grants nothing, a whole export comes back complete, and the one
    way in which the import of a valid file fails.
  \<^item> Memory extraction (\<open>apps/api/src/memory-processing\<close>): \<open>Candidates\<close>, \<open>ExtractionRun\<close>,
    \<open>Reconciliation\<close>: what a model's candidates must quote, how they become proposals, the run with its
    lease and attempts, and the receipts by which a run is reconciled after a crash.  Lemmas: a
    candidate quotes its source and is applied once, a settled run stays settled, a claim excludes the
    others while its lease lasts, and one unfit candidate discards the whole outcome of a model.
  \<^item> Sign-in (\<open>apps/api/src/auth\<close>): \<open>SignIn\<close>: login attempts, the owner of a Google subject, sessions and
    their guard, and the deletion of an account.  Lemmas: a callback is used once under any
    interleaving, no identity is linked by email, deletion needs a fresh verification and leaves no
    row, and a started login ends in a session.
  Modelling decisions.
  \<^item> A handler is a function of its input and the vault that returns a result or an error, and the
    vault it leaves.  A transaction is one step, with one instant for every \<open>new Date()\<close> in it; a
    handler of several transactions is several functions, composed as the code composes them, and the
    properties about interleavings put other steps between them.  Row locks are implied.
  \<^item> An instant is an integer of milliseconds, and its ISO text is the instant.  A string is a list of
    Latin-1 code units; the ellipsis of a shortened title is one unit and the arrow of two messages is
    written in ASCII.  Scores and confidences are exact rationals where the code has doubles.
  \<^item> Ids come from a supply in the vault; random tokens and the clock are arguments.
  \<^item> JSON is a datatype whose objects are association lists in insertion order.  A stored response is
    the row it shows, unless the mapper computes something.
  \<^item> Parameters stand for what is not in the sources: hashes, \<open>JSON.stringify\<close>, URL parsing, the text
    functions, collation and vector distance of the database, the embedding and comparison models,
    the queues.  A queue keeps a schedule under its id.  No property needs more of them than its
    statement says.
  \<^item> Loops are structural recursion or \<open>fold\<close>; the loops that are not (the retry of a provider call,
    decimal text, the regular expressions, the search for a free name) have termination proofs, so no
    fuel is used anywhere and every handler returns.

  Not modelled.
  \<^item> Reads without logic of their own: the search of memories (one SQL statement), the audit read
    side, the overview, health probes.
  \<^item> Chat, voice, and the MCP adapter: streaming sessions of third-party SDKs around the operations
    above.  The web application, controllers, DTOs, configuration, logging, seeds and scripts.
\<close>

end
